(* ===== verification/Go_Prelude.thy ===== *)
theory Go_Prelude
  imports Main "HOL-Library.AList" "HOL-Library.Multiset" "HOL-Library.Char_ord"
    "HOL-Library.List_Lexorder"
begin

text \<open>
  The Go vocabulary of the development: strings as byte lists with the operations of
  package \<open>strings\<close> and \<open>strconv\<close> that the program calls, maps as association lists
  (the order of the list is one iteration order of the Go map), instants as integers,
  \<open>sort.Slice\<close>, and the generic lemmas and collections the component theories share.

  A Go string is a sequence of bytes, and so is a HOL string.  An instant is the number of
  nanoseconds since the zero value of \<open>time.Time\<close>, so that \<open>IsZero\<close> is equality with 0;
  a duration is a number of nanoseconds.
\<close>

named_theorems go_string \<open>evaluation of the string operations on literals\<close>
named_theorems gomap \<open>lookup after update and deletion\<close>

type_synonym gotime = int
type_synonym duration = int
type_synonym ('k, 'v) gomap = "('k \<times> 'v) list"

definition second :: duration where "second = 1000000000"
definition minute :: duration where "minute = 60 * second"
definition hour :: duration where "hour = 60 * minute"
definition millisecond :: duration where "millisecond = 1000000"

definition isZero :: "gotime \<Rightarrow> bool" where
  "isZero t \<longleftrightarrow> t = 0"

subsection \<open>Maps\<close>

abbreviation gget :: "('k, 'v) gomap \<Rightarrow> 'k \<Rightarrow> 'v option" where
  "gget m k \<equiv> map_of m k"

abbreviation gput :: "'k \<Rightarrow> 'v \<Rightarrow> ('k, 'v) gomap \<Rightarrow> ('k, 'v) gomap" where
  "gput k v m \<equiv> AList.update k v m"

abbreviation gdel :: "'k \<Rightarrow> ('k, 'v) gomap \<Rightarrow> ('k, 'v) gomap" where
  "gdel k m \<equiv> AList.delete k m"

definition wf_gomap :: "('k, 'v) gomap \<Rightarrow> bool" where
  "wf_gomap m \<longleftrightarrow> distinct (map fst m)"

text \<open>Reading \<open>m[k]\<close> from a Go \<open>map[string]string\<close>: the zero value when the key is absent.\<close>

definition gval :: "('k, string) gomap \<Rightarrow> 'k \<Rightarrow> string" where
  "gval m k = (case gget m k of None \<Rightarrow> '''' | Some v \<Rightarrow> v)"

text \<open>Rewriting the entry of every key: \<open>for k, v := range m { m[k] = f(k, v) }\<close>.\<close>

definition gmap_vals :: "('k \<Rightarrow> 'v \<Rightarrow> 'v) \<Rightarrow> ('k, 'v) gomap \<Rightarrow> ('k, 'v) gomap" where
  "gmap_vals f m = map (\<lambda>(k, v). (k, f k v)) m"

lemma gget_gput [gomap, simp]: "gget (gput k v m) k' = (if k = k' then Some v else gget m k')"
  by (simp add: update_conv)

lemma gget_gdel [gomap, simp]: "gget (gdel k m) k' = (if k = k' then None else gget m k')"
  by (simp add: delete_conv)

lemma gget_gmap_vals [gomap, simp]: "gget (gmap_vals f m) k = map_option (f k) (gget m k)"
  by (induction m) (auto simp: gmap_vals_def)

lemma keys_gmap_vals [simp]: "map fst (gmap_vals f m) = map fst m"
  by (induction m) (auto simp: gmap_vals_def)

lemma wf_gput [intro, simp]: "wf_gomap m \<Longrightarrow> wf_gomap (gput k v m)"
  by (simp add: wf_gomap_def distinct_update)

lemma wf_gdel [intro, simp]: "wf_gomap m \<Longrightarrow> wf_gomap (gdel k m)"
  by (simp add: wf_gomap_def distinct_delete)

lemma wf_gmap_vals [simp]: "wf_gomap (gmap_vals f m) = wf_gomap m"
  by (simp add: wf_gomap_def)

lemma wf_empty [simp]: "wf_gomap []"
  by (simp add: wf_gomap_def)

lemma gget_in_set: "wf_gomap m \<Longrightarrow> gget m k = Some v \<longleftrightarrow> (k, v) \<in> set m"
  by (simp add: wf_gomap_def)

lemma set_gput_subset: "set (gput k v m) \<subseteq> insert (k, v) (set m)"
  by (induction m) auto

lemma set_gdel_subset: "set (gdel k m) \<subseteq> set m"
  by (auto simp: AList.delete_eq)

subsection \<open>Package strings\<close>

definition hasPrefix :: "string \<Rightarrow> string \<Rightarrow> bool" where
  "hasPrefix s p \<longleftrightarrow> take (length p) s = p"

definition hasSuffix :: "string \<Rightarrow> string \<Rightarrow> bool" where
  "hasSuffix s p \<longleftrightarrow> hasPrefix (rev s) (rev p)"

definition trimPrefix :: "string \<Rightarrow> string \<Rightarrow> string" where
  "trimPrefix s p = (if hasPrefix s p then drop (length p) s else s)"

definition trimSuffix :: "string \<Rightarrow> string \<Rightarrow> string" where
  "trimSuffix s p = (if hasSuffix s p then take (length s - length p) s else s)"

fun strContains :: "string \<Rightarrow> string \<Rightarrow> bool" where
  "strContains [] sub = (sub = [])"
| "strContains (c # s) sub = (hasPrefix (c # s) sub \<or> strContains s sub)"

lemma hasPrefix_iff: "hasPrefix s p \<longleftrightarrow> (\<exists>t. s = p @ t)"
  by (metis append_eq_conv_conj hasPrefix_def)

lemma strContains_iff: "strContains s sub \<longleftrightarrow> (\<exists>a b. s = a @ sub @ b)"
proof (induction s)
  case Nil
  then show ?case by simp
next
  case (Cons c s)
  have "(\<exists>a b. c # s = a @ sub @ b) \<longleftrightarrow> (\<exists>t. c # s = sub @ t) \<or> (\<exists>a b. s = a @ sub @ b)"
    by (metis append_Cons append_Nil list.inject list.exhaust)
  with Cons show ?case by (simp add: hasPrefix_iff)
qed

definition asciiLower :: "char \<Rightarrow> char" where
  "asciiLower c = (if CHR ''A'' \<le> c \<and> c \<le> CHR ''Z'' then char_of (of_char c + (32 :: int)) else c)"

text \<open>
  \<open>strings.ToLower\<close>: exact on ASCII text.  Of the other runes only U+212A (KELVIN SIGN) and
  U+0130 have an ASCII lower case; they are mapped as Go maps them, and the remaining
  non-ASCII bytes are kept, so that the result contains an ASCII word exactly when Go's does.
\<close>

fun toLower :: "string \<Rightarrow> string" where
  "toLower [] = []"
| "toLower (c # s) =
     (if c = CHR 0xE2 \<and> take 2 s = [CHR 0x84, CHR 0xAA] then CHR ''k'' # toLower (drop 2 s)
      else if c = CHR 0xC4 \<and> take 1 s = [CHR 0xB0] then CHR ''i'' # toLower (drop 1 s)
      else asciiLower c # toLower s)"

text \<open>Case folding against ASCII names: U+017F folds with s and U+212A with k.\<close>

fun foldName :: "string \<Rightarrow> string" where
  "foldName [] = []"
| "foldName (c # s) =
     (if c = CHR 0xE2 \<and> take 2 s = [CHR 0x84, CHR 0xAA] then CHR ''k'' # foldName (drop 2 s)
      else if c = CHR 0xC5 \<and> take 1 s = [CHR 0xBF] then CHR ''s'' # foldName (drop 1 s)
      else asciiLower c # foldName s)"

definition equalFold :: "string \<Rightarrow> string \<Rightarrow> bool" where
  "equalFold a b \<longleftrightarrow> foldName a = foldName b"

lemma equalFold_refl [simp]: "equalFold h h"
  by (simp add: equalFold_def)

text \<open>The UTF-8 encodings of the runes that \<open>unicode.IsSpace\<close> accepts.\<close>

definition spaceEncodings :: "string list" where
  "spaceEncodings =
     [[CHR 0x09], [CHR 0x0A], [CHR 0x0B], [CHR 0x0C], [CHR 0x0D], [CHR 0x20],
      [CHR 0xC2, CHR 0x85], [CHR 0xC2, CHR 0xA0], [CHR 0xE1, CHR 0x9A, CHR 0x80],
      [CHR 0xE2, CHR 0x80, CHR 0x80], [CHR 0xE2, CHR 0x80, CHR 0x81],
      [CHR 0xE2, CHR 0x80, CHR 0x82], [CHR 0xE2, CHR 0x80, CHR 0x83],
      [CHR 0xE2, CHR 0x80, CHR 0x84], [CHR 0xE2, CHR 0x80, CHR 0x85],
      [CHR 0xE2, CHR 0x80, CHR 0x86], [CHR 0xE2, CHR 0x80, CHR 0x87],
      [CHR 0xE2, CHR 0x80, CHR 0x88], [CHR 0xE2, CHR 0x80, CHR 0x89],
      [CHR 0xE2, CHR 0x80, CHR 0x8A], [CHR 0xE2, CHR 0x80, CHR 0xA8],
      [CHR 0xE2, CHR 0x80, CHR 0xA9], [CHR 0xE2, CHR 0x80, CHR 0xAF],
      [CHR 0xE2, CHR 0x81, CHR 0x9F], [CHR 0xE3, CHR 0x80, CHR 0x80]]"

function stripLeft :: "string list \<Rightarrow> string \<Rightarrow> string" where
  "stripLeft encs s =
     (case find (\<lambda>e. e \<noteq> [] \<and> hasPrefix s e) encs of
        None \<Rightarrow> s
      | Some e \<Rightarrow> stripLeft encs (drop (length e) s))"
  by pat_completeness auto
termination
proof (relation "measure (\<lambda>(encs, s). length s)", goal_cases)
  case (2 encs s e)
  then have "e \<noteq> []" and "take (length e) s = e"
    by (auto simp: find_Some_iff hasPrefix_def)
  then have "s \<noteq> []" by auto
  with \<open>e \<noteq> []\<close> show ?case by simp
qed simp

declare stripLeft.simps [simp del]

definition stripRight :: "string list \<Rightarrow> string \<Rightarrow> string" where
  "stripRight encs s = rev (stripLeft (map rev encs) (rev s))"

definition trimSpace :: "string \<Rightarrow> string" where
  "trimSpace s = stripRight spaceEncodings (stripLeft spaceEncodings s)"

abbreviation blank :: "string \<Rightarrow> bool" where
  "blank s \<equiv> trimSpace s = ''''"

text \<open>The first element of \<open>strings.Fields\<close>, when there is one.\<close>

fun untilSpace :: "string \<Rightarrow> string" where
  "untilSpace [] = []"
| "untilSpace (c # cs) = (if list_ex (hasPrefix (c # cs)) spaceEncodings then [] else c # untilSpace cs)"

definition firstField :: "string \<Rightarrow> string option" where
  "firstField s = (let t = stripLeft spaceEncodings s in if t = [] then None else Some (untilSpace t))"

definition trimChar :: "char \<Rightarrow> string \<Rightarrow> string" where
  "trimChar c s = rev (dropWhile (\<lambda>x. x = c) (rev (dropWhile (\<lambda>x. x = c) s)))"

fun splitOn :: "char \<Rightarrow> string \<Rightarrow> string list" where
  "splitOn c [] = [[]]"
| "splitOn c (x # xs) =
     (if x = c then [] # splitOn c xs
      else (case splitOn c xs of [] \<Rightarrow> [[x]] | p # ps \<Rightarrow> (x # p) # ps))"

fun joinWith :: "string \<Rightarrow> string list \<Rightarrow> string" where
  "joinWith sep [] = ''''"
| "joinWith sep [x] = x"
| "joinWith sep (x # xs) = x @ sep @ joinWith sep xs"

lemma blank_Nil [simp]: "trimSpace [] = []"
  by (simp add: trimSpace_def stripRight_def stripLeft.simps find_None_iff hasPrefix_def
      spaceEncodings_def)

lemma stripLeft_first:
  assumes "c \<notin> {CHR 0x09, CHR 0x0A, CHR 0x0B, CHR 0x0C, CHR 0x0D, CHR 0x20,
      CHR 0xC2, CHR 0xE1, CHR 0xE2, CHR 0xE3}"
  shows "stripLeft spaceEncodings (c # s) = c # s"
  using assms by (subst stripLeft.simps) (simp add: spaceEncodings_def hasPrefix_def)

lemma splitOn_nonempty [simp]: "splitOn c s \<noteq> []"
  by (induction s) (auto split: list.splits)

lemma joinWith_splitOn: "joinWith [c] (splitOn c s) = s"
proof (induction s)
  case Nil
  then show ?case by simp
next
  case (Cons x xs)
  then show ?case
    by (cases "splitOn c xs" rule: list.exhaust; cases "tl (splitOn c xs)")
      (auto split: list.splits)
qed

subsection \<open>Package strconv and hex\<close>

definition digitChar :: "int \<Rightarrow> char" where
  "digitChar n = char_of (48 + n)"

function intDigits :: "int \<Rightarrow> string" where
  "intDigits n = (if n < 10 then [digitChar n] else intDigits (n div 10) @ [digitChar (n mod 10)])"
  by pat_completeness auto
termination
  by (relation "measure nat") auto

declare intDigits.simps [simp del]

definition itoa :: "int \<Rightarrow> string" where
  "itoa i = (if i < 0 then CHR ''-'' # intDigits (- i) else intDigits i)"

text \<open>The verb \<open>%0<w>d\<close> on a non-negative integer.\<close>

definition padZero :: "nat \<Rightarrow> int \<Rightarrow> string" where
  "padZero w n = replicate (w - length (intDigits n)) CHR ''0'' @ intDigits n"

text \<open>
  A time read as Unix seconds and in the layout \<open>time.RFC3339\<close>, in UTC; the civil date is found
  from the day count in 400-year eras that start on 1 March.
\<close>

definition unixSeconds :: "gotime \<Rightarrow> int" where
  "unixSeconds t = t div second - 62135596800"

definition civilDate :: "int \<Rightarrow> int \<times> int \<times> int" where
  "civilDate days =
     (let z = days + 306; era = z div 146097; doe = z mod 146097;
          yoe = (doe - doe div 1460 + doe div 36524 - doe div 146096) div 365;
          doy = doe - (365 * yoe + yoe div 4 - yoe div 100);
          mp = (5 * doy + 2) div 153;
          month = (if mp < 10 then mp + 3 else mp - 9)
      in (yoe + 400 * era + (if month \<le> 2 then 1 else 0), month, doy - (153 * mp + 2) div 5 + 1))"

definition rfc3339 :: "gotime \<Rightarrow> string" where
  "rfc3339 t =
     (let secs = t div second; (year, month, day) = civilDate (secs div 86400); r = secs mod 86400
      in padZero 4 year @ ''-'' @ padZero 2 month @ ''-'' @ padZero 2 day @ ''T'' @
         padZero 2 (r div 3600) @ '':'' @ padZero 2 (r mod 3600 div 60) @ '':'' @ padZero 2 (r mod 60) @ ''Z'')"

definition isDigit :: "char \<Rightarrow> bool" where
  "isDigit c \<longleftrightarrow> CHR ''0'' \<le> c \<and> c \<le> CHR ''9''"

definition digitsVal :: "string \<Rightarrow> int" where
  "digitsVal s = foldl (\<lambda>a c. 10 * a + (of_char c - 48)) 0 s"

text \<open>\<open>strconv.ParseInt(s, 10, bits)\<close>; \<open>strconv.Atoi\<close> is \<open>bits = 64\<close>.\<close>

definition parseInt :: "nat \<Rightarrow> string \<Rightarrow> int option" where
  "parseInt bits s =
     (let neg = (take 1 s = ''-'');
          d = (if take 1 s = ''-'' \<or> take 1 s = ''+'' then drop 1 s else s);
          v = (if neg then - digitsVal d else digitsVal d)
      in if d \<noteq> [] \<and> list_all isDigit d \<and> - (2 ^ (bits - 1)) \<le> v \<and> v < 2 ^ (bits - 1)
         then Some v else None)"

definition hexDigit :: "int \<Rightarrow> char" where
  "hexDigit n = (if n < 10 then char_of (48 + n) else char_of (87 + n))"

definition hexEncode :: "string \<Rightarrow> string" where
  "hexEncode bs = concat (map (\<lambda>b. [hexDigit (of_char b div 16), hexDigit (of_char b mod 16)]) bs)"

definition isHex :: "char \<Rightarrow> bool" where
  "isHex c \<longleftrightarrow> isDigit c \<or> (CHR ''a'' \<le> c \<and> c \<le> CHR ''f'') \<or> (CHR ''A'' \<le> c \<and> c \<le> CHR ''F'')"

definition hexVal :: "char \<Rightarrow> int" where
  "hexVal c = (if isDigit c then of_char c - 48
               else if CHR ''a'' \<le> c then of_char c - 87 else of_char c - 55)"

fun hexDecode :: "string \<Rightarrow> string option" where
  "hexDecode [] = Some []"
| "hexDecode [c] = None"
| "hexDecode (a # b # s) =
     (if isHex a \<and> isHex b
      then map_option (\<lambda>r. char_of (16 * hexVal a + hexVal b) # r) (hexDecode s) else None)"

lemma length_hexEncode [simp]: "length (hexEncode bs) = 2 * length bs"
  by (induction bs) (auto simp: hexEncode_def)

lemma hexDecode_Some: "hexDecode s = Some bs \<Longrightarrow> length s = 2 * length bs \<and> list_all isHex s"
  by (induction s arbitrary: bs rule: hexDecode.induct) (auto split: if_splits)

lemma isHex_hexDigit: "0 \<le> n \<Longrightarrow> n < 16 \<Longrightarrow> isHex (hexDigit n)"
proof -
  assume "0 \<le> n" "n < 16"
  then have "n \<in> {0, 1, 2, 3, 4, 5, 6, 7, 8, 9, 10, 11, 12, 13, 14, 15}"
    by (simp, presburger)
  then show ?thesis
    by (elim insertE emptyE; simp add: hexDigit_def char_of_def isHex_def isDigit_def)
qed

lemma of_char_bounds: "0 \<le> (of_char c :: int)" "(of_char c :: int) < 256"
  using of_char_mod_256 [of c, where ?'a = int] by (metis pos_mod_sign pos_mod_bound zero_less_numeral)+

lemma isHex_hexEncode: "list_all isHex (hexEncode bs)"
proof (induction bs)
  case (Cons b bs)
  have "0 \<le> (of_char b :: int) div 16" "(of_char b :: int) div 16 < 16"
    using of_char_bounds [of b] by auto
  with Cons show ?case by (simp add: hexEncode_def isHex_hexDigit)
qed (simp add: hexEncode_def)

lemma hexDecode_valid: "list_all isHex s \<Longrightarrow> length s = 2 * n \<Longrightarrow> \<exists>bs. hexDecode s = Some bs \<and> length bs = n"
proof (induction s arbitrary: n rule: hexDecode.induct)
  case (3 a b s)
  then obtain k where "n = Suc k" by (cases n) auto
  with 3 show ?case by fastforce
qed auto

subsection \<open>sort.Slice\<close>

text \<open>
  \<open>sort.Slice\<close> promises a permutation in which no later element is less than an earlier
  one, and nothing about the order of equivalent elements; insertion sort is one such
  permutation.
\<close>

fun insertBy :: "('a \<Rightarrow> 'a \<Rightarrow> bool) \<Rightarrow> 'a \<Rightarrow> 'a list \<Rightarrow> 'a list" where
  "insertBy lt x [] = [x]"
| "insertBy lt x (y # ys) = (if lt x y then x # y # ys else y # insertBy lt x ys)"

definition sortSlice :: "('a \<Rightarrow> 'a \<Rightarrow> bool) \<Rightarrow> 'a list \<Rightarrow> 'a list" where
  "sortSlice lt xs = fold (insertBy lt) xs []"

lemma mset_insertBy: "mset (insertBy lt x xs) = add_mset x (mset xs)"
  by (induction xs) auto

lemma mset_fold_insertBy: "mset (fold (insertBy lt) xs acc) = mset xs + mset acc"
  by (induction xs arbitrary: acc) (auto simp: mset_insertBy)

lemma mset_sortSlice [simp]: "mset (sortSlice lt xs) = mset xs"
  by (simp add: sortSlice_def mset_fold_insertBy)

lemma set_sortSlice [simp]: "set (sortSlice lt xs) = set xs"
  using mset_sortSlice [of lt xs] by (metis set_mset_mset)

lemma length_sortSlice [simp]: "length (sortSlice lt xs) = length xs"
  using mset_sortSlice [of lt xs] by (metis size_mset)

text \<open>
  The contract of a comparison function handed to \<open>sort.Slice\<close>: a strict weak order.  The
  clients prove it for the comparisons of the source and obtain sortedness.
\<close>

locale slice_order =
  fixes lt :: "'a \<Rightarrow> 'a \<Rightarrow> bool"
  assumes asym: "lt x y \<Longrightarrow> \<not> lt y x"
    and negtrans: "\<not> lt x y \<Longrightarrow> \<not> lt y z \<Longrightarrow> \<not> lt x z"
begin

abbreviation ordered :: "'a list \<Rightarrow> bool" where
  "ordered xs \<equiv> sorted_wrt (\<lambda>x y. \<not> lt y x) xs"

lemma ordered_insertBy: "ordered xs \<Longrightarrow> ordered (insertBy lt x xs)"
proof (induction xs)
  case Nil
  then show ?case by simp
next
  case (Cons y ys)
  have set: "set (insertBy lt x ys) = insert x (set ys)"
    using mset_insertBy [of lt x ys] by (metis set_mset_add_mset_insert set_mset_mset)
  have later: "\<not> lt z x" if "lt x y" "z \<in> set ys" for z
    using Cons.prems that by (auto dest: asym negtrans)
  show ?case
    using Cons set later by (auto dest: asym)
qed

lemma ordered_fold: "ordered acc \<Longrightarrow> ordered (fold (insertBy lt) xs acc)"
  by (induction xs arbitrary: acc) (auto intro: ordered_insertBy)

lemma ordered_sortSlice: "ordered (sortSlice lt xs)"
  by (simp add: sortSlice_def ordered_fold)

end

text \<open>Comparisons by one key, ascending and descending, are strict weak orders.\<close>

interpretation by_key: slice_order "\<lambda>x y. (k :: 'a \<Rightarrow> 'b :: linorder) x < k y" for k
  by unfold_locales auto

interpretation by_key_desc: slice_order "\<lambda>x y. (k :: 'a \<Rightarrow> 'b :: linorder) x > k y" for k
  by unfold_locales auto

subsection \<open>Results and lists\<close>

text \<open>A fallible Go function returns \<open>error + 'a\<close>; a loop with an early error return.\<close>

fun forEachErr :: "('a \<Rightarrow> 'e option) \<Rightarrow> 'a list \<Rightarrow> 'e option" where
  "forEachErr f [] = None"
| "forEachErr f (x # xs) = (case f x of Some e \<Rightarrow> Some e | None \<Rightarrow> forEachErr f xs)"

lemma forEachErr_None: "forEachErr f xs = None \<longleftrightarrow> (\<forall>x\<in>set xs. f x = None)"
  by (induction xs) (auto split: option.splits)

lemma find_SomeD: "find P xs = Some x \<Longrightarrow> x \<in> set xs \<and> P x"
  by (auto simp: find_Some_iff)

lemma find_NoneD: "find P xs = None \<Longrightarrow> x \<in> set xs \<Longrightarrow> \<not> P x"
  by (auto simp: find_None_iff)

text \<open>The de-duplication idiom \<open>if !seen[x] { seen[x] = true; out = append(out, x) }\<close>.\<close>

fun dedupeBy :: "('a \<Rightarrow> 'k) \<Rightarrow> 'k list \<Rightarrow> 'a list \<Rightarrow> 'a list" where
  "dedupeBy key seen [] = []"
| "dedupeBy key seen (x # xs) =
     (if key x \<in> set seen then dedupeBy key seen xs
      else x # dedupeBy key (key x # seen) xs)"

lemma dedupeBy_keys:
  "distinct (map key (dedupeBy key seen xs)) \<and> key ` set (dedupeBy key seen xs) = key ` set xs - set seen"
  by (induction xs arbitrary: seen) auto

lemma dedupeBy_subset: "set (dedupeBy key seen xs) \<subseteq> set xs"
  by (induction xs arbitrary: seen) auto

lemma dedupeBy_Nil_iff [simp]: "dedupeBy key [] xs = [] \<longleftrightarrow> xs = []"
  by (cases xs) auto

end
