(* ===== verification/Sha256.thy ===== *)
theory Sha256
  imports Go_Prelude "HOL-Library.Word"
begin

unbundle bit_operations_syntax

text \<open>
  \<open>crypto/sha256.Sum256\<close> on byte strings, with the 32-bit words of the algorithm kept at
  their width: addition wraps around as Go's \<open>uint32\<close> does.  The program uses the digest
  for plan identifiers, correlation groups, snapshot keys, evidence fingerprints and for the
  binding of a managed-resource proposal to its rollback spec.
\<close>

type_synonym u32 = "32 word"

definition rotr :: "nat \<Rightarrow> u32 \<Rightarrow> u32" where
  "rotr n x = (drop_bit n x) OR (push_bit (32 - n) x)"

text \<open>
  The constants as the standard defines them: the first 32 bits of the fractional parts of the
  square roots of the first 8 primes (initial state) and of the cube roots of the first 64
  primes (round constants). The integer root is found bit by bit.
\<close>

primrec rootBits :: "nat \<Rightarrow> int \<Rightarrow> nat \<Rightarrow> int \<Rightarrow> int" where
  "rootBits k n 0 r = r"
| "rootBits k n (Suc b) r = rootBits k n b (if (r + 2 ^ b) ^ k \<le> n then r + 2 ^ b else r)"

definition fractionBits :: "nat \<Rightarrow> int \<Rightarrow> u32" where
  "fractionBits k p = of_int (rootBits k (p * 2 ^ (32 * k)) 37 0)"

definition sha_primes :: "int list" where
  "sha_primes =
     [2, 3, 5, 7, 11, 13, 17, 19, 23, 29, 31, 37, 41, 43, 47, 53, 59, 61, 67, 71, 73, 79, 83, 89,
      97, 101, 103, 107, 109, 113, 127, 131, 137, 139, 149, 151, 157, 163, 167, 173, 179, 181,
      191, 193, 197, 199, 211, 223, 227, 229, 233, 239, 241, 251, 257, 263, 269, 271, 277, 281,
      283, 293, 307, 311]"

definition sha_k :: "u32 list" where "sha_k = map (fractionBits 3) sha_primes"

definition sha_h0 :: "u32 list" where "sha_h0 = map (fractionBits 2) (take 8 sha_primes)"

definition sha_ch :: "u32 \<Rightarrow> u32 \<Rightarrow> u32 \<Rightarrow> u32" where
  "sha_ch x y z = (x AND y) XOR ((NOT x) AND z)"

definition sha_maj :: "u32 \<Rightarrow> u32 \<Rightarrow> u32 \<Rightarrow> u32" where
  "sha_maj x y z = (x AND y) XOR (x AND z) XOR (y AND z)"

definition sha_S0 :: "u32 \<Rightarrow> u32" where
  "sha_S0 x = rotr 2 x XOR rotr 13 x XOR rotr 22 x"

definition sha_S1 :: "u32 \<Rightarrow> u32" where
  "sha_S1 x = rotr 6 x XOR rotr 11 x XOR rotr 25 x"

definition sha_s0 :: "u32 \<Rightarrow> u32" where
  "sha_s0 x = rotr 7 x XOR rotr 18 x XOR drop_bit 3 x"

definition sha_s1 :: "u32 \<Rightarrow> u32" where
  "sha_s1 x = rotr 17 x XOR rotr 19 x XOR drop_bit 10 x"

definition byteWord :: "char \<Rightarrow> u32" where
  "byteWord c = word_of_int (of_char c)"

fun bytesToWords :: "string \<Rightarrow> u32 list" where
  "bytesToWords (a # b # c # d # s) =
     (push_bit 24 (byteWord a) + push_bit 16 (byteWord b) + push_bit 8 (byteWord c) + byteWord d)
     # bytesToWords s"
| "bytesToWords _ = []"

definition wordBytes :: "u32 \<Rightarrow> string" where
  "wordBytes w = map (\<lambda>k. char_of (uint (drop_bit k w))) [24, 16, 8, 0]"

text \<open>The message schedule is built newest word first.\<close>

fun sha_extend :: "nat \<Rightarrow> u32 list \<Rightarrow> u32 list" where
  "sha_extend 0 ws = ws"
| "sha_extend (Suc n) ws =
     sha_extend n ((sha_s1 (ws ! 1) + ws ! 6 + sha_s0 (ws ! 14) + ws ! 15) # ws)"

definition sha_schedule :: "u32 list \<Rightarrow> u32 list" where
  "sha_schedule block = rev (sha_extend 48 (rev block))"

fun sha_round :: "u32 \<times> u32 \<Rightarrow> u32 list \<Rightarrow> u32 list" where
  "sha_round (k, w) [a, b, c, d, e, f, g, h] =
     (let t1 = h + sha_S1 e + sha_ch e f g + k + w;
          t2 = sha_S0 a + sha_maj a b c
      in [t1 + t2, a, b, c, d + t1, e, f, g])"
| "sha_round _ st = st"

definition sha_block :: "u32 list \<Rightarrow> u32 list \<Rightarrow> u32 list" where
  "sha_block block st = map2 (+) st (fold sha_round (zip sha_k (sha_schedule block)) st)"

fun sha_blocks :: "nat \<Rightarrow> u32 list \<Rightarrow> u32 list \<Rightarrow> u32 list" where
  "sha_blocks 0 ws st = st"
| "sha_blocks (Suc n) ws st = sha_blocks n (drop 16 ws) (sha_block (take 16 ws) st)"

definition sha_pad :: "string \<Rightarrow> string" where
  "sha_pad m =
     (let n = length m; z = (119 - n mod 64) mod 64
      in m @ CHR 0x80 # replicate z CHR 0x00 @
         map (\<lambda>i. char_of ((8 * int n) div 256 ^ i)) [7, 6, 5, 4, 3, 2, 1, 0])"

definition sha256 :: "string \<Rightarrow> string" where
  "sha256 m =
     (let p = sha_pad m
      in concat (map wordBytes (sha_blocks (length p div 64) (bytesToWords p) sha_h0)))"

definition sha256Hex :: "string \<Rightarrow> string" where
  "sha256Hex m = hexEncode (sha256 m)"

text \<open>The bitwise root is the floor of the real one.\<close>

lemma rootBits_floor:
  assumes "r ^ k \<le> n" "n < (r + 2 ^ b) ^ k"
  shows "rootBits k n b r ^ k \<le> n \<and> n < (rootBits k n b r + 1) ^ k"
  using assms
proof (induction b arbitrary: r)
  case (Suc b)
  have "n < (r + 2 ^ b + 2 ^ b) ^ k" using Suc.prems by (simp add: add.assoc)
  then show ?case
    using Suc.IH [of "r + 2 ^ b"] Suc.IH [of r] Suc.prems by (simp add: not_le)
qed simp

lemma length_sha_round [simp]: "length (sha_round kw st) = length st"
  by (induction kw st rule: sha_round.induct) (auto simp: Let_def)

lemma length_sha_rounds [simp]: "length (fold sha_round kws st) = length st"
  by (induction kws arbitrary: st) auto

lemma length_sha_block [simp]: "length (sha_block b st) = length st"
  by (simp add: sha_block_def)

lemma length_sha_blocks [simp]: "length (sha_blocks n ws st) = length st"
  by (induction n arbitrary: ws st) auto

lemma length_wordBytes [simp]: "length (wordBytes w) = 4"
  by (simp add: wordBytes_def)

lemma length_concat_wordBytes: "length (concat (map wordBytes ws)) = 4 * length ws"
  by (induction ws) auto

text \<open>A digest has 32 bytes, its hexadecimal form 64 characters.\<close>

lemma length_sha256 [simp]: "length (sha256 m) = 32"
  by (simp add: sha256_def Let_def length_concat_wordBytes sha_h0_def sha_primes_def)

lemma length_sha256Hex [simp]: "length (sha256Hex m) = 64"
  by (simp add: sha256Hex_def)

end
