(* ===== verification/Json.thy ===== *)
theory Json
  imports Go_Prelude
begin

text \<open>
  The part of \<open>encoding/json\<close> that the program relies on: the scanner and decoder for one
  value (strict about trailing input), the matching of object keys against struct fields,
  and the encoder for values decoded into \<open>any\<close>, whose numbers are IEEE binary64.

  Decoding uses fuel, one unit for a call; \<open>jsonFuel\<close> is enough for every input
  (\<open>parse_fuel_enough\<close>), so that \<open>None\<close> always means a syntax error.
\<close>

datatype json =
    JNull
  | JBool bool
  | JNum string
  | JStr string
  | JArr "json list"
  | JObj "(string \<times> json) list"

definition isJsonSpace :: "char \<Rightarrow> bool" where
  "isJsonSpace c \<longleftrightarrow> c = CHR 0x20 \<or> c = CHR 0x09 \<or> c = CHR 0x0A \<or> c = CHR 0x0D"

definition skipSpace :: "string \<Rightarrow> string" where
  "skipSpace s = dropWhile isJsonSpace s"

lemma length_skipSpace: "length (skipSpace s) \<le> length s"
  by (simp add: skipSpace_def length_dropWhile_le)

subsection \<open>Strings\<close>

definition utf8Enc :: "int \<Rightarrow> string" where
  "utf8Enc v =
     (if v < 0x80 then [char_of v]
      else if v < 0x800 then [char_of (0xC0 + v div 64), char_of (0x80 + v mod 64)]
      else if v < 0x10000 then
        [char_of (0xE0 + v div 4096), char_of (0x80 + v div 64 mod 64), char_of (0x80 + v mod 64)]
      else
        [char_of (0xF0 + v div 262144), char_of (0x80 + v div 4096 mod 64),
         char_of (0x80 + v div 64 mod 64), char_of (0x80 + v mod 64)])"

abbreviation runeError :: string where
  "runeError \<equiv> [CHR 0xEF, CHR 0xBF, CHR 0xBD]"

definition between :: "char \<Rightarrow> char \<Rightarrow> char \<Rightarrow> bool" where
  "between lo hi c \<longleftrightarrow> lo \<le> c \<and> c \<le> hi"

abbreviation cont :: "char \<Rightarrow> bool" where
  "cont \<equiv> between CHR 0x80 CHR 0xBF"

text \<open>The length of the valid rune at the head of a string, 0 for an invalid one.\<close>

fun utf8Len :: "string \<Rightarrow> nat" where
  "utf8Len [] = 0"
| "utf8Len (c # s) =
     (if c < CHR 0x80 then 1
      else case s of
        [] \<Rightarrow> 0
      | b # s' \<Rightarrow>
          if between CHR 0xC2 CHR 0xDF c then (if cont b then 2 else 0)
          else (case s' of
            [] \<Rightarrow> 0
          | d # s'' \<Rightarrow>
              if between CHR 0xE0 CHR 0xEF c then
                (if between (if c = CHR 0xE0 then CHR 0xA0 else CHR 0x80)
                      (if c = CHR 0xED then CHR 0x9F else CHR 0xBF) b \<and> cont d then 3 else 0)
              else if between CHR 0xF0 CHR 0xF4 c then
                (if between (if c = CHR 0xF0 then CHR 0x90 else CHR 0x80)
                      (if c = CHR 0xF4 then CHR 0x8F else CHR 0xBF) b \<and> cont d \<and> s'' \<noteq> [] \<and> cont (hd s'')
                 then 4 else 0)
              else 0))"

definition hex4 :: "string \<Rightarrow> int option" where
  "hex4 s = (if length s \<ge> 4 \<and> list_all isHex (take 4 s)
             then Some (foldl (\<lambda>a c. 16 * a + hexVal c) 0 (take 4 s)) else None)"

definition simpleEscape :: "char \<Rightarrow> char option" where
  "simpleEscape e =
     map_of [(CHR 0x22, CHR 0x22), (CHR 0x5C, CHR 0x5C), (CHR ''/'', CHR ''/''),
             (CHR ''b'', CHR 0x08), (CHR ''f'', CHR 0x0C), (CHR ''n'', CHR 0x0A),
             (CHR ''r'', CHR 0x0D), (CHR ''t'', CHR 0x09)] e"

text \<open>One step of a string literal: its end, or the bytes it contributes and the rest.\<close>

datatype litStep = StrEnd string | StrEmit string string | StrBad

definition unicodeEscape :: "int \<Rightarrow> string \<Rightarrow> litStep" where
  "unicodeEscape v r =
     (if 0xD800 \<le> v \<and> v < 0xE000 then
        (case (if take 2 r = [CHR 0x5C, CHR ''u''] then hex4 (drop 2 r) else None) of
           None \<Rightarrow> StrEmit runeError r
         | Some w \<Rightarrow>
             if v < 0xDC00 \<and> 0xDC00 \<le> w \<and> w < 0xE000
             then StrEmit (utf8Enc ((v - 0xD800) * 1024 + (w - 0xDC00) + 0x10000)) (drop 6 r)
             else StrEmit runeError r)
      else StrEmit (utf8Enc v) r)"

fun strStep :: "string \<Rightarrow> litStep" where
  "strStep [] = StrBad"
| "strStep (c # s) =
     (if c = CHR 0x22 then StrEnd s
      else if c = CHR 0x5C then
        (case s of
           [] \<Rightarrow> StrBad
         | e # r \<Rightarrow>
             if e = CHR ''u'' then
               (case hex4 r of None \<Rightarrow> StrBad | Some v \<Rightarrow> unicodeEscape v (drop 4 r))
             else (case simpleEscape e of None \<Rightarrow> StrBad | Some ch \<Rightarrow> StrEmit [ch] r))
      else if c < CHR 0x20 then StrBad
      else if utf8Len (c # s) = 0 then StrEmit runeError s
      else StrEmit (take (utf8Len (c # s)) (c # s)) (drop (utf8Len (c # s)) (c # s)))"

declare utf8Len.simps [simp del]

lemma unicodeEscape_le: "unicodeEscape v r = StrEmit x t \<Longrightarrow> length t \<le> length r"
  by (auto simp: unicodeEscape_def split: if_splits option.splits)

lemma unicodeEscape_not_end [simp]: "unicodeEscape v r \<noteq> StrEnd t"
  by (auto simp: unicodeEscape_def split: option.splits)

lemma strStep_emit_shorter: "strStep s = StrEmit x r \<Longrightarrow> length r < length s"
  by (cases s) (auto dest!: unicodeEscape_le split: if_splits list.splits option.splits)

lemma strStep_end_shorter: "strStep s = StrEnd r \<Longrightarrow> length r < length s"
  by (cases s) (auto split: if_splits list.splits option.splits)

function parseStr :: "string \<Rightarrow> (string \<times> string) option" where
  "parseStr s =
     (case strStep s of
        StrBad \<Rightarrow> None
      | StrEnd r \<Rightarrow> Some ([], r)
      | StrEmit x r \<Rightarrow> map_option (\<lambda>(a, b). (x @ a, b)) (parseStr r))"
  by pat_completeness auto
termination
  by (relation "measure length") (auto dest: strStep_emit_shorter)

declare parseStr.simps [simp del]

lemma parseStr_shorter: "parseStr s = Some (x, r) \<Longrightarrow> length r < length s"
proof (induction s arbitrary: x r rule: parseStr.induct)
  case (1 s)
  show ?case
  proof (cases "strStep s")
    case (StrEnd t)
    with "1.prems" show ?thesis
      by (simp add: parseStr.simps [of s] strStep_end_shorter)
  next
    case (StrEmit y t)
    with "1.prems" obtain z where "parseStr t = Some (z, r)"
      by (auto simp: parseStr.simps [of s])
    with StrEmit "1.IH" have "length r < length t" by blast
    with StrEmit show ?thesis by (auto dest: strStep_emit_shorter)
  qed (use "1.prems" in \<open>simp add: parseStr.simps [of s]\<close>)
qed

subsection \<open>Numbers and values\<close>

text \<open>The grammar of a JSON number: the literal and the rest of the input.\<close>

definition scanDigits :: "string \<Rightarrow> (string \<times> string) option" where
  "scanDigits s = (let d = takeWhile isDigit s in
     if d = [] then None else Some (d, dropWhile isDigit s))"

definition scanInt :: "string \<Rightarrow> (string \<times> string) option" where
  "scanInt s = (if take 1 s = ''0'' then Some (''0'', drop 1 s) else scanDigits s)"

definition scanFrac :: "string \<Rightarrow> (string \<times> string) option" where
  "scanFrac s = (if take 1 s = ''.'' then scanDigits (drop 1 s) else Some ([], s))"

definition scanExp :: "string \<Rightarrow> (string \<times> string) option" where
  "scanExp s =
     (if take 1 s = ''e'' \<or> take 1 s = ''E'' then
        (let r = drop 1 s in
         if take 1 r = ''-'' then map_option (\<lambda>(d, t). (''-'' @ d, t)) (scanDigits (drop 1 r))
         else if take 1 r = ''+'' then scanDigits (drop 1 r)
         else scanDigits r)
      else Some ([], s))"

definition parseNum :: "string \<Rightarrow> (json \<times> string) option" where
  "parseNum s =
     (let neg = (take 1 s = ''-''); s0 = (if neg then drop 1 s else s) in
      case scanInt s0 of None \<Rightarrow> None | Some (i, s1) \<Rightarrow>
      (case scanFrac s1 of None \<Rightarrow> None | Some (f, s2) \<Rightarrow>
      (case scanExp s2 of None \<Rightarrow> None | Some (e, s3) \<Rightarrow>
        Some (JNum (take (length s - length s3) s), s3))))"

definition parseLit :: "string \<Rightarrow> json \<Rightarrow> string \<Rightarrow> (json \<times> string) option" where
  "parseLit lit v s = (if hasPrefix s lit then Some (v, drop (length lit) s) else None)"

definition maxNestingDepth :: int where "maxNestingDepth = 10000"

fun parseValue :: "nat \<Rightarrow> int \<Rightarrow> string \<Rightarrow> (json \<times> string) option"
and parseElems :: "nat \<Rightarrow> int \<Rightarrow> json list \<Rightarrow> string \<Rightarrow> (json \<times> string) option"
and parseMembers :: "nat \<Rightarrow> int \<Rightarrow> (string \<times> json) list \<Rightarrow> string \<Rightarrow> (json \<times> string) option"
where
  "parseValue 0 d s = None"
| "parseValue (Suc n) d s =
     (case skipSpace s of
        [] \<Rightarrow> None
      | c # r \<Rightarrow>
          if c = CHR ''['' then
            (if d \<ge> maxNestingDepth then None
             else if take 1 (skipSpace r) = '']'' then Some (JArr [], drop 1 (skipSpace r))
             else parseElems n (d + 1) [] r)
          else if c = CHR ''{'' then
            (if d \<ge> maxNestingDepth then None
             else if take 1 (skipSpace r) = ''}'' then Some (JObj [], drop 1 (skipSpace r))
             else parseMembers n (d + 1) [] r)
          else if c = CHR 0x22 then map_option (\<lambda>(x, t). (JStr x, t)) (parseStr r)
          else if c = CHR ''t'' then parseLit ''true'' (JBool True) (c # r)
          else if c = CHR ''f'' then parseLit ''false'' (JBool False) (c # r)
          else if c = CHR ''n'' then parseLit ''null'' JNull (c # r)
          else parseNum (c # r))"
| "parseElems 0 d acc s = None"
| "parseElems (Suc n) d acc s =
     (case parseValue n d s of
        None \<Rightarrow> None
      | Some (v, r) \<Rightarrow>
          (case skipSpace r of
             [] \<Rightarrow> None
           | c # t \<Rightarrow>
               if c = CHR '','' then parseElems n d (v # acc) t
               else if c = CHR '']'' then Some (JArr (rev (v # acc)), t)
               else None))"
| "parseMembers 0 d acc s = None"
| "parseMembers (Suc n) d acc s =
     (case skipSpace s of
        [] \<Rightarrow> None
      | q # r0 \<Rightarrow>
          if q \<noteq> CHR 0x22 then None
          else (case parseStr r0 of
             None \<Rightarrow> None
           | Some (k, r1) \<Rightarrow>
               (case skipSpace r1 of
                  [] \<Rightarrow> None
                | c # r2 \<Rightarrow>
                    if c \<noteq> CHR '':'' then None
                    else (case parseValue n d r2 of
                       None \<Rightarrow> None
                     | Some (v, r3) \<Rightarrow>
                         (case skipSpace r3 of
                            [] \<Rightarrow> None
                          | e # r4 \<Rightarrow>
                              if e = CHR '','' then parseMembers n d ((k, v) # acc) r4
                              else if e = CHR ''}'' then Some (JObj (rev ((k, v) # acc)), r4)
                              else None)))))"

definition jsonFuel :: "string \<Rightarrow> nat" where
  "jsonFuel s = 2 * length s + 2"

text \<open>
  A decoder that must consume the whole input: one value, then only white space.  In the
  source the second \<open>Decode\<close> has to report \<open>io.EOF\<close>.
\<close>

definition jsonStrict :: "string \<Rightarrow> json option" where
  "jsonStrict s =
     (case parseValue (jsonFuel s) 0 s of
        None \<Rightarrow> None
      | Some (v, r) \<Rightarrow> if skipSpace r = [] then Some v else None)"


subsection \<open>Enough fuel\<close>

lemma scanDigits_shorter: "scanDigits s = Some (d, r) \<Longrightarrow> length r < length s"
  by (auto simp: scanDigits_def Let_def split: if_splits)
    (metis length_append length_greater_0_conv less_add_same_cancel2 takeWhile_dropWhile_id takeWhile.simps(1))

lemma scanInt_shorter: "scanInt s = Some (d, r) \<Longrightarrow> length r < length s"
  by (cases s) (auto simp: scanInt_def dest: scanDigits_shorter split: if_splits)

lemma scanFrac_le: "scanFrac s = Some (d, r) \<Longrightarrow> length r \<le> length s"
  by (auto simp: scanFrac_def dest!: scanDigits_shorter split: if_splits)

lemma scanExp_le: "scanExp s = Some (d, r) \<Longrightarrow> length r \<le> length s"
  by (auto simp: scanExp_def Let_def dest!: scanDigits_shorter split: if_splits)

lemma parseNum_shorter: "parseNum s = Some (v, r) \<Longrightarrow> length r < length s"
  by (fastforce simp: parseNum_def Let_def split: option.splits prod.splits if_splits
      dest: scanInt_shorter scanFrac_le scanExp_le)

lemma skipSpace_Cons: "skipSpace s = c # r \<Longrightarrow> length r < length s"
  using length_skipSpace [of s] by simp

lemma drop1_skipSpace: "take 1 (skipSpace r) = [c] \<Longrightarrow> length (drop 1 (skipSpace r)) < length r"
  using length_skipSpace [of r] by (cases "skipSpace r") auto

lemma parseLit_shorter: "parseLit lit v s = Some (w, r) \<Longrightarrow> lit \<noteq> [] \<Longrightarrow> length r < length s"
  by (auto simp: parseLit_def hasPrefix_iff split: if_splits)

lemmas shorter_facts = skipSpace_Cons drop1_skipSpace parseStr_shorter parseNum_shorter

lemma parse_shorter:
  shows "parseValue n d s = Some (v, r) \<Longrightarrow> length r < length s"
    and "parseElems n d acc s = Some (v, r) \<Longrightarrow> length r < length s"
    and "parseMembers n d mem s = Some (v, r) \<Longrightarrow> length r < length s"
proof (induction n d s and n d acc s and n d mem s arbitrary: v r and v r and v r
    rule: parseValue_parseElems_parseMembers.induct)
  case (2 n d s)
  show ?case
  proof (cases "skipSpace s")
    case (Cons c t)
    note len = skipSpace_Cons [OF Cons]
    consider "c = CHR ''[''" | "c = CHR ''{''" | "c = CHR 0x22"
      | "c = CHR ''t'' \<or> c = CHR ''f'' \<or> c = CHR ''n''"
      | "parseNum (c # t) = Some (v, r)"
      using "2.prems" Cons by (auto split: if_splits)
    then show ?thesis
    proof cases
      case 1
      then show ?thesis
        using "2.prems" "2.IH"(1) [OF Cons, of v r] len Cons
          drop1_skipSpace [of t "CHR '']''"]
        by (cases "take 1 (skipSpace t) = '']''") (auto split: if_splits)
    next
      case 2
      then show ?thesis
        using "2.prems" "2.IH"(2) [OF Cons, of v r] len Cons
          drop1_skipSpace [of t "CHR ''}''"]
        by (cases "take 1 (skipSpace t) = ''}''") (auto split: if_splits)
    next
      case 3
      then show ?thesis
        using "2.prems" len Cons by (auto dest: parseStr_shorter)
    next
      case 4
      then show ?thesis
        using "2.prems" Cons length_skipSpace [of s]
        by (auto dest!: parseLit_shorter split: if_splits)
    next
      case 5
      then show ?thesis
        using Cons length_skipSpace [of s] by (auto dest!: parseNum_shorter)
    qed
  qed (use "2.prems" in simp)
next
  case (4 n d acc s)
  obtain w t where w: "parseValue n d s = Some (w, t)"
    using "4.prems" by (auto split: option.splits)
  obtain c u where u: "skipSpace t = c # u"
    using "4.prems" w by (auto split: list.splits)
  have "length u < length s"
    using "4.IH"(1) [OF w] skipSpace_Cons [OF u] by simp
  then show ?case
    using "4.prems" w u "4.IH"(2) [OF w _ u] by (fastforce split: if_splits)
next
  case (6 n d acc s)
  obtain q r0 where q: "skipSpace s = q # r0" "q = CHR 0x22"
    using "6.prems" by (auto split: list.splits if_splits)
  obtain k r1 where k: "parseStr r0 = Some (k, r1)"
    using "6.prems" q by (auto split: option.splits)
  obtain r2 where r2: "skipSpace r1 = CHR '':'' # r2"
    using "6.prems" q k by (auto split: list.splits if_splits)
  obtain w r3 where w: "parseValue n d r2 = Some (w, r3)"
    using "6.prems" q k r2 by (auto split: option.splits)
  obtain e r4 where r4: "skipSpace r3 = e # r4"
    using "6.prems" q k r2 w by (auto split: list.splits)
  have len: "length r4 < length s"
    using skipSpace_Cons [OF q(1)] parseStr_shorter [OF k] skipSpace_Cons [OF r2]
      "6.IH"(1) [OF q(1) _ k _ r2 _ w] q(2) skipSpace_Cons [OF r4] by simp
  show ?case
  proof (cases "e = CHR '',''")
    case True
    then have "parseMembers n d ((k, w) # acc) r4 = Some (v, r)"
      using "6.prems" q k r2 w r4 by simp
    then show ?thesis
      using "6.IH"(2) [OF q(1) _ k _ r2 _ w _ r4 True] q(2) len by fastforce
  next
    case False
    then show ?thesis
      using "6.prems" q k r2 w r4 len by (simp split: if_splits)
  qed
qed simp_all


text \<open>
  With two units for each input byte the fuel never runs out: more fuel gives the same
  result.
\<close>

lemma parse_fuel:
  shows "2 * length s + 1 \<le> n \<Longrightarrow> n \<le> m \<Longrightarrow> parseValue m d s = parseValue n d s"
    and "2 * length s + 2 \<le> n \<Longrightarrow> n \<le> m \<Longrightarrow> parseElems m d acc s = parseElems n d acc s"
    and "2 * length s + 2 \<le> n \<Longrightarrow> n \<le> m \<Longrightarrow> parseMembers m d mem s = parseMembers n d mem s"
proof (induction n d s and n d acc s and n d mem s arbitrary: m and m and m
    rule: parseValue_parseElems_parseMembers.induct)
  case (2 n d s)
  obtain m' where m: "m = Suc m'" "n \<le> m'"
    using "2.prems" by (cases m) auto
  show ?case
  proof (cases "skipSpace s")
    case (Cons c t)
    have "2 * length t + 2 \<le> n"
      using "2.prems"(1) skipSpace_Cons [OF Cons] by simp
    then show ?thesis
      using m(2) "2.IH"(1) [OF Cons, of m'] "2.IH"(2) [OF Cons, of m'] by (simp add: m(1) Cons)
  qed (simp add: m)
next
  case (4 n d acc s)
  obtain m' where m: "m = Suc m'" "n \<le> m'"
    using "4.prems" by (cases m) auto
  have eq: "parseValue m' d s = parseValue n d s"
    using "4.IH"(1) [of m'] "4.prems"(1) m(2) by simp
  show ?case
  proof (cases "parseValue n d s")
    case (Some vr)
    obtain v r where vr: "vr = (v, r)" by fastforce
    show ?thesis
    proof (cases "skipSpace r")
      case (Cons c t)
      have "length t < length s"
        using skipSpace_Cons [OF Cons] parse_shorter(1) [of n d s v r] Some vr by simp
      then have "2 * length t + 2 \<le> n"
        using "4.prems"(1) by simp
      then show ?thesis
        using m(2) eq Some vr Cons "4.IH"(2) [OF Some vr [symmetric] Cons, of m'] by (simp add: m(1))
    qed (simp add: m(1) eq Some vr)
  qed (simp add: m(1) eq)
next
  case (6 n d acc s)
  obtain m' where m: "m = Suc m'" "n \<le> m'"
    using "6.prems" by (cases m) auto
  show ?case
  proof (cases "\<exists>r0 k r1 r2. skipSpace s = CHR 0x22 # r0 \<and> parseStr r0 = Some (k, r1) \<and>
      skipSpace r1 = CHR '':'' # r2")
    case True
    then obtain r0 k r1 r2 where q: "skipSpace s = CHR 0x22 # r0"
      and k: "parseStr r0 = Some (k, r1)" and c: "skipSpace r1 = CHR '':'' # r2" by blast
    have len2: "length r2 < length s"
      using skipSpace_Cons [OF q] parseStr_shorter [OF k] skipSpace_Cons [OF c] by simp
    have eq: "parseValue m' d r2 = parseValue n d r2"
      by (rule "6.IH"(1) [OF q _ k _ c]) (use len2 "6.prems"(1) m(2) in simp_all)
    show ?thesis
    proof (cases "\<exists>w r3 r4. parseValue n d r2 = Some (w, r3) \<and> skipSpace r3 = CHR '','' # r4")
      case True
      then obtain w r3 r4 where w: "parseValue n d r2 = Some (w, r3)"
        and e: "skipSpace r3 = CHR '','' # r4" by blast
      have "length r4 < length s"
        using len2 parse_shorter(1) [OF w] skipSpace_Cons [OF e] by simp
      then have "parseMembers m' d ((k, w) # acc) r4 = parseMembers n d ((k, w) # acc) r4"
        by (intro "6.IH"(2) [OF q _ k _ c _ w _ e]) (use "6.prems"(1) m(2) in simp_all)
      then show ?thesis by (simp add: m(1) q k c eq w e)
    next
      case False
      then show ?thesis
        by (auto simp: m(1) q k c eq split: option.splits list.splits)
    qed
  next
    case False
    then show ?thesis
      by (auto simp: m(1) split: option.splits list.splits)
  qed
next
  case (1 d s)
  then show ?case by simp
next
  case (3 d acc s)
  then show ?case by simp
next
  case (5 d acc s)
  then show ?case by simp
qed

corollary parse_fuel_enough: "jsonFuel s \<le> m \<Longrightarrow> parseValue m 0 s = parseValue (jsonFuel s) 0 s"
  by (rule parse_fuel(1)) (simp_all add: jsonFuel_def)

subsection \<open>Numbers as binary64\<close>

text \<open>
  A number decoded into \<open>any\<close> becomes the nearest binary64 value and is printed with the
  fewest decimal digits that read back as the same value.  A value is \<open>m * 2 ^ q\<close>.
\<close>

function bitLen :: "int \<Rightarrow> int" where
  "bitLen n = (if n \<le> 0 then 0 else 1 + bitLen (n div 2))"
  by pat_completeness auto
termination
  by (relation "measure nat") auto

declare bitLen.simps [simp del]

definition pow2 :: "int \<Rightarrow> int" where "pow2 k = 2 ^ nat k"
definition pow10 :: "int \<Rightarrow> int" where "pow10 k = 10 ^ nat k"

definition roundHalfEven :: "int \<Rightarrow> int \<Rightarrow> int" where
  "roundHalfEven n d =
     (let m = n div d; r = 2 * (n mod d)
      in if r > d \<or> (r = d \<and> odd m) then m + 1 else m)"

text \<open>The nearest binary64 value of \<open>mant * 10 ^ e\<close>; \<open>None\<close> when it is out of range.\<close>

definition toBinary64 :: "int \<Rightarrow> int \<Rightarrow> (int \<times> int) option" where
  "toBinary64 mant e =
     (if mant = 0 then Some (0, 0)
      else
        (let num = mant * pow10 (max 0 e); den = pow10 (max 0 (- e));
             q0 = bitLen num - bitLen den - 53;
             q1 = (if num * pow2 (max 0 (- q0)) \<ge> 2 ^ 53 * (den * pow2 (max 0 q0)) then q0 + 1 else q0);
             q = max q1 (- 1074);
             m = roundHalfEven (num * pow2 (max 0 (- q))) (den * pow2 (max 0 q));
             (m', q') = (if m = 2 ^ 53 then (2 ^ 52, q + 1) else (m, q))
         in if q' > 971 then None else Some (m', q')))"

text \<open>
  The shortest digits: with \<open>4 * m * u\<close> the value and \<open>u = 2 ^ (q - 2)\<close>, the first number of
  digits for which the truncated or the incremented prefix lies in the rounding interval.
\<close>

definition decPoint :: "int \<Rightarrow> int \<Rightarrow> int" where
  "decPoint vn vd =
     (if vn \<ge> vd then int (length (intDigits (vn div vd)))
      else (case find (\<lambda>k. vn * pow10 k \<ge> vd) (map int [1..<400]) of
              None \<Rightarrow> 0 | Some k \<Rightarrow> 1 - k))"

definition shortestAt :: "int \<Rightarrow> int \<Rightarrow> int \<Rightarrow> int \<Rightarrow> int option" where
  "shortestAt m q dp n =
     (let sh = n - dp; up = pow10 (max 0 sh); dn = pow10 (max 0 (- sh));
          un = pow2 (max 0 (q - 2)); ud = pow2 (max 0 (2 - q));
          den = ud * dn;
          v = 4 * m * un * up;
          lo = (if m = 2 ^ 52 \<and> q > - 1074 then 4 * m - 1 else 4 * m - 2) * un * up;
          hi = (4 * m + 2) * un * up;
          t = v div den;
          down = (t * den > lo \<or> (even m \<and> t * den = lo));
          upok = ((t + 1) * den < hi \<or> (even m \<and> (t + 1) * den = hi))
      in if t * den = v then Some t
         else if down \<and> upok then Some (roundHalfEven v den)
         else if down then Some t
         else if upok then Some (t + 1)
         else None)"

fun stripZeros :: "string \<Rightarrow> string" where
  "stripZeros s = rev (dropWhile (\<lambda>c. c = CHR ''0'') (rev s))"

definition shortestDigits :: "int \<Rightarrow> int \<Rightarrow> string \<times> int" where
  "shortestDigits m q =
     (let dp = decPoint (m * pow2 (max 0 q)) (pow2 (max 0 (- q)));
          n = (case find (\<lambda>n. shortestAt m q dp n \<noteq> None) (map int [1..<18]) of
                 None \<Rightarrow> 17 | Some n \<Rightarrow> n);
          t = (case shortestAt m q dp n of None \<Rightarrow> 0 | Some t \<Rightarrow> t);
          ds = intDigits t
      in (stripZeros ds, dp + int (length ds) - n))"

definition formatBinary64 :: "int \<Rightarrow> int \<Rightarrow> string" where
  "formatBinary64 m q =
     (if m = 0 then ''0''
      else
        (let (ds, dp) = shortestDigits m q; nd = int (length ds)
         in if dp \<le> - 6 \<or> dp \<ge> 22 then
              take 1 ds @ (if nd > 1 then ''.'' @ drop 1 ds else []) @ ''e''
              @ (if dp - 1 < 0 then ''-'' else ''+'') @ intDigits \<bar>dp - 1\<bar>
            else if dp \<le> 0 then ''0.'' @ replicate (nat (- dp)) CHR ''0'' @ ds
            else if nd \<le> dp then ds @ replicate (nat (dp - nd)) CHR ''0''
            else take (nat dp) ds @ ''.'' @ drop (nat dp) ds))"

text \<open>The literal as \<open>any\<close> re-encodes it.\<close>

definition canonNumber :: "string \<Rightarrow> string option" where
  "canonNumber lit =
     (let neg = (take 1 lit = ''-''); s0 = (if neg then drop 1 lit else lit) in
      case scanInt s0 of None \<Rightarrow> None | Some (i, s1) \<Rightarrow>
      (case scanFrac s1 of None \<Rightarrow> None | Some (f, s2) \<Rightarrow>
      (case scanExp s2 of None \<Rightarrow> None | Some (e, s3) \<Rightarrow>
        (let ev = (if e = [] then 0 else if take 1 e = ''-'' then - digitsVal (drop 1 e) else digitsVal e)
         in map_option (\<lambda>(m, q). (if neg then ''-'' else []) @ formatBinary64 m q)
              (toBinary64 (digitsVal (i @ f)) (ev - int (length f)))))))"

subsection \<open>Encoding a value held in any\<close>

definition escapeByte :: "char \<Rightarrow> string" where
  "escapeByte c =
     (if c = CHR 0x22 \<or> c = CHR 0x5C then [CHR 0x5C, c]
      else if c = CHR 0x08 then [CHR 0x5C, CHR ''b'']
      else if c = CHR 0x0C then [CHR 0x5C, CHR ''f'']
      else if c = CHR 0x0A then [CHR 0x5C, CHR ''n'']
      else if c = CHR 0x0D then [CHR 0x5C, CHR ''r'']
      else if c = CHR 0x09 then [CHR 0x5C, CHR ''t'']
      else if c < CHR 0x20 \<or> c = CHR ''<'' \<or> c = CHR ''>'' \<or> c = CHR ''&''
        then CHR 0x5C # ''u00'' @ hexEncode [c]
      else [c])"

fun escapeStr :: "string \<Rightarrow> string" where
  "escapeStr [] = []"
| "escapeStr (c # s) =
     (if c = CHR 0xE2 \<and> take 2 s = [CHR 0x80, CHR 0xA8] then CHR 0x5C # ''u2028'' @ escapeStr (drop 2 s)
      else if c = CHR 0xE2 \<and> take 2 s = [CHR 0x80, CHR 0xA9] then CHR 0x5C # ''u2029'' @ escapeStr (drop 2 s)
      else escapeByte c @ escapeStr s)"

definition quoteJson :: "string \<Rightarrow> string" where
  "quoteJson s = CHR 0x22 # escapeStr s @ [CHR 0x22]"

text \<open>A Go map keeps the last of several equal keys and is encoded in the order of its keys.\<close>

definition sortedMembers :: "(string \<times> string) list \<Rightarrow> (string \<times> string) list" where
  "sortedMembers ms = sortSlice (\<lambda>a b. fst a < fst b) (fold (\<lambda>(k, v) m. gput k v m) ms [])"

fun marshalAny :: "json \<Rightarrow> string option"
and marshalElems :: "json list \<Rightarrow> string list option"
and marshalMembers :: "(string \<times> json) list \<Rightarrow> (string \<times> string) list option"
where
  "marshalAny JNull = Some ''null''"
| "marshalAny (JBool b) = Some (if b then ''true'' else ''false'')"
| "marshalAny (JNum lit) = canonNumber lit"
| "marshalAny (JStr s) = Some (quoteJson s)"
| "marshalAny (JArr vs) =
     map_option (\<lambda>xs. ''['' @ joinWith '','' xs @ '']'') (marshalElems vs)"
| "marshalAny (JObj ms) =
     map_option (\<lambda>xs. ''{'' @ joinWith '','' (map (\<lambda>(k, x). quoteJson k @ '':'' @ x) (sortedMembers xs)) @ ''}'')
       (marshalMembers ms)"
| "marshalElems [] = Some []"
| "marshalElems (v # vs) =
     (case marshalAny v of None \<Rightarrow> None | Some x \<Rightarrow> map_option ((#) x) (marshalElems vs))"
| "marshalMembers [] = Some []"
| "marshalMembers ((k, v) # ms) =
     (case marshalAny v of None \<Rightarrow> None | Some x \<Rightarrow> map_option ((#) (k, x)) (marshalMembers ms))"

subsection \<open>Struct fields\<close>

text \<open>An object key names a field exactly, or else up to case.\<close>

definition matchField :: "string list \<Rightarrow> string \<Rightarrow> string option" where
  "matchField names key =
     (if key \<in> set names then Some key else find (\<lambda>n. foldName n = foldName key) names)"

text \<open>A string field: \<open>null\<close> leaves it alone, another kind of value is an error.\<close>

fun decodeStringField :: "json \<Rightarrow> string \<Rightarrow> string option" where
  "decodeStringField (JStr s) old = Some s"
| "decodeStringField JNull old = Some old"
| "decodeStringField _ old = None"

subsection \<open>Structs and arrays\<close>

text \<open>
  A JSON value decoded into a struct with \<open>DisallowUnknownFields\<close>: the members in order, each
  with the setter of the field its key names; \<open>null\<close> leaves the struct alone.
\<close>

fun decodeMembers :: "string list \<Rightarrow> (string \<Rightarrow> json \<Rightarrow> 's \<Rightarrow> 's option) \<Rightarrow> (string \<times> json) list \<Rightarrow> 's \<Rightarrow> 's option" where
  "decodeMembers names setField [] s = Some s"
| "decodeMembers names setField ((k, v) # ms) s =
     (case matchField names k of
        None \<Rightarrow> None
      | Some n \<Rightarrow> (case setField n v s of None \<Rightarrow> None | Some s1 \<Rightarrow> decodeMembers names setField ms s1))"

definition decodeObject :: "string list \<Rightarrow> (string \<Rightarrow> json \<Rightarrow> 's \<Rightarrow> 's option) \<Rightarrow> 's \<Rightarrow> json \<Rightarrow> 's option" where
  "decodeObject names setField s j =
     (case j of JObj ms \<Rightarrow> decodeMembers names setField ms s | JNull \<Rightarrow> Some s | _ \<Rightarrow> None)"

text \<open>\<open>json.Unmarshal\<close> into a struct: unknown members are skipped.\<close>

fun readMembers :: "string list \<Rightarrow> (string \<Rightarrow> json \<Rightarrow> 's \<Rightarrow> 's option) \<Rightarrow> (string \<times> json) list \<Rightarrow> 's \<Rightarrow> 's option" where
  "readMembers names setField [] s = Some s"
| "readMembers names setField ((k, v) # ms) s =
     (case matchField names k of
        None \<Rightarrow> readMembers names setField ms s
      | Some n \<Rightarrow> (case setField n v s of None \<Rightarrow> None | Some s1 \<Rightarrow> readMembers names setField ms s1))"

fun readElements :: "(json \<Rightarrow> 'a option) \<Rightarrow> json list \<Rightarrow> 'a list option" where
  "readElements read [] = Some []"
| "readElements read (v # vs) =
     (case read v of None \<Rightarrow> None | Some x \<Rightarrow> map_option ((#) x) (readElements read vs))"

definition readArray :: "(json \<Rightarrow> 'a option) \<Rightarrow> json \<Rightarrow> 'a list option" where
  "readArray read j = (case j of JArr vs \<Rightarrow> readElements read vs | JNull \<Rightarrow> Some [] | _ \<Rightarrow> None)"

text \<open>A string as the list of its runes; an invalid byte is a rune of its own.\<close>

function runes :: "string \<Rightarrow> string list" where
  "runes s = (if s = [] then [] else (let n = max 1 (utf8Len s) in take n s # runes (drop n s)))"
  by pat_completeness auto
termination
  by (relation "measure length") (auto simp: Let_def)

declare runes.simps [simp del]

subsection \<open>Evaluation on concrete input\<close>

definition plainChar :: "char \<Rightarrow> bool" where
  "plainChar c \<longleftrightarrow> c \<noteq> CHR 0x22 \<and> c \<noteq> CHR 0x5C \<and> \<not> c < CHR 0x20 \<and> c < CHR 0x80"

lemma parseStr_quote: "parseStr (CHR 0x22 # r) = Some ([], r)"
  by (simp add: parseStr.simps)

lemma parseStr_plain:
  "plainChar c \<Longrightarrow> parseStr (c # s) = map_option (\<lambda>(a, b). (c # a, b)) (parseStr s)"
  by (subst parseStr.simps) (simp add: utf8Len.simps plainChar_def)

lemma isHex_plain: "isHex c \<Longrightarrow> plainChar c"
  by (auto simp: plainChar_def isHex_def isDigit_def less_eq_char_def less_char_def)

lemma parseStr_hex: "list_all isHex h \<Longrightarrow> parseStr (h @ CHR 0x22 # r) = Some (h, r)"
  by (induction h) (simp_all add: parseStr_quote parseStr_plain isHex_plain)

lemmas parse_numeral =
  parseValue.simps(2) [of "pred_numeral k" for k, folded numeral_eq_Suc]
  parseElems.simps(2) [of "pred_numeral k" for k, folded numeral_eq_Suc]
  parseMembers.simps(2) [of "pred_numeral k" for k, folded numeral_eq_Suc]

lemmas json_eval = parse_numeral jsonStrict_def jsonFuel_def skipSpace_def isJsonSpace_def
  maxNestingDepth_def parseStr_quote parseStr_plain plainChar_def matchField_def

end
