(* ===== verification/ActionCatalog.thy ===== *)
theory ActionCatalog
  imports Go_Prelude Sha256 Json
begin

text \<open>
  The action registry, \<open>pkg/actioncatalog/catalog.go\<close>: the table of typed actions with
  their risk tier, approval requirement and execution mode, the validation of an action
  against the table, and the strict validation of a managed-resource change proposal.
  A Go error is a value of \<open>catalog_error\<close>; the text of a JSON syntax error is not kept.
\<close>

definition Version :: string where "Version = ''v1''"

datatype risk_tier = RiskA | RiskB | RiskC | RiskD

datatype execution_mode = ModeDirect | ModeGitOps | ModeProposal | ModeInformation

fun modeString :: "execution_mode \<Rightarrow> string" where
  "modeString ModeDirect = ''direct''"
| "modeString ModeGitOps = ''gitops_proposal''"
| "modeString ModeProposal = ''proposal_only''"
| "modeString ModeInformation = ''informational''"

fun tierString :: "risk_tier \<Rightarrow> string" where
  "tierString RiskA = ''A''"
| "tierString RiskB = ''B''"
| "tierString RiskC = ''C''"
| "tierString RiskD = ''D''"

definition ManagedResourceChangeAction :: string where
  "ManagedResourceChangeAction = ''propose_managed_resource_change''"

definition ManagedResourceReviewAction :: string where
  "ManagedResourceReviewAction = ''review_managed_resource_finding''"

definition ManagedResourceJSONPatch :: string where
  "ManagedResourceJSONPatch = ''application/json-patch+json''"

record resource_kind =
  rk_apiVersion :: string
  rk_kind :: string

record catalog_action =
  ca_type :: string
  ca_apiVersion :: string
  ca_kind :: string
  ca_params :: "(string, string) gomap"

record catalog_def =
  cd_type :: string
  cd_supportedResources :: "resource_kind list"
  cd_riskTier :: risk_tier
  cd_requiredPermissions :: "string list"
  cd_approvalRequired :: bool
  cd_dryRunBehavior :: string
  cd_diffStrategy :: string
  cd_verificationChecks :: "string list"
  cd_rollbackProcedure :: "string list"
  cd_idempotencyBehavior :: string
  cd_failureHandling :: string
  cd_defaultExecutionMode :: execution_mode
  cd_requiredParameters :: "string list"
  cd_allowedParameters :: "string list"
  cd_strictParameters :: bool

definition workloadKinds :: "resource_kind list" where
  "workloadKinds =
     [\<lparr>rk_apiVersion = ''apps/v1'', rk_kind = ''Deployment''\<rparr>,
      \<lparr>rk_apiVersion = ''apps/v1'', rk_kind = ''StatefulSet''\<rparr>,
      \<lparr>rk_apiVersion = ''apps/v1'', rk_kind = ''DaemonSet''\<rparr>]"

definition proposal :: "string \<Rightarrow> risk_tier \<Rightarrow> string \<Rightarrow> catalog_def" where
  "proposal actionType risk detail =
     \<lparr>cd_type = actionType, cd_supportedResources = [\<lparr>rk_apiVersion = ''*'', rk_kind = ''*''\<rparr>],
      cd_riskTier = risk, cd_requiredPermissions = [],
      cd_approvalRequired = True,
      cd_dryRunBehavior = ''No cluster write is attempted.'',
      cd_diffStrategy = detail,
      cd_verificationChecks = [''Review generated artifacts against current cluster state''],
      cd_rollbackProcedure = [''Not applicable until a separately reviewed system applies the proposal''],
      cd_idempotencyBehavior = ''Repeated proposals reuse the request idempotency key.'',
      cd_failureHandling = ''Keep the action proposal-only and report the generation error.'',
      cd_defaultExecutionMode = ModeGitOps,
      cd_requiredParameters = [],
      cd_allowedParameters = [],
      cd_strictParameters = False\<rparr>"

subsection \<open>The registry\<close>

definition def_apply_resource_governance :: catalog_def where
  "def_apply_resource_governance =
     \<lparr>cd_type = ''apply_resource_governance'', cd_supportedResources = [\<lparr>rk_apiVersion = ''v1'', rk_kind = ''Namespace''\<rparr>],
      cd_riskTier = RiskA, cd_requiredPermissions = [
        ''get/list/create/update ResourceQuota'',
        ''get/list/create/update LimitRange''],
      cd_approvalRequired = False,
      cd_dryRunBehavior = ''Server-side dry-run every create or update before mutation.'',
      cd_diffStrategy = ''Render exact ResourceQuota and LimitRange objects from the selected governance profile.'',
      cd_verificationChecks = [
        ''Read both objects back'',
        ''Compare hard limits and container defaults'',
        ''Re-run namespace governance scan''],
      cd_rollbackProcedure = [
        ''Restore pre-change objects'',
        ''Delete only objects created by the run'',
        ''Re-run namespace governance scan''],
      cd_idempotencyBehavior = ''Use fixed managed object names and converge specs with optimistic concurrency.'',
      cd_failureHandling = ''Stop before the second write if dry-run fails; on partial application, restore the captured snapshot.'',
      cd_defaultExecutionMode = ModeDirect,
      cd_requiredParameters = [],
      cd_allowedParameters = [],
      cd_strictParameters = False\<rparr>"

definition def_patch_pod_security_labels :: catalog_def where
  "def_patch_pod_security_labels =
     \<lparr>cd_type = ''patch_pod_security_labels'', cd_supportedResources = [\<lparr>rk_apiVersion = ''v1'', rk_kind = ''Namespace''\<rparr>],
      cd_riskTier = RiskB, cd_requiredPermissions = [
        ''get/patch Namespace metadata''],
      cd_approvalRequired = True,
      cd_dryRunBehavior = ''Server-side dry-run an optimistic metadata patch and reject system namespaces.'',
      cd_diffStrategy = ''Show the exact previous and proposed Pod Security label maps.'',
      cd_verificationChecks = [
        ''Read namespace labels back'',
        ''Re-scan namespace Pod Security posture''],
      cd_rollbackProcedure = [
        ''Restore the exact prior values or absence of each managed label''],
      cd_idempotencyBehavior = ''Patch only the three managed label keys using the observed resourceVersion.'',
      cd_failureHandling = ''Do not retry conflicts blindly; re-read and regenerate the diff.'',
      cd_defaultExecutionMode = ModeDirect,
      cd_requiredParameters = [],
      cd_allowedParameters = [],
      cd_strictParameters = False\<rparr>"

definition def_patch_workload_resources :: catalog_def where
  "def_patch_workload_resources =
     \<lparr>cd_type = ''patch_workload_resources'', cd_supportedResources = workloadKinds,
      cd_riskTier = RiskB, cd_requiredPermissions = [
        ''get/patch target workload''],
      cd_approvalRequired = True,
      cd_dryRunBehavior = ''Server-side dry-run an exact strategic merge patch for named containers.'',
      cd_diffStrategy = ''Show each named container's previous and proposed CPU/memory requests and limits.'',
      cd_verificationChecks = [
        ''Read workload template back'',
        ''Wait for rollout availability'',
        ''Re-run resource posture scan''],
      cd_rollbackProcedure = [
        ''Restore the exact workload template resource fields from the pre-change snapshot''],
      cd_idempotencyBehavior = ''Do not overwrite existing resources unless the plan explicitly includes their observed values.'',
      cd_failureHandling = ''Stop on rollout regression and make the snapshot eligible for rollback.'',
      cd_defaultExecutionMode = ModeDirect,
      cd_requiredParameters = [
        ''cpuRequest'',
        ''memoryRequest'',
        ''cpuLimit'',
        ''memoryLimit''],
      cd_allowedParameters = [],
      cd_strictParameters = False\<rparr>"

definition def_create_pdb :: catalog_def where
  "def_create_pdb =
     \<lparr>cd_type = ''create_pdb'', cd_supportedResources = [\<lparr>rk_apiVersion = ''apps/v1'', rk_kind = ''Deployment''\<rparr>, \<lparr>rk_apiVersion = ''apps/v1'', rk_kind = ''StatefulSet''\<rparr>],
      cd_riskTier = RiskB, cd_requiredPermissions = [
        ''get target workload'',
        ''get/list/create/update PodDisruptionBudget''],
      cd_approvalRequired = True,
      cd_dryRunBehavior = ''Resolve the workload selector, reject empty selectors, then server-side dry-run the exact PDB.'',
      cd_diffStrategy = ''Show the resolved non-empty matchLabels selector and availability threshold.'',
      cd_verificationChecks = [
        ''Read PDB back'',
        ''Confirm expectedPods and disruptionAllowed conditions become observable''],
      cd_rollbackProcedure = [
        ''Restore a prior same-name PDB or delete only the PDB created by the run''],
      cd_idempotencyBehavior = ''Use a deterministic managed name and refuse ownership collisions.'',
      cd_failureHandling = ''Never create a PDB with an empty selector; leave the action failed with no mutation.'',
      cd_defaultExecutionMode = ModeDirect,
      cd_requiredParameters = [
        ''minAvailable''],
      cd_allowedParameters = [],
      cd_strictParameters = False\<rparr>"

definition def_patch_workload_probes :: catalog_def where
  "def_patch_workload_probes =
     \<lparr>cd_type = ''patch_workload_probes'', cd_supportedResources = workloadKinds,
      cd_riskTier = RiskB, cd_requiredPermissions = [
        ''get/patch target workload''],
      cd_approvalRequired = True,
      cd_dryRunBehavior = ''Only dry-run when named containers, ports, paths, timings, and failure thresholds are explicitly configured.'',
      cd_diffStrategy = ''Show complete prior and proposed probe objects for every named container.'',
      cd_verificationChecks = [
        ''Read workload template back'',
        ''Wait for rollout availability'',
        ''Observe readiness without restart regression''],
      cd_rollbackProcedure = [
        ''Restore exact prior readiness, liveness, and startup probe objects''],
      cd_idempotencyBehavior = ''Patch only explicitly named containers and compare the observed template before writing.'',
      cd_failureHandling = ''Missing configuration is proposal-only; rollout or health regression makes the snapshot eligible for rollback.'',
      cd_defaultExecutionMode = ModeDirect,
      cd_requiredParameters = [
        ''configured'',
        ''container'',
        ''port'',
        ''readinessPath'',
        ''livenessPath''],
      cd_allowedParameters = [],
      cd_strictParameters = False\<rparr>"

definition def_review_managed_resource_finding :: catalog_def where
  "def_review_managed_resource_finding =
     \<lparr>cd_type = ''review_managed_resource_finding'', cd_supportedResources = [\<lparr>rk_apiVersion = ''*'', rk_kind = ''*''\<rparr>],
      cd_riskTier = RiskC, cd_requiredPermissions = [
        ''list the allowlisted Kubernetes-managed resource API group'',
        ''no Kubernetes or external-provider mutation permission''],
      cd_approvalRequired = True,
      cd_dryRunBehavior = ''Validate the finding, target, management system, and declared source of truth without producing or applying a patch.'',
      cd_diffStrategy = ''Show the cited flaw and source-of-truth review instruction; an exact change requires a separate trusted proposal artifact.'',
      cd_verificationChecks = [
        ''A reviewer confirms the controller or GitOps source of truth'',
        ''The source owner records a disposition or supplies a separately validated exact proposal''],
      cd_rollbackProcedure = [
        ''Not applicable because this review action cannot mutate Kubernetes or an external provider''],
      cd_idempotencyBehavior = ''Reuse the finding identity and evidence fingerprint; a recreated Kubernetes object receives a new UID-derived finding identity.'',
      cd_failureHandling = ''Remain proposal-only and notify the source owner; never infer an IAM or provider change from incomplete evidence.'',
      cd_defaultExecutionMode = ModeProposal,
      cd_requiredParameters = [
        ''findingId'',
        ''managementSystem'',
        ''sourceOfTruth''],
      cd_allowedParameters = [
        ''findingId'',
        ''managementSystem'',
        ''sourceOfTruth''],
      cd_strictParameters = True\<rparr>"

definition def_propose_managed_resource_change :: catalog_def where
  "def_propose_managed_resource_change =
     \<lparr>cd_type = ''propose_managed_resource_change'', cd_supportedResources = [\<lparr>rk_apiVersion = ''*'', rk_kind = ''*''\<rparr>],
      cd_riskTier = RiskC, cd_requiredPermissions = [
        ''list the allowlisted Kubernetes-managed resource API group'',
        ''no mutation permission; applying the proposal requires a separately approved source-owner workflow''],
      cd_approvalRequired = True,
      cd_dryRunBehavior = ''Validate the source identity, resourceVersion, generation, RFC 6902 spec patch, exact before/after diff metadata, and rollback spec without writing to Kubernetes or the external provider.'',
      cd_diffStrategy = ''Show the exact RFC 6902 patch against the owning Kubernetes resource spec and a unified before/after diff bound to SHA-256 spec hashes.'',
      cd_verificationChecks = [
        ''Confirm status.observedGeneration equals metadata.generation on the owning Kubernetes source'',
        ''Confirm Ready=True and Synced=True conditions for the current generation'',
        ''Re-run the originating policy and relationship checks against the reconciled external resource''],
      cd_rollbackProcedure = [
        ''Restore rollbackSourceSpec through the owning Kubernetes source after a separate approval'',
        ''Wait for status.observedGeneration to match metadata.generation and for Ready=True and Synced=True'',
        ''Re-run the originating policy and relationship checks after reconciliation''],
      cd_idempotencyBehavior = ''Bind the proposal to sourceUID, sourceResourceVersion, sourceGeneration, and spec hashes; regenerate instead of applying when any value is stale.'',
      cd_failureHandling = ''Remain proposal-only; never report success or mutate either Kubernetes or the external provider unless the source-owner workflow applies the reviewed patch and every verification check passes.'',
      cd_defaultExecutionMode = ModeProposal,
      cd_requiredParameters = [
        ''managementController'',
        ''sourceName'',
        ''sourceUID'',
        ''sourceResourceVersion'',
        ''sourceGeneration'',
        ''externalResourceID'',
        ''patchType'',
        ''patch'',
        ''diff'',
        ''rollbackSourceSpec''],
      cd_allowedParameters = [
        ''managementController'',
        ''sourceName'',
        ''sourceNamespace'',
        ''sourceUID'',
        ''sourceResourceVersion'',
        ''sourceGeneration'',
        ''externalResourceID'',
        ''patchType'',
        ''patch'',
        ''diff'',
        ''rollbackSourceSpec''],
      cd_strictParameters = True\<rparr>"

definition def_explain_only :: catalog_def where
  "def_explain_only =
     \<lparr>cd_type = ''explain_only'', cd_supportedResources = [\<lparr>rk_apiVersion = ''*'', rk_kind = ''*''\<rparr>],
      cd_riskTier = RiskD, cd_requiredPermissions = [],
      cd_approvalRequired = True,
      cd_dryRunBehavior = ''No write is possible.'',
      cd_diffStrategy = ''Evidence and recommendation only.'',
      cd_verificationChecks = [
        ''Human triage records a disposition''],
      cd_rollbackProcedure = [
        ''Not applicable''],
      cd_idempotencyBehavior = ''Repeated proposals reuse the request idempotency key.'',
      cd_failureHandling = ''Remain informational.'',
      cd_defaultExecutionMode = ModeInformation,
      cd_requiredParameters = [],
      cd_allowedParameters = [],
      cd_strictParameters = False\<rparr>"

definition definitions :: "(string, catalog_def) gomap" where
  "definitions =
     [(''apply_resource_governance'', def_apply_resource_governance),
      (''patch_pod_security_labels'', def_patch_pod_security_labels),
      (''patch_workload_resources'', def_patch_workload_resources),
      (''create_pdb'', def_create_pdb),
      (''patch_workload_probes'', def_patch_workload_probes),
      (''propose_network_policy'', proposal ''propose_network_policy'' RiskC
        ''Generate reviewable NetworkPolicy manifests; no executor is registered.''),
      (''propose_security_hardening'', proposal ''propose_security_hardening'' RiskC
        ''Generate RBAC, image, admission, or network review artifacts; no executor is registered.''),
      (''review_managed_resource_finding'', def_review_managed_resource_finding),
      (''propose_managed_resource_change'', def_propose_managed_resource_change),
      (''explain_only'', def_explain_only)]"

definition Lookup :: "string \<Rightarrow> catalog_def option" where
  "Lookup actionType = gget definitions actionType"

definition AllDefinitions :: "catalog_def list" where
  "AllDefinitions = sortSlice (\<lambda>a b. cd_type a < cd_type b) (map snd definitions)"

subsection \<open>Errors\<close>

datatype managed_error =
    NotConcrete | BadController | BadGeneration | BadPatchType | PatchSyntax
  | OpOutsideSpec nat | OpNeedsValue nat | RemoveHasValue nat | TestNeedsValue nat
  | UnsupportedOp nat string | NoMutation | RollbackNotObject | DiffSyntax | DiffFormat
  | DiffHashes | RollbackHashMismatch | HashesEqual | DiffContent

datatype catalog_error =
    UnknownAction string
  | UnsupportedResource string string string
  | MissingParameter string string
  | ParameterNotAllowed string string
  | ManagedChange managed_error

subsection \<open>Names and hashes\<close>

definition asciiAlphaNumeric :: "char \<Rightarrow> bool" where
  "asciiAlphaNumeric c \<longleftrightarrow>
     (CHR ''a'' \<le> c \<and> c \<le> CHR ''z'') \<or> (CHR ''0'' \<le> c \<and> c \<le> CHR ''9'')"

definition validLabel :: "string \<Rightarrow> bool" where
  "validLabel label \<longleftrightarrow>
     \<not> (label = [] \<or> length label > 63 \<or> \<not> asciiAlphaNumeric (hd label)
         \<or> \<not> asciiAlphaNumeric (last label))
     \<and> list_all (\<lambda>c. \<not> (\<not> asciiAlphaNumeric c \<and> c \<noteq> CHR ''-'')) (butlast (tl label))"

definition validDNSName :: "string \<Rightarrow> bool" where
  "validDNSName value =
     (if value = [] \<or> length value > 253 \<or> value \<noteq> toLower value then False
      else list_all validLabel (splitOn CHR ''.'' value))"

definition validSHA256 :: "string \<Rightarrow> bool" where
  "validSHA256 value =
     (case hexDecode value of None \<Rightarrow> False | Some decoded \<Rightarrow> length decoded = 32)"

subsection \<open>Managed-resource change proposals\<close>

record patch_operation =
  po_op :: string
  po_path :: string
  po_value :: "json option"

record managed_diff =
  md_format :: string
  md_beforeSpecHash :: string
  md_afterSpecHash :: string
  md_content :: string

definition zeroOperation :: patch_operation where
  "zeroOperation = \<lparr>po_op = [], po_path = [], po_value = None\<rparr>"

definition zeroDiff :: managed_diff where
  "zeroDiff = \<lparr>md_format = [], md_beforeSpecHash = [], md_afterSpecHash = [], md_content = []\<rparr>"

text \<open>
  Decoding with \<open>DisallowUnknownFields\<close>: an unknown key or a value of the wrong kind is an
  error, a later member overwrites an earlier one, and \<open>value\<close> keeps any JSON text,
  \<open>null\<close> included.
\<close>

fun decodeOperation :: "(string \<times> json) list \<Rightarrow> patch_operation \<Rightarrow> patch_operation option" where
  "decodeOperation [] op = Some op"
| "decodeOperation ((k, v) # ms) op =
     (case matchField [''op'', ''path'', ''value''] k of
        None \<Rightarrow> None
      | Some f \<Rightarrow>
          if f = ''op'' then
            (case decodeStringField v (po_op op) of None \<Rightarrow> None
             | Some x \<Rightarrow> decodeOperation ms (op\<lparr>po_op := x\<rparr>))
          else if f = ''path'' then
            (case decodeStringField v (po_path op) of None \<Rightarrow> None
             | Some x \<Rightarrow> decodeOperation ms (op\<lparr>po_path := x\<rparr>))
          else decodeOperation ms (op\<lparr>po_value := Some v\<rparr>))"

fun decodeElement :: "json \<Rightarrow> patch_operation option" where
  "decodeElement (JObj ms) = decodeOperation ms zeroOperation"
| "decodeElement JNull = Some zeroOperation"
| "decodeElement _ = None"

fun decodeElements :: "json list \<Rightarrow> patch_operation list option" where
  "decodeElements [] = Some []"
| "decodeElements (v # vs) =
     (case decodeElement v of None \<Rightarrow> None
      | Some op \<Rightarrow> map_option ((#) op) (decodeElements vs))"

definition decodePatch :: "string \<Rightarrow> patch_operation list option" where
  "decodePatch s =
     (case jsonStrict s of
        Some (JArr vs) \<Rightarrow> decodeElements vs
      | Some JNull \<Rightarrow> Some []
      | _ \<Rightarrow> None)"

fun decodeDiffMembers :: "(string \<times> json) list \<Rightarrow> managed_diff \<Rightarrow> managed_diff option" where
  "decodeDiffMembers [] d = Some d"
| "decodeDiffMembers ((k, v) # ms) d =
     (case matchField [''format'', ''beforeSpecHash'', ''afterSpecHash'', ''content''] k of
        None \<Rightarrow> None
      | Some f \<Rightarrow>
          if f = ''format'' then
            (case decodeStringField v (md_format d) of None \<Rightarrow> None
             | Some x \<Rightarrow> decodeDiffMembers ms (d\<lparr>md_format := x\<rparr>))
          else if f = ''beforeSpecHash'' then
            (case decodeStringField v (md_beforeSpecHash d) of None \<Rightarrow> None
             | Some x \<Rightarrow> decodeDiffMembers ms (d\<lparr>md_beforeSpecHash := x\<rparr>))
          else if f = ''afterSpecHash'' then
            (case decodeStringField v (md_afterSpecHash d) of None \<Rightarrow> None
             | Some x \<Rightarrow> decodeDiffMembers ms (d\<lparr>md_afterSpecHash := x\<rparr>))
          else
            (case decodeStringField v (md_content d) of None \<Rightarrow> None
             | Some x \<Rightarrow> decodeDiffMembers ms (d\<lparr>md_content := x\<rparr>)))"

definition decodeDiff :: "string \<Rightarrow> managed_diff option" where
  "decodeDiff s =
     (case jsonStrict s of
        Some (JObj ms) \<Rightarrow> decodeDiffMembers ms zeroDiff
      | Some JNull \<Rightarrow> Some zeroDiff
      | _ \<Rightarrow> None)"

text \<open>The canonical encoding of the rollback spec; \<open>null\<close> leaves the Go map nil.\<close>

definition canonicalSpec :: "string \<Rightarrow> string option" where
  "canonicalSpec s =
     (case jsonStrict s of Some (JObj ms) \<Rightarrow> marshalAny (JObj ms) | _ \<Rightarrow> None)"

text \<open>One pass over the operations: the first error, or whether one of them mutates.\<close>

definition checkOperation :: "nat \<Rightarrow> patch_operation \<Rightarrow> managed_error + bool" where
  "checkOperation index operation =
     (if po_path operation \<noteq> ''/spec'' \<and> \<not> hasPrefix (po_path operation) ''/spec/''
      then Inl (OpOutsideSpec index)
      else if po_op operation = ''add'' \<or> po_op operation = ''replace'' then
        (if po_value operation = None then Inl (OpNeedsValue index) else Inr True)
      else if po_op operation = ''remove'' then
        (if po_value operation \<noteq> None then Inl (RemoveHasValue index) else Inr True)
      else if po_op operation = ''test'' then
        (if po_value operation = None then Inl (TestNeedsValue index) else Inr False)
      else Inl (UnsupportedOp index (po_op operation)))"

fun checkOperations :: "nat \<Rightarrow> bool \<Rightarrow> patch_operation list \<Rightarrow> managed_error + bool" where
  "checkOperations index mutating [] = Inr mutating"
| "checkOperations index mutating (operation # rest) =
     (case checkOperation index operation of
        Inl e \<Rightarrow> Inl e
      | Inr m \<Rightarrow> checkOperations (Suc index) (mutating \<or> m) rest)"

definition checkDiff :: "managed_diff \<Rightarrow> string \<Rightarrow> managed_error option" where
  "checkDiff diff canonical =
     (if md_format diff \<noteq> ''unified'' then Some DiffFormat
      else if \<not> validSHA256 (md_beforeSpecHash diff) \<or> \<not> validSHA256 (md_afterSpecHash diff)
        then Some DiffHashes
      else if \<not> equalFold (md_beforeSpecHash diff) (sha256Hex canonical)
        then Some RollbackHashMismatch
      else if equalFold (md_beforeSpecHash diff) (md_afterSpecHash diff) then Some HashesEqual
      else if \<not> strContains (md_content diff) ''--- '' \<or> \<not> strContains (md_content diff) ''+++ ''
          \<or> \<not> strContains (md_content diff) ''@@'' then Some DiffContent
      else None)"

definition validateManagedResourceChange :: "catalog_action \<Rightarrow> managed_error option" where
  "validateManagedResourceChange action =
     (let params = ca_params action in
      if blank (ca_apiVersion action) \<or> blank (ca_kind action)
         \<or> ca_apiVersion action = ''*'' \<or> ca_kind action = ''*'' then Some NotConcrete
      else if \<not> validDNSName (gval params ''managementController'') then Some BadController
      else if (case parseInt 64 (gval params ''sourceGeneration'') of
                 None \<Rightarrow> True | Some g \<Rightarrow> g < 1) then Some BadGeneration
      else if gval params ''patchType'' \<noteq> ManagedResourceJSONPatch then Some BadPatchType
      else (case decodePatch (gval params ''patch'') of
        None \<Rightarrow> Some PatchSyntax
      | Some operations \<Rightarrow>
          (case checkOperations 0 False operations of
             Inl e \<Rightarrow> Some e
           | Inr mutating \<Rightarrow>
               if \<not> mutating then Some NoMutation
               else (case canonicalSpec (gval params ''rollbackSourceSpec'') of
                  None \<Rightarrow> Some RollbackNotObject
                | Some canonical \<Rightarrow>
                    (case decodeDiff (gval params ''diff'') of
                       None \<Rightarrow> Some DiffSyntax
                     | Some diff \<Rightarrow> checkDiff diff canonical)))))"

subsection \<open>Validation\<close>

definition supports :: "catalog_def \<Rightarrow> string \<Rightarrow> string \<Rightarrow> bool" where
  "supports d apiVersion kind =
     list_ex (\<lambda>r. (rk_apiVersion r = ''*'' \<or> rk_apiVersion r = apiVersion)
                \<and> (rk_kind r = ''*'' \<or> rk_kind r = kind)) (cd_supportedResources d)"

definition validateParameters :: "catalog_def \<Rightarrow> catalog_action \<Rightarrow> catalog_error option" where
  "validateParameters d action =
     (case find (\<lambda>p. blank (gval (ca_params action) p)) (cd_requiredParameters d) of
        Some p \<Rightarrow> Some (MissingParameter (ca_type action) p)
      | None \<Rightarrow>
          (case (if cd_allowedParameters d \<noteq> []
                 then find (\<lambda>(p, _). p \<notin> set (cd_allowedParameters d)) (ca_params action)
                 else None) of
             Some (p, _) \<Rightarrow> Some (ParameterNotAllowed (ca_type action) p)
           | None \<Rightarrow>
               if ca_type action = ManagedResourceChangeAction
               then map_option ManagedChange (validateManagedResourceChange action)
               else None))"

definition ValidateProposal :: "catalog_action \<Rightarrow> catalog_error + catalog_def" where
  "ValidateProposal action =
     (case Lookup (ca_type action) of
        None \<Rightarrow> Inl (UnknownAction (ca_type action))
      | Some d \<Rightarrow>
          if \<not> supports d (ca_apiVersion action) (ca_kind action)
          then Inl (UnsupportedResource (ca_type action) (ca_apiVersion action) (ca_kind action))
          else if cd_strictParameters d then
            (case validateParameters d action of Some e \<Rightarrow> Inl e | None \<Rightarrow> Inr d)
          else Inr d)"

definition Validate :: "catalog_action \<Rightarrow> catalog_error + catalog_def" where
  "Validate action =
     (case ValidateProposal action of
        Inl e \<Rightarrow> Inl e
      | Inr d \<Rightarrow> (case validateParameters d action of Some e \<Rightarrow> Inl e | None \<Rightarrow> Inr d))"

definition ExecutionModeFor :: "catalog_action \<Rightarrow> execution_mode" where
  "ExecutionModeFor action =
     (case Lookup (ca_type action) of
        None \<Rightarrow> ModeProposal
      | Some d \<Rightarrow>
          if ca_type action = ''patch_workload_probes''
             \<and> gval (ca_params action) ''configured'' \<noteq> ''true'' then ModeProposal
          else cd_defaultExecutionMode d)"

subsection \<open>Facts about the registry and the checks\<close>

named_theorems catalog \<open>the columns of the registry\<close>

lemma apply_resource_governance_sel [catalog]:
  "cd_type def_apply_resource_governance = ''apply_resource_governance''" "cd_riskTier def_apply_resource_governance = RiskA"
  "cd_approvalRequired def_apply_resource_governance = False" "cd_defaultExecutionMode def_apply_resource_governance = ModeDirect"
  "cd_strictParameters def_apply_resource_governance = False"
  by (simp_all add: def_apply_resource_governance_def)

lemma patch_pod_security_labels_sel [catalog]:
  "cd_type def_patch_pod_security_labels = ''patch_pod_security_labels''" "cd_riskTier def_patch_pod_security_labels = RiskB"
  "cd_approvalRequired def_patch_pod_security_labels = True" "cd_defaultExecutionMode def_patch_pod_security_labels = ModeDirect"
  "cd_strictParameters def_patch_pod_security_labels = False"
  by (simp_all add: def_patch_pod_security_labels_def)

lemma patch_workload_resources_sel [catalog]:
  "cd_type def_patch_workload_resources = ''patch_workload_resources''" "cd_riskTier def_patch_workload_resources = RiskB"
  "cd_approvalRequired def_patch_workload_resources = True" "cd_defaultExecutionMode def_patch_workload_resources = ModeDirect"
  "cd_strictParameters def_patch_workload_resources = False"
  by (simp_all add: def_patch_workload_resources_def)

lemma create_pdb_sel [catalog]:
  "cd_type def_create_pdb = ''create_pdb''" "cd_riskTier def_create_pdb = RiskB"
  "cd_approvalRequired def_create_pdb = True" "cd_defaultExecutionMode def_create_pdb = ModeDirect"
  "cd_strictParameters def_create_pdb = False"
  by (simp_all add: def_create_pdb_def)

lemma patch_workload_probes_sel [catalog]:
  "cd_type def_patch_workload_probes = ''patch_workload_probes''" "cd_riskTier def_patch_workload_probes = RiskB"
  "cd_approvalRequired def_patch_workload_probes = True" "cd_defaultExecutionMode def_patch_workload_probes = ModeDirect"
  "cd_strictParameters def_patch_workload_probes = False"
  by (simp_all add: def_patch_workload_probes_def)

lemma review_managed_resource_finding_sel [catalog]:
  "cd_type def_review_managed_resource_finding = ''review_managed_resource_finding''" "cd_riskTier def_review_managed_resource_finding = RiskC"
  "cd_approvalRequired def_review_managed_resource_finding = True" "cd_defaultExecutionMode def_review_managed_resource_finding = ModeProposal"
  "cd_strictParameters def_review_managed_resource_finding = True"
  by (simp_all add: def_review_managed_resource_finding_def)

lemma propose_managed_resource_change_sel [catalog]:
  "cd_type def_propose_managed_resource_change = ''propose_managed_resource_change''" "cd_riskTier def_propose_managed_resource_change = RiskC"
  "cd_approvalRequired def_propose_managed_resource_change = True" "cd_defaultExecutionMode def_propose_managed_resource_change = ModeProposal"
  "cd_strictParameters def_propose_managed_resource_change = True"
  by (simp_all add: def_propose_managed_resource_change_def)

lemma explain_only_sel [catalog]:
  "cd_type def_explain_only = ''explain_only''" "cd_riskTier def_explain_only = RiskD"
  "cd_approvalRequired def_explain_only = True" "cd_defaultExecutionMode def_explain_only = ModeInformation"
  "cd_strictParameters def_explain_only = False"
  by (simp_all add: def_explain_only_def)

lemma proposal_sel [catalog]:
  "cd_type (proposal t r s) = t" "cd_riskTier (proposal t r s) = r"
  "cd_approvalRequired (proposal t r s) = True" "cd_defaultExecutionMode (proposal t r s) = ModeGitOps"
  "cd_strictParameters (proposal t r s) = False"
  by (simp_all add: proposal_def)


lemma Lookup_type: "Lookup t = Some d \<Longrightarrow> cd_type d = t"
  by (auto simp: Lookup_def definitions_def catalog split: if_splits)

lemma Lookup_tier: "Lookup t = Some d \<Longrightarrow> cd_riskTier d = RiskA \<longleftrightarrow> \<not> cd_approvalRequired d"
  by (auto simp: Lookup_def definitions_def catalog split: if_splits)

lemma Lookup_approval:
  "Lookup t = Some d \<Longrightarrow> \<not> cd_approvalRequired d \<Longrightarrow> d = def_apply_resource_governance"
  by (auto simp: Lookup_def definitions_def catalog split: if_splits)

lemma Lookup_direct: "Lookup t = Some d \<Longrightarrow> cd_defaultExecutionMode d = ModeDirect \<longleftrightarrow>
   t \<in> {''apply_resource_governance'', ''patch_pod_security_labels'',
        ''patch_workload_resources'', ''create_pdb'', ''patch_workload_probes''}"
  by (auto simp: Lookup_def definitions_def catalog split: if_splits)

lemma Lookup_direct_tier:
  "Lookup t = Some d \<Longrightarrow> cd_defaultExecutionMode d = ModeDirect \<longleftrightarrow> cd_riskTier d \<in> {RiskA, RiskB}"
  by (auto simp: Lookup_def definitions_def catalog split: if_splits)

lemma Lookup_direct_dom: "t \<in> {''apply_resource_governance'', ''patch_pod_security_labels'',
        ''patch_workload_resources'', ''create_pdb'', ''patch_workload_probes''} \<Longrightarrow> Lookup t \<noteq> None"
  by (auto simp: Lookup_def definitions_def)

lemma Lookup_change:
  "Lookup ManagedResourceChangeAction = Some def_propose_managed_resource_change"
  by (simp add: Lookup_def definitions_def ManagedResourceChangeAction_def)

lemma ValidateProposal_Inr: "ValidateProposal a = Inr d \<longleftrightarrow>
   Lookup (ca_type a) = Some d \<and> supports d (ca_apiVersion a) (ca_kind a) \<and>
   (cd_strictParameters d \<longrightarrow> validateParameters d a = None)"
  by (auto simp: ValidateProposal_def split: option.splits if_splits)

lemma Validate_Inr: "Validate a = Inr d \<longleftrightarrow>
   Lookup (ca_type a) = Some d \<and> supports d (ca_apiVersion a) (ca_kind a) \<and>
   validateParameters d a = None"
  by (auto simp: Validate_def ValidateProposal_Inr split: sum.splits option.splits)
    (auto simp: ValidateProposal_def split: option.splits if_splits)

lemma validateParameters_None: "validateParameters d a = None \<longleftrightarrow>
   (\<forall>p\<in>set (cd_requiredParameters d). \<not> blank (gval (ca_params a) p)) \<and>
   (cd_allowedParameters d \<noteq> [] \<longrightarrow> fst ` set (ca_params a) \<subseteq> set (cd_allowedParameters d)) \<and>
   (ca_type a = ManagedResourceChangeAction \<longrightarrow> validateManagedResourceChange a = None)"
proof (cases "find (\<lambda>p. blank (gval (ca_params a) p)) (cd_requiredParameters d)")
  case (Some p)
  then show ?thesis
    by (auto simp: validateParameters_def dest!: find_SomeD)
next
  case None
  then have req: "\<forall>p\<in>set (cd_requiredParameters d). \<not> blank (gval (ca_params a) p)"
    by (simp add: find_None_iff)
  show ?thesis
  proof (cases "find (\<lambda>(p, _). p \<notin> set (cd_allowedParameters d)) (ca_params a)")
    case bad: (Some pv)
    then obtain p v where "(p, v) \<in> set (ca_params a)" "p \<notin> set (cd_allowedParameters d)" "pv = (p, v)"
      by (cases pv) (auto dest!: find_SomeD)
    then have "\<not> fst ` set (ca_params a) \<subseteq> set (cd_allowedParameters d)" by force
    with None bad req \<open>pv = (p, v)\<close> show ?thesis by (simp add: validateParameters_def)
  next
    case ok: None
    then have "fst ` set (ca_params a) \<subseteq> set (cd_allowedParameters d)"
      by (auto dest: find_NoneD)
    with None ok req show ?thesis by (simp add: validateParameters_def)
  qed
qed

lemma supports_governance [simp]: "supports def_apply_resource_governance v k \<longleftrightarrow> v = ''v1'' \<and> k = ''Namespace''"
  by (auto simp: supports_def def_apply_resource_governance_def)

lemma ValidateProposal_no_approval:
  assumes "ValidateProposal a = Inr d" and "\<not> cd_approvalRequired d"
  shows "ca_type a = ''apply_resource_governance'' \<and> ca_apiVersion a = ''v1'' \<and> ca_kind a = ''Namespace''"
proof -
  from assms have "Lookup (ca_type a) = Some d" and sup: "supports d (ca_apiVersion a) (ca_kind a)"
    by (simp_all add: ValidateProposal_Inr)
  moreover from this assms(2) have d: "d = def_apply_resource_governance"
    by (simp add: Lookup_approval)
  ultimately have "ca_type a = cd_type def_apply_resource_governance"
    by (simp add: Lookup_type)
  with sup d show ?thesis by (simp add: catalog)
qed

text \<open>
  C7. Validation is exact: an action passes exactly when its type is registered, its target
  kind is supported by that entry, every required parameter is present and not blank, a closed
  parameter list admits every given parameter, and a managed-resource change passes its own
  check; the result is then the entry registered under the action's type.
\<close>

theorem Validate_exact:
  "Validate a = Inr d \<longleftrightarrow>
     Lookup (ca_type a) = Some d \<and> cd_type d = ca_type a \<and>
     supports d (ca_apiVersion a) (ca_kind a) \<and>
     list_all (\<lambda>p. \<not> blank (gval (ca_params a) p)) (cd_requiredParameters d) \<and>
     (cd_allowedParameters d = [] \<or> list_all (\<lambda>(p, _). p \<in> set (cd_allowedParameters d)) (ca_params a)) \<and>
     (if ca_type a = ManagedResourceChangeAction then validateManagedResourceChange a = None else True)"
  by (auto simp: Validate_Inr validateParameters_None list_all_iff dest: Lookup_type)

text \<open>
  C10. The actions that may be executed against the cluster are exactly the four always-direct
  types and a workload-probe action whose \<open>configured\<close> parameter is \<open>true\<close>; every other
  action, unknown ones included, is a proposal or informational.
\<close>

theorem ExecutionModeFor_direct_iff:
  "ExecutionModeFor a = ModeDirect \<longleftrightarrow>
     ca_type a \<in> {''apply_resource_governance'', ''patch_pod_security_labels'',
                   ''patch_workload_resources'', ''create_pdb''} \<or>
     (ca_type a = ''patch_workload_probes'' \<and> gval (ca_params a) ''configured'' = ''true'')"
  using Lookup_direct [of "ca_type a"] Lookup_direct_dom [of "ca_type a"]
  by (auto simp: ExecutionModeFor_def split: option.splits)

text \<open>
  The registry's safety columns agree: a registered action skips approval exactly when it
  is tier A, has a direct executor exactly when it is tier A or B, and the only such entry is
  resource governance.
\<close>

theorem registry_tiers:
  "list_all (\<lambda>(t, d). cd_type d = t \<and>
      ((\<not> cd_approvalRequired d) = (cd_riskTier d = RiskA)) \<and>
      ((cd_riskTier d = RiskA) = (t = ''apply_resource_governance'')) \<and>
      ((cd_defaultExecutionMode d = ModeDirect) = (cd_riskTier d \<in> {RiskA, RiskB}))) definitions
   \<and> distinct (map fst definitions)"
  by (simp add: definitions_def catalog)

text \<open>What the loop over the patch operations accepts.\<close>

definition operationAllowed :: "patch_operation \<Rightarrow> bool" where
  "operationAllowed op \<longleftrightarrow>
     (po_path op = ''/spec'' \<or> hasPrefix (po_path op) ''/spec/'') \<and>
     po_op op \<in> {''add'', ''replace'', ''remove'', ''test''} \<and>
     (po_value op = None \<longleftrightarrow> po_op op = ''remove'')"

lemma checkOperation_Inr: "checkOperation i op = Inr m \<longleftrightarrow> operationAllowed op \<and> m = (po_op op \<noteq> ''test'')"
  by (auto simp: checkOperation_def operationAllowed_def)

lemma checkOperations_Inr: "checkOperations i mu ops = Inr m \<longleftrightarrow>
   list_all operationAllowed ops \<and> m = (mu \<or> list_ex (\<lambda>op. po_op op \<noteq> ''test'') ops)"
proof (induction ops arbitrary: i mu)
  case Nil
  then show ?case by auto
next
  case (Cons op ops)
  show ?case
  proof (cases "checkOperation i op")
    case (Inl e)
    then have "\<not> operationAllowed op"
      using checkOperation_Inr [of i op "po_op op \<noteq> ''test''"] by auto
    with Inl show ?thesis by simp
  next
    case (Inr m')
    then show ?thesis using Cons checkOperation_Inr [of i op m'] by auto
  qed
qed

text \<open>
  C12. A managed-resource change that passes validation is a complete proposal on the spec
  only: its patch decodes to operations that all stay under /spec, carry a value exactly when
  they are not removals, and are not only tests; its diff carries two SHA-256 values, of which
  the first is the hash of the canonical rollback spec and differs from the second, and a
  unified diff text; its generation is positive and its controller is a DNS name.
\<close>

theorem managed_change_sound:
  assumes "validateManagedResourceChange a = None"
  shows "\<exists>ops canonical diff g.
     decodePatch (gval (ca_params a) ''patch'') = Some ops \<and>
     list_all operationAllowed ops \<and> list_ex (\<lambda>op. po_op op \<noteq> ''test'') ops \<and>
     canonicalSpec (gval (ca_params a) ''rollbackSourceSpec'') = Some canonical \<and>
     decodeDiff (gval (ca_params a) ''diff'') = Some diff \<and>
     validSHA256 (md_beforeSpecHash diff) \<and> validSHA256 (md_afterSpecHash diff) \<and>
     equalFold (md_beforeSpecHash diff) (sha256Hex canonical) \<and>
     \<not> equalFold (md_beforeSpecHash diff) (md_afterSpecHash diff) \<and>
     strContains (md_content diff) ''@@'' \<and>
     parseInt 64 (gval (ca_params a) ''sourceGeneration'') = Some g \<and> 1 \<le> g \<and>
     validDNSName (gval (ca_params a) ''managementController'') \<and>
     ca_apiVersion a \<noteq> ''*'' \<and> ca_kind a \<noteq> ''*''"
proof -
  from assms obtain ops where ops: "decodePatch (gval (ca_params a) ''patch'') = Some ops"
    and chk: "checkOperations 0 False ops = Inr True"
    by (auto simp: validateManagedResourceChange_def Let_def split: if_splits option.splits sum.splits)
  from assms ops chk obtain canonical diff where
    c: "canonicalSpec (gval (ca_params a) ''rollbackSourceSpec'') = Some canonical"
    and d: "decodeDiff (gval (ca_params a) ''diff'') = Some diff" and "checkDiff diff canonical = None"
    by (auto simp: validateManagedResourceChange_def Let_def split: if_splits option.splits)
  moreover from this(3) have "validSHA256 (md_beforeSpecHash diff)" "validSHA256 (md_afterSpecHash diff)"
    "equalFold (md_beforeSpecHash diff) (sha256Hex canonical)"
    "\<not> equalFold (md_beforeSpecHash diff) (md_afterSpecHash diff)" "strContains (md_content diff) ''@@''"
    by (auto simp: checkDiff_def split: if_splits)
  moreover from assms obtain g where "parseInt 64 (gval (ca_params a) ''sourceGeneration'') = Some g" "1 \<le> g"
    "validDNSName (gval (ca_params a) ''managementController'')" "ca_apiVersion a \<noteq> ''*''" "ca_kind a \<noteq> ''*''"
    by (auto simp: validateManagedResourceChange_def Let_def not_less split: if_splits option.splits)
  ultimately show ?thesis
    using ops chk by (auto simp: checkOperations_Inr)
qed

lemma asciiLower_id: "asciiAlphaNumeric c \<or> c = CHR ''-'' \<or> c = CHR ''.'' \<Longrightarrow> asciiLower c = c"
  by (auto simp: asciiLower_def asciiAlphaNumeric_def less_eq_char_def)

lemma not_alphaNumeric [simp]:
  "\<not> asciiAlphaNumeric CHR 0xE2" "\<not> asciiAlphaNumeric CHR 0xC4" "\<not> asciiAlphaNumeric CHR ''-''"
  by (simp_all add: asciiAlphaNumeric_def)

lemma toLower_id: "list_all (\<lambda>c. asciiAlphaNumeric c \<or> c = CHR ''-'' \<or> c = CHR ''.'') s \<Longrightarrow> toLower s = s"
  by (induction s rule: toLower.induct) (auto simp: asciiLower_id)

lemma validLabel_chars:
  assumes "validLabel l" shows "list_all (\<lambda>c. asciiAlphaNumeric c \<or> c = CHR ''-'') l"
proof -
  from assms have ne: "l \<noteq> []" by (simp add: validLabel_def)
  show ?thesis
  proof (cases "tl l = []")
    case True
    then obtain c where "l = [c]" using ne by (cases l) auto
    then show ?thesis using assms by (simp add: validLabel_def)
  next
    case False
    then have "l = hd l # butlast (tl l) @ [last l]" using ne by (cases l) auto
    then have "set l \<subseteq> {hd l, last l} \<union> set (butlast (tl l))"
      by (metis Un_insert_left insert_is_Un list.simps(15) order_refl set_append sup_commute empty_set)
    then show ?thesis
      using assms by (auto simp: validLabel_def list_all_iff)
  qed
qed

lemma splitOn_chars:
  "list_all (list_all P) (splitOn c s) \<Longrightarrow> list_all (\<lambda>x. P x \<or> x = c) s"
  by (induction s) (auto split: if_splits list.splits)

text \<open>
  The name check is the RFC 1123 one: non-empty, at most 253 bytes, dot-separated labels
  of 1 to 63 lower-case alphanumerics or hyphens that neither start nor end with a hyphen; the
  comparison with the lower-cased name rejects nothing more.
\<close>

theorem validDNSName_iff:
  "validDNSName v \<longleftrightarrow> v \<noteq> [] \<and> length v \<le> 253 \<and>
     list_all (\<lambda>l. l \<noteq> [] \<and> length l \<le> 63 \<and>
        list_all (\<lambda>c. asciiAlphaNumeric c \<or> c = CHR ''-'') l \<and>
        hd l \<noteq> CHR ''-'' \<and> last l \<noteq> CHR ''-'') (splitOn CHR ''.'' v)"
proof -
  have lab: "validLabel l \<longleftrightarrow> l \<noteq> [] \<and> length l \<le> 63 \<and>
      list_all (\<lambda>c. asciiAlphaNumeric c \<or> c = CHR ''-'') l \<and> hd l \<noteq> CHR ''-'' \<and> last l \<noteq> CHR ''-''" for l
  proof
    assume v: "validLabel l"
    then show "l \<noteq> [] \<and> length l \<le> 63 \<and>
        list_all (\<lambda>c. asciiAlphaNumeric c \<or> c = CHR ''-'') l \<and> hd l \<noteq> CHR ''-'' \<and> last l \<noteq> CHR ''-''"
      using validLabel_chars [OF v] by (auto simp: validLabel_def)
  next
    assume a: "l \<noteq> [] \<and> length l \<le> 63 \<and>
        list_all (\<lambda>c. asciiAlphaNumeric c \<or> c = CHR ''-'') l \<and> hd l \<noteq> CHR ''-'' \<and> last l \<noteq> CHR ''-''"
    then have "set (butlast (tl l)) \<subseteq> set l" by (cases l) (auto dest: in_set_butlastD)
    with a show "validLabel l" by (auto simp: validLabel_def list_all_iff)
  qed
  have low: "toLower v = v" if "list_all validLabel (splitOn CHR ''.'' v)"
  proof -
    have "list_all (list_all (\<lambda>c. asciiAlphaNumeric c \<or> c = CHR ''-'')) (splitOn CHR ''.'' v)"
      using that by (auto simp: list_all_iff dest: validLabel_chars [unfolded list_all_iff])
    from toLower_id [of v] splitOn_chars [OF this] show ?thesis by (simp add: disj_assoc)
  qed
  show ?thesis
    using low by (auto simp: validDNSName_def lab [symmetric])
qed

text \<open>
  The listing of the registry returns every entry once, in strictly increasing order of
  the action type.
\<close>

theorem AllDefinitions_sorted:
  "sorted_wrt (<) (map cd_type AllDefinitions) \<and> mset AllDefinitions = mset (map snd definitions)
   \<and> length AllDefinitions = 10"
proof -
  have ord: "sorted_wrt (\<lambda>x y. \<not> cd_type y < cd_type x) AllDefinitions"
    unfolding AllDefinitions_def by (rule by_key.ordered_sortSlice)
  have ms: "mset AllDefinitions = mset (map snd definitions)"
    by (simp add: AllDefinitions_def)
  have "distinct (map cd_type (map snd definitions))"
    by (simp add: definitions_def catalog)
  then have "distinct (map cd_type AllDefinitions)"
    using ms by (metis mset_map mset_eq_imp_distinct_iff)
  moreover have "sorted (map cd_type AllDefinitions)"
    using ord by (simp add: sorted_wrt_map not_less)
  ultimately have "sorted_wrt (<) (map cd_type AllDefinitions)"
    by (simp add: strict_sorted_iff)
  moreover have "length AllDefinitions = 10"
    using arg_cong [OF ms, of size] by (simp add: definitions_def)
  ultimately show ?thesis using ms by blast
qed

text \<open>
  An instance: remove one field, roll back to the empty spec.  The hash of the rollback spec
  is kept symbolic, and the hash of the result is one of two constants, whichever differs.
\<close>

lemma validSHA256_sha256Hex: "validSHA256 (sha256Hex m)"
  using hexDecode_valid [OF isHex_hexEncode, of "sha256 m" 32]
  by (auto simp: validSHA256_def sha256Hex_def)

definition sample_change :: "string \<Rightarrow> string \<Rightarrow> catalog_action" where
  "sample_change before after =
     \<lparr>ca_type = ManagedResourceChangeAction, ca_apiVersion = ''iam/v1'', ca_kind = ''Role'',
      ca_params =
        [(''managementController'', ''iam''), (''sourceGeneration'', ''1''),
         (''patchType'', ManagedResourceJSONPatch),
         (''patch'', ''[{\"op\":\"remove\",\"path\":\"/spec/a\"}]''), (''rollbackSourceSpec'', ''{}''),
         (''diff'', ''{\"format\":\"unified\",\"beforeSpecHash\":\"'' @ before @
            ''\",\"afterSpecHash\":\"'' @ after @ ''\",\"content\":\"--- +++ @@\"}'')]\<rparr>"

lemma sample_patch:
  "decodePatch ''[{\"op\":\"remove\",\"path\":\"/spec/a\"}]''
    = Some [\<lparr>po_op = ''remove'', po_path = ''/spec/a'', po_value = None\<rparr>]"
  by (simp add: decodePatch_def json_eval zeroOperation_def)

lemma sample_spec: "canonicalSpec ''{}'' = Some ''{}''"
  by (simp add: canonicalSpec_def json_eval sortedMembers_def sortSlice_def)

lemma sample_diff:
  assumes "list_all isHex b" "list_all isHex a" "length b = 64" "length a = 64"
  shows "decodeDiff (''{\"format\":\"unified\",\"beforeSpecHash\":\"'' @ b @
            ''\",\"afterSpecHash\":\"'' @ a @ ''\",\"content\":\"--- +++ @@\"}'')
    = Some \<lparr>md_format = ''unified'', md_beforeSpecHash = b, md_afterSpecHash = a,
            md_content = ''--- +++ @@''\<rparr>"
  using assms(3,4) parseStr_hex [OF assms(1)] parseStr_hex [OF assms(2)]
  by (simp add: decodeDiff_def json_eval zeroDiff_def)

lemma sample_change_valid:
  assumes "list_all isHex a" "length a = 64" "\<not> equalFold (sha256Hex ''{}'') a"
  shows "validateManagedResourceChange (sample_change (sha256Hex ''{}'') a) = None"
proof -
  have h: "list_all isHex (sha256Hex ''{}'')" by (simp add: sha256Hex_def isHex_hexEncode)
  have va: "validSHA256 a"
    using hexDecode_valid [OF assms(1), of 32] assms(2) by (auto simp: validSHA256_def)
  have dns: "validDNSName ''iam''"
    by (simp add: validDNSName_def asciiLower_def validLabel_def asciiAlphaNumeric_def)
  have gen: "parseInt 64 ''1'' = Some 1"
    by (simp add: parseInt_def isDigit_def digitsVal_def)
  have nb: "\<not> blank ''iam/v1''" "\<not> blank ''Role''"
    by (simp_all add: trimSpace_def stripLeft_first stripRight_def stripLeft.simps spaceEncodings_def hasPrefix_def)
  show ?thesis
    using assms(3) sample_diff [OF h assms(1) length_sha256Hex assms(2)]
    by (simp add: validateManagedResourceChange_def sample_change_def gval_def nb dns gen sample_patch
        sample_spec checkOperation_def hasPrefix_def checkDiff_def validSHA256_sha256Hex va)
qed

theorem managed_change_sound_witness:
  "\<exists>a. validateManagedResourceChange a = None \<and>
     (\<exists>ops canonical diff g.
     decodePatch (gval (ca_params a) ''patch'') = Some ops \<and>
     list_all operationAllowed ops \<and> list_ex (\<lambda>op. po_op op \<noteq> ''test'') ops \<and>
     canonicalSpec (gval (ca_params a) ''rollbackSourceSpec'') = Some canonical \<and>
     decodeDiff (gval (ca_params a) ''diff'') = Some diff \<and>
     equalFold (md_beforeSpecHash diff) (sha256Hex canonical) \<and>
     parseInt 64 (gval (ca_params a) ''sourceGeneration'') = Some g \<and> 1 \<le> g)"
proof -
  let ?zeros = "replicate 64 CHR ''0''"
  let ?ones = "replicate 64 CHR ''1''"
  have ne: "\<not> equalFold ?zeros ?ones"
    by (simp add: equalFold_def numeral_eq_Suc asciiLower_def)
  define a where "a = (if equalFold (sha256Hex ''{}'') ?zeros then ?ones else ?zeros)"
  have "\<not> equalFold (sha256Hex ''{}'') a"
    using ne by (auto simp: a_def equalFold_def)
  moreover have "list_all isHex a" "length a = 64"
    by (auto simp: a_def list_all_iff isHex_def isDigit_def)
  ultimately have valid: "validateManagedResourceChange (sample_change (sha256Hex ''{}'') a) = None"
    by (intro sample_change_valid)
  then show ?thesis
    using managed_change_sound [OF valid] by blast
qed

end
