(* ===== verification/CoreTypes.thy ===== *)
theory CoreTypes
  imports Go_Prelude ActionCatalog
begin

text \<open>
  The data model of the API service, \<open>services/api/internal/core/types.go\<close>.  A Go struct is
  a record; a Go string type with constants is a datatype with one constructor for each
  constant and one for any other string; an optional pointer is an option.
\<close>

datatype severity =
    SeverityCritical | SeverityHigh | SeverityMedium | SeverityLow | SeverityInfo
  | SeverityOther string

fun severityString :: "severity \<Rightarrow> string" where
  "severityString SeverityCritical = ''critical''"
| "severityString SeverityHigh = ''high''"
| "severityString SeverityMedium = ''medium''"
| "severityString SeverityLow = ''low''"
| "severityString SeverityInfo = ''info''"
| "severityString (SeverityOther s) = s"

datatype finding_status =
    FindingOpen | FindingInReview | FindingRemediating | FindingResolved | FindingSuppressed
  | FindingExpired | FindingOther string

fun findingStatusString :: "finding_status \<Rightarrow> string" where
  "findingStatusString FindingOpen = ''open''"
| "findingStatusString FindingInReview = ''in_review''"
| "findingStatusString FindingRemediating = ''remediating''"
| "findingStatusString FindingResolved = ''resolved''"
| "findingStatusString FindingSuppressed = ''suppressed''"
| "findingStatusString FindingExpired = ''expired''"
| "findingStatusString (FindingOther s) = s"

datatype fixability =
    FixabilityDeterministic | FixabilityGated | FixabilityHumanOnly | FixabilityInformational
  | FixabilityOther string

fun fixabilityString :: "fixability \<Rightarrow> string" where
  "fixabilityString FixabilityDeterministic = ''safe_deterministic''"
| "fixabilityString FixabilityGated = ''dry_run_then_gated''"
| "fixabilityString FixabilityHumanOnly = ''human_approved_only''"
| "fixabilityString FixabilityInformational = ''informational_no_fix''"
| "fixabilityString (FixabilityOther s) = s"

datatype approval_status =
    ApprovalPending | ApprovalApproved | ApprovalRejected | ApprovalExpired
  | ApprovalOther string

datatype run_state =
    RunPendingApproval | RunPrepared | RunApproved | RunExecutionRequested | RunProposalOnly
  | RunDryRunPassed | RunRunning | RunVerifying | RunRollbackRequested | RunSucceeded
  | RunFailed | RunRolledBack | RunOther string

fun runStateString :: "run_state \<Rightarrow> string" where
  "runStateString RunPendingApproval = ''pending_approval''"
| "runStateString RunPrepared = ''prepared''"
| "runStateString RunApproved = ''approved''"
| "runStateString RunExecutionRequested = ''execution_requested''"
| "runStateString RunProposalOnly = ''proposal_only''"
| "runStateString RunDryRunPassed = ''dry_run_passed''"
| "runStateString RunRunning = ''running''"
| "runStateString RunVerifying = ''verifying''"
| "runStateString RunRollbackRequested = ''rollback_requested''"
| "runStateString RunSucceeded = ''succeeded''"
| "runStateString RunFailed = ''failed''"
| "runStateString RunRolledBack = ''rolled_back''"
| "runStateString (RunOther s) = s"

record resource_ref =
  rr_apiVersion :: string
  rr_kind :: string
  rr_namespace :: string
  rr_name :: string

definition resourceString :: "resource_ref \<Rightarrow> string" where
  "resourceString r =
     (if rr_namespace r = '''' then rr_kind r @ ''/'' @ rr_name r
      else rr_kind r @ ''/'' @ rr_namespace r @ ''/'' @ rr_name r)"

record evidence =
  ev_summary :: string
  ev_details :: string
  ev_sourceID :: string
  ev_observedAt :: gotime

record correlation_keys =
  ck_workload :: string
  ck_namespace :: string
  ck_identity :: string
  ck_networkExposure :: string
  ck_image :: string

record risk_factor =
  rf_name :: string
  rf_points :: int
  rf_reason :: string

record risk_explanation =
  re_version :: string
  re_baseScore :: int
  re_factors :: "risk_factor list"
  re_finalScore :: int

record finding =
  f_id :: string
  f_source :: string
  f_title :: string
  f_severity :: severity
  f_evidence :: "evidence list"
  f_resources :: "resource_ref list"
  f_blastRadius :: string
  f_fixability :: fixability
  f_status :: finding_status
  f_correlationGroup :: string
  f_correlationKeys :: correlation_keys
  f_riskScore :: int
  f_riskExplanation :: risk_explanation
  f_remediationState :: string
  f_recommendedAction :: string
  f_createdAt :: gotime
  f_updatedAt :: gotime

record typed_action =
  ta_type :: string
  ta_target :: resource_ref
  ta_description :: string
  ta_params :: "(string, string) gomap"

record dry_run_result =
  dr_passed :: bool
  dr_message :: string

record approval_policy =
  ap_required :: bool
  ap_decision :: approval_status
  ap_categories :: "string list"

record ai_analysis =
  ai_provider :: string
  ai_model :: string
  ai_mode :: string
  ai_summary :: string
  ai_rootCause :: string
  ai_impact :: string
  ai_recommendedAction :: string
  ai_confidence :: string
  ai_safetyNotes :: "string list"
  ai_autonomousPolicy :: string
  ai_generatedAt :: gotime

record remediation_plan =
  p_id :: string
  p_catalogVersion :: string
  p_findingID :: string
  p_rootCause :: string
  p_actions :: "typed_action list"
  p_riskTier :: risk_tier
  p_dryRunResult :: dry_run_result
  p_verificationSteps :: "string list"
  p_rollbackSteps :: "string list"
  p_approvalPolicy :: approval_policy
  p_ai :: "ai_analysis option"
  p_status :: string
  p_createdAt :: gotime

record evidence_citation =
  ec_sourceID :: string
  ec_summary :: string
  ec_resource :: string
  ec_observedAt :: gotime

record remediation_preview =
  pv_findingID :: string
  pv_summary :: string
  pv_candidate :: remediation_plan
  pv_evidenceCitations :: "evidence_citation list"
  pv_promptEvidenceHash :: string
  pv_deterministicFallback :: bool
  pv_ai :: "ai_analysis option"
  pv_safetyNotes :: "string list"
  pv_generatedAt :: gotime

text \<open>The text of a planned diff, or the catalogue error whose message it carries.\<close>

datatype diff_text = DiffText string | DiffError catalog_error

record planned_manifest =
  pm_actionType :: string
  pm_target :: resource_ref
  pm_writeMode :: string
  pm_riskTier :: string
  pm_approvalRequired :: bool
  pm_requiredPermissions :: "string list"
  pm_verificationChecks :: "string list"
  pm_rollbackProcedure :: "string list"
  pm_idempotencyBehavior :: string
  pm_failureHandling :: string
  pm_diff :: diff_text
  pm_manifest :: string

record remediation_diff =
  rd_planID :: string
  rd_mode :: string
  rd_summary :: string
  rd_manifests :: "planned_manifest list"

record approval_request =
  a_id :: string
  a_subjectRef :: string
  a_requestedAction :: string
  a_requester :: string
  a_approver :: string
  a_status :: approval_status
  a_expiresAt :: gotime
  a_createdAt :: gotime
  a_updatedAt :: gotime
  a_decisionReason :: string

record action_status =
  as_actionType :: string
  as_state :: string
  as_message :: string

record remediation_run =
  r_id :: string
  r_planID :: string
  r_state :: run_state
  r_actionStatuses :: "action_status list"
  r_validationResult :: string
  r_rollbackMetadata :: string
  r_createdAt :: gotime
  r_updatedAt :: gotime

datatype chaos_status =
    ChaosPreflightValidated | ChaosPendingApproval | ChaosApproved | ChaosExecutionRequested
  | ChaosRunning | ChaosCleanupRequested | ChaosAbortRequested | ChaosVerifying
  | ChaosSucceeded | ChaosFailed | ChaosRejected | ChaosAborted | ChaosExpired

record chaos_run =
  c_id :: string
  c_experimentID :: string
  c_status :: chaos_status
  c_message :: string
  c_manifest :: string
  c_resource :: resource_ref
  c_targetSelector :: "(string, string) gomap"
  c_targetCount :: int
  c_durationSeconds :: int
  c_requestedBy :: string
  c_approvedBy :: string
  c_approvalReason :: string
  c_abortedBy :: string
  c_failureReason :: string
  c_recoveryStatus :: string
  c_recoveryMessage :: string
  c_attemptCount :: int
  c_version :: int
  c_createdAt :: gotime
  c_updatedAt :: gotime
  c_approvalExpiresAt :: "gotime option"
  c_injectionDeadline :: "gotime option"
  c_startedAt :: "gotime option"
  c_finishedAt :: "gotime option"
  c_cleanupDeadline :: "gotime option"
  c_recoveryDeadline :: "gotime option"

record exception_rec =
  x_id :: string
  x_scope :: string
  x_owner :: string
  x_reason :: string
  x_expiresAt :: gotime
  x_auditMetadata :: string
  x_status :: string
  x_createdAt :: gotime
  x_updatedAt :: gotime

record audit_event =
  ae_id :: string
  ae_actor :: string
  ae_action :: string
  ae_subject :: string
  ae_message :: string
  ae_createdAt :: gotime

record evidence_bundle =
  eb_scope :: string
  eb_generatedAt :: gotime
  eb_summary :: "(string, int) gomap"
  eb_findings :: "finding list"
  eb_plans :: "remediation_plan list"
  eb_runs :: "remediation_run list"
  eb_chaosRuns :: "chaos_run list"
  eb_auditEvents :: "audit_event list"

record secret_ref =
  sr_name :: string
  sr_key :: string

record external_secret_ref =
  xr_store :: string
  xr_path :: string
  xr_key :: string

record model_provider =
  mp_name :: string
  mp_type :: string
  mp_model :: string
  mp_apiKeySecretRef :: "secret_ref option"
  mp_externalSecretRef :: "external_secret_ref option"

record integration_rec =
  in_name :: string
  in_type :: string
  in_enabled :: bool
  in_status :: string

record integration_health =
  ih_name :: string
  ih_type :: string
  ih_enabled :: bool
  ih_status :: string
  ih_health :: string
  ih_dataLastSeen :: string
  ih_permissions :: "string list"
  ih_supportedVersions :: "string list"
  ih_setupGaps :: "string list"
  ih_errorState :: string
  ih_findingsCount :: int
  ih_checkedAt :: gotime

text \<open>
  The part of the dashboard that the store computes; the mean score is kept as the pair of
  total and count whose quotient the code takes.
\<close>

record dashboard =
  db_totalFindings :: int
  db_openCritical :: int
  db_pendingApprovals :: int
  db_activeRemediations :: int
  db_verifiedRemediations :: int
  db_findingsWithSafeFix :: int
  db_riskReduced :: int
  db_evidenceFreshness :: string
  db_meanRiskScore :: "(int \<times> int) option"
  db_findingsBySeverity :: "(string, int) gomap"
  db_findingsBySource :: "(string, int) gomap"
  db_remediationByState :: "(string, int) gomap"
  db_protectedNamespaces :: int
  db_bundledEnginesOnline :: int

text \<open>The order of the tiers, by which the store picks the highest tier of a plan.\<close>

fun tierRank :: "risk_tier \<Rightarrow> nat" where
  "tierRank RiskA = 1"
| "tierRank RiskB = 2"
| "tierRank RiskC = 3"
| "tierRank RiskD = 4"

lemma tierRank_inj: "tierRank a = tierRank b \<Longrightarrow> a = b"
  by (cases a; cases b) auto

instantiation risk_tier :: linorder
begin

definition less_eq_risk_tier :: "risk_tier \<Rightarrow> risk_tier \<Rightarrow> bool" where
  "less_eq_risk_tier a b \<longleftrightarrow> tierRank a \<le> tierRank b"

definition less_risk_tier :: "risk_tier \<Rightarrow> risk_tier \<Rightarrow> bool" where
  "less_risk_tier a b \<longleftrightarrow> tierRank a < tierRank b"

instance
  by standard (auto simp: less_eq_risk_tier_def less_risk_tier_def dest: tierRank_inj)

end

subsection \<open>A sample finding\<close>

text \<open>A finding on a workload of the namespace \<open>shop\<close>, at which the theorems are instantiated.\<close>

definition sample_finding :: "string \<Rightarrow> string \<Rightarrow> finding" where
  "sample_finding kind title =
     \<lparr>f_id = ''f1'', f_source = ''native'', f_title = title, f_severity = SeverityMedium, f_evidence = [],
      f_resources = [\<lparr>rr_apiVersion = ''apps/v1'', rr_kind = kind, rr_namespace = ''shop'', rr_name = ''web''\<rparr>],
      f_blastRadius = '''', f_fixability = FixabilityGated, f_status = FindingOpen,
      f_correlationGroup = '''',
      f_correlationKeys = \<lparr>ck_workload = '''', ck_namespace = '''', ck_identity = '''',
        ck_networkExposure = '''', ck_image = ''''\<rparr>,
      f_riskScore = 50,
      f_riskExplanation = \<lparr>re_version = '''', re_baseScore = 0, re_factors = [], re_finalScore = 0\<rparr>,
      f_remediationState = '''', f_recommendedAction = '''', f_createdAt = 1, f_updatedAt = 1\<rparr>"

end
