(* ===== verification/PlanBuilder.thy ===== *)
theory PlanBuilder
  imports Go_Prelude Sha256 ActionCatalog CoreTypes
begin

text \<open>
  How the API turns a finding into a remediation plan, its preview and its diff: the pure
  functions of \<open>services/api/internal/store/store.go\<close> that both repositories share.
\<close>

abbreviation nul :: string where "nul \<equiv> [CHR 0x00]"

definition unlines :: "string list \<Rightarrow> string" where
  "unlines ls = concat (map (\<lambda>l. l @ [CHR 0x0A]) ls)"

subsection \<open>Identifiers\<close>

definition replaceSeparators :: "string \<Rightarrow> string" where
  "replaceSeparators s =
     map (\<lambda>c. if c = CHR '' '' \<or> c = CHR ''_'' \<or> c = CHR ''/'' then CHR ''-'' else c) s"

definition safeID :: "string \<Rightarrow> string" where
  "safeID value = trimChar CHR ''-'' (replaceSeparators (toLower value))"

definition IdempotentPlanID :: "string \<Rightarrow> string \<Rightarrow> string \<Rightarrow> string" where
  "IdempotentPlanID findingID requester key =
     (let hash = sha256Hex (requester @ nul @ key @ nul @ findingID);
          prefix0 = safeID findingID;
          prefix = (if length prefix0 > 36 then trimChar CHR ''-'' (take 36 prefix0) else prefix0)
      in ''plan-'' @ prefix @ ''-'' @ take 12 hash)"

definition first_key :: "string list \<Rightarrow> string" where
  "first_key values = (case values of [] \<Rightarrow> '''' | v # _ \<Rightarrow> v)"

subsection \<open>Targets and actions\<close>

definition defaultTarget :: resource_ref where
  "defaultTarget = \<lparr>rr_apiVersion = ''v1'', rr_kind = ''Namespace'', rr_namespace = '''', rr_name = ''default''\<rparr>"

definition namespaceTarget :: "resource_ref \<Rightarrow> resource_ref" where
  "namespaceTarget target =
     (if rr_kind target = ''Namespace'' then
        \<lparr>rr_apiVersion = ''v1'', rr_kind = ''Namespace'', rr_namespace = '''', rr_name = rr_name target\<rparr>
      else if rr_namespace target \<noteq> '''' then
        \<lparr>rr_apiVersion = ''v1'', rr_kind = ''Namespace'', rr_namespace = '''', rr_name = rr_namespace target\<rparr>
      else target)"

text \<open>Both branches of the source return the target unchanged.\<close>

definition workloadTarget :: "resource_ref \<Rightarrow> resource_ref" where
  "workloadTarget target = target"

definition isWorkloadTarget :: "resource_ref \<Rightarrow> bool" where
  "isWorkloadTarget target \<longleftrightarrow>
     rr_apiVersion target = ''apps/v1'' \<and>
     (rr_kind target = ''Deployment'' \<or> rr_kind target = ''StatefulSet'' \<or> rr_kind target = ''DaemonSet'')"

definition containsAny :: "string \<Rightarrow> string list \<Rightarrow> bool" where
  "containsAny text words = list_ex (strContains text) words"

definition actionKey :: "typed_action \<Rightarrow> string" where
  "actionKey action = ta_type action @ ''|'' @ resourceString (ta_target action)"

definition dedupeActions :: "typed_action list \<Rightarrow> typed_action list" where
  "dedupeActions actions = dedupeBy actionKey [] actions"

definition findingText :: "finding \<Rightarrow> string" where
  "findingText f = toLower (f_id f @ '' '' @ f_title f @ '' '' @ f_blastRadius f @ '' '' @ f_recommendedAction f)"

definition findingTarget :: "finding \<Rightarrow> resource_ref" where
  "findingTarget f = (case f_resources f of [] \<Rightarrow> defaultTarget | r # _ \<Rightarrow> r)"

definition isManagedFinding :: "finding \<Rightarrow> bool" where
  "isManagedFinding f \<longleftrightarrow>
     hasPrefix (toLower (f_source f)) ''managed-resource''
     \<or> strContains (findingText f) ''kubernetes-managed external resource''"

definition managedReviewAction :: "finding \<Rightarrow> typed_action" where
  "managedReviewAction f =
     (let system0 = trimPrefix (ck_identity (f_correlationKeys f)) ''managed-resource:'';
          managementSystem = (if system0 = '''' then ''unknown'' else system0)
      in \<lparr>ta_type = ManagedResourceReviewAction, ta_target = findingTarget f,
          ta_description = ''Review the managed-resource flaw and its authoritative source; an exact change requires a separate trusted proposal'',
          ta_params = [(''findingId'', f_id f), (''managementSystem'', managementSystem),
            (''sourceOfTruth'', ''owning Kubernetes controller resource or upstream GitOps repository'')]\<rparr>)"

definition governanceAction :: "resource_ref \<Rightarrow> typed_action" where
  "governanceAction target =
     \<lparr>ta_type = ''apply_resource_governance'', ta_target = namespaceTarget target,
      ta_description = ''Apply scoped ResourceQuota and LimitRange defaults'',
      ta_params = [(''quotaProfile'', ''team-defaults''), (''dryRun'', ''required'')]\<rparr>"

definition podSecurityAction :: "resource_ref \<Rightarrow> typed_action" where
  "podSecurityAction target =
     \<lparr>ta_type = ''patch_pod_security_labels'', ta_target = namespaceTarget target,
      ta_description = ''Patch namespace Pod Security admission labels after tier validation'',
      ta_params = [(''enforce'', ''baseline''), (''audit'', ''restricted''), (''dryRun'', ''required'')]\<rparr>"

definition probesAction :: "resource_ref \<Rightarrow> typed_action" where
  "probesAction target =
     \<lparr>ta_type = ''patch_workload_probes'', ta_target = workloadTarget target,
      ta_description = ''Prepare readiness and liveness probe patches behind approval'',
      ta_params = [(''configured'', ''false''), (''dryRun'', ''required'')]\<rparr>"

definition resourcesAction :: "resource_ref \<Rightarrow> typed_action" where
  "resourcesAction target =
     \<lparr>ta_type = ''patch_workload_resources'', ta_target = workloadTarget target,
      ta_description = ''Prepare bounded workload resource defaults or recommendation-only image pinning guidance'',
      ta_params = [(''cpuRequest'', ''100m''), (''memoryRequest'', ''128Mi''), (''cpuLimit'', ''500m''),
        (''memoryLimit'', ''512Mi''), (''dryRun'', ''required'')]\<rparr>"

definition pdbAction :: "resource_ref \<Rightarrow> typed_action" where
  "pdbAction target =
     \<lparr>ta_type = ''create_pdb'', ta_target = workloadTarget target,
      ta_description = ''Create a scoped PodDisruptionBudget for replicated workloads after approval'',
      ta_params = [(''minAvailable'', ''1''), (''dryRun'', ''required'')]\<rparr>"

definition networkAction :: "resource_ref \<Rightarrow> typed_action" where
  "networkAction target =
     \<lparr>ta_type = ''propose_network_policy'', ta_target = namespaceTarget target,
      ta_description = ''Prepare default-deny and explicit allow NetworkPolicy manifests for review or GitOps PR'',
      ta_params = [(''mode'', ''proposal''), (''requiresApproval'', ''true'')]\<rparr>"

definition fallbackAction :: "finding \<Rightarrow> resource_ref \<Rightarrow> typed_action" where
  "fallbackAction f target =
     \<lparr>ta_type = (if f_fixability f = FixabilityHumanOnly then ''propose_security_hardening'' else ''explain_only''),
      ta_target = target,
      ta_description =
        (if f_fixability f = FixabilityHumanOnly
         then ''Prepare network, RBAC, and image trust patches for explicit approval''
         else ''Document finding and require human triage''),
      ta_params = [(''findingId'', f_id f), (''dryRun'', ''required'')]\<rparr>"

definition matchedActions :: "finding \<Rightarrow> typed_action list" where
  "matchedActions f =
     (let target = findingTarget f; text = findingText f; workload = isWorkloadTarget target in
      (if containsAny text [''resourcequota'', ''limitrange'', ''resource governance'', ''resources'']
       then [governanceAction target] else []) @
      (if containsAny text [''pod security'', ''privileged pod security''] then [podSecurityAction target] else []) @
      (if workload \<and> containsAny text [''readiness'', ''liveness'', ''probe''] then [probesAction target] else []) @
      (if workload \<and> containsAny text [''requests'', ''limits'', ''mutable image''] then [resourcesAction target] else []) @
      (if workload \<and> containsAny text [''pdb'', ''poddisruptionbudget'', ''disruption''] then [pdbAction target] else []) @
      (if containsAny text [''networkpolicy'', ''loadbalancer'', ''nodeport'', ''externalip'', ''ingress'']
       then [networkAction target] else []))"

definition typedActionsForFinding :: "finding \<Rightarrow> typed_action list" where
  "typedActionsForFinding f =
     (if isManagedFinding f then [managedReviewAction f]
      else
        (let actions = matchedActions f
         in dedupeActions (if actions = [] then [fallbackAction f (findingTarget f)] else actions)))"

subsection \<open>Plans\<close>

definition catalogAction :: "typed_action \<Rightarrow> catalog_action" where
  "catalogAction a =
     \<lparr>ca_type = ta_type a, ca_apiVersion = rr_apiVersion (ta_target a), ca_kind = rr_kind (ta_target a),
      ca_params = ta_params a\<rparr>"

fun riskTierLoop :: "risk_tier \<Rightarrow> typed_action list \<Rightarrow> risk_tier" where
  "riskTierLoop highest [] = highest"
| "riskTierLoop highest (action # rest) =
     (case ValidateProposal (catalogAction action) of
        Inl _ \<Rightarrow> RiskD
      | Inr d \<Rightarrow> riskTierLoop (if tierRank (cd_riskTier d) > tierRank highest then cd_riskTier d else highest) rest)"

definition riskTierForActions :: "typed_action list \<Rightarrow> risk_tier" where
  "riskTierForActions actions = riskTierLoop RiskA actions"

fun approvalPolicyLoop :: "approval_policy \<Rightarrow> typed_action list \<Rightarrow> approval_policy" where
  "approvalPolicyLoop policy [] = policy"
| "approvalPolicyLoop policy (action # rest) =
     (let needs = (case ValidateProposal (catalogAction action) of
                     Inl _ \<Rightarrow> True | Inr d \<Rightarrow> cd_approvalRequired d);
          policy1 = (if needs then policy\<lparr>ap_required := True, ap_decision := ApprovalPending\<rparr> else policy)
      in approvalPolicyLoop (policy1\<lparr>ap_categories := ap_categories policy1 @ [ta_type action]\<rparr>) rest)"

definition approvalPolicyForActions :: "typed_action list \<Rightarrow> approval_policy" where
  "approvalPolicyForActions actions =
     approvalPolicyLoop \<lparr>ap_required = False, ap_decision = ApprovalApproved, ap_categories = []\<rparr> actions"

definition validDefinitions :: "typed_action list \<Rightarrow> catalog_def list" where
  "validDefinitions actions =
     concat (map (\<lambda>a. case ValidateProposal (catalogAction a) of Inl _ \<Rightarrow> [] | Inr d \<Rightarrow> [d]) actions)"

definition verificationStepsForFinding :: "finding \<Rightarrow> string list" where
  "verificationStepsForFinding f =
     [''Confirm the targeted resources still match the finding evidence.'',
      ''Run Kubernetes server-side dry-run before writing changes.'',
      ''Re-scan the source engine and update finding status.''] @
     (if f_source f = ''falco'' \<or> f_source f = ''tetragon''
      then [''Correlate runtime event timing with deployment, user, and audit logs.''] else [])"

definition verificationStepsForActions :: "typed_action list \<Rightarrow> finding \<Rightarrow> string list" where
  "verificationStepsForActions actions f =
     (let steps = dedupeBy id [] (concat (map cd_verificationChecks (validDefinitions actions)))
      in if steps = [] then verificationStepsForFinding f else steps)"

definition rollbackStepsForActions :: "typed_action list \<Rightarrow> string list" where
  "rollbackStepsForActions actions =
     dedupeBy id [] (concat (map cd_rollbackProcedure (validDefinitions actions)))"

definition buildRemediationPlan :: "finding \<Rightarrow> string \<Rightarrow> gotime \<Rightarrow> int \<Rightarrow> remediation_plan" where
  "buildRemediationPlan f requester now seq =
     (let actions = typedActionsForFinding f
      in \<lparr>p_id = (if seq = 0 then ''preview-'' @ f_id f else ''plan-'' @ f_id f @ ''-'' @ padZero 3 seq),
          p_catalogVersion = Version, p_findingID = f_id f,
          p_rootCause = ''KubeAthrix correlated scanner and Kubernetes evidence into a bounded deterministic remediation candidate. Execution is restricted to typed actions with dry-run, approvals, verification, and rollback metadata.'',
          p_actions = actions, p_riskTier = riskTierForActions actions,
          p_dryRunResult = \<lparr>dr_passed = False,
            dr_message = ''server-side dry-run has not been performed; this is a proposal''\<rparr>,
          p_verificationSteps = verificationStepsForActions actions f,
          p_rollbackSteps = rollbackStepsForActions actions,
          p_approvalPolicy = approvalPolicyForActions actions,
          p_ai = None, p_status = ''proposed'', p_createdAt = now\<rparr>)"

definition primaryAction :: "remediation_plan \<Rightarrow> typed_action" where
  "primaryAction plan =
     (case p_actions plan of
        a # _ \<Rightarrow> a
      | [] \<Rightarrow> \<lparr>ta_type = ''explain_only'', ta_target = defaultTarget,
               ta_description = ''Document finding and require human triage'', ta_params = []\<rparr>)"

definition actionStatuses :: "typed_action list \<Rightarrow> string \<Rightarrow> string \<Rightarrow> action_status list" where
  "actionStatuses actions state message =
     (let statuses = map (\<lambda>a. \<lparr>as_actionType = ta_type a, as_state = state, as_message = message\<rparr>) actions
      in if statuses = [] then [\<lparr>as_actionType = ''explain_only'', as_state = state, as_message = message\<rparr>]
         else statuses)"

subsection \<open>Previews\<close>

definition evidenceCitations :: "finding \<Rightarrow> evidence_citation list" where
  "evidenceCitations f =
     (let resource = (case f_resources f of [] \<Rightarrow> '''' | r # _ \<Rightarrow> resourceString r)
      in map (\<lambda>e. \<lparr>ec_sourceID = ev_sourceID e, ec_summary = ev_summary e, ec_resource = resource,
                   ec_observedAt = ev_observedAt e\<rparr>) (f_evidence f))"

definition promptEvidenceHash :: "finding \<Rightarrow> string" where
  "promptEvidenceHash f =
     sha256Hex (f_id f @ f_title f @ f_blastRadius f @
       concat (map (\<lambda>e. ev_sourceID e @ ev_summary e) (f_evidence f)))"

definition buildRemediationPreview :: "finding \<Rightarrow> remediation_plan \<Rightarrow> gotime \<Rightarrow> remediation_preview" where
  "buildRemediationPreview f plan now =
     \<lparr>pv_findingID = f_id f,
      pv_summary = ''Strict-schema deterministic preview for '' @ f_title f @ '' with '' @
        itoa (int (length (p_actions plan))) @ '' typed action(s).'',
      pv_candidate = plan, pv_evidenceCitations = evidenceCitations f,
      pv_promptEvidenceHash = promptEvidenceHash f, pv_deterministicFallback = True, pv_ai = None,
      pv_safetyNotes =
        [''Model output must match the typed remediation schema before it can be stored.'',
         ''No raw shell, SSH, or kubectl command execution is accepted.'',
         ''Tier B/C/D changes remain approval gated and dry-run first.''],
      pv_generatedAt = now\<rparr>"

subsection \<open>Diffs\<close>

definition bareManifest :: "typed_action \<Rightarrow> string \<Rightarrow> diff_text \<Rightarrow> string \<Rightarrow> planned_manifest" where
  "bareManifest a mode diff text =
     \<lparr>pm_actionType = ta_type a, pm_target = ta_target a, pm_writeMode = mode, pm_riskTier = '''',
      pm_approvalRequired = False, pm_requiredPermissions = [], pm_verificationChecks = [],
      pm_rollbackProcedure = [], pm_idempotencyBehavior = '''', pm_failureHandling = '''',
      pm_diff = diff, pm_manifest = text\<rparr>"

definition decorate :: "catalog_def \<Rightarrow> planned_manifest \<Rightarrow> planned_manifest" where
  "decorate d m =
     m\<lparr>pm_riskTier := tierString (cd_riskTier d), pm_approvalRequired := cd_approvalRequired d,
       pm_requiredPermissions := cd_requiredPermissions d,
       pm_verificationChecks := cd_verificationChecks d,
       pm_rollbackProcedure := cd_rollbackProcedure d,
       pm_idempotencyBehavior := cd_idempotencyBehavior d,
       pm_failureHandling := cd_failureHandling d\<rparr>"

definition governanceManifest :: "string \<Rightarrow> string" where
  "governanceManifest namespace = unlines
     [''apiVersion: v1'', ''kind: ResourceQuota'', ''metadata:'', ''  name: kubeathrix-defaults'',
      ''  namespace: '' @ namespace, ''spec:'', ''  hard:'', ''    requests.cpu: \"4\"'',
      ''    requests.memory: 8Gi'', ''---'', ''apiVersion: v1'', ''kind: LimitRange'', ''metadata:'',
      ''  name: kubeathrix-defaults'', ''  namespace: '' @ namespace, ''spec:'', ''  limits:'',
      ''    - type: Container'', ''      defaultRequest:'', ''        cpu: 100m'',
      ''        memory: 128Mi'', ''      default:'', ''        cpu: 500m'', ''        memory: 512Mi'']"

definition podSecurityManifest :: "string \<Rightarrow> string" where
  "podSecurityManifest name = unlines
     [''apiVersion: v1'', ''kind: Namespace'', ''metadata:'', ''  name: '' @ name, ''  labels:'',
      ''    pod-security.kubernetes.io/enforce: baseline'',
      ''    pod-security.kubernetes.io/audit: restricted'',
      ''    pod-security.kubernetes.io/warn: restricted'']"

definition networkPolicyManifest :: "string \<Rightarrow> string" where
  "networkPolicyManifest namespace = unlines
     [''apiVersion: networking.k8s.io/v1'', ''kind: NetworkPolicy'', ''metadata:'',
      ''  name: kubeathrix-default-deny'', ''  namespace: '' @ namespace, ''spec:'',
      ''  podSelector: {}'', ''  policyTypes:'', ''    - Ingress'', ''    - Egress'']"

definition plannedManifest :: "typed_action \<Rightarrow> planned_manifest" where
  "plannedManifest a =
     (case ValidateProposal (catalogAction a) of
        Inl err \<Rightarrow> bareManifest a ''invalid'' (DiffError err) ''''
      | Inr d \<Rightarrow>
          (let mode = ExecutionModeFor (catalogAction a); namespace = rr_name (ta_target a) in
           decorate d
             (if mode = ModeProposal \<or> mode = ModeInformation
                 \<or> (mode = ModeGitOps \<and> ta_type a \<noteq> ''propose_network_policy'')
              then bareManifest a (modeString mode) (DiffText (cd_diffStrategy d)) ''''
              else if ta_type a = ''apply_resource_governance'' then
                bareManifest a ''direct-tier-a''
                  (DiffText (''Create or update ResourceQuota/kubeathrix-defaults and LimitRange/kubeathrix-defaults in namespace '' @ namespace @ ''.''))
                  (governanceManifest namespace)
              else if ta_type a = ''patch_pod_security_labels'' then
                bareManifest a ''direct-tier-b''
                  (DiffText ''Patch namespace Pod Security labels to enforce baseline, audit restricted, and warn restricted.'')
                  (podSecurityManifest namespace)
              else if ta_type a = ''patch_workload_probes'' then
                bareManifest a ''proposal_only'' (DiffText (cd_diffStrategy d)) ''''
              else if ta_type a = ''patch_workload_resources'' then
                bareManifest a ''direct-tier-b''
                  (DiffText ''Fill only missing CPU/memory requests and limits on the exact containers resolved by the controller; existing values are preserved.'') ''''
              else if ta_type a = ''create_pdb'' then
                bareManifest a ''direct-tier-b''
                  (DiffText ''Resolve the exact non-empty workload selector, then create or reconcile the managed PodDisruptionBudget after approval.'') ''''
              else if ta_type a = ''propose_network_policy'' then
                bareManifest a ''gitops-proposal''
                  (DiffText ''Generate default-deny NetworkPolicy proposal; broad network changes are never applied autonomously.'')
                  (networkPolicyManifest (if namespace = '''' then rr_namespace (ta_target a) else namespace))
              else bareManifest a ''notify-only'' (DiffText (ta_description a)) '''')))"

definition buildRemediationDiff :: "remediation_plan \<Rightarrow> remediation_diff" where
  "buildRemediationDiff plan =
     \<lparr>rd_planID = p_id plan, rd_mode = ''typed-server-side-dry-run'',
      rd_summary = itoa (int (length (p_actions plan))) @
        '' typed action(s) prepared; no arbitrary command path is available.'',
      rd_manifests = map plannedManifest (p_actions plan)\<rparr>"

subsection \<open>Tiers and approval\<close>

lemma higherTier_A: "(if tierRank d > tierRank h then d else h) = RiskA \<longleftrightarrow> h = RiskA \<and> d = RiskA"
  by (cases d; cases h; simp)

lemma riskTierLoop_A: "riskTierLoop h as = RiskA \<longleftrightarrow> h = RiskA \<and>
   list_all (\<lambda>a. \<exists>d. ValidateProposal (catalogAction a) = Inr d \<and> cd_riskTier d = RiskA) as"
proof (induction as arbitrary: h)
  case (Cons a as)
  show ?case
  proof (cases "ValidateProposal (catalogAction a)")
    case (Inr d)
    then have "riskTierLoop h (a # as) =
        riskTierLoop (if tierRank (cd_riskTier d) > tierRank h then cd_riskTier d else h) as"
      by simp
    then show ?thesis
      unfolding \<open>riskTierLoop h (a # as) = _\<close> Cons.IH higherTier_A using Inr by auto
  qed simp
qed simp

lemma approvalLoop_required: "ap_required (approvalPolicyLoop p as) \<longleftrightarrow> ap_required p \<or>
   \<not> list_all (\<lambda>a. \<exists>d. ValidateProposal (catalogAction a) = Inr d \<and> \<not> cd_approvalRequired d) as"
  by (induction as arbitrary: p) (auto simp: Let_def split: sum.splits)

lemma approvalLoop_decision:
  "ap_decision p = (if ap_required p then ApprovalPending else ApprovalApproved) \<Longrightarrow>
   ap_decision (approvalPolicyLoop p as) =
     (if ap_required (approvalPolicyLoop p as) then ApprovalPending else ApprovalApproved)"
proof (induction as arbitrary: p)
  case (Cons a as)
  then show ?case by (simp add: Let_def)
qed simp

lemma ValidateProposal_tier:
  "ValidateProposal a = Inr d \<Longrightarrow> cd_riskTier d = RiskA \<longleftrightarrow> \<not> cd_approvalRequired d"
  by (auto simp: ValidateProposal_Inr dest: Lookup_tier)

lemma required_iff_tier:
  "ap_required (approvalPolicyForActions as) \<longleftrightarrow> riskTierForActions as \<noteq> RiskA"
  using ValidateProposal_tier
  by (auto simp: approvalPolicyForActions_def riskTierForActions_def approvalLoop_required riskTierLoop_A
      list_all_iff)

lemma tierA_actions:
  assumes "riskTierForActions as = RiskA" and "a \<in> set as"
  shows "ta_type a = ''apply_resource_governance'' \<and> rr_apiVersion (ta_target a) = ''v1'' \<and>
    rr_kind (ta_target a) = ''Namespace''"
proof -
  from assms obtain d where "ValidateProposal (catalogAction a) = Inr d" "\<not> cd_approvalRequired d"
    using required_iff_tier [of as]
    by (auto simp: approvalPolicyForActions_def approvalLoop_required list_all_iff)
  from ValidateProposal_no_approval [OF this] show ?thesis by (simp add: catalogAction_def)
qed

text \<open>
  The approval gate of a new plan: approval is required exactly when the plan's tier is
  above A, an undecided plan is pending and an ungated one counts as approved, and a plan that
  needs no approval consists of resource-governance actions on namespaces only.
\<close>

theorem plan_approval_gate:
  "(let p = buildRemediationPlan f requester now seq; pol = p_approvalPolicy p in
     (ap_required pol \<longleftrightarrow> p_riskTier p \<noteq> RiskA) \<and>
     ap_decision pol = (if ap_required pol then ApprovalPending else ApprovalApproved) \<and>
     (ap_required pol \<or>
       list_all (\<lambda>a. ta_type a = ''apply_resource_governance'' \<and>
          rr_apiVersion (ta_target a) = ''v1'' \<and> rr_kind (ta_target a) = ''Namespace'') (p_actions p)))"
  using approvalLoop_decision [of "\<lparr>ap_required = False, ap_decision = ApprovalApproved, ap_categories = []\<rparr>"]
  by (auto simp: buildRemediationPlan_def Let_def required_iff_tier list_all_iff
      dest: tierA_actions simp flip: approvalPolicyForActions_def)

subsection \<open>The actions of a plan\<close>

lemmas action_defs = managedReviewAction_def governanceAction_def podSecurityAction_def
  probesAction_def resourcesAction_def pdbAction_def networkAction_def fallbackAction_def

lemma Lookup_planned:
  "Lookup ''apply_resource_governance'' = Some def_apply_resource_governance"
  "Lookup ''patch_pod_security_labels'' = Some def_patch_pod_security_labels"
  "Lookup ''patch_workload_probes'' = Some def_patch_workload_probes"
  "Lookup ''patch_workload_resources'' = Some def_patch_workload_resources"
  "Lookup ''create_pdb'' = Some def_create_pdb"
  "Lookup ''propose_network_policy'' = Some (proposal ''propose_network_policy'' RiskC
     ''Generate reviewable NetworkPolicy manifests; no executor is registered.'')"
  "Lookup ''propose_security_hardening'' = Some (proposal ''propose_security_hardening'' RiskC
     ''Generate RBAC, image, admission, or network review artifacts; no executor is registered.'')"
  "Lookup ''explain_only'' = Some def_explain_only"
  "Lookup ManagedResourceReviewAction = Some def_review_managed_resource_finding"
  by (simp_all add: Lookup_def definitions_def ManagedResourceReviewAction_def)

lemma typedActions_cases:
  assumes "a \<in> set (typedActionsForFinding f)"
  obtains "isManagedFinding f" "a = managedReviewAction f"
  | "\<not> isManagedFinding f" "a \<in> set (matchedActions f)"
  | "\<not> isManagedFinding f" "matchedActions f = []" "a = fallbackAction f (findingTarget f)"
  using assms dedupeBy_subset [of actionKey "[]"]
  by (auto simp: typedActionsForFinding_def dedupeActions_def Let_def split: if_splits)

lemma matchedActions_cases:
  assumes "a \<in> set (matchedActions f)"
  obtains "a = governanceAction (findingTarget f)"
  | "a = podSecurityAction (findingTarget f)"
  | "isWorkloadTarget (findingTarget f)" "a \<in> {probesAction (findingTarget f), resourcesAction (findingTarget f)}"
  | "isWorkloadTarget (findingTarget f)" "a = pdbAction (findingTarget f)"
      "containsAny (findingText f) [''pdb'', ''poddisruptionbudget'', ''disruption'']"
  | "a = networkAction (findingTarget f)"
  using assms by (auto simp: matchedActions_def Let_def split: if_splits)

lemma planned_registered: "a \<in> set (typedActionsForFinding f) \<Longrightarrow> Lookup (ta_type a) \<noteq> None"
  by (erule typedActions_cases; (erule matchedActions_cases)?)
    (auto simp: action_defs Let_def Lookup_planned)

text \<open>
  Every finding is given at least one action, no two actions of a plan have the same type
  and target, and every action is of a registered type.
\<close>

theorem typedActions_wellformed:
  "typedActionsForFinding f \<noteq> [] \<and> distinct (map actionKey (typedActionsForFinding f)) \<and>
   list_all (\<lambda>a. Lookup (ta_type a) \<noteq> None) (typedActionsForFinding f)"
proof (intro conjI)
  show "typedActionsForFinding f \<noteq> []"
    by (simp add: typedActionsForFinding_def dedupeActions_def Let_def)
  show "distinct (map actionKey (typedActionsForFinding f))"
    using dedupeBy_keys [of actionKey "[]"]
    by (simp add: typedActionsForFinding_def dedupeActions_def Let_def)
  show "list_all (\<lambda>a. Lookup (ta_type a) \<noteq> None) (typedActionsForFinding f)"
    unfolding list_all_iff by (rule ballI) (rule planned_registered)
qed

lemma supports_planned:
  "supports def_patch_pod_security_labels v k \<longleftrightarrow> v = ''v1'' \<and> k = ''Namespace''"
  "supports def_patch_workload_probes v k \<longleftrightarrow> v = ''apps/v1'' \<and> k \<in> {''Deployment'', ''StatefulSet'', ''DaemonSet''}"
  "supports def_patch_workload_resources v k \<longleftrightarrow> v = ''apps/v1'' \<and> k \<in> {''Deployment'', ''StatefulSet'', ''DaemonSet''}"
  "supports def_create_pdb v k \<longleftrightarrow> v = ''apps/v1'' \<and> k \<in> {''Deployment'', ''StatefulSet''}"
  "supports (proposal t r s) v k" "supports def_explain_only v k"
  by (auto simp: supports_def def_patch_pod_security_labels_def def_patch_workload_probes_def
      def_patch_workload_resources_def def_create_pdb_def proposal_def def_explain_only_def workloadKinds_def)

text \<open>
  C27. The actions planned for a native finding are accepted by the registry, provided the
  affected resource is a namespace or lives in one and is not a DaemonSet.
\<close>

theorem planned_actions_valid:
  assumes native: "\<not> isManagedFinding f"
    and scoped: "rr_kind (findingTarget f) = ''Namespace'' \<or> rr_namespace (findingTarget f) \<noteq> ''''"
    and kind: "rr_kind (findingTarget f) \<noteq> ''DaemonSet''"
  shows "list_all (\<lambda>a. \<exists>d. ValidateProposal (catalogAction a) = Inr d) (typedActionsForFinding f)"
proof -
  have ns: "rr_apiVersion (namespaceTarget (findingTarget f)) = ''v1''"
    "rr_kind (namespaceTarget (findingTarget f)) = ''Namespace''"
    using scoped by (auto simp: namespaceTarget_def)
  have "\<exists>d. ValidateProposal (catalogAction a) = Inr d" if "a \<in> set (typedActionsForFinding f)" for a
    using that native
  proof (cases rule: typedActions_cases)
    case 2
    from 2(2) show ?thesis
      by (cases rule: matchedActions_cases)
        (use kind ns in \<open>auto simp: ValidateProposal_def catalogAction_def action_defs Lookup_planned
          supports_planned catalog workloadTarget_def isWorkloadTarget_def\<close>)
  qed (auto simp: ValidateProposal_def catalogAction_def action_defs Lookup_planned supports_planned catalog)
  then show ?thesis by (simp add: list_all_iff)
qed

lemma pdb_key_distinct:
  "actionKey (governanceAction t) \<noteq> actionKey (pdbAction t)"
  "actionKey (podSecurityAction t) \<noteq> actionKey (pdbAction t)"
  "actionKey (probesAction t) \<noteq> actionKey (pdbAction t)"
  "actionKey (resourcesAction t) \<noteq> actionKey (pdbAction t)"
  "actionKey (networkAction t) \<noteq> actionKey (pdbAction t)"
  by (simp_all add: actionKey_def governanceAction_def podSecurityAction_def probesAction_def
      resourcesAction_def networkAction_def pdbAction_def)

text \<open>
  A DaemonSet finding about disruption budgets is planned an action the registry rejects, so
  that the whole plan falls into tier D.
\<close>

text \<open>
  C33. For a DaemonSet whose finding mentions disruption, the plan contains a disruption-budget
  action that the registry rejects as unsupported, and the plan's tier is D.
\<close>

theorem daemonset_pdb_rejected:
  assumes "\<not> isManagedFinding f" and "isWorkloadTarget (findingTarget f)"
    and "rr_kind (findingTarget f) = ''DaemonSet''"
    and "containsAny (findingText f) [''pdb'', ''poddisruptionbudget'', ''disruption'']"
  shows "list_ex (\<lambda>a. ta_type a = ''create_pdb'' \<and>
       ValidateProposal (catalogAction a) = Inl (UnsupportedResource ''create_pdb'' ''apps/v1'' ''DaemonSet''))
     (typedActionsForFinding f) \<and> riskTierForActions (typedActionsForFinding f) = RiskD"
proof -
  let ?pdb = "pdbAction (findingTarget f)"
  have bad: "ValidateProposal (catalogAction ?pdb) = Inl (UnsupportedResource ''create_pdb'' ''apps/v1'' ''DaemonSet'')"
    using assms(2,3) by (simp add: ValidateProposal_def catalogAction_def pdbAction_def Lookup_planned
        supports_planned workloadTarget_def isWorkloadTarget_def)
  have mem: "?pdb \<in> set (matchedActions f)"
    using assms(2,4) by (simp add: matchedActions_def Let_def)
  then have ne: "matchedActions f \<noteq> []" by auto
  have "actionKey ?pdb \<in> actionKey ` set (typedActionsForFinding f)"
    using dedupeBy_keys [of actionKey "[]" "matchedActions f"] mem ne assms(1)
    by (simp add: typedActionsForFinding_def dedupeActions_def Let_def)
  then obtain a where a: "a \<in> set (typedActionsForFinding f)" "actionKey a = actionKey ?pdb" by auto
  have "a = ?pdb"
    using a(1) assms(1)
  proof (cases rule: typedActions_cases)
    case 2
    from 2(2) show ?thesis
      by (cases rule: matchedActions_cases)
        (use a(2) in \<open>auto simp: pdb_key_distinct\<close>)
  qed (use ne in auto)
  with a bad have ex: "?pdb \<in> set (typedActionsForFinding f)" by simp
  have "riskTierLoop h as = RiskD" if "?pdb \<in> set as" for h as
    using that by (induction as arbitrary: h) (auto simp: bad split: sum.splits)
  moreover have "ta_type ?pdb = ''create_pdb''" by (simp add: pdbAction_def)
  ultimately show ?thesis
    using ex bad by (auto simp: list_ex_iff riskTierForActions_def)
qed

lemmas sample_eval = sample_finding_def isManagedFinding_def findingText_def findingTarget_def
  containsAny_def isWorkloadTarget_def hasPrefix_def asciiLower_def char_of_def

theorem planned_actions_valid_witness:
  "list_all (\<lambda>a. \<exists>d. ValidateProposal (catalogAction a) = Inr d)
     (typedActionsForFinding (sample_finding ''Deployment'' ''no pdb''))"
  by (rule planned_actions_valid) (simp_all add: sample_eval)

theorem daemonset_pdb_rejected_witness:
  "list_ex (\<lambda>a. ta_type a = ''create_pdb'' \<and>
       ValidateProposal (catalogAction a) = Inl (UnsupportedResource ''create_pdb'' ''apps/v1'' ''DaemonSet''))
     (typedActionsForFinding (sample_finding ''DaemonSet'' ''no pdb'')) \<and>
   riskTierForActions (typedActionsForFinding (sample_finding ''DaemonSet'' ''no pdb'')) = RiskD"
  by (rule daemonset_pdb_rejected) (simp_all add: sample_eval)

subsection \<open>Diffs and identifiers\<close>

text \<open>
  A planned manifest announces a direct write only for an action that the registry
  accepts and executes directly, and it carries the registry's tier and approval requirement.
\<close>

theorem plannedManifest_direct:
  assumes "pm_writeMode (plannedManifest a) \<in> {''direct-tier-a'', ''direct-tier-b''}"
  shows "\<exists>d. ValidateProposal (catalogAction a) = Inr d \<and> ExecutionModeFor (catalogAction a) = ModeDirect \<and>
     pm_riskTier (plannedManifest a) = tierString (cd_riskTier d) \<and>
     pm_approvalRequired (plannedManifest a) = cd_approvalRequired d \<and>
     pm_writeMode (plannedManifest a) = (if cd_approvalRequired d then ''direct-tier-b'' else ''direct-tier-a'')"
proof (cases "ValidateProposal (catalogAction a)")
  case (Inl e)
  with assms show ?thesis by (simp add: plannedManifest_def bareManifest_def)
next
  case (Inr d)
  then have lk: "Lookup (ta_type a) = Some d"
    by (simp add: ValidateProposal_Inr catalogAction_def)
  have direct: "ExecutionModeFor (catalogAction a) = ModeDirect"
    using assms Inr lk
    by (cases "ExecutionModeFor (catalogAction a)")
      (auto simp: plannedManifest_def Let_def decorate_def bareManifest_def ExecutionModeFor_def
        catalogAction_def Lookup_planned catalog split: if_splits)
  with assms Inr lk show ?thesis
    by (auto simp: plannedManifest_def Let_def decorate_def bareManifest_def Lookup_planned catalog
        ManagedResourceReviewAction_def split: if_splits)
qed

theorem plannedManifest_direct_witness:
  "\<exists>d. ValidateProposal (catalogAction (governanceAction defaultTarget)) = Inr d \<and>
     pm_approvalRequired (plannedManifest (governanceAction defaultTarget)) = cd_approvalRequired d"
proof -
  have "pm_writeMode (plannedManifest (governanceAction defaultTarget)) = ''direct-tier-a''"
    by (simp add: plannedManifest_def ValidateProposal_def catalogAction_def governanceAction_def
        namespaceTarget_def defaultTarget_def Lookup_planned catalog ExecutionModeFor_def decorate_def
        bareManifest_def Let_def)
  then show ?thesis
    using plannedManifest_direct [of "governanceAction defaultTarget"] by auto
qed

lemma length_trimChar: "length (trimChar c s) \<le> length s"
  using length_dropWhile_le [of "\<lambda>x. x = c" s] length_dropWhile_le [of "\<lambda>x. x = c" "rev (dropWhile (\<lambda>x. x = c) s)"]
  by (simp add: trimChar_def)

text \<open>
  An idempotent plan identifier is at most 54 bytes long, whatever the finding's
  identifier is, so that every object name derived from it stays below the 63 bytes of a label.
\<close>

theorem IdempotentPlanID_bound:
  "length (IdempotentPlanID findingID requester key) \<le> 54 \<and>
   hasPrefix (IdempotentPlanID findingID requester key) ''plan-''"
  using length_trimChar [of "CHR ''-''" "take 36 (safeID findingID)"]
  by (auto simp: IdempotentPlanID_def Let_def hasPrefix_def)

end
