(* ===== verification/Correlation.thy ===== *)
theory Correlation
  imports Go_Prelude Sha256 Json CoreTypes
begin

text \<open>
  Correlation and risk scoring, \<open>services/api/internal/findings/correlation.go\<close>: the
  configuration, the union-find forest with path compression, the four correlation rules with
  their time windows, and the explained risk score.

  A recursion of the source that need not end, \<open>find\<close>, is a partial function: \<open>None\<close> is a
  call that never returns, and \<open>CorrelateWithConfig_total\<close> shows that it never happens.
\<close>

subsection \<open>Configuration\<close>

record risk_config =
  cf_criticalBase :: int
  cf_highBase :: int
  cf_mediumBase :: int
  cf_lowBase :: int
  cf_infoBase :: int
  cf_multiSourcePoints :: int
  cf_correlatedPointsCap :: int
  cf_networkPoints :: int
  cf_identityPoints :: int
  cf_imagePoints :: int
  cf_multiResourcePointsCap :: int
  cf_workloadWindowMinutes :: int
  cf_imageWindowMinutes :: int
  cf_identityWindowMinutes :: int
  cf_networkWindowMinutes :: int

definition DefaultConfig :: risk_config where
  "DefaultConfig =
     \<lparr>cf_criticalBase = 90, cf_highBase = 72, cf_mediumBase = 50, cf_lowBase = 28, cf_infoBase = 10,
      cf_multiSourcePoints = 6, cf_correlatedPointsCap = 6, cf_networkPoints = 5, cf_identityPoints = 5,
      cf_imagePoints = 3, cf_multiResourcePointsCap = 5, cf_workloadWindowMinutes = 120,
      cf_imageWindowMinutes = 1440, cf_identityWindowMinutes = 60, cf_networkWindowMinutes = 120\<rparr>"

datatype config_error = ConfigSyntax | BadSeverityBases | BadFactorPoints | BadWindows

definition configFields :: "(string \<times> (int \<Rightarrow> risk_config \<Rightarrow> risk_config)) list" where
  "configFields =
     [(''criticalBase'', \<lambda>v c. c\<lparr>cf_criticalBase := v\<rparr>), (''highBase'', \<lambda>v c. c\<lparr>cf_highBase := v\<rparr>),
      (''mediumBase'', \<lambda>v c. c\<lparr>cf_mediumBase := v\<rparr>), (''lowBase'', \<lambda>v c. c\<lparr>cf_lowBase := v\<rparr>),
      (''infoBase'', \<lambda>v c. c\<lparr>cf_infoBase := v\<rparr>),
      (''multiSourcePoints'', \<lambda>v c. c\<lparr>cf_multiSourcePoints := v\<rparr>),
      (''correlatedPointsCap'', \<lambda>v c. c\<lparr>cf_correlatedPointsCap := v\<rparr>),
      (''networkPoints'', \<lambda>v c. c\<lparr>cf_networkPoints := v\<rparr>),
      (''identityPoints'', \<lambda>v c. c\<lparr>cf_identityPoints := v\<rparr>),
      (''imagePoints'', \<lambda>v c. c\<lparr>cf_imagePoints := v\<rparr>),
      (''multiResourcePointsCap'', \<lambda>v c. c\<lparr>cf_multiResourcePointsCap := v\<rparr>),
      (''workloadWindowMinutes'', \<lambda>v c. c\<lparr>cf_workloadWindowMinutes := v\<rparr>),
      (''imageWindowMinutes'', \<lambda>v c. c\<lparr>cf_imageWindowMinutes := v\<rparr>),
      (''identityWindowMinutes'', \<lambda>v c. c\<lparr>cf_identityWindowMinutes := v\<rparr>),
      (''networkWindowMinutes'', \<lambda>v c. c\<lparr>cf_networkWindowMinutes := v\<rparr>)]"

text \<open>
  \<open>json.Unmarshal\<close> into the struct: unknown members are ignored, \<open>null\<close> leaves a field, and
  only an integer literal in the range of \<open>int\<close> fits.
\<close>

fun decodeConfigMembers :: "(string \<times> json) list \<Rightarrow> risk_config \<Rightarrow> risk_config option" where
  "decodeConfigMembers [] c = Some c"
| "decodeConfigMembers ((k, v) # ms) c =
     (case matchField (map fst configFields) k of
        None \<Rightarrow> decodeConfigMembers ms c
      | Some f \<Rightarrow>
          (case v of
             JNull \<Rightarrow> decodeConfigMembers ms c
           | JNum lit \<Rightarrow>
               (case (parseInt 64 lit, map_of configFields f) of
                  (Some i, Some set_field) \<Rightarrow> decodeConfigMembers ms (set_field i c)
                | _ \<Rightarrow> None)
           | _ \<Rightarrow> None))"

definition basesDescend :: "risk_config \<Rightarrow> bool" where
  "basesDescend c \<longleftrightarrow>
     cf_criticalBase c \<ge> cf_highBase c \<and> cf_highBase c \<ge> cf_mediumBase c \<and>
     cf_mediumBase c \<ge> cf_lowBase c \<and> cf_lowBase c \<ge> cf_infoBase c \<and>
     cf_infoBase c \<ge> 0 \<and> cf_criticalBase c \<le> 100"

definition pointValues :: "risk_config \<Rightarrow> int list" where
  "pointValues c =
     [cf_multiSourcePoints c, cf_correlatedPointsCap c, cf_networkPoints c, cf_identityPoints c,
      cf_imagePoints c, cf_multiResourcePointsCap c]"

definition windowValues :: "risk_config \<Rightarrow> int list" where
  "windowValues c =
     [cf_workloadWindowMinutes c, cf_imageWindowMinutes c, cf_identityWindowMinutes c,
      cf_networkWindowMinutes c]"

definition ParseConfig :: "string \<Rightarrow> config_error + risk_config" where
  "ParseConfig raw =
     (if raw = '''' then Inr DefaultConfig
      else
        (case (case jsonStrict raw of
                 Some (JObj ms) \<Rightarrow> decodeConfigMembers ms DefaultConfig
               | Some JNull \<Rightarrow> Some DefaultConfig
               | _ \<Rightarrow> None) of
           None \<Rightarrow> Inl ConfigSyntax
         | Some config \<Rightarrow>
             if \<not> basesDescend config then Inl BadSeverityBases
             else if list_ex (\<lambda>v. v < 0 \<or> v > 20) (pointValues config) then Inl BadFactorPoints
             else if list_ex (\<lambda>v. v < 1 \<or> v > 10080) (windowValues config) then Inl BadWindows
             else Inr config))"

subsection \<open>Rules and keys\<close>

record correlation_rule =
  ru_name :: string
  ru_window :: duration
  ru_key :: "finding \<Rightarrow> string"
  ru_requireKey :: bool

definition rules :: "risk_config \<Rightarrow> correlation_rule list" where
  "rules c =
     [\<lparr>ru_name = ''same-workload'', ru_window = cf_workloadWindowMinutes c * minute,
       ru_key = (\<lambda>f. ck_workload (f_correlationKeys f)), ru_requireKey = True\<rparr>,
      \<lparr>ru_name = ''same-image'', ru_window = cf_imageWindowMinutes c * minute,
       ru_key = (\<lambda>f. ck_image (f_correlationKeys f)), ru_requireKey = True\<rparr>,
      \<lparr>ru_name = ''same-identity'', ru_window = cf_identityWindowMinutes c * minute,
       ru_key = (\<lambda>f. ck_identity (f_correlationKeys f)), ru_requireKey = True\<rparr>,
      \<lparr>ru_name = ''same-network-exposure'', ru_window = cf_networkWindowMinutes c * minute,
       ru_key = (\<lambda>f. ck_networkExposure (f_correlationKeys f)), ru_requireKey = True\<rparr>]"

definition ensureKeys :: "finding \<Rightarrow> finding" where
  "ensureKeys f0 =
     (let f1 = (if ck_namespace (f_correlationKeys f0) = '''' then
                  (case f_resources f0 of
                     [] \<Rightarrow> f0
                   | r # _ \<Rightarrow>
                       f0\<lparr>f_correlationKeys := (f_correlationKeys f0)\<lparr>ck_namespace :=
                         (if rr_kind r = ''Namespace'' then rr_name r else rr_namespace r)\<rparr>\<rparr>)
                else f0)
      in if ck_workload (f_correlationKeys f1) = '''' then
           (case f_resources f1 of
              [] \<Rightarrow> f1
            | r # _ \<Rightarrow>
                if rr_kind r \<in> {''Deployment'', ''StatefulSet'', ''DaemonSet'', ''ReplicaSet'', ''Pod''}
                then f1\<lparr>f_correlationKeys := (f_correlationKeys f1)\<lparr>ck_workload :=
                  rr_namespace r @ ''/'' @ rr_kind r @ ''/'' @ rr_name r\<rparr>\<rparr>
                else f1)
         else f1)"

subsection \<open>Union-find with path compression\<close>

text \<open>The root of an element and the array after path compression.\<close>

partial_function (option) find_root :: "nat list \<Rightarrow> nat \<Rightarrow> (nat \<times> nat list) option" where
  "find_root parents v =
     (if parents ! v \<noteq> v then
        Option.bind (find_root parents (parents ! v)) (\<lambda>(r, ps). Some (r, ps[v := r]))
      else Some (v, parents))"

definition union_roots :: "nat list \<Rightarrow> nat \<Rightarrow> nat \<Rightarrow> nat list option" where
  "union_roots parents left right =
     Option.bind (find_root parents left) (\<lambda>(leftRoot, ps1).
     Option.bind (find_root ps1 right) (\<lambda>(rightRoot, ps2).
       Some (if leftRoot \<noteq> rightRoot then ps2[rightRoot := leftRoot] else ps2)))"

fun union_all :: "nat list \<Rightarrow> (nat \<times> nat) list \<Rightarrow> nat list option" where
  "union_all parents [] = Some parents"
| "union_all parents ((l, r) # es) = Option.bind (union_roots parents l r) (\<lambda>ps. union_all ps es)"

subsection \<open>The links of a rule\<close>

text \<open>
  The indexes that share a key, and the inner loops over one bucket in the order of
  \<open>UpdatedAt\<close>: an anchor is linked with every following element within the window, and the
  first element outside becomes the next anchor.
\<close>

definition appendTo :: "'k \<Rightarrow> 'v \<Rightarrow> ('k, 'v list) gomap \<Rightarrow> ('k, 'v list) gomap" where
  "appendTo k v m = gput k ((case gget m k of None \<Rightarrow> [] | Some vs \<Rightarrow> vs) @ [v]) m"

definition bucketKeys :: "correlation_rule \<Rightarrow> finding list \<Rightarrow> (string, nat list) gomap" where
  "bucketKeys rule fs =
     fold (\<lambda>i m. if ru_key rule (fs ! i) = '''' \<and> ru_requireKey rule then m
                 else appendTo (ru_key rule (fs ! i)) i m) [0..<length fs] []"

function windowLinks :: "(nat \<Rightarrow> gotime) \<Rightarrow> duration \<Rightarrow> nat list \<Rightarrow> (nat \<times> nat) list" where
  "windowLinks t w [] = []"
| "windowLinks t w (s # rest) =
     map (Pair s) (takeWhile (\<lambda>e. t e - t s \<le> w) rest) @
     windowLinks t w (dropWhile (\<lambda>e. t e - t s \<le> w) rest)"
  by pat_completeness auto
termination
  by (relation "measure (\<lambda>(t, w, xs). length xs)") (auto simp: le_imp_less_Suc length_dropWhile_le)

definition ruleLinks :: "finding list \<Rightarrow> correlation_rule \<Rightarrow> (nat \<times> nat) list" where
  "ruleLinks fs rule =
     concat (map (\<lambda>(_, indexes).
        windowLinks (\<lambda>i. f_updatedAt (fs ! i)) (ru_window rule)
          (sortSlice (\<lambda>i j. f_updatedAt (fs ! i) < f_updatedAt (fs ! j)) indexes)) (bucketKeys rule fs))"

definition allLinks :: "risk_config \<Rightarrow> finding list \<Rightarrow> (nat \<times> nat) list" where
  "allLinks config fs = concat (map (ruleLinks fs) (rules config))"

subsection \<open>Scores\<close>

definition severityBase :: "risk_config \<Rightarrow> severity \<Rightarrow> int" where
  "severityBase c s =
     (case s of
        SeverityCritical \<Rightarrow> cf_criticalBase c | SeverityHigh \<Rightarrow> cf_highBase c
      | SeverityMedium \<Rightarrow> cf_mediumBase c | SeverityLow \<Rightarrow> cf_lowBase c
      | SeverityInfo \<Rightarrow> cf_infoBase c | SeverityOther _ \<Rightarrow> 0)"

definition factor :: "string \<Rightarrow> int \<Rightarrow> string \<Rightarrow> risk_factor" where
  "factor name points reason = \<lparr>rf_name = name, rf_points = points, rf_reason = reason\<rparr>"

definition riskFactors :: "finding \<Rightarrow> nat \<Rightarrow> nat \<Rightarrow> risk_config \<Rightarrow> risk_factor list" where
  "riskFactors f sourceCount groupSize c =
     (if sourceCount > 1 then
        [factor ''multi-source-corroboration'' (cf_multiSourcePoints c)
           ''Independent evidence sources are correlated to the same entity.''] else []) @
     (if groupSize > 1 then
        [factor ''correlated-findings'' (min (cf_correlatedPointsCap c) (int groupSize - 1))
           ''Multiple findings affect the same explicit correlation key within its time window.''] else []) @
     (if ck_networkExposure (f_correlationKeys f) \<noteq> '''' then
        [factor ''network-exposure'' (cf_networkPoints c)
           ''The affected resource has an explicit network exposure correlation key.''] else []) @
     (if ck_identity (f_correlationKeys f) \<noteq> '''' then
        [factor ''identity-impact'' (cf_identityPoints c)
           ''The evidence affects an explicit Kubernetes identity or permission path.''] else []) @
     (if ck_image (f_correlationKeys f) \<noteq> '''' then
        [factor ''image-reuse'' (cf_imagePoints c)
           ''The affected image can be shared by multiple workload replicas or namespaces.''] else []) @
     (if length (f_resources f) > 1 then
        [factor ''multi-resource-blast-radius'' (min (cf_multiResourcePointsCap c) (int (length (f_resources f))))
           ''The finding cites multiple affected Kubernetes resources.''] else [])"

definition RiskModelVersion :: string where "RiskModelVersion = ''v1''"
definition CorrelationVersion :: string where "CorrelationVersion = ''v1''"

definition score :: "finding \<Rightarrow> nat \<Rightarrow> nat \<Rightarrow> risk_config \<Rightarrow> risk_explanation" where
  "score f sourceCount groupSize c =
     (let base = severityBase c (f_severity f);
          factors = riskFactors f sourceCount groupSize c;
          final = fold (\<lambda>x acc. acc + rf_points x) factors base
      in \<lparr>re_version = RiskModelVersion, re_baseScore = base, re_factors = factors,
          re_finalScore = (if final > 100 then 100 else final)\<rparr>)"

definition stable :: "string \<Rightarrow> string" where
  "stable value = take 20 (sha256Hex (CorrelationVersion @ [CHR 0x00] @ value))"

subsection \<open>Groups\<close>

fun groupRoots :: "nat list \<Rightarrow> nat list \<Rightarrow> (nat, nat list) gomap \<Rightarrow> (nat, nat list) gomap option" where
  "groupRoots parents [] groups = Some groups"
| "groupRoots parents (i # is) groups =
     Option.bind (find_root parents i) (\<lambda>(root, ps). groupRoots ps is (appendTo root i groups))"

definition groupID :: "finding list \<Rightarrow> nat list \<Rightarrow> string" where
  "groupID fs indexes =
     ''corr-'' @ stable (joinWith [CHR 0x00] (sort (map (\<lambda>i. f_id (fs ! i)) indexes)))"

definition markFinding :: "risk_config \<Rightarrow> finding list \<Rightarrow> nat list \<Rightarrow> finding \<Rightarrow> finding" where
  "markFinding config fs indexes f =
     (let f1 = f\<lparr>f_correlationGroup := groupID fs indexes\<rparr>;
          e = score f1 (card (set (map (\<lambda>i. f_source (fs ! i)) indexes))) (length indexes) config
      in f1\<lparr>f_riskExplanation := e, f_riskScore := re_finalScore e\<rparr>)"

definition markGroup :: "risk_config \<Rightarrow> finding list \<Rightarrow> nat list \<Rightarrow> finding list \<Rightarrow> finding list" where
  "markGroup config fs indexes out =
     fold (\<lambda>i acc. acc[i := markFinding config fs indexes (acc ! i)]) indexes out"

definition CorrelateWithConfig :: "finding list \<Rightarrow> risk_config \<Rightarrow> finding list option" where
  "CorrelateWithConfig input config =
     (let fs = map ensureKeys input in
      Option.bind (union_all [0..<length fs] (allLinks config fs)) (\<lambda>parents.
      Option.bind (groupRoots parents [0..<length fs] []) (\<lambda>groups.
        Some (fold (\<lambda>(_, indexes) out. markGroup config fs indexes out) groups fs))))"

definition Correlate :: "finding list \<Rightarrow> finding list option" where
  "Correlate input = CorrelateWithConfig input DefaultConfig"

subsection \<open>Roots of the forest\<close>

inductive root_of :: "nat list \<Rightarrow> nat \<Rightarrow> nat \<Rightarrow> bool" for ps where
  at_root: "v < length ps \<Longrightarrow> ps ! v = v \<Longrightarrow> root_of ps v v"
| up: "v < length ps \<Longrightarrow> ps ! v \<noteq> v \<Longrightarrow> root_of ps (ps ! v) r \<Longrightarrow> root_of ps v r"

inductive_cases root_ofE: "root_of ps v r"

definition forest :: "nat list \<Rightarrow> bool" where
  "forest ps \<longleftrightarrow> (\<forall>v < length ps. \<exists>r. root_of ps v r)"

definition same_root :: "nat list \<Rightarrow> nat \<Rightarrow> nat \<Rightarrow> bool" where
  "same_root ps x y \<longleftrightarrow> (\<exists>r. root_of ps x r \<and> root_of ps y r)"

lemma root_of_det: "root_of ps v r \<Longrightarrow> root_of ps v r' \<Longrightarrow> r' = r"
  by (induction rule: root_of.induct) (auto elim: root_ofE)

lemma root_of_bounds: "root_of ps v r \<Longrightarrow> v < length ps \<and> r < length ps \<and> ps ! r = r"
  by (induction rule: root_of.induct) auto

lemma root_of_self: "r < length ps \<Longrightarrow> ps ! r = r \<Longrightarrow> root_of ps r r"
  by (rule root_of.at_root)

text \<open>Path compression and the linking of two roots, on the relation of roots.\<close>

lemma root_of_compress:
  assumes "root_of ps v r" "root_of ps x y"
  shows "root_of (ps[v := r]) x y"
  using assms(2)
proof (induction rule: root_of.induct)
  case (at_root x)
  with assms(1) root_of_bounds [OF assms(1)] show ?case
    by (cases "x = v") (auto intro!: root_of.at_root dest: root_of_det [OF root_of.at_root])
next
  case (up x y)
  have vr: "v < length ps" "r < length ps" "ps ! r = r" using root_of_bounds [OF assms(1)] by auto
  show ?case
  proof (cases "x = v")
    case True
    have "y = r" using True assms(1) up.hyps root_of_det root_of.up by metis
    moreover have "root_of (ps[v := r]) r r" using vr by (cases "r = v") (auto intro: root_of.at_root)
    ultimately show ?thesis
      using True up.hyps vr by (cases "r = v") (auto intro: root_of.intros)
  next
    case False
    with up show ?thesis by (auto intro: root_of.up)
  qed
qed

lemma root_of_link:
  assumes "root_of ps x y" "ps ! a = a" "ps ! b = b" "a < length ps" "b < length ps" "a \<noteq> b"
  shows "root_of (ps[b := a]) x (if y = b then a else y)"
  using assms
proof (induction rule: root_of.induct)
  case (at_root x)
  show ?case
  proof (cases "x = b")
    case True
    have "root_of (ps[b := a]) a a" using at_root by (auto intro: root_of.at_root)
    with True at_root show ?thesis by (auto intro: root_of.up)
  qed (use at_root in \<open>auto intro: root_of.at_root\<close>)
next
  case (up x y)
  then have "x \<noteq> b" by auto
  with up show ?case by (auto intro: root_of.up)
qed

lemma find_root_spec:
  "root_of ps v r \<Longrightarrow>
     \<exists>ps'. find_root ps v = Some (r, ps') \<and> length ps' = length ps \<and>
           (\<forall>x y. root_of ps x y \<longrightarrow> root_of ps' x y)"
proof (induction rule: root_of.induct)
  case (at_root v)
  then show ?case by (subst find_root.simps) auto
next
  case (up v r)
  then obtain ps1 where 1: "find_root ps (ps ! v) = Some (r, ps1)" "length ps1 = length ps"
    "\<forall>x y. root_of ps x y \<longrightarrow> root_of ps1 x y" by auto
  have "root_of ps1 v r" using up.hyps 1(3) root_of.up by blast
  then show ?case using 1 up.hyps root_of_compress
    by (subst find_root.simps) (auto intro!: exI [of _ "ps1[v := r]"])
qed

lemma root_of_iff:
  assumes "forest ps" "length ps' = length ps" "\<And>x y. root_of ps x y \<Longrightarrow> root_of ps' x y"
  shows "root_of ps' x y \<longleftrightarrow> root_of ps x y"
  using assms root_of_det root_of_bounds unfolding forest_def by metis

lemma find_root_forest:
  assumes "forest ps" "v < length ps"
  obtains r ps' where "find_root ps v = Some (r, ps')" "root_of ps v r" "length ps' = length ps"
    "forest ps'" "\<And>x y. root_of ps' x y \<longleftrightarrow> root_of ps x y"
proof -
  obtain r where r: "root_of ps v r" using assms unfolding forest_def by blast
  from find_root_spec [OF r] obtain ps' where *: "find_root ps v = Some (r, ps')"
    "length ps' = length ps" "\<And>x y. root_of ps x y \<Longrightarrow> root_of ps' x y" by blast
  have iff: "root_of ps' x y \<longleftrightarrow> root_of ps x y" for x y
    by (rule root_of_iff [OF assms(1) *(2)]) (rule *(3))
  then have "forest ps'" using assms(1) *(2) by (simp add: forest_def)
  with that * r iff show thesis by blast
qed

lemma same_root_iff: "root_of ps x p \<Longrightarrow> root_of ps y q \<Longrightarrow> same_root ps x y \<longleftrightarrow> p = q"
  unfolding same_root_def by (metis root_of_det)

lemma same_root_bounds: "same_root ps x y \<Longrightarrow> x < length ps \<and> y < length ps"
  unfolding same_root_def by (auto dest: root_of_bounds)

lemma union_roots_spec:
  assumes "forest ps" "l < length ps" "r < length ps"
  shows "\<exists>ps'. union_roots ps l r = Some ps' \<and> forest ps' \<and> length ps' = length ps \<and>
     (\<forall>x y. same_root ps' x y \<longleftrightarrow>
        same_root ps x y \<or> (same_root ps x l \<and> same_root ps y r) \<or> (same_root ps x r \<and> same_root ps y l))"
proof -
  obtain a ps1 where 1: "find_root ps l = Some (a, ps1)" "root_of ps l a" "length ps1 = length ps"
    "forest ps1" "\<And>x y. root_of ps1 x y \<longleftrightarrow> root_of ps x y"
    using find_root_forest [OF assms(1,2)] by metis
  obtain b ps2 where 2: "find_root ps1 r = Some (b, ps2)" "root_of ps1 r b" "length ps2 = length ps1"
    "forest ps2" "\<And>x y. root_of ps2 x y \<longleftrightarrow> root_of ps1 x y"
    using find_root_forest [OF 1(4)] assms(3) 1(3) by metis
  have roots: "root_of ps2 x y \<longleftrightarrow> root_of ps x y" for x y using 1(5) 2(5) by simp
  have rb: "root_of ps r b" using 1(5) 2(2) by simp
  show ?thesis
  proof (cases "a = b")
    case True
    then show ?thesis using 1 2 rb roots root_of_det unfolding same_root_def
      by (intro exI [of _ ps2]) (simp add: union_roots_def, metis)
  next
    case False
    let ?p = "ps2[b := a]"
    have ab: "ps2 ! a = a" "ps2 ! b = b" "a < length ps2" "b < length ps2"
      using root_of_bounds [of ps2 l a] root_of_bounds [of ps2 r b] 1(2) rb roots by auto
    have link: "root_of ps x y \<Longrightarrow> root_of ?p x (if y = b then a else y)" for x y
      using root_of_link [OF _ ab False] roots by blast
    have forest: "forest ?p" using link assms(1) 1(3) 2(3) unfolding forest_def by simp blast
    have "same_root ?p x y \<longleftrightarrow>
        same_root ps x y \<or> (same_root ps x l \<and> same_root ps y r) \<or> (same_root ps x r \<and> same_root ps y l)" for x y
    proof (cases "x < length ps \<and> y < length ps")
      case True
      then obtain p q where pq: "root_of ps x p" "root_of ps y q" using assms(1) unfolding forest_def by blast
      note same = same_root_iff [OF link [OF pq(1)] link [OF pq(2)]] same_root_iff [OF pq]
        same_root_iff [OF pq(1) 1(2)] same_root_iff [OF pq(2) rb]
        same_root_iff [OF pq(1) rb] same_root_iff [OF pq(2) 1(2)]
      show ?thesis unfolding same using False by auto
    next
      case False
      then show ?thesis
        using same_root_bounds [of ?p x y] same_root_bounds [of ps] 1(3) 2(3) by auto
    qed
    then show ?thesis using 1 2 False forest by (intro exI [of _ ?p]) (simp add: union_roots_def)
  qed
qed
subsection \<open>A partition that grows by links\<close>

text \<open>
  What the correlation engine relies on: a partition of \<open>{0..<size}\<close> that only \<open>unite\<close> changes,
  and that \<open>unite\<close> always succeeds and merges exactly two classes. The client fact is that a
  list of links yields their equivalence closure, whatever their order.
\<close>

definition closure :: "('a \<times> 'a) set \<Rightarrow> ('a \<times> 'a) set" where
  "closure E = (E \<union> E\<inverse>)\<^sup>*"

locale link_partition =
  fixes invar :: "'s \<Rightarrow> bool"
    and size_of :: "'s \<Rightarrow> nat"
    and same :: "'s \<Rightarrow> nat \<Rightarrow> nat \<Rightarrow> bool"
    and unite :: "'s \<Rightarrow> nat \<Rightarrow> nat \<Rightarrow> 's option"
    and unite_all :: "'s \<Rightarrow> (nat \<times> nat) list \<Rightarrow> 's option"
  assumes same_refl: "invar s \<Longrightarrow> x < size_of s \<Longrightarrow> same s x x"
    and same_sym: "same s x y \<Longrightarrow> same s y x"
    and same_trans: "same s x y \<Longrightarrow> same s y z \<Longrightarrow> same s x z"
    and same_bounds: "same s x y \<Longrightarrow> x < size_of s \<and> y < size_of s"
    and unite_law: "invar s \<Longrightarrow> l < size_of s \<Longrightarrow> r < size_of s \<Longrightarrow>
      \<exists>s'. unite s l r = Some s' \<and> invar s' \<and> size_of s' = size_of s \<and>
        (\<forall>x y. same s' x y \<longleftrightarrow>
           same s x y \<or> (same s x l \<and> same s y r) \<or> (same s x r \<and> same s y l))"
    and unite_all_Nil: "unite_all s [] = Some s"
    and unite_all_Cons: "unite_all s ((l, r) # es) = Option.bind (unite s l r) (\<lambda>s'. unite_all s' es)"
begin

lemma unite_closure:
  assumes s: "invar s" "l < size_of s" "r < size_of s"
    and s': "\<forall>x y. same s' x y \<longleftrightarrow>
      same s x y \<or> (same s x l \<and> same s y r) \<or> (same s x r \<and> same s y l)"
  shows "closure ({(x, y). same s' x y} \<union> E) = closure ({(x, y). same s x y} \<union> insert (l, r) E)"
  unfolding closure_def
proof (rule rtrancl_subset)
  let ?S = "{(x, y). same s x y}" and ?S' = "{(x, y). same s' x y}"
  let ?A = "?S \<union> insert (l, r) E \<union> (?S \<union> insert (l, r) E)\<inverse>"
  show "?A \<subseteq> ?S' \<union> E \<union> (?S' \<union> E)\<inverse>"
    using s' same_refl [OF s(1)] s(2,3) by (auto simp: Un_iff)
  have step: "same s x y \<Longrightarrow> (x, y) \<in> ?A" for x y by simp
  have "same s x l \<Longrightarrow> same s y r \<Longrightarrow> (x, y) \<in> ?A\<^sup>*" for x y
    using step same_sym by (meson UnI1 UnI2 converse_rtrancl_into_rtrancl insertI1 r_into_rtrancl)
  moreover have "same s x r \<Longrightarrow> same s y l \<Longrightarrow> (x, y) \<in> ?A\<^sup>*" for x y
    using step same_sym
    by (meson UnI1 UnI2 converseI converse_rtrancl_into_rtrancl insertI1 r_into_rtrancl)
  ultimately have fwd: "same s' x y \<Longrightarrow> (x, y) \<in> ?A\<^sup>*" for x y
    using s' step r_into_rtrancl by metis
  have "same s' x y \<longleftrightarrow> same s' y x" for x y using s' same_sym by metis
  with fwd have "?S' \<union> ?S'\<inverse> \<subseteq> ?A\<^sup>*" by auto
  moreover have "E \<union> E\<inverse> \<subseteq> ?A\<^sup>*" by (auto intro: r_into_rtrancl)
  ultimately show "?S' \<union> E \<union> (?S' \<union> E)\<inverse> \<subseteq> ?A\<^sup>*" by auto
qed

theorem unite_all_closure:
  assumes "invar s" "\<forall>(l, r) \<in> set es. l < size_of s \<and> r < size_of s"
  shows "\<exists>s'. unite_all s es = Some s' \<and> invar s' \<and> size_of s' = size_of s \<and>
     (\<forall>x < size_of s. \<forall>y. same s' x y \<longleftrightarrow> (x, y) \<in> closure ({(x, y). same s x y} \<union> set es))"
  using assms
proof (induction es arbitrary: s)
  case Nil
  have "{(x, y). same s x y} \<union> {(x, y). same s x y}\<inverse> = {(x, y). same s x y}"
    using same_sym by auto
  moreover have "(x, y) \<in> {(x, y). same s x y}\<^sup>* \<Longrightarrow> x < size_of s \<Longrightarrow> same s x y" for x y
    by (induction rule: rtrancl_induct) (auto intro: same_refl [OF Nil.prems(1)] same_trans)
  ultimately show ?case
    using Nil.prems by (auto simp: unite_all_Nil closure_def)
next
  case (Cons e es)
  obtain l r where e: "e = (l, r)" by force
  with Cons.prems have lr: "l < size_of s" "r < size_of s" by auto
  from unite_law [OF Cons.prems(1) lr] obtain s1 where s1: "unite s l r = Some s1" "invar s1"
    "size_of s1 = size_of s" "\<forall>x y. same s1 x y \<longleftrightarrow>
       same s x y \<or> (same s x l \<and> same s y r) \<or> (same s x r \<and> same s y l)" by blast
  from Cons.IH [OF s1(2)] Cons.prems(2) s1(3) obtain s' where s':
    "unite_all s1 es = Some s'" "invar s'" "size_of s' = size_of s"
    "\<forall>x < size_of s. \<forall>y. same s' x y \<longleftrightarrow> (x, y) \<in> closure ({(x, y). same s1 x y} \<union> set es)"
    by auto
  show ?case
    using s' s1 unite_closure [OF Cons.prems(1) lr s1(4), of "set es"] e
    by (auto simp: unite_all_Cons)
qed

end

interpretation uf: link_partition forest length same_root union_roots union_all
proof unfold_locales
  show "\<And>s x. forest s \<Longrightarrow> x < length s \<Longrightarrow> same_root s x x"
    by (auto simp: forest_def same_root_def)
  show "\<And>s x y z. same_root s x y \<Longrightarrow> same_root s y z \<Longrightarrow> same_root s x z"
    unfolding same_root_def by (metis root_of_det)
  show "\<And>s x y. same_root s x y \<Longrightarrow> same_root s y x" by (auto simp: same_root_def)
qed (auto dest: same_root_bounds intro!: union_roots_spec)

text \<open>The initial array: every element is its own root.\<close>

lemma forest_upt: "forest [0..<n]"
  by (auto simp: forest_def intro!: exI root_of.at_root)

lemma root_of_upt: "root_of [0..<n] x y \<longleftrightarrow> x < n \<and> y = x"
  by (auto elim: root_ofE intro: root_of.at_root)

lemma closure_Id: "closure ({(x, y). same_root [0..<n] x y} \<union> E) = closure E"
proof -
  have "{(x, y). same_root [0..<n] x y} \<subseteq> Id"
    by (auto simp: same_root_def root_of_upt)
  then show ?thesis unfolding closure_def by (intro rtrancl_subset) auto
qed

lemma union_all_upt:
  assumes "\<forall>(l, r) \<in> set es. l < n \<and> r < n"
  shows "\<exists>ps. union_all [0..<n] es = Some ps \<and> forest ps \<and> length ps = n \<and>
     (\<forall>x < n. \<forall>y. same_root ps x y \<longleftrightarrow> (x, y) \<in> closure (set es))"
  using uf.unite_all_closure [OF forest_upt, of es n] assms closure_Id by auto
subsection \<open>Groups and marks\<close>

lemma appendTo_get:
  "gget (appendTo k v m) r =
     (if r = k then Some ((case gget m k of None \<Rightarrow> [] | Some vs \<Rightarrow> vs) @ [v]) else gget m r)"
  by (simp add: appendTo_def update_conv')

lemma appendTo_distinct: "distinct (map fst m) \<Longrightarrow> distinct (map fst (appendTo k v m))"
  by (simp add: appendTo_def distinct_update)

lemma fold_appendTo_distinct:
  "distinct (map fst m) \<Longrightarrow> distinct (map fst (fold (\<lambda>i. appendTo (k i) i) xs m))"
  by (induction xs arbitrary: m) (auto intro: appendTo_distinct)

lemma fold_appendTo_get:
  "gget (fold (\<lambda>i. appendTo (k i) i) xs m) r =
     (if filter (\<lambda>i. k i = r) xs = [] then gget m r
      else Some ((case gget m r of None \<Rightarrow> [] | Some vs \<Rightarrow> vs) @ filter (\<lambda>i. k i = r) xs))"
  by (induction xs arbitrary: m) (auto simp: appendTo_get)

lemma fold_appendTo_member:
  "(r, vs) \<in> set (fold (\<lambda>i. appendTo (k i) i) xs []) \<longleftrightarrow>
     vs = filter (\<lambda>i. k i = r) xs \<and> vs \<noteq> []"
proof -
  have "(r, vs) \<in> set (fold (\<lambda>i. appendTo (k i) i) xs []) \<longleftrightarrow>
      gget (fold (\<lambda>i. appendTo (k i) i) xs []) r = Some vs"
    by (simp add: fold_appendTo_distinct)
  then show ?thesis by (auto simp: fold_appendTo_get)
qed

lemma groupRoots_eq:
  assumes "forest ps" "\<forall>i < length ps. root_of ps i (R i)" "\<forall>i \<in> set ixs. i < length ps"
  shows "groupRoots ps ixs groups = Some (fold (\<lambda>i. appendTo (R i) i) ixs groups)"
  using assms
proof (induction ixs arbitrary: ps groups)
  case (Cons i ixs)
  obtain r ps' where f: "find_root ps i = Some (r, ps')" "root_of ps i r" "length ps' = length ps"
    "forest ps'" "\<And>x y. root_of ps' x y \<longleftrightarrow> root_of ps x y"
    using find_root_forest [OF Cons.prems(1)] Cons.prems(3) by (metis list.set_intros(1))
  have "r = R i" using f(2) Cons.prems root_of_det by auto
  then show ?case using Cons.IH [OF f(4)] f Cons.prems by simp
qed simp

lemma markGroup_nth:
  assumes "distinct indexes"
  shows "length (markGroup config fs indexes out) = length out \<and>
    (i < length out \<longrightarrow> markGroup config fs indexes out ! i =
       (if i \<in> set indexes then markFinding config fs indexes (out ! i) else out ! i))"
proof -
  have "length (fold (\<lambda>i acc. acc[i := g (acc ! i)]) ixs acc) = length acc \<and>
    (i < length acc \<longrightarrow> fold (\<lambda>i acc. acc[i := g (acc ! i)]) ixs acc ! i =
       (if i \<in> set ixs then g (acc ! i) else acc ! i))" if "distinct ixs" for g ixs and acc :: "finding list"
    using that
  proof (induction ixs arbitrary: acc)
    case (Cons j js)
    then show ?case by (cases "i = j") auto
  qed simp
  from this [OF assms] show ?thesis unfolding markGroup_def by blast
qed

lemma markGroups_nth:
  assumes "distinct (map fst groups)" "\<forall>(r, ixs) \<in> set groups. ixs = filter (\<lambda>i. R i = r) [0..<n]"
    "length out = n"
  shows "length (fold (\<lambda>(_, ixs). markGroup config fs ixs) groups out) = n \<and>
    (\<forall>i < n. fold (\<lambda>(_, ixs). markGroup config fs ixs) groups out ! i =
       (if R i \<in> fst ` set groups
        then markFinding config fs (filter (\<lambda>j. R j = R i) [0..<n]) (out ! i) else out ! i))"
  using assms
proof (induction groups arbitrary: out)
  case (Cons g groups)
  obtain r ixs where g: "g = (r, ixs)" by force
  then have ixs: "ixs = filter (\<lambda>i. R i = r) [0..<n]" using Cons.prems(2) by simp
  let ?out = "markGroup config fs ixs out"
  have mark: "length ?out = n" "\<forall>i < n. ?out ! i =
      (if R i = r then markFinding config fs (filter (\<lambda>j. R j = R i) [0..<n]) (out ! i) else out ! i)"
    using markGroup_nth [of ixs config fs out] ixs Cons.prems(3) by auto
  have IH: "length (fold (\<lambda>(_, ixs). markGroup config fs ixs) groups ?out) = n \<and>
    (\<forall>i < n. fold (\<lambda>(_, ixs). markGroup config fs ixs) groups ?out ! i =
       (if R i \<in> fst ` set groups
        then markFinding config fs (filter (\<lambda>j. R j = R i) [0..<n]) (?out ! i) else ?out ! i))"
    using Cons.prems mark(1) by (intro Cons.IH) auto
  have "r \<notin> fst ` set groups" using Cons.prems(1) g by simp
  with IH mark(2) show ?case by (auto simp: g)
qed simp

text \<open>The reference: the class of an index under the closure of the links.\<close>

definition class_of :: "(nat \<times> nat) list \<Rightarrow> nat \<Rightarrow> nat \<Rightarrow> nat list" where
  "class_of links n i = filter (\<lambda>j. (i, j) \<in> closure (set links)) [0..<n]"

lemma bucketKeys_eq:
  "bucketKeys rule fs = fold (\<lambda>i. appendTo (ru_key rule (fs ! i)) i)
     (filter (\<lambda>i. \<not> (ru_key rule (fs ! i) = '''' \<and> ru_requireKey rule)) [0..<length fs]) []"
proof -
  have "fold (\<lambda>i m. if P i then m else f i m) xs m = fold f (filter (\<lambda>i. \<not> P i) xs) m" for P f xs m
    by (induction xs arbitrary: m) auto
  from this [of "\<lambda>i. ru_key rule (fs ! i) = [] \<and> ru_requireKey rule"] show ?thesis
    by (simp only: bucketKeys_def)
qed

lemma windowLinks_sound:
  assumes "(i, j) \<in> set (windowLinks t w xs)"
  shows "i \<in> set xs \<and> j \<in> set xs \<and> t j - t i \<le> w \<and> (sorted_wrt (\<lambda>x y. t x \<le> t y) xs \<longrightarrow> t i \<le> t j)"
  using assms
proof (induction t w xs rule: windowLinks.induct)
  case (2 t w s rest)
  have sub: "sorted_wrt R rest \<Longrightarrow> sorted_wrt R (dropWhile P rest)" for R P
    using sorted_wrt_append [of R "takeWhile P rest" "dropWhile P rest"] by simp
  from 2 show ?case by (auto dest: set_takeWhileD set_dropWhileD sub)
qed simp

lemma ruleLinks_sound:
  assumes "(i, j) \<in> set (ruleLinks fs rule)" "ru_requireKey rule"
  shows "i < length fs \<and> j < length fs \<and> ru_key rule (fs ! i) = ru_key rule (fs ! j) \<and>
    ru_key rule (fs ! i) \<noteq> [] \<and> f_updatedAt (fs ! j) - f_updatedAt (fs ! i) \<in> {0..ru_window rule}"
proof -
  let ?t = "\<lambda>i. f_updatedAt (fs ! i)"
  from assms(1) obtain k ixs where ixs: "(k, ixs) \<in> set (bucketKeys rule fs)"
    "(i, j) \<in> set (windowLinks ?t (ru_window rule) (sortSlice (\<lambda>i j. ?t i < ?t j) ixs))"
    by (auto simp: ruleLinks_def)
  have "sorted_wrt (\<lambda>x y. ?t x \<le> ?t y) (sortSlice (\<lambda>i j. ?t i < ?t j) ixs)"
    using by_key.ordered_sortSlice [of ?t ixs] by (simp add: not_less)
  with windowLinks_sound [OF ixs(2)] ixs(1) assms(2) show ?thesis
    by (auto simp: bucketKeys_eq fold_appendTo_member)
qed

lemma allLinks_bounds: "\<forall>(l, r) \<in> set (allLinks config fs). l < length fs \<and> r < length fs"
  by (auto simp: allLinks_def rules_def dest!: ruleLinks_sound)

lemma forest_class:
  assumes "forest ps" "length ps = n" "\<forall>x < n. \<forall>y. same_root ps x y \<longleftrightarrow> (x, y) \<in> closure (set links)"
  obtains R where "\<forall>i < n. root_of ps i (R i)"
    "\<forall>i < n. filter (\<lambda>j. R j = R i) [0..<n] = class_of links n i"
proof -
  from assms(1,2) obtain R where R: "\<forall>i < n. root_of ps i (R i)" unfolding forest_def by metis
  have "(R j = R i) = ((i, j) \<in> closure (set links))" if "i < n" "j < n" for i j
    using that assms(3) R same_root_iff by metis
  then have "\<forall>i < n. filter (\<lambda>j. R j = R i) [0..<n] = class_of links n i"
    by (auto simp: class_of_def intro!: filter_cong)
  with R that show thesis by blast
qed

lemma Correlate_marks:
  assumes fs: "fs = map ensureKeys input"
  shows "CorrelateWithConfig input config =
    Some (map (\<lambda>i. markFinding config fs (class_of (allLinks config fs) (length fs) i) (fs ! i))
            [0..<length fs])"
proof -
  let ?n = "length fs" and ?L = "allLinks config fs"
  obtain ps where ps: "union_all [0..<?n] ?L = Some ps" "forest ps" "length ps = ?n"
    "\<forall>x < ?n. \<forall>y. same_root ps x y \<longleftrightarrow> (x, y) \<in> closure (set ?L)"
    using union_all_upt [OF allLinks_bounds] by blast
  obtain R where R: "\<forall>i < ?n. root_of ps i (R i)"
    "\<forall>i < ?n. filter (\<lambda>j. R j = R i) [0..<?n] = class_of ?L ?n i"
    using forest_class [OF ps(2-4)] by blast
  define groups where "groups = fold (\<lambda>i. appendTo (R i) i) [0..<?n] []"
  have groups: "groupRoots ps [0..<?n] [] = Some groups"
    using groupRoots_eq [OF ps(2), of R] R(1) ps(3) by (simp add: groups_def)
  have dist: "distinct (map fst groups)" by (simp add: groups_def fold_appendTo_distinct)
  have mem: "\<forall>(r, ixs) \<in> set groups. ixs = filter (\<lambda>i. R i = r) [0..<?n]"
    by (auto simp: groups_def fold_appendTo_member)
  have dom: "R i \<in> fst ` set groups" if "i < ?n" for i
  proof -
    have "(R i, filter (\<lambda>j. R j = R i) [0..<?n]) \<in> set groups"
      using that by (auto simp: groups_def fold_appendTo_member filter_empty_conv)
    then show ?thesis by force
  qed
  have "fold (\<lambda>(_, indexes). markGroup config fs indexes) groups fs =
    map (\<lambda>i. markFinding config fs (class_of ?L ?n i) (fs ! i)) [0..<?n]"
    using markGroups_nth [OF dist mem, of fs config fs] dom R(2) by (auto intro!: nth_equalityI)
  then show ?thesis using ps groups unfolding CorrelateWithConfig_def fs Let_def by simp
qed

text \<open>
  C5. Correlation always returns, and it computes the reference partition: every finding of the
  input keeps its place, its identifier and its evidence, its group is the hash of the sorted
  identifiers of the findings connected to it by a chain of correlation links, whatever the order
  in which the links were united, and its score is the score of that group.
\<close>

theorem CorrelateWithConfig_total:
  "\<exists>out. CorrelateWithConfig input config = Some out \<and> length out = length input \<and>
     list_all (\<lambda>i.
        let fs = map ensureKeys input;
            cls = filter (\<lambda>j. (i, j) \<in> closure (set (allLinks config fs))) [0..<length fs];
            e = score (fs ! i) (card (set (map (\<lambda>j. f_source (fs ! j)) cls))) (length cls) config
        in i \<in> set cls \<and>
           out ! i = (fs ! i)\<lparr>f_correlationGroup := groupID fs cls, f_riskExplanation := e,
                              f_riskScore := re_finalScore e\<rparr>) [0..<length input]"
proof -
  have mark: "markFinding c fs ixs f =
     f\<lparr>f_correlationGroup := groupID fs ixs,
       f_riskExplanation := score f (card (set (map (\<lambda>j. f_source (fs ! j)) ixs))) (length ixs) c,
       f_riskScore := re_finalScore (score f (card (set (map (\<lambda>j. f_source (fs ! j)) ixs))) (length ixs) c)\<rparr>"
    for c fs ixs f
    by (simp add: markFinding_def score_def riskFactors_def Let_def)
  show ?thesis
    unfolding Correlate_marks [OF refl]
    by (auto simp: mark class_of_def closure_def Let_def list_all_iff)
qed

lemma class_of_eq:
  assumes "i < n" "j \<in> set (class_of links n i)"
  shows "class_of links n j = class_of links n i"
proof -
  have ij: "(i, j) \<in> closure (set links)" using assms by (simp add: class_of_def)
  have "sym (closure (set links))" unfolding closure_def by (intro sym_rtrancl) (auto simp: sym_def)
  with ij have ji: "(j, i) \<in> closure (set links)" by (simp add: symD)
  have "(j, k) \<in> closure (set links) \<longleftrightarrow> (i, k) \<in> closure (set links)" for k
    using ij ji unfolding closure_def by (meson rtrancl_trans)
  then show ?thesis by (simp add: class_of_def)
qed

text \<open>
  Every correlation link is justified: it joins two findings of the input for which one of
  the four rules has the same non-empty key, and the later of them was updated within that
  rule's window after the earlier one.
\<close>

theorem allLinks_justified:
  assumes "(i, j) \<in> set (allLinks config fs)"
  shows "i < length fs \<and> j < length fs \<and>
    (\<exists>rule \<in> set (rules config). ru_key rule (fs ! i) = ru_key rule (fs ! j) \<and>
       ru_key rule (fs ! i) \<noteq> [] \<and>
       f_updatedAt (fs ! j) - f_updatedAt (fs ! i) \<in> {0..ru_window rule})"
proof -
  from assms obtain rule where rule: "rule \<in> set (rules config)" "(i, j) \<in> set (ruleLinks fs rule)"
    by (auto simp: allLinks_def)
  moreover have "ru_requireKey rule" using rule(1) by (auto simp: rules_def)
  ultimately show ?thesis using ruleLinks_sound by blast
qed

text \<open>
  Linked findings end up in one group: when correlation links two findings of the input, both
  carry the same group identifier, and the explanation of neither omits the other (both report
  correlated findings).
\<close>

theorem linked_same_group:
  assumes "CorrelateWithConfig input config = Some out"
    and "(i, j) \<in> set (allLinks config (map ensureKeys input))" "i \<noteq> j"
  shows "f_correlationGroup (out ! i) = f_correlationGroup (out ! j) \<and>
    ''correlated-findings'' \<in> rf_name ` set (re_factors (f_riskExplanation (out ! i))) \<and>
    ''correlated-findings'' \<in> rf_name ` set (re_factors (f_riskExplanation (out ! j)))"
proof -
  define fs where "fs = map ensureKeys input"
  let ?L = "allLinks config fs" and ?n = "length fs"
  have ij: "i < ?n" "j < ?n" using allLinks_bounds [of config fs] assms(2) by (auto simp: fs_def)
  have step: "(i, j) \<in> closure (set ?L)" using assms(2) by (auto simp: closure_def fs_def)
  have mem: "i \<in> set (class_of ?L ?n i)" "j \<in> set (class_of ?L ?n i)"
    using ij step by (auto simp: class_of_def closure_def)
  have eq: "class_of ?L ?n j = class_of ?L ?n i" by (rule class_of_eq [OF ij(1) mem(2)])
  have two: "length (class_of ?L ?n i) > 1"
  proof -
    have "card {i, j} \<le> card (set (class_of ?L ?n i))" using mem by (intro card_mono) auto
    with assms(3) show ?thesis using card_length [of "class_of ?L ?n i"] by simp
  qed
  have out: "out ! k = markFinding config fs (class_of ?L ?n k) (fs ! k)" if "k < ?n" for k
    using that assms(1) unfolding Correlate_marks [OF fs_def] by auto
  show ?thesis unfolding out [OF ij(1)] out [OF ij(2)] eq using two
    by (simp add: markFinding_def Let_def score_def riskFactors_def factor_def)
qed

subsection \<open>Configurations and scores\<close>

lemma ParseConfig_Inr:
  assumes "ParseConfig raw = Inr c"
  shows "basesDescend c \<and> list_all (\<lambda>v. 0 \<le> v \<and> v \<le> 20) (pointValues c) \<and>
    list_all (\<lambda>v. 1 \<le> v \<and> v \<le> 10080) (windowValues c)"
proof (cases "raw = []")
  case True
  with assms have "c = DefaultConfig" by (simp add: ParseConfig_def)
  then show ?thesis by (simp add: DefaultConfig_def basesDescend_def pointValues_def windowValues_def)
next
  case False
  with assms show ?thesis
    by (auto simp: ParseConfig_def list_ex_iff list_all_iff not_less split: option.splits if_splits)
qed

lemma fold_points: "fold (\<lambda>x acc. acc + rf_points x) xs b = b + sum_list (map rf_points xs)"
  by (induction xs arbitrary: b) auto

lemma riskFactors_points:
  assumes "list_all (\<lambda>v. 0 \<le> v \<and> v \<le> 20) (pointValues c)"
  shows "list_all (\<lambda>x. 0 \<le> rf_points x \<and> rf_points x \<le> 20) (riskFactors f sources members c)"
  using assms by (auto simp: riskFactors_def pointValues_def factor_def)

lemma sum_points_nonneg:
  "list_all (\<lambda>x. 0 \<le> rf_points x \<and> P x) xs \<Longrightarrow> 0 \<le> sum_list (map rf_points xs)"
  by (induction xs) auto

text \<open>
  A score under an accepted configuration explains itself and stays in range: the final score
  is the base of the severity plus the points of the listed factors, capped at 100; it is never
  below the base nor negative, every factor adds between 0 and 20 points, and a more severe
  finding never has the lower base.
\<close>

theorem score_explained:
  assumes "ParseConfig raw = Inr c"
  shows "let e = score f sources members c in
    re_finalScore e = min 100 (re_baseScore e + sum_list (map rf_points (re_factors e))) \<and>
    re_baseScore e = severityBase c (f_severity f) \<and>
    0 \<le> re_baseScore e \<and> re_baseScore e \<le> re_finalScore e \<and> re_finalScore e \<le> 100 \<and>
    list_all (\<lambda>x. 0 \<le> rf_points x \<and> rf_points x \<le> 20) (re_factors e) \<and>
    sorted (map (severityBase c)
      [SeverityInfo, SeverityLow, SeverityMedium, SeverityHigh, SeverityCritical])"
proof -
  from ParseConfig_Inr [OF assms] have c: "basesDescend c"
    and pts: "list_all (\<lambda>v. 0 \<le> v \<and> v \<le> 20) (pointValues c)" by auto
  have base: "0 \<le> severityBase c s \<and> severityBase c s \<le> 100" for s
    using c by (cases s) (auto simp: basesDescend_def severityBase_def)
  have sum: "0 \<le> sum_list (map rf_points (riskFactors f sources members c))"
    using riskFactors_points [OF pts] by (rule sum_points_nonneg)
  have desc: "sorted (map (severityBase c)
      [SeverityInfo, SeverityLow, SeverityMedium, SeverityHigh, SeverityCritical])"
    using c by (auto simp: basesDescend_def severityBase_def)
  show ?thesis
    using base [of "f_severity f"] sum riskFactors_points [OF pts] desc
    by (auto simp: score_def Let_def fold_points)
qed

subsection \<open>The theorems at concrete inputs\<close>

definition sample_pair :: "finding list" where
  "sample_pair =
     [sample_finding ''Deployment'' ''no pdb'',
      (sample_finding ''Deployment'' ''no probes'')\<lparr>f_id := ''f2'', f_source := ''trivy'', f_updatedAt := minute\<rparr>]"

lemmas corr_eval = sample_pair_def sample_finding_def ensureKeys_def allLinks_def rules_def
  ruleLinks_def bucketKeys_def appendTo_def sortSlice_def DefaultConfig_def minute_def second_def

lemma sample_links: "allLinks DefaultConfig (map ensureKeys sample_pair) = [(0, 1)]"
  by (simp add: corr_eval upt_rec)

theorem allLinks_justified_witness:
  "(0 :: nat) < 2 \<and> (\<exists>rule \<in> set (rules DefaultConfig).
     ru_key rule (map ensureKeys sample_pair ! 0) = ru_key rule (map ensureKeys sample_pair ! 1) \<and>
     f_updatedAt (map ensureKeys sample_pair ! 1) - f_updatedAt (map ensureKeys sample_pair ! 0)
       \<in> {0..ru_window rule})"
  using allLinks_justified [of 0 1 DefaultConfig "map ensureKeys sample_pair"] by (auto simp: sample_links)

theorem linked_same_group_witness:
  "\<exists>out. Correlate sample_pair = Some out \<and> f_correlationGroup (out ! 0) = f_correlationGroup (out ! 1)"
proof -
  obtain out where "CorrelateWithConfig sample_pair DefaultConfig = Some out"
    using Correlate_marks [OF refl] by blast
  with linked_same_group [of sample_pair DefaultConfig out 0 1] show ?thesis
    by (simp add: Correlate_def sample_links)
qed

lemma sample_config:
  "ParseConfig ''{\"highBase\":80,\"other\":[]}'' = Inr (DefaultConfig\<lparr>cf_highBase := 80\<rparr>)"
  by (simp add: ParseConfig_def json_eval parseNum_def scanInt_def scanFrac_def scanExp_def scanDigits_def Let_def digitsVal_def
    isDigit_def configFields_def DefaultConfig_def basesDescend_def pointValues_def windowValues_def parseInt_def)

theorem score_explained_witness:
  "re_finalScore (score (sample_finding ''Pod'' ''x'') 1 1 (DefaultConfig\<lparr>cf_highBase := 80\<rparr>)) \<in> {0..100}"
  using score_explained [OF sample_config, of "sample_finding ''Pod'' ''x''" 1 1] unfolding Let_def by auto

end
