(* ===== verification/MemoryStore.thy ===== *)
theory MemoryStore
  imports Go_Prelude CoreTypes PlanBuilder
begin

text \<open>
  The in-memory repository, \<open>services/api/internal/store/store.go\<close>: its state as a record of
  maps, one definition for each method, and the invariant every method keeps.

  Every method takes the store mutex for its whole body, so a call is one atomic step from a
  store to a store. The result of a method that can fail is \<open>store_error + 'a\<close>, paired with the
  store it leaves behind. The argument \<open>ctx\<close> is what \<open>ctx.Err()\<close> returns, and \<open>now\<close> is the
  reading of \<open>s.clock().UTC()\<close> during the call.
\<close>

datatype store_error = ErrContext string | ErrNotFound | ErrInvalid string | ErrConflict string

type_synonym ctx_err = "string option"

record store =
  st_findings :: "(string, finding) gomap"
  st_plans :: "(string, remediation_plan) gomap"
  st_approvals :: "(string, approval_request) gomap"
  st_runs :: "(string, remediation_run) gomap"
  st_chaosRuns :: "(string, chaos_run) gomap"
  st_auditEvents :: "audit_event list"
  st_integrations :: "integration_rec list"
  st_modelSettings :: "model_provider list"
  st_idempotency :: "(string, string) gomap"
  st_exceptions :: "(string, exception_rec) gomap"
  st_seq :: int

type_synonym 'a store_result = "(store_error + 'a) \<times> store"

record finding_filter =
  ff_severity :: string
  ff_status :: string
  ff_source :: string
  ff_query :: string
  ff_namespace :: string
  ff_kind :: string
  ff_fixability :: string
  ff_minRisk :: int

definition defaultIntegrations :: "integration_rec list" where
  "defaultIntegrations =
     map (\<lambda>(name, typ). \<lparr>in_name = name, in_type = typ, in_enabled = False, in_status = ''disabled''\<rparr>)
       [(''Trivy Operator'', ''scanner''), (''Kyverno'', ''policy''), (''Kubescape'', ''scanner''),
        (''Falco'', ''runtime''), (''Tetragon'', ''runtime''), (''Chaos Mesh'', ''verification''),
        (''LitmusChaos'', ''verification'')]"

definition emptyStore :: store where
  "emptyStore =
     \<lparr>st_findings = [], st_plans = [], st_approvals = [], st_runs = [], st_chaosRuns = [],
      st_auditEvents = [], st_integrations = defaultIntegrations, st_modelSettings = [],
      st_idempotency = [], st_exceptions = [], st_seq = 0\<rparr>"

definition WithFindings :: "finding list \<Rightarrow> store \<Rightarrow> store" where
  "WithFindings fs s = s\<lparr>st_findings := fold (\<lambda>f m. gput (f_id f) f m) fs (st_findings s)\<rparr>"

definition WithIntegrations :: "integration_rec list \<Rightarrow> store \<Rightarrow> store" where
  "WithIntegrations integrations s = s\<lparr>st_integrations := integrations\<rparr>"

definition NewMemoryStore :: "(store \<Rightarrow> store) list \<Rightarrow> store" where
  "NewMemoryStore options = fold (\<lambda>option s. option s) options emptyStore"

subsection \<open>Audit trail\<close>

definition appendAudit :: "string \<Rightarrow> string \<Rightarrow> string \<Rightarrow> string \<Rightarrow> gotime \<Rightarrow> store \<Rightarrow> store" where
  "appendAudit actor action subject message at s =
     s\<lparr>st_auditEvents := st_auditEvents s @
       [\<lparr>ae_id = ''audit-'' @ padZero 3 (int (length (st_auditEvents s)) + 1), ae_actor = actor,
         ae_action = action, ae_subject = subject, ae_message = message, ae_createdAt = at\<rparr>]\<rparr>"

definition Health :: "ctx_err \<Rightarrow> store_error option" where
  "Health ctx = map_option ErrContext ctx"

definition ListAuditEvents :: "ctx_err \<Rightarrow> store \<Rightarrow> store_error + audit_event list" where
  "ListAuditEvents ctx s =
     (case ctx of
        Some e \<Rightarrow> Inl (ErrContext e)
      | None \<Rightarrow>
          Inr (sortSlice (\<lambda>a b. if ae_createdAt a = ae_createdAt b then ae_id a > ae_id b
                                else ae_createdAt a > ae_createdAt b) (st_auditEvents s)))"

definition RecordAuditEvent :: "ctx_err \<Rightarrow> gotime \<Rightarrow> audit_event \<Rightarrow> store \<Rightarrow> unit store_result" where
  "RecordAuditEvent ctx now event0 s =
     (case ctx of
        Some e \<Rightarrow> (Inl (ErrContext e), s)
      | None \<Rightarrow>
          if blank (ae_actor event0) \<or> blank (ae_action event0) \<or> blank (ae_subject event0)
          then (Inl (ErrInvalid ''audit actor, action, and subject are required''), s)
          else
            let event1 = (if isZero (ae_createdAt event0) then event0\<lparr>ae_createdAt := now\<rparr> else event0);
                s1 = (if ae_id event1 = '''' then s\<lparr>st_seq := st_seq s + 1\<rparr> else s);
                event2 = (if ae_id event1 = '''' then event1\<lparr>ae_id := ''audit-'' @ padZero 6 (st_seq s1)\<rparr>
                          else event1)
            in (Inr (), s1\<lparr>st_auditEvents := st_auditEvents s1 @ [event2]\<rparr>))"

subsection \<open>Exceptions\<close>

definition exceptionMatches :: "exception_rec \<Rightarrow> finding \<Rightarrow> bool" where
  "exceptionMatches x f \<longleftrightarrow>
     x_scope x = f_id f \<or> x_scope x = f_correlationGroup f \<or> x_scope x = ''source:'' @ f_source f"

definition activeException :: "gotime \<Rightarrow> finding \<Rightarrow> exception_rec \<Rightarrow> bool" where
  "activeException now f x \<longleftrightarrow> x_status x = ''active'' \<and> x_expiresAt x > now \<and> exceptionMatches x f"

definition hasActiveException :: "store \<Rightarrow> finding \<Rightarrow> gotime \<Rightarrow> bool" where
  "hasActiveException s f now \<longleftrightarrow> list_ex (\<lambda>(_, x). activeException now f x) (st_exceptions s)"

definition reopenFinding :: "gotime \<Rightarrow> finding \<Rightarrow> finding" where
  "reopenFinding now f = f\<lparr>f_status := FindingOpen, f_updatedAt := now\<rparr>"

definition exceptionLapsed :: "gotime \<Rightarrow> exception_rec \<Rightarrow> bool" where
  "exceptionLapsed now x \<longleftrightarrow> x_status x = ''active'' \<and> \<not> x_expiresAt x > now"

definition expireOneException :: "gotime \<Rightarrow> string \<times> exception_rec \<Rightarrow> store \<Rightarrow> store" where
  "expireOneException now = (\<lambda>(i, x) s.
     if exceptionLapsed now x then
       appendAudit ''system'' ''exception.expired'' i ''Exception expiration elapsed'' now
         (s\<lparr>st_exceptions := gput i (x\<lparr>x_status := ''expired'', x_updatedAt := now\<rparr>) (st_exceptions s)\<rparr>)
     else s)"

definition reopenLapsed :: "gotime \<Rightarrow> store \<Rightarrow> store" where
  "reopenLapsed now s =
     s\<lparr>st_findings := gmap_vals (\<lambda>_ f.
         if f_status f = FindingSuppressed \<and> \<not> hasActiveException s f now then reopenFinding now f else f)
       (st_findings s)\<rparr>"

definition expireExceptionsLocked :: "gotime \<Rightarrow> store \<Rightarrow> store" where
  "expireExceptionsLocked now s =
     reopenLapsed now (fold (expireOneException now) (st_exceptions s) s)"

definition ListExceptions :: "ctx_err \<Rightarrow> gotime \<Rightarrow> store \<Rightarrow> exception_rec list store_result" where
  "ListExceptions ctx now s =
     (case ctx of
        Some e \<Rightarrow> (Inl (ErrContext e), s)
      | None \<Rightarrow>
          let s1 = expireExceptionsLocked now s
          in (Inr (sortSlice (\<lambda>a b. x_createdAt a > x_createdAt b) (map snd (st_exceptions s1))), s1))"

definition suppressMatching :: "exception_rec \<Rightarrow> gotime \<Rightarrow> store \<Rightarrow> store" where
  "suppressMatching x now s =
     s\<lparr>st_findings := gmap_vals (\<lambda>_ f.
         if exceptionMatches x f then f\<lparr>f_status := FindingSuppressed, f_updatedAt := now\<rparr> else f)
       (st_findings s)\<rparr>"

definition CreateException :: "ctx_err \<Rightarrow> gotime \<Rightarrow> exception_rec \<Rightarrow> string \<Rightarrow> store \<Rightarrow> exception_rec store_result" where
  "CreateException ctx now x0 actor s =
     (case ctx of
        Some e \<Rightarrow> (Inl (ErrContext e), s)
      | None \<Rightarrow>
          if actor = '''' \<or> blank (x_scope x0) \<or> blank (x_reason x0)
          then (Inl (ErrInvalid ''scope, reason, and authenticated actor are required''), s)
          else if \<not> x_expiresAt x0 > now \<or> x_expiresAt x0 > now + 365 * 24 * hour
          then (Inl (ErrInvalid ''expiration must be in the future and no more than 365 days''), s)
          else
            let s1 = s\<lparr>st_seq := st_seq s + 1\<rparr>;
                x = x0\<lparr>x_id := ''exception-'' @ itoa (unixSeconds now) @ ''-'' @ padZero 3 (st_seq s1),
                       x_owner := actor, x_status := ''active'',
                       x_auditMetadata := ''created by authenticated API request'',
                       x_createdAt := now, x_updatedAt := now\<rparr>;
                s2 = s1\<lparr>st_exceptions := gput (x_id x) x (st_exceptions s1)\<rparr>;
                s3 = suppressMatching x now s2
            in (Inr x, appendAudit actor ''exception.created'' (x_id x) (x_reason x) now s3))"

definition DeleteException :: "ctx_err \<Rightarrow> gotime \<Rightarrow> string \<Rightarrow> string \<Rightarrow> store \<Rightarrow> unit store_result" where
  "DeleteException ctx now i actor s =
     (case ctx of
        Some e \<Rightarrow> (Inl (ErrContext e), s)
      | None \<Rightarrow>
          (case gget (st_exceptions s) i of
             None \<Rightarrow> (Inl ErrNotFound, s)
           | Some x \<Rightarrow>
               let s1 = s\<lparr>st_exceptions := gdel i (st_exceptions s)\<rparr>;
                   s2 = s1\<lparr>st_findings := gmap_vals (\<lambda>_ f.
                            if f_status f = FindingSuppressed \<and> exceptionMatches x f \<and>
                               \<not> hasActiveException s1 f now
                            then reopenFinding now f else f) (st_findings s1)\<rparr>
               in (Inr (), appendAudit actor ''exception.deleted'' i ''Exception removed'' now s2)))"

subsection \<open>Findings\<close>

definition matchesResourceFilter :: "finding \<Rightarrow> string \<Rightarrow> string \<Rightarrow> bool" where
  "matchesResourceFilter f ns kind \<longleftrightarrow>
     (ns = '''' \<and> kind = '''') \<or>
     list_ex (\<lambda>r. (ns = '''' \<or> (if rr_kind r = ''Namespace'' then rr_name r else rr_namespace r) = ns) \<and>
                  (kind = '''' \<or> rr_kind r = kind)) (f_resources f)"

definition matchesFilter :: "finding_filter \<Rightarrow> finding \<Rightarrow> bool" where
  "matchesFilter filt f \<longleftrightarrow>
     \<not> (ff_severity filt \<noteq> '''' \<and> severityString (f_severity f) \<noteq> ff_severity filt) \<and>
     \<not> (ff_status filt \<noteq> '''' \<and> findingStatusString (f_status f) \<noteq> ff_status filt) \<and>
     \<not> (ff_source filt \<noteq> '''' \<and> f_source f \<noteq> ff_source filt) \<and>
     \<not> (ff_fixability filt \<noteq> '''' \<and> fixabilityString (f_fixability f) \<noteq> ff_fixability filt) \<and>
     \<not> (ff_minRisk filt > 0 \<and> f_riskScore f < ff_minRisk filt) \<and>
     matchesResourceFilter f (ff_namespace filt) (ff_kind filt) \<and>
     \<not> (ff_query filt \<noteq> '''' \<and>
        \<not> strContains (toLower (f_title f @ '' '' @ f_blastRadius f @ '' '' @ f_correlationGroup f))
            (toLower (ff_query filt)))"

definition byRisk :: "finding \<Rightarrow> finding \<Rightarrow> bool" where
  "byRisk a b = (if f_riskScore a = f_riskScore b then f_updatedAt a > f_updatedAt b
                 else f_riskScore a > f_riskScore b)"

definition ListFindings :: "ctx_err \<Rightarrow> gotime \<Rightarrow> finding_filter \<Rightarrow> store \<Rightarrow> finding list store_result" where
  "ListFindings ctx now filt s =
     (case ctx of
        Some e \<Rightarrow> (Inl (ErrContext e), s)
      | None \<Rightarrow>
          let s1 = expireExceptionsLocked now s
          in (Inr (sortSlice byRisk (filter (matchesFilter filt) (map snd (st_findings s1)))), s1))"

definition GetFinding :: "ctx_err \<Rightarrow> string \<Rightarrow> store \<Rightarrow> store_error + finding" where
  "GetFinding ctx i s =
     (case ctx of
        Some e \<Rightarrow> Inl (ErrContext e)
      | None \<Rightarrow> (case gget (st_findings s) i of None \<Rightarrow> Inl ErrNotFound | Some f \<Rightarrow> Inr f))"

definition mergeExisting :: "finding \<Rightarrow> finding \<Rightarrow> finding" where
  "mergeExisting existing f0 =
     (let f1 = (if f_status f0 = FindingOpen \<and>
                   (f_status existing = FindingInReview \<or> f_status existing = FindingSuppressed \<or>
                    f_status existing = FindingRemediating \<or> f_status existing = FindingResolved)
                then f0\<lparr>f_status := f_status existing, f_remediationState := f_remediationState existing\<rparr>
                else f0)
      in if \<not> isZero (f_createdAt existing) \<and>
            (isZero (f_createdAt f1) \<or> f_createdAt existing < f_createdAt f1)
         then f1\<lparr>f_createdAt := f_createdAt existing\<rparr> else f1)"

definition SyncFinding :: "ctx_err \<Rightarrow> gotime \<Rightarrow> finding \<Rightarrow> store \<Rightarrow> unit store_result" where
  "SyncFinding ctx now f0 s =
     (case ctx of
        Some e \<Rightarrow> (Inl (ErrContext e), s)
      | None \<Rightarrow>
          let f1 = (case gget (st_findings s) (f_id f0) of
                      Some existing \<Rightarrow> mergeExisting existing f0 | None \<Rightarrow> f0);
              f2 = fold (\<lambda>(_, x) f. if activeException now f x then f\<lparr>f_status := FindingSuppressed\<rparr> else f)
                     (st_exceptions s) f1
          in (Inr (), s\<lparr>st_findings := gput (f_id f2) f2 (st_findings s)\<rparr>))"

definition LastObservedAt :: "finding \<Rightarrow> gotime" where
  "LastObservedAt f =
     (let latest = fold (\<lambda>e t. if ev_observedAt e > t then ev_observedAt e else t) (f_evidence f) 0
      in if isZero latest then f_createdAt f else latest)"

definition findingStale :: "gotime \<Rightarrow> finding \<Rightarrow> bool" where
  "findingStale observedBefore f \<longleftrightarrow>
     \<not> (f_status f \<noteq> FindingOpen \<and> f_status f \<noteq> FindingInReview) \<and>
     \<not> (isZero (LastObservedAt f) \<or> \<not> LastObservedAt f < observedBefore)"

definition expireOneFinding :: "gotime \<Rightarrow> gotime \<Rightarrow> string \<times> finding \<Rightarrow> store \<Rightarrow> store" where
  "expireOneFinding now observedBefore = (\<lambda>(i, f) s.
     if findingStale observedBefore f then
       appendAudit ''system'' ''finding.expired'' i
         ''Finding evidence exceeded the configured freshness window'' now
         (s\<lparr>st_findings := gput i (f\<lparr>f_status := FindingExpired, f_remediationState := ''evidence_expired'',
                                    f_updatedAt := now\<rparr>) (st_findings s)\<rparr>)
     else s)"

definition ExpireFindings :: "ctx_err \<Rightarrow> gotime \<Rightarrow> gotime \<Rightarrow> store \<Rightarrow> unit store_result" where
  "ExpireFindings ctx now observedBefore s =
     (case ctx of
        Some e \<Rightarrow> (Inl (ErrContext e), s)
      | None \<Rightarrow> (Inr (), fold (expireOneFinding now observedBefore) (st_findings s) s))"

definition UpdateFindingStatus ::
    "ctx_err \<Rightarrow> gotime \<Rightarrow> string \<Rightarrow> finding_status \<Rightarrow> string \<Rightarrow> string \<Rightarrow> store \<Rightarrow> finding store_result" where
  "UpdateFindingStatus ctx now i status actor reason s =
     (case ctx of
        Some e \<Rightarrow> (Inl (ErrContext e), s)
      | None \<Rightarrow>
          if actor = '''' \<or> blank reason
          then (Inl (ErrInvalid ''actor and reason are required''), s)
          else if status \<noteq> FindingOpen \<and> status \<noteq> FindingInReview
          then (Inl (ErrInvalid ''only open and in_review are manual lifecycle transitions''), s)
          else
            (case gget (st_findings s) i of
               None \<Rightarrow> (Inl ErrNotFound, s)
             | Some f \<Rightarrow>
                 if f_status f = FindingResolved \<or> f_status f = FindingRemediating
                 then (Inl (ErrConflict ''cluster-backed lifecycle state cannot be changed manually''), s)
                 else
                   let f1 = f\<lparr>f_status := status, f_updatedAt := now\<rparr>
                   in (Inr f1, appendAudit actor ''finding.status.changed'' i reason now
                         (s\<lparr>st_findings := gput i f1 (st_findings s)\<rparr>))))"

subsection \<open>Remediation plans\<close>

definition PreviewRemediationPlan :: "ctx_err \<Rightarrow> gotime \<Rightarrow> string \<Rightarrow> string \<Rightarrow> store \<Rightarrow> store_error + remediation_preview" where
  "PreviewRemediationPlan ctx now findingID requester s =
     (case ctx of
        Some e \<Rightarrow> Inl (ErrContext e)
      | None \<Rightarrow>
          (case gget (st_findings s) findingID of
             None \<Rightarrow> Inl ErrNotFound
           | Some f \<Rightarrow>
               Inr (buildRemediationPreview f
                 ((buildRemediationPlan f requester now 0)\<lparr>p_id := ''preview-'' @ f_id f\<rparr>) now)))"

definition idempotencyScope :: "string \<Rightarrow> string \<Rightarrow> string" where
  "idempotencyScope requester key = requester @ ''|'' @ key"

definition newApproval :: "remediation_plan \<Rightarrow> string \<Rightarrow> gotime \<Rightarrow> approval_request" where
  "newApproval plan requester now =
     \<lparr>a_id = ''approval-'' @ p_id plan, a_subjectRef = p_id plan,
      a_requestedAction = ta_description (primaryAction plan), a_requester = requester, a_approver = '''',
      a_status = ApprovalPending, a_expiresAt = now + 24 * hour, a_createdAt = now, a_updatedAt = now,
      a_decisionReason = ''''\<rparr>"

definition newRun :: "remediation_plan \<Rightarrow> run_state \<Rightarrow> gotime \<Rightarrow> remediation_run" where
  "newRun plan runState now =
     \<lparr>r_id = ''run-'' @ p_id plan, r_planID = p_id plan, r_state = runState,
      r_actionStatuses = actionStatuses (p_actions plan) (runStateString runState)
        ''typed action created; no arbitrary command execution path exists'',
      r_validationResult = ''server-side dry-run has not been performed'',
      r_rollbackMetadata = ''pre-change snapshot will be captured by remediator before write'',
      r_createdAt = now, r_updatedAt = now\<rparr>"

text \<open>The part of the creation after the idempotency check: a new plan, its approval and its run.\<close>

definition storeNewPlan :: "gotime \<Rightarrow> finding \<Rightarrow> string \<Rightarrow> string \<Rightarrow> store \<Rightarrow> remediation_plan store_result" where
  "storeNewPlan now f requester key s =
     (let s1 = s\<lparr>st_seq := st_seq s + 1\<rparr>;
          plan0 = buildRemediationPlan f requester now (st_seq s1);
          plan = (if key \<noteq> '''' then plan0\<lparr>p_id := IdempotentPlanID (f_id f) requester key\<rparr> else plan0);
          s2 = (if key \<noteq> '''' then
                  s1\<lparr>st_idempotency := gput (idempotencyScope requester key) (p_id plan) (st_idempotency s1)\<rparr>
                else s1);
          s3 = s2\<lparr>st_plans := gput (p_id plan) plan (st_plans s2)\<rparr>;
          required = ap_required (p_approvalPolicy plan);
          runState = (if required then RunPendingApproval else RunPrepared);
          approval = newApproval plan requester now;
          s4 = (if required then s3\<lparr>st_approvals := gput (a_id approval) approval (st_approvals s3)\<rparr> else s3);
          run = newRun plan runState now;
          s5 = s4\<lparr>st_runs := gput (r_id run) run (st_runs s4)\<rparr>
      in (Inr plan, appendAudit requester ''remediation.plan.created'' (p_id plan)
                      (''Created typed remediation plan for '' @ f_id f) now s5))"

definition createRemediationPlanLocked ::
    "gotime \<Rightarrow> finding \<Rightarrow> string \<Rightarrow> string \<Rightarrow> store \<Rightarrow> remediation_plan store_result" where
  "createRemediationPlanLocked now f requester key s =
     (if requester = '''' then (Inl (ErrInvalid ''authenticated requester is required''), s)
      else
        (case (if key \<noteq> '''' then gget (st_idempotency s) (idempotencyScope requester key) else None) of
           Some planID \<Rightarrow>
             (case gget (st_plans s) planID of
                Some plan \<Rightarrow>
                  if p_findingID plan \<noteq> f_id f
                  then (Inl (ErrConflict ''idempotency key was used for a different request''), s)
                  else (Inr plan, s)
              | None \<Rightarrow> (Inl (ErrConflict ''idempotency key was used for a different request''), s))
         | None \<Rightarrow> storeNewPlan now f requester key s))"

definition CreateRemediationPlan ::
    "ctx_err \<Rightarrow> gotime \<Rightarrow> string \<Rightarrow> string \<Rightarrow> string list \<Rightarrow> store \<Rightarrow> remediation_plan store_result" where
  "CreateRemediationPlan ctx now findingID requester keys s =
     (case ctx of
        Some e \<Rightarrow> (Inl (ErrContext e), s)
      | None \<Rightarrow>
          (case gget (st_findings s) findingID of
             None \<Rightarrow> (Inl ErrNotFound, s)
           | Some f \<Rightarrow> createRemediationPlanLocked now f requester (first_key keys) s))"

definition CreateRemediationPlanFromFinding ::
    "ctx_err \<Rightarrow> gotime \<Rightarrow> finding \<Rightarrow> string \<Rightarrow> string list \<Rightarrow> store \<Rightarrow> remediation_plan store_result" where
  "CreateRemediationPlanFromFinding ctx now f requester keys s =
     (case ctx of
        Some e \<Rightarrow> (Inl (ErrContext e), s)
      | None \<Rightarrow>
          if f_id f = '''' then (Inl (ErrInvalid ''finding id is required''), s)
          else
            (case gget (st_findings s) (f_id f) of
               Some existing \<Rightarrow> createRemediationPlanLocked now existing requester (first_key keys) s
             | None \<Rightarrow>
                 createRemediationPlanLocked now f requester (first_key keys)
                   (s\<lparr>st_findings := gput (f_id f) f (st_findings s)\<rparr>)))"

definition GetRemediationPlan :: "ctx_err \<Rightarrow> string \<Rightarrow> store \<Rightarrow> store_error + remediation_plan" where
  "GetRemediationPlan ctx i s =
     (case ctx of
        Some e \<Rightarrow> Inl (ErrContext e)
      | None \<Rightarrow> (case gget (st_plans s) i of None \<Rightarrow> Inl ErrNotFound | Some p \<Rightarrow> Inr p))"

definition SyncRemediationPlan :: "ctx_err \<Rightarrow> remediation_plan \<Rightarrow> store \<Rightarrow> unit store_result" where
  "SyncRemediationPlan ctx plan s =
     (case ctx of
        Some e \<Rightarrow> (Inl (ErrContext e), s)
      | None \<Rightarrow>
          if p_id plan = '''' \<or> p_findingID plan = ''''
          then (Inl (ErrInvalid ''plan id and finding id are required''), s)
          else if gget (st_plans s) (p_id plan) = None then (Inl ErrNotFound, s)
          else (Inr (), s\<lparr>st_plans := gput (p_id plan) plan (st_plans s)\<rparr>))"

definition GetRemediationPlanDiff :: "ctx_err \<Rightarrow> string \<Rightarrow> store \<Rightarrow> store_error + remediation_diff" where
  "GetRemediationPlanDiff ctx i s =
     (case GetRemediationPlan ctx i s of Inl e \<Rightarrow> Inl e | Inr plan \<Rightarrow> Inr (buildRemediationDiff plan))"

definition requestExecution :: "gotime \<Rightarrow> string \<Rightarrow> remediation_plan \<Rightarrow> store \<Rightarrow> remediation_run store_result" where
  "requestExecution now actor plan0 s =
     (let plan = plan0\<lparr>p_status := ''execution_requested'',
            p_dryRunResult := \<lparr>dr_passed = False,
              dr_message = ''execution requested; waiting for controller server-side dry-run''\<rparr>\<rparr>;
          s1 = s\<lparr>st_plans := gput (p_id plan) plan (st_plans s)\<rparr>;
          runID = ''run-'' @ p_id plan;
          run0 = (case gget (st_runs s1) runID of
                    Some r \<Rightarrow> r
                  | None \<Rightarrow> \<lparr>r_id = runID, r_planID = p_id plan, r_state = RunOther '''', r_actionStatuses = [],
                              r_validationResult = '''', r_rollbackMetadata = '''', r_createdAt = now,
                              r_updatedAt = 0\<rparr>);
          run = run0\<lparr>r_state := RunExecutionRequested, r_updatedAt := now,
            r_validationResult := ''execution requested; controller validation has not completed'',
            r_rollbackMetadata := ''pre-change snapshots are required before mutating actions'',
            r_actionStatuses := actionStatuses (p_actions plan) ''execution_requested''
              ''waiting for typed operator reconciliation''\<rparr>;
          s2 = s1\<lparr>st_runs := gput (r_id run) run (st_runs s1)\<rparr>;
          s3 = (case gget (st_findings s2) (p_findingID plan) of
                  None \<Rightarrow> s2
                | Some f \<Rightarrow>
                    s2\<lparr>st_findings := gput (f_id f) (f\<lparr>f_status := FindingRemediating,
                      f_remediationState := ''execution_requested'', f_updatedAt := now\<rparr>) (st_findings s2)\<rparr>)
      in (Inr run, appendAudit actor ''remediation.execution.requested'' (p_id plan)
                     ''Execution requested for typed remediation plan'' now s3))"

definition ExecuteRemediationPlan :: "ctx_err \<Rightarrow> gotime \<Rightarrow> string \<Rightarrow> string \<Rightarrow> store \<Rightarrow> remediation_run store_result" where
  "ExecuteRemediationPlan ctx now i actor s =
     (case ctx of
        Some e \<Rightarrow> (Inl (ErrContext e), s)
      | None \<Rightarrow>
          if actor = '''' then (Inl (ErrInvalid ''authenticated actor is required''), s)
          else
            (case gget (st_plans s) i of
               None \<Rightarrow> (Inl ErrNotFound, s)
             | Some plan \<Rightarrow>
                 if ap_required (p_approvalPolicy plan) \<and> ap_decision (p_approvalPolicy plan) \<noteq> ApprovalApproved
                 then (Inl (ErrInvalid ''approval is still required''), s)
                 else if p_status plan = ''rejected''
                 then (Inl (ErrInvalid ''rejected plan cannot be executed''), s)
                 else requestExecution now actor plan s))"

subsection \<open>Remediation runs\<close>

definition GetRemediationRun :: "ctx_err \<Rightarrow> string \<Rightarrow> store \<Rightarrow> store_error + remediation_run" where
  "GetRemediationRun ctx i s =
     (case ctx of
        Some e \<Rightarrow> Inl (ErrContext e)
      | None \<Rightarrow> (case gget (st_runs s) i of None \<Rightarrow> Inl ErrNotFound | Some r \<Rightarrow> Inr r))"

definition SyncRemediationRun :: "ctx_err \<Rightarrow> remediation_run \<Rightarrow> store \<Rightarrow> unit store_result" where
  "SyncRemediationRun ctx run s =
     (case ctx of
        Some e \<Rightarrow> (Inl (ErrContext e), s)
      | None \<Rightarrow>
          let s1 = s\<lparr>st_runs := gput (r_id run) run (st_runs s)\<rparr>
          in (case gget (st_plans s1) (r_planID run) of
                None \<Rightarrow> (Inr (), s1)
              | Some plan0 \<Rightarrow>
                  let plan1 = plan0\<lparr>p_status := runStateString (r_state run)\<rparr>;
                      plan = (if r_state run = RunDryRunPassed \<or> r_state run = RunVerifying \<or>
                                 r_state run = RunSucceeded
                              then plan1\<lparr>p_dryRunResult := \<lparr>dr_passed = True, dr_message = r_validationResult run\<rparr>\<rparr>
                              else plan1)
                  in (Inr (), s1\<lparr>st_plans := gput (p_id plan) plan (st_plans s1)\<rparr>)))"

definition RequestRollback :: "ctx_err \<Rightarrow> gotime \<Rightarrow> string \<Rightarrow> string \<Rightarrow> store \<Rightarrow> remediation_run store_result" where
  "RequestRollback ctx now runID actor s =
     (case ctx of
        Some e \<Rightarrow> (Inl (ErrContext e), s)
      | None \<Rightarrow>
          if actor = '''' then (Inl (ErrInvalid ''authenticated actor is required''), s)
          else
            (case gget (st_runs s) runID of
               None \<Rightarrow> (Inl ErrNotFound, s)
             | Some run0 \<Rightarrow>
                 let run = run0\<lparr>r_state := RunRollbackRequested,
                       r_validationResult := ''rollback requested; waiting for Kubernetes controller status'',
                       r_updatedAt := now\<rparr>;
                     s1 = s\<lparr>st_runs := gput (r_id run) run (st_runs s)\<rparr>;
                     s2 = (case gget (st_plans s1) (r_planID run) of
                             None \<Rightarrow> s1
                           | Some plan \<Rightarrow>
                               s1\<lparr>st_plans := gput (p_id plan) (plan\<lparr>p_status := ''rollback_requested''\<rparr>) (st_plans s1)\<rparr>)
                 in (Inr run, appendAudit actor ''remediation.rollback.requested'' (r_id run)
                                ''Rollback requested for remediation run'' now s2)))"

subsection \<open>Approval decisions\<close>

definition approvalStatusString :: "approval_status \<Rightarrow> string" where
  "approvalStatusString a =
     (case a of
        ApprovalPending \<Rightarrow> ''pending'' | ApprovalApproved \<Rightarrow> ''approved'' | ApprovalRejected \<Rightarrow> ''rejected''
      | ApprovalExpired \<Rightarrow> ''expired'' | ApprovalOther s \<Rightarrow> s)"

definition decidedPlan :: "approval_status \<Rightarrow> remediation_plan \<Rightarrow> remediation_plan" where
  "decidedPlan status plan =
     (if status = ApprovalApproved then
        plan\<lparr>p_status := ''approved'',
             p_approvalPolicy := (p_approvalPolicy plan)\<lparr>ap_decision := ApprovalApproved\<rparr>,
             p_dryRunResult := \<lparr>dr_passed = False,
               dr_message = ''approval recorded; server-side dry-run has not yet been performed''\<rparr>\<rparr>
      else
        plan\<lparr>p_status := ''rejected'',
             p_approvalPolicy := (p_approvalPolicy plan)\<lparr>ap_decision := ApprovalRejected\<rparr>,
             p_dryRunResult := \<lparr>dr_passed = False,
               dr_message = ''approval rejected; no controller action will be attempted''\<rparr>\<rparr>)"

definition decidedRun :: "approval_status \<Rightarrow> gotime \<Rightarrow> remediation_run \<Rightarrow> remediation_run" where
  "decidedRun status now run =
     (if status = ApprovalApproved then
        run\<lparr>r_updatedAt := now, r_state := RunApproved,
            r_validationResult := ''approved; execution and server-side dry-run have not been requested'',
            r_actionStatuses := map (\<lambda>a. a\<lparr>as_state := ''approved'',
              as_message := ''approved; no cluster write or dry-run has occurred''\<rparr>) (r_actionStatuses run)\<rparr>
      else
        run\<lparr>r_updatedAt := now, r_state := RunFailed, r_validationResult := ''approval rejected'',
            r_actionStatuses := map (\<lambda>a. a\<lparr>as_state := ''rejected'',
              as_message := ''rejected by approver; no cluster write attempted''\<rparr>) (r_actionStatuses run)\<rparr>)"

definition decidedFinding :: "approval_status \<Rightarrow> gotime \<Rightarrow> finding \<Rightarrow> finding" where
  "decidedFinding status now f =
     f\<lparr>f_updatedAt := now, f_status := FindingInReview,
       f_remediationState := (if status = ApprovalApproved then ''approval_granted'' else ''rejected'')\<rparr>"

definition applyDecision ::
    "gotime \<Rightarrow> string \<Rightarrow> string \<Rightarrow> approval_status \<Rightarrow> approval_request \<Rightarrow> store \<Rightarrow> approval_request store_result" where
  "applyDecision now actor reason status approval0 s =
     (let approval = approval0\<lparr>a_status := status, a_approver := actor, a_decisionReason := reason,
                               a_updatedAt := now\<rparr>;
          s1 = s\<lparr>st_approvals := gput (a_id approval) approval (st_approvals s)\<rparr>;
          s2 = (case gget (st_plans s1) (a_subjectRef approval) of
                  None \<Rightarrow> s1
                | Some plan \<Rightarrow>
                    s1\<lparr>st_plans := gput (p_id plan) (decidedPlan status plan) (st_plans s1)\<rparr>);
          s3 = (case gget (st_runs s2) (''run-'' @ a_subjectRef approval) of
                  None \<Rightarrow> s2
                | Some run \<Rightarrow> s2\<lparr>st_runs := gput (r_id run) (decidedRun status now run) (st_runs s2)\<rparr>);
          s4 = (case gget (st_plans s1) (a_subjectRef approval) of
                  None \<Rightarrow> s3
                | Some plan \<Rightarrow>
                    (case gget (st_findings s3) (p_findingID plan) of
                       None \<Rightarrow> s3
                     | Some f \<Rightarrow>
                         s3\<lparr>st_findings := gput (f_id f) (decidedFinding status now f) (st_findings s3)\<rparr>))
      in (Inr approval,
          appendAudit actor (if status = ApprovalRejected then ''approval.rejected'' else ''approval.approved'')
            (a_subjectRef approval) reason now s4))"

definition decide ::
    "ctx_err \<Rightarrow> gotime \<Rightarrow> string \<Rightarrow> string \<Rightarrow> string \<Rightarrow> approval_status \<Rightarrow> store \<Rightarrow> approval_request store_result" where
  "decide ctx now approvalID actor reason status s =
     (case ctx of
        Some e \<Rightarrow> (Inl (ErrContext e), s)
      | None \<Rightarrow>
          (case gget (st_approvals s) approvalID of
             None \<Rightarrow> (Inl ErrNotFound, s)
           | Some approval \<Rightarrow>
               if a_status approval \<noteq> ApprovalPending
               then (Inl (ErrInvalid (''approval is already '' @ approvalStatusString (a_status approval))), s)
               else if actor = '''' then (Inl (ErrInvalid ''authenticated actor is required''), s)
               else applyDecision now actor reason status approval s))"

definition Approve :: "ctx_err \<Rightarrow> gotime \<Rightarrow> string \<Rightarrow> string \<Rightarrow> string \<Rightarrow> store \<Rightarrow> approval_request store_result" where
  "Approve ctx now approvalID actor reason s = decide ctx now approvalID actor reason ApprovalApproved s"

definition Reject :: "ctx_err \<Rightarrow> gotime \<Rightarrow> string \<Rightarrow> string \<Rightarrow> string \<Rightarrow> store \<Rightarrow> approval_request store_result" where
  "Reject ctx now approvalID actor reason s = decide ctx now approvalID actor reason ApprovalRejected s"

subsection \<open>Chaos runs\<close>

definition appendChaosAuditLocked :: "chaos_run \<Rightarrow> string \<Rightarrow> string \<Rightarrow> store \<Rightarrow> store" where
  "appendChaosAuditLocked run actor action s =
     (if action = '''' then s
      else
        s\<lparr>st_seq := st_seq s + 1,
          st_auditEvents := st_auditEvents s @
            [\<lparr>ae_id = ''audit-chaos-'' @ padZero 6 (st_seq s + 1), ae_actor = actor, ae_action = action,
              ae_subject = c_id run, ae_message = c_message run, ae_createdAt = c_updatedAt run\<rparr>]\<rparr>)"

definition CreateChaosRun :: "ctx_err \<Rightarrow> chaos_run \<Rightarrow> string \<Rightarrow> string \<Rightarrow> store \<Rightarrow> chaos_run store_result" where
  "CreateChaosRun ctx run0 actor auditAction s =
     (case ctx of
        Some e \<Rightarrow> (Inl (ErrContext e), s)
      | None \<Rightarrow>
          if c_id run0 = '''' \<or> c_version run0 \<noteq> 0
          then (Inl (ErrInvalid ''new chaos run must have an id and version zero''), s)
          else if gget (st_chaosRuns s) (c_id run0) \<noteq> None then (Inl (ErrConflict ''''), s)
          else
            let run = run0\<lparr>c_version := 1\<rparr>
            in (Inr run, appendChaosAuditLocked run actor auditAction
                  (s\<lparr>st_chaosRuns := gput (c_id run) run (st_chaosRuns s)\<rparr>)))"

definition GetChaosRun :: "ctx_err \<Rightarrow> string \<Rightarrow> store \<Rightarrow> store_error + chaos_run" where
  "GetChaosRun ctx i s =
     (case ctx of
        Some e \<Rightarrow> Inl (ErrContext e)
      | None \<Rightarrow> (case gget (st_chaosRuns s) i of None \<Rightarrow> Inl ErrNotFound | Some r \<Rightarrow> Inr r))"

definition ListChaosRuns :: "ctx_err \<Rightarrow> store \<Rightarrow> store_error + chaos_run list" where
  "ListChaosRuns ctx s =
     (case ctx of
        Some e \<Rightarrow> Inl (ErrContext e)
      | None \<Rightarrow> Inr (sortSlice (\<lambda>a b. c_createdAt a > c_createdAt b) (map snd (st_chaosRuns s))))"

definition UpdateChaosRun :: "ctx_err \<Rightarrow> chaos_run \<Rightarrow> int \<Rightarrow> string \<Rightarrow> string \<Rightarrow> store \<Rightarrow> chaos_run store_result" where
  "UpdateChaosRun ctx run0 expectedVersion actor auditAction s =
     (case ctx of
        Some e \<Rightarrow> (Inl (ErrContext e), s)
      | None \<Rightarrow>
          (case gget (st_chaosRuns s) (c_id run0) of
             None \<Rightarrow> (Inl ErrNotFound, s)
           | Some current \<Rightarrow>
               if c_version current \<noteq> expectedVersion \<or> c_version run0 \<noteq> expectedVersion
               then (Inl (ErrConflict ''''), s)
               else
                 let run = run0\<lparr>c_version := c_version run0 + 1\<rparr>
                 in (Inr run, appendChaosAuditLocked run actor auditAction
                       (s\<lparr>st_chaosRuns := gput (c_id run) run (st_chaosRuns s)\<rparr>))))"

subsection \<open>Evidence bundles\<close>

definition scopeMatchesFinding :: "string \<Rightarrow> finding \<Rightarrow> bool" where
  "scopeMatchesFinding scope f \<longleftrightarrow>
     scope = ''all'' \<or> scope = f_id f \<or> scope = f_correlationGroup f \<or> scope = f_source f \<or>
     list_ex (\<lambda>r. scope = rr_namespace r \<or> scope = rr_name r \<or> scope = resourceString r) (f_resources f)"

definition hasFinding :: "finding list \<Rightarrow> string \<Rightarrow> bool" where
  "hasFinding fs i \<longleftrightarrow> list_ex (\<lambda>f. f_id f = i) fs"

definition hasPlan :: "remediation_plan list \<Rightarrow> string \<Rightarrow> bool" where
  "hasPlan ps i \<longleftrightarrow> list_ex (\<lambda>p. p_id p = i) ps"

definition hasRun :: "remediation_run list \<Rightarrow> string \<Rightarrow> bool" where
  "hasRun rs i \<longleftrightarrow> list_ex (\<lambda>r. r_id r = i) rs"

definition bundleFor :: "gotime \<Rightarrow> string \<Rightarrow> store \<Rightarrow> evidence_bundle" where
  "bundleFor now scope s =
     (let findings = filter (scopeMatchesFinding scope) (map snd (st_findings s));
          plans = filter (\<lambda>p. scope = ''all'' \<or> scope = p_id p \<or> scope = p_findingID p \<or>
                              hasFinding findings (p_findingID p)) (map snd (st_plans s));
          runs = filter (\<lambda>r. scope = ''all'' \<or> scope = r_id r \<or> scope = r_planID r \<or>
                             hasPlan plans (r_planID r)) (map snd (st_runs s));
          chaosRuns = filter (\<lambda>c. scope = ''all'' \<or> scope = c_id c \<or> scope = c_experimentID c)
                        (map snd (st_chaosRuns s));
          events = filter (\<lambda>e. scope = ''all'' \<or> ae_subject e = scope \<or> hasPlan plans (ae_subject e) \<or>
                               hasRun runs (ae_subject e)) (st_auditEvents s)
      in \<lparr>eb_scope = scope, eb_generatedAt = now,
          eb_summary = [(''findings'', int (length findings)), (''plans'', int (length plans)),
            (''runs'', int (length runs)), (''chaosRuns'', int (length chaosRuns)),
            (''auditEvents'', int (length events))],
          eb_findings = sortSlice (\<lambda>a b. f_riskScore a > f_riskScore b) findings,
          eb_plans = sortSlice (\<lambda>a b. p_createdAt a > p_createdAt b) plans,
          eb_runs = sortSlice (\<lambda>a b. r_updatedAt a > r_updatedAt b) runs,
          eb_chaosRuns = sortSlice (\<lambda>a b. c_updatedAt a > c_updatedAt b) chaosRuns,
          eb_auditEvents = sortSlice (\<lambda>a b. ae_createdAt a > ae_createdAt b) events\<rparr>)"

definition EvidenceBundle :: "ctx_err \<Rightarrow> gotime \<Rightarrow> string \<Rightarrow> store \<Rightarrow> store_error + evidence_bundle" where
  "EvidenceBundle ctx now scope0 s =
     (case ctx of
        Some e \<Rightarrow> Inl (ErrContext e)
      | None \<Rightarrow>
          let scope = (if scope0 = '''' then ''all'' else scope0); b = bundleFor now scope s
          in if eb_findings b = [] \<and> eb_plans b = [] \<and> eb_runs b = [] \<and> eb_chaosRuns b = [] \<and>
                eb_auditEvents b = [] \<and> scope \<noteq> ''all''
             then Inl ErrNotFound else Inr b)"

subsection \<open>Dashboard\<close>

definition evidenceFreshness :: "(string, finding) gomap \<Rightarrow> gotime \<Rightarrow> string" where
  "evidenceFreshness fs now =
     (if fs = [] then ''no-evidence''
      else
        let latest = fold (\<lambda>(_, f) t. if f_updatedAt f > t then f_updatedAt f else t) fs 0
        in if isZero latest then ''unknown''
           else if now - latest \<le> 15 * minute then ''fresh''
           else if now - latest \<le> 2 * hour then ''recent''
           else if now - latest \<le> 24 * hour then ''stale''
           else ''expired'')"

definition countBy :: "('a \<Rightarrow> string) \<Rightarrow> 'a list \<Rightarrow> (string, int) gomap" where
  "countBy key xs =
     fold (\<lambda>x m. gput (key x) ((case gget m (key x) of None \<Rightarrow> 0 | Some n \<Rightarrow> n) + 1) m) xs []"

definition countIf :: "('a \<Rightarrow> bool) \<Rightarrow> 'a list \<Rightarrow> int" where
  "countIf P xs = int (length (filter P xs))"

definition findingNamespaces :: "finding list \<Rightarrow> string list" where
  "findingNamespaces fs =
     remdups (filter (\<lambda>n. n \<noteq> '''') (concat (map (\<lambda>f. map rr_namespace (f_resources f)) fs)))"

definition dashboardOf :: "gotime \<Rightarrow> store \<Rightarrow> dashboard" where
  "dashboardOf now s =
     (let fs = map snd (st_findings s) in
      \<lparr>db_totalFindings = int (length fs),
       db_openCritical = countIf (\<lambda>f. f_severity f = SeverityCritical \<and> f_status f \<noteq> FindingResolved \<and>
         f_status f \<noteq> FindingSuppressed) fs,
       db_pendingApprovals = countIf (\<lambda>a. a_status a = ApprovalPending \<and> a_expiresAt a > now)
         (map snd (st_approvals s)),
       db_activeRemediations = countIf (\<lambda>f. f_status f = FindingRemediating) fs,
       db_verifiedRemediations = countIf (\<lambda>r. r_state r = RunSucceeded) (map snd (st_runs s)),
       db_findingsWithSafeFix = countIf (\<lambda>f. f_fixability f = FixabilityDeterministic \<or>
         f_fixability f = FixabilityGated) fs,
       db_riskReduced = sum_list (map f_riskScore (filter (\<lambda>f. f_status f = FindingResolved) fs)),
       db_evidenceFreshness = evidenceFreshness (st_findings s) now,
       db_meanRiskScore = (if fs = [] then None else Some (sum_list (map f_riskScore fs), int (length fs))),
       db_findingsBySeverity = countBy (\<lambda>f. severityString (f_severity f)) fs,
       db_findingsBySource = countBy f_source fs,
       db_remediationByState = countBy f_remediationState fs,
       db_protectedNamespaces = max 4 (int (length (findingNamespaces fs))),
       db_bundledEnginesOnline = countIf (\<lambda>i. in_enabled i \<and> in_status i \<noteq> ''disabled'') (st_integrations s)\<rparr>)"

definition Dashboard :: "ctx_err \<Rightarrow> gotime \<Rightarrow> store \<Rightarrow> dashboard store_result" where
  "Dashboard ctx now s =
     (case ctx of
        Some e \<Rightarrow> (Inl (ErrContext e), s)
      | None \<Rightarrow> let s1 = expireExceptionsLocked now s in (Inr (dashboardOf now s1), s1))"

subsection \<open>Integrations and model providers\<close>

definition ListIntegrations :: "ctx_err \<Rightarrow> store \<Rightarrow> store_error + integration_rec list" where
  "ListIntegrations ctx s = (case ctx of Some e \<Rightarrow> Inl (ErrContext e) | None \<Rightarrow> Inr (st_integrations s))"

definition integrationPermissions :: "string \<Rightarrow> string list" where
  "integrationPermissions name =
     (let n = toLower name in
      if n = ''trivy operator'' then
        [''Read vulnerabilityreports'', ''Read configauditreports'', ''Read exposedsecretreports'',
         ''Read rbacassessmentreports'']
      else if n = ''kubescape'' then
        [''Read workloadconfiguration scans'', ''Read vulnerability manifests'', ''Read posture resources'']
      else if n = ''kyverno'' then
        [''Read policyreports'', ''Read clusterpolicyreports'', ''Read admission policy status'']
      else if n = ''falco'' then
        [''Read runtime event stream or forwarded events'', ''Correlate pod and namespace metadata'']
      else if n = ''tetragon'' then
        [''Read process/network event stream'', ''Correlate pod and workload metadata'']
      else if n = ''chaos mesh'' \<or> n = ''litmuschaos'' then
        [''Dry-run create allowlisted chaos objects'', ''Create/delete only when chaos execution is enabled'']
      else [''Read integration status and emitted findings''])"

text \<open>
  The loop over the findings; \<open>None\<close> is the index panic of \<open>strings.Fields(sourceName)[0]\<close> on an
  integration without a name.
\<close>

fun lastSeenLoop :: "string \<Rightarrow> string \<Rightarrow> finding list \<Rightarrow> string option" where
  "lastSeenLoop sourceName lastSeen [] = Some lastSeen"
| "lastSeenLoop sourceName lastSeen (f # fs) =
     (case (if strContains sourceName (toLower (f_source f)) then Some True
            else map_option (strContains (toLower (f_source f))) (firstField sourceName)) of
        None \<Rightarrow> None
      | Some matches \<Rightarrow>
          lastSeenLoop sourceName
            (if matches \<and> \<not> isZero (f_updatedAt f) \<and>
                (lastSeen = ''never'' \<or> rfc3339 (f_updatedAt f) > lastSeen)
             then rfc3339 (f_updatedAt f) else lastSeen) fs)"

definition buildIntegrationHealth :: "integration_rec \<Rightarrow> finding list \<Rightarrow> gotime \<Rightarrow> integration_health option" where
  "buildIntegrationHealth i fs now =
     (let online = in_enabled i \<and> in_status i \<noteq> ''disabled'' in
      map_option (\<lambda>lastSeen.
        \<lparr>ih_name = in_name i, ih_type = in_type i, ih_enabled = in_enabled i, ih_status = in_status i,
         ih_health = (if online then ''healthy'' else ''not_configured''), ih_dataLastSeen = lastSeen,
         ih_permissions = integrationPermissions (in_name i), ih_supportedVersions = [],
         ih_setupGaps = (if online then [] else
           [''Enable the Helm value for this integration and confirm its CRDs or event source are installed.'']),
         ih_errorState = '''', ih_findingsCount = 0, ih_checkedAt = now\<rparr>)
        (lastSeenLoop (toLower (in_name i)) ''never'' fs))"

definition IntegrationHealth ::
    "ctx_err \<Rightarrow> gotime \<Rightarrow> string \<Rightarrow> store \<Rightarrow> (store_error + integration_health) option" where
  "IntegrationHealth ctx now name s =
     (case ctx of
        Some e \<Rightarrow> Some (Inl (ErrContext e))
      | None \<Rightarrow>
          (case find (\<lambda>i. equalFold (in_name i) name \<or> equalFold (safeID (in_name i)) (safeID name))
                  (st_integrations s) of
             None \<Rightarrow> Some (Inl ErrNotFound)
           | Some i \<Rightarrow> map_option Inr (buildIntegrationHealth i (map snd (st_findings s)) now)))"

definition GetModelProviders :: "ctx_err \<Rightarrow> store \<Rightarrow> store_error + model_provider list" where
  "GetModelProviders ctx s = (case ctx of Some e \<Rightarrow> Inl (ErrContext e) | None \<Rightarrow> Inr (st_modelSettings s))"

definition checkProvider :: "model_provider \<Rightarrow> store_error option" where
  "checkProvider p =
     (if mp_name p = '''' \<or> mp_type p = '''' \<or> mp_model p = ''''
      then Some (ErrInvalid ''provider name, type, and model are required'')
      else if mp_apiKeySecretRef p = None \<and> mp_externalSecretRef p = None
      then Some (ErrInvalid ''model provider must use apiKeySecretRef or externalSecretRef'')
      else None)"

definition SaveModelProviders :: "ctx_err \<Rightarrow> model_provider list \<Rightarrow> store \<Rightarrow> model_provider list store_result" where
  "SaveModelProviders ctx settings s =
     (case ctx of
        Some e \<Rightarrow> (Inl (ErrContext e), s)
      | None \<Rightarrow>
          (case forEachErr checkProvider settings of
             Some e \<Rightarrow> (Inl e, s)
           | None \<Rightarrow> (Inr settings, s\<lparr>st_modelSettings := settings\<rparr>)))"

end
