(* ===== verification/StoreInvariant.thy ===== *)
theory StoreInvariant
  imports Go_Prelude CoreTypes PlanBuilder MemoryStore "HOL-Library.Sublist"
begin

text \<open>
  The invariant of the in-memory repository and the calls that keep it: a step relation with one
  rule for each mutating method, the reachable stores, and the guarantees on approvals and on
  the audit trail that follow by rule induction.
\<close>

subsection \<open>Maps keyed by identifier\<close>

definition keyed :: "('v \<Rightarrow> string) \<Rightarrow> (string, 'v) gomap \<Rightarrow> bool" where
  "keyed idf m \<longleftrightarrow> wf_gomap m \<and> (\<forall>k v. gget m k = Some v \<longrightarrow> idf v = k)"

named_theorems keyed

lemma keyed_Nil [simp, keyed]: "keyed idf []"
  by (simp add: keyed_def)

lemma keyed_get: "keyed idf m \<Longrightarrow> gget m k = Some v \<Longrightarrow> idf v = k"
  by (auto simp: keyed_def)

lemma keyed_put [keyed]: "keyed idf m \<Longrightarrow> idf v = k \<Longrightarrow> keyed idf (gput k v m)"
  by (auto simp: keyed_def)

lemma keyed_del [keyed]: "keyed idf m \<Longrightarrow> keyed idf (gdel k m)"
  by (auto simp: keyed_def split: if_splits)

lemma keyed_map [keyed]: "keyed idf m \<Longrightarrow> (\<And>k v. idf (f k v) = idf v) \<Longrightarrow> keyed idf (gmap_vals f m)"
  by (auto simp: keyed_def)

lemma keyed_entry: "keyed idf m \<Longrightarrow> (k, v) \<in> set m \<Longrightarrow> gget m k = Some v \<and> idf v = k"
  by (auto simp: keyed_def gget_in_set)

subsection \<open>The invariant\<close>

text \<open>
  An approval is filed under its subject; a decided one names its approver; and a plan that
  needed approval and counts as approved is backed by an approved request.
\<close>

definition approval_ok :: "approval_request \<Rightarrow> bool" where
  "approval_ok a \<longleftrightarrow> a_id a = ''approval-'' @ a_subjectRef a \<and>
     (a_status a = ApprovalPending \<or> (a_status a \<in> {ApprovalApproved, ApprovalRejected} \<and> a_approver a \<noteq> ''''))"

definition backed :: "(string, approval_request) gomap \<Rightarrow> remediation_plan \<Rightarrow> bool" where
  "backed approvals p \<longleftrightarrow>
     (ap_required (p_approvalPolicy p) \<and> ap_decision (p_approvalPolicy p) = ApprovalApproved \<longrightarrow>
      (\<exists>a. gget approvals (''approval-'' @ p_id p) = Some a \<and> a_status a = ApprovalApproved))"

definition approvals_ok :: "(string, remediation_plan) gomap \<Rightarrow> (string, approval_request) gomap \<Rightarrow> bool" where
  "approvals_ok plans approvals \<longleftrightarrow>
     keyed p_id plans \<and> keyed a_id approvals \<and>
     (\<forall>k a. gget approvals k = Some a \<longrightarrow> approval_ok a) \<and>
     (\<forall>k p. gget plans k = Some p \<longrightarrow> backed approvals p)"

definition store_ok :: "store \<Rightarrow> bool" where
  "store_ok s \<longleftrightarrow>
     keyed f_id (st_findings s) \<and> keyed r_id (st_runs s) \<and> keyed c_id (st_chaosRuns s) \<and>
     keyed x_id (st_exceptions s) \<and> wf_gomap (st_idempotency s) \<and>
     approvals_ok (st_plans s) (st_approvals s) \<and>
     (\<forall>k c. gget (st_chaosRuns s) k = Some c \<longrightarrow> 1 \<le> c_version c) \<and>
     (\<forall>k x. gget (st_exceptions s) k = Some x \<longrightarrow> x_owner x \<noteq> '''' \<and> \<not> blank (x_scope x)) \<and>
     list_all (\<lambda>p. checkProvider p = None) (st_modelSettings s) \<and> 0 \<le> st_seq s"

lemma store_okD:
  assumes "store_ok s"
  shows "keyed f_id (st_findings s)" "keyed p_id (st_plans s)" "keyed a_id (st_approvals s)"
    "keyed r_id (st_runs s)" "keyed c_id (st_chaosRuns s)" "keyed x_id (st_exceptions s)"
    "approvals_ok (st_plans s) (st_approvals s)"
  using assms by (auto simp: store_ok_def approvals_ok_def)

lemma appendAudit_simps [simp]:
  "st_findings (appendAudit a b c d e s) = st_findings s"
  "st_plans (appendAudit a b c d e s) = st_plans s"
  "st_approvals (appendAudit a b c d e s) = st_approvals s"
  "st_runs (appendAudit a b c d e s) = st_runs s"
  "st_chaosRuns (appendAudit a b c d e s) = st_chaosRuns s"
  "st_exceptions (appendAudit a b c d e s) = st_exceptions s"
  "st_idempotency (appendAudit a b c d e s) = st_idempotency s"
  "st_modelSettings (appendAudit a b c d e s) = st_modelSettings s"
  "st_seq (appendAudit a b c d e s) = st_seq s"
  by (simp_all add: appendAudit_def)

lemma store_ok_appendAudit [simp]: "store_ok (appendAudit a b c d e s) = store_ok s"
  by (simp add: store_ok_def)

lemma store_ok_auditEvents [simp]: "store_ok (s\<lparr>st_auditEvents := es\<rparr>) = store_ok s"
  by (simp add: store_ok_def)

lemma store_ok_seq [simp]: "store_ok s \<Longrightarrow> store_ok (s\<lparr>st_seq := st_seq s + 1\<rparr>)"
  by (simp add: store_ok_def)

lemma store_ok_findings: "store_ok s \<Longrightarrow> keyed f_id m \<Longrightarrow> store_ok (s\<lparr>st_findings := m\<rparr>)"
  by (simp add: store_ok_def)

lemma store_ok_runs: "store_ok s \<Longrightarrow> keyed r_id m \<Longrightarrow> store_ok (s\<lparr>st_runs := m\<rparr>)"
  by (simp add: store_ok_def)

lemma store_ok_put_finding: "store_ok s \<Longrightarrow> f_id f = k \<Longrightarrow> store_ok (s\<lparr>st_findings := gput k f (st_findings s)\<rparr>)"
  by (intro store_ok_findings keyed_put) (auto dest: store_okD)

lemma store_ok_put_run: "store_ok s \<Longrightarrow> r_id r = k \<Longrightarrow> store_ok (s\<lparr>st_runs := gput k r (st_runs s)\<rparr>)"
  by (intro store_ok_runs keyed_put) (auto dest: store_okD)

lemma store_ok_put_chaos:
  "store_ok s \<Longrightarrow> c_id c = k \<Longrightarrow> 1 \<le> c_version c \<Longrightarrow> store_ok (s\<lparr>st_chaosRuns := gput k c (st_chaosRuns s)\<rparr>)"
  by (auto simp: store_ok_def intro: keyed_put)

lemma store_ok_put_exception:
  "store_ok s \<Longrightarrow> x_id x = k \<Longrightarrow> x_owner x \<noteq> '''' \<Longrightarrow> \<not> blank (x_scope x) \<Longrightarrow>
   store_ok (s\<lparr>st_exceptions := gput k x (st_exceptions s)\<rparr>)"
  by (auto simp: store_ok_def intro: keyed_put)

lemma store_ok_put_plan:
  "store_ok s \<Longrightarrow> p_id p = k \<Longrightarrow> backed (st_approvals s) p \<Longrightarrow>
   store_ok (s\<lparr>st_plans := gput k p (st_plans s)\<rparr>)"
  by (auto simp: store_ok_def approvals_ok_def intro: keyed_put)

lemma store_ok_map_findings:
  "store_ok s \<Longrightarrow> (\<And>k f. f_id (g k f) = f_id f) \<Longrightarrow> store_ok (s\<lparr>st_findings := gmap_vals g (st_findings s)\<rparr>)"
  by (intro store_ok_findings keyed_map) (auto dest: store_okD)

lemma store_ok_backed: "store_ok s \<Longrightarrow> gget (st_plans s) k = Some p \<Longrightarrow> backed (st_approvals s) p"
  by (auto simp: store_ok_def approvals_ok_def)

lemma store_ok_ids:
  assumes "store_ok s"
  shows "gget (st_findings s) k = Some f \<Longrightarrow> f_id f = k"
    and "gget (st_plans s) k = Some p \<Longrightarrow> p_id p = k"
    and "gget (st_approvals s) k = Some a \<Longrightarrow> a_id a = k"
    and "gget (st_runs s) k = Some r \<Longrightarrow> r_id r = k"
    and "gget (st_exceptions s) k = Some x \<Longrightarrow> x_id x = k"
  using store_okD [OF assms] by (auto dest: keyed_get)

lemma store_ok_version: "store_ok s \<Longrightarrow> gget (st_chaosRuns s) k = Some c \<Longrightarrow> 1 \<le> c_version c"
  by (simp add: store_ok_def)

lemma backed_policy: "p_id p' = p_id p \<Longrightarrow> p_approvalPolicy p' = p_approvalPolicy p \<Longrightarrow> backed m p' = backed m p"
  by (simp add: backed_def)

text \<open>Filing a request and replacing its plan: no other plan loses its backing.\<close>

lemma approvals_ok_put:
  assumes ok: "approvals_ok plans approvals" and a: "approval_ok a" and plans': "keyed p_id plans'"
    and others: "\<And>k. k \<noteq> a_subjectRef a \<Longrightarrow> gget plans' k = gget plans k"
    and subject: "\<And>p. gget plans' (a_subjectRef a) = Some p \<Longrightarrow> backed (gput (a_id a) a approvals) p"
  shows "approvals_ok plans' (gput (a_id a) a approvals)"
proof -
  have "backed (gput (a_id a) a approvals) p" if p: "gget plans' k = Some p" for k p
  proof (cases "k = a_subjectRef a")
    case False
    then have "gget plans k = Some p" using others p by simp
    then have "p_id p = k" "backed approvals p"
      using ok by (auto simp: approvals_ok_def dest: keyed_get)
    with False a show ?thesis by (auto simp: approval_ok_def backed_def)
  qed (use subject p in auto)
  with ok a plans' show ?thesis by (auto simp: approvals_ok_def intro: keyed_put)
qed

subsection \<open>Every method keeps the invariant\<close>

named_theorems store_keeps

lemma fold_ok: "store_ok s \<Longrightarrow> (\<And>x s. x \<in> set xs \<Longrightarrow> store_ok s \<Longrightarrow> store_ok (f x s)) \<Longrightarrow> store_ok (fold f xs s)"
  by (induction xs arbitrary: s) auto

lemma expireExceptionsLocked_ok [store_keeps]:
  assumes ok: "store_ok s"
  shows "store_ok (expireExceptionsLocked now s)"
proof -
  have "store_ok (expireOneException now e s')" if "e \<in> set (st_exceptions s)" "store_ok s'" for e s'
  proof -
    obtain i x where e: "e = (i, x)" by force
    have "gget (st_exceptions s) i = Some x"
      using that(1) e keyed_entry [OF store_okD(6) [OF ok]] by simp
    then have "x_id x = i" "x_owner x \<noteq> ''''" "\<not> blank (x_scope x)"
      using ok store_ok_ids(5) [OF ok] by (auto simp: store_ok_def)
    with that(2) show ?thesis by (auto simp: expireOneException_def e intro!: store_ok_put_exception)
  qed
  then show ?thesis
    unfolding expireExceptionsLocked_def reopenLapsed_def
    by (intro store_ok_map_findings fold_ok ok) (auto simp: reopenFinding_def)
qed

lemma list_calls_ok [store_keeps]:
  "store_ok s \<Longrightarrow> store_ok (snd (ListExceptions ctx now s))"
  "store_ok s \<Longrightarrow> store_ok (snd (ListFindings ctx now filt s))"
  "store_ok s \<Longrightarrow> store_ok (snd (Dashboard ctx now s))"
  by (auto simp: ListExceptions_def ListFindings_def Dashboard_def Let_def
    intro: expireExceptionsLocked_ok split: option.splits)

lemma RecordAuditEvent_ok [store_keeps]: "store_ok s \<Longrightarrow> store_ok (snd (RecordAuditEvent ctx now e s))"
  by (auto simp: RecordAuditEvent_def Let_def split: option.splits)

lemma CreateException_ok [store_keeps]: "store_ok s \<Longrightarrow> store_ok (snd (CreateException ctx now x actor s))"
  by (auto simp: CreateException_def suppressMatching_def Let_def store_ok_def split: option.splits
    intro!: keyed_map keyed_put)

lemma DeleteException_ok [store_keeps]: "store_ok s \<Longrightarrow> store_ok (snd (DeleteException ctx now i actor s))"
  by (auto simp: DeleteException_def Let_def store_ok_def reopenFinding_def split: option.splits if_splits
    intro!: keyed_map keyed_del)

lemma SyncFinding_ok [store_keeps]: "store_ok s \<Longrightarrow> store_ok (snd (SyncFinding ctx now f s))"
proof -
  have "f_id (fold (\<lambda>(_, x) f. if activeException now f x then f\<lparr>f_status := FindingSuppressed\<rparr> else f) xs f) = f_id f"
    for xs :: "(string \<times> exception_rec) list" and f
    by (induction xs arbitrary: f) auto
  then show "store_ok s \<Longrightarrow> store_ok (snd (SyncFinding ctx now f s))"
    by (auto simp: SyncFinding_def Let_def split: option.splits intro: store_ok_put_finding)
qed

lemma ExpireFindings_ok [store_keeps]:
  assumes ok: "store_ok s"
  shows "store_ok (snd (ExpireFindings ctx now before s))"
proof -
  have "store_ok (expireOneFinding now before e s')" if "e \<in> set (st_findings s)" "store_ok s'" for e s'
    using that keyed_entry [OF store_okD(1) [OF ok]]
    by (auto simp: expireOneFinding_def split: prod.splits intro!: store_ok_put_finding)
  then show ?thesis using ok
    by (auto simp: ExpireFindings_def split: option.splits intro: fold_ok)
qed

lemma UpdateFindingStatus_ok [store_keeps]:
  "store_ok s \<Longrightarrow> store_ok (snd (UpdateFindingStatus ctx now i status actor reason s))"
  by (auto simp: UpdateFindingStatus_def Let_def split: option.splits
    intro!: store_ok_put_finding dest: store_ok_ids(1))

lemma chaos_calls_ok [store_keeps]:
  "store_ok s \<Longrightarrow> store_ok (snd (CreateChaosRun ctx run actor act s))"
  "store_ok s \<Longrightarrow> store_ok (snd (UpdateChaosRun ctx run version actor act s))"
proof -
  have audit: "store_ok s \<Longrightarrow> store_ok (appendChaosAuditLocked run actor act s)" for run actor act s
    by (simp add: appendChaosAuditLocked_def store_ok_def)
  show "store_ok s \<Longrightarrow> store_ok (snd (CreateChaosRun ctx run actor act s))"
    by (auto simp: CreateChaosRun_def Let_def intro!: audit store_ok_put_chaos split: option.splits)
  show "store_ok s \<Longrightarrow> store_ok (snd (UpdateChaosRun ctx run version actor act s))"
    by (force simp: UpdateChaosRun_def Let_def intro!: audit store_ok_put_chaos
      split: option.splits dest: store_ok_version)
qed

lemma SaveModelProviders_ok [store_keeps]: "store_ok s \<Longrightarrow> store_ok (snd (SaveModelProviders ctx ps s))"
  by (auto simp: SaveModelProviders_def store_ok_def forEachErr_None list_all_iff split: option.splits)

lemma new_plan_not_approved:
  "ap_required (p_approvalPolicy (buildRemediationPlan f requester now seq)) \<Longrightarrow>
   ap_decision (p_approvalPolicy (buildRemediationPlan f requester now seq)) \<noteq> ApprovalApproved"
  using approvalLoop_decision [of "\<lparr>ap_required = False, ap_decision = ApprovalApproved, ap_categories = []\<rparr>"]
  by (simp add: buildRemediationPlan_def Let_def approvalPolicyForActions_def)

lemma storeNewPlan_ok:
  assumes ok: "store_ok s"
  shows "store_ok (snd (storeNewPlan now f requester key s))"
proof -
  define plan0 where "plan0 = buildRemediationPlan f requester now (st_seq s + 1)"
  define plan where "plan = (if key \<noteq> [] then plan0\<lparr>p_id := IdempotentPlanID (f_id f) requester key\<rparr> else plan0)"
  let ?plans = "gput (p_id plan) plan (st_plans s)" and ?a = "newApproval plan requester now"
  have bk: "backed m plan" for m
    using new_plan_not_approved by (auto simp: plan_def plan0_def backed_def)
  have plans: "approvals_ok ?plans (st_approvals s)"
    using store_ok_put_plan [OF ok refl bk] by (simp add: store_ok_def)
  have "approvals_ok ?plans (gput (a_id ?a) ?a (st_approvals s))"
    using store_okD [OF ok] bk
    by (intro approvals_ok_put [where plans = "st_plans s"]) (auto simp: approval_ok_def newApproval_def intro: keyed_put)
  with plans ok show ?thesis
    by (cases "key = []")
      (simp_all add: storeNewPlan_def Let_def plan_def plan0_def [symmetric] store_ok_def keyed_put newRun_def)
qed

lemma createRemediationPlanLocked_ok:
  "store_ok s \<Longrightarrow> store_ok (snd (createRemediationPlanLocked now f requester key s))"
  by (auto simp: createRemediationPlanLocked_def storeNewPlan_ok split: option.splits)

lemma create_calls_ok [store_keeps]:
  "store_ok s \<Longrightarrow> store_ok (snd (CreateRemediationPlan ctx now i requester keys s))"
  "store_ok s \<Longrightarrow> store_ok (snd (CreateRemediationPlanFromFinding ctx now f requester keys s))"
  by (auto simp: CreateRemediationPlan_def CreateRemediationPlanFromFinding_def
    intro!: createRemediationPlanLocked_ok store_ok_put_finding split: option.splits)

lemma requestExecution_ok:
  assumes "store_ok s" "gget (st_plans s) i = Some plan"
  shows "store_ok (snd (requestExecution now actor plan s))"
proof -
  have plan: "p_id plan = i" "backed (st_approvals s) plan"
    using assms store_ok_ids store_ok_backed by auto
  have put: "store_ok (s\<lparr>st_plans := gput i p (st_plans s), st_runs := gput k r (st_runs s)\<rparr>)"
    if "p_id p = i" "p_approvalPolicy p = p_approvalPolicy plan" "r_id r = k" for p k r
    using assms(1) plan that backed_policy [of p plan]
    by (intro store_ok_runs store_ok_put_plan keyed_put) (simp_all add: store_okD)
  have find: "keyed f_id (gput k f (st_findings s))" if "f_id f = k" for k f
    using store_okD(1) [OF assms(1)] that by (rule keyed_put)
  show ?thesis
    unfolding requestExecution_def Let_def snd_conv store_ok_appendAudit
    by (cases "gget (st_findings s) (p_findingID plan)")
      (simp_all add: put store_ok_findings find plan(1))
qed

lemma ExecuteRemediationPlan_ok [store_keeps]:
  "store_ok s \<Longrightarrow> store_ok (snd (ExecuteRemediationPlan ctx now i actor s))"
  by (auto simp: ExecuteRemediationPlan_def split: option.splits intro: requestExecution_ok)

lemma run_calls_ok [store_keeps]:
  "store_ok s \<Longrightarrow> store_ok (snd (SyncRemediationRun ctx run s))"
  "store_ok s \<Longrightarrow> store_ok (snd (RequestRollback ctx now i actor s))"
  by (auto simp: SyncRemediationRun_def RequestRollback_def Let_def store_ok_def approvals_ok_def backed_def
    split: option.splits intro!: keyed_put dest: keyed_get)

lemma applyDecision_ok:
  assumes ok: "store_ok s" and status: "status \<in> {ApprovalApproved, ApprovalRejected}"
    and a: "gget (st_approvals s) i = Some a" and actor: "actor \<noteq> []"
  shows "store_ok (snd (applyDecision now actor reason status a s))"
proof -
  define a' where "a' = a\<lparr>a_status := status, a_approver := actor, a_decisionReason := reason, a_updatedAt := now\<rparr>"
  let ?m = "gput (a_id a') a' (st_approvals s)"
  have "approval_ok a" using ok a by (auto simp: store_ok_def approvals_ok_def)
  then have a': "approval_ok a'" "a_subjectRef a' = a_subjectRef a" "a_status a' = status"
    using status actor by (auto simp: approval_ok_def a'_def)
  have none: "approvals_ok (st_plans s) ?m" if "gget (st_plans s) (a_subjectRef a) = None"
    using that a' store_okD [OF ok] by (intro approvals_ok_put) auto
  have some: "approvals_ok (gput (p_id p) (decidedPlan status p) (st_plans s)) ?m"
    if p: "gget (st_plans s) (a_subjectRef a) = Some p" for p
    using store_ok_ids(2) [OF ok p] a' store_okD [OF ok]
    by (intro approvals_ok_put [where plans = "st_plans s"])
      (auto simp: backed_def decidedPlan_def approval_ok_def intro: keyed_put)
  have runs: "keyed r_id (gput (r_id r) (decidedRun status now r) (st_runs s))" for r
    by (rule keyed_put [OF store_okD(4) [OF ok]]) (simp add: decidedRun_def)
  have findings: "keyed f_id (gput (f_id f) (decidedFinding status now f) (st_findings s))" for f
    by (rule keyed_put [OF store_okD(1) [OF ok]]) (simp add: decidedFinding_def)
  have base: "store_ok (s\<lparr>st_approvals := ?m\<rparr>)" if "gget (st_plans s) (a_subjectRef a) = None"
    using ok none [OF that] by (simp add: store_ok_def)
  have planned: "store_ok (s\<lparr>st_approvals := ?m, st_plans := gput (p_id p) (decidedPlan status p) (st_plans s)\<rparr>)"
    if "gget (st_plans s) (a_subjectRef a) = Some p" for p
    using ok some [OF that] by (simp add: store_ok_def)
  show ?thesis unfolding applyDecision_def Let_def a'_def [symmetric] a'(2) snd_conv store_ok_appendAudit
    by (cases "gget (st_plans s) (a_subjectRef a)"; cases "gget (st_runs s) (''run-'' @ a_subjectRef a)")
      (simp_all add: base planned store_ok_runs store_ok_findings runs findings split: option.split)
qed

lemma decide_ok [store_keeps]:
  "store_ok s \<Longrightarrow> store_ok (snd (Approve ctx now i actor reason s))"
  "store_ok s \<Longrightarrow> store_ok (snd (Reject ctx now i actor reason s))"
  by (auto simp: Approve_def Reject_def decide_def split: option.splits intro!: applyDecision_ok)

text \<open>
  The two callers of \<open>SyncRemediationPlan\<close> write back a plan they read from the store with an
  analysis attached, possibly after a decision was recorded in between.
\<close>

definition plan_read :: "store \<Rightarrow> remediation_plan \<Rightarrow> bool" where
  "plan_read s plan \<longleftrightarrow> (\<exists>cur. gget (st_plans s) (p_id plan) = Some cur \<and>
     p_approvalPolicy plan \<in>
       {p_approvalPolicy cur, (p_approvalPolicy cur)\<lparr>ap_decision := ApprovalPending\<rparr>})"

lemma SyncRemediationPlan_ok [store_keeps]:
  assumes ok: "store_ok s" and read: "plan_read s plan"
  shows "store_ok (snd (SyncRemediationPlan ctx plan s))"
proof -
  from read obtain cur where cur: "gget (st_plans s) (p_id plan) = Some cur"
    "p_approvalPolicy plan \<in> {p_approvalPolicy cur, (p_approvalPolicy cur)\<lparr>ap_decision := ApprovalPending\<rparr>}"
    by (auto simp: plan_read_def)
  then have "backed (st_approvals s) plan"
    using store_ok_backed [OF ok cur(1)] store_ok_ids(2) [OF ok cur(1)] by (auto simp: backed_def)
  with ok show ?thesis
    by (auto simp: SyncRemediationPlan_def split: option.splits intro: store_ok_put_plan)
qed

subsection \<open>Steps of the repository\<close>

inductive store_step :: "store \<Rightarrow> store \<Rightarrow> bool" where
  dashboard: "store_step s (snd (Dashboard ctx now s))"
| list_findings: "store_step s (snd (ListFindings ctx now filt s))"
| create_plan: "store_step s (snd (CreateRemediationPlan ctx now i requester keys s))"
| create_plan_from: "store_step s (snd (CreateRemediationPlanFromFinding ctx now f requester keys s))"
| sync_plan: "plan_read s plan \<Longrightarrow> store_step s (snd (SyncRemediationPlan ctx plan s))"
| execute: "store_step s (snd (ExecuteRemediationPlan ctx now i actor s))"
| sync_run: "store_step s (snd (SyncRemediationRun ctx run s))"
| rollback: "store_step s (snd (RequestRollback ctx now i actor s))"
| approve: "store_step s (snd (Approve ctx now i actor reason s))"
| reject: "store_step s (snd (Reject ctx now i actor reason s))"
| sync_finding: "store_step s (snd (SyncFinding ctx now f s))"
| expire_findings: "store_step s (snd (ExpireFindings ctx now before s))"
| update_status: "store_step s (snd (UpdateFindingStatus ctx now i status actor reason s))"
| list_exceptions: "store_step s (snd (ListExceptions ctx now s))"
| create_exception: "store_step s (snd (CreateException ctx now x actor s))"
| delete_exception: "store_step s (snd (DeleteException ctx now i actor s))"
| record_audit: "store_step s (snd (RecordAuditEvent ctx now e s))"
| create_chaos: "store_step s (snd (CreateChaosRun ctx c actor act s))"
| update_chaos: "store_step s (snd (UpdateChaosRun ctx c version actor act s))"
| save_providers: "store_step s (snd (SaveModelProviders ctx ps s))"

inductive_cases store_stepE: "store_step s s'"

inductive reachable :: "store \<Rightarrow> bool" where
  start: "reachable (NewMemoryStore [WithFindings fs, WithIntegrations ints])"
| step: "reachable s \<Longrightarrow> store_step s s' \<Longrightarrow> reachable s'"

lemma store_step_ok: "store_step s s' \<Longrightarrow> store_ok s \<Longrightarrow> store_ok s'"
  by (induction rule: store_step.induct) (auto intro: store_keeps)

lemma initial_ok: "store_ok (NewMemoryStore [WithFindings fs, WithIntegrations ints])"
proof -
  have "keyed f_id (fold (\<lambda>f. gput (f_id f) f) fs m)" if "keyed f_id m" for m
    using that by (induction fs arbitrary: m) (auto intro: keyed_put)
  then show ?thesis
    by (auto simp: NewMemoryStore_def WithFindings_def WithIntegrations_def emptyStore_def store_ok_def
      approvals_ok_def)
qed

lemma reachable_ok: "reachable s \<Longrightarrow> store_ok s"
  by (induction rule: reachable.induct) (auto intro: initial_ok store_step_ok)

text \<open>
  C4. Every store that can be reached from a new one by any sequence of repository calls is well
  formed: every map is keyed by the identifiers of its records, approvals are filed under their
  plan and a decided one names its approver, a plan that needed approval and counts as approved
  has an approved request, chaos runs have versions from 1 on, exceptions have an owner and a
  scope, and every stored model provider uses a secret reference.
\<close>

theorem reachable_store_ok: "reachable s \<Longrightarrow> store_ok s"
  by (rule reachable_ok)

subsection \<open>The audit trail only grows\<close>

named_theorems audit_grows

lemma appendAudit_grows [simp]: "prefix (st_auditEvents s) (st_auditEvents (appendAudit a b c d e s))"
  by (simp add: appendAudit_def)

lemma appendAudit_grows_from: "prefix es (st_auditEvents s) \<Longrightarrow> prefix es (st_auditEvents (appendAudit a b c d e s))"
  by (rule prefix_order.trans [OF _ appendAudit_grows])

lemma appendChaosAudit_grows: "prefix (st_auditEvents s) (st_auditEvents (appendChaosAuditLocked run actor act s))"
  by (simp add: appendChaosAuditLocked_def)

lemma appendChaosAudit_from:
  "prefix es (st_auditEvents s) \<Longrightarrow> prefix es (st_auditEvents (appendChaosAuditLocked run actor act s))"
  by (rule prefix_order.trans [OF _ appendChaosAudit_grows])

lemma fold_grows:
  "(\<And>x s. prefix (st_auditEvents s) (st_auditEvents (f x s))) \<Longrightarrow> prefix (st_auditEvents s) (st_auditEvents (fold f xs s))"
  by (induction xs arbitrary: s) (auto intro: prefix_order.trans)

lemma expire_grows: "prefix (st_auditEvents s) (st_auditEvents (expireExceptionsLocked now s))"
proof -
  have "prefix (st_auditEvents s) (st_auditEvents (expireOneException now x s))" for x s
    by (cases x) (auto simp: expireOneException_def intro!: appendAudit_grows_from)
  from fold_grows [of "expireOneException now", OF this] show ?thesis
    by (simp add: expireExceptionsLocked_def reopenLapsed_def)
qed

lemma list_calls_grow [audit_grows]:
  "prefix (st_auditEvents s) (st_auditEvents (snd (ListExceptions ctx now s)))"
  "prefix (st_auditEvents s) (st_auditEvents (snd (ListFindings ctx now filt s)))"
  "prefix (st_auditEvents s) (st_auditEvents (snd (Dashboard ctx now s)))"
  by (auto simp: ListExceptions_def ListFindings_def Dashboard_def Let_def expire_grows split: option.splits)

lemma finding_calls_grow [audit_grows]:
  "prefix (st_auditEvents s) (st_auditEvents (snd (SyncFinding ctx now f s)))"
  "prefix (st_auditEvents s) (st_auditEvents (snd (UpdateFindingStatus ctx now i status actor reason s)))"
  by (auto simp: SyncFinding_def UpdateFindingStatus_def Let_def split: option.splits intro!: appendAudit_grows_from)

lemma expire_findings_grow [audit_grows]:
  "prefix (st_auditEvents s) (st_auditEvents (snd (ExpireFindings ctx now before s)))"
proof -
  have "prefix (st_auditEvents s) (st_auditEvents (expireOneFinding now before x s))" for x s
    by (cases x) (auto simp: expireOneFinding_def intro!: appendAudit_grows_from)
  from fold_grows [of "expireOneFinding now before", OF this] show ?thesis
    by (auto simp: ExpireFindings_def split: option.splits)
qed

lemma exception_calls_grow [audit_grows]:
  "prefix (st_auditEvents s) (st_auditEvents (snd (CreateException ctx now x actor s)))"
  "prefix (st_auditEvents s) (st_auditEvents (snd (DeleteException ctx now i actor s)))"
  by (auto simp: CreateException_def DeleteException_def suppressMatching_def Let_def split: option.splits
    intro!: appendAudit_grows_from)

lemma storeNewPlan_grows: "prefix (st_auditEvents s) (st_auditEvents (snd (storeNewPlan now f requester key s)))"
  by (auto simp: storeNewPlan_def Let_def intro!: appendAudit_grows_from)

lemma create_grows: "prefix (st_auditEvents s) (st_auditEvents (snd (createRemediationPlanLocked now f requester key s)))"
  by (auto simp: createRemediationPlanLocked_def storeNewPlan_grows split: option.splits)

lemma plan_calls_grow [audit_grows]:
  "prefix (st_auditEvents s) (st_auditEvents (snd (CreateRemediationPlan ctx now i requester keys s)))"
  "prefix (st_auditEvents s) (st_auditEvents (snd (CreateRemediationPlanFromFinding ctx now f requester keys s)))"
  "prefix (st_auditEvents s) (st_auditEvents (snd (SyncRemediationPlan ctx plan s)))"
  using create_grows [of "s\<lparr>st_findings := gput (f_id f) f (st_findings s)\<rparr>"]
  by (auto simp: CreateRemediationPlan_def CreateRemediationPlanFromFinding_def SyncRemediationPlan_def
    create_grows split: option.splits)

lemma run_calls_grow [audit_grows]:
  "prefix (st_auditEvents s) (st_auditEvents (snd (SyncRemediationRun ctx run s)))"
  "prefix (st_auditEvents s) (st_auditEvents (snd (RequestRollback ctx now i actor s)))"
  "prefix (st_auditEvents s) (st_auditEvents (snd (ExecuteRemediationPlan ctx now i actor s)))"
  by (auto simp: SyncRemediationRun_def RequestRollback_def ExecuteRemediationPlan_def requestExecution_def Let_def
    split: option.splits intro!: appendAudit_grows_from)

lemma decision_calls_grow [audit_grows]:
  "prefix (st_auditEvents s) (st_auditEvents (snd (Approve ctx now i actor reason s)))"
  "prefix (st_auditEvents s) (st_auditEvents (snd (Reject ctx now i actor reason s)))"
  by (auto simp: Approve_def Reject_def decide_def applyDecision_def Let_def split: option.splits
    intro!: appendAudit_grows_from)

lemma other_calls_grow [audit_grows]:
  "prefix (st_auditEvents s) (st_auditEvents (snd (RecordAuditEvent ctx now e s)))"
  "prefix (st_auditEvents s) (st_auditEvents (snd (CreateChaosRun ctx c actor act s)))"
  "prefix (st_auditEvents s) (st_auditEvents (snd (UpdateChaosRun ctx c version actor act s)))"
  "prefix (st_auditEvents s) (st_auditEvents (snd (SaveModelProviders ctx ps s)))"
  by (auto simp: RecordAuditEvent_def CreateChaosRun_def UpdateChaosRun_def SaveModelProviders_def Let_def
    split: option.splits intro!: appendChaosAudit_from)

lemma store_step_grows: "store_step s s' \<Longrightarrow> prefix (st_auditEvents s) (st_auditEvents s')"
  by (induction rule: store_step.induct) (rule audit_grows)+

text \<open>
  C29. The audit trail is append-only: whatever calls are made, the events recorded before remain,
  unchanged and in their order, at the front of the trail.
\<close>

theorem audit_append_only:
  "store_step\<^sup>*\<^sup>* s s' \<Longrightarrow> prefix (st_auditEvents s) (st_auditEvents s')"
  by (induction rule: rtranclp_induct) (auto dest: store_step_grows)

subsection \<open>The theorems at concrete inputs\<close>

theorem reachable_store_ok_witness:
  "store_ok (snd (Approve None 200 ''approval-1'' ''bob'' ''ok'' (snd (CreateRemediationPlan None 100 ''f1'' ''alice'' [''key-0001'']
     (NewMemoryStore [WithFindings [sample_finding ''Deployment'' ''no pdb''], WithIntegrations []])))))"
  by (rule reachable_store_ok [OF reachable.step [OF reachable.step [OF reachable.start store_step.create_plan] store_step.approve]])

definition sample_event :: "string \<Rightarrow> audit_event" where
  "sample_event i = \<lparr>ae_id = i, ae_actor = ''bob'', ae_action = ''read'', ae_subject = ''f1'', ae_message = '''', ae_createdAt = 1\<rparr>"

definition one_event :: store where
  "one_event = snd (RecordAuditEvent None 5 (sample_event ''e1'') emptyStore)"

theorem audit_append_only_witness:
  "st_auditEvents one_event = [sample_event ''e1''] \<and>
   prefix [sample_event ''e1''] (st_auditEvents (snd (SyncFinding None 9 (sample_finding ''Pod'' ''x'')
     (snd (RecordAuditEvent None 7 (sample_event ''e2'') one_event)))))"
proof -
  have one: "st_auditEvents one_event = [sample_event ''e1'']"
  proof -
    have "\<not> blank ''bob''" "\<not> blank ''read''" "\<not> blank ''f1''" by code_simp+
    then show ?thesis by (simp add: one_event_def RecordAuditEvent_def sample_event_def isZero_def emptyStore_def)
  qed
  have "store_step\<^sup>*\<^sup>* one_event (snd (RecordAuditEvent None 7 (sample_event ''e2'') one_event))"
    by (intro r_into_rtranclp store_step.record_audit)
  then have "store_step\<^sup>*\<^sup>* one_event (snd (SyncFinding None 9 (sample_finding ''Pod'' ''x'')
      (snd (RecordAuditEvent None 7 (sample_event ''e2'') one_event))))"
    by (rule rtranclp.rtrancl_into_rtrancl) (rule store_step.sync_finding)
  from audit_append_only [OF this] show ?thesis by (simp only: one simp_thms)
qed

end
