(* ===== verification/StoreWorkflow.thy ===== *)
theory StoreWorkflow
  imports Go_Prelude CoreTypes PlanBuilder MemoryStore StoreInvariant
begin

text \<open>
  What the repository guarantees about the remediation workflow: failed calls change nothing,
  plans are created once for each idempotency key, approvals are decided once and by a named
  actor, and execution is requested only behind an approved request.
\<close>

subsection \<open>Failed calls\<close>

definition unchanged_on_error :: "store \<Rightarrow> 'a store_result \<Rightarrow> bool" where
  "unchanged_on_error s r \<longleftrightarrow> (case fst r of Inl _ \<Rightarrow> snd r = s | Inr _ \<Rightarrow> True)"

lemmas result_defs = unchanged_on_error_def CreateRemediationPlan_def createRemediationPlanLocked_def
  storeNewPlan_def ExecuteRemediationPlan_def requestExecution_def RequestRollback_def SyncRemediationRun_def
  SyncRemediationPlan_def Approve_def Reject_def decide_def applyDecision_def

lemmas result_defs2 = unchanged_on_error_def UpdateFindingStatus_def CreateException_def DeleteException_def
  RecordAuditEvent_def CreateChaosRun_def UpdateChaosRun_def SaveModelProviders_def

text \<open>
  Failed calls change nothing: whenever one of these methods returns an error, the store is
  exactly what it was, so no partial decision, execution request, exception, audit event or
  chaos update is ever left behind.
\<close>

theorem failed_call_unchanged:
  "unchanged_on_error s (CreateRemediationPlan ctx now i requester keys s) \<and>
   unchanged_on_error s (ExecuteRemediationPlan ctx now i actor s) \<and>
   unchanged_on_error s (RequestRollback ctx now i actor s) \<and>
   unchanged_on_error s (SyncRemediationPlan ctx plan s) \<and>
   unchanged_on_error s (SyncRemediationRun ctx run s) \<and>
   unchanged_on_error s (Approve ctx now i actor reason s) \<and>
   unchanged_on_error s (Reject ctx now i actor reason s) \<and>
   unchanged_on_error s (UpdateFindingStatus ctx now i status actor reason s) \<and>
   unchanged_on_error s (CreateException ctx now x actor s) \<and>
   unchanged_on_error s (DeleteException ctx now i actor s) \<and>
   unchanged_on_error s (RecordAuditEvent ctx now e s) \<and>
   unchanged_on_error s (CreateChaosRun ctx c actor act s) \<and>
   unchanged_on_error s (UpdateChaosRun ctx c version actor act s) \<and>
   unchanged_on_error s (SaveModelProviders ctx ps s)"
  by (intro conjI) (auto simp: result_defs result_defs2 Let_def split: option.splits if_splits)

text \<open>
  Creating a plan for a finding the store does not know is the exception: without a requester
  the call fails, and yet the finding has been stored.
\<close>

theorem create_from_finding_keeps_finding:
  assumes "f_id f \<noteq> ''''" "gget (st_findings s) (f_id f) = None"
  shows "fst (CreateRemediationPlanFromFinding None now f '''' keys s) =
      Inl (ErrInvalid ''authenticated requester is required'') \<and>
    GetFinding None (f_id f) (snd (CreateRemediationPlanFromFinding None now f '''' keys s)) = Inr f"
  using assms
  by (simp add: CreateRemediationPlanFromFinding_def createRemediationPlanLocked_def GetFinding_def)

subsection \<open>Creation of plans\<close>

lemma buildRemediationPlan_fields [simp]:
  "p_findingID (buildRemediationPlan f requester now seq) = f_id f"
  "p_status (buildRemediationPlan f requester now seq) = ''proposed''"
  "p_approvalPolicy (buildRemediationPlan f requester now seq) =
     approvalPolicyForActions (typedActionsForFinding f)"
  by (simp_all add: buildRemediationPlan_def Let_def)

lemma new_record_fields [simp]:
  "a_id (newApproval plan requester now) = ''approval-'' @ p_id plan"
  "r_id (newRun plan st now) = ''run-'' @ p_id plan"
  by (simp_all add: newApproval_def newRun_def)

definition planFor :: "gotime \<Rightarrow> finding \<Rightarrow> string \<Rightarrow> string \<Rightarrow> int \<Rightarrow> remediation_plan" where
  "planFor now f requester key seq =
     (let plan = buildRemediationPlan f requester now seq
      in if key \<noteq> [] then plan\<lparr>p_id := IdempotentPlanID (f_id f) requester key\<rparr> else plan)"

lemma storeNewPlan_plan: "fst (storeNewPlan now f requester key s) = Inr (planFor now f requester key (st_seq s + 1))"
  by (simp add: storeNewPlan_def planFor_def Let_def)

lemma storeNewPlan_state:
  assumes "plan = planFor now f requester key (st_seq s + 1)" and "s' = snd (storeNewPlan now f requester key s)"
  shows "st_findings s' = st_findings s"
    and "gget (st_plans s') (p_id plan) = Some plan"
    and "ap_required (p_approvalPolicy plan) \<Longrightarrow>
      gget (st_approvals s') (''approval-'' @ p_id plan) = Some (newApproval plan requester now)"
    and "gget (st_runs s') (''run-'' @ p_id plan) =
      Some (newRun plan (if ap_required (p_approvalPolicy plan) then RunPendingApproval else RunPrepared) now)"
    and "key \<noteq> [] \<Longrightarrow> gget (st_idempotency s') (idempotencyScope requester key) = Some (p_id plan)"
  unfolding assms storeNewPlan_def planFor_def Let_def by (simp_all split: if_splits)

lemma planFor_fields [simp]:
  "p_findingID (planFor now f requester key seq) = f_id f"
  "p_status (planFor now f requester key seq) = ''proposed''"
  "p_approvalPolicy (planFor now f requester key seq) = approvalPolicyForActions (typedActionsForFinding f)"
  by (simp_all add: planFor_def Let_def)

lemma create_with_key:
  assumes ok: "store_ok s" and key: "key \<noteq> []"
    and call: "createRemediationPlanLocked now f requester key s = (Inr plan, s')"
  shows "requester \<noteq> [] \<and> gget (st_idempotency s') (idempotencyScope requester key) = Some (p_id plan) \<and>
    gget (st_plans s') (p_id plan) = Some plan \<and> p_findingID plan = f_id f \<and> st_findings s' = st_findings s"
proof (cases "gget (st_idempotency s) (idempotencyScope requester key)")
  case None
  with call key have req: "requester \<noteq> []" and new: "storeNewPlan now f requester key s = (Inr plan, s')"
    by (auto simp: createRemediationPlanLocked_def split: if_splits)
  have plan: "plan = planFor now f requester key (st_seq s + 1)" and s': "s' = snd (storeNewPlan now f requester key s)"
    using new storeNewPlan_plan [of now f requester key s] by auto
  show ?thesis using storeNewPlan_state [OF plan s'] key req plan by simp
next
  case (Some planID)
  with call key have "requester \<noteq> []" "gget (st_plans s) planID = Some plan" "p_findingID plan = f_id f" "s' = s"
    by (auto simp: createRemediationPlanLocked_def split: if_splits option.splits)
  with Some store_ok_ids(2) [OF ok] show ?thesis by auto
qed

text \<open>
  C34. A plan is created once for each requester and idempotency key: repeating a successful
  creation with the same arguments, at any later time, returns the same plan and leaves the
  store as it is, and using the key for another finding is a conflict that leaves it as it is.
\<close>

theorem creation_idempotent:
  assumes "reachable s" "key \<noteq> ''''"
    and "CreateRemediationPlan None now i requester (key # ks) s = (Inr plan, s')"
  shows "CreateRemediationPlan None later i requester (key # ks) s' = (Inr plan, s') \<and>
    (\<forall>j g. j \<noteq> i \<and> gget (st_findings s') j = Some g \<longrightarrow>
      CreateRemediationPlan None later j requester (key # ks) s' =
        (Inl (ErrConflict ''idempotency key was used for a different request''), s'))"
proof -
  have ok: "store_ok s" using assms(1) by (rule reachable_ok)
  from assms(3) obtain f where f: "gget (st_findings s) i = Some f"
    and call: "createRemediationPlanLocked now f requester key s = (Inr plan, s')"
    by (auto simp: CreateRemediationPlan_def first_key_def split: option.splits)
  have ids: "gget (st_findings s') j = Some g \<Longrightarrow> f_id g = j" for j g
    using create_with_key [OF ok assms(2) call] store_ok_ids(1) [OF ok] by simp
  show ?thesis
    using create_with_key [OF ok assms(2) call] f ids assms(2)
    by (auto simp: CreateRemediationPlan_def first_key_def createRemediationPlanLocked_def)
qed

text \<open>
  Idempotency scopes are not kept apart: the scope is the requester and the key joined by a
  bar, so a requester whose name contains a bar shares the scope of another one and is handed
  the other's plan.
\<close>

theorem idempotency_scope_shared:
  assumes "reachable s" "c \<noteq> ''''"
    and "CreateRemediationPlan None now i a [b @ ''|'' @ c] s = (Inr plan, s')"
  shows "CreateRemediationPlan None later i (a @ ''|'' @ b) [c] s' = (Inr plan, s')"
proof -
  have ok: "store_ok s" using assms(1) by (rule reachable_ok)
  from assms(3) obtain f where f: "gget (st_findings s) i = Some f"
    and call: "createRemediationPlanLocked now f a (b @ ''|'' @ c) s = (Inr plan, s')"
    by (auto simp: CreateRemediationPlan_def first_key_def split: option.splits)
  have "idempotencyScope (a @ ''|'' @ b) c = idempotencyScope a (b @ ''|'' @ c)"
    by (simp add: idempotencyScope_def)
  then show ?thesis
    using create_with_key [OF ok _ call] f assms(2)
    by (simp add: CreateRemediationPlan_def first_key_def createRemediationPlanLocked_def)
qed

subsection \<open>Decisions\<close>

lemma applyDecision_lookups:
  assumes ok: "store_ok s" and s': "s' = snd (applyDecision now actor reason status a s)"
  shows "gget (st_plans s') (a_subjectRef a) = map_option (decidedPlan status) (gget (st_plans s) (a_subjectRef a))"
    and "gget (st_runs s') (''run-'' @ a_subjectRef a) =
      map_option (decidedRun status now) (gget (st_runs s) (''run-'' @ a_subjectRef a))"
  using store_ok_ids(2,4) [OF ok] unfolding s'
  by (auto simp: applyDecision_def Let_def split: option.splits)

text \<open>
  C6. Approval requests are decided once and on the record: a successful decision was taken on a
  pending request by a named actor, it is recorded with that actor and reason, it settles the
  decision of the plan and the state of its run, its audit event is the last one, and every
  later attempt to decide the same request, either way and by anyone, fails and changes nothing.
\<close>

theorem decided_once:
  assumes "reachable s" "status \<in> {ApprovalApproved, ApprovalRejected}"
    and "decide None now i actor reason status s = (Inr a, s')"
  shows "(\<exists>a0. gget (st_approvals s) i = Some a0 \<and> a_status a0 = ApprovalPending \<and> actor \<noteq> '''' \<and>
        a = a0\<lparr>a_status := status, a_approver := actor, a_decisionReason := reason, a_updatedAt := now\<rparr>) \<and>
    gget (st_approvals s') i = Some a \<and>
    (\<forall>p. gget (st_plans s') (a_subjectRef a) = Some p \<longrightarrow>
       ap_decision (p_approvalPolicy p) = status \<and>
       p_status p = (if status = ApprovalApproved then ''approved'' else ''rejected'')) \<and>
    (\<forall>r. gget (st_runs s') (''run-'' @ a_subjectRef a) = Some r \<longrightarrow>
       r_state r = (if status = ApprovalApproved then RunApproved else RunFailed)) \<and>
    (let e = last (st_auditEvents s') in
       ae_actor e = actor \<and> ae_subject e = a_subjectRef a \<and> ae_message e = reason \<and>
       ae_action e = (if status = ApprovalApproved then ''approval.approved'' else ''approval.rejected'')) \<and>
    decide None later i other why status' s' =
      (Inl (ErrInvalid (''approval is already '' @ approvalStatusString status)), s')"
proof -
  have ok: "store_ok s" using assms(1) by (rule reachable_ok)
  from assms(3) obtain a0 where a0: "gget (st_approvals s) i = Some a0" "a_status a0 = ApprovalPending"
    "actor \<noteq> []" and eq: "applyDecision now actor reason status a0 s = (Inr a, s')"
    by (auto simp: decide_def split: option.splits if_splits)
  have a: "a = a0\<lparr>a_status := status, a_approver := actor, a_decisionReason := reason, a_updatedAt := now\<rparr>"
    using eq by (simp add: applyDecision_def Let_def)
  have s': "s' = snd (applyDecision now actor reason status a0 s)" using eq by simp
  have ap: "gget (st_approvals s') i = Some a"
    using store_ok_ids(3) [OF ok a0(1)] unfolding s' a
    by (simp add: applyDecision_def Let_def split: option.splits)
  note lookups = applyDecision_lookups [OF ok s']
  have ev: "let e = last (st_auditEvents s') in
      ae_actor e = actor \<and> ae_subject e = a_subjectRef a0 \<and> ae_message e = reason \<and>
      ae_action e = (if status = ApprovalRejected then ''approval.rejected'' else ''approval.approved'')"
    unfolding s' by (simp add: applyDecision_def Let_def appendAudit_def)
  have again: "decide None later i other why status' s' =
      (Inl (ErrInvalid (''approval is already '' @ approvalStatusString status)), s')"
    using ap a assms(2) by (auto simp: decide_def)
  show ?thesis
    using a0 a ap lookups ev again assms(2)
    by (auto simp: decidedPlan_def decidedRun_def)
qed

text \<open>
  The deadline of an approval request is not enforced: a pending request is approved by any
  named actor however long ago it expired, although the dashboard no longer counts it.
\<close>

theorem expired_request_approved:
  assumes "gget (st_approvals s) i = Some a" "a_status a = ApprovalPending" "a_expiresAt a \<le> now"
    and "actor \<noteq> ''''"
  shows "fst (Approve None now i actor reason s) =
      Inr (a\<lparr>a_status := ApprovalApproved, a_approver := actor, a_decisionReason := reason, a_updatedAt := now\<rparr>)"
  using assms by (simp add: Approve_def decide_def applyDecision_def Let_def)

subsection \<open>Execution\<close>

text \<open>
  C3. Execution is gated: a call that requests the execution of a plan succeeds only for a stored
  plan that is not rejected and, if it needs approval, only when the request filed for it was
  approved by a named actor. It then moves the plan, its run and its finding together into the
  requested state, with the dry run still outstanding, and records who asked.
\<close>

theorem execution_gated:
  assumes "reachable s" "ExecuteRemediationPlan None now i actor s = (Inr run, s')"
  shows "\<exists>plan. gget (st_plans s) i = Some plan \<and> actor \<noteq> '''' \<and> p_status plan \<noteq> ''rejected'' \<and>
    (ap_required (p_approvalPolicy plan) \<longrightarrow>
       (\<exists>a. gget (st_approvals s) (''approval-'' @ i) = Some a \<and> a_status a = ApprovalApproved \<and>
            a_approver a \<noteq> '''')) \<and>
    (\<exists>plan'. gget (st_plans s') i = Some plan' \<and> p_status plan' = ''execution_requested'' \<and>
       \<not> dr_passed (p_dryRunResult plan') \<and> p_actions plan' = p_actions plan) \<and>
    gget (st_runs s') (''run-'' @ i) = Some run \<and> r_state run = RunExecutionRequested \<and>
    (\<forall>f. gget (st_findings s') (p_findingID plan) = Some f \<longrightarrow> f_status f = FindingRemediating) \<and>
    (let e = last (st_auditEvents s') in
       ae_actor e = actor \<and> ae_action e = ''remediation.execution.requested'' \<and> ae_subject e = i)"
proof -
  have ok: "store_ok s" using assms(1) by (rule reachable_ok)
  from assms(2) obtain plan where plan: "gget (st_plans s) i = Some plan" "actor \<noteq> []"
    "p_status plan \<noteq> ''rejected''"
    "ap_required (p_approvalPolicy plan) \<Longrightarrow> ap_decision (p_approvalPolicy plan) = ApprovalApproved"
    and eq: "requestExecution now actor plan s = (Inr run, s')"
    by (auto simp: ExecuteRemediationPlan_def split: option.splits if_splits)
  have pid: "p_id plan = i" using store_ok_ids(2) [OF ok plan(1)] .
  have s': "s' = snd (requestExecution now actor plan s)" and run: "Inr run = fst (requestExecution now actor plan s)"
    using eq by simp_all
  have gate: "\<exists>a. gget (st_approvals s) (''approval-'' @ i) = Some a \<and> a_status a = ApprovalApproved \<and> a_approver a \<noteq> []"
    if "ap_required (p_approvalPolicy plan)"
  proof -
    from that plan(4) store_ok_backed [OF ok plan(1)] pid obtain a
      where a: "gget (st_approvals s) (''approval-'' @ i) = Some a" "a_status a = ApprovalApproved"
      by (auto simp: backed_def)
    moreover have "approval_ok a" using ok a(1) by (auto simp: store_ok_def approvals_ok_def)
    ultimately show ?thesis by (auto simp: approval_ok_def)
  qed
  have plans: "gget (st_plans s') i = Some (plan\<lparr>p_status := ''execution_requested'',
      p_dryRunResult := \<lparr>dr_passed = False,
        dr_message = ''execution requested; waiting for controller server-side dry-run''\<rparr>\<rparr>)"
    unfolding s' by (simp add: requestExecution_def Let_def pid split: option.splits)
  have runs: "gget (st_runs s') (''run-'' @ i) = Some run \<and> r_state run = RunExecutionRequested"
    using store_ok_ids(4) [OF ok] run unfolding s'
    by (auto simp: requestExecution_def Let_def pid split: option.splits)
  have fnd: "\<forall>f. gget (st_findings s') (p_findingID plan) = Some f \<longrightarrow> f_status f = FindingRemediating"
    using store_ok_ids(1) [OF ok] unfolding s'
    by (auto simp: requestExecution_def Let_def split: option.splits)
  have ev: "let e = last (st_auditEvents s') in
      ae_actor e = actor \<and> ae_action e = ''remediation.execution.requested'' \<and> ae_subject e = i"
    unfolding s' by (simp add: requestExecution_def Let_def appendAudit_def pid)
  show ?thesis using plan(1-3) gate plans runs fnd ev by (intro exI [of _ plan]) simp
qed

subsection \<open>Chaos runs\<close>

text \<open>
  Updates of a chaos run are serialised by its version: an update succeeds exactly when the
  stored run has the expected version and the given run carries it; it then stores the run one
  version up, leaves all other runs alone, and a second writer that still expects the old
  version gets a conflict and changes nothing.
\<close>

theorem chaos_update_serialised:
  "(case UpdateChaosRun None run v actor act s of
      (Inr run', s') \<Rightarrow>
        (\<exists>cur. gget (st_chaosRuns s) (c_id run) = Some cur \<and> c_version cur = v) \<and> c_version run = v \<and>
        run' = run\<lparr>c_version := v + 1\<rparr> \<and>
        GetChaosRun None (c_id run) s' = Inr run' \<and>
        list_all (\<lambda>i. i = c_id run \<or> GetChaosRun None i s' = GetChaosRun None i s) ids \<and>
        UpdateChaosRun None (other\<lparr>c_id := c_id run\<rparr>) v actor2 act2 s' = (Inl (ErrConflict ''''), s')
    | (Inl e, s') \<Rightarrow>
        s' = s \<and>
        (if gget (st_chaosRuns s) (c_id run) = None then e = ErrNotFound
         else e = ErrConflict '''' \<and>
              (\<exists>cur. gget (st_chaosRuns s) (c_id run) = Some cur \<and> (c_version cur, c_version run) \<noteq> (v, v))))"
proof -
  have chaos: "st_chaosRuns (appendChaosAuditLocked r ac an t) = st_chaosRuns t" for r ac an t
    by (simp add: appendChaosAuditLocked_def)
  show ?thesis
    by (auto simp: UpdateChaosRun_def GetChaosRun_def Let_def chaos list_all_iff split: option.splits)
qed

subsection \<open>The theorems at concrete inputs\<close>

definition sample_start :: store where
  "sample_start = NewMemoryStore [WithFindings [sample_finding ''Deployment'' ''no pdb''], WithIntegrations []]"

definition sample_plan :: "string \<Rightarrow> remediation_plan" where
  "sample_plan key = planFor 100 (sample_finding ''Deployment'' ''no pdb'') ''alice'' key 1"

definition sample_planned :: "string \<Rightarrow> store" where
  "sample_planned key = snd (CreateRemediationPlan None 100 ''f1'' ''alice'' [key] sample_start)"

lemma sample_start_finding: "gget (st_findings sample_start) ''f1'' = Some (sample_finding ''Deployment'' ''no pdb'')"
  "st_seq sample_start = 0" "st_idempotency sample_start = []"
  by (simp_all add: sample_start_def NewMemoryStore_def WithFindings_def WithIntegrations_def emptyStore_def
    sample_finding_def)

lemma sample_reachable: "reachable sample_start" "reachable (sample_planned key)"
proof -
  show start: "reachable sample_start" unfolding sample_start_def by (rule reachable.start)
  show "reachable (sample_planned key)"
    unfolding sample_planned_def by (rule reachable.step [OF start store_step.create_plan])
qed

lemma sample_created: "CreateRemediationPlan None 100 ''f1'' ''alice'' [key] sample_start =
  (Inr (sample_plan key), sample_planned key)"
proof -
  have eq: "CreateRemediationPlan None 100 ''f1'' ''alice'' [key] sample_start =
      storeNewPlan 100 (sample_finding ''Deployment'' ''no pdb'') ''alice'' key sample_start"
    by (simp add: CreateRemediationPlan_def first_key_def sample_start_finding createRemediationPlanLocked_def)
  show ?thesis unfolding sample_planned_def eq sample_plan_def
    using storeNewPlan_plan [of 100 "sample_finding ''Deployment'' ''no pdb''" "''alice''" key sample_start]
    by (simp add: sample_start_finding prod_eq_iff)
qed

lemma sample_required: "ap_required (p_approvalPolicy (sample_plan key))"
proof -
  have "typedActionsForFinding (sample_finding ''Deployment'' ''no pdb'') =
      [pdbAction (findingTarget (sample_finding ''Deployment'' ''no pdb''))]"
    by (simp add: typedActionsForFinding_def sample_eval matchedActions_def dedupeActions_def Let_def)
  then have "riskTierForActions (typedActionsForFinding (sample_finding ''Deployment'' ''no pdb'')) \<noteq> RiskA"
    using tierA_actions by (force simp: pdbAction_def)
  then show ?thesis by (simp add: sample_plan_def required_iff_tier)
qed

lemma sample_id: "p_id (sample_plan '''') = ''plan-f1-001''"
  by (simp add: sample_plan_def planFor_def buildRemediationPlan_def Let_def sample_finding_def padZero_def
    intDigits.simps digitChar_def numeral_2_eq_2 char_of_def)

lemma sample_planned_new:
  "sample_planned key = snd (storeNewPlan 100 (sample_finding ''Deployment'' ''no pdb'') ''alice'' key sample_start)"
  by (simp add: sample_planned_def CreateRemediationPlan_def first_key_def sample_start_finding
    createRemediationPlanLocked_def)

lemma sample_approval: "gget (st_approvals (sample_planned '''')) ''approval-plan-f1-001'' =
  Some (newApproval (sample_plan '''') ''alice'' 100)"
  using storeNewPlan_state(3) [OF _ sample_planned_new [of "''''"], of "sample_plan ''''"] sample_required [of "''''"] sample_id
  by (simp add: sample_plan_def sample_start_finding)

theorem create_from_finding_keeps_finding_witness:
  "fst (CreateRemediationPlanFromFinding None 5 (sample_finding ''Pod'' ''x'') '''' [] emptyStore) =
      Inl (ErrInvalid ''authenticated requester is required'') \<and>
    GetFinding None ''f1'' (snd (CreateRemediationPlanFromFinding None 5 (sample_finding ''Pod'' ''x'') '''' [] emptyStore)) =
      Inr (sample_finding ''Pod'' ''x'')"
  using create_from_finding_keeps_finding [of "sample_finding ''Pod'' ''x''" emptyStore 5 "[]"]
  by (simp add: sample_finding_def emptyStore_def)

theorem creation_idempotent_witness:
  "CreateRemediationPlan None 900 ''f1'' ''alice'' [''k''] (sample_planned ''k'') =
     (Inr (sample_plan ''k''), sample_planned ''k'')"
  using creation_idempotent [OF sample_reachable(1) _ sample_created, where key = "''k''"] by simp

theorem idempotency_scope_shared_witness:
  "CreateRemediationPlan None 900 ''f1'' ''alice|b'' [''c''] (sample_planned ''b|c'') =
     (Inr (sample_plan ''b|c''), sample_planned ''b|c'')"
  using idempotency_scope_shared [OF sample_reachable(1), of "''c''" 100 "''f1''" "''alice''" "''b''"]
    sample_created [of "''b|c''"] by simp

definition sample_approved :: store where
  "sample_approved = snd (Approve None 200 ''approval-plan-f1-001'' ''bob'' ''fine'' (sample_planned ''''))"

lemma sample_decided: "\<exists>a. decide None 200 ''approval-plan-f1-001'' ''bob'' ''fine'' ApprovalApproved (sample_planned '''') =
  (Inr a, sample_approved)"
  by (simp add: sample_approved_def Approve_def decide_def sample_approval newApproval_def applyDecision_def Let_def)

theorem decided_once_witness:
  "snd (decide None 300 ''approval-plan-f1-001'' ''eve'' ''no'' ApprovalRejected sample_approved) = sample_approved"
proof -
  from sample_decided obtain a where
    "decide None 200 ''approval-plan-f1-001'' ''bob'' ''fine'' ApprovalApproved (sample_planned '''') = (Inr a, sample_approved)"
    by blast
  from decided_once [OF sample_reachable(2) _ this, of 300 "''eve''" "''no''" ApprovalRejected]
  show ?thesis by simp
qed

theorem expired_request_approved_witness:
  "\<exists>a. fst (Approve None (100 + 25 * hour) ''approval-plan-f1-001'' ''bob'' ''late'' (sample_planned '''')) = Inr a"
  using expired_request_approved [OF sample_approval, of "100 + 25 * hour" "''bob''" "''late''"]
  by (simp add: newApproval_def hour_def minute_def second_def)

lemma sample_approved_plan: "\<exists>p. gget (st_plans sample_approved) ''plan-f1-001'' = Some p \<and>
  ap_required (p_approvalPolicy p) \<and> ap_decision (p_approvalPolicy p) = ApprovalApproved \<and> p_status p = ''approved''"
proof -
  have "gget (st_plans (sample_planned '''')) ''plan-f1-001'' = Some (sample_plan '''')"
    using storeNewPlan_state(2) [OF _ sample_planned_new [of "''''"], of "sample_plan ''''"] sample_id
    by (simp add: sample_plan_def sample_start_finding)
  moreover have "sample_approved = snd (applyDecision 200 ''bob'' ''fine'' ApprovalApproved
      (newApproval (sample_plan '''') ''alice'' 100) (sample_planned ''''))"
    by (simp add: sample_approved_def Approve_def decide_def sample_approval newApproval_def)
  from applyDecision_lookups(1) [OF reachable_ok [OF sample_reachable(2)] this]
  have "gget (st_plans sample_approved) ''plan-f1-001'' =
      map_option (decidedPlan ApprovalApproved) (gget (st_plans (sample_planned '''')) ''plan-f1-001'')"
    by (simp add: newApproval_def sample_id)
  ultimately show ?thesis using sample_required [of "''''"] by (simp add: decidedPlan_def)
qed

theorem execution_gated_witness:
  "\<exists>run s'. ExecuteRemediationPlan None 400 ''plan-f1-001'' ''carol'' sample_approved = (Inr run, s') \<and>
     r_state run = RunExecutionRequested \<and>
     (\<exists>a. gget (st_approvals sample_approved) ''approval-plan-f1-001'' = Some a \<and> a_status a = ApprovalApproved)"
proof -
  have reach: "reachable sample_approved"
    unfolding sample_approved_def by (rule reachable.step [OF sample_reachable(2) store_step.approve])
  obtain p where p: "gget (st_plans sample_approved) ''plan-f1-001'' = Some p"
    "ap_required (p_approvalPolicy p)" "ap_decision (p_approvalPolicy p) = ApprovalApproved" "p_status p = ''approved''"
    using sample_approved_plan by blast
  then obtain run s' where run: "ExecuteRemediationPlan None 400 ''plan-f1-001'' ''carol'' sample_approved = (Inr run, s')"
    by (simp add: ExecuteRemediationPlan_def requestExecution_def Let_def)
  from execution_gated [OF reach run] p run show ?thesis by auto
qed

end
