(* ===== verification/StoreFindings.thy ===== *)
theory StoreFindings
  imports Go_Prelude CoreTypes PlanBuilder MemoryStore StoreInvariant
begin

text \<open>
  What the repository guarantees about findings: exceptions suppress exactly while they are in
  force, stale evidence expires, synchronisation keeps the manual lifecycle, and the listings
  and evidence bundles are complete and ordered.
\<close>

subsection \<open>Exceptions in force\<close>

lemma fold_expire_exceptions:
  assumes "wf_gomap xs"
  shows "gget (st_exceptions (fold (expireOneException now) xs s)) i =
     (case gget xs i of
        Some x \<Rightarrow> if exceptionLapsed now x then Some (x\<lparr>x_status := ''expired'', x_updatedAt := now\<rparr>)
                  else gget (st_exceptions s) i
      | None \<Rightarrow> gget (st_exceptions s) i) \<and>
     st_findings (fold (expireOneException now) xs s) = st_findings s"
  using assms
proof (induction xs arbitrary: s)
  case (Cons e xs)
  obtain j x where e: "e = (j, x)" by force
  with Cons.prems have "gget xs j = None" and wf: "wf_gomap xs"
    by (auto simp: wf_gomap_def map_of_eq_None_iff)
  with Cons.IH [OF wf, of "expireOneException now e s"] show ?case
    by (auto simp: e expireOneException_def split: option.splits)
qed simp

lemma expired_exceptions:
  assumes "store_ok s"
  shows "gget (st_exceptions (expireExceptionsLocked now s)) i =
      map_option (\<lambda>x. if exceptionLapsed now x then x\<lparr>x_status := ''expired'', x_updatedAt := now\<rparr> else x)
        (gget (st_exceptions s) i)"
proof -
  have "wf_gomap (st_exceptions s)" using store_okD(6) [OF assms] by (simp add: keyed_def)
  from fold_expire_exceptions [OF this, of now s i] show ?thesis
    by (auto simp: expireExceptionsLocked_def reopenLapsed_def split: option.splits)
qed

lemma hasActive_iff:
  assumes "store_ok s"
  shows "hasActiveException s f now \<longleftrightarrow> (\<exists>i x. gget (st_exceptions s) i = Some x \<and> activeException now f x)"
proof -
  have "wf_gomap (st_exceptions s)" using store_okD(6) [OF assms] by (simp add: keyed_def)
  then show ?thesis by (auto simp: hasActiveException_def list_ex_iff gget_in_set)
qed

lemma hasActive_expire:
  assumes "store_ok s"
  shows "hasActiveException (expireExceptionsLocked now s) f now = hasActiveException s f now"
proof -
  let ?g = "\<lambda>x. if exceptionLapsed now x then x\<lparr>x_status := ''expired'', x_updatedAt := now\<rparr> else x"
  have "activeException now f (?g x) = activeException now f x" for x
    by (auto simp: activeException_def exceptionLapsed_def)
  then show ?thesis
    unfolding hasActive_iff [OF assms] hasActive_iff [OF expireExceptionsLocked_ok [OF assms]]
      expired_exceptions [OF assms] map_option_eq_Some by (auto simp only:)
qed

lemma expiry_changes: "x_status x = ''active'' \<Longrightarrow> x\<lparr>x_status := ''expired'', x_updatedAt := now\<rparr> \<noteq> x"
  by (auto dest: arg_cong [where f = x_status])

lemma reopen_changes: "f_status f = FindingSuppressed \<Longrightarrow> reopenFinding now f \<noteq> f"
  by (auto simp: reopenFinding_def dest: arg_cong [where f = f_status])

lemma reopen_status [simp]: "f_status (reopenFinding now f) = FindingOpen"
  by (simp add: reopenFinding_def)

text \<open>The findings after the sweep: the lapsed suppressions reopened, all others as they were.\<close>

lemma expired_findings:
  assumes "store_ok s"
  shows "gget (st_findings (expireExceptionsLocked now s)) i =
      map_option (\<lambda>f. if f_status f = FindingSuppressed \<and> \<not> hasActiveException s f now
                      then reopenFinding now f else f) (gget (st_findings s) i)"
proof -
  let ?s = "fold (expireOneException now) (st_exceptions s) s"
  have "wf_gomap (st_exceptions s)" using store_okD(6) [OF assms] by (simp add: keyed_def)
  then have "st_findings ?s = st_findings s" using fold_expire_exceptions by blast
  moreover have "hasActiveException ?s f now = hasActiveException (expireExceptionsLocked now s) f now" for f
    by (simp add: expireExceptionsLocked_def reopenLapsed_def hasActiveException_def)
  then have "hasActiveException ?s f now = hasActiveException s f now" for f
    unfolding hasActive_expire [OF assms] .
  ultimately show ?thesis by (simp add: expireExceptionsLocked_def reopenLapsed_def)
qed

text \<open>
  Suppression never outlives its exceptions: in the store that a listing of findings leaves
  behind, a finding is suppressed only if an exception that covers it is active and has not
  expired, and every exception still marked active is unexpired. The sweep reopens exactly the
  suppressed findings that lost their cover and touches no other finding.
\<close>

theorem suppression_covered:
  assumes "reachable s" "s' = snd (ListFindings None now filt s)"
  shows "(\<forall>i f. gget (st_findings s') i = Some f \<and> f_status f = FindingSuppressed \<longrightarrow>
      (\<exists>j x. gget (st_exceptions s') j = Some x \<and> x_status x = ''active'' \<and> x_expiresAt x > now \<and>
             exceptionMatches x f)) \<and>
    (\<forall>j x. gget (st_exceptions s') j = Some x \<and> x_status x = ''active'' \<longrightarrow> x_expiresAt x > now) \<and>
    (\<forall>i. gget (st_findings s') i =
       map_option (\<lambda>f. if f_status f = FindingSuppressed \<and> \<not> hasActiveException s f now
                       then f\<lparr>f_status := FindingOpen, f_updatedAt := now\<rparr> else f) (gget (st_findings s) i))"
proof -
  have ok: "store_ok s" using assms(1) by (rule reachable_ok)
  have s': "s' = expireExceptionsLocked now s" using assms(2) by (simp add: ListFindings_def Let_def)
  have ok': "store_ok s'" unfolding s' by (rule expireExceptionsLocked_ok [OF ok])
  have cover: "\<exists>j x. gget (st_exceptions s') j = Some x \<and> activeException now f x"
    if "gget (st_findings s') i = Some f" "f_status f = FindingSuppressed" for i f
  proof -
    have "hasActiveException s f now"
      using that expired_findings [OF ok, of now i] unfolding s'
      by (auto split: if_splits dest: reopen_changes)
    then have "hasActiveException s' f now" unfolding s' by (simp add: hasActive_expire [OF ok])
    then show ?thesis by (simp add: hasActive_iff [OF ok'])
  qed
  have unexpired: "x_expiresAt x > now" if "gget (st_exceptions s') j = Some x" "x_status x = ''active''" for j x
    using that expired_exceptions [OF ok, of now j] unfolding s'
    by (auto simp: exceptionLapsed_def split: if_splits dest: expiry_changes)
  have sweep: "gget (st_findings s') i =
       map_option (\<lambda>f. if f_status f = FindingSuppressed \<and> \<not> hasActiveException s f now
                       then f\<lparr>f_status := FindingOpen, f_updatedAt := now\<rparr> else f) (gget (st_findings s) i)" for i
    using expired_findings [OF ok, of now i] unfolding s' reopenFinding_def .
  show ?thesis
    by (intro conjI allI impI; (elim conjE)?)
      (use cover [unfolded activeException_def] unexpired sweep in blast)+
qed

text \<open>
  An exception is accepted only from a named actor, with a scope and a reason and for at most
  365 days; it then suppresses exactly the findings it covers, and deleting it reopens exactly
  the suppressed findings it covered that no other active exception covers.
\<close>

theorem exception_lifecycle:
  assumes "reachable s" "CreateException None now x0 actor s = (Inr x, s')"
  shows "actor \<noteq> '''' \<and> \<not> blank (x_scope x) \<and> \<not> blank (x_reason x) \<and>
    now < x_expiresAt x \<and> x_expiresAt x \<le> now + 365 * 24 * hour \<and> x_owner x = actor \<and>
    gget (st_exceptions s') (x_id x) = Some x \<and>
    (\<forall>i f. gget (st_findings s) i = Some f \<longrightarrow> gget (st_findings s') i =
       Some (if exceptionMatches x f then f\<lparr>f_status := FindingSuppressed, f_updatedAt := now\<rparr> else f)) \<and>
    (let s'' = snd (DeleteException None later (x_id x) actor s') in
       gget (st_exceptions s'') (x_id x) = None \<and>
       (\<forall>i f. gget (st_findings s') i = Some f \<longrightarrow> gget (st_findings s'') i =
          Some (if f_status f = FindingSuppressed \<and> exceptionMatches x f \<and> \<not> hasActiveException s'' f later
                then f\<lparr>f_status := FindingOpen, f_updatedAt := later\<rparr> else f)))"
proof -
  have ok: "store_ok s" using assms(1) by (rule reachable_ok)
  from assms(2) have x: "actor \<noteq> []" "\<not> blank (x_scope x)" "\<not> blank (x_reason x)" "now < x_expiresAt x"
      "x_expiresAt x \<le> now + 365 * 24 * hour" "x_owner x = actor"
    and s': "st_exceptions s' = gput (x_id x) x (st_exceptions s)"
      "st_findings s' = gmap_vals (\<lambda>_ f. if exceptionMatches x f
         then f\<lparr>f_status := FindingSuppressed, f_updatedAt := now\<rparr> else f) (st_findings s)"
    by (auto simp: CreateException_def suppressMatching_def Let_def not_less split: if_splits)
  have active: "hasActiveException (appendAudit a b c d e t) f later = hasActiveException t f later"
    "hasActiveException (t\<lparr>st_findings := m\<rparr>) f later = hasActiveException t f later" for a b c d e t m f
    by (simp_all add: hasActiveException_def)
  have x': "gget (st_exceptions s') (x_id x) = Some x" using s'(1) by simp
  have del: "let s'' = snd (DeleteException None later (x_id x) actor s') in
      gget (st_exceptions s'') (x_id x) = None \<and>
      (\<forall>i f. gget (st_findings s') i = Some f \<longrightarrow> gget (st_findings s'') i =
        Some (if f_status f = FindingSuppressed \<and> exceptionMatches x f \<and> \<not> hasActiveException s'' f later
              then f\<lparr>f_status := FindingOpen, f_updatedAt := later\<rparr> else f))"
    by (simp add: DeleteException_def Let_def x' active reopenFinding_def)
  have sup: "gget (st_findings s') i =
      Some (if exceptionMatches x f then f\<lparr>f_status := FindingSuppressed, f_updatedAt := now\<rparr> else f)"
    if "gget (st_findings s) i = Some f" for i f
    using that by (simp add: s'(2))
  show ?thesis using x x' sup del by blast
qed


subsection \<open>Expiry of evidence\<close>

lemma fold_expire_findings:
  assumes "wf_gomap xs"
  shows "gget (st_findings (fold (expireOneFinding now before) xs s)) i =
     (case gget xs i of
        Some f \<Rightarrow> if findingStale before f
                  then Some (f\<lparr>f_status := FindingExpired, f_remediationState := ''evidence_expired'', f_updatedAt := now\<rparr>)
                  else gget (st_findings s) i
      | None \<Rightarrow> gget (st_findings s) i)"
  using assms
proof (induction xs arbitrary: s)
  case (Cons e xs)
  obtain j x where e: "e = (j, x)" by force
  with Cons.prems have "gget xs j = None" and wf: "wf_gomap xs"
    by (auto simp: wf_gomap_def map_of_eq_None_iff)
  with Cons.IH [OF wf, of "expireOneFinding now before e s"] show ?case
    by (auto simp: e expireOneFinding_def split: option.splits)
qed simp

lemma expired_evidence:
  assumes "store_ok s"
  shows "gget (st_findings (snd (ExpireFindings None now before s))) i =
    map_option (\<lambda>f. if findingStale before f
       then f\<lparr>f_status := FindingExpired, f_remediationState := ''evidence_expired'', f_updatedAt := now\<rparr> else f)
     (gget (st_findings s) i)"
proof -
  have "wf_gomap (st_findings s)" using store_okD(1) [OF assms] by (simp add: keyed_def)
  from fold_expire_findings [OF this, of now before s i] show ?thesis
    by (auto simp: ExpireFindings_def split: option.splits)
qed

lemma active_merge:
  "list_ex (\<lambda>(_, x). activeException now (mergeExisting f g) x) xs = list_ex (\<lambda>(_, x). activeException now g x) xs"
  by (auto simp: list_ex_iff mergeExisting_def Let_def activeException_def exceptionMatches_def split: if_splits)

lemma activeException_suppress [simp]:
  "activeException now (f\<lparr>f_status := st\<rparr>) x = activeException now f x"
  by (simp add: activeException_def exceptionMatches_def)

lemma fold_suppress:
  "fold (\<lambda>(_, x) f. if activeException now f x then f\<lparr>f_status := FindingSuppressed\<rparr> else f) xs f =
     (if list_ex (\<lambda>(_, x). activeException now f x) xs then f\<lparr>f_status := FindingSuppressed\<rparr> else f)"
proof (induction xs arbitrary: f)
  case (Cons e xs)
  then show ?case by (cases e) auto
qed simp

text \<open>
  Stale evidence expires, and only that: the sweep turns exactly the open and in-review
  findings whose newest evidence is known and older than the limit into expired ones; every
  other finding is untouched, a second sweep with the same limit finds nothing more, and fresh
  scanner evidence, synchronised as an open finding, reopens an expired one unless an active
  exception covers it.
\<close>

theorem evidence_expiry:
  assumes "reachable s" "s' = snd (ExpireFindings None now before s)"
  shows "(\<forall>i f. gget (st_findings s) i = Some f \<longrightarrow> gget (st_findings s') i =
       Some (if f_status f \<in> {FindingOpen, FindingInReview} \<and> LastObservedAt f \<noteq> 0 \<and> LastObservedAt f < before
             then f\<lparr>f_status := FindingExpired, f_remediationState := ''evidence_expired'', f_updatedAt := now\<rparr>
             else f)) \<and>
    (\<forall>i. gget (st_findings (snd (ExpireFindings None later before s'))) i = gget (st_findings s') i) \<and>
    (\<forall>i f g. gget (st_findings s') i = Some f \<and> f_status f = FindingExpired \<and> f_id g = i \<and>
        f_status g = FindingOpen \<longrightarrow>
       (\<exists>h. gget (st_findings (snd (SyncFinding None later g s'))) i = Some h \<and>
            f_status h = (if hasActiveException s' g later then FindingSuppressed else FindingOpen)))"
proof -
  have ok: "store_ok s" using assms(1) by (rule reachable_ok)
  have ok': "store_ok s'" unfolding assms(2) by (rule ExpireFindings_ok [OF ok])
  have stale: "findingStale before f \<longleftrightarrow>
      f_status f \<in> {FindingOpen, FindingInReview} \<and> LastObservedAt f \<noteq> 0 \<and> LastObservedAt f < before" for f
    by (auto simp: findingStale_def isZero_def)
  have again: "gget (st_findings (snd (ExpireFindings None later before s'))) i = gget (st_findings s') i" for i
    unfolding expired_evidence [OF ok'] unfolding assms(2) expired_evidence [OF ok]
    by (cases "gget (st_findings s) i") (auto simp: stale)
  have sync: "\<exists>h. gget (st_findings (snd (SyncFinding None later g s'))) i = Some h \<and>
      f_status h = (if hasActiveException s' g later then FindingSuppressed else FindingOpen)"
    if "gget (st_findings s') i = Some f" "f_status f = FindingExpired" "f_id g = i" "f_status g = FindingOpen" for i f g
  proof -
    have "f_status (mergeExisting f g) = FindingOpen" "f_id (mergeExisting f g) = i"
      using that by (simp_all add: mergeExisting_def Let_def)
    then show ?thesis
      using that(1,3) by (simp add: SyncFinding_def Let_def fold_suppress active_merge hasActiveException_def)
  qed
  have exact: "gget (st_findings s') i =
       Some (if f_status f \<in> {FindingOpen, FindingInReview} \<and> LastObservedAt f \<noteq> 0 \<and> LastObservedAt f < before
             then f\<lparr>f_status := FindingExpired, f_remediationState := ''evidence_expired'', f_updatedAt := now\<rparr>
             else f)" if "gget (st_findings s) i = Some f" for i f
    using that unfolding assms(2) expired_evidence [OF ok] stale by simp
  show ?thesis by (intro conjI allI impI) (use exact again sync in blast)+
qed

subsection \<open>Synchronisation and manual changes\<close>

text \<open>
  Synchronising a finding keeps what people and controllers did with it: re-observing a
  finding as open keeps a review, a suppression, a running remediation or a resolution together
  with its remediation state unless an active exception suppresses it, its creation time never
  moves later, its evidence is the new one, and no other finding changes.
\<close>

theorem sync_keeps_lifecycle:
  assumes "gget (st_findings s) (f_id g) = Some f"
    and "f_status f \<in> {FindingInReview, FindingSuppressed, FindingRemediating, FindingResolved}"
    and "f_status g = FindingOpen"
  shows "let s' = snd (SyncFinding None now g s) in
    (\<exists>h. gget (st_findings s') (f_id g) = Some h \<and>
       f_status h = (if hasActiveException s g now then FindingSuppressed else f_status f) \<and>
       f_remediationState h = f_remediationState f \<and> f_evidence h = f_evidence g \<and>
       f_riskScore h = f_riskScore g \<and>
       (f_createdAt f = 0 \<or> f_createdAt h \<le> f_createdAt f)) \<and>
    (\<forall>i. i \<noteq> f_id g \<longrightarrow> gget (st_findings s') i = gget (st_findings s) i) \<and>
    st_plans s' = st_plans s \<and> st_auditEvents s' = st_auditEvents s"
proof -
  let ?m = "mergeExisting f g"
  have m: "f_id ?m = f_id g" "f_status ?m = f_status f" "f_remediationState ?m = f_remediationState f"
    "f_evidence ?m = f_evidence g" "f_riskScore ?m = f_riskScore g"
    "f_createdAt f = 0 \<or> f_createdAt ?m \<le> f_createdAt f"
    using assms(2,3) by (auto simp: mergeExisting_def Let_def isZero_def)
  show ?thesis
    using m assms(1) by (simp add: SyncFinding_def Let_def fold_suppress active_merge hasActiveException_def)
qed

text \<open>
  Manual status changes are limited: one succeeds exactly when a named actor gives a reason
  for moving an existing finding, that no controller is remediating or has resolved, to open or
  in review; it sets just that status and is audited with the actor and the reason.
\<close>

theorem manual_status_change:
  "(case UpdateFindingStatus None now i status actor reason s of
      (Inr g, s') \<Rightarrow>
        actor \<noteq> '''' \<and> \<not> blank reason \<and> status \<in> {FindingOpen, FindingInReview} \<and>
        (\<exists>f. gget (st_findings s) i = Some f \<and> f_status f \<notin> {FindingResolved, FindingRemediating} \<and>
             g = f\<lparr>f_status := status, f_updatedAt := now\<rparr>) \<and>
        gget (st_findings s') i = Some g \<and>
        (let e = last (st_auditEvents s') in ae_actor e = actor \<and> ae_message e = reason \<and> ae_subject e = i)
    | (Inl e, s') \<Rightarrow>
        s' = s \<and>
        \<not> (actor \<noteq> '''' \<and> \<not> blank reason \<and> status \<in> {FindingOpen, FindingInReview} \<and>
           (\<exists>f. gget (st_findings s) i = Some f \<and> f_status f \<notin> {FindingResolved, FindingRemediating})))"
  by (auto simp: UpdateFindingStatus_def Let_def appendAudit_def split: option.splits)

subsection \<open>Listings and evidence bundles\<close>

interpretation risk_order: slice_order byRisk
  by unfold_locales (auto simp: byRisk_def split: if_splits)

text \<open>
  The listing of findings is exact and ordered: it contains every stored finding that matches
  the filter, as often as it is stored, and no other one, the riskiest first and the most
  recently updated first among equals.
\<close>

theorem listing_exact:
  "\<exists>fs. fst (ListFindings None now filt s) = Inr fs \<and>
     mset fs = filter_mset (matchesFilter filt) (mset (map snd (st_findings (expireExceptionsLocked now s)))) \<and>
     sorted_wrt (\<lambda>a b. f_riskScore a > f_riskScore b \<or>
       (f_riskScore a = f_riskScore b \<and> f_updatedAt a \<ge> f_updatedAt b)) fs"
proof -
  let ?fs = "filter (matchesFilter filt) (map snd (st_findings (expireExceptionsLocked now s)))"
  have "sorted_wrt (\<lambda>a b. \<not> byRisk b a) (sortSlice byRisk ?fs)" by (rule risk_order.ordered_sortSlice)
  then have "sorted_wrt (\<lambda>a b. f_riskScore a > f_riskScore b \<or>
       (f_riskScore a = f_riskScore b \<and> f_updatedAt a \<ge> f_updatedAt b)) (sortSlice byRisk ?fs)"
    by (rule sorted_wrt_mono_rel [rotated]) (auto simp: byRisk_def split: if_splits)
  then show ?thesis by (simp add: ListFindings_def Let_def)
qed

lemma has_iff:
  "hasFinding fs i \<longleftrightarrow> i \<in> f_id ` set fs" "hasPlan ps i \<longleftrightarrow> i \<in> p_id ` set ps" "hasRun rs i \<longleftrightarrow> i \<in> r_id ` set rs"
  by (auto simp: hasFinding_def hasPlan_def hasRun_def list_ex_iff)

lemma bundle_plans: "set (eb_plans (bundleFor now scope s)) = {p \<in> snd ` set (st_plans s).
   scope = ''all'' \<or> scope = p_id p \<or> scope = p_findingID p \<or> p_findingID p \<in> f_id ` set (eb_findings (bundleFor now scope s))}"
  by (auto simp: bundleFor_def Let_def has_iff)

lemma bundle_runs: "set (eb_runs (bundleFor now scope s)) = {r \<in> snd ` set (st_runs s).
   scope = ''all'' \<or> scope = r_id r \<or> scope = r_planID r \<or> r_planID r \<in> p_id ` set (eb_plans (bundleFor now scope s))}"
  by (simp add: bundleFor_def Let_def has_iff)

lemma bundle_events: "set (eb_auditEvents (bundleFor now scope s)) = {e \<in> set (st_auditEvents s).
   scope = ''all'' \<or> ae_subject e = scope \<or> ae_subject e \<in> p_id ` set (eb_plans (bundleFor now scope s)) \<or>
   ae_subject e \<in> r_id ` set (eb_runs (bundleFor now scope s))}"
  by (simp add: bundleFor_def Let_def has_iff)

lemma bundle_findings:
  "set (eb_findings (bundleFor now scope s)) = {f \<in> snd ` set (st_findings s). scopeMatchesFinding scope f}"
  by (auto simp: bundleFor_def Let_def)

lemma bundle_summary:
  "eb_summary (bundleFor now scope s) =
     [(''findings'', int (length (eb_findings (bundleFor now scope s)))), (''plans'', int (length (eb_plans (bundleFor now scope s)))),
      (''runs'', int (length (eb_runs (bundleFor now scope s)))), (''chaosRuns'', int (length (eb_chaosRuns (bundleFor now scope s)))),
      (''auditEvents'', int (length (eb_auditEvents (bundleFor now scope s))))]"
  by (simp only: bundleFor_def Let_def evidence_bundle.simps length_sortSlice)

text \<open>
  An evidence bundle is closed under the workflow: it holds every stored plan for one of its
  findings, every run of one of its plans and every audit event about one of its plans or runs;
  everything in it is stored, its summary counts its parts, and only an empty bundle for a
  specific scope is reported as not found.
\<close>

theorem evidence_bundle_closed:
  "(case EvidenceBundle None now scope s of
      Inr b \<Rightarrow>
        set (eb_findings b) \<subseteq> snd ` set (st_findings s) \<and> set (eb_plans b) \<subseteq> snd ` set (st_plans s) \<and>
        set (eb_runs b) \<subseteq> snd ` set (st_runs s) \<and> set (eb_auditEvents b) \<subseteq> set (st_auditEvents s) \<and>
        {p \<in> snd ` set (st_plans s). p_findingID p \<in> f_id ` set (eb_findings b)} \<subseteq> set (eb_plans b) \<and>
        {r \<in> snd ` set (st_runs s). r_planID r \<in> p_id ` set (eb_plans b)} \<subseteq> set (eb_runs b) \<and>
        {e \<in> set (st_auditEvents s). ae_subject e \<in> p_id ` set (eb_plans b) \<union> r_id ` set (eb_runs b)}
          \<subseteq> set (eb_auditEvents b) \<and>
        eb_summary b = [(''findings'', int (length (eb_findings b))), (''plans'', int (length (eb_plans b))),
          (''runs'', int (length (eb_runs b))), (''chaosRuns'', int (length (eb_chaosRuns b))),
          (''auditEvents'', int (length (eb_auditEvents b)))]
    | Inl e \<Rightarrow> e = ErrNotFound \<and> scope \<notin> {'''', ''all''} \<and>
        \<not> list_ex (\<lambda>(_, f). scopeMatchesFinding scope f) (st_findings s))"
proof -
  define sc where "sc = (if scope = [] then ''all'' else scope)"
  let ?b = "bundleFor now sc s"
  have eq: "EvidenceBundle None now scope s =
     (if eb_findings ?b = [] \<and> eb_plans ?b = [] \<and> eb_runs ?b = [] \<and> eb_chaosRuns ?b = [] \<and>
         eb_auditEvents ?b = [] \<and> sc \<noteq> ''all'' then Inl ErrNotFound else Inr ?b)"
    by (simp add: EvidenceBundle_def Let_def sc_def)
  have err: "scope \<notin> {'''', ''all''} \<and> \<not> list_ex (\<lambda>(_, f). scopeMatchesFinding scope f) (st_findings s)"
    if "eb_findings ?b = []" "sc \<noteq> ''all''"
  proof -
    have sc: "sc = scope" "scope \<notin> {'''', ''all''}" using that(2) by (auto simp: sc_def split: if_splits)
    moreover have "set (eb_findings ?b) = {}" using that(1) by simp
    ultimately show ?thesis unfolding bundle_findings by (auto simp: list_ex_iff)
  qed
  have sub: "set (eb_findings ?b) \<subseteq> snd ` set (st_findings s)" "set (eb_plans ?b) \<subseteq> snd ` set (st_plans s)"
    "set (eb_runs ?b) \<subseteq> snd ` set (st_runs s)" "set (eb_auditEvents ?b) \<subseteq> set (st_auditEvents s)"
    unfolding bundle_findings bundle_plans bundle_runs bundle_events by blast+
  have plans: "{p \<in> snd ` set (st_plans s). p_findingID p \<in> f_id ` set (eb_findings ?b)} \<subseteq> set (eb_plans ?b)"
    unfolding bundle_plans by blast
  have runs: "{r \<in> snd ` set (st_runs s). r_planID r \<in> p_id ` set (eb_plans ?b)} \<subseteq> set (eb_runs ?b)"
    unfolding bundle_runs by blast
  have events: "{e \<in> set (st_auditEvents s). ae_subject e \<in> p_id ` set (eb_plans ?b) \<union> r_id ` set (eb_runs ?b)}
      \<subseteq> set (eb_auditEvents ?b)"
    unfolding bundle_events by blast
  show ?thesis unfolding eq
    using err sub plans runs events bundle_summary [of now sc s] by (simp split: if_splits)
qed

subsection \<open>The theorems at concrete inputs\<close>

definition sample_exception :: exception_rec where
  "sample_exception = \<lparr>x_id = '''', x_scope = ''source:native'', x_owner = '''', x_reason = ''accepted'',
     x_expiresAt = 500, x_auditMetadata = '''', x_status = '''', x_createdAt = 0, x_updatedAt = 0\<rparr>"

definition sample_found :: store where
  "sample_found = NewMemoryStore [WithFindings [sample_finding ''Pod'' ''x''], WithIntegrations []]"

lemma sample_found_reachable: "reachable sample_found"
  unfolding sample_found_def by (rule reachable.start)

lemma sample_found_finding: "gget (st_findings sample_found) ''f1'' = Some (sample_finding ''Pod'' ''x'')"
  "st_exceptions sample_found = []"
  by (simp_all add: sample_found_def NewMemoryStore_def WithFindings_def WithIntegrations_def emptyStore_def
    sample_finding_def)

definition sample_filter :: finding_filter where
  "sample_filter = \<lparr>ff_severity = '''', ff_status = '''', ff_source = '''', ff_query = '''', ff_namespace = '''',
     ff_kind = '''', ff_fixability = '''', ff_minRisk = 0\<rparr>"

lemma sample_excepted: "\<exists>x s'. CreateException None 100 sample_exception ''bob'' sample_found = (Inr x, s')"
  by (simp add: CreateException_def sample_exception_def Let_def hour_def minute_def second_def trimSpace_def
    stripRight_def stripLeft.simps spaceEncodings_def hasPrefix_def)

definition sample_suppressed :: store where
  "sample_suppressed = snd (CreateException None 100 sample_exception ''bob'' sample_found)"

theorem suppression_covered_witness:
  "filter (\<lambda>(_, x). x_status x = ''active'' \<and> x_expiresAt x \<le> 900)
     (st_exceptions (snd (ListFindings None 900 sample_filter sample_suppressed))) = []"
proof -
  let ?s = "snd (ListFindings None 900 sample_filter sample_suppressed)"
  have reach: "reachable sample_suppressed"
    unfolding sample_suppressed_def by (rule reachable.step [OF sample_found_reachable store_step.create_exception])
  have ok: "store_ok ?s" by (intro reachable_ok reachable.step [OF reach] store_step.list_findings)
  show ?thesis
    using suppression_covered [OF reach refl, of 900 sample_filter] keyed_entry [OF store_okD(6) [OF ok]]
    by (fastforce simp: filter_empty_conv)
qed

theorem exception_lifecycle_witness:
  "\<exists>x. CreateException None 100 sample_exception ''bob'' sample_found = (Inr x, sample_suppressed) \<and>
     x_owner x = ''bob'' \<and> gget (st_exceptions sample_suppressed) (x_id x) = Some x"
proof -
  from sample_excepted obtain x where
    x: "CreateException None 100 sample_exception ''bob'' sample_found = (Inr x, sample_suppressed)"
    by (auto simp: sample_suppressed_def)
  from exception_lifecycle [OF sample_found_reachable this, of 200] x show ?thesis by blast
qed

theorem evidence_expiry_witness:
  "\<exists>f. gget (st_findings (snd (ExpireFindings None 700 600 sample_found))) ''f1'' = Some f \<and> f_status f = FindingExpired"
proof -
  have "LastObservedAt (sample_finding ''Pod'' ''x'') = 1" "f_status (sample_finding ''Pod'' ''x'') = FindingOpen"
    by (simp_all add: LastObservedAt_def sample_finding_def isZero_def)
  with evidence_expiry [OF sample_found_reachable refl, of 700 600 800] sample_found_finding(1) show ?thesis
    by simp
qed

theorem sync_keeps_lifecycle_witness:
  "\<exists>h. gget (st_findings (snd (SyncFinding None 50 (sample_finding ''Pod'' ''new'')
       (emptyStore\<lparr>st_findings := [(''f1'', (sample_finding ''Pod'' ''x'')\<lparr>f_status := FindingResolved\<rparr>)]\<rparr>)))) ''f1'' = Some h \<and>
     f_status h = FindingResolved"
  using sync_keeps_lifecycle [of "emptyStore\<lparr>st_findings := [(''f1'', (sample_finding ''Pod'' ''x'')\<lparr>f_status := FindingResolved\<rparr>)]\<rparr>"
      "sample_finding ''Pod'' ''new''" "(sample_finding ''Pod'' ''x'')\<lparr>f_status := FindingResolved\<rparr>" 50]
  by (auto simp: sample_finding_def emptyStore_def hasActiveException_def Let_def)

end
