(* ===== verification/GoDuration.thy ===== *)
theory GoDuration
  imports Go_Prelude Json
begin

text \<open>
  \<open>time.ParseDuration\<close> of the Go standard library, with its overflow checks and its
  floating-point treatment of fractions, and \<open>strconv.Quote\<close> for error texts.
\<close>

text \<open>
  The binary64 value nearest to the positive ratio \<open>num / den\<close>, as a mantissa and an exponent of
  two; the ratios below are far from the ends of the exponent range.
\<close>

definition nearest53 :: "int \<Rightarrow> int \<Rightarrow> int \<times> int" where
  "nearest53 num den =
     (let q0 = bitLen num - bitLen den - 53;
          q = (if num * pow2 (max 0 (- q0)) \<ge> 2 ^ 53 * (den * pow2 (max 0 q0)) then q0 + 1 else q0);
          m = roundHalfEven (num * pow2 (max 0 (- q))) (den * pow2 (max 0 q))
      in if m = 2 ^ 53 then (2 ^ 52, q + 1) else (m, q))"

text \<open>\<open>uint64(float64(f) * (float64(unit) / scale))\<close>, where \<open>scale\<close> is a power of ten.\<close>

definition fractionOf :: "int \<Rightarrow> int \<Rightarrow> int \<Rightarrow> int" where
  "fractionOf f unit scale =
     (let (m1, q1) = nearest53 f 1; (m2, q2) = nearest53 unit scale;
          (m, q) = nearest53 (m1 * m2 * pow2 (max 0 (q1 + q2))) (pow2 (max 0 (- (q1 + q2))))
      in (m * pow2 (max 0 q)) div pow2 (max 0 (- q)))"

fun leadingInt :: "int \<Rightarrow> string \<Rightarrow> (int \<times> string) option" where
  "leadingInt x [] = Some (x, [])"
| "leadingInt x (c # s) =
     (if \<not> isDigit c then Some (x, c # s)
      else if x > 2 ^ 63 div 10 then None
      else let y = x * 10 + (of_char c - 48) in if y > 2 ^ 63 then None else leadingInt y s)"

fun leadingFraction :: "int \<Rightarrow> int \<Rightarrow> bool \<Rightarrow> string \<Rightarrow> int \<times> int \<times> string" where
  "leadingFraction x scale overflow [] = (x, scale, [])"
| "leadingFraction x scale overflow (c # s) =
     (if \<not> isDigit c then (x, scale, c # s)
      else if overflow then leadingFraction x scale True s
      else if x > (2 ^ 63 - 1) div 10 then leadingFraction x scale True s
      else let y = x * 10 + (of_char c - 48)
           in if y > 2 ^ 63 then leadingFraction x scale True s else leadingFraction y (scale * 10) False s)"

definition unitMap :: "(string \<times> duration) list" where
  "unitMap =
     [(''ns'', 1), (''us'', 1000), ([CHR 0xC2, CHR 0xB5, CHR ''s''], 1000), ([CHR 0xCE, CHR 0xBC, CHR ''s''], 1000),
      (''ms'', millisecond), (''s'', second), (''m'', minute), (''h'', hour)]"

definition numberStart :: "char \<Rightarrow> bool" where
  "numberStart c \<longleftrightarrow> c = CHR ''.'' \<or> isDigit c"

text \<open>One number with its unit: the value and the rest of the text.\<close>

definition durationTerm :: "string \<Rightarrow> (int \<times> string) option" where
  "durationTerm s =
     (if s = [] \<or> \<not> numberStart (hd s) then None
      else
        (case leadingInt 0 s of
           None \<Rightarrow> None
         | Some (v, s1) \<Rightarrow>
             (let pre = (length s1 \<noteq> length s);
                  (f, scale, s2) = (if take 1 s1 = ''.'' then leadingFraction 0 1 False (drop 1 s1) else (0, 1, s1));
                  post = (take 1 s1 = ''.'' \<and> length s2 \<noteq> length (drop 1 s1));
                  u = takeWhile (\<lambda>c. \<not> numberStart c) s2
              in if \<not> pre \<and> \<not> post then None
                 else if u = [] then None
                 else
                   (case map_of unitMap u of
                      None \<Rightarrow> None
                    | Some unit \<Rightarrow>
                        if v > 2 ^ 63 div unit then None
                        else
                          (let v1 = v * unit; v2 = (if f > 0 then v1 + fractionOf f unit scale else v1)
                           in if v2 > 2 ^ 63 then None else Some (v2, drop (length u) s2))))))"

lemma leadingInt_shorter: "leadingInt x s = Some (v, r) \<Longrightarrow> length r \<le> length s"
  by (induction x s rule: leadingInt.induct) (auto simp: Let_def split: if_splits)

lemma leadingFraction_shorter: "length (snd (snd (leadingFraction x scale ov s))) \<le> length s"
  by (induction s arbitrary: x scale ov) (simp_all add: Let_def le_SucI)

lemma durationTerm_shorter:
  assumes "durationTerm s = Some (v, r)"
  shows "length r < length s"
proof -
  from assms obtain w s1 where s1: "leadingInt 0 s = Some (w, s1)"
    by (auto simp: durationTerm_def split: if_splits option.splits)
  define s2 where "s2 = snd (snd (if take 1 s1 = ''.'' then leadingFraction 0 1 False (drop 1 s1) else (0, 1, s1)))"
  have "length s2 \<le> length s1"
  proof (cases "take 1 s1 = ''.''")
    case True
    then have "length s2 \<le> length (drop 1 s1)"
      unfolding s2_def True by (simp add: leadingFraction_shorter del: length_drop)
    then show ?thesis by simp
  qed (simp add: s2_def)
  moreover have "r = drop (length (takeWhile (\<lambda>c. \<not> numberStart c) s2)) s2"
    "takeWhile (\<lambda>c. \<not> numberStart c) s2 \<noteq> []"
    using assms s1 by (auto simp: durationTerm_def s2_def Let_def split: if_splits option.splits prod.splits)
  ultimately show ?thesis
    using leadingInt_shorter [OF s1] length_takeWhile_le [of "\<lambda>c. \<not> numberStart c" s2]
    by (cases s2) (auto simp: less_Suc_eq_le split: if_splits)
qed

function durationTerms :: "int \<Rightarrow> string \<Rightarrow> int option" where
  "durationTerms d s =
     (if s = [] then Some d
      else
        (case durationTerm s of
           None \<Rightarrow> None
         | Some (v, r) \<Rightarrow> if d + v > 2 ^ 63 then None else durationTerms (d + v) r))"
  by pat_completeness auto
termination
  by (relation "measure (\<lambda>(d, s). length s)") (auto dest: durationTerm_shorter)

declare durationTerms.simps [simp del]

definition parseDuration :: "string \<Rightarrow> duration option" where
  "parseDuration s =
     (let neg = (take 1 s = ''-'');
          t = (if take 1 s = ''-'' \<or> take 1 s = ''+'' then drop 1 s else s)
      in if t = ''0'' then Some 0
         else if t = '''' then None
         else
           (case durationTerms 0 t of
              None \<Rightarrow> None
            | Some d \<Rightarrow> if neg then Some (- d) else if d > 2 ^ 63 - 1 then None else Some d))"

text \<open>\<open>strconv.Quote\<close>; the bytes of a multi-byte rune are kept as they are.\<close>

definition quoteByte :: "char \<Rightarrow> string" where
  "quoteByte c =
     (if c = CHR 0x22 then [CHR 0x5C, CHR 0x22]
      else if c = CHR 0x5C then [CHR 0x5C, CHR 0x5C]
      else if c = CHR 0x07 then [CHR 0x5C, CHR ''a'']
      else if c = CHR 0x08 then [CHR 0x5C, CHR ''b'']
      else if c = CHR 0x0C then [CHR 0x5C, CHR ''f'']
      else if c = CHR 0x0A then [CHR 0x5C, CHR ''n'']
      else if c = CHR 0x0D then [CHR 0x5C, CHR ''r'']
      else if c = CHR 0x09 then [CHR 0x5C, CHR ''t'']
      else if c = CHR 0x0B then [CHR 0x5C, CHR ''v'']
      else if of_char c < (32 :: int) \<or> c = CHR 0x7F then [CHR 0x5C, CHR ''x''] @ hexEncode [c]
      else [c])"

definition quoteGo :: "string \<Rightarrow> string" where
  "quoteGo s = [CHR 0x22] @ concat (map quoteByte s) @ [CHR 0x22]"


end
