(* ===== verification/Kubernetes.thy ===== *)
theory Kubernetes
  imports Go_Prelude
begin

text \<open>
  What the components that talk to Kubernetes share: the errors of client calls that the code
  tells apart, and results that are threaded through a state the calls may change.
\<close>

datatype k8s_error = K8sNotFound string | K8sAlreadyExists string | K8sOther string

fun k8sText :: "k8s_error \<Rightarrow> string" where
  "k8sText (K8sNotFound t) = t"
| "k8sText (K8sAlreadyExists t) = t"
| "k8sText (K8sOther t) = t"

subsection \<open>Results threaded through a state\<close>

definition bindR :: "('e + 'a) \<times> 't \<Rightarrow> ('a \<Rightarrow> 't \<Rightarrow> ('e + 'b) \<times> 't) \<Rightarrow> ('e + 'b) \<times> 't" where
  "bindR p f = (case p of (Inl e, t) \<Rightarrow> (Inl e, t) | (Inr a, t) \<Rightarrow> f a t)"

lemma bindR_simps [simp]: "bindR (Inl e, t) f = (Inl e, t)" "bindR (Inr a, t) f = f a t"
  by (simp_all add: bindR_def)

lemma bindR_Inr: "bindR p f = (Inr b, t) \<longleftrightarrow> (\<exists>a u. p = (Inr a, u) \<and> f a u = (Inr b, t))"
  by (cases p; cases "fst p") (auto simp: bindR_def)

definition k8s :: "string \<Rightarrow> (k8s_error + 'a) \<times> 'w \<Rightarrow> (string + 'a) \<times> 'w" where
  "k8s prefix r = (case r of (Inl e, w) \<Rightarrow> (Inl (prefix @ k8sText e), w) | (Inr a, w) \<Rightarrow> (Inr a, w))"

end
