(* ===== verification/ChaosRunner.thy ===== *)
theory ChaosRunner
  imports Go_Prelude Json GoDuration Kubernetes CoreTypes
begin

text \<open>
  The chaos runner, \<open>services/api/internal/cluster/chaos.go\<close>: decoding and bounding of a chaos
  manifest, live target discovery, creation, observation, deletion and recovery checks.

  The Kubernetes client, the YAML decoder and the accessors of unstructured objects are not part
  of the repository. They are the fields of the argument \<open>env\<close>; an unstructured object is the JSON
  value it holds, and the cluster is a state \<open>'w\<close> of any type that every call may change, so
  that other actors may act between any two calls. An accessor that returns a value, a flag and
  an error is represented by what the code uses of the three. Context deadlines appear only as
  errors that the calls may return. Errors are their texts.
\<close>

type_synonym gvk = "string \<times> string \<times> string"

record 'w chaos_env =
  ce_decode :: "string \<Rightarrow> string + json"
  ce_apiVersion :: "json \<Rightarrow> string"
  ce_kind :: "json \<Rightarrow> string"
  ce_name :: "json \<Rightarrow> string"
  ce_namespace :: "json \<Rightarrow> string"
  ce_labels :: "json \<Rightarrow> (string, string) gomap"
  ce_setLabels :: "(string, string) gomap \<Rightarrow> json \<Rightarrow> json"
  ce_deleting :: "json \<Rightarrow> bool"
  ce_gvk :: "json \<Rightarrow> gvk"
  ce_gvkText :: "gvk \<Rightarrow> string"
  ce_gvText :: "string \<Rightarrow> string \<Rightarrow> string"
  ce_parseGV :: "string \<Rightarrow> string + string \<times> string"
  ce_nestedString :: "json \<Rightarrow> string list \<Rightarrow> string"
  ce_nestedStrings :: "json \<Rightarrow> string list \<Rightarrow> string list"
  ce_nestedStringMap :: "json \<Rightarrow> string list \<Rightarrow> (string, string) gomap"
  ce_nestedInt :: "json \<Rightarrow> string list \<Rightarrow> int option"
  ce_nestedFound :: "json \<Rightarrow> string list \<Rightarrow> bool"
  ce_nestedSlice :: "json \<Rightarrow> string list \<Rightarrow> string + json list"
  ce_create :: "bool \<Rightarrow> string \<Rightarrow> string \<Rightarrow> json \<Rightarrow> 'w \<Rightarrow> (k8s_error + json) \<times> 'w"
  ce_get :: "string \<Rightarrow> string \<Rightarrow> string \<Rightarrow> 'w \<Rightarrow> (k8s_error + json) \<times> 'w"
  ce_delete :: "string \<Rightarrow> string \<Rightarrow> string \<Rightarrow> 'w \<Rightarrow> k8s_error option \<times> 'w"
  ce_listPods :: "string \<Rightarrow> (string, string) gomap \<Rightarrow> int \<Rightarrow> 'w \<Rightarrow> (k8s_error + json list) \<times> 'w"
  ce_listOne :: "string \<Rightarrow> 'w \<Rightarrow> k8s_error option \<times> 'w"

record chaos_runner =
  cr_client :: bool
  cr_allowedNamespaces :: "string list"
  cr_serverSideDryRun :: bool

record chaos_observation =
  co_allInjected :: bool
  co_failed :: bool
  co_message :: string

definition allowedChaosResources :: "(gvk \<times> string) list" where
  "allowedChaosResources =
     [((''chaos-mesh.org'', ''v1alpha1'', ''NetworkChaos''), ''networkchaos''),
      ((''chaos-mesh.org'', ''v1alpha1'', ''StressChaos''), ''stresschaos''),
      ((''chaos-mesh.org'', ''v1alpha1'', ''DNSChaos''), ''dnschaos'')]"

definition protectedChaosNamespaces :: "string list" where
  "protectedChaosNamespaces = [''kube-system'', ''kube-public'', ''kube-node-lease'', ''kubeathrix-system'']"

definition maxChaosDuration :: duration where "maxChaosDuration = 5 * minute"
definition maxChaosTargetCandidates :: int where "maxChaosTargetCandidates = 20"

definition ownerLabel :: string where "ownerLabel = ''security.kubeathrix.io/chaos-run''"

definition namespaceAllowlist :: "string \<Rightarrow> string list" where
  "namespaceAllowlist value = remdups (filter (\<lambda>n. n \<noteq> '''') (map trimSpace (splitOn CHR '','' value)))"

definition NewChaosRunnerFromClient :: chaos_runner where
  "NewChaosRunnerFromClient = \<lparr>cr_client = True, cr_allowedNamespaces = [''default''], cr_serverSideDryRun = True\<rparr>"

definition NewChaosPreflightRunner :: "string \<Rightarrow> chaos_runner" where
  "NewChaosPreflightRunner allowlist =
     \<lparr>cr_client = False, cr_allowedNamespaces = namespaceAllowlist allowlist, cr_serverSideDryRun = False\<rparr>"

subsection \<open>Manifests\<close>

definition decodeChaosObject :: "'w chaos_env \<Rightarrow> string \<Rightarrow> string + json" where
  "decodeChaosObject env manifest =
     (case ce_decode env manifest of
        Inl e \<Rightarrow> Inl (''decode manifest: '' @ e)
      | Inr object \<Rightarrow>
          if ce_apiVersion env object = '''' \<or> ce_kind env object = '''' \<or> ce_name env object = ''''
          then Inl ''manifest must include apiVersion, kind, metadata.name''
          else Inr object)"

text \<open>\<open>strconv.Atoi\<close>\<close>

definition atoi :: "string \<Rightarrow> int option" where "atoi s = parseInt 64 s"

definition targetLabels :: "'w chaos_env \<Rightarrow> json \<Rightarrow> (string, string) gomap" where
  "targetLabels env object = ce_nestedStringMap env object [''spec'', ''selector'', ''labelSelectors'']"

definition plannedTargetCount :: "'w chaos_env \<Rightarrow> json \<Rightarrow> string + int" where
  "plannedTargetCount env object =
     (let mode = ce_nestedString env object [''spec'', ''mode''] in
      if mode = ''one'' then Inr 1
      else
        (case atoi (ce_nestedString env object [''spec'', ''value'']) of
           Some n \<Rightarrow>
             if mode \<noteq> ''fixed'' \<or> n < 1 \<or> n > 3 then Inl ''chaos target count is invalid'' else Inr n
         | None \<Rightarrow> Inl ''chaos target count is invalid''))"

definition validPart :: "string \<Rightarrow> bool" where
  "validPart part \<longleftrightarrow>
     \<not> (part = '''' \<or> length part > 63 \<or> hd part = CHR ''-'' \<or> last part = CHR ''-'') \<and>
     list_all (\<lambda>c. (CHR ''a'' \<le> c \<and> c \<le> CHR ''z'') \<or> isDigit c \<or> c = CHR ''-'') part"

definition validExactDNSName :: "string \<Rightarrow> bool" where
  "validExactDNSName value0 =
     (let value = trimSuffix (toLower (trimSpace value0)) ''.'' in
      if value = '''' \<or> length value > 253 \<or> list_ex (\<lambda>c. c \<in> set ''*?/'') value then False
      else
        let parts = splitOn CHR ''.'' value
        in if length parts < 2 then False else list_all validPart parts)"

definition networkBounds :: "'w chaos_env \<Rightarrow> json \<Rightarrow> string option" where
  "networkBounds env object =
     (let str = (\<lambda>path. ce_nestedString env object (''spec'' # path)) in
      if str [''action''] \<noteq> ''delay'' then Some ''NetworkChaos supports only the bounded delay action''
      else if str [''direction''] \<noteq> ''to''
      then Some ''NetworkChaos spec.direction must be to when secondary targets are disabled''
      else if ce_nestedFound env object [''spec'', ''target''] then Some ''NetworkChaos spec.target is not supported''
      else if ce_nestedStrings env object [''spec'', ''externalTargets''] \<noteq> []
      then Some ''NetworkChaos externalTargets are not supported''
      else if (case parseDuration (str [''delay'', ''latency'']) of
                 None \<Rightarrow> True | Some latency \<Rightarrow> latency \<le> 0 \<or> latency > 500 * millisecond)
      then Some ''NetworkChaos delay.latency must be greater than zero and at most 500ms''
      else if str [''delay'', ''jitter''] \<noteq> '''' \<and>
              (case parseDuration (str [''delay'', ''jitter'']) of
                 None \<Rightarrow> True | Some jitter \<Rightarrow> jitter < 0 \<or> jitter > 100 * millisecond)
      then Some ''NetworkChaos delay.jitter must be at most 100ms''
      else if str [''delay'', ''correlation''] \<noteq> '''' \<and>
              (case atoi (str [''delay'', ''correlation'']) of
                 None \<Rightarrow> True | Some correlation \<Rightarrow> correlation < 0 \<or> correlation > 100)
      then Some ''NetworkChaos delay.correlation must be between 0 and 100''
      else if ce_nestedFound env object [''spec'', ''delay'', ''reorder'']
      then Some ''NetworkChaos packet reordering is not supported''
      else None)"

definition stressBounds :: "'w chaos_env \<Rightarrow> json \<Rightarrow> string option" where
  "stressBounds env object =
     (if ce_nestedFound env object [''spec'', ''stressors'', ''memory'']
      then Some ''StressChaos memory pressure is not supported''
      else if ce_nestedInt env object [''spec'', ''stressors'', ''cpu'', ''workers''] \<noteq> Some 1
      then Some ''StressChaos cpu.workers must equal 1''
      else if (case ce_nestedInt env object [''spec'', ''stressors'', ''cpu'', ''load''] of
                 None \<Rightarrow> True | Some load \<Rightarrow> load < 1 \<or> load > 80)
      then Some ''StressChaos cpu.load must be between 1 and 80''
      else None)"

definition dnsBounds :: "'w chaos_env \<Rightarrow> json \<Rightarrow> string option" where
  "dnsBounds env object =
     (if ce_nestedString env object [''spec'', ''action''] \<noteq> ''error''
      then Some ''DNSChaos supports only the error action''
      else
        let patterns = ce_nestedStrings env object [''spec'', ''patterns'']
        in if length patterns = 0 \<or> length patterns > 5
           then Some ''DNSChaos requires between one and five exact DNS patterns''
           else forEachErr (\<lambda>pattern. if validExactDNSName pattern then None
             else Some (''DNSChaos pattern '' @ quoteGo pattern @ '' must be an exact DNS name without wildcards'')) patterns)"

definition validateChaosKindBounds :: "'w chaos_env \<Rightarrow> json \<Rightarrow> string option" where
  "validateChaosKindBounds env object =
     (let kind = ce_kind env object in
      if kind = ''NetworkChaos'' then networkBounds env object
      else if kind = ''StressChaos'' then stressBounds env object
      else if kind = ''DNSChaos'' then dnsBounds env object
      else Some (''chaos kind '' @ kind @ '' is not supported''))"

definition chaosDuration :: "'w chaos_env \<Rightarrow> json \<Rightarrow> duration option" where
  "chaosDuration env object = parseDuration (ce_nestedString env object [''spec'', ''duration''])"

definition checkMode :: "'w chaos_env \<Rightarrow> json \<Rightarrow> string option" where
  "checkMode env object =
     (let mode = ce_nestedString env object [''spec'', ''mode''] in
      if mode = ''one'' then None
      else if mode = ''fixed'' then
        (case atoi (ce_nestedString env object [''spec'', ''value'']) of
           None \<Rightarrow> Some ''fixed chaos mode requires spec.value between 1 and 3''
         | Some n \<Rightarrow>
             if n < 1 \<or> n > 3 then Some ''fixed chaos mode requires spec.value between 1 and 3'' else None)
      else Some ''spec.mode must be one or fixed'')"

definition validateTarget :: "chaos_runner \<Rightarrow> 'w chaos_env \<Rightarrow> json \<Rightarrow> string option" where
  "validateTarget r env object =
     (let ns = ce_namespace env object in
      if ns \<in> set protectedChaosNamespaces \<or> hasPrefix ns ''kube-''
      then Some (''namespace '' @ quoteGo ns @ '' is protected from chaos experiments'')
      else if ns \<notin> set (cr_allowedNamespaces r)
      then Some (''namespace '' @ quoteGo ns @ '' is not in KUBEATHRIX_CHAOS_NAMESPACE_ALLOWLIST'')
      else if ce_nestedStrings env object [''spec'', ''selector'', ''namespaces''] \<noteq> [ns]
      then Some ''spec.selector.namespaces must contain exactly metadata.namespace''
      else if targetLabels env object = []
      then Some ''spec.selector.labelSelectors must select an explicit workload''
      else
        (case checkMode env object of
           Some e \<Rightarrow> Some e
         | None \<Rightarrow>
             if (case chaosDuration env object of None \<Rightarrow> True | Some d \<Rightarrow> d \<le> 0 \<or> d > maxChaosDuration)
             then Some ''spec.duration must be greater than zero and at most 5m0s''
             else validateChaosKindBounds env object))"

subsection \<open>Targets\<close>

definition objectString :: "string \<Rightarrow> json \<Rightarrow> string" where
  "objectString key v =
     (case v of JObj ms \<Rightarrow> (case map_of (rev ms) key of Some (JStr s) \<Rightarrow> s | _ \<Rightarrow> '''') | _ \<Rightarrow> '''')"

definition isObject :: "json \<Rightarrow> bool" where "isObject v = (case v of JObj _ \<Rightarrow> True | _ \<Rightarrow> False)"

definition chaosTargetPodReady :: "'w chaos_env \<Rightarrow> json \<Rightarrow> bool" where
  "chaosTargetPodReady env pod =
     (if ce_deleting env pod then False
      else if ce_nestedString env pod [''status'', ''phase''] \<noteq> ''Running'' then False
      else list_ex (\<lambda>c. isObject c \<and> objectString ''type'' c = ''Ready'' \<and> objectString ''status'' c = ''True'')
        (case ce_nestedSlice env pod [''status'', ''conditions''] of Inr cs \<Rightarrow> cs | Inl _ \<Rightarrow> []))"

definition targetPods ::
    "chaos_runner \<Rightarrow> 'w chaos_env \<Rightarrow> string \<Rightarrow> (string, string) gomap \<Rightarrow> 'w \<Rightarrow> (string + json list) \<times> 'w" where
  "targetPods r env ns labels w =
     (if \<not> cr_client r then (Inl ''Kubernetes chaos client is unavailable'', w)
      else k8s '''' (ce_listPods env ns labels (maxChaosTargetCandidates + 1) w))"

definition validateLiveTargets ::
    "chaos_runner \<Rightarrow> 'w chaos_env \<Rightarrow> string \<Rightarrow> (string, string) gomap \<Rightarrow> int \<Rightarrow> 'w \<Rightarrow> (string + unit) \<times> 'w" where
  "validateLiveTargets r env ns labels required w =
     (case targetPods r env ns labels w of
        (Inl e, w1) \<Rightarrow> (Inl (''discover chaos targets: '' @ e), w1)
      | (Inr pods, w1) \<Rightarrow>
          if int (length pods) < required
          then (Inl (''target selector matched '' @ itoa (int (length pods)) @ '' pods but the experiment requires '' @ itoa required), w1)
          else if int (length pods) > maxChaosTargetCandidates
          then (Inl (''target selector matched '' @ itoa (int (length pods)) @ '' pods; maximum candidate set is '' @
                     itoa maxChaosTargetCandidates), w1)
          else
            (case find (\<lambda>pod. \<not> chaosTargetPodReady env pod) pods of
               Some pod \<Rightarrow> (Inl (''target pod '' @ ce_name env pod @ '' must be Running and Ready before chaos execution''), w1)
             | None \<Rightarrow> (Inr (), w1)))"

definition VerifyRecovery :: "chaos_runner \<Rightarrow> 'w chaos_env \<Rightarrow> chaos_run \<Rightarrow> 'w \<Rightarrow> (string + bool \<times> string) \<times> 'w" where
  "VerifyRecovery r env run w =
     bindR (targetPods r env (rr_namespace (c_resource run)) (c_targetSelector run) w) (\<lambda>pods w1.
       if int (length pods) < c_targetCount run
       then (Inr (False, ''only '' @ itoa (int (length pods)) @ '' matching pods are present; expected at least '' @
                         itoa (c_targetCount run)), w1)
       else
         (case find (\<lambda>pod. \<not> chaosTargetPodReady env pod) pods of
            Some pod \<Rightarrow> (Inr (False, ''pod '' @ ce_name env pod @ '' has not recovered to Running and Ready''), w1)
          | None \<Rightarrow> (Inr (True, itoa (int (length pods)) @ '' matching pods are Running and Ready after cleanup''), w1)))"

subsection \<open>Operations on the cluster\<close>

text \<open>
  The duration in whole seconds: \<open>int64(duration.Seconds())\<close>, where the floating-point value of a
  duration of at most five minutes is never rounded up to the next second.
\<close>

definition wholeSeconds :: "duration \<Rightarrow> int" where "wholeSeconds d = d div second"

definition unixNano :: "gotime \<Rightarrow> int" where "unixNano t = t - 62135596800 * second"

definition preflightMessage :: "string \<Rightarrow> 'w chaos_env \<Rightarrow> json \<Rightarrow> string" where
  "preflightMessage prefix env object =
     prefix @ snd (snd (ce_gvk env object)) @ ''/'' @ ce_name env object @ '' in namespace '' @
     ce_namespace env object @ ''; no chaos resource was created''"

definition preflightRun ::
    "'w chaos_env \<Rightarrow> gotime \<Rightarrow> string \<Rightarrow> string \<Rightarrow> json \<Rightarrow> int \<Rightarrow> string \<Rightarrow> chaos_run" where
  "preflightRun env now experimentID manifest object targets message =
     (let (grp, version, kind) = ce_gvk env object in
      \<lparr>c_id = ''chaos-run-'' @ itoa (unixNano now), c_experimentID = experimentID,
       c_status = ChaosPreflightValidated, c_message = message, c_manifest = manifest,
       c_resource = \<lparr>rr_apiVersion = ce_gvText env grp version, rr_kind = kind,
                     rr_namespace = ce_namespace env object, rr_name = ce_name env object\<rparr>,
       c_targetSelector = targetLabels env object, c_targetCount = targets,
       c_durationSeconds = (case chaosDuration env object of None \<Rightarrow> 0 | Some d \<Rightarrow> wholeSeconds d),
       c_requestedBy = '''', c_approvedBy = '''', c_approvalReason = '''', c_abortedBy = '''', c_failureReason = '''',
       c_recoveryStatus = '''', c_recoveryMessage = '''', c_attemptCount = 0, c_version = 0,
       c_createdAt = now, c_updatedAt = now, c_approvalExpiresAt = None, c_injectionDeadline = None,
       c_startedAt = None, c_finishedAt = None, c_cleanupDeadline = None, c_recoveryDeadline = None\<rparr>)"

definition Preflight ::
    "chaos_runner \<Rightarrow> 'w chaos_env \<Rightarrow> gotime \<Rightarrow> string \<Rightarrow> string \<Rightarrow> bool \<Rightarrow> 'w \<Rightarrow> (string + chaos_run) \<times> 'w" where
  "Preflight r env now experimentID manifest discoverTargets w =
     (case decodeChaosObject env manifest of
        Inl e \<Rightarrow> (Inl e, w)
      | Inr object \<Rightarrow>
          (case map_of allowedChaosResources (ce_gvk env object) of
             None \<Rightarrow> (Inl (''chaos kind '' @ ce_gvkText env (ce_gvk env object) @ '' is not allowlisted''), w)
           | Some gvr \<Rightarrow>
               if ce_namespace env object = '''' then (Inl ''chaos manifest must declare metadata.namespace'', w)
               else
                 (case validateTarget r env object of
                    Some e \<Rightarrow> (Inl e, w)
                  | None \<Rightarrow>
                      (case plannedTargetCount env object of
                         Inl e \<Rightarrow> (Inl e, w)
                       | Inr targets \<Rightarrow>
                           bindR (if \<not> discoverTargets then (Inr (), w)
                                  else if \<not> cr_client r then (Inl ''live target discovery is unavailable'', w)
                                  else validateLiveTargets r env (ce_namespace env object) (targetLabels env object) targets w)
                             (\<lambda>_ w1.
                               bindR (if cr_serverSideDryRun r \<and> cr_client r then
                                        bindR (k8s ''chaos server-side dry-run failed: ''
                                                 (ce_create env True gvr (ce_namespace env object) object w1))
                                          (\<lambda>_ w2. (Inr (preflightMessage ''server-side dry-run validated '' env object), w2))
                                      else (Inr (preflightMessage ''validated '' env object), w1))
                                 (\<lambda>message w2. (Inr (preflightRun env now experimentID manifest object targets message), w2)))))))"

definition RunPreflight :: "chaos_runner \<Rightarrow> 'w chaos_env \<Rightarrow> gotime \<Rightarrow> string \<Rightarrow> string \<Rightarrow> 'w \<Rightarrow> (string + chaos_run) \<times> 'w" where
  "RunPreflight r env now experimentID manifest w = Preflight r env now experimentID manifest False w"

fun discoverAll :: "'w chaos_env \<Rightarrow> string list \<Rightarrow> 'w \<Rightarrow> (string + unit) \<times> 'w" where
  "discoverAll env [] w = (Inr (), w)"
| "discoverAll env (gvr # gvrs) w =
     (case ce_listOne env gvr w of
        (Some e, w1) \<Rightarrow> (Inl (''discover '' @ gvr @ '': '' @ k8sText e), w1)
      | (None, w1) \<Rightarrow> discoverAll env gvrs w1)"

text \<open>The loop ranges over a Go map; \<open>order\<close> is the order of iteration the runtime picks.\<close>

definition RunnerHealth ::
    "chaos_runner \<Rightarrow> 'w chaos_env \<Rightarrow> (string list \<Rightarrow> string list) \<Rightarrow> 'w \<Rightarrow> (string + unit) \<times> 'w" where
  "RunnerHealth r env order w =
     (if \<not> cr_client r then (Inl ''Kubernetes chaos client is unavailable'', w)
      else discoverAll env (order (map snd allowedChaosResources)) w)"

definition ownedObject :: "'w chaos_env \<Rightarrow> chaos_run \<Rightarrow> json \<Rightarrow> json" where
  "ownedObject env run object =
     ce_setLabels env (gput ownerLabel (c_id run)
       (gput ''app.kubernetes.io/managed-by'' ''kubeathrix'' (ce_labels env object))) object"

text \<open>Creation of the owned object, or adoption of one that already carries the run's label.\<close>

definition createOwned :: "'w chaos_env \<Rightarrow> chaos_run \<Rightarrow> string \<Rightarrow> json \<Rightarrow> 'w \<Rightarrow> (string + unit) \<times> 'w" where
  "createOwned env run gvr object w =
     (case ce_create env False gvr (ce_namespace env object) (ownedObject env run object) w of
        (Inr created, w1) \<Rightarrow> (Inr (), w1)
      | (Inl (K8sAlreadyExists t), w1) \<Rightarrow>
          (case ce_get env gvr (ce_namespace env object) (ce_name env (ownedObject env run object)) w1 of
             (Inl e, w2) \<Rightarrow> (Inl (''create chaos resource: '' @ k8sText e), w2)
           | (Inr created, w2) \<Rightarrow>
               if gval (ce_labels env created) ownerLabel \<noteq> c_id run
               then (Inl (''chaos resource '' @ ce_namespace env (ownedObject env run object) @ ''/'' @
                          ce_name env (ownedObject env run object) @ '' already exists and is not owned by run '' @ c_id run), w2)
               else (Inr (), w2))
      | (Inl e, w1) \<Rightarrow> (Inl (''create chaos resource: '' @ k8sText e), w1))"

definition Start :: "chaos_runner \<Rightarrow> 'w chaos_env \<Rightarrow> chaos_run \<Rightarrow> 'w \<Rightarrow> (string + unit) \<times> 'w" where
  "Start r env run w =
     (case decodeChaosObject env (c_manifest run) of
        Inl e \<Rightarrow> (Inl e, w)
      | Inr object \<Rightarrow>
          (case map_of allowedChaosResources (ce_gvk env object) of
             None \<Rightarrow> (Inl (''chaos kind '' @ ce_gvkText env (ce_gvk env object) @ '' is not allowlisted''), w)
           | Some gvr \<Rightarrow>
               (case validateTarget r env object of
                  Some e \<Rightarrow> (Inl e, w)
                | None \<Rightarrow>
                    if ce_namespace env object \<noteq> rr_namespace (c_resource run) \<or>
                       ce_name env object \<noteq> rr_name (c_resource run) \<or> ce_kind env object \<noteq> rr_kind (c_resource run)
                    then (Inl ''persisted chaos resource identity does not match manifest'', w)
                    else
                      bindR (validateLiveTargets r env (rr_namespace (c_resource run)) (c_targetSelector run)
                               (c_targetCount run) w)
                        (\<lambda>_ w1.
                          bindR (if cr_serverSideDryRun r then
                                   bindR (k8s ''chaos server-side dry-run failed: ''
                                            (ce_create env True gvr (ce_namespace env object) object w1)) (\<lambda>_ w2. (Inr (), w2))
                                 else (Inr (), w1))
                            (\<lambda>_ w2. createOwned env run gvr object w2)))))"

definition resourceForRun :: "chaos_runner \<Rightarrow> 'w chaos_env \<Rightarrow> chaos_run \<Rightarrow> string + string" where
  "resourceForRun r env run =
     (if \<not> cr_client r then Inl ''Kubernetes chaos client is unavailable''
      else
        (case ce_parseGV env (rr_apiVersion (c_resource run)) of
           Inl e \<Rightarrow> Inl (''invalid chaos resource apiVersion: '' @ e)
         | Inr (grp, version) \<Rightarrow>
             (case map_of allowedChaosResources (grp, version, rr_kind (c_resource run)) of
                None \<Rightarrow> Inl (''chaos kind '' @ rr_apiVersion (c_resource run) @ ''/'' @ rr_kind (c_resource run) @
                             '' is not allowlisted'')
              | Some gvr \<Rightarrow> Inr gvr)))"

definition ownershipError :: "chaos_run \<Rightarrow> string" where
  "ownershipError run = ''chaos resource ownership label does not match run '' @ c_id run"

definition Exists :: "chaos_runner \<Rightarrow> 'w chaos_env \<Rightarrow> chaos_run \<Rightarrow> 'w \<Rightarrow> (string + bool) \<times> 'w" where
  "Exists r env run w =
     (case resourceForRun r env run of
        Inl e \<Rightarrow> (Inl e, w)
      | Inr gvr \<Rightarrow>
          (case ce_get env gvr (rr_namespace (c_resource run)) (rr_name (c_resource run)) w of
             (Inl (K8sNotFound t), w1) \<Rightarrow> (Inr False, w1)
           | (Inl e, w1) \<Rightarrow> (Inl (k8sText e), w1)
           | (Inr object, w1) \<Rightarrow>
               if gval (ce_labels env object) ownerLabel \<noteq> c_id run then (Inl (ownershipError run), w1)
               else (Inr True, w1)))"

fun observeConditions :: "json list \<Rightarrow> chaos_observation option" where
  "observeConditions [] = None"
| "observeConditions (c # cs) =
     (if \<not> isObject c \<or> objectString ''type'' c \<noteq> ''AllInjected'' then observeConditions cs
      else if objectString ''status'' c = ''True''
      then Some \<lparr>co_allInjected = True, co_failed = False, co_message = ''Chaos Mesh reported AllInjected=True''\<rparr>
      else if \<not> blank (objectString ''reason'' c)
      then Some \<lparr>co_allInjected = False, co_failed = False,
                 co_message = ''Chaos Mesh has not completed injection: '' @ objectString ''reason'' c\<rparr>
      else observeConditions cs)"

definition failedEvent :: "json \<Rightarrow> bool" where
  "failedEvent e \<longleftrightarrow> isObject e \<and> objectString ''type'' e = ''Failed'' \<and> objectString ''operation'' e = ''Apply''"

fun observeRecords :: "'w chaos_env \<Rightarrow> json list \<Rightarrow> chaos_observation option" where
  "observeRecords env [] = None"
| "observeRecords env (r # rs) =
     (if \<not> isObject r then observeRecords env rs
      else
        (case find failedEvent (rev (case ce_nestedSlice env r [''events''] of Inr es \<Rightarrow> es | Inl _ \<Rightarrow> [])) of
           Some e \<Rightarrow>
             Some \<lparr>co_allInjected = False, co_failed = True,
                   co_message = ''Chaos Mesh reported an injection failure: '' @ take 512 (trimSpace (objectString ''message'' e))\<rparr>
         | None \<Rightarrow> observeRecords env rs))"

definition Observe :: "chaos_runner \<Rightarrow> 'w chaos_env \<Rightarrow> chaos_run \<Rightarrow> 'w \<Rightarrow> (string + chaos_observation) \<times> 'w" where
  "Observe r env run w =
     (case resourceForRun r env run of
        Inl e \<Rightarrow> (Inl e, w)
      | Inr gvr \<Rightarrow>
          bindR (k8s '''' (ce_get env gvr (rr_namespace (c_resource run)) (rr_name (c_resource run)) w)) (\<lambda>object w1.
            if gval (ce_labels env object) ownerLabel \<noteq> c_id run then (Inl (ownershipError run), w1)
            else
              (case ce_nestedSlice env object [''status'', ''conditions''] of
                 Inl e \<Rightarrow> (Inl (''read chaos status conditions: '' @ e), w1)
               | Inr conditions \<Rightarrow>
                   (case observeConditions conditions of
                      Some obs \<Rightarrow> (Inr obs, w1)
                    | None \<Rightarrow>
                        (case ce_nestedSlice env object [''status'', ''experiment'', ''containerRecords''] of
                           Inl e \<Rightarrow> (Inl (''read chaos experiment records: '' @ e), w1)
                         | Inr records \<Rightarrow>
                             (case observeRecords env records of
                                Some obs \<Rightarrow> (Inr obs, w1)
                              | None \<Rightarrow>
                                  (Inr \<lparr>co_allInjected = False, co_failed = False,
                                        co_message = ''awaiting Chaos Mesh AllInjected=True status''\<rparr>, w1)))))))"

definition Delete :: "chaos_runner \<Rightarrow> 'w chaos_env \<Rightarrow> chaos_run \<Rightarrow> 'w \<Rightarrow> (string + unit) \<times> 'w" where
  "Delete r env run w =
     (case resourceForRun r env run of
        Inl e \<Rightarrow> (Inl e, w)
      | Inr gvr \<Rightarrow>
          (case ce_delete env gvr (rr_namespace (c_resource run)) (rr_name (c_resource run)) w of
             (None, w1) \<Rightarrow> (Inr (), w1)
           | (Some (K8sNotFound t), w1) \<Rightarrow> (Inr (), w1)
           | (Some e, w1) \<Rightarrow> (Inl (k8sText e), w1)))"

end
