(* ===== verification/ChaosManager.thy ===== *)
theory ChaosManager
  imports Go_Prelude CoreTypes MemoryStore ChaosRunner
begin

text \<open>
  The chaos manager, \<open>services/api/internal/cluster/chaos_manager.go\<close>: requests, approvals,
  execution, abort and the reconciliation of chaos runs.

  The manager talks to a repository and to the chaos runner. Its operations take the chaos part
  of the repository interface as a record of functions on a state \<open>'s\<close>, thread that state and the
  cluster \<open>'w\<close> through every call, and take the reading of \<open>m.now()\<close> as an argument. \<open>Request\<close> and
  \<open>Health\<close> test whether there is a runner; the other operations take the runner itself, which
  the code dereferences without a test.
\<close>

record 's chaos_repo =
  repo_create :: "chaos_run \<Rightarrow> string \<Rightarrow> string \<Rightarrow> 's \<Rightarrow> (store_error + chaos_run) \<times> 's"
  repo_get :: "string \<Rightarrow> 's \<Rightarrow> store_error + chaos_run"
  repo_list :: "'s \<Rightarrow> store_error + chaos_run list"
  repo_update :: "chaos_run \<Rightarrow> int \<Rightarrow> string \<Rightarrow> string \<Rightarrow> 's \<Rightarrow> (store_error + chaos_run) \<times> 's"

definition memory_repo :: "ctx_err \<Rightarrow> store chaos_repo" where
  "memory_repo ctx =
     \<lparr>repo_create = CreateChaosRun ctx, repo_get = GetChaosRun ctx, repo_list = ListChaosRuns ctx,
      repo_update = UpdateChaosRun ctx\<rparr>"

record chaos_manager =
  cm_runner :: "chaos_runner option"
  cm_executionEnabled :: bool

datatype chaos_error = ChaosText string | ChaosStore store_error

type_synonym ('s, 'w, 'a) managed = "(chaos_error + 'a) \<times> 's \<times> 'w"

definition chaosApprovalTTL :: duration where "chaosApprovalTTL = 15 * minute"
definition chaosInjectionWindow :: duration where "chaosInjectionWindow = 30 * second"
definition chaosCleanupGrace :: duration where "chaosCleanupGrace = 30 * second"
definition chaosRecoveryWindow :: duration where "chaosRecoveryWindow = 2 * minute"
definition chaosMaxAttempts :: int where "chaosMaxAttempts = 3"

fun chaosStatusString :: "chaos_status \<Rightarrow> string" where
  "chaosStatusString ChaosPreflightValidated = ''preflight_validated''"
| "chaosStatusString ChaosPendingApproval = ''pending_approval''"
| "chaosStatusString ChaosApproved = ''approved''"
| "chaosStatusString ChaosExecutionRequested = ''execution_requested''"
| "chaosStatusString ChaosRunning = ''running''"
| "chaosStatusString ChaosCleanupRequested = ''cleanup_requested''"
| "chaosStatusString ChaosAbortRequested = ''abort_requested''"
| "chaosStatusString ChaosVerifying = ''verifying_recovery''"
| "chaosStatusString ChaosSucceeded = ''succeeded''"
| "chaosStatusString ChaosFailed = ''failed''"
| "chaosStatusString ChaosRejected = ''rejected''"
| "chaosStatusString ChaosAborted = ''aborted''"
| "chaosStatusString ChaosExpired = ''expired''"

subsection \<open>Calls of the repository and the runner\<close>

definition readRun :: "'s chaos_repo \<Rightarrow> string \<Rightarrow> 's \<times> 'w \<Rightarrow> ('s, 'w, chaos_run) managed" where
  "readRun repo i st = (case repo_get repo i (fst st) of Inl e \<Rightarrow> (Inl (ChaosStore e), st) | Inr run \<Rightarrow> (Inr run, st))"

definition saveRun :: "'s chaos_repo \<Rightarrow> chaos_run \<Rightarrow> string \<Rightarrow> string \<Rightarrow> 's \<times> 'w \<Rightarrow> ('s, 'w, chaos_run) managed" where
  "saveRun repo run actor action st =
     (case repo_update repo run (c_version run) actor action (fst st) of
        (Inl e, s1) \<Rightarrow> (Inl (ChaosStore e), s1, snd st)
      | (Inr run1, s1) \<Rightarrow> (Inr run1, s1, snd st))"

definition onCluster :: "('w \<Rightarrow> (string + 'a) \<times> 'w) \<Rightarrow> 's \<times> 'w \<Rightarrow> ('s, 'w, 'a) managed" where
  "onCluster call st =
     (case call (snd st) of (Inl e, w1) \<Rightarrow> (Inl (ChaosText e), fst st, w1) | (Inr a, w1) \<Rightarrow> (Inr a, fst st, w1))"

definition discard :: "('s, 'w, 'a) managed \<Rightarrow> ('s, 'w, unit) managed" where
  "discard r = bindR r (\<lambda>_ st. (Inr (), st))"

subsection \<open>Reconciliation\<close>

definition chaosActive :: "chaos_status \<Rightarrow> bool" where
  "chaosActive status \<longleftrightarrow>
     status \<in> {ChaosExecutionRequested, ChaosRunning, ChaosCleanupRequested, ChaosAbortRequested, ChaosVerifying}"

definition expired :: "gotime \<Rightarrow> gotime option \<Rightarrow> bool" where
  "expired now deadline = (case deadline of None \<Rightarrow> False | Some t \<Rightarrow> \<not> now < t)"

definition expire :: "'s chaos_repo \<Rightarrow> gotime \<Rightarrow> chaos_run \<Rightarrow> 's \<times> 'w \<Rightarrow> ('s, 'w, chaos_run) managed" where
  "expire repo now run st =
     saveRun repo (run\<lparr>c_status := ChaosExpired, c_message := ''chaos approval expired; no resource was created'',
                       c_updatedAt := now, c_finishedAt := Some now\<rparr>) ''system'' ''chaos.approval.expired'' st"

text \<open>State \<open>execution_requested\<close> without the owned resource: create it, or count a failed attempt.\<close>

definition startOrRetry ::
    "chaos_runner \<Rightarrow> 'w chaos_env \<Rightarrow> 's chaos_repo \<Rightarrow> gotime \<Rightarrow> chaos_run \<Rightarrow> 's \<times> 'w \<Rightarrow> ('s, 'w, unit) managed" where
  "startOrRetry r env repo now run st =
     (case Start r env run (snd st) of
        (Inl e, w1) \<Rightarrow>
          let run1 = run\<lparr>c_attemptCount := c_attemptCount run + 1,
                c_message := ''chaos creation attempt '' @ itoa (c_attemptCount run + 1) @ '' failed: '' @ e,
                c_updatedAt := now\<rparr>
          in if c_attemptCount run1 \<ge> chaosMaxAttempts
             then discard (saveRun repo (run1\<lparr>c_status := ChaosFailed, c_finishedAt := Some now\<rparr>) ''system'' ''chaos.failed''
                    (fst st, w1))
             else discard (saveRun repo run1 ''system'' ''chaos.execution.retry'' (fst st, w1))
      | (Inr _, w1) \<Rightarrow>
          discard (saveRun repo (run\<lparr>c_message := ''Kubernetes acknowledged the owned chaos resource; awaiting Chaos Mesh AllInjected=True'',
              c_injectionDeadline := Some (now + chaosInjectionWindow), c_updatedAt := now\<rparr>) ''system'' ''chaos.resource.created''
            (fst st, w1)))"

text \<open>State \<open>execution_requested\<close> with the owned resource: wait for the injection to be proven.\<close>

definition awaitInjection ::
    "chaos_runner \<Rightarrow> 'w chaos_env \<Rightarrow> 's chaos_repo \<Rightarrow> gotime \<Rightarrow> chaos_run \<Rightarrow> 's \<times> 'w \<Rightarrow> ('s, 'w, unit) managed" where
  "awaitInjection r env repo now run st =
     (case c_injectionDeadline run of
        None \<Rightarrow>
          discard (saveRun repo (run\<lparr>c_message := ''recovered an owned chaos resource after restart; awaiting Chaos Mesh AllInjected=True'',
              c_injectionDeadline := Some (now + chaosInjectionWindow), c_updatedAt := now\<rparr>) ''system'' ''chaos.resource.recovered'' st)
      | Some deadline \<Rightarrow>
          bindR (onCluster (Observe r env run) st) (\<lambda>obs st1.
            if \<not> co_allInjected obs then
              if now < deadline then
                if co_message obs \<noteq> '''' \<and> co_message obs \<noteq> c_message run
                then discard (saveRun repo (run\<lparr>c_message := co_message obs, c_updatedAt := now\<rparr>) ''system'' ''chaos.injection.pending'' st1)
                else (Inr (), st1)
              else
                let reason = (if co_failed obs \<and> co_message obs \<noteq> '''' then co_message obs
                              else ''Chaos Mesh did not report AllInjected=True before the injection deadline'');
                    cleanup = now + chaosCleanupGrace
                in discard (saveRun repo (run\<lparr>c_status := ChaosCleanupRequested, c_failureReason := reason,
                     c_message := reason @ ''; cleanup requested'', c_cleanupDeadline := Some cleanup,
                     c_recoveryDeadline := Some (cleanup + chaosRecoveryWindow), c_updatedAt := now\<rparr>)
                     ''system'' ''chaos.cleanup.requested'' st1)
            else
              let cleanup = now + c_durationSeconds run * second + chaosCleanupGrace
              in discard (saveRun repo (run\<lparr>c_status := ChaosRunning, c_message := co_message obs @ ''; bounded execution is running'',
                   c_startedAt := Some now, c_cleanupDeadline := Some cleanup,
                   c_recoveryDeadline := Some (cleanup + chaosRecoveryWindow), c_updatedAt := now\<rparr>)
                   ''system'' ''chaos.execution.started'' st1)))"

definition reconcileRequested ::
    "chaos_runner \<Rightarrow> 'w chaos_env \<Rightarrow> 's chaos_repo \<Rightarrow> gotime \<Rightarrow> chaos_run \<Rightarrow> 's \<times> 'w \<Rightarrow> ('s, 'w, unit) managed" where
  "reconcileRequested r env repo now run st =
     bindR (onCluster (Exists r env run) st) (\<lambda>present st1.
       if \<not> present \<and> c_injectionDeadline run \<noteq> None then
         discard (saveRun repo (run\<lparr>c_status := ChaosVerifying,
             c_failureReason := ''owned chaos resource disappeared before injection was proven'',
             c_message := ''chaos resource disappeared before AllInjected=True; verifying target recovery'',
             c_recoveryDeadline := Some (now + chaosRecoveryWindow), c_updatedAt := now\<rparr>)
           ''system'' ''chaos.recovery.requested'' st1)
       else if \<not> present then startOrRetry r env repo now run st1
       else awaitInjection r env repo now run st1)"

definition reconcileCleanup ::
    "chaos_runner \<Rightarrow> 'w chaos_env \<Rightarrow> 's chaos_repo \<Rightarrow> gotime \<Rightarrow> chaos_run \<Rightarrow> 's \<times> 'w \<Rightarrow> ('s, 'w, unit) managed" where
  "reconcileCleanup r env repo now run st =
     bindR (onCluster (Delete r env run) st) (\<lambda>_ st1.
     bindR (onCluster (Exists r env run) st1) (\<lambda>present st2.
       if present then (Inr (), st2)
       else discard (saveRun repo (run\<lparr>c_status := ChaosVerifying,
                c_message := ''owned chaos resource deleted; verifying workload recovery'', c_updatedAt := now\<rparr>)
              ''system'' ''chaos.cleanup.completed'' st2)))"

definition reconcileRunning ::
    "chaos_runner \<Rightarrow> 'w chaos_env \<Rightarrow> 's chaos_repo \<Rightarrow> gotime \<Rightarrow> chaos_run \<Rightarrow> 's \<times> 'w \<Rightarrow> ('s, 'w, unit) managed" where
  "reconcileRunning r env repo now run st =
     (case c_startedAt run of
        None \<Rightarrow>
          discard (saveRun repo (run\<lparr>c_status := ChaosFailed, c_message := ''running chaos record has no acknowledged start time'',
              c_updatedAt := now, c_finishedAt := Some now\<rparr>) ''system'' ''chaos.failed'' st)
      | Some started \<Rightarrow>
          bindR (onCluster (Exists r env run) st) (\<lambda>present st1.
            let executionEnd = started + c_durationSeconds run * second in
            if present \<and> now < executionEnd then (Inr (), st1)
            else if \<not> present \<and> now < executionEnd then
              discard (saveRun repo (run\<lparr>c_status := ChaosVerifying,
                  c_failureReason := ''owned chaos resource disappeared before the bounded duration elapsed'',
                  c_message := ''chaos resource disappeared early; verifying target recovery'',
                  c_recoveryDeadline := Some (now + chaosRecoveryWindow), c_updatedAt := now\<rparr>)
                ''system'' ''chaos.recovery.requested'' st1)
            else
              bindR (saveRun repo (run\<lparr>c_status := ChaosCleanupRequested,
                  c_message := ''execution duration elapsed; cleanup requested'', c_updatedAt := now\<rparr>)
                  ''system'' ''chaos.cleanup.requested'' st1)
                (\<lambda>run1 st2. reconcileCleanup r env repo now run1 st2)))"

definition reconcileAbort ::
    "chaos_runner \<Rightarrow> 'w chaos_env \<Rightarrow> 's chaos_repo \<Rightarrow> gotime \<Rightarrow> chaos_run \<Rightarrow> 's \<times> 'w \<Rightarrow> ('s, 'w, unit) managed" where
  "reconcileAbort r env repo now run st =
     bindR (onCluster (Delete r env run) st) (\<lambda>_ st1.
     bindR (onCluster (Exists r env run) st1) (\<lambda>present st2.
       if present then (Inr (), st2)
       else
         bindR (onCluster (VerifyRecovery r env run) st2) (\<lambda>(healthy, message) st3.
           if healthy then
             discard (saveRun repo (run\<lparr>c_status := ChaosAborted, c_recoveryStatus := ''healthy'', c_recoveryMessage := message,
                 c_message := ''chaos run aborted; resource deletion and target recovery were verified'',
                 c_updatedAt := now, c_finishedAt := Some now\<rparr>) (c_abortedBy run) ''chaos.aborted'' st3)
           else if expired now (c_recoveryDeadline run) then
             discard (saveRun repo (run\<lparr>c_status := ChaosFailed, c_recoveryStatus := ''unhealthy'', c_recoveryMessage := message,
                 c_message := ''abort cleanup completed but target recovery timed out'',
                 c_updatedAt := now, c_finishedAt := Some now\<rparr>) (c_abortedBy run) ''chaos.failed'' st3)
           else (Inr (), st3))))"

definition reconcileVerifying ::
    "chaos_runner \<Rightarrow> 'w chaos_env \<Rightarrow> 's chaos_repo \<Rightarrow> gotime \<Rightarrow> chaos_run \<Rightarrow> 's \<times> 'w \<Rightarrow> ('s, 'w, unit) managed" where
  "reconcileVerifying r env repo now run st =
     bindR (onCluster (Exists r env run) st) (\<lambda>present st1.
       if present then
         if expired now (c_cleanupDeadline run) then onCluster (Delete r env run) st1 else (Inr (), st1)
       else
         bindR (onCluster (VerifyRecovery r env run) st1) (\<lambda>(healthy, message) st2.
           let run1 = run\<lparr>c_recoveryMessage := message, c_updatedAt := now\<rparr> in
           if healthy then
             let run2 = run1\<lparr>c_status := ChaosSucceeded, c_recoveryStatus := ''healthy'', c_finishedAt := Some now,
                   c_message := ''chaos resource cleaned up and target recovery was verified''\<rparr>
             in if c_failureReason run2 \<noteq> '''' then
                  discard (saveRun repo (run2\<lparr>c_status := ChaosFailed,
                      c_message := c_failureReason run2 @ ''; resource cleanup and target recovery were verified''\<rparr>)
                    ''system'' ''chaos.failed'' st2)
                else discard (saveRun repo run2 ''system'' ''chaos.succeeded'' st2)
           else if expired now (c_recoveryDeadline run1) then
             discard (saveRun repo (run1\<lparr>c_status := ChaosFailed, c_recoveryStatus := ''unhealthy'',
                 c_message := ''target recovery verification timed out'', c_finishedAt := Some now\<rparr>) ''system'' ''chaos.failed'' st2)
           else (Inr (), st2)))"

definition reconcileOne ::
    "chaos_runner \<Rightarrow> 'w chaos_env \<Rightarrow> 's chaos_repo \<Rightarrow> gotime \<Rightarrow> chaos_run \<Rightarrow> 's \<times> 'w \<Rightarrow> ('s, 'w, unit) managed" where
  "reconcileOne r env repo now run st =
     (if c_status run = ChaosPendingApproval \<and> expired now (c_approvalExpiresAt run)
      then discard (expire repo now run st)
      else
        (case c_status run of
           ChaosExecutionRequested \<Rightarrow> reconcileRequested r env repo now run st
         | ChaosRunning \<Rightarrow> reconcileRunning r env repo now run st
         | ChaosCleanupRequested \<Rightarrow> reconcileCleanup r env repo now run st
         | ChaosAbortRequested \<Rightarrow> reconcileAbort r env repo now run st
         | ChaosVerifying \<Rightarrow> reconcileVerifying r env repo now run st
         | _ \<Rightarrow> (Inr (), st)))"

fun reconcileList ::
    "chaos_runner \<Rightarrow> 'w chaos_env \<Rightarrow> 's chaos_repo \<Rightarrow> (nat \<Rightarrow> gotime) \<Rightarrow> chaos_run list \<Rightarrow> 's \<times> 'w \<Rightarrow> 's \<times> 'w" where
  "reconcileList r env repo clock [] st = st"
| "reconcileList r env repo clock (run # runs) st =
     reconcileList r env repo clock runs
       (if \<not> chaosActive (c_status run) \<and> c_status run \<noteq> ChaosPendingApproval then st
        else snd (reconcileOne r env repo (clock (length runs)) run st))"

definition reconcileAll ::
    "chaos_runner \<Rightarrow> 'w chaos_env \<Rightarrow> 's chaos_repo \<Rightarrow> (nat \<Rightarrow> gotime) \<Rightarrow> 's \<times> 'w \<Rightarrow> 's \<times> 'w" where
  "reconcileAll r env repo clock st =
     (case repo_list repo (fst st) of Inl _ \<Rightarrow> st | Inr runs \<Rightarrow> reconcileList r env repo clock runs st)"

subsection \<open>Requests\<close>

text \<open>The run that is stored for a request, from the run that the preflight returned.\<close>

definition requestedRun :: "chaos_manager \<Rightarrow> gotime \<Rightarrow> string \<Rightarrow> string \<Rightarrow> chaos_run \<Rightarrow> chaos_run" where
  "requestedRun m now uuid actor run0 =
     (let run1 = run0\<lparr>c_id := ''chaos-run-'' @ uuid, c_requestedBy := actor, c_createdAt := now, c_updatedAt := now\<rparr>
      in if cm_executionEnabled m then
           run1\<lparr>c_status := ChaosPendingApproval,
                c_message := ''bounded preflight passed; explicit approval by a different principal is required before execution'',
                c_approvalExpiresAt := Some (now + chaosApprovalTTL)\<rparr>
         else run1)"

definition Request ::
    "chaos_manager \<Rightarrow> 'w chaos_env \<Rightarrow> 's chaos_repo \<Rightarrow> gotime \<Rightarrow> string \<Rightarrow> string \<Rightarrow> string \<Rightarrow> string \<Rightarrow> 's \<times> 'w \<Rightarrow>
      ('s, 'w, chaos_run) managed" where
  "Request m env repo now uuid experimentID manifest actor st =
     (case cm_runner m of
        None \<Rightarrow> (Inl (ChaosText ''chaos runner is unavailable''), st)
      | Some r \<Rightarrow>
          bindR (onCluster (Preflight r env now experimentID manifest (cm_executionEnabled m)) st) (\<lambda>run0 st1.
            let action = (if cm_executionEnabled m then ''chaos.approval.requested'' else ''chaos.preflight.validated'')
            in (case repo_create repo (requestedRun m now uuid actor run0) actor action (fst st1) of
                  (Inl e, s2) \<Rightarrow> (Inl (ChaosStore e), s2, snd st1)
                | (Inr created, s2) \<Rightarrow> (Inr created, s2, snd st1))))"

definition ManagerHealth ::
    "chaos_manager \<Rightarrow> 'w chaos_env \<Rightarrow> (string list \<Rightarrow> string list) \<Rightarrow> 'w \<Rightarrow> (string + unit) \<times> 'w" where
  "ManagerHealth m env order w =
     (if \<not> cm_executionEnabled m then (Inr (), w)
      else (case cm_runner m of None \<Rightarrow> (Inl ''chaos runner is unavailable'', w) | Some r \<Rightarrow> RunnerHealth r env order w))"

definition TargetNamespace :: "'w chaos_env \<Rightarrow> string \<Rightarrow> string + string" where
  "TargetNamespace env manifest =
     (case decodeChaosObject env manifest of
        Inl e \<Rightarrow> Inl e
      | Inr object \<Rightarrow>
          if ce_namespace env object = '''' then Inl ''chaos manifest must declare metadata.namespace''
          else Inr (ce_namespace env object))"

text \<open>
  The common part of the two decisions: the run must be pending and unexpired, and the actor must
  not be the requester.
\<close>

definition pendingRun ::
    "'s chaos_repo \<Rightarrow> gotime \<Rightarrow> string \<Rightarrow> string \<Rightarrow> string \<Rightarrow> 's \<times> 'w \<Rightarrow> ('s, 'w, chaos_run) managed" where
  "pendingRun repo now i actor selfError st =
     bindR (readRun repo i st) (\<lambda>run st1.
       if c_status run \<noteq> ChaosPendingApproval
       then (Inl (ChaosStore (ErrConflict (''chaos run is '' @ chaosStatusString (c_status run) @ '', not pending approval''))), st1)
       else if expired now (c_approvalExpiresAt run)
       then bindR (expire repo now run st1) (\<lambda>_ st2. (Inl (ChaosStore (ErrConflict ''chaos approval expired'')), st2))
       else if actor = c_requestedBy run then (Inl (ChaosStore (ErrInvalid selfError)), st1)
       else (Inr run, st1))"

definition ApproveChaos ::
    "'s chaos_repo \<Rightarrow> gotime \<Rightarrow> string \<Rightarrow> string \<Rightarrow> string \<Rightarrow> 's \<times> 'w \<Rightarrow> ('s, 'w, chaos_run) managed" where
  "ApproveChaos repo now i actor reason0 st =
     (let reason = trimSpace reason0 in
      if reason = '''' then (Inl (ChaosStore (ErrInvalid ''approval reason is required'')), st)
      else
        bindR (pendingRun repo now i actor ''requester cannot approve their own chaos run'' st) (\<lambda>run st1.
          saveRun repo (run\<lparr>c_status := ChaosApproved, c_approvedBy := actor, c_approvalReason := reason,
              c_message := ''chaos run approved; execution remains a separate explicit request'', c_updatedAt := now\<rparr>)
            actor ''chaos.approved'' st1))"

definition RejectChaos ::
    "'s chaos_repo \<Rightarrow> gotime \<Rightarrow> string \<Rightarrow> string \<Rightarrow> string \<Rightarrow> 's \<times> 'w \<Rightarrow> ('s, 'w, chaos_run) managed" where
  "RejectChaos repo now i actor reason0 st =
     (let reason = trimSpace reason0 in
      if reason = '''' then (Inl (ChaosStore (ErrInvalid ''rejection reason is required'')), st)
      else
        bindR (pendingRun repo now i actor ''requester cannot reject their own chaos run'' st) (\<lambda>run st1.
          saveRun repo (run\<lparr>c_status := ChaosRejected, c_approvedBy := actor, c_approvalReason := reason,
              c_message := ''chaos run rejected; no resource was created'', c_updatedAt := now, c_finishedAt := Some now\<rparr>)
            actor ''chaos.rejected'' st1))"

definition ExecuteChaos ::
    "chaos_manager \<Rightarrow> chaos_runner \<Rightarrow> 'w chaos_env \<Rightarrow> 's chaos_repo \<Rightarrow> gotime \<Rightarrow> string \<Rightarrow> string \<Rightarrow> 's \<times> 'w \<Rightarrow>
      ('s, 'w, chaos_run) managed" where
  "ExecuteChaos m r env repo now i actor st =
     (if \<not> cm_executionEnabled m then (Inl (ChaosStore (ErrInvalid ''chaos execution is disabled'')), st)
      else
        bindR (readRun repo i st) (\<lambda>run st1.
          if c_status run \<noteq> ChaosApproved
          then (Inl (ChaosStore (ErrConflict (''chaos run is '' @ chaosStatusString (c_status run) @ '', not approved''))), st1)
          else if expired now (c_approvalExpiresAt run)
          then bindR (expire repo now run st1)
                 (\<lambda>_ st2. (Inl (ChaosStore (ErrConflict ''approved chaos run expired before execution'')), st2))
          else
            bindR (saveRun repo (run\<lparr>c_status := ChaosExecutionRequested,
                c_message := ''chaos execution requested; Kubernetes creation has not yet been acknowledged'', c_updatedAt := now\<rparr>)
                actor ''chaos.execution.requested'' st1) (\<lambda>run1 st2.
            bindR (reconcileOne r env repo now run1 st2) (\<lambda>_ st3. readRun repo i st3))))"

definition abortable :: "chaos_status \<Rightarrow> bool" where
  "abortable status \<longleftrightarrow>
     status \<in> {ChaosPendingApproval, ChaosApproved, ChaosExecutionRequested, ChaosRunning, ChaosCleanupRequested, ChaosVerifying}"

definition AbortChaos ::
    "chaos_runner \<Rightarrow> 'w chaos_env \<Rightarrow> 's chaos_repo \<Rightarrow> gotime \<Rightarrow> string \<Rightarrow> string \<Rightarrow> string \<Rightarrow> 's \<times> 'w \<Rightarrow>
      ('s, 'w, chaos_run) managed" where
  "AbortChaos r env repo now i actor reason0 st =
     (let reason = trimSpace reason0 in
      if reason = '''' then (Inl (ChaosStore (ErrInvalid ''abort reason is required'')), st)
      else
        bindR (readRun repo i st) (\<lambda>run st1.
          if \<not> abortable (c_status run)
          then (Inl (ChaosStore (ErrConflict (''chaos run in state '' @ chaosStatusString (c_status run) @ '' cannot be aborted''))), st1)
          else if c_status run = ChaosPendingApproval \<or> c_status run = ChaosApproved then
            saveRun repo (run\<lparr>c_status := ChaosAborted, c_abortedBy := actor,
                c_message := ''approved chaos run aborted before resource creation: '' @ reason,
                c_updatedAt := now, c_finishedAt := Some now\<rparr>) actor ''chaos.aborted'' st1
          else
            bindR (saveRun repo (run\<lparr>c_status := ChaosAbortRequested, c_abortedBy := actor,
                c_message := ''chaos abort requested; deleting the owned resource: '' @ reason, c_updatedAt := now,
                c_recoveryDeadline := Some (now + (chaosCleanupGrace + chaosRecoveryWindow))\<rparr>) actor ''chaos.abort.requested'' st1)
              (\<lambda>run1 st2.
            bindR (reconcileOne r env repo now run1 st2) (\<lambda>_ st3. readRun repo i st3))))"

definition GetChaos ::
    "chaos_runner \<Rightarrow> 'w chaos_env \<Rightarrow> 's chaos_repo \<Rightarrow> gotime \<Rightarrow> string \<Rightarrow> 's \<times> 'w \<Rightarrow> ('s, 'w, chaos_run) managed" where
  "GetChaos r env repo now i st =
     bindR (readRun repo i st) (\<lambda>run st1.
       if chaosActive (c_status run) \<or> c_status run = ChaosPendingApproval
       then bindR (reconcileOne r env repo now run st1) (\<lambda>_ st2. readRun repo i st2)
       else (Inr run, st1))"

end
