(* ===== verification/ChaosLifecycle.thy ===== *)
theory ChaosLifecycle
  imports Go_Prelude CoreTypes MemoryStore StoreInvariant ChaosRunner ChaosManager
begin

text \<open>
  The life cycle of a chaos run as an abstract state machine, and the proof that the chaos manager
  implements it: whatever the cluster answers and however often a run was read before it is
  acted on, every stored run moves along the edges of the machine only.
\<close>

subsection \<open>The abstract machine\<close>

fun edges :: "chaos_status \<Rightarrow> chaos_status list" where
  "edges ChaosPendingApproval = [ChaosApproved, ChaosRejected, ChaosExpired, ChaosAborted]"
| "edges ChaosApproved = [ChaosExecutionRequested, ChaosExpired, ChaosAborted]"
| "edges ChaosExecutionRequested =
     [ChaosExecutionRequested, ChaosRunning, ChaosCleanupRequested, ChaosVerifying, ChaosFailed, ChaosAbortRequested]"
| "edges ChaosRunning = [ChaosCleanupRequested, ChaosVerifying, ChaosFailed, ChaosAbortRequested]"
| "edges ChaosCleanupRequested = [ChaosVerifying, ChaosAbortRequested]"
| "edges ChaosVerifying = [ChaosSucceeded, ChaosFailed, ChaosAbortRequested]"
| "edges ChaosAbortRequested = [ChaosAborted, ChaosFailed]"
| "edges _ = []"

definition terminal :: "chaos_status \<Rightarrow> bool" where
  "terminal status \<longleftrightarrow> edges status = []"

definition same_request :: "chaos_run \<Rightarrow> chaos_run \<Rightarrow> bool" where
  "same_request a b \<longleftrightarrow>
     c_id b = c_id a \<and> c_experimentID b = c_experimentID a \<and> c_manifest b = c_manifest a \<and>
     c_resource b = c_resource a \<and> c_targetSelector b = c_targetSelector a \<and> c_targetCount b = c_targetCount a \<and>
     c_durationSeconds b = c_durationSeconds a \<and> c_requestedBy b = c_requestedBy a \<and>
     c_createdAt b = c_createdAt a \<and> c_approvalExpiresAt b = c_approvalExpiresAt a"

text \<open>
  A move keeps the request, counts the version, follows an edge, and obeys the rules on the
  fields: a decision names a second person and a reason, and nobody changes it afterwards; only
  creation attempts are counted, and the third failed one ends the run; a failure reason is never
  cleared; a run succeeds only with no failure reason and verified recovery.
\<close>

definition legal :: "chaos_run \<Rightarrow> chaos_run \<Rightarrow> bool" where
  "legal a b \<longleftrightarrow>
     same_request a b \<and> c_version b = c_version a + 1 \<and> c_status b \<in> set (edges (c_status a)) \<and>
     (c_status a = ChaosPendingApproval \<and> c_status b \<in> {ChaosApproved, ChaosRejected} \<longrightarrow>
        c_approvedBy b \<noteq> c_requestedBy b \<and> c_approvalReason b \<noteq> '''') \<and>
     (c_status a \<noteq> ChaosPendingApproval \<longrightarrow>
        c_approvedBy b = c_approvedBy a \<and> c_approvalReason b = c_approvalReason a) \<and>
     (c_attemptCount b = c_attemptCount a \<or>
        c_attemptCount b = c_attemptCount a + 1 \<and> c_status a = ChaosExecutionRequested \<and>
        c_status b = (if c_attemptCount b \<ge> 3 then ChaosFailed else ChaosExecutionRequested)) \<and>
     (c_failureReason a \<noteq> '''' \<longrightarrow> c_failureReason b \<noteq> '''') \<and>
     (c_status b = ChaosSucceeded \<longrightarrow> c_failureReason b = '''' \<and> c_recoveryStatus b = ''healthy'') \<and>
     (terminal (c_status b) \<longrightarrow> c_finishedAt b \<noteq> None) \<and>
     (c_recoveryDeadline a \<noteq> None \<longrightarrow> c_recoveryDeadline b \<noteq> None) \<and>
     (c_status b \<in> {ChaosRunning, ChaosVerifying, ChaosAbortRequested} \<longrightarrow>
        c_status a = ChaosCleanupRequested \<or> c_recoveryDeadline b \<noteq> None) \<and>
     (c_status b = ChaosCleanupRequested \<longrightarrow> c_status a = ChaosRunning \<or> c_recoveryDeadline b \<noteq> None)"

definition initial_run :: "chaos_run \<Rightarrow> bool" where
  "initial_run b \<longleftrightarrow>
     c_version b = 1 \<and> c_attemptCount b = 0 \<and> c_failureReason b = '''' \<and> c_approvedBy b = '''' \<and>
     (c_status b = ChaosPreflightValidated \<or> c_status b = ChaosPendingApproval \<and> c_approvalExpiresAt b \<noteq> None)"

text \<open>What holds of every run of the machine.\<close>

definition run_ok :: "chaos_run \<Rightarrow> bool" where
  "run_ok c \<longleftrightarrow>
     1 \<le> c_version c \<and> 0 \<le> c_attemptCount c \<and> c_attemptCount c \<le> 3 \<and>
     (\<not> terminal (c_status c) \<longrightarrow> c_attemptCount c < 3) \<and>
     (c_status c \<in> {ChaosApproved, ChaosExecutionRequested, ChaosRunning, ChaosCleanupRequested, ChaosVerifying,
        ChaosAbortRequested, ChaosSucceeded, ChaosFailed, ChaosRejected} \<longrightarrow>
        c_approvedBy c \<noteq> c_requestedBy c \<and> c_approvalReason c \<noteq> '''') \<and>
     (c_status c \<in> {ChaosRunning, ChaosCleanupRequested, ChaosVerifying, ChaosAbortRequested} \<longrightarrow>
        c_recoveryDeadline c \<noteq> None) \<and>
     (c_status c = ChaosSucceeded \<longrightarrow> c_failureReason c = '''' \<and> c_recoveryStatus c = ''healthy'')"

lemma initial_run_ok: "initial_run c \<Longrightarrow> run_ok c"
  unfolding initial_run_def by (elim conjE disjE) (simp_all add: run_ok_def terminal_def)

lemma legal_run_ok:
  assumes "legal a b" "run_ok a"
  shows "run_ok b"
proof -
  have "c_status b \<in> set (edges (c_status a))" using assms(1) by (simp add: legal_def)
  then show ?thesis
    using assms
    by (cases "c_status a"; simp; elim disjE;
        simp add: legal_def run_ok_def terminal_def same_request_def split: if_splits; elim conjE disjE; simp)
qed

lemma legal_version: "legal a b \<Longrightarrow> c_version b = c_version a + 1"
  by (simp add: legal_def)

lemma legal_request: "legal a b \<Longrightarrow> same_request a b"
  by (simp add: legal_def)

lemma terminal_stuck: "terminal (c_status a) \<Longrightarrow> \<not> legal a b"
  by (simp add: legal_def terminal_def)

lemma legal_path_run_ok: "legal\<^sup>*\<^sup>* a b \<Longrightarrow> run_ok a \<Longrightarrow> run_ok b"
  by (induction rule: rtranclp_induct) (auto intro: legal_run_ok)

lemma legal_path_version: "legal\<^sup>*\<^sup>* a b \<Longrightarrow> a = b \<or> c_version a < c_version b"
  by (induction rule: rtranclp_induct) (auto dest: legal_version)

lemma legal_path_request: "legal\<^sup>*\<^sup>* a b \<Longrightarrow> same_request a b"
  by (induction rule: rtranclp_induct) (auto simp: same_request_def dest!: legal_request)

lemma legal_path_terminal: "legal\<^sup>*\<^sup>* a b \<Longrightarrow> terminal (c_status a) \<Longrightarrow> b = a"
  by (erule converse_rtranclpE) (auto dest: terminal_stuck)

subsection \<open>Moves of a whole repository\<close>

definition moves :: "(string \<Rightarrow> chaos_run option) \<Rightarrow> (string \<Rightarrow> chaos_run option) \<Rightarrow> bool" where
  "moves m m' \<longleftrightarrow>
     (\<forall>i. case m i of
            Some a \<Rightarrow> \<exists>b. m' i = Some b \<and> legal\<^sup>*\<^sup>* a b
          | None \<Rightarrow> (case m' i of None \<Rightarrow> True | Some b \<Rightarrow> \<exists>a. initial_run a \<and> c_id a = i \<and> legal\<^sup>*\<^sup>* a b))"

lemma moves_refl [simp]: "moves m m"
  by (auto simp: moves_def split: option.splits)

lemma moves_trans [trans]:
  assumes "moves m1 m2" "moves m2 m3"
  shows "moves m1 m3"
  unfolding moves_def
proof
  fix i
  show "case m1 i of
            Some a \<Rightarrow> \<exists>b. m3 i = Some b \<and> legal\<^sup>*\<^sup>* a b
          | None \<Rightarrow> (case m3 i of None \<Rightarrow> True | Some b \<Rightarrow> \<exists>a. initial_run a \<and> c_id a = i \<and> legal\<^sup>*\<^sup>* a b)"
    using assms [unfolded moves_def, THEN spec, of i]
    by (cases "m1 i"; cases "m2 i"; cases "m3 i") (auto intro: rtranclp_trans)
qed

lemma moves_update: "m i = Some a \<Longrightarrow> legal a b \<Longrightarrow> moves m (m(i \<mapsto> b))"
  by (auto simp: moves_def split: option.splits)

lemma moves_create: "m (c_id b) = None \<Longrightarrow> initial_run b \<Longrightarrow> moves m (m(c_id b \<mapsto> b))"
  by (auto simp: moves_def split: option.splits)

lemma moves_run_ok:
  assumes "moves m m'" "\<And>i a. m i = Some a \<Longrightarrow> run_ok a" "m' i = Some b"
  shows "run_ok b"
  using assms(1) [unfolded moves_def, THEN spec, of i] assms(2,3)
  by (cases "m i") (auto intro: legal_path_run_ok initial_run_ok)

text \<open>
  A run that was read at some time is coherent with the repository if the stored run has moved on
  to a later version or is still the same.
\<close>

definition coherent :: "(string \<Rightarrow> chaos_run option) \<Rightarrow> chaos_run \<Rightarrow> bool" where
  "coherent m run \<longleftrightarrow>
     (\<exists>cur. m (c_id run) = Some cur \<and> (cur = run \<or> c_version run < c_version cur))"

lemma coherent_current: "m (c_id run) = Some run \<Longrightarrow> coherent m run"
  by (auto simp: coherent_def)

lemma coherent_stable:
  assumes "moves m m'" "coherent m run"
  shows "coherent m' run"
proof -
  obtain cur where cur: "m (c_id run) = Some cur" "cur = run \<or> c_version run < c_version cur"
    using assms(2) by (auto simp: coherent_def)
  then obtain b where "m' (c_id run) = Some b" "legal\<^sup>*\<^sup>* cur b"
    using assms(1) [unfolded moves_def, THEN spec, of "c_id run"] by auto
  with cur(2) show ?thesis
    using legal_path_version [of cur b] by (auto simp: coherent_def)
qed

subsection \<open>The repository the manager relies on\<close>

text \<open>
  Other actors (a second replica, the background reconciler) may write between any two calls. The
  laws let the stored runs move legally before and after each write: a write applies to the runs
  \<open>m\<close> found at that moment, succeeds only on the expected version, and counts the version.
\<close>

locale chaos_repository =
  fixes repo :: "'s chaos_repo"
    and runs :: "'s \<Rightarrow> string \<Rightarrow> chaos_run option"
    and inv :: "'s \<Rightarrow> bool"
  assumes get: "inv s \<Longrightarrow> repo_get repo i s = Inr run \<Longrightarrow> runs s i = Some run \<and> c_id run = i"
    and list: "inv s \<Longrightarrow> repo_list repo s = Inr rs \<Longrightarrow> run \<in> set rs \<Longrightarrow> runs s (c_id run) = Some run"
    and update_ok: "inv s \<Longrightarrow> repo_update repo run v actor act s = (Inr r, s') \<Longrightarrow>
      \<exists>m cur. moves (runs s) m \<and> m (c_id run) = Some cur \<and> c_version cur = v \<and> c_version run = v \<and>
        r = run\<lparr>c_version := v + 1\<rparr> \<and> moves (m(c_id run \<mapsto> r)) (runs s') \<and> inv s'"
    and update_err: "inv s \<Longrightarrow> repo_update repo run v actor act s = (Inl e, s') \<Longrightarrow>
      moves (runs s) (runs s') \<and> inv s'"
    and create_ok: "inv s \<Longrightarrow> repo_create repo run actor act s = (Inr r, s') \<Longrightarrow>
      \<exists>m. moves (runs s) m \<and> m (c_id run) = None \<and> c_version run = 0 \<and> r = run\<lparr>c_version := 1\<rparr> \<and>
        moves (m(c_id run \<mapsto> r)) (runs s') \<and> inv s'"
    and create_err: "inv s \<Longrightarrow> repo_create repo run actor act s = (Inl e, s') \<Longrightarrow>
      moves (runs s) (runs s') \<and> inv s'"
begin

text \<open>The guarantee of a computation started in \<open>s\<close>: stored runs move legally.\<close>

definition guar :: "'s \<Rightarrow> ('s, 'w, 'a) managed \<Rightarrow> bool" where
  "guar s r \<longleftrightarrow> inv (fst (snd r)) \<and> moves (runs s) (runs (fst (snd r)))"

lemma guar_return: "inv (fst st) \<Longrightarrow> guar (fst st) (x, st)"
  by (simp add: guar_def)

lemma guar_bind:
  assumes "guar s p" "\<And>a st. p = (Inr a, st) \<Longrightarrow> inv (fst st) \<Longrightarrow> guar (fst st) (f a st)"
  shows "guar s (bindR p f)"
proof (cases "fst p")
  case (Inl e)
  then have "bindR p f = (Inl e, snd p)" by (cases p) (simp add: bindR_def)
  with assms(1) show ?thesis by (simp add: guar_def)
next
  case (Inr a)
  then have p: "p = (Inr a, snd p)" by (cases p) simp
  then have f: "guar (fst (snd p)) (f a (snd p))" using assms by (auto simp: guar_def)
  have "bindR p f = f a (snd p)" using Inr by (cases p) (simp add: bindR_def)
  with f assms(1) show ?thesis by (auto simp: guar_def intro: moves_trans)
qed

lemma guar_discard: "guar s r \<Longrightarrow> guar s (discard r)"
  unfolding discard_def by (rule guar_bind) (auto simp: guar_def)

lemma guar_onCluster: "inv (fst st) \<Longrightarrow> guar (fst st) (onCluster call st)"
  by (auto simp: guar_def onCluster_def split: prod.splits sum.splits)

lemma guar_unchanged: "inv s \<Longrightarrow> guar s (x, s, w)"
  by (simp add: guar_def)

lemma guar_after_call:
  assumes "inv s" "\<And>a w'. guar s (f a (s, w'))"
  shows "guar s (bindR (onCluster call (s, w)) f)"
  using assms by (auto simp: guar_def onCluster_def split: prod.splits sum.splits)

lemma guar_readRun:
  assumes "inv (fst st)"
    "\<And>run. runs (fst st) i = Some run \<Longrightarrow> c_id run = i \<Longrightarrow> coherent (runs (fst st)) run \<Longrightarrow> guar (fst st) (f run st)"
  shows "guar (fst st) (bindR (readRun repo i st) f)"
  using assms get [of "fst st" i]
  by (auto simp: readRun_def guar_def coherent_def split: sum.splits)

text \<open>A write of a coherent run either fails on the version or is a legal move of what is stored.\<close>

lemma guar_saveRun:
  assumes "inv (fst st)" "coherent (runs (fst st)) run"
    and "c_id new = c_id run" "c_version new = c_version run" "legal run (new\<lparr>c_version := c_version new + 1\<rparr>)"
  shows "guar (fst st) (saveRun repo new actor act st)"
proof (cases "repo_update repo new (c_version new) actor act (fst st)")
  case (Pair x s')
  show ?thesis
  proof (cases x)
    case (Inl e)
    then show ?thesis using update_err [OF assms(1)] Pair by (auto simp: saveRun_def guar_def)
  next
    case (Inr r)
    from update_ok [OF assms(1), of new "c_version new" actor act r s'] Pair Inr assms(3)
    obtain m cur where m: "moves (runs (fst st)) m" "m (c_id run) = Some cur" "c_version cur = c_version new"
      and r: "r = new\<lparr>c_version := c_version new + 1\<rparr>" "moves (m(c_id run \<mapsto> r)) (runs s')" "inv s'"
      by auto
    have "cur = run" using coherent_stable [OF m(1) assms(2)] assms(4) m(2,3) by (auto simp: coherent_def)
    then have "moves m (m(c_id run \<mapsto> r))" using m(2) r(1) assms(5) by (simp add: moves_update)
    then have "moves (runs (fst st)) (runs s')" using m(1) r(2) by (blast intro: moves_trans)
    then show ?thesis using r(3) Pair Inr by (simp add: saveRun_def guar_def)
  qed
qed

lemma guar_write:
  assumes "inv s" "coherent (runs s) run"
    and "c_id new = c_id run" "c_version new = c_version run" "legal run (new\<lparr>c_version := c_version new + 1\<rparr>)"
  shows "guar s (discard (saveRun repo new actor act (s, w)))"
  using guar_discard [OF guar_saveRun [of "(s, w)" run new]] assms by simp

lemma saved_run:
  assumes "inv (fst st)" "saveRun repo new actor act st = (Inr r, st')"
  shows "r = new\<lparr>c_version := c_version new + 1\<rparr>" "coherent (runs (fst st')) r"
proof -
  have "repo_update repo new (c_version new) actor act (fst st) = (Inr r, fst st')"
    using assms(2) by (auto simp: saveRun_def split: prod.splits sum.splits)
  from update_ok [OF assms(1) this]
  obtain m where r: "r = new\<lparr>c_version := c_version new + 1\<rparr>" "moves (m(c_id new \<mapsto> r)) (runs (fst st'))"
    by auto
  moreover have "coherent (m(c_id new \<mapsto> r)) r" by (rule coherent_current) (simp add: r(1))
  ultimately show "r = new\<lparr>c_version := c_version new + 1\<rparr>" "coherent (runs (fst st')) r"
    by (auto intro: coherent_stable)
qed

lemma guar_read: "inv (fst st) \<Longrightarrow> guar (fst st) (readRun repo i st)"
  by (auto simp: readRun_def guar_def split: sum.splits)

lemmas guar_rules = guar_discard guar_return guar_after_call guar_onCluster guar_read

lemmas legal_simps = legal_def same_request_def terminal_def

subsubsection \<open>Reconciliation\<close>

lemma guar_expire:
  "inv (fst st) \<Longrightarrow> coherent (runs (fst st)) run \<Longrightarrow> c_status run \<in> {ChaosPendingApproval, ChaosApproved} \<Longrightarrow>
   guar (fst st) (expire repo now run st)"
  unfolding expire_def
  by (rule guar_saveRun [where run = run], simp_all only: insert_iff empty_iff simp_thms; elim disjE)
    (simp_all add: legal_simps)

lemma guar_startOrRetry:
  assumes "inv s" "coherent (runs s) run" "c_status run = ChaosExecutionRequested"
  shows "guar s (startOrRetry r env repo now run (s, w))"
  using assms(3)
  by (auto simp: startOrRetry_def Let_def chaosMaxAttempts_def legal_simps split: prod.splits sum.splits
    intro!: guar_write [OF assms(1,2)])

lemma guar_awaitInjection:
  assumes "inv s" "coherent (runs s) run" "c_status run = ChaosExecutionRequested"
  shows "guar s (awaitInjection r env repo now run (s, w))"
proof -
  note save = guar_write [OF assms(1,2)]
  show ?thesis
    using assms(1,3) unfolding awaitInjection_def
    by (auto simp: Let_def legal_simps split: option.splits intro!: guar_after_call save guar_unchanged)
qed

lemma guar_reconcileRequested:
  assumes "inv s" "coherent (runs s) run" "c_status run = ChaosExecutionRequested"
  shows "guar s (reconcileRequested r env repo now run (s, w))"
  using assms unfolding reconcileRequested_def
  by (auto simp: legal_simps intro!: guar_after_call guar_write [OF assms(1,2)] guar_startOrRetry guar_awaitInjection)

lemma guar_reconcileCleanup:
  assumes "inv s" "coherent (runs s) run" "c_status run = ChaosCleanupRequested"
  shows "guar s (reconcileCleanup r env repo now run (s, w))"
  using assms unfolding reconcileCleanup_def
  by (auto simp: legal_simps intro!: guar_after_call guar_write [OF assms(1,2)] guar_unchanged)

lemma guar_reconcileRunning:
  assumes "inv s" "coherent (runs s) run" "c_status run = ChaosRunning"
  shows "guar s (reconcileRunning r env repo now run (s, w))"
proof -
  have elapsed: "guar s (bindR (saveRun repo (run\<lparr>c_status := ChaosCleanupRequested, c_message := msg, c_updatedAt := now\<rparr>)
      actor act (s, w')) (\<lambda>run1 st. reconcileCleanup r env repo now run1 st))" (is "guar s (bindR ?save _)")
    for msg actor act w'
  proof (rule guar_bind)
    show "guar s ?save" using guar_saveRun [of "(s, w')" run] assms by (simp add: legal_simps)
    fix run1 st
    assume "?save = (Inr run1, st)" "inv (fst st)"
    with saved_run [OF _ \<open>?save = (Inr run1, st)\<close>] assms(1)
    have "c_status run1 = ChaosCleanupRequested" "coherent (runs (fst st)) run1" by simp_all
    with \<open>inv (fst st)\<close> show "guar (fst st) (reconcileCleanup r env repo now run1 st)"
      using guar_reconcileCleanup [of "fst st" run1 r env now "snd st"] by simp
  qed
  show ?thesis
    using assms(1,3) unfolding reconcileRunning_def
    by (auto simp: Let_def legal_simps split: option.splits
      intro!: guar_after_call guar_write [OF assms(1,2)] guar_unchanged elapsed)
qed

lemma guar_reconcileAbort:
  assumes "inv s" "coherent (runs s) run" "c_status run = ChaosAbortRequested"
  shows "guar s (reconcileAbort r env repo now run (s, w))"
  using assms unfolding reconcileAbort_def
  by (auto simp: legal_simps intro!: guar_after_call guar_write [OF assms(1,2)] guar_unchanged)

lemma guar_reconcileVerifying:
  assumes "inv s" "coherent (runs s) run" "c_status run = ChaosVerifying"
  shows "guar s (reconcileVerifying r env repo now run (s, w))"
  using assms guar_onCluster [of "(s, _)"] unfolding reconcileVerifying_def
  by (auto simp: Let_def legal_simps intro!: guar_after_call guar_write [OF assms(1,2)] guar_unchanged)

lemma guar_reconcileOne:
  assumes "inv (fst st)" "coherent (runs (fst st)) run"
  shows "guar (fst st) (reconcileOne r env repo now run st)"
proof (cases st)
  case (Pair s w)
  have "guar s (discard (expire repo now run (s, w)))" if "c_status run = ChaosPendingApproval"
    using guar_discard [OF guar_expire [of "(s, w)" run]] assms that Pair by auto
  then show ?thesis
    using assms Pair unfolding reconcileOne_def
    by (auto split: chaos_status.splits intro: guar_unchanged guar_reconcileRequested guar_reconcileRunning
      guar_reconcileCleanup guar_reconcileAbort guar_reconcileVerifying)
qed

text \<open>The reconciler works on the runs as they were listed, also after it has changed some.\<close>

lemma reconcileList_guar:
  assumes "inv (fst st)" "\<And>run. run \<in> set rs \<Longrightarrow> coherent (runs (fst st)) run"
  shows "inv (fst (reconcileList r env repo clock rs st)) \<and>
    moves (runs (fst st)) (runs (fst (reconcileList r env repo clock rs st)))"
  using assms
proof (induction rs arbitrary: st)
  case (Cons run rs)
  define st1 where "st1 = (if \<not> chaosActive (c_status run) \<and> c_status run \<noteq> ChaosPendingApproval then st
        else snd (reconcileOne r env repo (clock (length rs)) run st))"
  have st1: "inv (fst st1) \<and> moves (runs (fst st)) (runs (fst st1))"
    using guar_reconcileOne [of st run] Cons.prems by (auto simp: st1_def guar_def)
  then have "inv (fst (reconcileList r env repo clock rs st1)) \<and>
      moves (runs (fst st1)) (runs (fst (reconcileList r env repo clock rs st1)))"
    using Cons.prems by (intro Cons.IH) (auto intro: coherent_stable)
  with st1 show ?case by (auto simp: st1_def [symmetric] intro: moves_trans)
qed simp

lemma reconcileAll_guar:
  assumes "inv (fst st)"
  shows "inv (fst (reconcileAll r env repo clock st)) \<and>
    moves (runs (fst st)) (runs (fst (reconcileAll r env repo clock st)))"
proof (cases "repo_list repo (fst st)")
  case (Inr rs)
  then show ?thesis
    using reconcileList_guar [OF assms, of rs] list [OF assms Inr]
    by (simp add: reconcileAll_def coherent_current)
qed (use assms in \<open>simp add: reconcileAll_def\<close>)

subsubsection \<open>Requests\<close>

lemma Preflight_run:
  assumes "Preflight r env now experimentID manifest discover w = (Inr run, w')"
  obtains object targets message where "run = preflightRun env now experimentID manifest object targets message"
  using assms by (auto simp: Preflight_def bindR_Inr split: sum.splits option.splits if_splits)

lemma requested_initial:
  assumes "Preflight r env now experimentID manifest discover w = (Inr run0, w')"
  shows "initial_run ((requestedRun m now' uuid actor run0)\<lparr>c_version := 1\<rparr>)"
  using assms
  by (elim Preflight_run) (auto simp: requestedRun_def preflightRun_def initial_run_def Let_def split: prod.splits)

lemma guar_Request:
  assumes "inv (fst st)"
  shows "guar (fst st) (Request m env repo now uuid experimentID manifest actor st)"
proof (cases "cm_runner m")
  case (Some r)
  let ?call = "Preflight r env now experimentID manifest (cm_executionEnabled m)"
  have created: "moves (runs (fst st)) (runs s') \<and> inv s'"
    if pre: "?call (snd st) = (Inr run0, w')"
      and made: "repo_create repo (requestedRun m now uuid actor run0) actor act (fst st) = (x, s')" for run0 w' act x s'
  proof (cases x)
    case (Inl e)
    with create_err [OF assms] made show ?thesis by blast
  next
    case (Inr run)
    let ?new = "(requestedRun m now uuid actor run0)\<lparr>c_version := 1\<rparr>"
    from create_ok [OF assms] made Inr obtain m' where "moves (runs (fst st)) m'" "m' (c_id ?new) = None"
      "moves (m'(c_id ?new \<mapsto> ?new)) (runs s')" "inv s'" by fastforce
    with moves_create [OF _ requested_initial [OF pre], of m' m now uuid actor] show ?thesis
      by (blast intro: moves_trans)
  qed
  show ?thesis
    using Some assms created
    by (auto simp: Request_def guar_def onCluster_def bindR_def split: prod.splits sum.splits)
qed (simp add: Request_def guar_return assms)

lemma guar_expire_then:
  assumes "inv (fst st)" "coherent (runs (fst st)) run" "c_status run \<in> {ChaosPendingApproval, ChaosApproved}"
  shows "guar (fst st) (bindR (expire repo now run st) (\<lambda>_ st2. (Inl e, st2)))"
  by (rule guar_bind [OF guar_expire [OF assms]]) (rule guar_return)

lemma guar_pendingRun:
  assumes "inv (fst st)"
  shows "guar (fst st) (pendingRun repo now i actor selfError st)"
  unfolding pendingRun_def
  by (rule guar_readRun [OF assms]) (auto intro!: guar_return guar_expire_then assms)

lemma pendingRun_Inr:
  assumes "inv (fst st)" "pendingRun repo now i actor selfError st = (Inr run, st')"
  shows "st' = st \<and> coherent (runs (fst st)) run \<and> c_status run = ChaosPendingApproval \<and> actor \<noteq> c_requestedBy run"
  using assms get [OF assms(1)]
  by (auto simp: pendingRun_def readRun_def bindR_Inr intro!: coherent_current split: if_splits sum.splits)

lemma guar_decision:
  assumes "inv (fst st)"
    and "\<And>run. coherent (runs (fst st)) run \<Longrightarrow> c_status run = ChaosPendingApproval \<Longrightarrow>
      actor \<noteq> c_requestedBy run \<Longrightarrow> guar (fst st) (f run st)"
  shows "guar (fst st) (bindR (pendingRun repo now i actor selfError st) f)"
  using assms by (intro guar_bind guar_pendingRun) (auto dest: pendingRun_Inr)

lemma guar_Approve: "inv (fst st) \<Longrightarrow> guar (fst st) (ApproveChaos repo now i actor reason st)"
  by (auto simp: ApproveChaos_def Let_def legal_simps intro!: guar_return guar_decision guar_saveRun)

lemma guar_Reject: "inv (fst st) \<Longrightarrow> guar (fst st) (RejectChaos repo now i actor reason st)"
  by (auto simp: RejectChaos_def Let_def legal_simps intro!: guar_return guar_decision guar_saveRun)

lemma guar_save_reconcile:
  assumes "inv (fst st)" "coherent (runs (fst st)) run"
    and "c_id new = c_id run" "c_version new = c_version run" "legal run (new\<lparr>c_version := c_version new + 1\<rparr>)"
  shows "guar (fst st) (bindR (saveRun repo new actor act st) (\<lambda>run1 st2.
    bindR (reconcileOne r env repo now run1 st2) (\<lambda>_ st3. readRun repo i st3)))"
proof (rule guar_bind [OF guar_saveRun [OF assms]])
  fix run1 st2
  assume "saveRun repo new actor act st = (Inr run1, st2)" "inv (fst st2)"
  then show "guar (fst st2) (bindR (reconcileOne r env repo now run1 st2) (\<lambda>_ st3. readRun repo i st3))"
    using saved_run [OF assms(1)] by (intro guar_bind guar_reconcileOne guar_read)
qed

lemma guar_Execute:
  assumes "inv (fst st)"
  shows "guar (fst st) (ExecuteChaos m r env repo now i actor st)"
  using assms unfolding ExecuteChaos_def
  by (auto simp: legal_simps intro!: guar_return guar_readRun guar_expire_then guar_save_reconcile)

lemma guar_Abort:
  assumes "inv (fst st)"
  shows "guar (fst st) (AbortChaos r env repo now i actor reason st)"
proof -
  have "guar (fst st) (if \<not> abortable (c_status run) then (Inl e, st)
      else if c_status run = ChaosPendingApproval \<or> c_status run = ChaosApproved then
        saveRun repo (run\<lparr>c_status := ChaosAborted, c_abortedBy := actor, c_message := m1, c_updatedAt := now,
          c_finishedAt := Some now\<rparr>) actor act1 st
      else bindR (saveRun repo (run\<lparr>c_status := ChaosAbortRequested, c_abortedBy := actor, c_message := m2,
          c_updatedAt := now, c_recoveryDeadline := Some deadline\<rparr>) actor act2 st)
        (\<lambda>run1 st2. bindR (reconcileOne r env repo now run1 st2) (\<lambda>_ st3. readRun repo i st3)))"
    if "coherent (runs (fst st)) run" for run e m1 m2 act1 act2 deadline
    using that assms
    by (cases "c_status run")
      (simp_all add: abortable_def guar_return guar_saveRun [OF assms that] guar_save_reconcile [OF assms that] legal_simps)
  then show ?thesis
    unfolding AbortChaos_def Let_def
    using assms by (auto intro!: guar_return guar_readRun simp del: if_split)
qed

lemma guar_Get:
  assumes "inv (fst st)"
  shows "guar (fst st) (GetChaos r env repo now i st)"
  unfolding GetChaos_def
  using assms by (auto intro!: guar_readRun guar_return guar_bind [OF guar_reconcileOne] guar_read)

end

subsection \<open>The in-memory repository, alone and with other writers\<close>

definition stored :: "store \<Rightarrow> string \<Rightarrow> chaos_run option" where
  "stored s = gget (st_chaosRuns s)"

lemma stored_id: "store_ok s \<Longrightarrow> stored s i = Some run \<Longrightarrow> c_id run = i"
  by (auto simp: stored_def dest: store_okD(5) keyed_get)

lemma stored_audit [simp]: "stored (appendChaosAuditLocked run actor act s) = stored s"
  by (simp add: stored_def appendChaosAuditLocked_def)

lemma stored_put [simp]: "stored (s\<lparr>st_chaosRuns := gput i run (st_chaosRuns s)\<rparr>) = (stored s)(i \<mapsto> run)"
  by (auto simp: stored_def)

lemma GetChaosRun_stored: "GetChaosRun ctx i s = Inr run \<longleftrightarrow> ctx = None \<and> stored s i = Some run"
  by (auto simp: GetChaosRun_def stored_def split: option.splits)

lemma ListChaosRuns_stored:
  assumes "store_ok s" "ListChaosRuns ctx s = Inr rs" "run \<in> set rs"
  shows "stored s (c_id run) = Some run"
proof -
  obtain k where "(k, run) \<in> set (st_chaosRuns s)"
    using assms(2,3) by (auto simp: ListChaosRuns_def split: option.splits)
  then show ?thesis
    using keyed_entry [OF store_okD(5) [OF assms(1)]] by (auto simp: stored_def)
qed

lemma UpdateChaosRun_stored:
  "UpdateChaosRun ctx run v actor act s = (Inr r, s') \<Longrightarrow>
   (\<exists>cur. stored s (c_id run) = Some cur \<and> c_version cur = v) \<and> c_version run = v \<and>
   r = run\<lparr>c_version := v + 1\<rparr> \<and> stored s' = (stored s)(c_id run \<mapsto> r)"
  by (auto simp: UpdateChaosRun_def Let_def stored_def [symmetric] split: option.splits if_splits)

lemma CreateChaosRun_stored:
  "CreateChaosRun ctx run actor act s = (Inr r, s') \<Longrightarrow>
   stored s (c_id run) = None \<and> c_version run = 0 \<and> r = run\<lparr>c_version := 1\<rparr> \<and>
   stored s' = (stored s)(c_id run \<mapsto> r)"
  by (auto simp: CreateChaosRun_def Let_def stored_def [symmetric] split: option.splits if_splits)

lemma failed_write_unchanged:
  "UpdateChaosRun ctx run v actor act s = (Inl e, s') \<Longrightarrow> s' = s"
  "CreateChaosRun ctx run actor act s = (Inl e, s') \<Longrightarrow> s' = s"
  by (auto simp: UpdateChaosRun_def CreateChaosRun_def Let_def split: option.splits if_splits)

lemma write_ok:
  "store_ok s \<Longrightarrow> UpdateChaosRun ctx run v actor act s = (x, s') \<Longrightarrow> store_ok s'"
  "store_ok s \<Longrightarrow> CreateChaosRun ctx run actor act s = (x, s') \<Longrightarrow> store_ok s'"
  using chaos_calls_ok by (metis snd_conv)+

text \<open>The actions of other writers, as functions on the store that keep it well formed and move runs legally.\<close>

definition respectful :: "(store \<Rightarrow> store) \<Rightarrow> bool" where
  "respectful f \<longleftrightarrow> (\<forall>s. store_ok s \<longrightarrow> store_ok (f s) \<and> moves (stored s) (stored (f s)))"

fun otherTurn :: "store \<times> (store \<Rightarrow> store) list \<Rightarrow> store \<times> (store \<Rightarrow> store) list" where
  "otherTurn (s, []) = (s, [])"
| "otherTurn (s, f # fs) = (f s, fs)"

definition interleaved_repo :: "ctx_err \<Rightarrow> (store \<times> (store \<Rightarrow> store) list) chaos_repo" where
  "interleaved_repo ctx =
     \<lparr>repo_create = (\<lambda>run actor act st. let (s1, fs) = otherTurn st; (x, s2) = CreateChaosRun ctx run actor act s1
                      in (x, otherTurn (s2, fs))),
      repo_get = (\<lambda>i st. GetChaosRun ctx i (fst st)), repo_list = (\<lambda>st. ListChaosRuns ctx (fst st)),
      repo_update = (\<lambda>run v actor act st. let (s1, fs) = otherTurn st; (x, s2) = UpdateChaosRun ctx run v actor act s1
                      in (x, otherTurn (s2, fs)))\<rparr>"

definition shared_ok :: "store \<times> (store \<Rightarrow> store) list \<Rightarrow> bool" where
  "shared_ok st \<longleftrightarrow> store_ok (fst st) \<and> list_all respectful (snd st)"

lemma otherTurn_ok:
  "shared_ok st \<Longrightarrow> shared_ok (otherTurn st) \<and> moves (stored (fst st)) (stored (fst (otherTurn st)))"
  by (cases st rule: otherTurn.cases) (auto simp: shared_ok_def respectful_def)

interpretation shared: chaos_repository "interleaved_repo ctx" "\<lambda>st. stored (fst st)" shared_ok for ctx
proof (unfold_locales, goal_cases)
  case (1 s i run)
  then show ?case
    by (auto simp: interleaved_repo_def shared_ok_def GetChaosRun_stored dest: stored_id)
next
  case (2 s rs run)
  then show ?case by (auto simp: interleaved_repo_def shared_ok_def dest: ListChaosRuns_stored)
next
  case (3 s run v actor act r s')
  obtain s1 fs where turn: "otherTurn s = (s1, fs)" by force
  with 3 obtain s2 where "UpdateChaosRun ctx run v actor act s1 = (Inr r, s2)" "s' = otherTurn (s2, fs)"
    by (auto simp: interleaved_repo_def Let_def split: prod.splits)
  with UpdateChaosRun_stored [of ctx run v actor act s1 r s2] otherTurn_ok [OF 3(1)] otherTurn_ok [of "(s2, fs)"]
    write_ok(1) [of s1 ctx run v actor act "Inr r" s2] turn
  show ?case by (auto simp: shared_ok_def intro!: exI [of _ "stored s1"])
next
  case (4 s run v actor act e s')
  obtain s1 fs where turn: "otherTurn s = (s1, fs)" by force
  with 4 have "s' = otherTurn (s1, fs)"
    by (auto simp: interleaved_repo_def Let_def dest: failed_write_unchanged split: prod.splits)
  with otherTurn_ok [OF 4(1)] otherTurn_ok [of "(s1, fs)"] turn show ?case by (auto intro: moves_trans)
next
  case (5 s run actor act r s')
  obtain s1 fs where turn: "otherTurn s = (s1, fs)" by force
  with 5 obtain s2 where "CreateChaosRun ctx run actor act s1 = (Inr r, s2)" "s' = otherTurn (s2, fs)"
    by (auto simp: interleaved_repo_def Let_def split: prod.splits)
  with CreateChaosRun_stored [of ctx run actor act s1 r s2] otherTurn_ok [OF 5(1)] otherTurn_ok [of "(s2, fs)"]
    write_ok(2) [of s1 ctx run actor act "Inr r" s2] turn
  show ?case by (auto simp: shared_ok_def intro!: exI [of _ "stored s1"])
next
  case (6 s run actor act e s')
  obtain s1 fs where turn: "otherTurn s = (s1, fs)" by force
  with 6 have "s' = otherTurn (s1, fs)"
    by (auto simp: interleaved_repo_def Let_def dest: failed_write_unchanged split: prod.splits)
  with otherTurn_ok [OF 6(1)] otherTurn_ok [of "(s1, fs)"] turn show ?case by (auto intro: moves_trans)
qed

interpretation mem: chaos_repository "memory_repo ctx" stored store_ok for ctx
proof (unfold_locales, goal_cases)
  case (1 s i run)
  then show ?case by (auto simp: memory_repo_def GetChaosRun_stored dest: stored_id)
next
  case (2 s rs run)
  then show ?case by (auto simp: memory_repo_def dest: ListChaosRuns_stored)
next
  case (3 s run v actor act r s')
  then show ?case
    using UpdateChaosRun_stored [of ctx run v actor act s r s'] write_ok(1) [of s ctx run v actor act "Inr r" s']
    by (auto simp: memory_repo_def intro!: exI [of _ "stored s"])
next
  case (4 s run v actor act e s')
  then show ?case by (auto simp: memory_repo_def dest: failed_write_unchanged)
next
  case (5 s run actor act r s')
  then show ?case
    using CreateChaosRun_stored [of ctx run actor act s r s'] write_ok(2) [of s ctx run actor act "Inr r" s']
    by (auto simp: memory_repo_def intro!: exI [of _ "stored s"])
next
  case (6 s run actor act e s')
  then show ?case by (auto simp: memory_repo_def dest: failed_write_unchanged)
qed

subsection \<open>Calls of the manager\<close>

datatype chaos_call =
    CallRequest gotime string string string string
  | CallApprove gotime string string string
  | CallReject gotime string string string
  | CallExecute gotime string string
  | CallAbort gotime string string string
  | CallGet gotime string
  | CallReconcile "nat \<Rightarrow> gotime"

fun perform ::
    "chaos_manager \<Rightarrow> chaos_runner \<Rightarrow> 'w chaos_env \<Rightarrow> 's chaos_repo \<Rightarrow> chaos_call \<Rightarrow> 's \<times> 'w \<Rightarrow> 's \<times> 'w" where
  "perform m r env repo (CallRequest now uuid experimentID manifest actor) st =
     snd (Request m env repo now uuid experimentID manifest actor st)"
| "perform m r env repo (CallApprove now i actor reason) st = snd (ApproveChaos repo now i actor reason st)"
| "perform m r env repo (CallReject now i actor reason) st = snd (RejectChaos repo now i actor reason st)"
| "perform m r env repo (CallExecute now i actor) st = snd (ExecuteChaos m r env repo now i actor st)"
| "perform m r env repo (CallAbort now i actor reason) st = snd (AbortChaos r env repo now i actor reason st)"
| "perform m r env repo (CallGet now i) st = snd (GetChaos r env repo now i st)"
| "perform m r env repo (CallReconcile clock) st = reconcileAll r env repo clock st"

context chaos_repository
begin

lemma perform_moves:
  assumes "inv (fst st)"
  shows "inv (fst (perform m r env repo call st)) \<and> moves (runs (fst st)) (runs (fst (perform m r env repo call st)))"
  using reconcileAll_guar [OF assms, of r env]
    guar_Request [OF assms, of m env] guar_Approve [OF assms] guar_Reject [OF assms] guar_Execute [OF assms, of m r env]
    guar_Abort [OF assms, of r env] guar_Get [OF assms, of r env]
  by (cases call) (simp_all add: guar_def)

lemma performs_move:
  assumes "inv (fst st)"
  shows "inv (fst (fold (perform m r env repo) calls st)) \<and>
    moves (runs (fst st)) (runs (fst (fold (perform m r env repo) calls st)))"
  using assms
proof (induction calls arbitrary: st)
  case (Cons call calls)
  have call: "inv (fst (perform m r env repo call st))" "moves (runs (fst st)) (runs (fst (perform m r env repo call st)))"
    using perform_moves [OF Cons.prems, of m r env call] by blast+
  from Cons.IH [OF call(1)] call(2) show ?case
    by (metis fold_simps(2) moves_trans)
qed simp

end

definition chaosCalls ::
    "chaos_manager \<Rightarrow> chaos_runner \<Rightarrow> 'w chaos_env \<Rightarrow> ctx_err \<Rightarrow> chaos_call list \<Rightarrow> (store \<Rightarrow> store) list \<Rightarrow> store \<Rightarrow> 'w \<Rightarrow> store" where
  "chaosCalls m r env ctx calls others s w =
     fst (fst (fold (perform m r env (interleaved_repo ctx)) calls ((s, others), w)))"

lemma chaosCalls_moves:
  assumes "store_ok s" "list_all respectful others"
  shows "store_ok (chaosCalls m r env ctx calls others s w)"
    and "moves (stored s) (stored (chaosCalls m r env ctx calls others s w))"
  using shared.performs_move [of "((s, others), w)" m r env ctx calls] assms
  by (simp_all add: chaosCalls_def shared_ok_def)

lemma chaosCalls_run_ok:
  assumes "store_ok s" "st_chaosRuns s = []" "list_all respectful others"
    and "stored (chaosCalls m r env ctx calls others s w) i = Some c"
  shows "run_ok c"
proof -
  have "stored s i = None" for i using assms(2) by (simp add: stored_def)
  then show ?thesis
    using moves_run_ok [OF chaosCalls_moves(2) [OF assms(1,3)] _ assms(4)] by simp
qed

lemma perform_respectful: "respectful (\<lambda>s. fst (perform m r env (memory_repo ctx) call (s, w)))"
  using mem.perform_moves [of "(_, w)" m r env ctx call] by (simp add: respectful_def)

text \<open>
  C1. The chaos manager refines the life cycle of chaos runs: whatever sequence of requests,
  decisions, executions, aborts, reads and reconciliations is performed, whatever the cluster
  answers, and whatever legal writes other replicas make before and after each write of this one,
  the repository stays well formed, a stored run only ever follows legal moves, and a new run
  starts in an initial state. The calls of a manager are themselves such legal writes, so any
  number of managers may share the repository.
\<close>

theorem chaos_lifecycle_refined:
  "\<lbrakk>store_ok s; list_all respectful others\<rbrakk> \<Longrightarrow>
   store_ok (chaosCalls m r env ctx calls others s w) \<and>
   moves (stored s) (stored (chaosCalls m r env ctx calls others s w)) \<and>
   respectful (\<lambda>s. fst (perform m r env (memory_repo ctx) call (s, w)))"
  by (simp add: chaosCalls_moves perform_respectful)

text \<open>
  C8. Every chaos run that the managers ever store obeys the rules of the platform: from approval on
  it carries a reason and an approver who is not the requester, it has at most three creation
  attempts and fewer while it is active, a run that injects, cleans up, verifies or aborts has a
  recovery deadline, and a succeeded run has verified recovery and no failure reason.
\<close>

theorem chaos_runs_obey_rules:
  assumes "store_ok s" "st_chaosRuns s = []" "list_all respectful others"
  shows "list_all (\<lambda>(i, c). c_id c = i \<and> run_ok c) (st_chaosRuns (chaosCalls m r env ctx calls others s w))"
  using keyed_entry [OF store_okD(5) [OF chaosCalls_moves(1) [OF assms(1,3)]]] chaosCalls_run_ok [OF assms]
  by (fastforce simp: list_all_iff stored_def)

text \<open>
  A chaos run that has reached a terminal state, and one that was only validated, is never
  changed again by any sequence of calls: rejected, expired, aborted, failed and succeeded runs
  are final. And no call changes what was requested, or lowers the version of a run.
\<close>

theorem chaos_terminal_final:
  assumes "store_ok s" "list_all respectful others" "gget (st_chaosRuns s) i = Some a"
  shows "\<exists>b. gget (st_chaosRuns (chaosCalls m r env ctx calls others s w)) i = Some b \<and> same_request a b \<and>
    (if terminal (c_status a) then b = a else c_version a \<le> c_version b)"
proof -
  let ?s = "chaosCalls m r env ctx calls others s w"
  have "moves (stored s) (stored ?s)" by (rule chaosCalls_moves [OF assms(1,2)])
  from this [unfolded moves_def, THEN spec, of i] assms(3)
  obtain b where b: "gget (st_chaosRuns ?s) i = Some b" "legal\<^sup>*\<^sup>* a b" by (auto simp: stored_def)
  then show ?thesis
    using legal_path_terminal legal_path_version [OF b(2)] legal_path_request by (intro exI [of _ b]) auto
qed

end
