(* ===== verification/ChaosSafety.thy ===== *)
theory ChaosSafety
  imports Go_Prelude Json CoreTypes MemoryStore StoreInvariant GoDuration ChaosRunner ChaosManager ChaosLifecycle
begin

text \<open>
  What the chaos runner guarantees of the cluster: bounds of every admitted experiment, the checks
  in front of every creation, and the observations that the manager's progress rests on. The
  theory also holds the small simulated cluster on which the witnesses of the chaos theories run.
\<close>

subsection \<open>A simulated cluster\<close>

fun jfield :: "json \<Rightarrow> string list \<Rightarrow> json option" where
  "jfield v [] = Some v"
| "jfield (JObj ms) (k # ks) = (case map_of ms k of Some v \<Rightarrow> jfield v ks | None \<Rightarrow> None)"
| "jfield _ _ = None"

definition jtext :: "json \<Rightarrow> string list \<Rightarrow> string" where
  "jtext v ks = (case jfield v ks of Some (JStr s) \<Rightarrow> s | _ \<Rightarrow> '''')"

definition jlabels :: "json \<Rightarrow> string list \<Rightarrow> (string, string) gomap" where
  "jlabels v ks =
     (case jfield v ks of Some (JObj ms) \<Rightarrow> map (\<lambda>(k, x). (k, case x of JStr s \<Rightarrow> s | _ \<Rightarrow> '''')) ms | _ \<Rightarrow> [])"

definition jlist :: "json \<Rightarrow> string list \<Rightarrow> json list" where
  "jlist v ks = (case jfield v ks of Some (JArr xs) \<Rightarrow> xs | _ \<Rightarrow> [])"

definition sample_pod :: json where
  "sample_pod = JObj [(''kind'', JStr ''Pod''),
     (''metadata'', JObj [(''name'', JStr ''web-0''), (''namespace'', JStr ''default''),
        (''labels'', JObj [(''app'', JStr ''web'')])]),
     (''status'', JObj [(''phase'', JStr ''Running''),
        (''conditions'', JArr [JObj [(''type'', JStr ''Ready''), (''status'', JStr ''True'')]])])]"

text \<open>A network delay on one pod, with the given labels and status.\<close>

definition sample_chaos :: "(string, string) gomap \<Rightarrow> (string \<times> json) list \<Rightarrow> json" where
  "sample_chaos labels status = JObj ([(''apiVersion'', JStr ''chaos-mesh.org/v1alpha1''), (''kind'', JStr ''NetworkChaos''),
     (''metadata'', JObj [(''name'', JStr ''slow''), (''namespace'', JStr ''default''),
        (''labels'', JObj (map (\<lambda>(k, v). (k, JStr v)) labels))]),
     (''spec'', JObj [(''action'', JStr ''delay''), (''direction'', JStr ''to''), (''mode'', JStr ''one''),
        (''duration'', JStr ''30s''), (''delay'', JObj [(''latency'', JStr ''100ms'')]),
        (''selector'', JObj [(''namespaces'', JArr [JStr ''default'']),
           (''labelSelectors'', JObj [(''app'', JStr ''web'')])])])] @ status)"

definition injected :: "(string \<times> json) list" where
  "injected = [(''status'', JObj [(''conditions'', JArr [JObj [(''type'', JStr ''AllInjected''), (''status'', JStr ''True'')]])])]"

definition sample_env :: "json list chaos_env" where
  "sample_env =
     \<lparr>ce_decode = (\<lambda>manifest. if manifest = ''slow'' then Inr (sample_chaos [] []) else Inl ''not a manifest''),
      ce_apiVersion = (\<lambda>v. jtext v [''apiVersion'']), ce_kind = (\<lambda>v. jtext v [''kind'']),
      ce_name = (\<lambda>v. jtext v [''metadata'', ''name'']), ce_namespace = (\<lambda>v. jtext v [''metadata'', ''namespace'']),
      ce_labels = (\<lambda>v. jlabels v [''metadata'', ''labels'']),
      ce_setLabels = (\<lambda>labels v. sample_chaos labels []),
      ce_deleting = (\<lambda>v. False),
      ce_gvk = (\<lambda>v. (''chaos-mesh.org'', ''v1alpha1'', jtext v [''kind''])),
      ce_gvkText = (\<lambda>(g, v, k). g @ ''/'' @ v @ '', Kind='' @ k), ce_gvText = (\<lambda>g v. g @ ''/'' @ v),
      ce_parseGV = (\<lambda>s. if s = ''chaos-mesh.org/v1alpha1'' then Inr (''chaos-mesh.org'', ''v1alpha1'') else Inl ''unexpected''),
      ce_nestedString = jtext,
      ce_nestedStrings = (\<lambda>v ks. map (\<lambda>x. case x of JStr s \<Rightarrow> s | _ \<Rightarrow> '''') (jlist v ks)),
      ce_nestedStringMap = jlabels, ce_nestedInt = (\<lambda>v ks. None),
      ce_nestedFound = (\<lambda>v ks. jfield v ks \<noteq> None), ce_nestedSlice = (\<lambda>v ks. Inr (jlist v ks)),
      ce_create = (\<lambda>dry gvr ns v w.
         if list_ex (\<lambda>o'. jtext o' [''kind''] = ''NetworkChaos'') w then (Inl (K8sAlreadyExists ''exists''), w)
         else (Inr v, if dry then w else sample_chaos (jlabels v [''metadata'', ''labels'']) injected # w)),
      ce_get = (\<lambda>gvr ns name w. case find (\<lambda>o'. jtext o' [''metadata'', ''name''] = name) w of
         Some v \<Rightarrow> (Inr v, w) | None \<Rightarrow> (Inl (K8sNotFound ''not found''), w)),
      ce_delete = (\<lambda>gvr ns name w. (None, filter (\<lambda>o'. jtext o' [''metadata'', ''name''] \<noteq> name) w)),
      ce_listPods = (\<lambda>ns labels limit w. (Inr (filter (\<lambda>o'. jtext o' [''kind''] = ''Pod'') w), w)),
      ce_listOne = (\<lambda>gvr w. (None, w))\<rparr>"

definition sample_manager :: chaos_manager where
  "sample_manager = \<lparr>cm_runner = Some NewChaosRunnerFromClient, cm_executionEnabled = True\<rparr>"

text \<open>Alice requests, Bob approves, Alice executes; the reconciler takes the run to its end.\<close>

definition sample_calls :: "chaos_call list" where
  "sample_calls =
     [CallRequest 0 ''1'' ''exp'' ''slow'' ''alice'', CallApprove second ''chaos-run-1'' ''bob'' ''drill'',
      CallExecute (2 * second) ''chaos-run-1'' ''alice'', CallGet (3 * second) ''chaos-run-1'',
      CallReconcile (\<lambda>_. 40 * second), CallReconcile (\<lambda>_. 41 * second)]"

subsection \<open>Admission of experiments\<close>

lemma validateTarget_None:
  assumes "validateTarget r env object = None"
  shows "ce_namespace env object \<notin> set protectedChaosNamespaces" "\<not> hasPrefix (ce_namespace env object) ''kube-''"
    "ce_namespace env object \<in> set (cr_allowedNamespaces r)"
    "ce_nestedStrings env object [''spec'', ''selector'', ''namespaces''] = [ce_namespace env object]"
    "targetLabels env object \<noteq> []" "validateChaosKindBounds env object = None"
    "\<exists>d. chaosDuration env object = Some d \<and> 0 < d \<and> d \<le> maxChaosDuration"
  using assms by (auto simp: validateTarget_def Let_def split: if_splits option.splits)

lemma plannedTargetCount_bounds: "plannedTargetCount env object = Inr n \<Longrightarrow> 1 \<le> n \<and> n \<le> 3"
  by (auto simp: plannedTargetCount_def Let_def split: if_splits option.splits)

lemma wholeSeconds_bounds: "0 < d \<Longrightarrow> d \<le> maxChaosDuration \<Longrightarrow> 0 \<le> wholeSeconds d \<and> wholeSeconds d \<le> 300"
  by (auto simp: wholeSeconds_def maxChaosDuration_def minute_def second_def)

lemma allowed_kind: "map_of allowedChaosResources k = Some gvr \<Longrightarrow>
  snd (snd k) \<in> {''NetworkChaos'', ''StressChaos'', ''DNSChaos''}"
  by (auto simp: allowedChaosResources_def split: if_splits)

lemma Preflight_checked:
  assumes "Preflight r env now experimentID manifest discover w = (Inr run, w')"
  obtains object targets message gvr where "decodeChaosObject env manifest = Inr object"
    "map_of allowedChaosResources (ce_gvk env object) = Some gvr" "validateTarget r env object = None"
    "plannedTargetCount env object = Inr targets"
    "run = preflightRun env now experimentID manifest object targets message"
  using assms by (auto simp: Preflight_def bindR_Inr split: sum.splits option.splits if_splits)

text \<open>
  C26. A manifest that passes the preflight describes a bounded experiment: an allowlisted kind, in an
  allowlisted namespace that is not one of the protected ones, with an explicit label selector, one
  to three targets and at most five minutes of injection.
\<close>

theorem preflight_bounded:
  assumes "Preflight r env now experimentID manifest discover w = (Inr run, w')"
  shows "c_status run = ChaosPreflightValidated \<and>
    rr_kind (c_resource run) \<in> {''NetworkChaos'', ''StressChaos'', ''DNSChaos''} \<and>
    rr_namespace (c_resource run) \<in> set (cr_allowedNamespaces r) - set protectedChaosNamespaces \<and>
    hasPrefix (rr_namespace (c_resource run)) ''kube-'' = False \<and>
    c_targetSelector run \<noteq> [] \<and> c_targetCount run \<in> {1..3} \<and> c_durationSeconds run \<in> {0..300}"
proof -
  from assms obtain object targets message gvr where kind: "map_of allowedChaosResources (ce_gvk env object) = Some gvr"
    and ok: "validateTarget r env object = None" and n: "plannedTargetCount env object = Inr targets"
    and run: "run = preflightRun env now experimentID manifest object targets message"
    by (rule Preflight_checked)
  show ?thesis
    using validateTarget_None [OF ok] plannedTargetCount_bounds [OF n] allowed_kind [OF kind]
    by (cases "ce_gvk env object") (auto simp: run preflightRun_def dest: wholeSeconds_bounds)
qed

lemma k8s_Inr: "k8s p r = (Inr a, w) \<longleftrightarrow> r = (Inr a, w)"
  by (cases r; cases "fst r") (auto simp: k8s_def)

text \<open>
  The cluster after a creation that left an object labelled with the run: \<open>sent\<close> was created, or an object
  of its name was there and carries the label of the run.
\<close>

definition owned_after :: "'w chaos_env \<Rightarrow> string \<Rightarrow> string \<Rightarrow> string \<Rightarrow> json \<Rightarrow> 'w \<Rightarrow> 'w \<Rightarrow> bool" where
  "owned_after env runID gvr ns sent w w' =
     (case ce_create env False gvr ns sent w of
        (Inr created, w1) \<Rightarrow> w' = w1
      | (Inl (K8sAlreadyExists t), w1) \<Rightarrow>
          (case ce_get env gvr ns (ce_name env sent) w1 of
             (Inr found, w2) \<Rightarrow> gval (ce_labels env found) ''security.kubeathrix.io/chaos-run'' = runID \<and> w' = w2
           | _ \<Rightarrow> False)
      | _ \<Rightarrow> False)"

text \<open>
  C24. A chaos resource is created only after every check was repeated: the persisted manifest still
  decodes to an admitted experiment with the identity that was approved, and the selector matches at
  least the approved number of pods and at most twenty, all of them running and ready at that time.
  When the runner works with server-side dry runs, the API server then accepted a dry run of exactly
  this object, and nothing happened between it and the creation. The object that is sent is the
  manifest's, with labels among which the run's identifier stands under security.kubeathrix.io/chaos-run;
  an object that already had the name is taken over only when it carries that label.
\<close>

theorem start_guarded:
  assumes "Start r env run w = (Inr x, w')"
  shows "\<exists>object gvr pods labels w1 w2. decodeChaosObject env (c_manifest run) = Inr object \<and>
    map_of allowedChaosResources (ce_gvk env object) = Some gvr \<and> validateTarget r env object = None \<and>
    (ce_namespace env object, ce_name env object, ce_kind env object) =
      (rr_namespace (c_resource run), rr_name (c_resource run), rr_kind (c_resource run)) \<and>
    ce_listPods env (rr_namespace (c_resource run)) (c_targetSelector run) 21 w = (Inr pods, w1) \<and>
    c_targetCount run \<le> int (length pods) \<and> length pods \<le> 20 \<and> list_all (chaosTargetPodReady env) pods \<and>
    (if cr_serverSideDryRun r
     then \<exists>accepted. ce_create env True gvr (rr_namespace (c_resource run)) object w1 = (Inr accepted, w2)
     else w2 = w1) \<and>
    gget labels ''security.kubeathrix.io/chaos-run'' = Some (c_id run) \<and>
    owned_after env (c_id run) gvr (rr_namespace (c_resource run)) (ce_setLabels env labels object) w2 w'"
proof -
  from assms obtain object gvr w1 w2 where o: "decodeChaosObject env (c_manifest run) = Inr object"
    "map_of allowedChaosResources (ce_gvk env object) = Some gvr" "validateTarget r env object = None"
    "(ce_namespace env object, ce_name env object, ce_kind env object) =
      (rr_namespace (c_resource run), rr_name (c_resource run), rr_kind (c_resource run))"
    and live: "validateLiveTargets r env (rr_namespace (c_resource run)) (c_targetSelector run) (c_targetCount run) w = (Inr (), w1)"
    and dry: "if cr_serverSideDryRun r
      then \<exists>accepted. ce_create env True gvr (rr_namespace (c_resource run)) object w1 = (Inr accepted, w2) else w2 = w1"
    and made: "createOwned env run gvr object w2 = (Inr x, w')"
  proof (cases "cr_serverSideDryRun r")
    case True
    then show ?thesis
      using assms that by (auto simp: Start_def bindR_Inr k8s_Inr split: sum.splits option.splits if_splits)
  next
    case False
    then show ?thesis
      using assms that by (auto simp: Start_def bindR_Inr split: sum.splits option.splits if_splits)
  qed
  from live obtain pods where pods:
    "ce_listPods env (rr_namespace (c_resource run)) (c_targetSelector run) 21 w = (Inr pods, w1)"
    "c_targetCount run \<le> int (length pods)" "length pods \<le> 20" "list_all (chaosTargetPodReady env) pods"
    by (auto simp: validateLiveTargets_def targetPods_def k8s_def maxChaosTargetCandidates_def find_None_iff list_all_iff
      split: prod.splits sum.splits if_splits option.splits)
  obtain labels where sent: "ownedObject env run object = ce_setLabels env labels object"
    "gget labels ''security.kubeathrix.io/chaos-run'' = Some (c_id run)"
    by (simp add: ownedObject_def ownerLabel_def)
  have "owned_after env (c_id run) gvr (rr_namespace (c_resource run)) (ce_setLabels env labels object) w2 w'"
    using made o(4) unfolding sent(1) [symmetric]
    by (auto simp: owned_after_def createOwned_def ownerLabel_def split: prod.splits sum.splits k8s_error.splits if_splits)
  with o pods dry sent show ?thesis by blast
qed

subsection \<open>Progress rests on observations\<close>

lemma observeConditions_injected:
  "observeConditions cs = Some obs \<Longrightarrow> co_allInjected obs \<Longrightarrow>
   \<exists>c\<in>set cs. objectString ''type'' c = ''AllInjected'' \<and> objectString ''status'' c = ''True''"
  by (induction cs) (auto split: if_splits)

lemma observeRecords_not_injected: "observeRecords env rs = Some obs \<Longrightarrow> \<not> co_allInjected obs"
  by (induction rs) (auto split: if_splits option.splits)

definition injection_seen :: "'w chaos_env \<Rightarrow> chaos_run \<Rightarrow> bool" where
  "injection_seen env run \<longleftrightarrow>
     (\<exists>gvr w w' object cs. ce_get env gvr (rr_namespace (c_resource run)) (rr_name (c_resource run)) w = (Inr object, w') \<and>
        gval (ce_labels env object) ownerLabel = c_id run \<and>
        ce_nestedSlice env object [''status'', ''conditions''] = Inr cs \<and>
        (\<exists>c\<in>set cs. objectString ''type'' c = ''AllInjected'' \<and> objectString ''status'' c = ''True''))"

lemma Observe_injected:
  assumes "Observe r env run w = (Inr obs, w')" "co_allInjected obs"
  shows "injection_seen env run"
proof -
  obtain gvr where gvr: "resourceForRun r env run = Inr gvr"
    using assms(1) by (auto simp: Observe_def split: sum.splits)
  obtain x w1 where get: "ce_get env gvr (rr_namespace (c_resource run)) (rr_name (c_resource run)) w = (x, w1)"
    by force
  obtain object cs where "x = Inr object" "gval (ce_labels env object) ownerLabel = c_id run"
    "ce_nestedSlice env object [''status'', ''conditions''] = Inr cs" "observeConditions cs = Some obs"
    using assms gvr get
    by (cases x) (auto simp: Observe_def k8s_def dest: observeRecords_not_injected
      split: if_splits sum.splits option.splits)
  with get observeConditions_injected [OF _ assms(2)] show ?thesis
    by (auto simp: injection_seen_def) blast
qed

definition recovery_seen :: "'w chaos_env \<Rightarrow> chaos_run \<Rightarrow> bool" where
  "recovery_seen env run \<longleftrightarrow>
     (\<exists>gvr w w' t. ce_get env gvr (rr_namespace (c_resource run)) (rr_name (c_resource run)) w = (Inl (K8sNotFound t), w')) \<and>
     (\<exists>w w' pods. ce_listPods env (rr_namespace (c_resource run)) (c_targetSelector run) 21 w = (Inr pods, w') \<and>
        c_targetCount run \<le> int (length pods) \<and> list_all (chaosTargetPodReady env) pods)"

lemma Exists_absent: "Exists r env run w = (Inr False, w') \<Longrightarrow>
  \<exists>gvr t. ce_get env gvr (rr_namespace (c_resource run)) (rr_name (c_resource run)) w = (Inl (K8sNotFound t), w')"
  by (auto simp: Exists_def split: sum.splits prod.splits k8s_error.splits if_splits)

lemma VerifyRecovery_healthy: "VerifyRecovery r env run w = (Inr (True, msg), w') \<Longrightarrow>
  \<exists>pods. ce_listPods env (rr_namespace (c_resource run)) (c_targetSelector run) 21 w = (Inr pods, w') \<and>
    c_targetCount run \<le> int (length pods) \<and> list_all (chaosTargetPodReady env) pods"
  by (auto simp: VerifyRecovery_def bindR_Inr targetPods_def k8s_def maxChaosTargetCandidates_def find_None_iff list_all_iff
    split: sum.splits prod.splits if_splits option.splits)

lemma recovery_seenI:
  "Exists r env run w1 = (Inr False, w2) \<Longrightarrow> VerifyRecovery r env run w3 = (Inr (True, msg), w4) \<Longrightarrow> recovery_seen env run"
  unfolding recovery_seen_def using Exists_absent VerifyRecovery_healthy by metis

text \<open>What a write leaves behind under its own identifier: the written run, or what was there.\<close>

lemma saveRun_stored:
  assumes "saveRun (memory_repo ctx) new actor act (s, w) = (x, s', w')" "stored s' i = Some c"
  shows "stored s i = Some c \<or> c = new\<lparr>c_version := c_version new + 1\<rparr>"
  using assms UpdateChaosRun_stored [of ctx new "c_version new" actor act s]
  by (auto simp: saveRun_def memory_repo_def dest: failed_write_unchanged split: prod.splits sum.splits if_splits)

lemma discard_state: "snd (discard r) = snd r"
  by (cases r; cases "fst r") (auto simp: discard_def)

definition after :: "('s, 'w, 'a) managed \<Rightarrow> 's" where "after r = fst (snd r)"

lemma after_write:
  "stored (after (discard (saveRun (memory_repo ctx) new actor act (s, w)))) i = Some c \<Longrightarrow>
   stored s i = Some c \<or> c = new\<lparr>c_version := c_version new + 1\<rparr>"
  using saveRun_stored [of ctx new actor act s w] by (metis after_def discard_state prod.collapse)

lemma after_call:
  "after (bindR (onCluster call (s, w)) f) =
   (case call w of (Inl e, w1) \<Rightarrow> s | (Inr a, w1) \<Rightarrow> after (f a (s, w1)))"
  by (auto simp: after_def onCluster_def split: prod.splits sum.splits)

lemma after_return: "after (x, s, w) = s"
  by (simp add: after_def)

lemma after_onCluster: "after (onCluster call (s, w)) = s"
  by (auto simp: after_def onCluster_def split: prod.splits sum.splits)

lemmas after_simps = after_call after_return after_onCluster

lemma requested_status:
  assumes cur: "stored s (c_id run) = Some run" "c_status run = ChaosExecutionRequested"
    and new: "stored (after (reconcileRequested r env (memory_repo ctx) now run (s, w))) (c_id run) = Some run'"
  shows "c_status run' \<in> {ChaosExecutionRequested, ChaosFailed, ChaosVerifying, ChaosCleanupRequested} \<or>
    c_status run' = ChaosRunning \<and> injection_seen env run"
proof -
  have start: "c_status c \<in> {ChaosExecutionRequested, ChaosFailed}"
    if "stored (after (startOrRetry r env (memory_repo ctx) now run (s, w1))) (c_id run) = Some c" for w1 c
    using that cur
    by (auto simp: startOrRetry_def Let_def split: prod.splits sum.splits if_splits dest!: after_write)
  have await: "c_status c \<in> {ChaosExecutionRequested, ChaosCleanupRequested} \<or> injection_seen env run \<and> c_status c = ChaosRunning"
    if "stored (after (awaitInjection r env (memory_repo ctx) now run (s, w1))) (c_id run) = Some c" for w1 c
    using that cur
    by (auto simp: awaitInjection_def Let_def after_simps
      split: option.splits prod.splits sum.splits if_splits dest!: after_write dest: Observe_injected)
  show ?thesis
    using new cur
    by (auto simp: reconcileRequested_def after_simps split: prod.splits sum.splits if_splits dest!: after_write start await)
qed

lemma cleanup_status:
  assumes "stored s (c_id run) = Some run" "c_status run = ChaosCleanupRequested"
    and "stored (after (reconcileCleanup r env (memory_repo ctx) now run (s, w))) (c_id run) = Some run'"
  shows "c_status run' \<in> {ChaosCleanupRequested, ChaosVerifying}"
  using assms
  by (auto simp: reconcileCleanup_def after_simps split: prod.splits sum.splits if_splits dest!: after_write)

lemma running_status:
  assumes cur: "stored s (c_id run) = Some run" "c_status run = ChaosRunning"
    and new: "stored (after (reconcileRunning r env (memory_repo ctx) now run (s, w))) (c_id run) = Some run'"
  shows "c_status run' \<in> {ChaosRunning, ChaosFailed, ChaosVerifying, ChaosCleanupRequested}"
proof -
  have elapsed: "c_status c \<in> {ChaosRunning, ChaosCleanupRequested, ChaosVerifying}"
    if "stored (after (bindR (saveRun (memory_repo ctx) (run\<lparr>c_status := ChaosCleanupRequested, c_message := msg,
          c_updatedAt := now\<rparr>) actor act (s, w1)) (\<lambda>run1 st. reconcileCleanup r env (memory_repo ctx) now run1 st))) (c_id run)
        = Some c" (is "stored (after (bindR ?save _)) _ = _") for msg actor act w1 c
  proof -
    obtain x s1 w2 where save: "?save = (x, s1, w2)" by (cases ?save) auto
    show ?thesis
    proof (cases x)
      case (Inl e)
      with save that cur show ?thesis by (auto simp: after_return dest!: saveRun_stored)
    next
      case (Inr run1)
      have "UpdateChaosRun ctx (run\<lparr>c_status := ChaosCleanupRequested, c_message := msg, c_updatedAt := now\<rparr>)
          (c_version run) actor act s = (Inr run1, s1)"
        using save Inr by (auto simp: saveRun_def memory_repo_def split: prod.splits sum.splits)
      from UpdateChaosRun_stored [OF this]
      have "stored s1 (c_id run1) = Some run1" "c_status run1 = ChaosCleanupRequested" "c_id run1 = c_id run" by auto
      with cleanup_status [of s1 run1 r env ctx now w2 c] that save Inr show ?thesis by auto
    qed
  qed
  show ?thesis
    using new cur
    by (auto simp: reconcileRunning_def Let_def after_simps
      split: option.splits prod.splits sum.splits if_splits dest!: after_write elapsed)
qed

lemma abort_status:
  assumes "stored s (c_id run) = Some run" "c_status run = ChaosAbortRequested"
    and "stored (after (reconcileAbort r env (memory_repo ctx) now run (s, w))) (c_id run) = Some run'"
  shows "c_status run' = ChaosAbortRequested \<or> c_status run' = ChaosFailed \<or>
    c_status run' = ChaosAborted \<and> recovery_seen env run"
  using assms
  by (auto simp: reconcileAbort_def after_simps split: prod.splits sum.splits if_splits
    dest!: after_write intro: recovery_seenI)

lemma verifying_status:
  assumes "stored s (c_id run) = Some run" "c_status run = ChaosVerifying"
    and "stored (after (reconcileVerifying r env (memory_repo ctx) now run (s, w))) (c_id run) = Some run'"
  shows "c_status run' = ChaosVerifying \<or> c_status run' = ChaosFailed \<or>
    c_status run' = ChaosSucceeded \<and> c_failureReason run' = '''' \<and> recovery_seen env run"
  using assms
  by (auto simp: reconcileVerifying_def Let_def after_simps split: prod.splits sum.splits if_splits
    dest!: after_write intro: recovery_seenI)

text \<open>
  C9. The reconciler reports progress only on evidence from the cluster. A run becomes running only
  out of a requested execution and when an object that carries the run's label was read with the
  condition AllInjected=True; it becomes succeeded only out of verification, without a recorded
  failure, when its resource was found absent and at least the approved number of target pods were
  listed, all of them running and ready; and an abort of a started run completes only on that same evidence.
\<close>

theorem progress_justified:
  assumes cur: "stored s (c_id run) = Some run" and changed: "c_status run \<noteq> c_status run'"
    and new: "stored (fst (snd (reconcileOne r env (memory_repo ctx) now run (s, w)))) (c_id run) = Some run'"
  shows "(case c_status run' of
     ChaosRunning \<Rightarrow> c_status run = ChaosExecutionRequested \<and> injection_seen env run
   | ChaosSucceeded \<Rightarrow> c_status run = ChaosVerifying \<and> c_failureReason run' = '''' \<and> recovery_seen env run
   | ChaosAborted \<Rightarrow> c_status run = ChaosAbortRequested \<and> recovery_seen env run
   | ChaosExpired \<Rightarrow> c_status run = ChaosPendingApproval \<and> expired now (c_approvalExpiresAt run)
   | status \<Rightarrow> status \<in> {ChaosCleanupRequested, ChaosVerifying, ChaosFailed})"
proof (cases "c_status run = ChaosPendingApproval \<and> expired now (c_approvalExpiresAt run)")
  case True
  with new have "stored (after (discard (expire (memory_repo ctx) now run (s, w)))) (c_id run) = Some run'"
    by (simp add: reconcileOne_def after_def)
  with cur changed have "c_status run' = ChaosExpired"
    unfolding expire_def by (auto dest!: after_write)
  with True show ?thesis by simp
next
  case False
  note new' = new [unfolded reconcileOne_def if_not_P [OF False], folded after_def]
  show ?thesis
  proof (cases "c_status run")
    case ChaosExecutionRequested
    with requested_status [OF cur ChaosExecutionRequested] new' changed show ?thesis by fastforce
  next
    case ChaosRunning
    with running_status [OF cur ChaosRunning] new' changed show ?thesis by fastforce
  next
    case ChaosCleanupRequested
    with cleanup_status [OF cur ChaosCleanupRequested] new' changed show ?thesis by fastforce
  next
    case ChaosAbortRequested
    with abort_status [OF cur ChaosAbortRequested] new' changed show ?thesis by fastforce
  next
    case ChaosVerifying
    with verifying_status [OF cur ChaosVerifying] new' changed show ?thesis by fastforce
  qed (use new' cur changed in \<open>simp_all add: after_return\<close>)
qed

text \<open>
  C28. Verification ends: a run that obeys the rules and verifies recovery, whose resource is gone
  and whose pods can be listed, is in a final state after the first reconciliation past its recovery deadline.
\<close>

theorem verification_ends:
  assumes "stored s (c_id run) = Some run" "c_status run = ChaosVerifying" "run_ok run"
    and "Exists r env run w = (Inr False, w1)" "VerifyRecovery r env run w1 = (Inr (healthy, message), w2)"
    and "the (c_recoveryDeadline run) \<le> now"
  shows "\<exists>run'. stored (fst (snd (reconcileOne r env (memory_repo None) now run (s, w)))) (c_id run) = Some run' \<and>
    c_status run' \<in> {ChaosSucceeded, ChaosFailed} \<and> c_finishedAt run' = Some now"
proof -
  have saved: "stored (fst (snd (discard (saveRun (memory_repo None) new actor act (s, w2))))) (c_id run) =
      Some (new\<lparr>c_version := c_version new + 1\<rparr>)"
    if "c_id new = c_id run" "c_version new = c_version run" for new actor act
    using assms(1) that
    by (auto simp: saveRun_def memory_repo_def UpdateChaosRun_def Let_def discard_state stored_def appendChaosAuditLocked_def
      split: option.splits)
  have "expired now (c_recoveryDeadline run)" using assms(2,3,6) by (auto simp: run_ok_def expired_def)
  then show ?thesis
    using assms(2,4,5)
    by (auto simp: reconcileOne_def reconcileVerifying_def onCluster_def Let_def saved)
qed

subsection \<open>Deletion does not check the owner\<close>

text \<open>
  \<open>Start\<close>, \<open>Exists\<close> and \<open>Observe\<close> compare the owner label of the object they meet with the run;
  \<open>Delete\<close> does not read it: it does the same whatever objects and labels the cluster shows.
\<close>

lemma Delete_ignores_owner: "Delete r (env\<lparr>ce_get := g, ce_labels := l\<rparr>) run w = Delete r env run w"
  by (simp add: Delete_def resourceForRun_def cong: sum.case_cong option.case_cong)

subsection \<open>Witnesses\<close>

definition second_replica :: "store \<Rightarrow> store" where
  "second_replica s = fst (perform sample_manager NewChaosRunnerFromClient sample_env (memory_repo None)
     (CallApprove second ''chaos-run-1'' ''carol'' ''second replica'') (s, []))"

text \<open>The calls of the sample, with a second replica that approves the run right after it was stored.\<close>

definition sample_view :: store where
  "sample_view = chaosCalls sample_manager NewChaosRunnerFromClient sample_env None sample_calls
     [\<lambda>s. s, second_replica] emptyStore [sample_pod]"

lemma emptyStore_ok: "store_ok emptyStore"
  by (simp add: emptyStore_def store_ok_def approvals_ok_def)

lemma sample_respectful: "list_all respectful [\<lambda>s. s, second_replica]"
proof -
  have "respectful second_replica"
    unfolding second_replica_def [abs_def] by (rule perform_respectful)
  then show ?thesis by (simp add: respectful_def)
qed

lemma sample_view_eval: "map (\<lambda>(i, c). (i, c_status c, c_approvedBy c)) (st_chaosRuns sample_view) =
    [(''chaos-run-1'', ChaosSucceeded, ''carol'')]"
  by code_simp

theorem chaos_lifecycle_refined_witness:
  "store_ok sample_view \<and> moves (stored emptyStore) (stored sample_view) \<and>
   map (\<lambda>(i, c). (i, c_status c, c_approvedBy c)) (st_chaosRuns sample_view) =
     [(''chaos-run-1'', ChaosSucceeded, ''carol'')]"
  using chaos_lifecycle_refined [OF emptyStore_ok sample_respectful, of sample_manager NewChaosRunnerFromClient sample_env
      None sample_calls "[sample_pod]"] sample_view_eval
  unfolding sample_view_def [symmetric] by blast

theorem chaos_runs_obey_rules_witness:
  "list_all (\<lambda>(i, c). c_id c = i \<and> run_ok c) (st_chaosRuns sample_view)"
  unfolding sample_view_def
  by (rule chaos_runs_obey_rules [OF emptyStore_ok _ sample_respectful]) (simp add: emptyStore_def)

lemma sample_view_run: "map_option c_status (gget (st_chaosRuns sample_view) ''chaos-run-1'') = Some ChaosSucceeded"
  using sample_view_eval by (auto simp: map_eq_Cons_conv)

lemma sample_view_ok: "store_ok sample_view"
  unfolding sample_view_def by (rule chaosCalls_moves(1) [OF emptyStore_ok sample_respectful])

theorem chaos_terminal_final_witness:
  "gget (st_chaosRuns (chaosCalls sample_manager NewChaosRunnerFromClient sample_env None
     [CallAbort (50 * second) ''chaos-run-1'' ''alice'' ''late''] [] sample_view [sample_pod])) ''chaos-run-1'' =
   gget (st_chaosRuns sample_view) ''chaos-run-1''"
proof -
  obtain a where a: "gget (st_chaosRuns sample_view) ''chaos-run-1'' = Some a" "c_status a = ChaosSucceeded"
    using sample_view_run by auto
  then have "terminal (c_status a)" by (simp add: terminal_def)
  then show ?thesis
    using chaos_terminal_final [OF sample_view_ok _ a(1), of "[]"] a by fastforce
qed

theorem preflight_bounded_witness:
  "c_targetCount (projr (fst (Preflight NewChaosRunnerFromClient sample_env 0 ''exp'' ''slow'' True [sample_pod]))) \<in> {1..3}"
proof -
  have "isl (fst (Preflight NewChaosRunnerFromClient sample_env 0 ''exp'' ''slow'' True [sample_pod])) = False"
    by code_simp
  then obtain run w' where "Preflight NewChaosRunnerFromClient sample_env 0 ''exp'' ''slow'' True [sample_pod] = (Inr run, w')"
    by (metis prod.collapse sum.collapse(2))
  from preflight_bounded [OF this] this show ?thesis by simp
qed

definition requested_store :: store where
  "requested_store = chaosCalls sample_manager NewChaosRunnerFromClient sample_env None (take 3 sample_calls) []
     emptyStore [sample_pod]"

definition sample_run :: chaos_run where
  "sample_run = the (stored requested_store ''chaos-run-1'')"

definition verifying_store :: store where
  "verifying_store = chaosCalls sample_manager NewChaosRunnerFromClient sample_env None (take 5 sample_calls) []
     emptyStore [sample_pod]"

definition verifying_run :: chaos_run where
  "verifying_run = the (stored verifying_store ''chaos-run-1'')"

lemma sample_run_eval:
  "case stored requested_store ''chaos-run-1'' of None \<Rightarrow> False
   | Some run \<Rightarrow> isl (fst (Start NewChaosRunnerFromClient sample_env run [sample_pod])) = False"
  by code_simp

lemma verifying_eval:
  "let s = verifying_store in
   (case stored s ''chaos-run-1'' of None \<Rightarrow> False
    | Some run \<Rightarrow> c_id run = ''chaos-run-1'' \<and> c_status run = ChaosVerifying \<and>
        the (c_recoveryDeadline run) \<le> 1000 * second \<and>
        Exists NewChaosRunnerFromClient sample_env run [] = (Inr False, []) \<and>
        VerifyRecovery NewChaosRunnerFromClient sample_env run [] =
          (Inr (False, ''only 0 matching pods are present; expected at least 1''), []) \<and>
        map_option c_status (stored (fst (snd (reconcileOne NewChaosRunnerFromClient sample_env (memory_repo None)
          (41 * second) run (s, [sample_pod])))) ''chaos-run-1'') = Some ChaosSucceeded)"
  by code_simp

lemma verifying_run_stored: "stored verifying_store (c_id verifying_run) = Some verifying_run"
  using verifying_eval by (auto simp: verifying_run_def Let_def split: option.splits)

lemma verifying_facts:
  "c_id verifying_run = ''chaos-run-1''" "c_status verifying_run = ChaosVerifying"
  "the (c_recoveryDeadline verifying_run) \<le> 1000 * second"
  "Exists NewChaosRunnerFromClient sample_env verifying_run [] = (Inr False, [])"
  "VerifyRecovery NewChaosRunnerFromClient sample_env verifying_run [] =
    (Inr (False, ''only 0 matching pods are present; expected at least 1''), [])"
  "map_option c_status (stored (fst (snd (reconcileOne NewChaosRunnerFromClient sample_env (memory_repo None)
     (41 * second) verifying_run (verifying_store, [sample_pod])))) (c_id verifying_run)) = Some ChaosSucceeded"
  using verifying_eval by (auto simp: verifying_run_def Let_def split: option.splits)

theorem start_guarded_witness:
  "\<exists>object accepted gvr w1 w2. decodeChaosObject sample_env (c_manifest sample_run) = Inr object \<and>
     validateTarget NewChaosRunnerFromClient sample_env object = None \<and>
     ce_create sample_env True gvr (rr_namespace (c_resource sample_run)) object w1 = (Inr accepted, w2)"
proof -
  have "isl (fst (Start NewChaosRunnerFromClient sample_env sample_run [sample_pod])) = False"
    using sample_run_eval by (auto simp: sample_run_def split: option.splits)
  then obtain x w' where "Start NewChaosRunnerFromClient sample_env sample_run [sample_pod] = (Inr x, w')"
    by (metis prod.collapse sum.collapse(2))
  note start = this
  have dry: "cr_serverSideDryRun NewChaosRunnerFromClient" by (simp add: NewChaosRunnerFromClient_def)
  from start_guarded [OF start, unfolded if_P [OF dry]] show ?thesis
    by (elim exE conjE) (intro exI conjI; assumption)
qed

theorem progress_justified_witness: "recovery_seen sample_env verifying_run"
proof -
  let ?s = "fst (snd (reconcileOne NewChaosRunnerFromClient sample_env (memory_repo None) (41 * second) verifying_run
    (verifying_store, [sample_pod])))"
  obtain run' where run': "stored ?s (c_id verifying_run) = Some run'" "c_status run' = ChaosSucceeded"
    using verifying_facts(6) by auto
  then show ?thesis
    using progress_justified [OF verifying_run_stored _ run'(1)] verifying_facts(2) by simp
qed

theorem verification_ends_witness:
  "\<exists>run'. stored (fst (snd (reconcileOne NewChaosRunnerFromClient sample_env (memory_repo None) (1000 * second) verifying_run
     (verifying_store, [])))) (c_id verifying_run) = Some run' \<and>
     c_status run' \<in> {ChaosSucceeded, ChaosFailed} \<and> c_finishedAt run' = Some (1000 * second)"
proof (rule verification_ends [OF verifying_run_stored verifying_facts(2) _ verifying_facts(4,5,3)])
  show "run_ok verifying_run"
    by (rule chaosCalls_run_ok [OF emptyStore_ok _ _ verifying_run_stored [unfolded verifying_store_def]])
      (simp_all add: emptyStore_def)
qed

end
