(* ===== verification/OperatorModel.thy ===== *)
theory OperatorModel
  imports Go_Prelude Sha256 Json Kubernetes ActionCatalog
begin

text \<open>
  The executors of the operator, \<open>operator/controllers/remediation_controller.go\<close>: the typed
  actions, the upsert and the verification of the objects they write.

  The controller-runtime client, the typed structs of the Kubernetes API and the accessors of
  unstructured objects are not part of the repository. The typed structs appear as records of the
  fields that the code reads or writes, with everything else in one opaque field; the client and
  the accessors are fields of the argument \<open>env\<close>, and the cluster is a state \<open>'w\<close> that every call may
  change. The flag of a create or update is true for a server-side dry run. \<open>oe_order\<close> is the order in
  which the runtime iterates over a Go map with the given keys.
\<close>

subsection \<open>Objects\<close>

type_synonym quantity = string

datatype intorstr = IntPort int | StrPort string

record object_meta =
  om_name :: string
  om_namespace :: string
  om_labels :: "(string, string) gomap"
  om_resourceVersion :: string
  om_rest :: json

record namespace_obj =
  no_meta :: object_meta
  no_rest :: json

record quota_obj =
  qo_meta :: object_meta
  qo_hard :: "(string, quantity) gomap"

record limit_item =
  li_type :: string
  li_defaultRequest :: "(string, quantity) gomap"
  li_default :: "(string, quantity) gomap"

record limit_range_obj =
  lr_meta :: object_meta
  lr_limits :: "limit_item list"

record pdb_obj =
  pd_meta :: object_meta
  pd_minAvailable :: "intorstr option"
  pd_selector :: "(string, string) gomap option"
  pd_expectedPods :: int

record probe =
  pr_http :: "(string \<times> intorstr) option"
  pr_initialDelay :: int
  pr_period :: int
  pr_timeout :: int
  pr_failure :: int
  pr_success :: int

record container =
  k_name :: string
  k_requests :: "(string, quantity) gomap"
  k_limits :: "(string, quantity) gomap"
  k_readiness :: "probe option"
  k_liveness :: "probe option"
  k_rest :: json

record pod_spec =
  ps_init :: "container list"
  ps_containers :: "container list"
  ps_rest :: json

datatype workload_kind = Deployment | StatefulSet | DaemonSet

record workload =
  wl_meta :: object_meta
  wl_generation :: int
  wl_spec :: pod_spec
  wl_selector :: "(string, string) gomap"
  wl_replicas :: "int option"
  wl_observedGeneration :: int
  wl_updated :: int
  wl_available :: int
  wl_ready :: int
  wl_desiredScheduled :: int
  wl_rest :: json

record config_map =
  cmap_meta :: object_meta
  cmap_data :: "(string, string) gomap"

datatype kobj =
    ONamespace namespace_obj
  | OQuota quota_obj
  | OLimitRange limit_range_obj
  | OPDB pdb_obj
  | OWorkload workload_kind workload
  | OConfigMap config_map
  | OUnstructured json

record 'w op_env =
  oe_getNamespace :: "string \<Rightarrow> 'w \<Rightarrow> (k8s_error + namespace_obj) \<times> 'w"
  oe_getQuota :: "string \<Rightarrow> string \<Rightarrow> 'w \<Rightarrow> (k8s_error + quota_obj) \<times> 'w"
  oe_getLimitRange :: "string \<Rightarrow> string \<Rightarrow> 'w \<Rightarrow> (k8s_error + limit_range_obj) \<times> 'w"
  oe_getPDB :: "string \<Rightarrow> string \<Rightarrow> 'w \<Rightarrow> (k8s_error + pdb_obj) \<times> 'w"
  oe_getWorkload :: "workload_kind \<Rightarrow> string \<Rightarrow> string \<Rightarrow> 'w \<Rightarrow> (k8s_error + workload) \<times> 'w"
  oe_getConfigMap :: "string \<Rightarrow> string \<Rightarrow> 'w \<Rightarrow> (k8s_error + config_map) \<times> 'w"
  oe_getObject :: "string \<Rightarrow> string \<Rightarrow> string \<Rightarrow> string \<Rightarrow> 'w \<Rightarrow> (k8s_error + json) \<times> 'w"
  oe_create :: "bool \<Rightarrow> kobj \<Rightarrow> 'w \<Rightarrow> (k8s_error + kobj) \<times> 'w"
  oe_update :: "bool \<Rightarrow> kobj \<Rightarrow> 'w \<Rightarrow> (k8s_error + kobj) \<times> 'w"
  oe_delete :: "json \<Rightarrow> 'w \<Rightarrow> k8s_error option \<times> 'w"
  oe_status :: "json \<Rightarrow> 'w \<Rightarrow> (k8s_error + json) \<times> 'w"
  oe_str :: "json \<Rightarrow> string list \<Rightarrow> string"
  oe_bool :: "json \<Rightarrow> string list \<Rightarrow> bool"
  oe_int :: "json \<Rightarrow> string list \<Rightarrow> int"
  oe_list :: "json \<Rightarrow> string list \<Rightarrow> json list"
  oe_map :: "json \<Rightarrow> string list \<Rightarrow> json option"
  oe_strMap :: "json \<Rightarrow> string list \<Rightarrow> (string, string) gomap"
  oe_field :: "json \<Rightarrow> string list \<Rightarrow> json"
  oe_setField :: "json \<Rightarrow> string list \<Rightarrow> json \<Rightarrow> string + json"
  oe_setMap :: "json \<Rightarrow> string list \<Rightarrow> json \<Rightarrow> json"
  oe_labels :: "json \<Rightarrow> (string, string) gomap option"
  oe_annotations :: "json \<Rightarrow> (string, string) gomap"
  oe_setAnnotations :: "(string, string) gomap \<Rightarrow> json \<Rightarrow> json"
  oe_resourceVersion :: "json \<Rightarrow> string"
  oe_setResourceVersion :: "string \<Rightarrow> json \<Rightarrow> json"
  oe_generation :: "json \<Rightarrow> int"
  oe_name :: "json \<Rightarrow> string"
  oe_namespace :: "json \<Rightarrow> string"
  oe_kind :: "json \<Rightarrow> string"
  oe_new :: "string \<Rightarrow> string \<Rightarrow> string \<Rightarrow> string \<Rightarrow> json"
  oe_addFinalizer :: "string \<Rightarrow> json \<Rightarrow> json option"
  oe_parseQuantity :: "string \<Rightarrow> quantity option"
  oe_mustParse :: "string \<Rightarrow> quantity"
  oe_positive :: "quantity \<Rightarrow> bool"
  oe_sameQuantity :: "quantity \<Rightarrow> quantity \<Rightarrow> bool"
  oe_intstr :: "string \<Rightarrow> intorstr"
  oe_intstrText :: "intorstr \<Rightarrow> string"
  oe_order :: "string list \<Rightarrow> string list"
  oe_jsonError :: "string \<Rightarrow> string"

text \<open>Errors carry their text; \<open>OpPending\<close> is one that wraps \<open>errVerificationPending\<close>.\<close>

datatype op_error = OpErr string | OpPending string

fun opText :: "op_error \<Rightarrow> string" where
  "opText (OpErr t) = t"
| "opText (OpPending t) = t"

definition errVerificationPending :: string where
  "errVerificationPending = ''verification is pending cluster reconciliation''"

definition pendingError :: "string \<Rightarrow> op_error" where
  "pendingError detail = OpPending (errVerificationPending @ '': '' @ detail)"

definition call :: "(k8s_error + 'a) \<times> 'w \<Rightarrow> (op_error + 'a) \<times> 'w" where
  "call r = (case r of (Inl e, w) \<Rightarrow> (Inl (OpErr (k8sText e)), w) | (Inr a, w) \<Rightarrow> (Inr a, w))"

definition check :: "string option \<Rightarrow> 'w \<Rightarrow> (op_error + unit) \<times> 'w" where
  "check e w = (case e of Some t \<Rightarrow> (Inl (OpErr t), w) | None \<Rightarrow> (Inr (), w))"

subsection \<open>Small helpers\<close>

definition boundedInt :: "string \<Rightarrow> int \<Rightarrow> int \<Rightarrow> int \<Rightarrow> int" where
  "boundedInt raw fallback minimum maximum =
     (if raw = '''' then fallback
      else
        (case parseInt 32 raw of
           None \<Rightarrow> fallback
         | Some value \<Rightarrow> if value < minimum \<or> value > maximum then fallback else value))"

definition protectedNamespace :: "string \<Rightarrow> bool" where
  "protectedNamespace namespace \<longleftrightarrow>
     namespace = ''kube-system'' \<or> namespace = ''kube-public'' \<or> namespace = ''kube-node-lease'' \<or>
     hasPrefix namespace ''openshift-''"

definition valueOr :: "string \<Rightarrow> string \<Rightarrow> string" where
  "valueOr value fallback = (if blank value then fallback else value)"

definition setIfMissing :: "(string, quantity) gomap \<Rightarrow> string \<Rightarrow> quantity \<Rightarrow> (string, quantity) gomap" where
  "setIfMissing values name q = (if gget values name = None then gput name q values else values)"

definition safeHTTPProbe :: "string \<Rightarrow> intorstr \<Rightarrow> (string, string) gomap \<Rightarrow> probe" where
  "safeHTTPProbe path port params =
     \<lparr>pr_http = Some (path, port),
      pr_initialDelay = boundedInt (gval params ''initialDelaySeconds'') 5 0 300,
      pr_period = boundedInt (gval params ''periodSeconds'') 10 2 300,
      pr_timeout = boundedInt (gval params ''timeoutSeconds'') 2 1 30,
      pr_failure = boundedInt (gval params ''failureThreshold'') 3 1 10, pr_success = 1\<rparr>"

definition probeMatches :: "probe option \<Rightarrow> string \<Rightarrow> intorstr \<Rightarrow> bool" where
  "probeMatches p path port = (case p of None \<Rightarrow> False | Some p \<Rightarrow> pr_http p = Some (path, port))"

fun kindOf :: "string \<Rightarrow> workload_kind option" where
  "kindOf kind =
     (if kind = ''Deployment'' then Some Deployment
      else if kind = ''StatefulSet'' then Some StatefulSet
      else if kind = ''DaemonSet'' then Some DaemonSet
      else None)"

subsection \<open>Targets\<close>

record remediation_target =
  rt_apiVersion :: string
  rt_kind :: string
  rt_namespace :: string
  rt_name :: string

definition actionTarget :: "'w op_env \<Rightarrow> json \<Rightarrow> string + remediation_target" where
  "actionTarget env action =
     (case oe_map env action [''target''] of
        None \<Rightarrow> Inl ''action target is required''
      | Some target \<Rightarrow>
          let result = \<lparr>rt_apiVersion = oe_str env target [''apiVersion''], rt_kind = oe_str env target [''kind''],
                rt_namespace = oe_str env target [''namespace''], rt_name = oe_str env target [''name'']\<rparr>
          in if rt_name result = '''' \<or> rt_kind result = '''' \<or> rt_apiVersion result = ''''
             then Inl ''action target must include apiVersion, kind, and name''
             else if rt_kind result \<noteq> ''Namespace'' \<and> rt_namespace result = ''''
             then Inl ''namespaced action target requires namespace''
             else Inr result)"

definition targetNamespace :: "'w op_env \<Rightarrow> json \<Rightarrow> string + string" where
  "targetNamespace env action =
     (case oe_map env action [''target''] of
        None \<Rightarrow> Inl ''action target is required''
      | Some target \<Rightarrow>
          if oe_str env target [''kind''] = ''Namespace'' then Inr (oe_str env target [''name''])
          else if oe_str env target [''namespace''] \<noteq> '''' then Inr (oe_str env target [''namespace''])
          else Inl ''namespace could not be derived from target'')"

definition liftE :: "string + 'a \<Rightarrow> 'w \<Rightarrow> (op_error + 'a) \<times> 'w" where
  "liftE r w = (case r of Inl e \<Rightarrow> (Inl (OpErr e), w) | Inr a \<Rightarrow> (Inr a, w))"

subsection \<open>Upsert\<close>

fun objMeta :: "kobj \<Rightarrow> object_meta option" where
  "objMeta (ONamespace x) = Some (no_meta x)"
| "objMeta (OQuota x) = Some (qo_meta x)"
| "objMeta (OLimitRange x) = Some (lr_meta x)"
| "objMeta (OPDB x) = Some (pd_meta x)"
| "objMeta (OWorkload k x) = Some (wl_meta x)"
| "objMeta (OConfigMap x) = Some (cmap_meta x)"
| "objMeta (OUnstructured v) = None"

fun mapMeta :: "(object_meta \<Rightarrow> object_meta) \<Rightarrow> kobj \<Rightarrow> kobj" where
  "mapMeta f (ONamespace x) = ONamespace (x\<lparr>no_meta := f (no_meta x)\<rparr>)"
| "mapMeta f (OQuota x) = OQuota (x\<lparr>qo_meta := f (qo_meta x)\<rparr>)"
| "mapMeta f (OLimitRange x) = OLimitRange (x\<lparr>lr_meta := f (lr_meta x)\<rparr>)"
| "mapMeta f (OPDB x) = OPDB (x\<lparr>pd_meta := f (pd_meta x)\<rparr>)"
| "mapMeta f (OWorkload k x) = OWorkload k (x\<lparr>wl_meta := f (wl_meta x)\<rparr>)"
| "mapMeta f (OConfigMap x) = OConfigMap (x\<lparr>cmap_meta := f (cmap_meta x)\<rparr>)"
| "mapMeta f (OUnstructured v) = OUnstructured v"

fun typeName :: "kobj \<Rightarrow> string" where
  "typeName (OQuota x) = ''*v1.ResourceQuota''"
| "typeName (OLimitRange x) = ''*v1.LimitRange''"
| "typeName (OPDB x) = ''*v1.PodDisruptionBudget''"
| "typeName _ = ''''"

text \<open>The current metadata of the three kinds that are upserted.\<close>

fun currentMeta :: "'w op_env \<Rightarrow> kobj \<Rightarrow> 'w \<Rightarrow> (k8s_error + object_meta) \<times> 'w" where
  "currentMeta env (OQuota x) w =
     bindR (oe_getQuota env (om_namespace (qo_meta x)) (om_name (qo_meta x)) w) (\<lambda>y w1. (Inr (qo_meta y), w1))"
| "currentMeta env (OLimitRange x) w =
     bindR (oe_getLimitRange env (om_namespace (lr_meta x)) (om_name (lr_meta x)) w) (\<lambda>y w1. (Inr (lr_meta y), w1))"
| "currentMeta env (OPDB x) w =
     bindR (oe_getPDB env (om_namespace (pd_meta x)) (om_name (pd_meta x)) w) (\<lambda>y w1. (Inr (pd_meta y), w1))"
| "currentMeta env _ w = (Inl (K8sOther ''''), w)"

definition managedBy :: string where "managedBy = ''app.kubernetes.io/managed-by''"

definition upsertObject :: "'w op_env \<Rightarrow> kobj \<Rightarrow> bool \<Rightarrow> 'w \<Rightarrow> (op_error + unit) \<times> 'w" where
  "upsertObject env obj0 dryRun w =
     (let obj = mapMeta (\<lambda>m. m\<lparr>om_labels := gput managedBy ''kubeathrix'' (om_labels m)\<rparr>) obj0 in
      case currentMeta env obj w of
        (Inl (K8sNotFound t), w1) \<Rightarrow> bindR (call (oe_create env dryRun obj w1)) (\<lambda>_ w2. (Inr (), w2))
      | (Inl e, w1) \<Rightarrow> (Inl (OpErr (k8sText e)), w1)
      | (Inr current, w1) \<Rightarrow>
          if gval (om_labels current) managedBy \<noteq> ''kubeathrix''
          then (Inl (OpErr (''refusing to take ownership of existing '' @ typeName obj @ '' '' @
                  (case objMeta obj of Some m \<Rightarrow> om_namespace m @ ''/'' @ om_name m | None \<Rightarrow> ''''))), w1)
          else bindR (call (oe_update env dryRun
                 (mapMeta (\<lambda>m. m\<lparr>om_resourceVersion := om_resourceVersion current\<rparr>) obj) w1)) (\<lambda>_ w2. (Inr (), w2)))"

definition newMeta :: "string \<Rightarrow> string \<Rightarrow> object_meta" where
  "newMeta namespace name =
     \<lparr>om_name = name, om_namespace = namespace, om_labels = [], om_resourceVersion = '''', om_rest = JNull\<rparr>"

definition defaultQuota :: "'w op_env \<Rightarrow> string \<Rightarrow> quota_obj" where
  "defaultQuota env namespace =
     \<lparr>qo_meta = newMeta namespace ''kubeathrix-defaults'',
      qo_hard = [(''requests.cpu'', oe_mustParse env ''4''), (''requests.memory'', oe_mustParse env ''8Gi'')]\<rparr>"

definition defaultLimits :: "'w op_env \<Rightarrow> string \<Rightarrow> limit_range_obj" where
  "defaultLimits env namespace =
     \<lparr>lr_meta = newMeta namespace ''kubeathrix-defaults'',
      lr_limits = [\<lparr>li_type = ''Container'',
        li_defaultRequest = [(''cpu'', oe_mustParse env ''100m''), (''memory'', oe_mustParse env ''128Mi'')],
        li_default = [(''cpu'', oe_mustParse env ''500m''), (''memory'', oe_mustParse env ''512Mi'')]\<rparr>]\<rparr>"

definition applyResourceGovernance :: "'w op_env \<Rightarrow> string \<Rightarrow> bool \<Rightarrow> 'w \<Rightarrow> (op_error + unit) \<times> 'w" where
  "applyResourceGovernance env namespace dryRun w =
     (if namespace = '''' then (Inl (OpErr ''namespace target is required for resource governance''), w)
      else
        bindR (upsertObject env (OQuota (defaultQuota env namespace)) dryRun w) (\<lambda>_ w1.
          upsertObject env (OLimitRange (defaultLimits env namespace)) dryRun w1))"

definition wrapErr :: "string \<Rightarrow> (op_error + 'a) \<times> 'w \<Rightarrow> (op_error + 'a) \<times> 'w" where
  "wrapErr prefix r =
     (case r of
        (Inl (OpErr t), w) \<Rightarrow> (Inl (OpErr (prefix @ t)), w)
      | (Inl (OpPending t), w) \<Rightarrow> (Inl (OpPending (prefix @ t)), w)
      | (Inr a, w) \<Rightarrow> (Inr a, w))"

definition verifyResourceGovernance :: "'w op_env \<Rightarrow> string \<Rightarrow> 'w \<Rightarrow> (op_error + unit) \<times> 'w" where
  "verifyResourceGovernance env namespace w =
     bindR (wrapErr ''read ResourceQuota: '' (call (oe_getQuota env namespace ''kubeathrix-defaults'' w))) (\<lambda>quota w1.
       case (gget (qo_hard quota) ''requests.cpu'', gget (qo_hard quota) ''requests.memory'') of
         (Some cpu, Some memory) \<Rightarrow>
           if \<not> oe_sameQuantity env cpu (oe_mustParse env ''4'') \<or> \<not> oe_sameQuantity env memory (oe_mustParse env ''8Gi'')
           then (Inl (OpErr ''ResourceQuota does not match the planned limits''), w1)
           else
             bindR (wrapErr ''read LimitRange: '' (call (oe_getLimitRange env namespace ''kubeathrix-defaults'' w1))) (\<lambda>limitRange w2.
               if length (lr_limits limitRange) \<noteq> 1
               then (Inl (OpErr ''LimitRange does not contain the planned defaults''), w2)
               else (Inr (), w2))
       | _ \<Rightarrow> (Inl (OpErr ''ResourceQuota does not match the planned limits''), w1))"

subsection \<open>Pod Security labels\<close>

definition securityLabels :: "(string, string) gomap \<Rightarrow> (string, string) gomap" where
  "securityLabels params =
     [(''pod-security.kubernetes.io/enforce'', valueOr (gval params ''enforce'') ''baseline''),
      (''pod-security.kubernetes.io/audit'', valueOr (gval params ''audit'') ''restricted''),
      (''pod-security.kubernetes.io/warn'', valueOr (gval params ''warn'') ''restricted'')]"

definition setLabels :: "(string, string) gomap \<Rightarrow> (string, string) gomap \<Rightarrow> (string, string) gomap" where
  "setLabels desired labels = fold (\<lambda>(k, v). gput k v) desired labels"

definition executePodSecurityLabels :: "'w op_env \<Rightarrow> json \<Rightarrow> bool \<Rightarrow> 'w \<Rightarrow> (op_error + string) \<times> 'w" where
  "executePodSecurityLabels env action dryRun w =
     bindR (liftE (targetNamespace env action) w) (\<lambda>namespace w1.
       if protectedNamespace namespace
       then (Inl (OpErr (''namespace '' @ namespace @ '' is protected from Pod Security label mutation'')), w1)
       else
         let desired = securityLabels (oe_strMap env action [''params'']) in
         bindR (call (oe_getNamespace env namespace w1)) (\<lambda>object w2.
         bindR (call (oe_update env dryRun (mapMeta (\<lambda>m. m\<lparr>om_labels := setLabels desired (om_labels m)\<rparr>) (ONamespace object)) w2))
           (\<lambda>_ w3.
             if dryRun then (Inr ''Kubernetes server-side dry-run passed for exact namespace label patch'', w3)
             else
               bindR (call (oe_getNamespace env namespace w3)) (\<lambda>verified w4.
                 bindR (check (forEachErr (\<lambda>key. if gval (om_labels (no_meta verified)) key \<noteq> gval desired key
                            then Some (''namespace label '' @ key @ '' was not persisted'') else None)
                          (oe_order env (map fst desired))) w4)
                   (\<lambda>_ w5. (Inr ''Pod Security labels were read back from the Namespace and match the plan'', w5))))))"

subsection \<open>Workloads\<close>

definition updateWorkload ::
    "'w op_env \<Rightarrow> json \<Rightarrow> bool \<Rightarrow> (pod_spec \<Rightarrow> string + pod_spec) \<Rightarrow> 'w \<Rightarrow> (op_error + unit) \<times> 'w" where
  "updateWorkload env action dryRun mutate w =
     bindR (liftE (actionTarget env action) w) (\<lambda>target w1.
       case kindOf (rt_kind target) of
         None \<Rightarrow> (Inl (OpErr (''unsupported workload kind '' @ rt_kind target)), w1)
       | Some kind \<Rightarrow>
           bindR (call (oe_getWorkload env kind (rt_namespace target) (rt_name target) w1)) (\<lambda>object w2.
           bindR (liftE (mutate (wl_spec object)) w2) (\<lambda>spec w3.
           bindR (call (oe_update env dryRun (OWorkload kind (object\<lparr>wl_spec := spec\<rparr>)) w3)) (\<lambda>_ w4. (Inr (), w4)))))"

definition verifyWorkload ::
    "'w op_env \<Rightarrow> json \<Rightarrow> (pod_spec \<Rightarrow> string option) \<Rightarrow> 'w \<Rightarrow> (op_error + unit) \<times> 'w" where
  "verifyWorkload env action verify w =
     bindR (liftE (actionTarget env action) w) (\<lambda>target w1.
       case kindOf (rt_kind target) of
         None \<Rightarrow> (Inl (OpErr (''unsupported workload kind '' @ rt_kind target)), w1)
       | Some kind \<Rightarrow>
           bindR (call (oe_getWorkload env kind (rt_namespace target) (rt_name target) w1)) (\<lambda>object w2.
             check (verify (wl_spec object)) w2))"

definition rolloutPending :: "workload_kind \<Rightarrow> workload \<Rightarrow> op_error option" where
  "rolloutPending kind wl =
     (let desired = (case wl_replicas wl of None \<Rightarrow> 1 | Some n \<Rightarrow> n) in
      case kind of
        Deployment \<Rightarrow>
          if wl_observedGeneration wl < wl_generation wl \<or> wl_updated wl < desired \<or> wl_available wl < desired
          then Some (pendingError ''Deployment rollout is not yet available'') else None
      | StatefulSet \<Rightarrow>
          if wl_observedGeneration wl < wl_generation wl \<or> wl_ready wl < desired \<or> wl_updated wl < desired
          then Some (pendingError ''StatefulSet rollout is not yet ready'') else None
      | DaemonSet \<Rightarrow>
          if wl_observedGeneration wl < wl_generation wl \<or> wl_desiredScheduled wl = 0 \<or>
             wl_updated wl < wl_desiredScheduled wl \<or> wl_available wl < wl_desiredScheduled wl
          then Some (pendingError ''DaemonSet rollout is not yet ready'') else None)"

definition verifyWorkloadRollout :: "'w op_env \<Rightarrow> json \<Rightarrow> 'w \<Rightarrow> (op_error + unit) \<times> 'w" where
  "verifyWorkloadRollout env action w =
     bindR (liftE (actionTarget env action) w) (\<lambda>target w1.
       case kindOf (rt_kind target) of
         None \<Rightarrow> (Inr (), w1)
       | Some kind \<Rightarrow>
           bindR (call (oe_getWorkload env kind (rt_namespace target) (rt_name target) w1)) (\<lambda>wl w2.
             (case rolloutPending kind wl of Some e \<Rightarrow> Inl e | None \<Rightarrow> Inr (), w2)))"

text \<open>
  The quantities of a resource patch: request and limit for cpu and memory, each present and positive.
\<close>

definition parsePositive :: "'w op_env \<Rightarrow> string \<Rightarrow> quantity option" where
  "parsePositive env value =
     (case oe_parseQuantity env value of Some q \<Rightarrow> if oe_positive env q then Some q else None | None \<Rightarrow> None)"

definition resourceParam :: "string \<Rightarrow> string \<Rightarrow> string" where
  "resourceParam name suffix = (if name = ''cpu'' then ''cpu'' else ''memory'') @ suffix"

definition quantityErrors :: "'w op_env \<Rightarrow> (string, string) gomap \<Rightarrow> string option" where
  "quantityErrors env params =
     (case forEachErr (\<lambda>name. if parsePositive env (gval params (resourceParam name ''Request'')) = None
             then Some (''invalid request quantity for '' @ name) else None) (oe_order env [''cpu'', ''memory'']) of
        Some e \<Rightarrow> Some e
      | None \<Rightarrow>
          forEachErr (\<lambda>name. if parsePositive env (gval params (resourceParam name ''Limit'')) = None
             then Some (''invalid limit quantity for '' @ name) else None) (oe_order env [''cpu'', ''memory'']))"

definition quantityOf :: "'w op_env \<Rightarrow> (string, string) gomap \<Rightarrow> string \<Rightarrow> string \<Rightarrow> quantity" where
  "quantityOf env params name suffix =
     (case parsePositive env (gval params (resourceParam name suffix)) of Some q \<Rightarrow> q | None \<Rightarrow> '''')"

definition fillContainer :: "'w op_env \<Rightarrow> (string, string) gomap \<Rightarrow> container \<Rightarrow> container" where
  "fillContainer env params c =
     c\<lparr>k_requests := setIfMissing (setIfMissing (k_requests c) ''cpu'' (quantityOf env params ''cpu'' ''Request''))
                       ''memory'' (quantityOf env params ''memory'' ''Request''),
       k_limits := setIfMissing (setIfMissing (k_limits c) ''cpu'' (quantityOf env params ''cpu'' ''Limit''))
                       ''memory'' (quantityOf env params ''memory'' ''Limit'')\<rparr>"

definition fillResources :: "'w op_env \<Rightarrow> (string, string) gomap \<Rightarrow> pod_spec \<Rightarrow> pod_spec" where
  "fillResources env params spec =
     (let containers = map (fillContainer env params) (ps_init spec @ ps_containers spec)
      in spec\<lparr>ps_init := take (length (ps_init spec)) containers,
              ps_containers := drop (length (ps_init spec)) containers\<rparr>)"

definition missingResource :: "container \<Rightarrow> string option" where
  "missingResource c =
     forEachErr (\<lambda>name. if gget (k_requests c) name = None
         then Some (''container '' @ k_name c @ '' is still missing request '' @ name)
         else if gget (k_limits c) name = None
         then Some (''container '' @ k_name c @ '' is still missing limit '' @ name) else None) [''cpu'', ''memory'']"

definition executeWorkloadResources :: "'w op_env \<Rightarrow> json \<Rightarrow> bool \<Rightarrow> 'w \<Rightarrow> (op_error + string) \<times> 'w" where
  "executeWorkloadResources env action dryRun w =
     (let params = oe_strMap env action [''params''] in
      bindR (check (quantityErrors env params) w) (\<lambda>_ w1.
      bindR (updateWorkload env action dryRun (\<lambda>spec. Inr (fillResources env params spec)) w1) (\<lambda>_ w2.
        if dryRun then (Inr ''Kubernetes server-side dry-run passed for named workload containers'', w2)
        else
          bindR (verifyWorkload env action (\<lambda>spec. forEachErr missingResource (ps_init spec @ ps_containers spec)) w2) (\<lambda>_ w3.
          bindR (verifyWorkloadRollout env action w3) (\<lambda>_ w4.
            (Inr ''Workload resource requests and limits were read back for every container'', w4))))))"

fun addProbes :: "string \<Rightarrow> (container \<Rightarrow> container) \<Rightarrow> container list \<Rightarrow> container list option" where
  "addProbes name f [] = None"
| "addProbes name f (c # cs) =
     (if k_name c = name then Some (f c # cs) else map_option (\<lambda>ds. c # ds) (addProbes name f cs))"

definition probeContainer :: "string \<Rightarrow> string \<Rightarrow> intorstr \<Rightarrow> (string, string) gomap \<Rightarrow> container \<Rightarrow> container" where
  "probeContainer readinessPath livenessPath port params c =
     c\<lparr>k_readiness := (case k_readiness c of None \<Rightarrow> Some (safeHTTPProbe readinessPath port params) | Some p \<Rightarrow> Some p),
       k_liveness := (case k_liveness c of None \<Rightarrow> Some (safeHTTPProbe livenessPath port params) | Some p \<Rightarrow> Some p)\<rparr>"

definition executeWorkloadProbes :: "'w op_env \<Rightarrow> json \<Rightarrow> bool \<Rightarrow> 'w \<Rightarrow> (op_error + string) \<times> 'w" where
  "executeWorkloadProbes env action dryRun w =
     (let params = oe_strMap env action [''params'']; containerName = gval params ''container'';
          port = oe_intstr env (gval params ''port'');
          readinessPath = gval params ''readinessPath''; livenessPath = gval params ''livenessPath'';
          noContainer = ''configured container '' @ containerName @ '' does not exist''
      in if gval params ''configured'' \<noteq> ''true'' then (Inl (OpErr ''probe execution requires configured=true''), w)
         else
           bindR (updateWorkload env action dryRun (\<lambda>spec.
               case addProbes containerName (probeContainer readinessPath livenessPath port params) (ps_containers spec) of
                 None \<Rightarrow> Inl noContainer
               | Some cs \<Rightarrow> Inr (spec\<lparr>ps_containers := cs\<rparr>)) w) (\<lambda>_ w1.
             if dryRun then (Inr ''Kubernetes server-side dry-run passed for explicit probe configuration'', w1)
             else
               bindR (verifyWorkload env action (\<lambda>spec.
                   case find (\<lambda>c. k_name c = containerName) (ps_containers spec) of
                     None \<Rightarrow> Some noContainer
                   | Some c \<Rightarrow>
                       if \<not> probeMatches (k_readiness c) readinessPath port \<or> \<not> probeMatches (k_liveness c) livenessPath port
                       then Some (''configured probes were not persisted for container '' @ containerName)
                       else None) w1) (\<lambda>_ w2.
               bindR (verifyWorkloadRollout env action w2) (\<lambda>_ w3.
                 (Inr ''Explicit readiness and liveness probes were read back from the workload template'', w3)))))"

subsection \<open>Disruption budgets\<close>

definition workloadSelector :: "'w op_env \<Rightarrow> remediation_target \<Rightarrow> 'w \<Rightarrow> (op_error + (string, string) gomap) \<times> 'w" where
  "workloadSelector env target w =
     (if rt_kind target = ''Deployment'' then
        bindR (call (oe_getWorkload env Deployment (rt_namespace target) (rt_name target) w)) (\<lambda>wl w1. (Inr (wl_selector wl), w1))
      else if rt_kind target = ''StatefulSet'' then
        bindR (call (oe_getWorkload env StatefulSet (rt_namespace target) (rt_name target) w)) (\<lambda>wl w1. (Inr (wl_selector wl), w1))
      else (Inl (OpErr (''PDB action does not support '' @ rt_kind target)), w))"

definition plannedPDB :: "remediation_target \<Rightarrow> intorstr \<Rightarrow> (string, string) gomap \<Rightarrow> pdb_obj" where
  "plannedPDB target minimum selector =
     \<lparr>pd_meta = newMeta (rt_namespace target) (rt_name target @ ''-kubeathrix''),
      pd_minAvailable = Some minimum, pd_selector = Some selector, pd_expectedPods = 0\<rparr>"

definition executePDB :: "'w op_env \<Rightarrow> json \<Rightarrow> bool \<Rightarrow> 'w \<Rightarrow> (op_error + string) \<times> 'w" where
  "executePDB env action dryRun w =
     bindR (liftE (actionTarget env action) w) (\<lambda>target w1.
     bindR (workloadSelector env target w1) (\<lambda>selector w2.
       if selector = [] then (Inl (OpErr ''refusing to create a PDB with an empty workload selector''), w2)
       else
         let minimum = oe_intstr env (gval (oe_strMap env action [''params'']) ''minAvailable'');
             pdb = plannedPDB target minimum selector
         in bindR (upsertObject env (OPDB pdb) dryRun w2) (\<lambda>_ w3.
              if dryRun then (Inr ''Kubernetes server-side dry-run passed for a non-empty exact PDB selector'', w3)
              else
                bindR (call (oe_getPDB env (rt_namespace target) (rt_name target @ ''-kubeathrix'') w3)) (\<lambda>verified w4.
                  if pd_selector verified \<in> {None, Some []} \<or>
                     (case pd_minAvailable verified of None \<Rightarrow> True | Some m \<Rightarrow> oe_intstrText env m \<noteq> oe_intstrText env minimum)
                  then (Inl (OpErr ''PodDisruptionBudget does not match the planned selector and threshold''), w4)
                  else if pd_expectedPods verified = 0
                  then (Inl (pendingError ''PodDisruptionBudget controller has not observed matching pods''), w4)
                  else (Inr ''PodDisruptionBudget was read back with the exact workload selector and threshold'', w4)))))"

definition executeTypedAction :: "'w op_env \<Rightarrow> json \<Rightarrow> bool \<Rightarrow> 'w \<Rightarrow> (op_error + string) \<times> 'w" where
  "executeTypedAction env action dryRun w =
     (let actionType = oe_str env action [''type''] in
      if actionType = ''apply_resource_governance'' then
        bindR (liftE (targetNamespace env action) w) (\<lambda>namespace w1.
        bindR (applyResourceGovernance env namespace dryRun w1) (\<lambda>_ w2.
          if dryRun then (Inr ''Kubernetes server-side dry-run passed for ResourceQuota and LimitRange'', w2)
          else
            bindR (wrapErr ''post-write verification failed: '' (verifyResourceGovernance env namespace w2)) (\<lambda>_ w3.
              (Inr ''ResourceQuota and LimitRange were read back and match the planned governance profile'', w3))))
      else if actionType = ''patch_pod_security_labels'' then executePodSecurityLabels env action dryRun w
      else if actionType = ''patch_workload_resources'' then executeWorkloadResources env action dryRun w
      else if actionType = ''create_pdb'' then executePDB env action dryRun w
      else if actionType = ''patch_workload_probes'' then executeWorkloadProbes env action dryRun w
      else (Inl (OpErr (''no direct executor registered for action '' @ actionType)), w))"

end
