(* ===== verification/OperatorReconciler.thy ===== *)
theory OperatorReconciler
  imports Go_Prelude Sha256 Json GoDuration Kubernetes ActionCatalog OperatorModel
begin

text \<open>
  The reconcilers of the operator: snapshots and rollback, the gates and the loop over the actions
  of a plan, the status of plans, runs and findings
  (\<open>operator/controllers/remediation_controller.go\<close>), and the finding controller
  (\<open>operator/controllers/finding_controller.go\<close>).
\<close>

subsection \<open>Names\<close>

definition childName :: "string \<Rightarrow> string \<Rightarrow> string" where
  "childName prefix parent =
     (let value = prefix @ parent in
      if length value \<le> 63 then value
      else trimChar CHR ''-'' (take 50 value) @ ''-'' @ take 12 (sha256Hex value))"

definition marshalled :: "json \<Rightarrow> string" where
  "marshalled v = (case marshalAny v of Some s \<Rightarrow> s | None \<Rightarrow> '''')"

definition snapshotKey :: "'w op_env \<Rightarrow> json \<Rightarrow> string" where
  "snapshotKey env action =
     map (\<lambda>c. if c = CHR ''_'' then CHR ''-'' else c) (oe_str env action [''type'']) @ ''-'' @
     take 12 (sha256Hex (marshalled action)) @ ''.json''"

subsection \<open>Snapshots\<close>

record snapshot_item =
  sn_apiVersion :: string
  sn_kind :: string
  sn_namespace :: string
  sn_name :: string
  sn_existed :: bool
  sn_object :: json

definition emptyItem :: snapshot_item where
  "emptyItem = \<lparr>sn_apiVersion = '''', sn_kind = '''', sn_namespace = '''', sn_name = '''', sn_existed = False, sn_object = JNull\<rparr>"

text \<open>\<open>json.Marshal\<close> of the items: the fields in the order of the struct, the empty ones left out.\<close>

definition jsonMember :: "string \<Rightarrow> string \<Rightarrow> string" where
  "jsonMember k v = quoteJson k @ '':'' @ v"

definition encodeItem :: "snapshot_item \<Rightarrow> string option" where
  "encodeItem item =
     (case (if sn_object item \<in> {JNull, JObj []} then Some [] else
              map_option (\<lambda>s. [jsonMember ''object'' s]) (marshalAny (sn_object item))) of
        None \<Rightarrow> None
      | Some object \<Rightarrow>
          Some (''{'' @ joinWith '','' ([jsonMember ''apiVersion'' (quoteJson (sn_apiVersion item)),
              jsonMember ''kind'' (quoteJson (sn_kind item))] @
              (if sn_namespace item = '''' then [] else [jsonMember ''namespace'' (quoteJson (sn_namespace item))]) @
              [jsonMember ''name'' (quoteJson (sn_name item)),
               jsonMember ''existed'' (if sn_existed item then ''true'' else ''false'')] @ object) @ ''}''))"

definition encodeSnapshot :: "snapshot_item list \<Rightarrow> string option" where
  "encodeSnapshot items =
     (if list_ex (\<lambda>i. encodeItem i = None) items then None
      else Some (''['' @ joinWith '','' (map (\<lambda>i. case encodeItem i of Some s \<Rightarrow> s | None \<Rightarrow> '''') items) @ '']''))"

definition itemFields :: "string list" where
  "itemFields = [''apiVersion'', ''kind'', ''namespace'', ''name'', ''existed'', ''object'']"

fun decodeItem :: "(string \<times> json) list \<Rightarrow> snapshot_item \<Rightarrow> snapshot_item option" where
  "decodeItem [] item = Some item"
| "decodeItem ((k, v) # ms) item =
     (case matchField itemFields k of
        None \<Rightarrow> decodeItem ms item
      | Some f \<Rightarrow>
          if f = ''existed'' then
            (case v of JBool b \<Rightarrow> decodeItem ms (item\<lparr>sn_existed := b\<rparr>) | JNull \<Rightarrow> decodeItem ms item | _ \<Rightarrow> None)
          else if f = ''object'' then
            (case v of
               JObj os \<Rightarrow> decodeItem ms (item\<lparr>sn_object := JObj ((case sn_object item of JObj os0 \<Rightarrow> os0 | _ \<Rightarrow> []) @ os)\<rparr>)
             | JNull \<Rightarrow> decodeItem ms (item\<lparr>sn_object := JNull\<rparr>)
             | _ \<Rightarrow> None)
          else
            (case decodeStringField v
                 (if f = ''apiVersion'' then sn_apiVersion item else if f = ''kind'' then sn_kind item
                  else if f = ''namespace'' then sn_namespace item else sn_name item) of
               None \<Rightarrow> None
             | Some s \<Rightarrow>
                 decodeItem ms
                   (if f = ''apiVersion'' then item\<lparr>sn_apiVersion := s\<rparr> else if f = ''kind'' then item\<lparr>sn_kind := s\<rparr>
                    else if f = ''namespace'' then item\<lparr>sn_namespace := s\<rparr> else item\<lparr>sn_name := s\<rparr>)))"

fun decodeItems :: "json list \<Rightarrow> snapshot_item list option" where
  "decodeItems [] = Some []"
| "decodeItems (v # vs) =
     (case (case v of JObj ms \<Rightarrow> decodeItem ms emptyItem | JNull \<Rightarrow> Some emptyItem | _ \<Rightarrow> None) of
        None \<Rightarrow> None
      | Some item \<Rightarrow> map_option (\<lambda>items. item # items) (decodeItems vs))"

definition decodeSnapshot :: "string \<Rightarrow> snapshot_item list option" where
  "decodeSnapshot payload =
     (case jsonStrict payload of Some (JArr vs) \<Rightarrow> decodeItems vs | Some JNull \<Rightarrow> Some [] | _ \<Rightarrow> None)"

text \<open>The members of a decoded object; the code deletes and sets them as those of a Go map.\<close>

definition jsonDelete :: "string \<Rightarrow> json \<Rightarrow> json" where
  "jsonDelete k v = (case v of JObj ms \<Rightarrow> JObj (filter (\<lambda>(k', _). k' \<noteq> k) ms) | _ \<Rightarrow> v)"

definition jsonPut :: "string \<Rightarrow> json \<Rightarrow> json \<Rightarrow> json" where
  "jsonPut k x v = (case v of JObj ms \<Rightarrow> JObj (filter (\<lambda>(k', _). k' \<noteq> k) ms @ [(k, x)]) | _ \<Rightarrow> v)"

definition sanitizeObject :: "'w op_env \<Rightarrow> json \<Rightarrow> json" where
  "sanitizeObject env object0 =
     (let object = jsonDelete ''status'' object0;
          metadata = (case oe_map env object [''metadata''] of Some m \<Rightarrow> m | None \<Rightarrow> JNull);
          cleaned = fold jsonDelete [''resourceVersion'', ''uid'', ''generation'', ''creationTimestamp'',
            ''managedFields'', ''selfLink''] metadata
      in oe_setMap env object [''metadata''] cleaned)"

definition objectState :: "'w op_env \<Rightarrow> json \<Rightarrow> string" where
  "objectState env object =
     marshalled (JObj [(''labels'', case oe_labels env object of None \<Rightarrow> JNull
                          | Some ls \<Rightarrow> JObj (map (\<lambda>(k, v). (k, JStr v)) ls)),
                       (''spec'', oe_field env object [''spec''])])"

definition plainTarget :: "string \<Rightarrow> string \<Rightarrow> string \<Rightarrow> string \<Rightarrow> remediation_target" where
  "plainTarget apiVersion kind namespace name =
     \<lparr>rt_apiVersion = apiVersion, rt_kind = kind, rt_namespace = namespace, rt_name = name\<rparr>"

text \<open>The objects an action writes, whose state is recorded before.\<close>

definition snapshotRefs :: "'w op_env \<Rightarrow> json \<Rightarrow> string + remediation_target list" where
  "snapshotRefs env action =
     (case actionTarget env action of
        Inl e \<Rightarrow> Inl e
      | Inr target \<Rightarrow>
          let actionType = oe_str env action [''type''] in
          if actionType = ''apply_resource_governance'' then
            (case targetNamespace env action of
               Inl e \<Rightarrow> Inl e
             | Inr namespace \<Rightarrow> Inr [plainTarget ''v1'' ''ResourceQuota'' namespace ''kubeathrix-defaults'',
                                 plainTarget ''v1'' ''LimitRange'' namespace ''kubeathrix-defaults''])
          else if actionType = ''create_pdb'' then
            Inr [plainTarget ''policy/v1'' ''PodDisruptionBudget'' (rt_namespace target) (rt_name target @ ''-kubeathrix'')]
          else if actionType = ''patch_pod_security_labels'' then
            Inr [plainTarget ''v1'' ''Namespace'' '''' (rt_name target)]
          else if actionType = ''patch_workload_resources'' \<or> actionType = ''patch_workload_probes'' then Inr [target]
          else Inl (''action '' @ actionType @ '' does not support snapshots''))"

definition snapshotOne :: "'w op_env \<Rightarrow> remediation_target \<Rightarrow> 'w \<Rightarrow> (op_error + snapshot_item) \<times> 'w" where
  "snapshotOne env ref w =
     (let item = \<lparr>sn_apiVersion = rt_apiVersion ref, sn_kind = rt_kind ref, sn_namespace = rt_namespace ref,
                  sn_name = rt_name ref, sn_existed = False, sn_object = JNull\<rparr> in
      case oe_getObject env (rt_apiVersion ref) (rt_kind ref) (rt_namespace ref) (rt_name ref) w of
        (Inl (K8sNotFound t), w1) \<Rightarrow> (Inr item, w1)
      | (Inl e, w1) \<Rightarrow> (Inl (OpErr (k8sText e)), w1)
      | (Inr object, w1) \<Rightarrow> (Inr (item\<lparr>sn_existed := True, sn_object := sanitizeObject env object\<rparr>), w1))"

fun collect :: "('a \<Rightarrow> 'w \<Rightarrow> ('e + 'b) \<times> 'w) \<Rightarrow> 'a list \<Rightarrow> 'w \<Rightarrow> ('e + 'b list) \<times> 'w" where
  "collect f [] w = (Inr [], w)"
| "collect f (x # xs) w = bindR (f x w) (\<lambda>y w1. bindR (collect f xs w1) (\<lambda>ys w2. (Inr (y # ys), w2)))"

definition snapshotItemsForAction :: "'w op_env \<Rightarrow> json \<Rightarrow> 'w \<Rightarrow> (op_error + snapshot_item list) \<times> 'w" where
  "snapshotItemsForAction env action w =
     bindR (liftE (snapshotRefs env action) w) (\<lambda>refs w1. collect (snapshotOne env) refs w1)"

definition snapshotRef :: "'w op_env \<Rightarrow> json \<Rightarrow> string \<Rightarrow> string" where
  "snapshotRef env plan key =
     ''ConfigMap/'' @ oe_namespace env plan @ ''/'' @ childName ''snapshot-'' (oe_name env plan) @ ''#'' @ key"

definition newSnapshotMap :: "'w op_env \<Rightarrow> json \<Rightarrow> config_map" where
  "newSnapshotMap env plan =
     \<lparr>cmap_meta = (newMeta (oe_namespace env plan) (childName ''snapshot-'' (oe_name env plan)))
        \<lparr>om_labels := [(managedBy, ''kubeathrix''), (''security.kubeathrix.io/plan'', oe_name env plan)]\<rparr>,
      cmap_data = []\<rparr>"

definition storeSnapshot ::
    "'w op_env \<Rightarrow> json \<Rightarrow> json \<Rightarrow> config_map \<Rightarrow> 'w \<Rightarrow> (op_error + string) \<times> 'w" where
  "storeSnapshot env plan action configMap w =
     bindR (snapshotItemsForAction env action w) (\<lambda>items w1.
       case encodeSnapshot items of
         None \<Rightarrow> (Inl (OpErr (oe_jsonError env '''')), w1)
       | Some payload \<Rightarrow>
           if length payload > 900 * 1024
           then (Inl (OpErr ''snapshot exceeds the safe ConfigMap payload limit''), w1)
           else
             let filled = configMap\<lparr>cmap_data := gput (snapshotKey env action) payload (cmap_data configMap)\<rparr> in
             bindR (call (if om_resourceVersion (cmap_meta filled) = '''' then oe_create env False (OConfigMap filled) w1
                          else oe_update env False (OConfigMap filled) w1))
               (\<lambda>_ w2. (Inr (snapshotRef env plan (snapshotKey env action)), w2)))"

definition ensureActionSnapshot :: "'w op_env \<Rightarrow> json \<Rightarrow> json \<Rightarrow> 'w \<Rightarrow> (op_error + string) \<times> 'w" where
  "ensureActionSnapshot env plan action w =
     (case oe_getConfigMap env (oe_namespace env plan) (childName ''snapshot-'' (oe_name env plan)) w of
        (Inr configMap, w1) \<Rightarrow>
          if gget (cmap_data configMap) (snapshotKey env action) \<noteq> None
          then (Inr (snapshotRef env plan (snapshotKey env action)), w1)
          else storeSnapshot env plan action configMap w1
      | (Inl (K8sNotFound t), w1) \<Rightarrow> storeSnapshot env plan action (newSnapshotMap env plan) w1
      | (Inl e, w1) \<Rightarrow> (Inl (OpErr (k8sText e)), w1))"

subsection \<open>Results of a plan\<close>

record action_outcome =
  as_type :: string
  as_state :: string
  as_message :: string

record plan_result =
  pr_phase :: string
  pr_runState :: string
  pr_message :: string
  pr_diffSummary :: string
  pr_verificationResult :: string
  pr_rollbackRef :: string
  pr_lastError :: string
  pr_actionStatuses :: "action_outcome list"
  pr_dryRunPassed :: bool
  pr_dryRunMessage :: string
  pr_requeueAfter :: duration

definition withStatus :: "plan_result \<Rightarrow> string \<Rightarrow> string \<Rightarrow> string \<Rightarrow> plan_result" where
  "withStatus result actionType state message =
     result\<lparr>pr_actionStatuses := pr_actionStatuses result @ [\<lparr>as_type = actionType, as_state = state, as_message = message\<rparr>]\<rparr>"

definition failedResult :: "plan_result \<Rightarrow> string \<Rightarrow> string \<Rightarrow> string \<Rightarrow> plan_result" where
  "failedResult result actionType phase message =
     withStatus (result\<lparr>pr_phase := phase, pr_runState := ''failed'', pr_lastError := message\<rparr>) actionType ''failed'' message"

subsection \<open>Rollback\<close>

definition restoreSnapshotItem :: "'w op_env \<Rightarrow> snapshot_item \<Rightarrow> 'w \<Rightarrow> (op_error + unit) \<times> 'w" where
  "restoreSnapshotItem env item w =
     (let label = sn_kind item @ ''/'' @ sn_name item;
          get = oe_getObject env (sn_apiVersion item) (sn_kind item) (sn_namespace item) (sn_name item);
          verify = (\<lambda>w1. bindR (call (get w1)) (\<lambda>verified w2.
            if objectState env verified \<noteq> objectState env (sn_object item)
            then (Inl (OpErr (''restored object '' @ label @ '' does not match the snapshot'')), w2) else (Inr (), w2)))
      in case get w of
           (Inl (K8sNotFound t), w1) \<Rightarrow>
             if \<not> sn_existed item then (Inr (), w1)
             else bindR (call (oe_create env False (OUnstructured (sn_object item)) w1)) (\<lambda>_ w2. verify w2)
         | (Inl e, w1) \<Rightarrow> (Inl (OpErr (k8sText e)), w1)
         | (Inr current, w1) \<Rightarrow>
             if \<not> sn_existed item then
               if gval (case oe_labels env current of Some ls \<Rightarrow> ls | None \<Rightarrow> []) managedBy \<noteq> ''kubeathrix''
               then (Inl (OpErr (''refusing to delete non-KubeAthrix object '' @ label @ '' during rollback'')), w1)
               else
                 (case oe_delete env current w1 of
                    (Some (K8sAlreadyExists t), w2) \<Rightarrow> (Inl (OpErr t), w2)
                  | (Some (K8sOther t), w2) \<Rightarrow> (Inl (OpErr t), w2)
                  | (_, w2) \<Rightarrow>
                      (case get w2 of
                         (Inl (K8sNotFound t), w3) \<Rightarrow> (Inr (), w3)
                       | (_, w3) \<Rightarrow> (Inl (OpErr (''rollback deletion was not observed for '' @ label)), w3)))
             else
               bindR (call (oe_update env False
                        (OUnstructured (oe_setResourceVersion env (oe_resourceVersion env current) (sn_object item))) w1))
                 (\<lambda>_ w2. verify w2))"

definition rollbackFailed :: "plan_result \<Rightarrow> string \<Rightarrow> plan_result" where
  "rollbackFailed result message =
     result\<lparr>pr_phase := ''RollbackFailed'', pr_runState := ''failed'', pr_lastError := message, pr_message := message\<rparr>"

fun restoreItems :: "'w op_env \<Rightarrow> snapshot_item list \<Rightarrow> plan_result \<Rightarrow> 'w \<Rightarrow> (plan_result + plan_result) \<times> 'w" where
  "restoreItems env [] result w = (Inr result, w)"
| "restoreItems env (item # items) result w =
     (case restoreSnapshotItem env item w of
        (Inl e, w1) \<Rightarrow> (Inl (rollbackFailed result (opText e)), w1)
      | (Inr _, w1) \<Rightarrow>
          restoreItems env items (withStatus result ''rollback'' ''rolled_back''
            (sn_kind item @ ''/'' @ sn_name item @ '' restored and verified'')) w1)"

fun restoreSets ::
    "'w op_env \<Rightarrow> (string, string) gomap \<Rightarrow> string list \<Rightarrow> plan_result \<Rightarrow> 'w \<Rightarrow> (plan_result + plan_result) \<times> 'w" where
  "restoreSets env data [] result w = (Inr result, w)"
| "restoreSets env data (key # keys) result w =
     (case decodeSnapshot (gval data key) of
        None \<Rightarrow> (Inl (rollbackFailed result (''decode rollback snapshot: '' @ oe_jsonError env (gval data key))), w)
      | Some items \<Rightarrow> bindR (restoreItems env items result w) (\<lambda>result1 w1. restoreSets env data keys result1 w1))"

definition rollbackStart :: plan_result where
  "rollbackStart =
     \<lparr>pr_phase = ''RollingBack'', pr_runState = ''running'', pr_message = ''restoring pre-change snapshots'',
      pr_diffSummary = '''', pr_verificationResult = ''rollback verification is in progress'', pr_rollbackRef = '''',
      pr_lastError = '''', pr_actionStatuses = [], pr_dryRunPassed = False,
      pr_dryRunMessage = ''not applicable to rollback'', pr_requeueAfter = 0\<rparr>"

definition reconcileRollback :: "'w op_env \<Rightarrow> json \<Rightarrow> 'w \<Rightarrow> plan_result \<times> 'w" where
  "reconcileRollback env plan w =
     (let configMapName = childName ''snapshot-'' (oe_name env plan) in
      case oe_getConfigMap env (oe_namespace env plan) configMapName w of
        (Inl e, w1) \<Rightarrow> (rollbackFailed rollbackStart (''load rollback snapshot: '' @ k8sText e), w1)
      | (Inr configMap, w1) \<Rightarrow>
          let keys = oe_order env (map fst (cmap_data configMap)) in
          (case restoreSets env (cmap_data configMap) keys rollbackStart w1 of
             (Inl result, w2) \<Rightarrow> (result, w2)
           | (Inr result, w2) \<Rightarrow>
               (result\<lparr>pr_phase := ''RolledBack'', pr_runState := ''rolled_back'',
                  pr_message := ''restored and verified '' @ itoa (int (length keys)) @ '' snapshot set(s)'',
                  pr_verificationResult := ''restored objects were read back or created objects were confirmed deleted'',
                  pr_rollbackRef := ''ConfigMap/'' @ oe_namespace env plan @ ''/'' @ configMapName\<rparr>, w2)))"

subsection \<open>Actions of a plan\<close>

text \<open>The texts of the catalog's errors; \<open>lib\<close> is what the JSON decoder contributes, when it does.\<close>

definition managedText :: "string \<Rightarrow> string \<Rightarrow> managed_error \<Rightarrow> string" where
  "managedText t lib e =
     (case e of
        NotConcrete \<Rightarrow> ''action '' @ t @ '' requires a concrete apiVersion and kind''
      | BadController \<Rightarrow> ''action '' @ t @ '' parameter managementController must be a lowercase DNS name''
      | BadGeneration \<Rightarrow> ''action '' @ t @ '' parameter sourceGeneration must be a positive integer''
      | BadPatchType \<Rightarrow> ''action '' @ t @ '' parameter patchType must be '' @ ManagedResourceJSONPatch
      | PatchSyntax \<Rightarrow> ''action '' @ t @ '' parameter patch must be a strict RFC 6902 array: '' @ lib
      | OpOutsideSpec i \<Rightarrow> ''action '' @ t @ '' patch operation '' @ itoa (int i) @ '' must target /spec''
      | OpNeedsValue i \<Rightarrow> ''action '' @ t @ '' patch operation '' @ itoa (int i) @ '' requires value''
      | RemoveHasValue i \<Rightarrow> ''action '' @ t @ '' remove operation '' @ itoa (int i) @ '' must not include value''
      | TestNeedsValue i \<Rightarrow> ''action '' @ t @ '' test operation '' @ itoa (int i) @ '' requires value''
      | UnsupportedOp i x \<Rightarrow> ''action '' @ t @ '' patch operation '' @ itoa (int i) @ '' uses unsupported op '' @ quoteGo x
      | NoMutation \<Rightarrow> ''action '' @ t @ '' parameter patch requires at least one add, remove, or replace operation''
      | RollbackNotObject \<Rightarrow> ''action '' @ t @ '' parameter rollbackSourceSpec '' @ lib
      | DiffSyntax \<Rightarrow> ''action '' @ t @ '' parameter diff must contain exact diff metadata: '' @ lib
      | DiffFormat \<Rightarrow> ''action '' @ t @ '' diff format must be unified''
      | DiffHashes \<Rightarrow> ''action '' @ t @ '' diff requires valid beforeSpecHash and afterSpecHash SHA-256 values''
      | RollbackHashMismatch \<Rightarrow> ''action '' @ t @ '' diff beforeSpecHash does not match rollbackSourceSpec''
      | HashesEqual \<Rightarrow> ''action '' @ t @ '' diff beforeSpecHash and afterSpecHash must differ''
      | DiffContent \<Rightarrow> ''action '' @ t @ '' diff content must be a unified diff'')"

fun catalogText :: "(string \<Rightarrow> string) \<Rightarrow> string \<Rightarrow> catalog_error \<Rightarrow> string" where
  "catalogText lib t (UnknownAction a) = ''unknown action type '' @ quoteGo a @ '' in catalog '' @ Version"
| "catalogText lib t (UnsupportedResource a v k) = ''action '' @ a @ '' does not support '' @ v @ '' '' @ k"
| "catalogText lib t (MissingParameter a p) = ''action '' @ a @ '' requires parameter '' @ p"
| "catalogText lib t (ParameterNotAllowed a p) = ''action '' @ a @ '' does not allow parameter '' @ p"
| "catalogText lib t (ManagedChange e) = managedText t (lib t) e"

definition catalogEntry :: "'w op_env \<Rightarrow> json \<Rightarrow> catalog_action" where
  "catalogEntry env action =
     (let target = (case oe_map env action [''target''] of Some m \<Rightarrow> m | None \<Rightarrow> JNull)
      in \<lparr>ca_type = oe_str env action [''type''], ca_apiVersion = oe_str env target [''apiVersion''],
          ca_kind = oe_str env target [''kind''], ca_params = oe_strMap env action [''params'']\<rparr>)"

record plan_counts =
  pc_applied :: int
  pc_dryRun :: int
  pc_proposal :: int

definition dryRunText :: "int \<Rightarrow> string" where
  "dryRunText n = ''Kubernetes server-side dry-run passed for '' @ itoa n @ '' action(s)''"

text \<open>
  One round of the loop: an early return of the whole reconcile (\<open>Inl\<close>), or the result and the
  counts so far. A raw action that is not an object is skipped.
\<close>

definition writeAction ::
    "bool \<Rightarrow> 'w op_env \<Rightarrow> json \<Rightarrow> json \<Rightarrow> plan_result \<times> plan_counts \<Rightarrow> 'w \<Rightarrow>
      (plan_result + plan_result \<times> plan_counts) \<times> 'w" where
  "writeAction mutationEnabled env plan action acc w =
     (let actionType = oe_str env action [''type'']; (result, counts) = acc in
      if \<not> mutationEnabled
      then (Inr (withStatus result actionType ''dry_run_passed'' ''Kubernetes server-side dry-run passed'', counts), w)
      else
        (case ensureActionSnapshot env plan action w of
           (Inl e, w1) \<Rightarrow> (Inl (failedResult result actionType ''SnapshotFailed'' (''snapshot failed: '' @ opText e)), w1)
         | (Inr ref, w1) \<Rightarrow>
             let result1 = result\<lparr>pr_rollbackRef := ref\<rparr> in
             (case executeTypedAction env action False w1 of
                (Inl (OpPending e), w2) \<Rightarrow>
                  (Inl (withStatus (result1\<lparr>pr_phase := ''Verifying'', pr_runState := ''verifying'',
                     pr_message := ''cluster write completed; waiting for controller and health verification'',
                     pr_verificationResult := e, pr_dryRunPassed := True, pr_dryRunMessage := dryRunText (pc_dryRun counts),
                     pr_requeueAfter := 5 * second\<rparr>) actionType ''verifying'' e), w2)
              | (Inl (OpErr e), w2) \<Rightarrow> (Inl (failedResult result1 actionType ''VerificationFailed'' e), w2)
              | (Inr verification, w2) \<Rightarrow>
                  (Inr (withStatus result1 actionType ''succeeded'' verification,
                        counts\<lparr>pc_applied := pc_applied counts + 1\<rparr>), w2))))"

definition runAction ::
    "bool \<Rightarrow> 'w op_env \<Rightarrow> json \<Rightarrow> json \<Rightarrow> plan_result \<times> plan_counts \<Rightarrow> 'w \<Rightarrow>
      (plan_result + plan_result \<times> plan_counts) \<times> 'w" where
  "runAction mutationEnabled env plan action acc w =
     (let entry = catalogEntry env action; actionType = ca_type entry; (result, counts) = acc;
          proposalOnly = (\<lambda>message. (Inr (withStatus result actionType ''proposal_only'' message,
            counts\<lparr>pc_proposal := pc_proposal counts + 1\<rparr>), w))
      in case action of
           JObj ms \<Rightarrow>
             (case ValidateProposal entry of
                Inl e \<Rightarrow> (Inl (failedResult result actionType ''Failed'' (catalogText (oe_jsonError env) actionType e)), w)
              | Inr _ \<Rightarrow>
                  if ExecutionModeFor entry \<noteq> ModeDirect
                  then proposalOnly ''the action registry does not permit direct execution''
                  else
                    (case Validate entry of
                       Inl e \<Rightarrow> proposalOnly (catalogText (oe_jsonError env) actionType e)
                     | Inr _ \<Rightarrow>
                         (case executeTypedAction env action True w of
                            (Inl e, w1) \<Rightarrow>
                              let message = ''server-side dry-run failed: '' @ opText e
                              in (Inl ((failedResult result actionType ''DryRunFailed'' message)\<lparr>pr_dryRunMessage := message\<rparr>), w1)
                          | (Inr _, w1) \<Rightarrow>
                              writeAction mutationEnabled env plan action (result, counts\<lparr>pc_dryRun := pc_dryRun counts + 1\<rparr>) w1)))
         | _ \<Rightarrow> (Inr acc, w))"

fun runActions ::
    "bool \<Rightarrow> 'w op_env \<Rightarrow> json \<Rightarrow> json list \<Rightarrow> plan_result \<times> plan_counts \<Rightarrow> 'w \<Rightarrow>
      (plan_result + plan_result \<times> plan_counts) \<times> 'w" where
  "runActions mutationEnabled env plan [] acc w = (Inr acc, w)"
| "runActions mutationEnabled env plan (action # actions) acc w =
     bindR (runAction mutationEnabled env plan action acc w) (\<lambda>acc1 w1. runActions mutationEnabled env plan actions acc1 w1)"

definition finishActions :: "plan_result \<times> plan_counts \<Rightarrow> plan_result" where
  "finishActions acc =
     (let (result, counts) = acc in
      if pc_applied counts > 0 then
        result\<lparr>pr_phase := ''Applied'', pr_runState := ''succeeded'',
          pr_message := itoa (pc_applied counts) @ '' low-risk typed action(s) applied'',
          pr_verificationResult := ''all mutated objects were read back from the Kubernetes API and matched the typed action; source re-scan is still required'',
          pr_dryRunPassed := True, pr_dryRunMessage := dryRunText (pc_dryRun counts)\<rparr>
      else if pc_dryRun counts > 0 then
        result\<lparr>pr_phase := ''DryRunPassed'', pr_runState := ''dry_run_passed'',
          pr_message := ''server-side dry-run passed; mutating remediation is disabled'',
          pr_verificationResult := ''no cluster mutation was attempted'',
          pr_dryRunPassed := True, pr_dryRunMessage := dryRunText (pc_dryRun counts)\<rparr>
      else if pc_proposal counts > 0 then
        result\<lparr>pr_phase := ''ProposalOnly'', pr_runState := ''proposal_only'',
          pr_message := ''all actions are proposal-only because no executor is registered'',
          pr_verificationResult := ''no cluster mutation or verification was attempted''\<rparr>
      else result)"

definition preparedResult :: "int \<Rightarrow> plan_result" where
  "preparedResult n =
     \<lparr>pr_phase = ''Prepared'', pr_runState = ''prepared'',
      pr_message = ''typed actions prepared; execution has not been requested'',
      pr_diffSummary = itoa n @ '' typed action(s) inspected'',
      pr_verificationResult = ''no verification performed because execution has not been requested'',
      pr_rollbackRef = ''pre-change snapshot required before mutating write'', pr_lastError = '''',
      pr_actionStatuses = [], pr_dryRunPassed = False,
      pr_dryRunMessage = ''server-side dry-run has not been performed'', pr_requeueAfter = 0\<rparr>"

definition reconcilePlanActions :: "bool \<Rightarrow> 'w op_env \<Rightarrow> json \<Rightarrow> 'w \<Rightarrow> plan_result \<times> 'w" where
  "reconcilePlanActions mutationEnabled env plan w =
     (let approvalRequired = oe_bool env plan [''spec'', ''approvalPolicy'', ''required''];
          approvalDecision = oe_str env plan [''spec'', ''approvalPolicy'', ''decision''];
          executionRequested = oe_bool env plan [''spec'', ''executionRequested''];
          actions = oe_list env plan [''spec'', ''actions''];
          result = preparedResult (int (length actions))
      in if approvalRequired \<and> approvalDecision = ''rejected'' then
           (result\<lparr>pr_phase := ''Rejected'', pr_runState := ''failed'',
              pr_message := ''approval was rejected; execution is blocked'',
              pr_verificationResult := ''no cluster write attempted''\<rparr>, w)
         else if approvalRequired \<and> approvalDecision \<noteq> ''approved'' then
           (result\<lparr>pr_phase := ''PendingApproval'', pr_runState := ''pending_approval'',
              pr_message := ''approval gate is still required'',
              pr_verificationResult := ''waiting for explicit approval''\<rparr>, w)
         else if approvalRequired \<and> approvalDecision = ''approved'' \<and> \<not> executionRequested then
           (result\<lparr>pr_phase := ''Approved'', pr_runState := ''approved'',
              pr_message := ''approval recorded; execution has not been requested'',
              pr_verificationResult := ''no dry-run or cluster write performed''\<rparr>, w)
         else if \<not> executionRequested then (result, w)
         else
           (case runActions mutationEnabled env plan actions (result, \<lparr>pc_applied = 0, pc_dryRun = 0, pc_proposal = 0\<rparr>) w of
              (Inl r, w1) \<Rightarrow> (r, w1)
            | (Inr acc, w1) \<Rightarrow> (finishActions acc, w1)))"

subsection \<open>Status of plans, runs and findings\<close>

definition runNameOf :: "'w op_env \<Rightarrow> json \<Rightarrow> string" where
  "runNameOf env plan =
     (let runName = oe_str env plan [''spec'', ''runName'']
      in if runName = '''' then ''run-'' @ oe_name env plan else runName)"

definition planStatus :: "'w op_env \<Rightarrow> json \<Rightarrow> plan_result \<Rightarrow> gotime \<Rightarrow> json" where
  "planStatus env plan result now =
     JObj ([(''phase'', JStr (pr_phase result)), (''observedGeneration'', JNum (itoa (oe_generation env plan))),
       (''lastTransitionTime'', JStr (rfc3339 now)), (''message'', JStr (pr_message result)),
       (''diffSummary'', JStr (pr_diffSummary result)), (''approvalRef'', JStr (''approval-'' @ oe_name env plan)),
       (''runRef'', JStr (runNameOf env plan)), (''verificationResult'', JStr (pr_verificationResult result)),
       (''rollbackRef'', JStr (pr_rollbackRef result))] @
       (if pr_lastError result \<noteq> '''' then [(''lastError'', JStr (pr_lastError result))] else []) @
       [(''dryRunResult'', JObj [(''passed'', JBool (pr_dryRunPassed result)), (''message'', JStr (pr_dryRunMessage result))])])"

definition writePlanStatus :: "'w op_env \<Rightarrow> json \<Rightarrow> plan_result \<Rightarrow> gotime \<Rightarrow> 'w \<Rightarrow> (op_error + json) \<times> 'w" where
  "writePlanStatus env plan result now w =
     call (oe_status env (jsonPut ''status'' (planStatus env plan result now) plan) w)"

definition securityGroup :: string where "securityGroup = ''security.kubeathrix.io/v1alpha1''"

definition statusJson :: "action_outcome \<Rightarrow> json" where
  "statusJson s =
     JObj [(''actionType'', JStr (as_type s)), (''state'', JStr (as_state s)), (''message'', JStr (as_message s))]"

definition runStatus :: "'w op_env \<Rightarrow> json \<Rightarrow> plan_result \<Rightarrow> gotime \<Rightarrow> json" where
  "runStatus env run result now =
     JObj [(''state'', JStr (pr_runState result)),
       (''actionStatuses'', if pr_actionStatuses result = [] then JNull else JArr (map statusJson (pr_actionStatuses result))),
       (''validationResult'', JStr (pr_message result)), (''rollbackMetadata'', JStr (pr_rollbackRef result)),
       (''observedGeneration'', JNum (itoa (oe_generation env run))), (''lastTransitionTime'', JStr (rfc3339 now))]"

definition newRunObject :: "'w op_env \<Rightarrow> json \<Rightarrow> json" where
  "newRunObject env plan =
     (let run0 = jsonPut ''spec'' (JObj [(''planRef'', JObj [(''name'', JStr (oe_name env plan)),
                   (''namespace'', JStr (oe_namespace env plan))])])
                   (oe_new env securityGroup ''RemediationRun'' (oe_namespace env plan) (runNameOf env plan));
          planID = gval (oe_annotations env plan) ''security.kubeathrix.io/api-id''
      in if planID \<noteq> '''' then
           oe_setAnnotations env [(''security.kubeathrix.io/api-id'', ''run-'' @ planID),
             (''security.kubeathrix.io/plan-id'', planID)] run0
         else run0)"

definition upsertRun :: "'w op_env \<Rightarrow> json \<Rightarrow> plan_result \<Rightarrow> gotime \<Rightarrow> 'w \<Rightarrow> (op_error + json) \<times> 'w" where
  "upsertRun env plan result now w =
     bindR (case oe_getObject env securityGroup ''RemediationRun'' (oe_namespace env plan) (runNameOf env plan) w of
              (Inl (K8sNotFound t), w1) \<Rightarrow>
                bindR (call (oe_create env False (OUnstructured (newRunObject env plan)) w1)) (\<lambda>created w2.
                  (Inr (case created of OUnstructured run \<Rightarrow> run | _ \<Rightarrow> newRunObject env plan), w2))
            | (Inl e, w1) \<Rightarrow> (Inl (OpErr (k8sText e)), w1)
            | (Inr run, w1) \<Rightarrow> (Inr run, w1))
       (\<lambda>run w1. call (oe_status env (jsonPut ''status'' (runStatus env run result now) run) w1))"

definition findingPhase :: "string \<Rightarrow> (string \<times> string) option" where
  "findingPhase runState =
     (if runState = ''succeeded'' then Some (''Resolved'', ''verified_resolved'')
      else if runState = ''verifying'' \<or> runState = ''running'' then Some (''Remediating'', runState)
      else if runState = ''rolled_back'' then Some (''Open'', ''rolled_back'')
      else if runState \<in> {''prepared'', ''pending_approval'', ''approved'', ''proposal_only'', ''dry_run_passed''} then None
      else Some (''InReview'', runState))"

definition findingStatus :: "'w op_env \<Rightarrow> json \<Rightarrow> plan_result \<Rightarrow> string \<times> string \<Rightarrow> gotime \<Rightarrow> json" where
  "findingStatus env finding result phase now =
     JObj ([(''phase'', JStr (fst phase)), (''remediationState'', JStr (snd phase)),
       (''verificationResult'', JStr (pr_verificationResult result)),
       (''observedGeneration'', JNum (itoa (oe_generation env finding))), (''lastTransitionTime'', JStr (rfc3339 now))] @
       (if pr_lastError result \<noteq> '''' then [(''lastError'', JStr (pr_lastError result))] else []))"

definition updateFindingStatus :: "'w op_env \<Rightarrow> json \<Rightarrow> plan_result \<Rightarrow> gotime \<Rightarrow> 'w \<Rightarrow> (op_error + unit) \<times> 'w" where
  "updateFindingStatus env plan result now w =
     (let findingName = oe_str env plan [''spec'', ''findingRef'', ''name''];
          namespace0 = oe_str env plan [''spec'', ''findingRef'', ''namespace''];
          findingNamespace = (if namespace0 = '''' then oe_namespace env plan else namespace0)
      in if findingName = '''' then (Inr (), w)
         else
           (case oe_getObject env securityGroup ''Finding'' findingNamespace findingName w of
              (Inl (K8sNotFound t), w1) \<Rightarrow> (Inr (), w1)
            | (Inl e, w1) \<Rightarrow> (Inl (OpErr (k8sText e)), w1)
            | (Inr finding, w1) \<Rightarrow>
                (case findingPhase (pr_runState result) of
                   None \<Rightarrow> (Inr (), w1)
                 | Some phase \<Rightarrow>
                     bindR (call (oe_status env (jsonPut ''status'' (findingStatus env finding result phase now) finding) w1))
                       (\<lambda>_ w2. (Inr (), w2)))))"

subsection \<open>Reconcile\<close>

text \<open>The finalizer is added by an update when it is missing; the object is the one the update returned.\<close>

definition withFinalizer :: "'w op_env \<Rightarrow> string \<Rightarrow> json \<Rightarrow> 'w \<Rightarrow> (op_error + json) \<times> 'w" where
  "withFinalizer env name object w =
     (case oe_addFinalizer env name object of
        None \<Rightarrow> (Inr object, w)
      | Some object1 \<Rightarrow>
          bindR (call (oe_update env False (OUnstructured object1) w)) (\<lambda>updated w1.
            (Inr (case updated of OUnstructured v \<Rightarrow> v | _ \<Rightarrow> object1), w1)))"

definition alreadyRolledBack :: "'w op_env \<Rightarrow> json \<Rightarrow> bool" where
  "alreadyRolledBack env plan \<longleftrightarrow>
     oe_str env plan [''status'', ''phase''] = ''RolledBack'' \<and>
     oe_int env plan [''status'', ''observedGeneration''] = oe_generation env plan"

definition reportPlan :: "'w op_env \<Rightarrow> json \<Rightarrow> plan_result \<Rightarrow> gotime \<Rightarrow> 'w \<Rightarrow> (op_error + duration) \<times> 'w" where
  "reportPlan env plan0 result now w =
     bindR (writePlanStatus env plan0 result now w) (\<lambda>plan w1.
     bindR (upsertRun env plan result now w1) (\<lambda>_ w2.
     bindR (updateFindingStatus env plan result now w2) (\<lambda>_ w3.
       (Inr (if pr_requeueAfter result > 0 then pr_requeueAfter result else 0), w3))))"

definition ReconcilePlan ::
    "bool \<Rightarrow> 'w op_env \<Rightarrow> gotime \<Rightarrow> string \<Rightarrow> string \<Rightarrow> 'w \<Rightarrow> (op_error + duration) \<times> 'w" where
  "ReconcilePlan mutationEnabled env now namespace name w =
     (case oe_getObject env securityGroup ''RemediationPlan'' namespace name w of
        (Inl (K8sNotFound t), w1) \<Rightarrow> (Inr 0, w1)
      | (Inl e, w1) \<Rightarrow> (Inl (OpErr (k8sText e)), w1)
      | (Inr plan0, w1) \<Rightarrow>
          bindR (withFinalizer env ''remediation.security.kubeathrix.io/audit'' plan0 w1) (\<lambda>plan w2.
            if oe_bool env plan [''spec'', ''rollbackRequested''] then
              if alreadyRolledBack env plan then (Inr 0, w2)
              else (case reconcileRollback env plan w2 of (result, w3) \<Rightarrow> reportPlan env plan result now w3)
            else (case reconcilePlanActions mutationEnabled env plan w2 of (result, w3) \<Rightarrow> reportPlan env plan result now w3)))"

text \<open>
  The finding controller. The status is replaced by an empty object when it is none; each of the
  three fields is set in turn.
\<close>

definition setPath :: "'w op_env \<Rightarrow> string \<Rightarrow> json \<Rightarrow> json \<Rightarrow> 'w \<Rightarrow> (op_error + json) \<times> 'w" where
  "setPath env field value object w = liftE (oe_setField env object [''status'', field] value) w"

definition hasStatusMap :: "json \<Rightarrow> bool" where
  "hasStatusMap v =
     (case v of JObj ms \<Rightarrow> (case map_of (rev ms) ''status'' of Some (JObj _) \<Rightarrow> True | _ \<Rightarrow> False) | _ \<Rightarrow> False)"

definition ReconcileFinding :: "'w op_env \<Rightarrow> gotime \<Rightarrow> string \<Rightarrow> string \<Rightarrow> 'w \<Rightarrow> (op_error + unit) \<times> 'w" where
  "ReconcileFinding env now namespace name w =
     (case oe_getObject env securityGroup ''Finding'' namespace name w of
        (Inl (K8sNotFound t), w1) \<Rightarrow> (Inr (), w1)
      | (Inl e, w1) \<Rightarrow> (Inl (OpErr (k8sText e)), w1)
      | (Inr finding0, w1) \<Rightarrow>
          bindR (withFinalizer env ''finding.security.kubeathrix.io/audit'' finding0 w1) (\<lambda>finding w2.
            if oe_str env finding [''status'', ''phase''] = ''Observed'' \<and>
               oe_int env finding [''status'', ''observedGeneration''] = oe_generation env finding
            then (Inr (), w2)
            else
              let finding1 = (if hasStatusMap finding then finding else jsonPut ''status'' (JObj []) finding) in
              bindR (setPath env ''phase'' (JStr ''Observed'') finding1 w2) (\<lambda>finding2 w3.
              bindR (setPath env ''observedGeneration'' (JNum (itoa (oe_generation env finding))) finding2 w3) (\<lambda>finding3 w4.
              bindR (setPath env ''lastTransitionTime'' (JStr (rfc3339 now)) finding3 w4) (\<lambda>finding4 w5.
              bindR (call (oe_status env finding4 w5)) (\<lambda>_ w6. (Inr (), w6)))))))"

end
