(* ===== verification/OperatorSafety.thy ===== *)
theory OperatorSafety
  imports Go_Prelude Json Kubernetes ActionCatalog OperatorModel OperatorReconciler
begin

text \<open>
  What the operator does to the cluster, stated on the log of its client calls: the gates in front
  of every call, the read-only mode, and the dry run and the snapshot in front of every write.
\<close>

subsection \<open>The log of client calls\<close>

type_synonym kref = "string \<times> string \<times> string"

datatype kcall = Read kref | DryWrite kref | Write kref | Remove kref | WriteStatus kref

fun kindName :: "workload_kind \<Rightarrow> string" where
  "kindName Deployment = ''Deployment''"
| "kindName StatefulSet = ''StatefulSet''"
| "kindName DaemonSet = ''DaemonSet''"

definition metaRef :: "string \<Rightarrow> object_meta \<Rightarrow> kref" where
  "metaRef kind m = (kind, om_namespace m, om_name m)"

definition jsonRef :: "'w op_env \<Rightarrow> json \<Rightarrow> kref" where
  "jsonRef env v = (oe_kind env v, oe_namespace env v, oe_name env v)"

fun objRef :: "'w op_env \<Rightarrow> kobj \<Rightarrow> kref" where
  "objRef env (ONamespace x) = metaRef ''Namespace'' (no_meta x)"
| "objRef env (OQuota x) = metaRef ''ResourceQuota'' (qo_meta x)"
| "objRef env (OLimitRange x) = metaRef ''LimitRange'' (lr_meta x)"
| "objRef env (OPDB x) = metaRef ''PodDisruptionBudget'' (pd_meta x)"
| "objRef env (OWorkload k x) = metaRef (kindName k) (wl_meta x)"
| "objRef env (OConfigMap x) = metaRef ''ConfigMap'' (cmap_meta x)"
| "objRef env (OUnstructured v) = jsonRef env v"

definition logged :: "kcall \<Rightarrow> ('w \<Rightarrow> 'r \<times> 'w) \<Rightarrow> 'w \<times> kcall list \<Rightarrow> 'r \<times> ('w \<times> kcall list)" where
  "logged c f st = (case f (fst st) of (r, w) \<Rightarrow> (r, (w, snd st @ [c])))"

text \<open>The same client, with every call appended to a log.\<close>

definition traced :: "'w op_env \<Rightarrow> ('w \<times> kcall list) op_env" where
  "traced env =
     \<lparr>oe_getNamespace = (\<lambda>n. logged (Read (''Namespace'', '''', n)) (oe_getNamespace env n)),
      oe_getQuota = (\<lambda>ns n. logged (Read (''ResourceQuota'', ns, n)) (oe_getQuota env ns n)),
      oe_getLimitRange = (\<lambda>ns n. logged (Read (''LimitRange'', ns, n)) (oe_getLimitRange env ns n)),
      oe_getPDB = (\<lambda>ns n. logged (Read (''PodDisruptionBudget'', ns, n)) (oe_getPDB env ns n)),
      oe_getWorkload = (\<lambda>k ns n. logged (Read (kindName k, ns, n)) (oe_getWorkload env k ns n)),
      oe_getConfigMap = (\<lambda>ns n. logged (Read (''ConfigMap'', ns, n)) (oe_getConfigMap env ns n)),
      oe_getObject = (\<lambda>v k ns n. logged (Read (k, ns, n)) (oe_getObject env v k ns n)),
      oe_create = (\<lambda>dry obj. logged ((if dry then DryWrite else Write) (objRef env obj)) (oe_create env dry obj)),
      oe_update = (\<lambda>dry obj. logged ((if dry then DryWrite else Write) (objRef env obj)) (oe_update env dry obj)),
      oe_delete = (\<lambda>v. logged (Remove (jsonRef env v)) (oe_delete env v)),
      oe_status = (\<lambda>v. logged (WriteStatus (jsonRef env v)) (oe_status env v)),
      oe_str = oe_str env, oe_bool = oe_bool env, oe_int = oe_int env, oe_list = oe_list env, oe_map = oe_map env,
      oe_strMap = oe_strMap env, oe_field = oe_field env, oe_setField = oe_setField env, oe_setMap = oe_setMap env,
      oe_labels = oe_labels env, oe_annotations = oe_annotations env, oe_setAnnotations = oe_setAnnotations env,
      oe_resourceVersion = oe_resourceVersion env, oe_setResourceVersion = oe_setResourceVersion env,
      oe_generation = oe_generation env, oe_name = oe_name env, oe_namespace = oe_namespace env, oe_kind = oe_kind env,
      oe_new = oe_new env, oe_addFinalizer = oe_addFinalizer env, oe_parseQuantity = oe_parseQuantity env,
      oe_mustParse = oe_mustParse env, oe_positive = oe_positive env, oe_sameQuantity = oe_sameQuantity env,
      oe_intstr = oe_intstr env, oe_intstrText = oe_intstrText env, oe_order = oe_order env, oe_jsonError = oe_jsonError env\<rparr>"

lemma traced_sel [simp]:
  "oe_str (traced env) = oe_str env" "oe_bool (traced env) = oe_bool env" "oe_list (traced env) = oe_list env"
  "oe_map (traced env) = oe_map env" "oe_strMap (traced env) = oe_strMap env" "oe_name (traced env) = oe_name env"
  "oe_namespace (traced env) = oe_namespace env" "oe_intstr (traced env) = oe_intstr env"
  "oe_order (traced env) = oe_order env" "oe_jsonError (traced env) = oe_jsonError env"
  "oe_mustParse (traced env) = oe_mustParse env" "oe_parseQuantity (traced env) = oe_parseQuantity env"
  "oe_positive (traced env) = oe_positive env"
  by (simp_all add: traced_def)

subsection \<open>Computations that log only certain calls\<close>

text \<open>
  \<open>grows P st r\<close>: the result \<open>r\<close> of a computation started in \<open>st\<close> has extended the log by calls that satisfy \<open>P\<close>.
\<close>

definition grows :: "(kcall \<Rightarrow> bool) \<Rightarrow> 'w \<times> kcall list \<Rightarrow> 'x \<times> ('w \<times> kcall list) \<Rightarrow> bool" where
  "grows P st r \<longleftrightarrow> (\<exists>new. snd (snd r) = snd st @ new \<and> list_all P new)"

lemma grows_return [simp, intro]: "grows P st (x, st)"
  by (simp add: grows_def)

lemma grows_mono: "grows P st r \<Longrightarrow> (\<And>c. P c \<Longrightarrow> Q c) \<Longrightarrow> grows Q st r"
  by (auto simp: grows_def list_all_iff)

lemma grows_trans: "grows P st r \<Longrightarrow> grows P (snd r) r' \<Longrightarrow> grows P st r'"
  by (force simp: grows_def)

lemma grows_bind:
  assumes "grows P st p" "\<And>a st1. p = (Inr a, st1) \<Longrightarrow> grows P st1 (f a st1)"
  shows "grows P st (bindR p f)"
proof (cases "fst p")
  case (Inl e)
  then have "bindR p f = (Inl e, snd p)" by (cases p) (simp add: bindR_def)
  with assms(1) show ?thesis by (simp add: grows_def)
next
  case (Inr a)
  then have "bindR p f = f a (snd p)" "p = (Inr a, snd p)" by (cases p, simp add: bindR_def)+
  with assms show ?thesis using grows_trans [OF assms(1)] by metis
qed

lemma grows_logged: "P c \<Longrightarrow> grows P st (logged c f st)"
  by (auto simp: grows_def logged_def split: prod.splits)

lemma grows_call: "grows P st r \<Longrightarrow> grows P st (call r)"
  by (auto simp: grows_def call_def split: prod.splits sum.splits)

lemma grows_wrapErr: "grows P st r \<Longrightarrow> grows P st (wrapErr prefix r)"
  by (auto simp: grows_def wrapErr_def split: prod.splits sum.splits op_error.splits)

lemma grows_pure [simp, intro]: "grows P st (liftE r st)" "grows P st (check e st)"
  by (auto simp: grows_def liftE_def check_def split: sum.splits option.splits)

lemma grows_case:
  assumes "grows P st r" "\<And>x st1. r = (x, st1) \<Longrightarrow> grows P st1 (f x st1)"
  shows "grows P st (case r of (x, st1) \<Rightarrow> f x st1)"
proof -
  obtain x st1 where "r = (x, st1)" by (cases r)
  with assms(2) grows_trans [OF assms(1), of "f x st1"] show ?thesis by simp
qed

lemmas grows_intros = grows_return grows_bind grows_call grows_wrapErr grows_pure

text \<open>The calls of the traced client.\<close>

lemma grows_reads:
  assumes "\<And>ref. P (Read ref)"
  shows "grows P st (oe_getNamespace (traced env) n st)" "grows P st (oe_getQuota (traced env) ns n st)"
    "grows P st (oe_getLimitRange (traced env) ns n st)" "grows P st (oe_getPDB (traced env) ns n st)"
    "grows P st (oe_getWorkload (traced env) k ns n st)" "grows P st (oe_getConfigMap (traced env) ns n st)"
    "grows P st (oe_getObject (traced env) v kd ns n st)"
  using assms by (simp_all add: traced_def grows_logged)

lemma grows_writes:
  "P ((if dry then DryWrite else Write) (objRef env obj)) \<Longrightarrow> grows P st (oe_create (traced env) dry obj st)"
  "P ((if dry then DryWrite else Write) (objRef env obj)) \<Longrightarrow> grows P st (oe_update (traced env) dry obj st)"
  by (simp_all add: traced_def grows_logged)

definition readOnly :: "kcall \<Rightarrow> bool" where
  "readOnly c = (case c of Read _ \<Rightarrow> True | DryWrite _ \<Rightarrow> True | _ \<Rightarrow> False)"

lemma readOnly_simps [simp]: "readOnly (Read ref)" "readOnly (DryWrite ref)" "\<not> readOnly (Write ref)"
  "\<not> readOnly (Remove ref)" "\<not> readOnly (WriteStatus ref)"
  by (simp_all add: readOnly_def)

subsection \<open>Executors\<close>

text \<open>The objects that an action writes.\<close>

definition actionRefs :: "'w op_env \<Rightarrow> json \<Rightarrow> kref list" where
  "actionRefs env action =
     (let actionType = oe_str env action [''type''] in
      if actionType = ''apply_resource_governance'' then
        (case targetNamespace env action of Inl _ \<Rightarrow> []
         | Inr ns \<Rightarrow> [(''ResourceQuota'', ns, ''kubeathrix-defaults''), (''LimitRange'', ns, ''kubeathrix-defaults'')])
      else if actionType = ''patch_pod_security_labels'' then
        (case targetNamespace env action of Inl _ \<Rightarrow> [] | Inr ns \<Rightarrow> [(''Namespace'', '''', ns)])
      else
        (case actionTarget env action of Inl _ \<Rightarrow> []
         | Inr t \<Rightarrow> if actionType = ''create_pdb'' then [(''PodDisruptionBudget'', rt_namespace t, rt_name t @ ''-kubeathrix'')]
                  else [(rt_kind t, rt_namespace t, rt_name t)]))"

text \<open>The client returns the object that was asked for.\<close>

definition keyed_reads :: "'w op_env \<Rightarrow> bool" where
  "keyed_reads env \<longleftrightarrow>
     (\<forall>n w x w'. oe_getNamespace env n w = (Inr x, w') \<longrightarrow> om_namespace (no_meta x) = '''' \<and> om_name (no_meta x) = n) \<and>
     (\<forall>k ns n w x w'. oe_getWorkload env k ns n w = (Inr x, w') \<longrightarrow>
        om_namespace (wl_meta x) = ns \<and> om_name (wl_meta x) = n) \<and>
     (\<forall>ns n w x w'. oe_getConfigMap env ns n w = (Inr x, w') \<longrightarrow>
        om_namespace (cmap_meta x) = ns \<and> om_name (cmap_meta x) = n)"

definition permitted :: "bool \<Rightarrow> kref list \<Rightarrow> kcall \<Rightarrow> bool" where
  "permitted dry refs c = (case c of Read _ \<Rightarrow> True | DryWrite ref \<Rightarrow> dry \<and> ref \<in> set refs | Write ref \<Rightarrow> \<not> dry \<and> ref \<in> set refs
     | _ \<Rightarrow> False)"

lemma permitted_simps [simp]: "permitted dry refs (Read ref)"
  "permitted dry refs ((if d then DryWrite else Write) ref) = (d = dry \<and> ref \<in> set refs)"
  by (auto simp: permitted_def)

lemma traced_keyed:
  "keyed_reads env \<Longrightarrow> oe_getNamespace (traced env) n st = (Inr x, st') \<Longrightarrow>
     om_namespace (no_meta x) = '''' \<and> om_name (no_meta x) = n"
  "keyed_reads env \<Longrightarrow> oe_getWorkload (traced env) k ns n st = (Inr y, st') \<Longrightarrow>
     om_namespace (wl_meta y) = ns \<and> om_name (wl_meta y) = n"
  "keyed_reads env \<Longrightarrow> oe_getConfigMap (traced env) ns n st = (Inr z, st') \<Longrightarrow>
     om_namespace (cmap_meta z) = ns \<and> om_name (cmap_meta z) = n"
  unfolding keyed_reads_def by (auto simp: traced_def logged_def split: prod.splits) metis+

lemma traced_targets [simp]: "targetNamespace (traced env) action = targetNamespace env action"
  "actionTarget (traced env) action = actionTarget env action"
  by (auto simp: targetNamespace_def actionTarget_def split: option.splits)

lemma call_Inr: "call r = (Inr a, w) \<longleftrightarrow> r = (Inr a, w)"
  by (auto simp: call_def split: prod.splits sum.splits)

lemma liftE_Inr: "liftE r w = (Inr a, w') \<longleftrightarrow> r = Inr a \<and> w' = w"
  by (auto simp: liftE_def split: sum.splits)

lemma currentMeta_grows: "(\<And>ref. P (Read ref)) \<Longrightarrow> grows P st (currentMeta (traced env) obj st)"
  by (cases obj) (auto intro!: grows_bind grows_reads)

lemma objRef_mapMeta:
  "(\<And>m. om_namespace (f m) = om_namespace m \<and> om_name (f m) = om_name m) \<Longrightarrow> objRef env (mapMeta f obj) = objRef env obj"
  by (cases obj) (simp_all add: metaRef_def)

lemma upsertObject_grows:
  assumes "objRef env obj \<in> set refs"
  shows "grows (permitted dry refs) st (upsertObject (traced env) obj dry st)"
  using assms unfolding upsertObject_def Let_def
  by (intro grows_case)
    (auto simp: objRef_mapMeta split: sum.splits k8s_error.splits
      intro!: currentMeta_grows grows_bind grows_call grows_writes)

lemma executeGovernance_grows:
  assumes "(''ResourceQuota'', ns, ''kubeathrix-defaults'') \<in> set refs" "(''LimitRange'', ns, ''kubeathrix-defaults'') \<in> set refs"
  shows "grows (permitted dry refs) st (applyResourceGovernance (traced env) ns dry st)"
  using assms unfolding applyResourceGovernance_def
  by (auto intro!: grows_bind upsertObject_grows simp: defaultQuota_def defaultLimits_def newMeta_def metaRef_def)

lemma verifyGovernance_grows: "grows (permitted dry refs) st (verifyResourceGovernance (traced env) ns st)"
  unfolding verifyResourceGovernance_def
  by (auto intro!: grows_bind grows_wrapErr grows_call grows_reads split: option.splits)

lemma podSecurity_grows:
  assumes "keyed_reads env" "\<And>ns. targetNamespace env action = Inr ns \<Longrightarrow> (''Namespace'', '''', ns) \<in> set refs"
  shows "grows (permitted dry refs) st (executePodSecurityLabels (traced env) action dry st)"
  using assms(2) unfolding executePodSecurityLabels_def Let_def
  by (auto simp: call_Inr liftE_Inr metaRef_def dest!: traced_keyed(1) [OF assms(1)]
    intro!: grows_bind grows_call grows_reads grows_writes)

lemma updateWorkload_grows:
  assumes "keyed_reads env"
    "\<And>t. actionTarget env action = Inr t \<Longrightarrow> (rt_kind t, rt_namespace t, rt_name t) \<in> set refs"
  shows "grows (permitted dry refs) st (updateWorkload (traced env) action dry f st)"
proof -
  have kind: "kindName k = s" if "kindOf s = Some k" for k s using that by (auto split: if_splits)
  show ?thesis
    using assms(2) unfolding updateWorkload_def Let_def
    by (auto simp: call_Inr liftE_Inr metaRef_def kind simp del: kindOf.simps dest!: traced_keyed(2) [OF assms(1)] kind
      intro!: grows_bind grows_call grows_reads grows_writes split: option.splits)
qed

lemma verifyWorkload_grows: "grows (permitted dry refs) st (verifyWorkload (traced env) action f st)"
  unfolding verifyWorkload_def Let_def
  by (auto intro!: grows_bind grows_call grows_reads simp del: kindOf.simps split: option.splits)

lemma verifyRollout_grows: "grows (permitted dry refs) st (verifyWorkloadRollout (traced env) action st)"
  unfolding verifyWorkloadRollout_def Let_def
  by (auto intro!: grows_bind grows_call grows_reads simp del: kindOf.simps split: option.splits)

lemma workloadActions_grows:
  assumes "keyed_reads env"
    "\<And>t. actionTarget env action = Inr t \<Longrightarrow> (rt_kind t, rt_namespace t, rt_name t) \<in> set refs"
  shows "grows (permitted dry refs) st (executeWorkloadResources (traced env) action dry st)"
    and "grows (permitted dry refs) st (executeWorkloadProbes (traced env) action dry st)"
  unfolding executeWorkloadResources_def executeWorkloadProbes_def Let_def
  by (auto intro!: grows_bind updateWorkload_grows verifyWorkload_grows verifyRollout_grows assms)

lemma workloadSelector_grows: "grows (permitted dry refs) st (workloadSelector (traced env) target st)"
  unfolding workloadSelector_def by (auto intro!: grows_bind grows_call grows_reads)

lemma executePDB_grows:
  assumes "\<And>t. actionTarget env action = Inr t \<Longrightarrow>
    (''PodDisruptionBudget'', rt_namespace t, rt_name t @ ''-kubeathrix'') \<in> set refs"
  shows "grows (permitted dry refs) st (executePDB (traced env) action dry st)"
  using assms unfolding executePDB_def Let_def
  by (auto simp: liftE_Inr plannedPDB_def newMeta_def metaRef_def
    intro!: grows_bind grows_call grows_reads workloadSelector_grows upsertObject_grows)

text \<open>Every executor reads what it likes and writes only the objects of its action, and only in its mode.\<close>

lemma executeTypedAction_grows:
  assumes "keyed_reads env"
  shows "grows (permitted dry (actionRefs env action)) st (executeTypedAction (traced env) action dry st)"
proof (cases "oe_str env action [''type''] = ''apply_resource_governance''")
  case True
  then show ?thesis
    by (auto simp: executeTypedAction_def actionRefs_def Let_def liftE_Inr
      intro!: grows_bind grows_wrapErr executeGovernance_grows verifyGovernance_grows)
next
  case False
  then show ?thesis
    by (auto simp: executeTypedAction_def actionRefs_def Let_def
      intro!: podSecurity_grows workloadActions_grows executePDB_grows assms)
qed

subsection \<open>The dry run reaches every object of the action\<close>

definition dryRan :: "kref \<Rightarrow> 'w \<times> kcall list \<Rightarrow> 'v \<times> kcall list \<Rightarrow> bool" where
  "dryRan ref st st' \<longleftrightarrow> (\<exists>new. snd st' = snd st @ new \<and> DryWrite ref \<in> set new)"

lemma dryRan_later: "dryRan ref st st1 \<Longrightarrow> grows P st1 (x, st2) \<Longrightarrow> dryRan ref st st2"
  by (auto simp: dryRan_def grows_def)

lemma dryRan_earlier: "grows P st (x, st1) \<Longrightarrow> dryRan ref st1 st2 \<Longrightarrow> dryRan ref st st2"
  by (auto simp: dryRan_def grows_def)

lemma write_dryRan:
  "oe_create (traced env) True obj st = (x, st') \<Longrightarrow> dryRan (objRef env obj) st st'"
  "oe_update (traced env) True obj st = (x, st') \<Longrightarrow> dryRan (objRef env obj) st st'"
  by (auto simp: traced_def logged_def dryRan_def split: prod.splits)

lemma any_reads: "grows (\<lambda>_. True) st (currentMeta (traced env) obj st)"
  by (rule currentMeta_grows) simp

lemma upsertObject_dryRan:
  assumes "upsertObject (traced env) obj True st = (Inr v, st')"
  shows "dryRan (objRef env obj) st st'"
proof -
  define obj1 where "obj1 = mapMeta (\<lambda>m. m\<lparr>om_labels := gput managedBy ''kubeathrix'' (om_labels m)\<rparr>) obj"
  obtain x st1 where meta: "currentMeta (traced env) obj1 st = (x, st1)" by (cases "currentMeta (traced env) obj1 st")
  have same: "objRef env obj1 = objRef env obj" "objRef env (mapMeta (\<lambda>m. m\<lparr>om_resourceVersion := v\<rparr>) obj1) = objRef env obj"
    for v by (simp_all add: obj1_def objRef_mapMeta)
  have "dryRan (objRef env obj) st1 st'"
    using assms meta unfolding upsertObject_def Let_def obj1_def [symmetric]
    by (auto simp: bindR_Inr call_Inr split: sum.splits k8s_error.splits if_splits
      dest!: write_dryRan simp: same)
  then show ?thesis using any_reads [of st env obj1] meta by (metis dryRan_earlier)
qed

lemma namespace_dryRan:
  assumes "keyed_reads env" "oe_getNamespace (traced env) n st = (Inr x, st1)"
    "dryRan (''Namespace'', om_namespace (no_meta x), om_name (no_meta x)) st1 st'"
  shows "dryRan (''Namespace'', '''', n) st st'"
proof -
  have "grows (\<lambda>_. True) st (oe_getNamespace (traced env) n st)" by (simp add: grows_reads)
  with assms traced_keyed(1) [OF assms(1,2)] show ?thesis by (auto intro: dryRan_earlier)
qed

lemma workload_dryRan:
  assumes "keyed_reads env" "kindOf s = Some k" "oe_getWorkload (traced env) k ns n st = (Inr y, st1)"
    "dryRan (kindName k, om_namespace (wl_meta y), om_name (wl_meta y)) st1 st'"
  shows "dryRan (s, ns, n) st st'"
proof -
  have "kindName k = s" using assms(2) by (auto split: if_splits)
  moreover have "grows (\<lambda>_. True) st (oe_getWorkload (traced env) k ns n st)" by (simp add: grows_reads)
  ultimately show ?thesis using assms traced_keyed(2) [OF assms(1,3)] by (auto intro: dryRan_earlier)
qed

lemma podSecurity_dryRan:
  assumes "keyed_reads env" "executePodSecurityLabels (traced env) action True st = (Inr v, st')"
    "targetNamespace env action = Inr ns"
  shows "dryRan (''Namespace'', '''', ns) st st'"
  using assms(2,3) unfolding executePodSecurityLabels_def Let_def
  by (auto simp: bindR_Inr call_Inr liftE_Inr metaRef_def split: if_splits dest!: write_dryRan
    intro: namespace_dryRan [OF assms(1)])

lemma updateWorkload_dryRan:
  assumes "keyed_reads env" "updateWorkload (traced env) action True f st = (Inr v, st')"
    "actionTarget env action = Inr t"
  shows "dryRan (rt_kind t, rt_namespace t, rt_name t) st st'"
  using assms(2,3) unfolding updateWorkload_def Let_def
  by (auto simp: bindR_Inr call_Inr liftE_Inr metaRef_def simp del: kindOf.simps split: option.splits
    dest!: write_dryRan intro: workload_dryRan [OF assms(1)])

lemma workloadActions_dryRan:
  assumes "keyed_reads env" "actionTarget env action = Inr t"
  shows "executeWorkloadResources (traced env) action True st = (Inr v, st') \<Longrightarrow>
      dryRan (rt_kind t, rt_namespace t, rt_name t) st st'"
    and "executeWorkloadProbes (traced env) action True st = (Inr v, st') \<Longrightarrow>
      dryRan (rt_kind t, rt_namespace t, rt_name t) st st'"
  using assms unfolding executeWorkloadResources_def executeWorkloadProbes_def Let_def check_def
  by (auto simp: bindR_Inr split: if_splits option.splits dest: updateWorkload_dryRan)

lemma executePDB_dryRan:
  assumes "executePDB (traced env) action True st = (Inr v, st')" "actionTarget env action = Inr t"
  shows "dryRan (''PodDisruptionBudget'', rt_namespace t, rt_name t @ ''-kubeathrix'') st st'"
proof -
  from assms obtain selector st1 m where "workloadSelector (traced env) t st = (Inr selector, st1)"
    and up: "upsertObject (traced env) (OPDB (plannedPDB t m selector)) True st1 = (Inr (), st')"
    unfolding executePDB_def Let_def by (auto simp: bindR_Inr liftE_Inr split: if_splits)
  moreover have "grows (\<lambda>_. True) st (workloadSelector (traced env) t st)"
    by (rule grows_mono [OF workloadSelector_grows]) simp
  ultimately show ?thesis
    using upsertObject_dryRan [OF up] by (auto simp: plannedPDB_def newMeta_def metaRef_def intro: dryRan_earlier)
qed

lemma governance_dryRan:
  assumes "applyResourceGovernance (traced env) ns True st = (Inr v, st')"
  shows "dryRan (''ResourceQuota'', ns, ''kubeathrix-defaults'') st st'"
    and "dryRan (''LimitRange'', ns, ''kubeathrix-defaults'') st st'"
proof -
  from assms obtain st1 where one: "upsertObject (traced env) (OQuota (defaultQuota (traced env) ns)) True st = (Inr (), st1)"
    and two: "upsertObject (traced env) (OLimitRange (defaultLimits (traced env) ns)) True st1 = (Inr v, st')"
    unfolding applyResourceGovernance_def by (auto simp: bindR_Inr split: if_splits)
  have refs: "objRef env (OQuota (defaultQuota (traced env) ns)) = (''ResourceQuota'', ns, ''kubeathrix-defaults'')"
    "objRef env (OLimitRange (defaultLimits (traced env) ns)) = (''LimitRange'', ns, ''kubeathrix-defaults'')"
    by (simp_all add: defaultQuota_def defaultLimits_def newMeta_def metaRef_def)
  have g1: "grows (permitted True [(''ResourceQuota'', ns, ''kubeathrix-defaults'')]) st (Inr () :: op_error + unit, st1)"
    and g2: "grows (permitted True [(''LimitRange'', ns, ''kubeathrix-defaults'')]) st1 (Inr v :: op_error + unit, st')"
    using upsertObject_grows [of env "OQuota (defaultQuota (traced env) ns)" "[(''ResourceQuota'', ns, ''kubeathrix-defaults'')]" True st]
      upsertObject_grows [of env "OLimitRange (defaultLimits (traced env) ns)" "[(''LimitRange'', ns, ''kubeathrix-defaults'')]" True st1]
    by (simp_all add: one two refs del: objRef.simps)
  show "dryRan (''ResourceQuota'', ns, ''kubeathrix-defaults'') st st'"
    using dryRan_later [OF upsertObject_dryRan [OF one] g2] by (simp only: refs)
  show "dryRan (''LimitRange'', ns, ''kubeathrix-defaults'') st st'"
    using dryRan_earlier [OF g1 upsertObject_dryRan [OF two]] by (simp only: refs)
qed

lemma executeTypedAction_dryRan:
  assumes "keyed_reads env" "executeTypedAction (traced env) action True st = (Inr v, st')"
    "ref \<in> set (actionRefs env action)"
  shows "dryRan ref st st'"
  using assms unfolding executeTypedAction_def actionRefs_def Let_def
  by (auto simp: bindR_Inr liftE_Inr eq_commute [of "Inr _" "targetNamespace _ _"] eq_commute [of "Inr _" "actionTarget _ _"]
    split: if_splits sum.splits
    dest: governance_dryRan podSecurity_dryRan workloadActions_dryRan executePDB_dryRan)

subsection \<open>Snapshots\<close>

definition snapshotMap :: "'w op_env \<Rightarrow> json \<Rightarrow> kref" where
  "snapshotMap env plan = (''ConfigMap'', oe_namespace env plan, childName ''snapshot-'' (oe_name env plan))"

definition snapshotCall :: "'w op_env \<Rightarrow> json \<Rightarrow> kcall \<Rightarrow> bool" where
  "snapshotCall env plan c = (case c of Read _ \<Rightarrow> True | Write ref \<Rightarrow> ref = snapshotMap env plan | _ \<Rightarrow> False)"

lemma snapshotCall_simps [simp]: "snapshotCall env plan (Read ref)"
  "snapshotCall env plan (Write ref) = (ref = snapshotMap env plan)"
  by (simp_all add: snapshotCall_def)

lemma collect_grows: "(\<And>x st. grows P st (f x st)) \<Longrightarrow> grows P st (collect f xs st)"
  by (induction xs arbitrary: st) (auto intro!: grows_bind)

lemma snapshotOne_grows: "(\<And>ref. P (Read ref)) \<Longrightarrow> grows P st (snapshotOne (traced env) ref st)"
  unfolding snapshotOne_def Let_def
  by (intro grows_case grows_reads) (auto split: sum.splits k8s_error.splits)

lemma storeSnapshot_grows:
  assumes "om_namespace (cmap_meta configMap) = oe_namespace env plan"
    "om_name (cmap_meta configMap) = childName ''snapshot-'' (oe_name env plan)"
  shows "grows (snapshotCall env plan) st (storeSnapshot (traced env) plan action configMap st)"
  using assms unfolding storeSnapshot_def snapshotItemsForAction_def Let_def
  by (auto intro!: grows_bind grows_call collect_grows snapshotOne_grows grows_writes
    simp: metaRef_def snapshotMap_def split: option.splits)

lemma ensureSnapshot_log:
  assumes "keyed_reads env" "ensureActionSnapshot (traced env) plan action st = (x, st')"
  obtains new where "snd st' = snd st @ Read (snapshotMap env plan) # new" "list_all (snapshotCall env plan) new"
proof -
  let ?n = "childName ''snapshot-'' (oe_name env plan)"
  obtain y st1 where got: "oe_getConfigMap (traced env) (oe_namespace env plan) ?n st = (y, st1)"
    by (cases "oe_getConfigMap (traced env) (oe_namespace env plan) ?n st")
  then have log1: "snd st1 = snd st @ [Read (snapshotMap env plan)]"
    by (auto simp: traced_def logged_def snapshotMap_def split: prod.splits)
  have new: "om_namespace (cmap_meta (newSnapshotMap (traced env) plan)) = oe_namespace env plan"
    "om_name (cmap_meta (newSnapshotMap (traced env) plan)) = ?n"
    by (simp_all add: newSnapshotMap_def newMeta_def)
  have "grows (snapshotCall env plan) st1 (x, st')"
    using assms(2) got traced_keyed(3) [OF assms(1), of "oe_namespace env plan" ?n st _ st1]
      storeSnapshot_grows [of _ env plan st1 action] new
    by (auto simp: ensureActionSnapshot_def split: sum.splits k8s_error.splits if_splits) (metis storeSnapshot_grows)+
  then show ?thesis using that log1 by (auto simp: grows_def)
qed

subsection \<open>The order of calls\<close>

text \<open>
  In a guarded log a write outside the snapshot map is to an approved object, and comes after a
  dry run of that object and after the snapshot map was read. Nothing is deleted.
\<close>

fun guardedFrom :: "kref \<Rightarrow> (kref \<Rightarrow> bool) \<Rightarrow> kcall list \<Rightarrow> kcall list \<Rightarrow> bool" where
  "guardedFrom cm ok seen [] = True"
| "guardedFrom cm ok seen (c # cs) =
     ((case c of Read _ \<Rightarrow> True | DryWrite _ \<Rightarrow> True
       | Write ref \<Rightarrow> ref = cm \<or> ok ref \<and> DryWrite ref \<in> set seen \<and> Read cm \<in> set seen
       | _ \<Rightarrow> False) \<and> guardedFrom cm ok (seen @ [c]) cs)"

lemma guardedFrom_append:
  "guardedFrom cm ok seen (xs @ ys) \<longleftrightarrow> guardedFrom cm ok seen xs \<and> guardedFrom cm ok (seen @ xs) ys"
  by (induction xs arbitrary: seen) auto

lemma guardedFrom_mono: "guardedFrom cm ok seen xs \<Longrightarrow> set seen \<subseteq> set later \<Longrightarrow> guardedFrom cm ok later xs"
proof (induction xs arbitrary: seen later)
  case (Cons c xs)
  have "set (seen @ [c]) \<subseteq> set (later @ [c])" using Cons.prems(2) by auto
  with Cons.IH [of "seen @ [c]" "later @ [c]"] Cons.prems show ?case by (cases c) auto
qed simp

lemma guardedFrom_readOnly: "list_all readOnly xs \<Longrightarrow> guardedFrom cm ok seen xs"
  by (induction xs arbitrary: seen) (auto simp: readOnly_def split: kcall.splits)

lemma guardedFrom_snapshot: "list_all (snapshotCall env plan) xs \<Longrightarrow> guardedFrom (snapshotMap env plan) ok seen xs"
  by (induction xs arbitrary: seen) (auto simp: snapshotCall_def split: kcall.splits)

lemma guardedFrom_writes:
  "list_all (permitted False refs) xs \<Longrightarrow>
   (\<And>ref. ref \<in> set refs \<Longrightarrow> ok ref \<and> DryWrite ref \<in> set seen) \<Longrightarrow> Read cm \<in> set seen \<Longrightarrow> guardedFrom cm ok seen xs"
  by (induction xs arbitrary: seen) (auto simp: permitted_def split: kcall.splits)

lemma permitted_dry_readOnly: "permitted True refs c \<Longrightarrow> readOnly c"
  by (auto simp: permitted_def readOnly_def split: kcall.splits)

definition guarded :: "kref \<Rightarrow> (kref \<Rightarrow> bool) \<Rightarrow> 'w \<times> kcall list \<Rightarrow> 'x \<times> ('w \<times> kcall list) \<Rightarrow> bool" where
  "guarded cm ok st r \<longleftrightarrow> (\<exists>new. snd (snd r) = snd st @ new \<and> guardedFrom cm ok [] new)"

lemma guarded_return [simp]: "guarded cm ok st (x, st)"
  by (simp add: guarded_def)

lemma guarded_trans:
  assumes "guarded cm ok st r" "guarded cm ok (snd r) r'"
  shows "guarded cm ok st r'"
proof -
  from assms obtain n1 n2 where "snd (snd r) = snd st @ n1" "guardedFrom cm ok [] n1"
    "snd (snd r') = snd (snd r) @ n2" "guardedFrom cm ok [] n2" by (auto simp: guarded_def)
  then show ?thesis
    using guardedFrom_mono [of cm ok "[]" n2 n1] by (auto simp: guarded_def guardedFrom_append intro!: exI [of _ "n1 @ n2"])
qed

lemma guarded_bind:
  assumes "guarded cm ok st p" "\<And>a st1. p = (Inr a, st1) \<Longrightarrow> guarded cm ok st1 (f a st1)"
  shows "guarded cm ok st (bindR p f)"
proof (cases "fst p")
  case (Inl e)
  then have "bindR p f = (Inl e, snd p)" by (cases p) (simp add: bindR_def)
  with assms(1) show ?thesis by (simp add: guarded_def)
next
  case (Inr a)
  then have "bindR p f = f a (snd p)" "p = (Inr a, snd p)" by (cases p, simp add: bindR_def)+
  with assms show ?thesis using guarded_trans [OF assms(1)] by metis
qed

lemma guarded_readOnly: "grows readOnly st r \<Longrightarrow> guarded cm ok st r"
  by (auto simp: grows_def guarded_def guardedFrom_readOnly)

definition directAction :: "'w op_env \<Rightarrow> json \<Rightarrow> bool" where
  "directAction env action \<longleftrightarrow>
     ExecutionModeFor (catalogEntry env action) = ModeDirect \<and> isl (Validate (catalogEntry env action)) = False"

definition mayWrite :: "'w op_env \<Rightarrow> json list \<Rightarrow> kref \<Rightarrow> bool" where
  "mayWrite env actions ref \<longleftrightarrow> list_ex (\<lambda>a. directAction env a \<and> ref \<in> set (actionRefs env a)) actions"

lemma traced_catalogEntry [simp]: "catalogEntry (traced env) action = catalogEntry env action"
  by (simp add: catalogEntry_def)

text \<open>The writing half of a round, after a dry run that reached the objects of the action.\<close>

lemma writeAction_log:
  assumes keyed: "keyed_reads env" and ok: "\<And>ref. ref \<in> set (actionRefs env action) \<Longrightarrow> ok ref \<and> DryWrite ref \<in> set dry"
    and run: "writeAction mut (traced env) plan action acc st = (x, st')"
  shows "\<exists>new. snd st' = snd st @ new \<and> guardedFrom (snapshotMap env plan) ok dry new \<and> (mut \<or> new = [])"
proof (cases mut)
  case False
  then show ?thesis using run by (auto simp: writeAction_def Let_def split: prod.splits)
next
  case True
  obtain y st1 where snap: "ensureActionSnapshot (traced env) plan action st = (y, st1)"
    by (cases "ensureActionSnapshot (traced env) plan action st")
  obtain n1 where n1: "snd st1 = snd st @ Read (snapshotMap env plan) # n1" "list_all (snapshotCall env plan) n1"
    using ensureSnapshot_log [OF keyed snap] by metis
  have g1: "guardedFrom (snapshotMap env plan) ok dry (Read (snapshotMap env plan) # n1)"
    using n1(2) by (simp add: guardedFrom_snapshot)
  obtain z st2 where exec: "executeTypedAction (traced env) action False st1 = (z, st2)"
    by (cases "executeTypedAction (traced env) action False st1")
  obtain n2 where n2: "snd st2 = snd st1 @ n2" "list_all (permitted False (actionRefs env action)) n2"
    using executeTypedAction_grows [OF keyed, of False action st1] exec by (auto simp: grows_def)
  have g2: "guardedFrom (snapshotMap env plan) ok (dry @ Read (snapshotMap env plan) # n1) n2"
    by (rule guardedFrom_writes [OF n2(2)]) (auto dest: ok)
  have "st' = st1 \<or> st' = st2"
    using run True snap exec by (auto simp: writeAction_def Let_def split: prod.splits sum.splits op_error.splits)
  then show ?thesis
  proof
    assume "st' = st1"
    then show ?thesis using n1 g1 True by (intro exI [of _ "Read (snapshotMap env plan) # n1"]) simp
  next
    assume "st' = st2"
    then show ?thesis using n1 n2 g1 g2 True
      by (intro exI [of _ "(Read (snapshotMap env plan) # n1) @ n2"]) (simp only: guardedFrom_append, simp)
  qed
qed

lemma runAction_log:
  assumes keyed: "keyed_reads env" and run: "runAction mut (traced env) plan action acc st = (x, st')"
  shows "\<exists>new. snd st' = snd st @ new \<and> guardedFrom (snapshotMap env plan) (mayWrite env [action]) [] new \<and>
    (mut \<or> list_all readOnly new)"
proof -
  obtain y st1 where dry: "executeTypedAction (traced env) action True st = (y, st1)"
    by (cases "executeTypedAction (traced env) action True st")
  obtain n1 where n1: "snd st1 = snd st @ n1" "list_all (permitted True (actionRefs env action)) n1"
    using executeTypedAction_grows [OF keyed, of True action st] dry by (auto simp: grows_def)
  then have ro: "list_all readOnly n1" by (auto simp: list_all_iff dest: permitted_dry_readOnly)
  consider "st' = st" | "st' = st1"
    | v counts where "y = Inr v" "directAction env action"
        "writeAction mut (traced env) plan action (fst acc, counts) st1 = (x, st')"
    using run dry
    by (cases action; cases acc)
      (auto simp: runAction_def directAction_def Let_def split: sum.splits if_splits)
  then show ?thesis
  proof cases
    case 1
    then show ?thesis by simp
  next
    case 2
    then show ?thesis using n1 ro by (auto intro: guardedFrom_readOnly)
  next
    case 3
    have "mayWrite env [action] ref \<and> DryWrite ref \<in> set n1" if "ref \<in> set (actionRefs env action)" for ref
      using executeTypedAction_dryRan [OF keyed dry [unfolded 3(1)] that] n1 3(2) that
      by (auto simp: mayWrite_def dryRan_def)
    from writeAction_log [OF keyed this 3(3)]
    obtain n2 where "snd st' = snd st1 @ n2" "guardedFrom (snapshotMap env plan) (mayWrite env [action]) n1 n2"
      "mut \<or> n2 = []" by blast
    then show ?thesis using n1 ro
      by (intro exI [of _ "n1 @ n2"]) (auto simp: guardedFrom_append guardedFrom_readOnly)
  qed
qed

lemma guardedFrom_weaken: "guardedFrom cm ok seen xs \<Longrightarrow> (\<And>ref. ok ref \<Longrightarrow> ok' ref) \<Longrightarrow> guardedFrom cm ok' seen xs"
  by (induction xs arbitrary: seen) (auto split: kcall.splits)

lemma runActions_log:
  assumes "keyed_reads env" "runActions mut (traced env) plan actions acc st = (x, st')"
  shows "\<exists>new. snd st' = snd st @ new \<and> guardedFrom (snapshotMap env plan) (mayWrite env actions) [] new \<and>
    (mut \<or> list_all readOnly new)"
  using assms(2)
proof (induction actions arbitrary: acc st)
  case (Cons action actions)
  obtain y st1 where one: "runAction mut (traced env) plan action acc st = (y, st1)"
    by (cases "runAction mut (traced env) plan action acc st")
  obtain n1 where n1: "snd st1 = snd st @ n1" "guardedFrom (snapshotMap env plan) (mayWrite env [action]) [] n1"
    "mut \<or> list_all readOnly n1" using runAction_log [OF assms(1) one] by blast
  have g1: "guardedFrom (snapshotMap env plan) (mayWrite env (action # actions)) [] n1"
    by (rule guardedFrom_weaken [OF n1(2)]) (auto simp: mayWrite_def)
  show ?case
  proof (cases y)
    case (Inl e)
    then have "st' = st1" using Cons.prems one by simp
    then show ?thesis using n1 g1 by auto
  next
    case (Inr acc1)
    then have "runActions mut (traced env) plan actions acc1 st1 = (x, st')" using Cons.prems one by simp
    from Cons.IH [OF this] obtain n2 where n2: "snd st' = snd st1 @ n2"
      "guardedFrom (snapshotMap env plan) (mayWrite env actions) [] n2" "mut \<or> list_all readOnly n2" by blast
    have "guardedFrom (snapshotMap env plan) (mayWrite env (action # actions)) n1 n2"
      by (rule guardedFrom_weaken [OF guardedFrom_mono [OF n2(2)]]) (auto simp: mayWrite_def)
    then show ?thesis using n1 n2 g1
      by (intro exI [of _ "n1 @ n2"]) (auto simp: guardedFrom_append)
  qed
qed simp

lemma reconcilePlanActions_log:
  assumes "keyed_reads env" "reconcilePlanActions mut (traced env) plan st = (result, st')"
  shows "\<exists>new. snd st' = snd st @ new \<and>
    guardedFrom (snapshotMap env plan) (mayWrite env (oe_list env plan [''spec'', ''actions''])) [] new \<and>
    (mut \<or> list_all readOnly new)"
proof -
  let ?actions = "oe_list env plan [''spec'', ''actions'']"
  consider "st' = st"
    | acc x where "runActions mut (traced env) plan ?actions acc st = (x, st')"
    using assms(2) by (auto simp: reconcilePlanActions_def Let_def split: if_splits prod.splits sum.splits)
  then show ?thesis
  proof cases
    case 1
    then show ?thesis by simp
  next
    case 2
    then show ?thesis by (rule runActions_log [OF assms(1)])
  qed
qed

text \<open>
  C11. The gate of the operator: unless execution was requested, and the plan was approved where its
  policy requires approval, reconciling the actions of a plan makes no call to the cluster at all,
  and reports no dry run and no action.
\<close>

theorem plan_gate_closed:
  assumes "oe_bool env plan [''spec'', ''executionRequested''] = False \<or>
      oe_bool env plan [''spec'', ''approvalPolicy'', ''required''] \<and>
      oe_str env plan [''spec'', ''approvalPolicy'', ''decision''] \<noteq> ''approved''"
    and "reconcilePlanActions mutationEnabled env plan w = (result, w')"
  shows "w' = w \<and> pr_dryRunPassed result = False \<and> pr_actionStatuses result = [] \<and>
    pr_phase result \<in> {''Rejected'', ''PendingApproval'', ''Approved'', ''Prepared''}"
  using assms by (auto simp: reconcilePlanActions_def Let_def preparedResult_def split: if_splits)

text \<open>
  C30. Without the mutation flag the operator only reads and asks for server-side dry runs: no object,
  not even the snapshot map, is created, updated or deleted by reconciling the actions of a plan.
\<close>

theorem mutation_disabled_read_only:
  assumes "keyed_reads env" "reconcilePlanActions False (traced env) plan (w, log) = (result, w', log')"
  shows "\<exists>new. log' = log @ new \<and> list_all readOnly new"
  using reconcilePlanActions_log [OF assms] by auto

text \<open>
  C2. Every write of a plan is guarded. Whatever the cluster answers, the operator deletes nothing
  and writes, besides the snapshot map of the plan, only objects that belong to an action which the
  registry validates for direct execution; and each such write comes after a server-side dry run
  of the same object and after the snapshot map was read.
\<close>

theorem plan_writes_guarded:
  assumes "keyed_reads env" "reconcilePlanActions mutationEnabled (traced env) plan (w, log) = (result, w', log')"
  shows "\<exists>new. log' = log @ new \<and>
    guardedFrom (snapshotMap env plan) (mayWrite env (oe_list env plan [''spec'', ''actions''])) [] new"
  using reconcilePlanActions_log [OF assms] by auto

end
