(* ===== verification/OperatorProperties.thy ===== *)
theory OperatorProperties
  imports Go_Prelude Json Kubernetes ActionCatalog OperatorModel OperatorReconciler OperatorSafety
begin

text \<open>
  Properties of the single steps of the operator: what a snapshot covers, what a patch may change,
  what a rollback has verified, and a simulated cluster on which the witnesses run.
\<close>

subsection \<open>Patches\<close>

lemma gget_setIfMissing:
  "gget (setIfMissing m k q) n = (if n = k \<and> gget m k = None then Some q else gget m n)"
  by (auto simp: setIfMissing_def)

lemma fillContainer_get:
  "gget (k_requests (fillContainer env params c)) n = (case gget (k_requests c) n of Some q \<Rightarrow> Some q
     | None \<Rightarrow> if n \<in> {''cpu'', ''memory''} then Some (quantityOf env params n ''Request'') else None)"
  "gget (k_limits (fillContainer env params c)) n = (case gget (k_limits c) n of Some q \<Rightarrow> Some q
     | None \<Rightarrow> if n \<in> {''cpu'', ''memory''} then Some (quantityOf env params n ''Limit'') else None)"
  by (auto simp: fillContainer_def gget_setIfMissing split: option.splits)

lemma fillContainer_complete: "missingResource (fillContainer env params c) = None"
  by (simp add: missingResource_def fillContainer_get split: option.splits)

lemma forEachErr_all_None: "(\<And>x. x \<in> set xs \<Longrightarrow> f x = None) \<Longrightarrow> forEachErr f xs = None"
  by (induction xs) auto

text \<open>
  The resource patch only adds: every container keeps its place, its name, its probes and every
  request and limit it already had; exactly the missing ones of cpu and memory are filled with the
  planned quantities; and the patched pod passes the operator's own verification.
\<close>

theorem resources_only_added:
  "let spec' = fillResources env params spec; f = fillContainer env params in
   ps_init spec' = map f (ps_init spec) \<and> ps_containers spec' = map f (ps_containers spec) \<and>
   ps_rest spec' = ps_rest spec \<and> forEachErr missingResource (ps_init spec' @ ps_containers spec') = None \<and>
   (k_name (f c), k_readiness (f c), k_liveness (f c), k_rest (f c)) = (k_name c, k_readiness c, k_liveness c, k_rest c) \<and>
   gget (k_requests (f c)) n = (case gget (k_requests c) n of Some q \<Rightarrow> Some q
     | None \<Rightarrow> if n \<in> {''cpu'', ''memory''} then Some (quantityOf env params n ''Request'') else None) \<and>
   gget (k_limits (f c)) n = (case gget (k_limits c) n of Some q \<Rightarrow> Some q
     | None \<Rightarrow> if n \<in> {''cpu'', ''memory''} then Some (quantityOf env params n ''Limit'') else None)"
proof -
  have "forEachErr missingResource (map (fillContainer env params) (ps_init spec @ ps_containers spec)) = None"
    by (rule forEachErr_all_None) (auto simp: fillContainer_complete)
  moreover have "(k_name (fillContainer env params c), k_readiness (fillContainer env params c),
      k_liveness (fillContainer env params c), k_rest (fillContainer env params c)) =
    (k_name c, k_readiness c, k_liveness c, k_rest c)"
    by (simp add: fillContainer_def)
  ultimately show ?thesis
    by (simp add: fillResources_def Let_def fillContainer_get)
qed

lemma boundedInt_range: "lo \<le> d \<Longrightarrow> d \<le> hi \<Longrightarrow> boundedInt raw d lo hi \<in> {lo..hi}"
  by (auto simp: boundedInt_def split: option.splits)

text \<open>
  Whatever the parameters say, a probe that the operator writes stays within its bounds: 0 to 300
  seconds of initial delay, a period of 2 to 300, a timeout of 1 to 30 seconds and 1 to 10 failures;
  and it is recognised by the verification that follows.
\<close>

theorem probe_bounded:
  "let p = safeHTTPProbe path port params in
   pr_initialDelay p \<in> {0..300} \<and> pr_period p \<in> {2..300} \<and> pr_timeout p \<in> {1..30} \<and> pr_failure p \<in> {1..10} \<and>
   pr_success p = 1 \<and> probeMatches (Some p) path port"
  using boundedInt_range [of 0 5 300] boundedInt_range [of 2 10 300] boundedInt_range [of 1 2 30] boundedInt_range [of 1 3 10]
  by (simp add: safeHTTPProbe_def probeMatches_def)

subsection \<open>Snapshots and rollback\<close>

lemma Validate_supports:
  assumes "isl (Validate a) = False"
  obtains d where "Lookup (ca_type a) = Some d" "supports d (ca_apiVersion a) (ca_kind a)"
  using assms by (auto simp: Validate_def ValidateProposal_def split: option.splits if_splits sum.splits)

definition targetRef :: "remediation_target \<Rightarrow> kref" where
  "targetRef t = (rt_kind t, rt_namespace t, rt_name t)"

text \<open>
  C25. The snapshot taken before an action covers the action: the objects whose state is recorded are
  exactly the objects that the executor of the action writes.
\<close>

theorem snapshot_covers_writes:
  assumes "directAction env action" "snapshotRefs env action = Inr refs"
  shows "map targetRef refs = actionRefs env action"
proof -
  have ok: "isl (Validate (catalogEntry env action)) = False" using assms(1) by (simp add: directAction_def)
  obtain target where target: "actionTarget env action = Inr target"
    using assms(2) by (auto simp: snapshotRefs_def split: sum.splits)
  obtain m where m: "oe_map env action [''target''] = Some m" "rt_kind target = oe_str env m [''kind'']"
    "rt_name target = oe_str env m [''name'']"
    using target by (auto simp: actionTarget_def Let_def split: option.splits if_splits)
  have ns: "targetNamespace env action = Inr (rt_name target)"
    if "oe_str env action [''type''] = ''patch_pod_security_labels''"
  proof -
    obtain d where "Lookup (ca_type (catalogEntry env action)) = Some d"
      "supports d (ca_apiVersion (catalogEntry env action)) (ca_kind (catalogEntry env action))"
      using Validate_supports [OF ok] .
    then have "oe_str env m [''kind''] = ''Namespace''"
      using that m(1)
      by (auto simp: catalogEntry_def Lookup_def definitions_def supports_def def_patch_pod_security_labels_def)
    with m show ?thesis by (simp add: targetNamespace_def)
  qed
  show ?thesis
    using assms(2) target ns
    by (auto simp: snapshotRefs_def actionRefs_def Let_def plainTarget_def targetRef_def split: if_splits sum.splits)
qed

text \<open>
  A rollback reports an item as restored only after it has read the cluster back: an object that
  existed was read with the labels and the spec of the snapshot, and an object that did not exist
  was found absent.
\<close>

theorem rollback_verified:
  assumes "restoreSnapshotItem env item w = (Inr (), w')"
  shows "\<exists>w1 r. oe_getObject env (sn_apiVersion item) (sn_kind item) (sn_namespace item) (sn_name item) w1 = (r, w') \<and>
    (case r of
       Inr v \<Rightarrow> sn_existed item \<and> objectState env v = objectState env (sn_object item)
     | Inl (K8sNotFound t) \<Rightarrow> sn_existed item = False
     | _ \<Rightarrow> False)"
proof -
  let ?get = "oe_getObject env (sn_apiVersion item) (sn_kind item) (sn_namespace item) (sn_name item)"
  have verified: "\<exists>v. ?get w1 = (Inr v, w') \<and> objectState env v = objectState env (sn_object item)"
    if "bindR (call (?get w1)) (\<lambda>verified w2. if objectState env verified \<noteq> objectState env (sn_object item)
          then (Inl (OpErr e), w2) else (Inr (), w2)) = (Inr (), w')" for w1 e
    using that by (auto simp: bindR_Inr call_def split: prod.splits sum.splits if_splits)
  obtain x w1 where got: "?get w = (x, w1)" by force
  show ?thesis
  proof (cases "sn_existed item")
    case True
    have "\<exists>w1 e. bindR (call (?get w1)) (\<lambda>verified w2. if objectState env verified \<noteq> objectState env (sn_object item)
          then (Inl (OpErr e), w2) else (Inr (), w2)) = (Inr (), w')"
    proof (cases x)
      case (Inl e)
      with assms got True show ?thesis
        by (cases e) (auto simp: restoreSnapshotItem_def Let_def bindR_Inr [where p = "call (oe_create _ _ _ _)"])
    next
      case (Inr v)
      with assms got True show ?thesis
        by (auto simp: restoreSnapshotItem_def Let_def bindR_Inr [where p = "call (oe_update _ _ _ _)"])
    qed
    with verified True show ?thesis by fastforce
  next
    case False
    have "\<exists>w1 t. ?get w1 = (Inl (K8sNotFound t), w')"
    proof (cases x)
      case (Inl e)
      with assms got False show ?thesis by (cases e) (auto simp: restoreSnapshotItem_def Let_def)
    next
      case (Inr v)
      obtain d w2 where del: "oe_delete env v w1 = (d, w2)" by force
      obtain y w3 where again: "?get w2 = (y, w3)" by force
      have "w3 = w' \<and> (\<exists>t. y = Inl (K8sNotFound t))"
        using assms got False Inr del again
        by (simp add: restoreSnapshotItem_def Let_def split: if_splits option.splits k8s_error.splits sum.splits)
      with again show ?thesis by blast
    qed
    with False show ?thesis by fastforce
  qed
qed

subsection \<open>A simulated cluster\<close>

text \<open>
  One Deployment \<open>web\<close> with one container: its requests and limits (one quantity for all), the path of
  its probes, empty for none, and the data of the snapshot map.
\<close>

record demo_cluster =
  dc_quantity :: string
  dc_probe :: string
  dc_snapshots :: "(string, string) gomap option"

fun jlookup :: "json \<Rightarrow> string list \<Rightarrow> json option" where
  "jlookup v [] = Some v"
| "jlookup (JObj ms) (k # ks) = (case map_of ms k of Some v \<Rightarrow> jlookup v ks | None \<Rightarrow> None)"
| "jlookup _ _ = None"

definition jstring :: "json \<Rightarrow> string list \<Rightarrow> string" where
  "jstring v ks = (case jlookup v ks of Some (JStr s) \<Rightarrow> s | _ \<Rightarrow> '''')"

definition jstrings :: "json \<Rightarrow> string list \<Rightarrow> (string, string) gomap" where
  "jstrings v ks =
     (case jlookup v ks of Some (JObj ms) \<Rightarrow> map (\<lambda>(k, x). (k, case x of JStr s \<Rightarrow> s | _ \<Rightarrow> '''')) ms | _ \<Rightarrow> [])"

definition demo_json :: "demo_cluster \<Rightarrow> json" where
  "demo_json w = JObj [(''kind'', JStr ''Deployment''),
     (''metadata'', JObj [(''name'', JStr ''web''), (''namespace'', JStr ''default'')]),
     (''spec'', JObj [(''quantity'', JStr (dc_quantity w)), (''probe'', JStr (dc_probe w))])]"

definition demo_meta :: "string \<Rightarrow> string \<Rightarrow> object_meta" where
  "demo_meta namespace name = (newMeta namespace name)\<lparr>om_resourceVersion := ''1''\<rparr>"

definition demo_probe :: "string \<Rightarrow> probe option" where
  "demo_probe path =
     (if path = '''' then None
      else Some \<lparr>pr_http = Some (path, IntPort 8080), pr_initialDelay = 5, pr_period = 10, pr_timeout = 2,
        pr_failure = 3, pr_success = 1\<rparr>)"

definition demo_workload :: "string \<Rightarrow> string \<Rightarrow> demo_cluster \<Rightarrow> workload" where
  "demo_workload namespace name w =
     (let qs = (if dc_quantity w = '''' then [] else [(''cpu'', dc_quantity w), (''memory'', dc_quantity w)]) in
      \<lparr>wl_meta = demo_meta namespace name, wl_generation = 1,
       wl_spec = \<lparr>ps_init = [], ps_containers = [\<lparr>k_name = ''app'', k_requests = qs, k_limits = qs,
         k_readiness = demo_probe (dc_probe w), k_liveness = demo_probe (dc_probe w), k_rest = JNull\<rparr>], ps_rest = JNull\<rparr>,
       wl_selector = [(''app'', ''web'')], wl_replicas = Some 1, wl_observedGeneration = 1, wl_updated = 1,
       wl_available = 1, wl_ready = 1, wl_desiredScheduled = 1, wl_rest = JNull\<rparr>)"

fun demo_write :: "kobj \<Rightarrow> demo_cluster \<Rightarrow> demo_cluster" where
  "demo_write (OWorkload k x) w =
     (case ps_containers (wl_spec x) of
        c # _ \<Rightarrow> w\<lparr>dc_quantity := gval (k_requests c) ''cpu'',
                  dc_probe := (case k_readiness c of Some p \<Rightarrow> (case pr_http p of Some h \<Rightarrow> fst h | None \<Rightarrow> '''') | None \<Rightarrow> '''')\<rparr>
      | [] \<Rightarrow> w)"
| "demo_write (OUnstructured v) w =
     w\<lparr>dc_quantity := jstring v [''spec'', ''quantity''], dc_probe := jstring v [''spec'', ''probe'']\<rparr>"
| "demo_write (OConfigMap x) w = w\<lparr>dc_snapshots := Some (cmap_data x)\<rparr>"
| "demo_write _ w = w"

definition demo_env :: "(string list \<Rightarrow> string list) \<Rightarrow> demo_cluster op_env" where
  "demo_env order =
     \<lparr>oe_getNamespace = (\<lambda>n w. (Inr \<lparr>no_meta = demo_meta '''' n, no_rest = JNull\<rparr>, w)),
      oe_getQuota = (\<lambda>ns n w. (Inl (K8sNotFound ''not found''), w)),
      oe_getLimitRange = (\<lambda>ns n w. (Inl (K8sNotFound ''not found''), w)),
      oe_getPDB = (\<lambda>ns n w. (Inl (K8sNotFound ''not found''), w)),
      oe_getWorkload = (\<lambda>k ns n w. (Inr (demo_workload ns n w), w)),
      oe_getConfigMap = (\<lambda>ns n w. (case dc_snapshots w of None \<Rightarrow> Inl (K8sNotFound ''not found'')
        | Some data \<Rightarrow> Inr \<lparr>cmap_meta = demo_meta ns n, cmap_data = data\<rparr>, w)),
      oe_getObject = (\<lambda>v k ns n w. (Inr (demo_json w), w)),
      oe_create = (\<lambda>dry obj w. (Inr obj, if dry then w else demo_write obj w)),
      oe_update = (\<lambda>dry obj w. (Inr obj, if dry then w else demo_write obj w)),
      oe_delete = (\<lambda>v w. (None, w)), oe_status = (\<lambda>v w. (Inr v, w)),
      oe_str = jstring, oe_bool = (\<lambda>v ks. jlookup v ks = Some (JBool True)), oe_int = (\<lambda>v ks. 0),
      oe_list = (\<lambda>v ks. case jlookup v ks of Some (JArr xs) \<Rightarrow> xs | _ \<Rightarrow> []),
      oe_map = (\<lambda>v ks. case jlookup v ks of Some (JObj ms) \<Rightarrow> Some (JObj ms) | _ \<Rightarrow> None),
      oe_strMap = jstrings, oe_field = (\<lambda>v ks. case jlookup v ks of Some x \<Rightarrow> x | None \<Rightarrow> JNull),
      oe_setField = (\<lambda>v ks x. Inr v), oe_setMap = (\<lambda>v ks x. case ks of [k] \<Rightarrow> jsonPut k x v | _ \<Rightarrow> v),
      oe_labels = (\<lambda>v. None), oe_annotations = (\<lambda>v. []), oe_setAnnotations = (\<lambda>as v. v),
      oe_resourceVersion = (\<lambda>v. ''1''), oe_setResourceVersion = (\<lambda>s v. v), oe_generation = (\<lambda>v. 1),
      oe_name = (\<lambda>v. jstring v [''metadata'', ''name'']), oe_namespace = (\<lambda>v. jstring v [''metadata'', ''namespace'']),
      oe_kind = (\<lambda>v. jstring v [''kind'']), oe_new = (\<lambda>a k ns n. JObj []), oe_addFinalizer = (\<lambda>f v. None),
      oe_parseQuantity = (\<lambda>s. if s = '''' then None else Some s), oe_mustParse = (\<lambda>s. s),
      oe_positive = (\<lambda>q. True), oe_sameQuantity = (\<lambda>a b. a = b), oe_intstr = (\<lambda>s. IntPort 8080),
      oe_intstrText = (\<lambda>p. ''8080''), oe_order = order, oe_jsonError = (\<lambda>s. ''error'')\<rparr>"

definition demo_action :: "string \<Rightarrow> (string, string) gomap \<Rightarrow> json" where
  "demo_action actionType params = JObj [(''type'', JStr actionType),
     (''target'', JObj [(''apiVersion'', JStr ''apps/v1''), (''kind'', JStr ''Deployment''), (''namespace'', JStr ''default''),
        (''name'', JStr ''web'')]),
     (''params'', JObj (map (\<lambda>(k, v). (k, JStr v)) params))]"

definition demo_resources :: json where
  "demo_resources = demo_action ''patch_workload_resources'' [(''cpuRequest'', ''100m''), (''memoryRequest'', ''100m''),
     (''cpuLimit'', ''100m''), (''memoryLimit'', ''100m'')]"

definition demo_probes :: json where
  "demo_probes = demo_action ''patch_workload_probes'' [(''configured'', ''true''), (''container'', ''app''), (''port'', ''8080''),
     (''readinessPath'', ''/ready''), (''livenessPath'', ''/ready'')]"

definition demo_plan :: json where
  "demo_plan = JObj [(''kind'', JStr ''RemediationPlan''),
     (''metadata'', JObj [(''name'', JStr ''plan''), (''namespace'', JStr ''default'')]),
     (''spec'', JObj [(''executionRequested'', JBool True), (''approvalPolicy'', JObj [(''required'', JBool True),
        (''decision'', JStr ''approved'')]), (''actions'', JArr [demo_resources, demo_probes])])]"

definition demo_start :: demo_cluster where
  "demo_start = \<lparr>dc_quantity = '''', dc_probe = '''', dc_snapshots = None\<rparr>"

text \<open>
  The cluster after both actions, with the two snapshots that were taken on the way filed under their
  keys: the one before the first action, and the one before the second.
\<close>

definition demo_applied :: "demo_cluster" where
  "demo_applied =
     (let env = demo_env (\<lambda>ks. ks);
          items0 = projr (fst (snapshotItemsForAction env demo_resources demo_start));
          w1 = snd (executeTypedAction env demo_resources False demo_start);
          items1 = projr (fst (snapshotItemsForAction env demo_probes w1));
          w2 = snd (executeTypedAction env demo_probes False w1)
      in w2\<lparr>dc_snapshots := Some [(''patch-workload-resources.json'', the (encodeSnapshot items0)),
                                  (''patch-workload-probes.json'', the (encodeSnapshot items1))]\<rparr>)"

text \<open>
  C. The finding controller does not keep the life cycle that the remediation controller writes: a
  finding that was set to \<open>Resolved\<close>, \<open>Remediating\<close> or \<open>Open\<close> is set to \<open>Observed\<close> by the next
  reconciliation of the finding, whatever its generation, and only then left alone.
\<close>

theorem finding_phase_overwritten:
  assumes "oe_getObject env securityGroup ''Finding'' namespace name w = (Inr finding, w1)"
    and "oe_addFinalizer env ''finding.security.kubeathrix.io/audit'' finding = None"
    and "oe_str env finding [''status'', ''phase''] \<in> {''Resolved'', ''Remediating'', ''Open'', ''InReview''}"
    and "hasStatusMap finding"
    and "ReconcileFinding env now namespace name w = (Inr (), w')"
  shows "\<exists>v1 v2 v3 r. oe_setField env finding [''status'', ''phase''] (JStr ''Observed'') = Inr v1 \<and>
    oe_setField env v1 [''status'', ''observedGeneration''] (JNum (itoa (oe_generation env finding))) = Inr v2 \<and>
    oe_setField env v2 [''status'', ''lastTransitionTime''] (JStr (rfc3339 now)) = Inr v3 \<and>
    oe_status env v3 w1 = (Inr r, w')"
  using assms
  by (auto simp: ReconcileFinding_def withFinalizer_def bindR_Inr setPath_def liftE_Inr call_Inr)

subsection \<open>Witnesses\<close>

definition keep_order :: "string list \<Rightarrow> string list" where "keep_order ks = ks"

lemma demo_keyed: "keyed_reads (demo_env order)"
  by (auto simp: keyed_reads_def demo_env_def demo_workload_def demo_meta_def newMeta_def Let_def split: option.splits)

definition demo_pending :: json where
  "demo_pending = JObj [(''kind'', JStr ''RemediationPlan''),
     (''metadata'', JObj [(''name'', JStr ''plan''), (''namespace'', JStr ''default'')]),
     (''spec'', JObj [(''executionRequested'', JBool True), (''approvalPolicy'', JObj [(''required'', JBool True),
        (''decision'', JStr ''pending'')]), (''actions'', JArr [demo_resources, demo_probes])])]"

theorem plan_gate_closed_witness:
  "snd (reconcilePlanActions True (demo_env keep_order) demo_pending demo_start) = demo_start"
proof -
  have "oe_bool (demo_env keep_order) demo_pending [''spec'', ''approvalPolicy'', ''required'']"
    "oe_str (demo_env keep_order) demo_pending [''spec'', ''approvalPolicy'', ''decision''] \<noteq> ''approved''"
    by (simp_all add: demo_env_def demo_pending_def jstring_def)
  then show ?thesis
    using plan_gate_closed [of "demo_env keep_order" demo_pending True demo_start] by (metis prod.collapse)
qed

theorem mutation_disabled_read_only_witness:
  "list_all readOnly (snd (snd (reconcilePlanActions False (traced (demo_env keep_order)) demo_plan (demo_start, []))))"
proof -
  obtain result w' log' where r: "reconcilePlanActions False (traced (demo_env keep_order)) demo_plan (demo_start, []) = (result, w', log')"
    by (metis prod_cases3)
  with mutation_disabled_read_only [OF demo_keyed r] show ?thesis by simp
qed

theorem plan_writes_guarded_witness:
  "guardedFrom (snapshotMap (demo_env keep_order) demo_plan) (mayWrite (demo_env keep_order) [demo_resources, demo_probes]) []
     (snd (snd (reconcilePlanActions True (traced (demo_env keep_order)) demo_plan (demo_start, []))))"
proof -
  obtain result w' log' where r: "reconcilePlanActions True (traced (demo_env keep_order)) demo_plan (demo_start, []) = (result, w', log')"
    by (metis prod_cases3)
  have "oe_list (demo_env keep_order) demo_plan [''spec'', ''actions''] = [demo_resources, demo_probes]"
    by (simp add: demo_env_def demo_plan_def)
  with plan_writes_guarded [OF demo_keyed r] r show ?thesis by simp
qed

theorem snapshot_covers_writes_witness:
  "actionRefs (demo_env keep_order) demo_resources = [(''Deployment'', ''default'', ''web'')]"
proof -
  have "directAction (demo_env keep_order) demo_resources" unfolding directAction_def by code_simp
  moreover have "snapshotRefs (demo_env keep_order) demo_resources =
      Inr [plainTarget ''apps/v1'' ''Deployment'' ''default'' ''web'']" by code_simp
  ultimately show ?thesis
    using snapshot_covers_writes [of "demo_env keep_order" demo_resources "[plainTarget ''apps/v1'' ''Deployment'' ''default'' ''web'']"]
    by (simp add: targetRef_def plainTarget_def)
qed

definition demo_item :: snapshot_item where
  "demo_item = \<lparr>sn_apiVersion = ''apps/v1'', sn_kind = ''Deployment'', sn_namespace = ''default'', sn_name = ''web'',
     sn_existed = True, sn_object = demo_json demo_start\<rparr>"

theorem rollback_verified_witness:
  "objectState (demo_env keep_order) (demo_json (snd (restoreSnapshotItem (demo_env keep_order) demo_item demo_applied))) =
   objectState (demo_env keep_order) (demo_json demo_start)"
proof -
  have "isl (fst (restoreSnapshotItem (demo_env keep_order) demo_item demo_applied)) = False" by code_simp
  then obtain w' where r: "restoreSnapshotItem (demo_env keep_order) demo_item demo_applied = (Inr (), w')"
    by (metis prod.collapse sum.collapse(2) unit.exhaust)
  from rollback_verified [OF r] r show ?thesis
    by (auto simp: demo_item_def demo_env_def)
qed

definition demo_finding :: json where
  "demo_finding = JObj [(''kind'', JStr ''Finding''), (''status'', JObj [(''phase'', JStr ''Resolved'')])]"

theorem finding_phase_overwritten_witness:
  "\<exists>v. oe_setField ((demo_env keep_order)\<lparr>oe_getObject := \<lambda>a k ns n w. (Inr demo_finding, w)\<rparr>) demo_finding
     [''status'', ''phase''] (JStr ''Observed'') = Inr v"
proof -
  let ?env = "(demo_env keep_order)\<lparr>oe_getObject := \<lambda>a k ns n w. (Inr demo_finding, w)\<rparr>"
  have "fst (ReconcileFinding ?env 0 ''default'' ''f'' demo_start) = Inr ()" by code_simp
  then obtain w' where r: "ReconcileFinding ?env 0 ''default'' ''f'' demo_start = (Inr (), w')"
    by (metis prod.collapse)
  have "\<exists>v1 v2 v3 r. oe_setField ?env demo_finding [''status'', ''phase''] (JStr ''Observed'') = Inr v1 \<and>
    oe_setField ?env v1 [''status'', ''observedGeneration''] (JNum (itoa (oe_generation ?env demo_finding))) = Inr v2 \<and>
    oe_setField ?env v2 [''status'', ''lastTransitionTime''] (JStr (rfc3339 0)) = Inr v3 \<and>
    oe_status ?env v3 demo_start = (Inr r, w')"
    by (rule finding_phase_overwritten [OF _ _ _ _ r])
      (simp_all add: demo_env_def demo_finding_def jstring_def hasStatusMap_def)
  then show ?thesis by blast
qed

end
