(* ===== verification/Go_Text.thy ===== *)
theory Go_Text
  imports Go_Prelude
begin

text \<open>
  More of the Go standard library on byte strings, as the network-facing components use it:
  \<open>strings.Fields\<close> and \<open>FieldsFunc\<close>, \<open>net.SplitHostPort\<close>, and the unpadded URL-safe base64
  encoding with the proof that decoding inverts encoding.
\<close>

subsection \<open>Fields\<close>

definition flushWord :: "string \<Rightarrow> string list" where
  "flushWord w = (if w = [] then [] else [w])"

text \<open>The first argument counts the remaining bytes of the encoding of a space rune.\<close>

fun fieldsScan :: "nat \<Rightarrow> string \<Rightarrow> string \<Rightarrow> string list" where
  "fieldsScan n w [] = flushWord w"
| "fieldsScan (Suc n) w (c # cs) = fieldsScan n w cs"
| "fieldsScan 0 w (c # cs) =
     (case find (hasPrefix (c # cs)) spaceEncodings of
        Some e \<Rightarrow> flushWord w @ fieldsScan (length e - 1) [] cs
      | None \<Rightarrow> fieldsScan 0 (w @ [c]) cs)"

definition strFields :: "string \<Rightarrow> string list" where
  "strFields s = fieldsScan 0 [] s"

fun fieldsBy :: "(char \<Rightarrow> bool) \<Rightarrow> string \<Rightarrow> string \<Rightarrow> string list" where
  "fieldsBy sep w [] = flushWord w"
| "fieldsBy sep w (c # cs) = (if sep c then flushWord w @ fieldsBy sep [] cs else fieldsBy sep (w @ [c]) cs)"

definition fieldsFunc :: "(char \<Rightarrow> bool) \<Rightarrow> string \<Rightarrow> string list" where
  "fieldsFunc sep s = fieldsBy sep [] s"

lemma fieldsScan_nonempty: "[] \<notin> set (fieldsScan n w s)"
  by (induction n w s rule: fieldsScan.induct) (auto simp: flushWord_def split: option.splits)

lemma strFields_nonempty: "w \<in> set (strFields s) \<Longrightarrow> w \<noteq> []"
  using fieldsScan_nonempty [of 0 "[]" s] by (auto simp: strFields_def)

subsection \<open>Host and port\<close>

fun indexByte :: "char \<Rightarrow> string \<Rightarrow> nat option" where
  "indexByte c [] = None"
| "indexByte c (d # s) = (if c = d then Some 0 else map_option Suc (indexByte c s))"

definition lastIndexByte :: "char \<Rightarrow> string \<Rightarrow> nat option" where
  "lastIndexByte c s = map_option (\<lambda>k. length s - 1 - k) (indexByte c (rev s))"

definition splitHostPort :: "string \<Rightarrow> (string \<times> string) option" where
  "splitHostPort hostport =
     (case lastIndexByte (CHR '':'') hostport of
        None \<Rightarrow> None
      | Some i \<Rightarrow>
          let port = drop (i + 1) hostport in
          if take 1 hostport = ''['' then
            (case indexByte (CHR '']'') hostport of
               None \<Rightarrow> None
             | Some stop \<Rightarrow>
                 if stop + 1 = length hostport \<or> stop + 1 \<noteq> i then None
                 else if CHR ''['' \<in> set (drop 1 hostport) \<or> CHR '']'' \<in> set (drop (stop + 1) hostport) then None
                 else Some (take (stop - 1) (drop 1 hostport), port))
          else if CHR '':'' \<in> set (take i hostport) then None
          else if CHR ''['' \<in> set hostport \<or> CHR '']'' \<in> set hostport then None
          else Some (take i hostport, port))"

subsection \<open>base64.RawURLEncoding\<close>

definition b64Alphabet :: string where
  "b64Alphabet = ''ABCDEFGHIJKLMNOPQRSTUVWXYZabcdefghijklmnopqrstuvwxyz0123456789-_''"

definition b64Char :: "nat \<Rightarrow> char" where
  "b64Char k = b64Alphabet ! k"

definition b64Value :: "char \<Rightarrow> nat option" where
  "b64Value c = indexByte c b64Alphabet"

definition byteVal :: "char \<Rightarrow> nat" where
  "byteVal c = of_char c"

fun b64Encode :: "string \<Rightarrow> string" where
  "b64Encode [] = []"
| "b64Encode [a] = [b64Char (byteVal a div 4), b64Char (byteVal a mod 4 * 16)]"
| "b64Encode [a, b] =
     [b64Char (byteVal a div 4), b64Char (byteVal a mod 4 * 16 + byteVal b div 16),
      b64Char (byteVal b mod 16 * 4)]"
| "b64Encode (a # b # c # s) =
     b64Char (byteVal a div 4) # b64Char (byteVal a mod 4 * 16 + byteVal b div 16)
     # b64Char (byteVal b mod 16 * 4 + byteVal c div 64) # b64Char (byteVal c mod 64) # b64Encode s"

text \<open>Decoding a list of sextets; a single left-over sextet is an error.\<close>

fun b64Bytes :: "nat list \<Rightarrow> string option" where
  "b64Bytes [] = Some []"
| "b64Bytes [p] = None"
| "b64Bytes [p, q] = Some [char_of (p * 4 + q div 16)]"
| "b64Bytes [p, q, r] = Some [char_of (p * 4 + q div 16), char_of (q mod 16 * 16 + r div 4)]"
| "b64Bytes (p # q # r # t # s) =
     map_option (\<lambda>bs. char_of (p * 4 + q div 16) # char_of (q mod 16 * 16 + r div 4)
                      # char_of (r mod 4 * 64 + t) # bs) (b64Bytes s)"

text \<open>The decoder ignores line breaks and rejects every other byte outside the alphabet.\<close>

definition b64Decode :: "string \<Rightarrow> string option" where
  "b64Decode s =
     (let t = filter (\<lambda>c. c \<noteq> CHR 0x0A \<and> c \<noteq> CHR 0x0D) s in
      if list_all (\<lambda>c. b64Value c \<noteq> None) t then b64Bytes (map (\<lambda>c. the (b64Value c)) t) else None)"

lemma b64_table: "list_all (\<lambda>k. b64Value (b64Char k) = Some k \<and> b64Char k \<noteq> CHR 0x0A \<and> b64Char k \<noteq> CHR 0x0D) [0..<64]"
  by code_simp

lemma b64_char:
  assumes "k < 64"
  shows "b64Value (b64Char k) = Some k" "b64Char k \<noteq> CHR 0x0A" "b64Char k \<noteq> CHR 0x0D"
  using b64_table assms by (auto simp: list_all_iff)

lemma byteVal_less: "byteVal c < 256"
  by (simp add: byteVal_def)

lemma char_of_byteVal [simp]: "char_of (byteVal c) = c"
  by (simp add: byteVal_def)

lemma sextets:
  "byteVal a div 4 < 64" "byteVal a mod 4 * 16 < 64"
  "byteVal a mod 4 * 16 + byteVal b div 16 < 64" "byteVal b mod 16 * 4 < 64"
  "byteVal b mod 16 * 4 + byteVal c div 64 < 64" "byteVal c mod 64 < 64"
  using byteVal_less [of a] byteVal_less [of b] byteVal_less [of c] by auto

lemma byte_joins:
  "char_of (byteVal a + byteVal b div 16 div 16) = a"
  "char_of (byteVal b div 16 mod 16 * 16 + byteVal b mod 16) = b"
  "char_of (byteVal b div 16 mod 16 * 16 + (byteVal b mod 16 + byteVal c div 64 div 4)) = b"
  "char_of (byteVal c div 64 mod 4 * 64 + byteVal c mod 64) = c"
proof -
  have small: "n div 16 mod 16 = n div 16" "n div 64 mod 4 = n div 64" "n div 16 div 16 = 0" "n div 64 div 4 = 0"
    if "n < 256" for n :: nat
    using that by auto
  have "byteVal a < 256" "byteVal b < 256" "byteVal c < 256"
    by (simp_all add: byteVal_less)
  then show "char_of (byteVal a + byteVal b div 16 div 16) = a"
    "char_of (byteVal b div 16 mod 16 * 16 + byteVal b mod 16) = b"
    "char_of (byteVal b div 16 mod 16 * 16 + (byteVal b mod 16 + byteVal c div 64 div 4)) = b"
    "char_of (byteVal c div 64 mod 4 * 64 + byteVal c mod 64) = c"
    by (simp_all only: small add_0_right div_mult_mod_eq char_of_byteVal)
qed

lemma b64Encode_sextets:
  "list_all (\<lambda>c. b64Value c \<noteq> None \<and> c \<noteq> CHR 0x0A \<and> c \<noteq> CHR 0x0D) (b64Encode s)"
  by (induction s rule: b64Encode.induct) (simp_all add: b64_char sextets)

lemma b64Bytes_Encode: "b64Bytes (map (\<lambda>c. the (b64Value c)) (b64Encode s)) = Some s"
  by (induction s rule: b64Encode.induct) (simp_all add: b64_char sextets byte_joins)

theorem b64Decode_Encode: "b64Decode (b64Encode s) = Some s"
proof -
  have "filter (\<lambda>c. c \<noteq> CHR 0x0A \<and> c \<noteq> CHR 0x0D) (b64Encode s) = b64Encode s"
    using b64Encode_sextets [of s] by (auto simp: list_all_iff filter_id_conv)
  moreover have "list_all (\<lambda>c. b64Value c \<noteq> None) (b64Encode s)"
    using b64Encode_sextets [of s] by (auto simp: list_all_iff)
  ultimately show ?thesis by (simp add: b64Decode_def b64Bytes_Encode)
qed

lemma b64Encode_Nil [simp]: "b64Encode s = [] \<longleftrightarrow> s = []"
  by (induction s rule: b64Encode.induct) auto

end
