(* ===== verification/AccessControl.thy ===== *)
theory AccessControl
  imports Go_Text
begin

text \<open>
  Who may call the API, and how often: the principals and access rules of
  \<open>internal/auth/principal.go\<close> and the request wrappers of \<open>internal/httpapi/middleware.go\<close>
  (authentication, role check, rate limiter, request identifiers).

  A handler is a function of the principal in the request context, the request and the state
  of the server; it returns a response and the new state.  The maps \<open>map[Role]struct{}\<close> and
  \<open>map[string]struct{}\<close> are sets.  The token verifier is the parameter
  \<open>hc_authenticator\<close>: the interface \<open>auth.Verifier\<close>, with \<open>None\<close> for a nil interface.
  The limiter reads its clock once for a call.
\<close>

subsection \<open>Principals\<close>

datatype role = RoleViewer | RoleOperator | RoleApprover | RoleAdministrator

record principal =
  pc_subject :: string
  pc_displayName :: string
  pc_roles :: "role set"
  pc_namespaces :: "string set"
  pc_clusters :: "string set"

definition Actor :: "principal \<Rightarrow> string" where
  "Actor p =
     (if trimSpace (pc_displayName p) \<noteq> ''''
      then trimSpace (pc_displayName p) @ '' ('' @ pc_subject p @ '')''
      else pc_subject p)"

definition HasRole :: "principal \<Rightarrow> role \<Rightarrow> bool" where
  "HasRole p required =
     (if RoleAdministrator \<in> pc_roles p then True
      else if required = RoleViewer then pc_roles p \<noteq> {}
      else if required = RoleOperator then RoleOperator \<in> pc_roles p \<or> RoleApprover \<in> pc_roles p
      else required \<in> pc_roles p)"

definition CanAccessCluster :: "principal \<Rightarrow> string \<Rightarrow> bool" where
  "CanAccessCluster p clusterID =
     (if HasRole p RoleAdministrator then True
      else if ''*'' \<in> pc_clusters p then True
      else clusterID \<in> pc_clusters p)"

definition CanAccessNamespace :: "principal \<Rightarrow> string \<Rightarrow> string \<Rightarrow> bool" where
  "CanAccessNamespace p clusterID namespace =
     (if CanAccessCluster p clusterID then True
      else if ''*'' \<in> pc_namespaces p then True
      else namespace \<in> pc_namespaces p)"

definition noPrincipal :: principal where
  "noPrincipal = \<lparr>pc_subject = '''', pc_displayName = '''', pc_roles = {}, pc_namespaces = {}, pc_clusters = {}\<rparr>"

definition StaticVerifier :: "principal \<Rightarrow> string \<Rightarrow> unit + principal" where
  "StaticVerifier p token = (if pc_subject p = '''' then Inl () else Inr p)"

definition DevelopmentPrincipal :: principal where
  "DevelopmentPrincipal =
     \<lparr>pc_subject = ''insecure-development-user'', pc_displayName = ''Insecure development administrator'',
      pc_roles = {RoleAdministrator}, pc_namespaces = {''*''}, pc_clusters = {''*''}\<rparr>"

subsection \<open>Requests and responses\<close>

record request =
  rq_method :: string
  rq_path :: string
  rq_query :: "(string, string) gomap"
  rq_authorization :: string
  rq_requestID :: string
  rq_idempotencyKey :: string
  rq_contentType :: string
  rq_remoteAddr :: string
  rq_body :: string
  rq_tooLarge :: bool

text \<open>An error body carries its code, its message and the identifier of the request.\<close>

datatype 'p body = NoBody | ErrorBody string string string | JsonBody 'p

record 'p response =
  rs_status :: int
  rs_headers :: "(string, string) gomap"
  rs_body :: "'p body"

type_synonym ('p, 's) handler = "principal option \<Rightarrow> request \<Rightarrow> 's \<Rightarrow> 'p response \<times> 's"

definition errorCode :: "int \<Rightarrow> string" where
  "errorCode status =
     (if status = 400 then ''bad_request''
      else if status = 401 then ''unauthenticated''
      else if status = 403 then ''permission_denied''
      else if status = 404 then ''not_found''
      else if status = 409 then ''conflict''
      else if status = 413 then ''request_too_large''
      else if status = 415 then ''unsupported_media_type''
      else if status = 429 then ''rate_limited''
      else if status = 503 then ''unavailable''
      else ''internal_error'')"

definition writeJSON :: "int \<Rightarrow> 'p \<Rightarrow> 'p response" where
  "writeJSON status payload = \<lparr>rs_status = status, rs_headers = [], rs_body = JsonBody payload\<rparr>"

definition writeError :: "request \<Rightarrow> int \<Rightarrow> string \<Rightarrow> 'p response" where
  "writeError rq status message =
     \<lparr>rs_status = status, rs_headers = [],
      rs_body = ErrorBody (errorCode status)
        (if status \<ge> 500 \<and> status \<noteq> 503 then ''internal server error'' else message) (rq_requestID rq)\<rparr>"

definition setHeader :: "string \<Rightarrow> string \<Rightarrow> 'p response \<Rightarrow> 'p response" where
  "setHeader k v rs = rs\<lparr>rs_headers := gput k v (rs_headers rs)\<rparr>"

lemma writeError_simps [simp]:
  "rs_status (writeError rq status message) = status" "rs_body (writeError rq status message) \<noteq> JsonBody p"
  by (simp_all add: writeError_def)

lemma writeJSON_simps [simp]:
  "rs_status (writeJSON status p) = status" "rs_body (writeJSON status p) = JsonBody p"
  by (simp_all add: writeJSON_def)

lemma setHeader_simps [simp]:
  "rs_status (setHeader k v rs) = rs_status rs" "rs_body (setHeader k v rs) = rs_body rs"
  by (simp_all add: setHeader_def)

definition ErrUnauthenticated :: string where "ErrUnauthenticated = ''authentication required''"
definition ErrUnauthorized :: string where "ErrUnauthorized = ''insufficient permissions''"

subsection \<open>Rate limiter\<close>

record rate_window =
  rw_started :: gotime
  rw_count :: int
  rw_seen :: gotime

record request_limiter =
  rl_windows :: "(string, rate_window) gomap"
  rl_limit :: int
  rl_interval :: duration

definition newRequestLimiter :: "int \<Rightarrow> request_limiter" where
  "newRequestLimiter limit =
     \<lparr>rl_windows = [], rl_limit = (if limit \<le> 0 then 120 else limit), rl_interval = minute\<rparr>"

definition maxDuration :: "duration \<Rightarrow> duration \<Rightarrow> duration" where
  "maxDuration left minimum = (if left < minimum then minimum else left)"

definition bumpWindow :: "gotime \<Rightarrow> duration \<Rightarrow> rate_window option \<Rightarrow> rate_window" where
  "bumpWindow now interval entry =
     (let window = (case entry of Some w \<Rightarrow> w | None \<Rightarrow> \<lparr>rw_started = 0, rw_count = 0, rw_seen = 0\<rparr>);
          window' = (if isZero (rw_started window) \<or> now - rw_started window \<ge> interval
                     then \<lparr>rw_started = now, rw_count = 0, rw_seen = 0\<rparr> else window)
      in window'\<lparr>rw_count := rw_count window' + 1, rw_seen := now\<rparr>)"

text \<open>
  One call is one critical section.  The source reads the clock before it takes the lock, so calls
  that wait for each other may enter in another order than that of their times; the properties of
  the limiter speak of sequences of calls whose times do not decrease.
\<close>

definition allow :: "gotime \<Rightarrow> string \<Rightarrow> request_limiter \<Rightarrow> (bool \<times> duration) \<times> request_limiter" where
  "allow now key l =
     (let window = bumpWindow now (rl_interval l) (gget (rl_windows l) key);
          windows = gput key window (rl_windows l);
          kept = (if length windows > 4096
                  then filter (\<lambda>(k, item). \<not> now - rw_seen item > 5 * rl_interval l) windows
                  else windows)
      in ((if rw_count window > rl_limit l
           then (False, maxDuration (rl_interval l - (now - rw_started window)) second)
           else (True, 0)), l\<lparr>rl_windows := kept\<rparr>))"

subsection \<open>Wrappers\<close>

record 'e http_config =
  hc_insecureDevAuth :: bool
  hc_authenticator :: "(string \<Rightarrow> 'e + principal) option"

definition bearerChallenge :: string where
  "bearerChallenge = ''Bearer realm='' @ [CHR 0x22] @ ''kubeathrix'' @ [CHR 0x22]"

definition invalidChallenge :: string where
  "invalidChallenge = bearerChallenge @ '', error='' @ [CHR 0x22] @ ''invalid_token'' @ [CHR 0x22]"

definition withAuthentication :: "'e http_config \<Rightarrow> ('p, 's) handler \<Rightarrow> ('p, 's) handler" where
  "withAuthentication cfg next_handler ctx rq st =
     (if \<not> hasPrefix (rq_path rq) ''/api/'' then next_handler ctx rq st
      else if hc_insecureDevAuth cfg then next_handler (Some DevelopmentPrincipal) rq st
      else (case hc_authenticator cfg of
        None \<Rightarrow> (writeError rq 503 ''authentication is not configured'', st)
      | Some verify \<Rightarrow>
          (let parts = strFields (trimSpace (rq_authorization rq)) in
           if length parts \<noteq> 2 \<or> \<not> equalFold (parts ! 0) ''Bearer'' \<or> parts ! 1 = ''''
           then (setHeader ''WWW-Authenticate'' bearerChallenge (writeError rq 401 ErrUnauthenticated), st)
           else (case verify (parts ! 1) of
             Inl e \<Rightarrow> (setHeader ''WWW-Authenticate'' invalidChallenge (writeError rq 401 ErrUnauthenticated), st)
           | Inr verified \<Rightarrow> next_handler (Some verified) rq st))))"

definition requireRole :: "role \<Rightarrow> ('p, 's) handler \<Rightarrow> ('p, 's) handler" where
  "requireRole r next_handler ctx rq st =
     (case ctx of
        None \<Rightarrow> (writeError rq 401 ErrUnauthenticated, st)
      | Some p \<Rightarrow> if \<not> HasRole p r then (writeError rq 403 ErrUnauthorized, st) else next_handler ctx rq st)"

definition remoteAddress :: "string \<Rightarrow> string" where
  "remoteAddress address =
     (case splitHostPort address of
        Some (host, port) \<Rightarrow> if host \<noteq> '''' then host else if address = '''' then ''unknown'' else address
      | None \<Rightarrow> if address = '''' then ''unknown'' else address)"

definition limiterKey :: "principal option \<Rightarrow> request \<Rightarrow> string" where
  "limiterKey ctx rq =
     (case ctx of Some p \<Rightarrow> ''subject:'' @ pc_subject p | None \<Rightarrow> remoteAddress (rq_remoteAddr rq))"

definition withRateLimit :: "gotime \<Rightarrow> ('p, 's) handler \<Rightarrow> ('p, request_limiter \<times> 's) handler" where
  "withRateLimit now next_handler ctx rq st =
     (let ((allowed, retryAfter), limiter) = allow now (limiterKey ctx rq) (fst st) in
      if \<not> allowed
      then (setHeader ''Retry-After'' (itoa (max ((retryAfter + second - 1) div second) 1))
              (writeError rq 429 ''request rate limit exceeded''), (limiter, snd st))
      else (let (rs, st') = next_handler ctx rq (snd st) in (rs, (limiter, st'))))"

definition idChar :: "char \<Rightarrow> bool" where
  "idChar c \<longleftrightarrow> c = CHR ''-'' \<or> c = CHR ''_'' \<or> c = CHR ''.'' \<or> isDigit c
     \<or> (CHR ''a'' \<le> c \<and> c \<le> CHR ''z'') \<or> (CHR ''A'' \<le> c \<and> c \<le> CHR ''Z'')"

definition validRequestID :: "string \<Rightarrow> bool" where
  "validRequestID s = (if length s < 8 \<or> length s > 128 then False else list_all idChar s)"

text \<open>The argument is the outcome of \<open>rand.Read\<close> on 16 bytes.\<close>

definition newRequestID :: "string option \<Rightarrow> string" where
  "newRequestID bytes = (case bytes of None \<Rightarrow> ''request-unknown'' | Some bs \<Rightarrow> hexEncode bs)"

definition withRequestID :: "string option \<Rightarrow> ('p, 's) handler \<Rightarrow> ('p, 's) handler" where
  "withRequestID bytes next_handler ctx rq st =
     (let given = trimSpace (rq_requestID rq);
          requestID = (if \<not> validRequestID given then newRequestID bytes else given);
          (rs, st') = next_handler ctx (rq\<lparr>rq_requestID := requestID\<rparr>) st
      in (setHeader ''X-Request-ID'' requestID rs, st'))"

definition securityHeaders :: "(string \<times> string) list" where
  "securityHeaders =
     [(''X-Content-Type-Options'', ''nosniff''), (''X-Frame-Options'', ''DENY''),
      (''Referrer-Policy'', ''no-referrer''),
      (''Permissions-Policy'', ''camera=(), microphone=(), geolocation=()''),
      (''Content-Security-Policy'', ''default-src '' @ [CHR 0x27] @ ''none'' @ [CHR 0x27] @ ''; frame-ancestors '' @ [CHR 0x27] @ ''none'' @ [CHR 0x27]),
      (''Strict-Transport-Security'', ''max-age=31536000; includeSubDomains''), (''Cache-Control'', ''no-store'')]"

definition withSecurityHeaders :: "('p, 's) handler \<Rightarrow> ('p, 's) handler" where
  "withSecurityHeaders next_handler ctx rq st =
     (let (rs, st') = next_handler ctx rq st in (fold (\<lambda>(k, v). setHeader k v) securityHeaders rs, st'))"

definition withJSON :: "('p, 's) handler \<Rightarrow> ('p, 's) handler" where
  "withJSON next_handler ctx rq st =
     (let (rs, st') = next_handler ctx rq st in (setHeader ''Content-Type'' ''application/json'' rs, st'))"

end
