(* ===== verification/RateLimiter.thy ===== *)
theory RateLimiter
  imports AccessControl
begin

text \<open>
  Properties of the request wrappers: the limiter admits exactly what one fixed window per
  client admits (\<open>limiter_per_client\<close>), hence at most twice the limit in any minute
  (\<open>limiter_bound\<close>); a request under \<open>/api/\<close> reaches its handler only with a verified
  principal (\<open>authentication_required\<close>); every response carries a well-formed request
  identifier (\<open>request_id_valid\<close>).
\<close>

subsection \<open>The limiter against a window per client\<close>

text \<open>
  The reference: a client's calls are cut into windows that start at its first call and at
  every call at least one interval after the start of the current window.  Each call comes
  with the start of its window and its number in the window.
\<close>

fun trail :: "duration \<Rightarrow> gotime \<Rightarrow> int \<Rightarrow> gotime list \<Rightarrow> (gotime \<times> gotime \<times> int) list" where
  "trail interval start n [] = []"
| "trail interval start n (t # ts) =
     (if start = 0 \<or> t - start \<ge> interval then (t, t, 1) # trail interval t 1 ts
      else (t, start, n + 1) # trail interval start (n + 1) ts)"

fun runLimiter :: "(gotime \<times> string) list \<Rightarrow> request_limiter \<Rightarrow> bool list \<times> request_limiter" where
  "runLimiter [] l = ([], l)"
| "runLimiter ((t, k) # calls) l =
     (let ((ok, wait), l') = allow t k l; (oks, l'') = runLimiter calls l' in (ok # oks, l''))"

definition decisionsFor :: "string \<Rightarrow> (gotime \<times> string) list \<Rightarrow> bool list \<Rightarrow> bool list" where
  "decisionsFor k calls oks = map snd (filter (\<lambda>((t, k'), ok). k' = k) (zip calls oks))"

definition timesFor :: "string \<Rightarrow> (gotime \<times> string) list \<Rightarrow> gotime list" where
  "timesFor k calls = map fst (filter (\<lambda>(t, k'). k' = k) calls)"

text \<open>
  What the limiter remembers of a client: its current window, or nothing when the window is
  over for good at every time from \<open>now\<close> on.
\<close>

definition tracks :: "gotime \<Rightarrow> duration \<Rightarrow> rate_window option \<Rightarrow> gotime \<Rightarrow> int \<Rightarrow> bool" where
  "tracks now interval entry start n \<longleftrightarrow>
     (case entry of
        None \<Rightarrow> start = 0 \<or> now - start \<ge> interval
      | Some w \<Rightarrow> rw_started w = start \<and> rw_count w = n \<and> start \<le> rw_seen w \<and> rw_seen w \<le> now)"

lemma tracks_later: "tracks now iv e s n \<Longrightarrow> now \<le> t \<Longrightarrow> tracks t iv e s n"
  by (auto simp: tracks_def split: option.splits)

lemma bumpWindow_tracks:
  assumes "tracks now iv e s n" "now \<le> t" "0 < t"
  shows "rw_count (bumpWindow t iv e) = (if s = 0 \<or> t - s \<ge> iv then 1 else n + 1)"
    and "tracks t iv (Some (bumpWindow t iv e))
           (if s = 0 \<or> t - s \<ge> iv then t else s) (if s = 0 \<or> t - s \<ge> iv then 1 else n + 1)"
  using assms by (auto simp: tracks_def bumpWindow_def isZero_def Let_def split: option.splits)

definition keptWindows :: "gotime \<Rightarrow> duration \<Rightarrow> (string, rate_window) gomap \<Rightarrow> (string, rate_window) gomap" where
  "keptWindows now interval windows =
     (if length windows > 4096 then filter (\<lambda>(k, item). \<not> now - rw_seen item > 5 * interval) windows else windows)"

lemma map_of_filter_value:
  "distinct (map fst m) \<Longrightarrow> map_of (filter (\<lambda>(k, v). P v) m) k = Option.bind (map_of m k) (\<lambda>v. if P v then Some v else None)"
  by (induction m) (auto simp: map_of_eq_None_iff image_iff dest: map_of_SomeD)

lemma gget_keptWindows:
  "wf_gomap m \<Longrightarrow> gget (keptWindows now iv m) k =
     Option.bind (gget m k) (\<lambda>w. if length m > 4096 \<and> now - rw_seen w > 5 * iv then None else Some w)"
  by (auto simp: keptWindows_def wf_gomap_def map_of_filter_value [where P = "\<lambda>item. \<not> now - rw_seen item > 5 * iv" for now iv]
      intro!: arg_cong2 [where f = Option.bind] split: option.splits)

lemma wf_keptWindows: "wf_gomap m \<Longrightarrow> wf_gomap (keptWindows now iv m)"
  by (auto simp: keptWindows_def wf_gomap_def intro: distinct_map_filter)

lemma tracks_keptWindows:
  assumes "wf_gomap m" "tracks now iv (gget m k) s n" "0 \<le> iv"
  shows "tracks now iv (gget (keptWindows now iv m) k) s n"
  using assms by (cases "gget m k") (auto simp: gget_keptWindows tracks_def)

lemma allow_def':
  "allow now key l =
     (let window = bumpWindow now (rl_interval l) (gget (rl_windows l) key) in
      ((if rw_count window > rl_limit l
        then (False, maxDuration (rl_interval l - (now - rw_started window)) second) else (True, 0)),
       l\<lparr>rl_windows := keptWindows now (rl_interval l) (gput key window (rl_windows l))\<rparr>))"
  by (simp add: allow_def keptWindows_def Let_def)

lemma runLimiter_tracks:
  assumes "sorted (now # map fst calls)" "0 < now \<or> calls = [] \<or> 0 < fst (hd calls)" "0 \<le> rl_interval l"
    and "wf_gomap (rl_windows l)" "tracks now (rl_interval l) (gget (rl_windows l) k) s n"
  shows "decisionsFor k calls (fst (runLimiter calls l)) =
    map (\<lambda>(t, start, i). i \<le> rl_limit l) (trail (rl_interval l) s n (timesFor k calls))"
  using assms
proof (induction calls arbitrary: now l s n)
  case Nil
  then show ?case by (simp add: decisionsFor_def timesFor_def)
next
  case (Cons call calls)
  obtain t k' where call: "call = (t, k')" by (cases call)
  let ?w = "bumpWindow t (rl_interval l) (gget (rl_windows l) k')"
  let ?l = "snd (allow t k' l)"
  have t: "now \<le> t" "0 < t" "sorted (t # map fst calls)" using Cons.prems(1,2) by (auto simp: call)
  have l: "rl_interval ?l = rl_interval l" "rl_limit ?l = rl_limit l" "wf_gomap (rl_windows ?l)"
    using Cons.prems(4) by (simp_all add: allow_def' Let_def wf_keptWindows)
  have others: "tracks t (rl_interval l) (gget (rl_windows ?l) k) s n" if "k' \<noteq> k"
    using Cons.prems that t tracks_later [OF Cons.prems(5) t(1)]
    by (auto simp: allow_def' Let_def intro!: tracks_keptWindows)
  show ?case
  proof (cases "k' = k")
    case False
    have "decisionsFor k (call # calls) (fst (runLimiter (call # calls) l)) =
        decisionsFor k calls (fst (runLimiter calls ?l))"
      using False by (simp add: call decisionsFor_def case_prod_unfold Let_def)
    also have "\<dots> = map (\<lambda>(t, start, i). i \<le> rl_limit l) (trail (rl_interval l) s n (timesFor k calls))"
      using Cons.IH [of t ?l s n] t l others False Cons.prems(3) by simp
    finally show ?thesis using False by (simp add: call timesFor_def)
  next
    case True
    define fresh where "fresh \<longleftrightarrow> s = 0 \<or> t - s \<ge> rl_interval l"
    have w: "rw_count ?w = (if fresh then 1 else n + 1)"
      "tracks t (rl_interval l) (Some ?w) (if fresh then t else s) (if fresh then 1 else n + 1)"
      using bumpWindow_tracks [OF Cons.prems(5) t(1,2)] by (simp_all add: fresh_def True)
    have "tracks t (rl_interval l) (gget (rl_windows ?l) k) (if fresh then t else s) (if fresh then 1 else n + 1)"
      using w(2) Cons.prems by (auto simp: allow_def' Let_def True intro!: tracks_keptWindows)
    then have rest: "decisionsFor k calls (fst (runLimiter calls ?l)) =
        map (\<lambda>(t, start, i). i \<le> rl_limit l)
          (trail (rl_interval l) (if fresh then t else s) (if fresh then 1 else n + 1) (timesFor k calls))"
      using Cons.IH [of t ?l] t l Cons.prems(3) by simp
    have "decisionsFor k (call # calls) (fst (runLimiter (call # calls) l)) =
        (rw_count ?w \<le> rl_limit l) # decisionsFor k calls (fst (runLimiter calls ?l))"
      using True by (simp add: call decisionsFor_def case_prod_unfold Let_def allow_def')
    then show ?thesis using w(1) rest by (auto simp: call timesFor_def True fresh_def)
  qed
qed

lemma length_runLimiter [simp]: "length (fst (runLimiter calls l)) = length calls"
  by (induction calls arbitrary: l) (auto simp: case_prod_unfold Let_def)

lemma zip_decisions:
  assumes "length oks = length calls"
  shows "map (\<lambda>((t, k'), ok). (t, ok)) (filter (\<lambda>((t, k'), ok). k' = k) (zip calls oks)) =
    zip (timesFor k calls) (decisionsFor k calls oks)"
  using assms by (induction oks calls rule: list_induct2) (auto simp: timesFor_def decisionsFor_def)

lemma trail_fst: "map fst (trail iv s n ts) = ts"
  by (induction iv s n ts rule: trail.induct) auto

definition placed :: "duration \<Rightarrow> gotime \<Rightarrow> int \<Rightarrow> gotime \<times> gotime \<times> int \<Rightarrow> bool" where
  "placed iv s n call \<longleftrightarrow>
     (case call of (t, st, c) \<Rightarrow>
        0 < st \<and> st \<le> t \<and> t < st + iv \<and> 1 \<le> c \<and> (st = s \<and> n < c \<or> s = 0 \<or> s + iv \<le> st))"

lemma placed_fresh: "placed iv t 1 call \<Longrightarrow> s = 0 \<or> iv \<le> t - s \<Longrightarrow> 0 < t \<Longrightarrow> 0 < iv \<Longrightarrow> placed iv s n call"
  by (auto simp: placed_def split: prod.splits)

lemma placed_same: "placed iv s (n + 1) call \<Longrightarrow> placed iv s n call"
  by (auto simp: placed_def split: prod.splits)

lemma trail_later:
  assumes "call \<in> set (trail iv s n ts)" "0 < iv" "0 \<le> n" "0 \<le> s" "sorted (s # ts)" "\<forall>t\<in>set ts. 0 < t"
  shows "placed iv s n call"
  using assms
proof (induction iv s n ts rule: trail.induct)
  case (2 iv s n t ts)
  have t: "s \<le> t" "0 < t" "sorted (t # ts)" "sorted (s # ts)" "\<forall>t\<in>set ts. 0 < t" using 2 by auto
  show ?case
  proof (cases "s = 0 \<or> t - s \<ge> iv")
    case True
    then consider "call = (t, t, 1)" | "call \<in> set (trail iv t 1 ts)" using 2(3) by auto
    then show ?thesis
    proof cases
      case 1
      then show ?thesis using True t 2(4) by (auto simp: placed_def)
    next
      case 2
      then have "placed iv t 1 call" using "2.IH"(1) "2.prems" t True by simp
      with True t "2.prems" show ?thesis by (blast intro: placed_fresh)
    qed
  next
    case False
    then consider "call = (t, s, n + 1)" | "call \<in> set (trail iv s (n + 1) ts)" using 2(3) by auto
    then show ?thesis
    proof cases
      case 1
      then show ?thesis using False t 2 by (auto simp: placed_def)
    next
      case 2
      then have "placed iv s (n + 1) call" using "2.IH"(2) "2.prems" t False by simp
      then show ?thesis by (rule placed_same)
    qed
  qed
qed simp

lemma trail_distinct:
  assumes "0 < iv" "0 \<le> n" "0 \<le> s" "sorted (s # ts)" "\<forall>t\<in>set ts. 0 < t"
  shows "distinct (map snd (trail iv s n ts))"
  using assms
proof (induction iv s n ts rule: trail.induct)
  case (2 iv s n t ts)
  have t: "sorted (t # ts)" "sorted (s # ts)" "\<forall>t\<in>set ts. 0 < t" "0 < t" using 2 by auto
  show ?case
  proof (cases "s = 0 \<or> t - s \<ge> iv")
    case True
    have "(t, 1) \<notin> snd ` set (trail iv t 1 ts)"
    proof
      assume "(t, 1) \<in> snd ` set (trail iv t 1 ts)"
      then obtain u where "(u, t, 1) \<in> set (trail iv t 1 ts)" by auto
      from trail_later [OF this] t 2(3) show False by (simp add: placed_def)
    qed
    with True 2 t show ?thesis by simp
  next
    case False
    have "(s, n + 1) \<notin> snd ` set (trail iv s (n + 1) ts)"
    proof
      assume "(s, n + 1) \<in> snd ` set (trail iv s (n + 1) ts)"
      then obtain u where "(u, s, n + 1) \<in> set (trail iv s (n + 1) ts)" by auto
      from trail_later [OF this] t False 2 show False by (simp add: placed_def)
    qed
    with False 2 t show ?thesis by simp
  qed
qed simp

definition apart :: "duration \<Rightarrow> gotime \<Rightarrow> gotime \<Rightarrow> bool" where
  "apart iv s t \<longleftrightarrow> s = t \<or> s + iv \<le> t \<or> t + iv \<le> s"

lemma apart_sym: "apart iv s t = apart iv t s"
  by (auto simp: apart_def)

lemma placed_apart: "placed iv s n (t, st, c) \<Longrightarrow> s \<noteq> 0 \<Longrightarrow> apart iv s st"
  by (auto simp: placed_def apart_def)

lemma trail_apart:
  assumes "0 < iv" "0 \<le> n" "0 \<le> s" "sorted (s # ts)" "\<forall>t\<in>set ts. 0 < t"
    and "(t, st, c) \<in> set (trail iv s n ts)" "(t', st', c') \<in> set (trail iv s n ts)"
  shows "apart iv st st'"
  using assms
proof (induction iv s n ts arbitrary: t st c t' st' c' rule: trail.induct)
  case (2 iv s n u ts)
  have u: "sorted (u # ts)" "sorted (s # ts)" "\<forall>t\<in>set ts. 0 < t" "0 < u" using "2.prems" by auto
  have refl: "apart iv x x" for x by (simp add: apart_def)
  show ?case
  proof (cases "s = 0 \<or> u - s \<ge> iv")
    case True
    then have mem: "(t, st, c) = (u, u, 1) \<or> (t, st, c) \<in> set (trail iv u 1 ts)"
      "(t', st', c') = (u, u, 1) \<or> (t', st', c') \<in> set (trail iv u 1 ts)" using "2.prems" by auto
    have head: "apart iv u x" if "(y, x, z) \<in> set (trail iv u 1 ts)" for x y z
      using trail_later [OF that] "2.prems"(1) u by (auto intro: placed_apart)
    from mem show ?thesis using head refl "2.IH"(1) [OF True "2.prems"(1)] u by (auto simp: apart_sym [of iv _ u])
  next
    case False
    then have mem: "(t, st, c) = (u, s, n + 1) \<or> (t, st, c) \<in> set (trail iv s (n + 1) ts)"
      "(t', st', c') = (u, s, n + 1) \<or> (t', st', c') \<in> set (trail iv s (n + 1) ts)" using "2.prems" by auto
    have head: "apart iv s x" if "(y, x, z) \<in> set (trail iv s (n + 1) ts)" for x y z
      using trail_later [OF that] "2.prems"(1,2,3) u False by (auto intro: placed_apart)
    from mem show ?thesis using head refl "2.IH"(2) [OF False "2.prems"(1)] u "2.prems"(2,3) by (auto simp: apart_sym [of iv _ s])
  qed
qed simp

lemma two_starts:
  fixes S :: "int set"
  assumes "finite S" "\<forall>s\<in>S. a - iv < s \<and> s < a + iv" "\<forall>s\<in>S. \<forall>t\<in>S. apart iv s t" "0 < iv"
  shows "card S \<le> 2"
proof (rule ccontr)
  assume "\<not> card S \<le> 2"
  then have "3 \<le> card S" by simp
  then obtain T where "T \<subseteq> S" "card T = 3" by (meson obtain_subset_with_card_n)
  then obtain x y z where "x \<in> T" "y \<in> T" "z \<in> T" "x \<noteq> y" "x \<noteq> z" "y \<noteq> z"
    by (auto simp: card_3_iff)
  then have "apart iv x y" "apart iv x z" "apart iv y z" "a - iv < x" "x < a + iv" "a - iv < y" "y < a + iv"
      "a - iv < z" "z < a + iv" using \<open>T \<subseteq> S\<close> assms(2,3) by auto
  with \<open>x \<noteq> y\<close> \<open>x \<noteq> z\<close> \<open>y \<noteq> z\<close> show False by (auto simp: apart_def)
qed

lemma trail_span:
  assumes "0 < iv" "sorted ts" "\<forall>t\<in>set ts. 0 < t"
  shows "length (filter (\<lambda>(t, st, c). c \<le> limit \<and> a \<le> t \<and> t < a + iv) (trail iv 0 0 ts)) \<le> 2 * nat limit"
proof -
  define hits where "hits = filter (\<lambda>(t, st, c). c \<le> limit \<and> a \<le> t \<and> t < a + iv) (trail iv 0 0 ts)"
  have sorted: "sorted (0 # ts)" using assms(2,3) by (auto intro: less_imp_le)
  have later: "st \<le> t" "t < st + iv" "1 \<le> c" "c \<le> limit" "a \<le> t" "t < a + iv" "(t, st, c) \<in> set (trail iv 0 0 ts)"
    if "(t, st, c) \<in> set hits" for t st c
    using that trail_later [OF _ assms(1) order_refl order_refl sorted assms(3), of "(t, st, c)"]
    by (auto simp: hits_def placed_def)
  define S where "S = (\<lambda>(t, st, c). st) ` set hits"
  have "card S \<le> 2"
  proof (rule two_starts [of _ a iv])
    show "\<forall>s\<in>S. a - iv < s \<and> s < a + iv" 
    proof
      fix s assume "s \<in> S"
      then obtain t c where "(t, s, c) \<in> set hits" by (auto simp: S_def)
      from later [OF this] show "a - iv < s \<and> s < a + iv" by simp
    qed
    show "\<forall>s\<in>S. \<forall>t\<in>S. apart iv s t"
    proof (intro ballI)
      fix x y assume "x \<in> S" "y \<in> S"
      then obtain t c t' c' where "(t, x, c) \<in> set hits" "(t', y, c') \<in> set hits" by (auto simp: S_def)
      then show "apart iv x y" by (intro trail_apart [OF assms(1) order_refl order_refl sorted assms(3)] later(7))
    qed
  qed (simp_all add: S_def assms(1))
  have "distinct (map snd hits)"
    unfolding hits_def using trail_distinct [OF assms(1) order_refl order_refl sorted assms(3)] by (rule distinct_map_filter)
  then have "length hits = card (snd ` set hits)"
    by (metis distinct_card length_map list.set_map)
  also have "\<dots> \<le> card (S \<times> {1..limit})"
  proof (rule card_mono)
    show "snd ` set hits \<subseteq> S \<times> {1..limit}" 
    proof
      fix x assume "x \<in> snd ` set hits"
      then obtain t st c where x: "x = (st, c)" and mem: "(t, st, c) \<in> set hits" by auto
      then have "st \<in> S" by (force simp: S_def)
      with later(3,4) [OF mem] show "x \<in> S \<times> {1..limit}" by (simp add: x)
    qed
  qed (simp add: S_def)
  also have "\<dots> \<le> 2 * nat limit"
    using \<open>card S \<le> 2\<close> by (simp add: card_cartesian_product)
  finally show ?thesis by (simp add: hits_def)
qed

text \<open>
  C22. For calls in the order of their times, the admissions of a client are those of fixed windows cut from its own calls: they do
  not depend on the calls of other clients, and dropping idle entries from the map is never
  visible.
\<close>
theorem limiter_per_client:
  assumes "sorted (map fst calls)" "\<forall>(t, k')\<in>set calls. 0 < t"
  shows "decisionsFor k calls (fst (runLimiter calls (newRequestLimiter limit))) =
    map (\<lambda>(t, start, i). i \<le> (if limit \<le> 0 then 120 else limit)) (trail minute 0 0 (timesFor k calls))"
proof -
  have "sorted (0 # map fst calls)" using assms by (fastforce intro: less_imp_le)
  moreover have "0 < (0 :: int) \<or> calls = [] \<or> 0 < fst (hd calls)"
    using assms(2) by (cases calls) auto
  ultimately show ?thesis
    using runLimiter_tracks [of 0 calls "newRequestLimiter limit" k 0 0]
    by (simp add: newRequestLimiter_def tracks_def minute_def second_def)
qed

text \<open>
  C32. For calls in the order of their times, within any minute a client is admitted at most twice as
  often as the limit says, whatever the other clients do.
\<close>
theorem limiter_bound:
  assumes "sorted (map fst calls)" "\<forall>(t, k')\<in>set calls. 0 < t"
  shows "length (filter (\<lambda>((t, k'), ok). k' = k \<and> ok \<and> a \<le> t \<and> t < a + minute)
      (zip calls (fst (runLimiter calls (newRequestLimiter limit)))))
    \<le> 2 * nat (if limit \<le> 0 then 120 else limit)"
proof -
  define lim where "lim = (if limit \<le> 0 then 120 else limit)"
  define oks where "oks = fst (runLimiter calls (newRequestLimiter limit))"
  let ?tr = "trail minute 0 0 (timesFor k calls)"
  have oks: "decisionsFor k calls oks = map (\<lambda>(t, start, i). i \<le> lim) ?tr"
    using limiter_per_client [OF assms, of k limit] by (simp add: oks_def lim_def)
  have "zip (timesFor k calls) (decisionsFor k calls oks) = zip (map fst ?tr) (map (\<lambda>(t, start, i). i \<le> lim) ?tr)"
    by (simp only: trail_fst oks)
  then have pairs: "zip (timesFor k calls) (decisionsFor k calls oks) = map (\<lambda>(t, start, i). (t, i \<le> lim)) ?tr"
    by (simp add: zip_map_map zip_same_conv_map case_prod_unfold)
  have "length (filter (\<lambda>((t, k'), ok). k' = k \<and> ok \<and> a \<le> t \<and> t < a + minute) (zip calls oks)) =
      length (filter (\<lambda>(t, ok). ok \<and> a \<le> t \<and> t < a + minute)
        (map (\<lambda>((t, k'), ok). (t, ok)) (filter (\<lambda>((t, k'), ok). k' = k) (zip calls oks))))"
    by (simp add: filter_map comp_def case_prod_unfold conj_commute conj_left_commute)
  also have "\<dots> = length (filter (\<lambda>(t, ok). ok \<and> a \<le> t \<and> t < a + minute) (zip (timesFor k calls) (decisionsFor k calls oks)))"
    by (subst zip_decisions) (simp_all add: oks_def)
  also have "\<dots> = length (filter (\<lambda>(t, st, c). c \<le> lim \<and> a \<le> t \<and> t < a + minute) ?tr)"
    unfolding pairs by (simp add: filter_map comp_def case_prod_unfold)
  also have "\<dots> \<le> 2 * nat lim"
  proof (rule trail_span)
    show "sorted (timesFor k calls)"
      using assms(1) unfolding timesFor_def by (rule sorted_filter)
    show "\<forall>t\<in>set (timesFor k calls). 0 < t" using assms(2) by (auto simp: timesFor_def)
  qed (simp_all add: minute_def second_def lim_def)
  finally show ?thesis by (simp add: lim_def oks_def)
qed

definition sample_calls :: "(gotime \<times> string) list" where
  "sample_calls = [(second, ''a''), (2 * second, ''b''), (3 * second, ''a''), (61 * second, ''a'')]"

lemma sample_decisions: "fst (runLimiter sample_calls (newRequestLimiter 1)) = [True, True, False, True]"
  by code_simp

lemma sample_times: "sorted (map fst sample_calls)" "\<forall>(t, k)\<in>set sample_calls. 0 < t"
  by (simp_all add: sample_calls_def second_def)

lemma limiter_per_client_witness:
  "[True, False, True] = map (\<lambda>(t, start, i). i \<le> 1) (trail minute 0 0 (timesFor ''a'' sample_calls))"
  using limiter_per_client [of sample_calls "''a''" 1]
  by (simp add: sample_decisions sample_times) (simp add: sample_calls_def decisionsFor_def)

lemma limiter_bound_witness:
  "length (filter (\<lambda>((t, k'), ok). k' = ''a'' \<and> ok \<and> 2 * second \<le> t \<and> t < 2 * second + minute)
     (zip sample_calls [True, True, False, True])) \<le> 2"
  using limiter_bound [of sample_calls "''a''" "2 * second" 1]
  by (simp add: sample_decisions sample_times)

subsection \<open>Roles and identifiers\<close>

lemma role_hierarchy:
  "HasRole p RoleAdministrator \<Longrightarrow> HasRole p r"
  "HasRole p RoleApprover \<Longrightarrow> HasRole p RoleOperator"
  "HasRole p r \<Longrightarrow> HasRole p RoleViewer"
  by (cases r; auto simp: HasRole_def split: if_splits)+

lemma cluster_covers_namespaces: "CanAccessCluster p c \<Longrightarrow> CanAccessNamespace p c ns"
  by (simp add: CanAccessNamespace_def)

lemma no_principal [simp]:
  "\<not> HasRole noPrincipal r" "\<not> CanAccessCluster noPrincipal c" "\<not> CanAccessNamespace noPrincipal c ns"
  by (cases r; simp add: HasRole_def CanAccessCluster_def CanAccessNamespace_def noPrincipal_def)+

lemma authentication_required:
  assumes "hasPrefix (rq_path rq) ''/api/''" "\<not> hc_insecureDevAuth cfg"
  obtains (passed) scheme token verify p where
      "strFields (trimSpace (rq_authorization rq)) = [scheme, token]" "equalFold scheme ''Bearer''"
      "hc_authenticator cfg = Some verify" "verify token = Inr p"
      "withAuthentication cfg h ctx rq st = h (Some p) rq st"
    | (refused) rs where "withAuthentication cfg h ctx rq st = (rs, st)" "rs_status rs \<in> {401, 503}"
proof (cases "hc_authenticator cfg")
  case None
  then show ?thesis using assms by (intro refused) (auto simp: withAuthentication_def)
next
  case (Some verify)
  let ?parts = "strFields (trimSpace (rq_authorization rq))"
  show ?thesis
  proof (cases "length ?parts = 2 \<and> equalFold (?parts ! 0) ''Bearer'' \<and> ?parts ! 1 \<noteq> ''''")
    case False
    then show ?thesis using assms Some
      by (intro refused [of "setHeader ''WWW-Authenticate'' bearerChallenge (writeError rq 401 ErrUnauthenticated)"])
        (auto simp: withAuthentication_def Let_def)
  next
    case True
    then obtain scheme token where parts: "?parts = [scheme, token]"
      by (auto simp: length_Suc_conv numeral_2_eq_2)
    show ?thesis
    proof (cases "verify token")
      case (Inl e)
      then show ?thesis using assms Some True
        by (intro refused [of "setHeader ''WWW-Authenticate'' invalidChallenge (writeError rq 401 ErrUnauthenticated)"])
          (auto simp: withAuthentication_def Let_def parts)
    next
      case (Inr p)
      then show ?thesis using assms Some True
        by (intro passed [of scheme token verify p]) (auto simp: withAuthentication_def Let_def parts)
    qed
  qed
qed

lemma requireRole_refused:
  assumes "case ctx of None \<Rightarrow> True | Some p \<Rightarrow> \<not> HasRole p r"
  shows "snd (requireRole r h ctx rq st) = st \<and> rs_status (fst (requireRole r h ctx rq st)) \<in> {401, 403}"
  using assms by (auto simp: requireRole_def split: option.splits)

lemma idChar_hex: "isHex c \<Longrightarrow> idChar c"
  by (auto simp: isHex_def idChar_def less_eq_char_def)

text \<open>
  Whatever the client sends, the identifier a response carries has between 8 and 128
  characters of the URL-safe alphabet, provided the random source delivers 16 bytes or fails.
\<close>
theorem request_id_valid:
  assumes "\<forall>bs. bytes = Some bs \<longrightarrow> length bs = 16"
  shows "\<exists>requestID. gget (rs_headers (fst (withRequestID bytes h ctx rq st))) ''X-Request-ID'' = Some requestID
    \<and> validRequestID requestID"
proof -
  have "validRequestID (newRequestID bytes)"
  proof (cases bytes)
    case None
    have "validRequestID ''request-unknown''" by code_simp
    then show ?thesis by (simp add: newRequestID_def None)
  next
    case (Some bs)
    then show ?thesis using assms isHex_hexEncode [of bs] idChar_hex
      by (auto simp: newRequestID_def validRequestID_def list_all_iff)
  qed
  then show ?thesis by (auto simp: withRequestID_def Let_def setHeader_def split: prod.splits)
qed

lemma request_id_valid_witness:
  "\<exists>requestID. gget (rs_headers (fst (withRequestID None (\<lambda>ctx rq st. (writeJSON 200 (), st)) None
      \<lparr>rq_method = ''GET'', rq_path = ''/health/live'', rq_query = [], rq_authorization = '''', rq_requestID = ''short'',
       rq_idempotencyKey = '''', rq_contentType = '''', rq_remoteAddr = '''', rq_body = '''', rq_tooLarge = False\<rparr> ())))
      ''X-Request-ID'' = Some requestID \<and> validRequestID requestID"
  by (rule request_id_valid) simp

end
