(* ===== verification/ServerModel.thy ===== *)
theory ServerModel
  imports AccessControl MemoryStore Correlation ChaosManager
begin

text \<open>
  The HTTP server of \<open>internal/httpapi/server.go\<close>: its configuration, the interfaces it calls,
  the payloads it answers with, and what every handler shares - access checks, reading a
  request body, the answer to a failed store call.

  The repository is the in-memory store.  The other interfaces of the source
  (\<open>ClusterInspector\<close>, \<open>AdapterManager\<close>, \<open>WorkflowClient\<close>, \<open>ChaosManager\<close>, \<open>AIAdvisor\<close>,
  \<open>ProviderSecretWriter\<close>) are records of functions over a world \<open>'w\<close>, and \<open>None\<close> stands for
  a nil interface; of their errors the server only looks at nil or not, except for the store
  errors a chaos manager passes on.  The name checks of \<open>k8s.io/apimachinery\<close> are the parameters
  \<open>sv_validSecretName\<close> and \<open>sv_validSecretKey\<close>, and \<open>sv_mapOrder\<close> is the order in which the runtime
  visits the keys of a map when the listing of findings ranges over it.  A handler runs at one instant \<open>now\<close>, and the request
  context is alive or cancelled for the whole request.  Log lines are left out.
\<close>

subsection \<open>Interfaces\<close>

record chaos_experiment =
  ex_id :: string
  ex_name :: string
  ex_category :: string
  ex_target :: string
  ex_status :: string
  ex_engine :: string
  ex_description :: string
  ex_preflight :: "string list"
  ex_manifest :: string

record cluster_snapshot =
  sn_findings :: "finding list"
  sn_namespaces :: int
  sn_lastRunAt :: gotime
  sn_experiments :: "chaos_experiment list"

record adapter_collection =
  ad_integrations :: "integration_rec list"
  ad_health :: "integration_health list"
  ad_findings :: "finding list"

text \<open>Of a managed resource, its references and the warnings: what the listing reads or passes on.\<close>

record resource_reference =
  mr_apiVersion :: string
  mr_kind :: string
  mr_namespace :: string
  mr_name :: string
  mr_uid :: string

record managed_relationship =
  rel_from :: resource_reference
  rel_to :: resource_reference
  rel_type :: string

record managed_snapshot =
  ms_observedAt :: gotime
  ms_resources :: "resource_reference list"
  ms_relationships :: "managed_relationship list"
  ms_findings :: "finding list"
  ms_warnings :: "string list"

type_synonym ('w, 'a) call = "'w \<Rightarrow> (string + 'a) \<times> 'w"

record 'w workflow_client =
  wc_Health :: "('w, unit) call"
  wc_ListFindings :: "('w, finding list) call"
  wc_GetFinding :: "string \<Rightarrow> ('w, finding) call"
  wc_ListRuns :: "('w, remediation_run list) call"
  wc_CreatePlan :: "finding \<Rightarrow> remediation_plan \<Rightarrow> string \<Rightarrow> ('w, unit) call"
  wc_DecideApproval :: "string \<Rightarrow> approval_status \<Rightarrow> string \<Rightarrow> string \<Rightarrow> ('w, approval_request) call"
  wc_RequestExecution :: "string \<Rightarrow> string \<Rightarrow> ('w, remediation_run) call"
  wc_RequestRollback :: "string \<Rightarrow> string \<Rightarrow> ('w, remediation_run) call"
  wc_GetRun :: "string \<Rightarrow> ('w, remediation_run) call"
  wc_RenderDiff :: "remediation_plan \<Rightarrow> ('w, remediation_diff) call"
  wc_SetFindingStatus :: "finding \<Rightarrow> finding_status \<Rightarrow> string \<Rightarrow> string \<Rightarrow> ('w, unit) call"
  wc_CreateException :: "exception_rec \<Rightarrow> ('w, unit) call"
  wc_DeleteException :: "string \<Rightarrow> ('w, unit) call"
  wc_ListApprovals :: "('w, approval_request list) call"

text \<open>The chaos manager shares the repository with the server.\<close>

record 'w chaos_api =
  ca_Health :: "store \<times> 'w \<Rightarrow> chaos_error option"
  ca_TargetNamespace :: "string \<Rightarrow> string + string"
  ca_Request :: "string \<Rightarrow> string \<Rightarrow> string \<Rightarrow> store \<times> 'w \<Rightarrow> (store, 'w, chaos_run) managed"
  ca_Approve :: "string \<Rightarrow> string \<Rightarrow> string \<Rightarrow> store \<times> 'w \<Rightarrow> (store, 'w, chaos_run) managed"
  ca_Reject :: "string \<Rightarrow> string \<Rightarrow> string \<Rightarrow> store \<times> 'w \<Rightarrow> (store, 'w, chaos_run) managed"
  ca_Execute :: "string \<Rightarrow> string \<Rightarrow> store \<times> 'w \<Rightarrow> (store, 'w, chaos_run) managed"
  ca_Abort :: "string \<Rightarrow> string \<Rightarrow> string \<Rightarrow> store \<times> 'w \<Rightarrow> (store, 'w, chaos_run) managed"
  ca_Get :: "string \<Rightarrow> store \<times> 'w \<Rightarrow> (store, 'w, chaos_run) managed"
  ca_List :: "store \<times> 'w \<Rightarrow> (store, 'w, chaos_run list) managed"

record 'w server =
  sv_insecureDevAuth :: bool
  sv_authenticator :: "(string \<Rightarrow> string + principal) option"
  sv_clusterID :: string
  sv_allowMemoryWorkflows :: bool
  sv_riskConfig :: risk_config
  sv_findingExpiry :: duration
  sv_providerSecretNS :: string
  sv_inspector :: "('w, cluster_snapshot) call option"
  sv_adapters :: "('w \<Rightarrow> adapter_collection \<times> 'w) option"
  sv_workflow :: "'w workflow_client option"
  sv_chaos :: "'w chaos_api option"
  sv_advisor :: "(finding \<Rightarrow> remediation_plan \<Rightarrow> ('w, ai_analysis) call) option"
  sv_managed :: "('w, managed_snapshot) call option"
  sv_autonomyMode :: string
  sv_runtimeIdentity :: string
  sv_startedAt :: gotime
  sv_secrets :: "(string \<Rightarrow> string \<Rightarrow> string \<Rightarrow> string \<Rightarrow> ('w, unit) call) option"
  sv_validSecretName :: "string \<Rightarrow> bool"
  sv_validSecretKey :: "string \<Rightarrow> bool"
  sv_mapOrder :: "string list \<Rightarrow> string list"

subsection \<open>Payloads\<close>

text \<open>The mean score of a group is the quotient of its total by its count.\<close>

record finding_group =
  fg_groupBy :: string
  fg_key :: string
  fg_count :: int
  fg_total :: int
  fg_highest :: severity
  fg_findings :: "finding list"

record finding_list =
  fl_total :: int
  fl_groups :: "finding_group list"
  fl_items :: "finding list"
  fl_nextCursor :: string

text \<open>
  The dashboard of the server extends that of the store; its mean score is the binary64 value
  \<open>m * 2 ^ q\<close>.
\<close>

record agent_status =
  as_autonomyMode :: string
  as_uptimeSeconds :: int
  as_actionsLast24H :: int
  as_runtimeIdentity :: string

record dashboard_view = dashboard +
  dv_mean :: "int \<times> int"
  dv_experiments :: "chaos_experiment list"
  dv_agent :: agent_status

record managed_list =
  ml_enabled :: bool
  ml_observedAt :: "gotime option"
  ml_resources :: "resource_reference list"
  ml_relationships :: "managed_relationship list"
  ml_findings :: "finding list"
  ml_warnings :: "string list"

datatype payload =
    PFinding finding | PFindingList finding_list | PExceptions "exception_rec list" | PException exception_rec
  | PPreview remediation_preview | PPlan remediation_plan | PDiff remediation_diff | PRun remediation_run
  | PApproval approval_request | PAudit "audit_event list" | PBundle evidence_bundle
  | PIntegrations "integration_rec list" | PIntegration integration_health | PExperiments "chaos_experiment list"
  | PChaosRun chaos_run | PChaosRuns "chaos_run list" | PProviders "model_provider list"
  | PSecret string string string string | PStatus string | PDashboard dashboard_view | PManaged managed_list | PMetrics "(string \<times> int) list" | PCatalog string "catalog_def list"

type_synonym 'w serve = "principal option \<Rightarrow> request \<Rightarrow> store \<times> 'w \<Rightarrow> payload response \<times> (store \<times> 'w)"

definition noContent :: "payload response" where
  "noContent = \<lparr>rs_status = 204, rs_headers = [], rs_body = NoBody\<rparr>"

subsection \<open>Calls\<close>

text \<open>Continue only when a check has no answer of its own.\<close>

definition unlessAnswered :: "payload response option \<Rightarrow> 's \<Rightarrow> payload response \<times> 's \<Rightarrow> payload response \<times> 's" where
  "unlessAnswered answer st continue = (case answer of Some rs \<Rightarrow> (rs, st) | None \<Rightarrow> continue)"

text \<open>A call of the repository or of the world, with the other half of the state unchanged.\<close>

definition inStore :: "(store \<Rightarrow> 'a \<times> store) \<Rightarrow> store \<times> 'w \<Rightarrow> 'a \<times> (store \<times> 'w)" where
  "inStore f st = (let (r, s) = f (fst st) in (r, (s, snd st)))"

definition inWorld :: "('w \<Rightarrow> 'a \<times> 'w) \<Rightarrow> store \<times> 'w \<Rightarrow> 'a \<times> (store \<times> 'w)" where
  "inWorld f st = (let (r, w) = f (snd st) in (r, (fst st, w)))"

lemma inStore_simps [simp]:
  "fst (inStore f st) = fst (f (fst st))" "snd (inStore f st) = (snd (f (fst st)), snd st)"
  by (simp_all add: inStore_def case_prod_unfold Let_def)

lemma inWorld_simps [simp]:
  "fst (inWorld f st) = fst (f (snd st))" "snd (inWorld f st) = (fst st, snd (f (snd st)))"
  by (simp_all add: inWorld_def case_prod_unfold Let_def)

fun storeText :: "store_error \<Rightarrow> string" where
  "storeText (ErrContext e) = e"
| "storeText ErrNotFound = ''not found''"
| "storeText (ErrInvalid e) = ''invalid request: '' @ e"
| "storeText (ErrConflict e) = ''conflict: '' @ e"

fun chaosText :: "chaos_error \<Rightarrow> string" where
  "chaosText (ChaosText e) = e"
| "chaosText (ChaosStore e) = storeText e"

text \<open>Status codes of failed store calls: handlers differ in which errors they tell apart.\<close>

definition storeStatus :: "bool \<Rightarrow> bool \<Rightarrow> bool \<Rightarrow> store_error \<Rightarrow> int" where
  "storeStatus notFound invalid conflict e =
     (case e of
        ErrNotFound \<Rightarrow> if notFound then 404 else 500
      | ErrInvalid _ \<Rightarrow> if invalid then 400 else 500
      | ErrConflict _ \<Rightarrow> if conflict then 409 else 500
      | ErrContext _ \<Rightarrow> 500)"

definition writeStoreError :: "request \<Rightarrow> chaos_error \<Rightarrow> 'p response" where
  "writeStoreError rq e =
     writeError rq (case e of ChaosStore se \<Rightarrow> storeStatus True True True se | ChaosText _ \<Rightarrow> 500) (chaosText e)"

subsection \<open>Access\<close>

definition actorFromRequest :: "principal option \<Rightarrow> string" where
  "actorFromRequest pctx = (case pctx of None \<Rightarrow> ''unknown'' | Some p \<Rightarrow> Actor p)"

text \<open>\<open>principal, _ := auth.PrincipalFromContext(...)\<close>: the zero principal when there is none.\<close>

definition principalOr :: "principal option \<Rightarrow> principal" where
  "principalOr pctx = (case pctx of None \<Rightarrow> noPrincipal | Some p \<Rightarrow> p)"

definition requireClusterAccess :: "'w server \<Rightarrow> principal option \<Rightarrow> request \<Rightarrow> payload response option" where
  "requireClusterAccess sv pctx rq =
     (case pctx of
        None \<Rightarrow> Some (writeError rq 401 ErrUnauthenticated)
      | Some p \<Rightarrow> if \<not> CanAccessCluster p (sv_clusterID sv) then Some (writeError rq 403 ErrUnauthorized) else None)"

definition resourceNamespace :: "resource_ref \<Rightarrow> string" where
  "resourceNamespace r = (if rr_kind r = ''Namespace'' then rr_name r else rr_namespace r)"

definition resourcesAllowed :: "principal \<Rightarrow> string \<Rightarrow> finding \<Rightarrow> bool" where
  "resourcesAllowed p clusterID f =
     (if f_resources f = [] then False
      else list_all (\<lambda>r. \<not> (resourceNamespace r = '''' \<or> \<not> CanAccessNamespace p clusterID (resourceNamespace r)))
        (f_resources f))"

definition findingAllowed :: "principal \<Rightarrow> string \<Rightarrow> finding \<Rightarrow> bool" where
  "findingAllowed p clusterID f = (if CanAccessCluster p clusterID then True else resourcesAllowed p clusterID f)"

definition requireFindingAccess ::
  "'w server \<Rightarrow> principal option \<Rightarrow> request \<Rightarrow> finding \<Rightarrow> payload response option" where
  "requireFindingAccess sv pctx rq f =
     (case pctx of
        None \<Rightarrow> Some (writeError rq 401 ErrUnauthenticated)
      | Some p \<Rightarrow>
          if CanAccessCluster p (sv_clusterID sv) then None
          else if f_resources f = [] then Some (writeError rq 403 ErrUnauthorized)
          else if resourcesAllowed p (sv_clusterID sv) f then None
          else Some (writeError rq 403 ErrUnauthorized))"

definition filterAuthorizedFindings :: "'w server \<Rightarrow> principal option \<Rightarrow> finding list \<Rightarrow> finding list" where
  "filterAuthorizedFindings sv pctx fs =
     (case pctx of
        None \<Rightarrow> []
      | Some p \<Rightarrow> if CanAccessCluster p (sv_clusterID sv) then fs
                 else filter (findingAllowed p (sv_clusterID sv)) fs)"

lemma requireFindingAccess_None:
  "requireFindingAccess sv pctx rq f = None \<longleftrightarrow> (\<exists>p. pctx = Some p \<and> findingAllowed p (sv_clusterID sv) f)"
  by (auto simp: requireFindingAccess_def findingAllowed_def resourcesAllowed_def split: option.splits)

lemma filterAuthorized_allowed:
  "f \<in> set (filterAuthorizedFindings sv pctx fs) \<Longrightarrow>
     f \<in> set fs \<and> (\<exists>p. pctx = Some p \<and> findingAllowed p (sv_clusterID sv) f)"
  by (auto simp: filterAuthorizedFindings_def findingAllowed_def split: option.splits if_splits)

subsection \<open>Request bodies\<close>

text \<open>A struct whose fields are all strings is the map of the fields that were set.\<close>

definition setText :: "string \<Rightarrow> json \<Rightarrow> (string, string) gomap \<Rightarrow> (string, string) gomap option" where
  "setText n v m = map_option (\<lambda>s. gput n s m) (decodeStringField v (gval m n))"

text \<open>
  \<open>rq_tooLarge\<close> says that the body reader reports \<open>MaxBytesError\<close> before the first document is
  complete.
\<close>

definition decodeWith :: "(json \<Rightarrow> 'a option) \<Rightarrow> request \<Rightarrow> payload response + 'a" where
  "decodeWith target rq =
     (if rq_method rq \<in> {''POST'', ''PUT'', ''PATCH''} \<and>
         toLower (trimSpace (hd (splitOn (CHR '';'') (rq_contentType rq)))) \<noteq> ''application/json''
      then Inl (writeError rq 415 ''Content-Type must be application/json'')
      else if rq_tooLarge rq then Inl (writeError rq 413 ''request body is too large'')
      else (case parseValue (jsonFuel (rq_body rq)) 0 (rq_body rq) of
        None \<Rightarrow> Inl (writeError rq 400 ''request body must be valid JSON matching the documented schema'')
      | Some (v, rest) \<Rightarrow>
          (case target v of
             None \<Rightarrow> Inl (writeError rq 400 ''request body must be valid JSON matching the documented schema'')
           | Some m \<Rightarrow>
               if skipSpace rest \<noteq> [] then Inl (writeError rq 400 ''request body must contain exactly one JSON document'')
               else Inr m)))"

definition decodeStrict :: "string list \<Rightarrow> request \<Rightarrow> payload response + (string, string) gomap" where
  "decodeStrict names rq = decodeWith (decodeObject names setText []) rq"

subsection \<open>The current view of a finding\<close>

definition liveSnapshot :: "'w server \<Rightarrow> store \<times> 'w \<Rightarrow> cluster_snapshot option \<times> (store \<times> 'w)" where
  "liveSnapshot sv st =
     (case sv_inspector sv of
        None \<Rightarrow> (None, st)
      | Some snapshot \<Rightarrow>
          (case inWorld snapshot st of (Inl e, st') \<Rightarrow> (None, st') | (Inr sn, st') \<Rightarrow> (Some sn, st')))"

definition findLiveFinding :: "'w server \<Rightarrow> string \<Rightarrow> store \<times> 'w \<Rightarrow> finding option \<times> (store \<times> 'w)" where
  "findLiveFinding sv i st =
     (case liveSnapshot sv st of
        (None, st') \<Rightarrow> (None, st')
      | (Some sn, st') \<Rightarrow> (find (\<lambda>f. f_id f = i) (sn_findings sn), st'))"

definition collected :: "'w server \<Rightarrow> store \<times> 'w \<Rightarrow> adapter_collection option \<times> (store \<times> 'w)" where
  "collected sv st =
     (case sv_adapters sv of
        None \<Rightarrow> (None, st)
      | Some collect \<Rightarrow> (let (c, st') = inWorld collect st in (Some c, st')))"

definition repoFinding :: "'w server \<Rightarrow> ctx_err \<Rightarrow> string \<Rightarrow> store \<times> 'w \<Rightarrow> (store_error + finding) \<times> (store \<times> 'w)" where
  "repoFinding sv ctx i st =
     (case GetFinding ctx i (fst st) of
        Inr f \<Rightarrow> (Inr f, st)
      | Inl e \<Rightarrow>
          if e \<noteq> ErrNotFound then (Inl e, st)
          else (case findLiveFinding sv i st of
             (Some f, st1) \<Rightarrow> (Inr f, st1)
           | (None, st1) \<Rightarrow>
               (case collected sv st1 of
                  (None, st2) \<Rightarrow> (Inl ErrNotFound, st2)
                | (Some c, st2) \<Rightarrow>
                    (case find (\<lambda>f. f_id f = i) (ad_findings c) of
                       Some f \<Rightarrow> (Inr f, st2) | None \<Rightarrow> (Inl ErrNotFound, st2)))))"

definition getFindingByID ::
  "'w server \<Rightarrow> ctx_err \<Rightarrow> string \<Rightarrow> store \<times> 'w \<Rightarrow> (store_error + finding) \<times> (store \<times> 'w)" where
  "getFindingByID sv ctx i st =
     (case sv_workflow sv of
        None \<Rightarrow> repoFinding sv ctx i st
      | Some wc \<Rightarrow>
          (case inWorld (wc_GetFinding wc i) st of
             (Inr f, st1) \<Rightarrow> (Inr f, st1)
           | (Inl e, st1) \<Rightarrow> repoFinding sv ctx i st1))"

text \<open>Looking a finding up never writes to the repository.\<close>

lemma inWorld_store: "inWorld f st = (r, st') \<Longrightarrow> fst st' = fst st"
  by (auto simp: inWorld_def split: prod.splits)

lemma liveSnapshot_store: "liveSnapshot sv st = (r, st') \<Longrightarrow> fst st' = fst st"
  by (auto simp: liveSnapshot_def dest!: inWorld_store split: option.splits sum.splits prod.splits)

lemma findLiveFinding_store: "findLiveFinding sv i st = (r, st') \<Longrightarrow> fst st' = fst st"
  by (auto simp: findLiveFinding_def dest!: liveSnapshot_store split: option.splits prod.splits)

lemma collected_store: "collected sv st = (r, st') \<Longrightarrow> fst st' = fst st"
  by (auto simp: collected_def dest!: inWorld_store split: option.splits prod.splits)

lemma repoFinding_store: "repoFinding sv ctx i st = (r, st') \<Longrightarrow> fst st' = fst st"
  by (auto simp: repoFinding_def dest!: findLiveFinding_store collected_store
      split: option.splits sum.splits prod.splits if_splits)

lemma getFindingByID_store: "getFindingByID sv ctx i st = (r, st') \<Longrightarrow> fst st' = fst st"
  by (auto simp: getFindingByID_def dest!: inWorld_store repoFinding_store
      split: option.splits sum.splits prod.splits)

end
