(* ===== verification/FindingsApi.thy ===== *)
theory FindingsApi
  imports ServerModel StoreFindings
begin

text \<open>
  The findings listing of the API (\<open>GET /api/findings\<close>, \<open>listFindings\<close> of
  \<open>internal/httpapi/server.go\<close>): the stored findings are merged with the live, adapter and
  workflow views, filtered by what the principal may see, correlated, written back, sorted,
  grouped and cut into pages that are chained by cursors.
\<close>

subsection \<open>Query parameters\<close>

definition queryInt :: "request \<Rightarrow> string \<Rightarrow> int \<Rightarrow> int \<Rightarrow> int \<Rightarrow> string + int" where
  "queryInt rq name fallback minimum maximum =
     (let raw = gval (rq_query rq) name in
      if raw = '''' then Inr fallback
      else (case parseInt 64 raw of
        Some v \<Rightarrow>
          if v < minimum \<or> v > maximum
          then Inl (name @ '' must be an integer between '' @ itoa minimum @ '' and '' @ itoa maximum)
          else Inr v
      | None \<Rightarrow> Inl (name @ '' must be an integer between '' @ itoa minimum @ '' and '' @ itoa maximum)))"

definition listFilter :: "request \<Rightarrow> int \<Rightarrow> finding_filter" where
  "listFilter rq minRisk =
     (let q = gval (rq_query rq) in
      \<lparr>ff_severity = q ''severity'', ff_status = q ''status'', ff_source = q ''source'', ff_query = q ''q'',
       ff_namespace = q ''namespace'', ff_kind = q ''kind'', ff_fixability = q ''fixability'', ff_minRisk = minRisk\<rparr>)"

subsection \<open>Merging the views\<close>

fun mergeObservedFinding :: "finding list \<Rightarrow> finding \<Rightarrow> finding_filter \<Rightarrow> finding list" where
  "mergeObservedFinding [] observed filt = (if matchesFilter filt observed then [observed] else [])"
| "mergeObservedFinding (f # fs) observed filt =
     (if f_id f \<noteq> f_id observed then f # mergeObservedFinding fs observed filt
      else if matchesFilter filt observed then observed # fs else fs)"

text \<open>Every observed finding is stored, whether it passes the filter or not.\<close>

definition observeAll ::
  "ctx_err \<Rightarrow> gotime \<Rightarrow> finding_filter \<Rightarrow> finding list \<Rightarrow> finding list \<Rightarrow> store \<Rightarrow> finding list \<times> store" where
  "observeAll ctx now filt observed fs s =
     (let (fs', s') = fold (\<lambda>f (acc, s). (mergeObservedFinding acc f filt, snd (SyncFinding ctx now f s))) observed (fs, s)
      in (sortSlice byRisk fs', s'))"

definition mergeLiveFindings ::
  "'w server \<Rightarrow> ctx_err \<Rightarrow> gotime \<Rightarrow> finding list \<Rightarrow> finding_filter \<Rightarrow> store \<times> 'w \<Rightarrow> finding list \<times> (store \<times> 'w)" where
  "mergeLiveFindings sv ctx now fs filt st =
     (case liveSnapshot sv st of
        (None, st') \<Rightarrow> (fs, st')
      | (Some sn, st') \<Rightarrow> inStore (observeAll ctx now filt (sn_findings sn) fs) st')"

definition mergeAdapterFindings ::
  "'w server \<Rightarrow> ctx_err \<Rightarrow> gotime \<Rightarrow> finding list \<Rightarrow> finding_filter \<Rightarrow> store \<times> 'w \<Rightarrow> finding list \<times> (store \<times> 'w)" where
  "mergeAdapterFindings sv ctx now fs filt st =
     (case collected sv st of
        (None, st') \<Rightarrow> (fs, st')
      | (Some c, st') \<Rightarrow> inStore (observeAll ctx now filt (ad_findings c) fs) st')"

definition mergeByID :: "finding_filter \<Rightarrow> finding list \<Rightarrow> finding list \<Rightarrow> (string, finding) gomap" where
  "mergeByID filt fs observed =
     fold (\<lambda>f m. if matchesFilter filt f then gput (f_id f) f m else gdel (f_id f) m) observed
       (fold (\<lambda>f m. gput (f_id f) f m) fs [])"

text \<open>
  \<open>range\<close> over a map visits its entries in an order of the runtime's choice: \<open>order\<close> arranges the keys.
\<close>

definition ranged :: "(string list \<Rightarrow> string list) \<Rightarrow> (string, 'a) gomap \<Rightarrow> 'a list" where
  "ranged order m = concat (map (\<lambda>k. case gget m k of None \<Rightarrow> [] | Some v \<Rightarrow> [v]) (order (map fst m)))"

definition mergeWorkflowFindings ::
  "'w server \<Rightarrow> ctx_err \<Rightarrow> gotime \<Rightarrow> finding list \<Rightarrow> finding_filter \<Rightarrow> store \<times> 'w \<Rightarrow> finding list \<times> (store \<times> 'w)" where
  "mergeWorkflowFindings sv ctx now fs filt st =
     (case sv_workflow sv of
        None \<Rightarrow> (fs, st)
      | Some wc \<Rightarrow>
          (case inWorld (wc_ListFindings wc) st of
             (Inl e, st') \<Rightarrow> (fs, st')
           | (Inr observed, (s, w)) \<Rightarrow>
               (sortSlice byRisk (ranged (sv_mapOrder sv) (mergeByID filt fs observed)),
                (fold (\<lambda>f s. snd (SyncFinding ctx now f s)) observed s, w))))"

subsection \<open>Sorting and grouping\<close>

fun severityOrder :: "severity \<Rightarrow> int" where
  "severityOrder SeverityCritical = 5"
| "severityOrder SeverityHigh = 4"
| "severityOrder SeverityMedium = 3"
| "severityOrder SeverityLow = 2"
| "severityOrder SeverityInfo = 1"
| "severityOrder (SeverityOther s) = 0"

definition strCompare :: "string \<Rightarrow> string \<Rightarrow> int" where
  "strCompare a b = (if a = b then 0 else if a < b then - 1 else 1)"

definition compareFindings :: "string \<Rightarrow> finding \<Rightarrow> finding \<Rightarrow> int" where
  "compareFindings field left right =
     (if field = ''risk'' then f_riskScore left - f_riskScore right
      else if field = ''updated'' then
        (if f_updatedAt left < f_updatedAt right then - 1 else if f_updatedAt left > f_updatedAt right then 1 else 0)
      else if field = ''severity'' then severityOrder (f_severity left) - severityOrder (f_severity right)
      else if field = ''title'' then strCompare (toLower (f_title left)) (toLower (f_title right))
      else if field = ''source'' then strCompare (toLower (f_source left)) (toLower (f_source right))
      else 0)"

definition lessFinding :: "string \<Rightarrow> string \<Rightarrow> finding \<Rightarrow> finding \<Rightarrow> bool" where
  "lessFinding field order left right =
     (let result = compareFindings field left right in
      if result = 0 then f_id left < f_id right
      else if order = ''asc'' then result < 0 else result > 0)"

definition sortFindings :: "finding list \<Rightarrow> string \<Rightarrow> string \<Rightarrow> string + finding list" where
  "sortFindings fs field0 order0 =
     (let field = (if field0 = '''' then ''risk'' else field0); order = (if order0 = '''' then ''desc'' else order0) in
      if order \<noteq> ''asc'' \<and> order \<noteq> ''desc'' then Inl ''order must be asc or desc''
      else if field \<notin> {''risk'', ''updated'', ''severity'', ''title'', ''source''}
      then Inl ''sort must be risk, updated, severity, title, or source''
      else Inr (sortSlice (lessFinding field order) fs))"

definition groupKey :: "finding \<Rightarrow> string \<Rightarrow> string" where
  "groupKey f groupBy =
     (case f_resources f of
        [] \<Rightarrow> ''unscoped''
      | r # _ \<Rightarrow>
          if groupBy = ''namespace'' then
            (if rr_namespace r \<noteq> '''' then rr_namespace r
             else if rr_kind r = ''Namespace'' then rr_name r else ''cluster'')
          else if groupBy = ''owner'' then
            (let part = hd (splitOn (CHR ''-'') (f_correlationGroup f)) in if part \<noteq> '''' then part else ''cluster'')
          else if groupBy = ''workload'' then
            (if rr_namespace r \<noteq> '''' then rr_namespace r @ ''/'' @ rr_name r else rr_name r)
          else ''cluster'')"

fun severityRank :: "severity \<Rightarrow> int" where
  "severityRank SeverityCritical = 5"
| "severityRank SeverityHigh = 4"
| "severityRank SeverityMedium = 3"
| "severityRank SeverityLow = 2"
| "severityRank _ = 1"

definition addToGroup :: "string \<Rightarrow> finding \<Rightarrow> (string, finding_group) gomap \<Rightarrow> (string, finding_group) gomap" where
  "addToGroup groupBy f groups =
     (let key = groupKey f groupBy;
          g = (case gget groups key of
                 Some g \<Rightarrow> g
               | None \<Rightarrow> \<lparr>fg_groupBy = groupBy, fg_key = key, fg_count = 0, fg_total = 0,
                          fg_highest = f_severity f, fg_findings = []\<rparr>)
      in gput key (g\<lparr>fg_count := fg_count g + 1, fg_total := fg_total g + f_riskScore f,
                     fg_findings := fg_findings g @ [f],
                     fg_highest := (if severityRank (f_severity f) > severityRank (fg_highest g)
                                    then f_severity f else fg_highest g)\<rparr>) groups)"

text \<open>
  Means are compared as fractions; the quotients of the source are binary64 numbers, which
  order the means of fewer than a million scores between 0 and 100 in the same way.
\<close>

definition lessGroup :: "finding_group \<Rightarrow> finding_group \<Rightarrow> bool" where
  "lessGroup a b =
     (if fg_total a * fg_count b = fg_total b * fg_count a then fg_key a < fg_key b
      else fg_total a * fg_count b > fg_total b * fg_count a)"

definition groupFindings :: "(string list \<Rightarrow> string list) \<Rightarrow> finding list \<Rightarrow> string \<Rightarrow> string + finding_group list" where
  "groupFindings mapOrder fs groupBy =
     (if groupBy \<noteq> ''workload'' \<and> groupBy \<noteq> ''namespace'' \<and> groupBy \<noteq> ''owner''
      then Inl (''unsupported groupBy '' @ quoteJson groupBy)
      else Inr (sortSlice lessGroup (ranged mapOrder (fold (addToGroup groupBy) fs []))))"

subsection \<open>Pages\<close>

fun indexAfter :: "string \<Rightarrow> finding list \<Rightarrow> nat option" where
  "indexAfter i [] = None"
| "indexAfter i (f # fs) = (if f_id f = i then Some 1 else map_option Suc (indexAfter i fs))"

definition cursorStart :: "finding list \<Rightarrow> string \<Rightarrow> string + nat" where
  "cursorStart fs encoded =
     (if encoded = '''' then Inr 0
      else (case b64Decode encoded of
        None \<Rightarrow> Inl ''cursor is invalid''
      | Some decoded \<Rightarrow>
          if decoded = '''' then Inl ''cursor is invalid''
          else (case indexAfter decoded fs of
            None \<Rightarrow> Inl ''cursor no longer identifies a finding in this result set''
          | Some k \<Rightarrow> Inr k)))"

definition pageFrom :: "finding list \<Rightarrow> int \<Rightarrow> nat \<Rightarrow> finding list \<times> string" where
  "pageFrom fs limit start =
     (let stop = min (start + nat limit) (length fs) in
      (take (stop - start) (drop start fs), if stop < length fs then b64Encode (f_id (fs ! (stop - 1))) else ''''))"

subsection \<open>The handler\<close>

definition expireStaleFindings :: "'w server \<Rightarrow> ctx_err \<Rightarrow> gotime \<Rightarrow> store \<times> 'w \<Rightarrow> store \<times> 'w" where
  "expireStaleFindings sv ctx now st =
     (if sv_findingExpiry sv \<le> 0 then st
      else snd (inStore (ExpireFindings ctx now (now - sv_findingExpiry sv)) st))"

definition effectiveConfig :: "'w server \<Rightarrow> risk_config" where
  "effectiveConfig sv = (if cf_criticalBase (sv_riskConfig sv) = 0 then DefaultConfig else sv_riskConfig sv)"

text \<open>Correlation always returns, so the second case does not occur (\<open>correlate_Some\<close>).\<close>

definition correlate :: "risk_config \<Rightarrow> finding list \<Rightarrow> finding list" where
  "correlate config fs = (case CorrelateWithConfig fs config of Some out \<Rightarrow> out | None \<Rightarrow> [])"

text \<open>The findings a listing shows, and the state with their correlation written back.\<close>

definition viewFindings ::
  "'w server \<Rightarrow> ctx_err \<Rightarrow> gotime \<Rightarrow> principal option \<Rightarrow> finding_filter \<Rightarrow> store \<times> 'w
     \<Rightarrow> (store_error + finding list) \<times> (store \<times> 'w)" where
  "viewFindings sv ctx now pctx filt st =
     (case inStore (ListFindings ctx now filt) st of
        (Inl e, st1) \<Rightarrow> (Inl e, st1)
      | (Inr fs1, st1) \<Rightarrow>
          let (fs2, st2) = mergeLiveFindings sv ctx now fs1 filt st1;
              (fs3, st3) = mergeAdapterFindings sv ctx now fs2 filt st2;
              (fs4, st4) = mergeWorkflowFindings sv ctx now fs3 filt st3;
              fs5 = correlate (effectiveConfig sv) (filterAuthorizedFindings sv pctx fs4)
          in (Inr fs5, (fold (\<lambda>f s. snd (SyncFinding ctx now f s)) fs5 (fst st4), snd st4)))"

definition renderFindings :: "(string list \<Rightarrow> string list) \<Rightarrow> request \<Rightarrow> finding list \<Rightarrow> payload response" where
  "renderFindings mapOrder rq fs0 =
     (let q = gval (rq_query rq) in
      case sortFindings fs0 (q ''sort'') (q ''order'') of
        Inl e \<Rightarrow> writeError rq 400 e
      | Inr fs \<Rightarrow>
          (case (if q ''groupBy'' \<noteq> '''' then groupFindings mapOrder fs (q ''groupBy'') else Inr []) of
             Inl e \<Rightarrow> writeError rq 400 e
           | Inr groups \<Rightarrow>
               (case queryInt rq ''limit'' 50 1 200 of
                  Inl e \<Rightarrow> writeError rq 400 e
                | Inr limit \<Rightarrow>
                    (case cursorStart fs (q ''cursor'') of
                       Inl e \<Rightarrow> writeError rq 400 e
                     | Inr start \<Rightarrow>
                         let (items, cursor) = pageFrom fs limit start in
                         writeJSON 200 (PFindingList \<lparr>fl_total = int (length fs), fl_groups = groups,
                           fl_items = items, fl_nextCursor = cursor\<rparr>)))))"

definition listFindings :: "'w server \<Rightarrow> ctx_err \<Rightarrow> gotime \<Rightarrow> 'w serve" where
  "listFindings sv ctx now pctx rq st =
     (let st0 = expireStaleFindings sv ctx now st in
      case queryInt rq ''minRisk'' 0 0 100 of
        Inl e \<Rightarrow> (writeError rq 400 e, st0)
      | Inr minRisk \<Rightarrow>
          (case viewFindings sv ctx now pctx (listFilter rq minRisk) st0 of
             (Inl e, st1) \<Rightarrow> (writeError rq 500 (storeText e), st1)
           | (Inr fs, st1) \<Rightarrow> (renderFindings (sv_mapOrder sv) rq fs, st1)))"

end
