(* ===== verification/FindingsListing.thy ===== *)
theory FindingsListing
  imports Complex_Main FindingsApi
begin

text \<open>
  Properties of the findings listing: for the findings it shows, the answer does not depend on the
  order in which they or the groups were collected from a map (\<open>sort_canonical\<close>); following the cursors
  ends and yields every finding exactly once (\<open>pages_complete\<close>); a page only shows findings the
  principal may see (\<open>listing_authorized\<close>).
\<close>

subsection \<open>The order of a listing\<close>

lemma compare_anti: "compareFindings field y x = - compareFindings field x y"
  by (auto simp: compareFindings_def strCompare_def)

lemma compare_trans: "compareFindings field x y \<le> 0 \<Longrightarrow> compareFindings field y z \<le> 0 \<Longrightarrow> compareFindings field x z \<le> 0"
  by (auto simp: compareFindings_def strCompare_def split: if_splits)

lemma compare_zero:
  assumes "compareFindings field x y \<le> 0" "compareFindings field y z \<le> 0" "compareFindings field x z = 0"
  shows "compareFindings field x y = 0 \<and> compareFindings field y z = 0"
proof -
  have "compareFindings field z x \<le> 0" using assms(3) compare_anti [of field z x] by simp
  then have "compareFindings field y x \<le> 0" "compareFindings field z y \<le> 0"
    using assms(1,2) by (blast intro: compare_trans)+
  then show ?thesis using assms(1,2) compare_anti [of field y x] compare_anti [of field z y] by simp
qed

interpretation finding_order: slice_order "lessFinding field order" for field order
proof
  fix x y assume "lessFinding field order x y"
  then show "\<not> lessFinding field order y x"
    using compare_anti [of field x y] by (auto simp: lessFinding_def Let_def split: if_splits)
next
  fix x y z assume "\<not> lessFinding field order x y" "\<not> lessFinding field order y z"
  then show "\<not> lessFinding field order x z"
    using compare_trans [of field x y z] compare_trans [of field z y x] compare_zero [of field x y z] compare_zero [of field z y x]
      compare_anti [of field x y] compare_anti [of field y z] compare_anti [of field x z]
    by (auto simp: lessFinding_def Let_def not_less split: if_splits)
qed

context slice_order
begin

lemma ordered_unique:
  assumes "ordered xs" "ordered ys" "mset xs = mset ys"
    "\<forall>x\<in>set xs. \<forall>y\<in>set xs. lt x y \<or> lt y x \<or> x = y"
  shows "xs = ys"
  using assms
proof (induction xs arbitrary: ys)
  case (Cons x xs)
  then obtain y ys' where ys: "ys = y # ys'" by (cases ys) auto
  have set: "set (x # xs) = set ys" using Cons.prems(3) by (metis set_mset_mset)
  have "x = y"
  proof (rule ccontr)
    assume "x \<noteq> y"
    then have "x \<in> set ys'" "y \<in> set xs" using set by (auto simp: ys)
    then have "\<not> lt y x" "\<not> lt x y" using Cons.prems(1,2) by (auto simp: ys)
    with \<open>x \<noteq> y\<close> \<open>y \<in> set xs\<close> Cons.prems(4) show False by auto
  qed
  with Cons ys show ?case by auto
qed simp

lemma sortSlice_unique:
  assumes "mset xs = mset ys" "\<forall>x\<in>set xs. \<forall>y\<in>set xs. lt x y \<or> lt y x \<or> x = y"
  shows "sortSlice lt xs = sortSlice lt ys"
  by (rule ordered_unique) (use assms in \<open>simp_all add: ordered_sortSlice\<close>)

end

lemma lessFinding_total:
  assumes "distinct (map f_id fs)" "f \<in> set fs" "g \<in> set fs"
  shows "lessFinding field order f g \<or> lessFinding field order g f \<or> f = g"
proof (cases "f_id f = f_id g")
  case True
  then show ?thesis using assms by (metis distinct_map inj_onD)
next
  case False
  then show ?thesis using compare_anti [of field f g]
    by (auto simp: lessFinding_def Let_def)
qed

text \<open>
  Groups are ordered by their mean; as every group counts a finding, comparing the products as
  \<open>lessGroup\<close> does is comparing the means.
\<close>

definition meanRisk :: "finding_group \<Rightarrow> rat" where
  "meanRisk g = of_int (fg_total g) / of_int (fg_count g)"

definition lessMean :: "finding_group \<Rightarrow> finding_group \<Rightarrow> bool" where
  "lessMean a b \<longleftrightarrow> (if meanRisk a = meanRisk b then fg_key a < fg_key b else meanRisk a > meanRisk b)"

interpretation mean_order: slice_order lessMean
  by standard (auto simp: lessMean_def split: if_splits)

lemma lessGroup_mean:
  assumes "0 < fg_count a" "0 < fg_count b"
  shows "lessGroup a b = lessMean a b"
proof -
  have "meanRisk a = meanRisk b \<longleftrightarrow> fg_total a * fg_count b = fg_total b * fg_count a"
    using assms by (simp add: meanRisk_def frac_eq_eq flip: of_int_mult)
  moreover have "meanRisk b < meanRisk a \<longleftrightarrow> fg_total b * fg_count a < fg_total a * fg_count b"
    using assms by (simp add: meanRisk_def pos_divide_less_eq pos_less_divide_eq mult.commute flip: of_int_mult)
  ultimately show ?thesis by (simp add: lessGroup_def lessMean_def)
qed

lemma groups_wf:
  assumes "wf_gomap m" "\<forall>(k, g)\<in>set m. fg_key g = k \<and> 0 < fg_count g"
  shows "wf_gomap (fold (addToGroup groupBy) fs m) \<and>
    (\<forall>(k, g)\<in>set (fold (addToGroup groupBy) fs m). fg_key g = k \<and> 0 < fg_count g)"
  using assms
proof (induction fs arbitrary: m)
  case (Cons f fs)
  have "wf_gomap (addToGroup groupBy f m)" using Cons.prems(1) by (simp add: addToGroup_def Let_def)
  moreover have "\<forall>(k, g)\<in>set (addToGroup groupBy f m). fg_key g = k \<and> 0 < fg_count g"
    using Cons.prems set_gput_subset
    by (fastforce simp: addToGroup_def Let_def gget_in_set split: option.splits)
  ultimately show ?case using Cons.IH by simp
qed simp

lemma mset_ranged:
  assumes "wf_gomap m" "mset (order (map fst m)) = mset (map fst m)"
  shows "mset (ranged order m) = mset (map snd m)"
proof -
  let ?entry = "\<lambda>k. case gget m k of None \<Rightarrow> [] | Some v \<Rightarrow> [v]"
  have "mset (ranged order m) = (\<Sum>k\<in>#mset (order (map fst m)). mset (?entry k))"
    by (simp add: ranged_def mset_concat comp_def flip: sum_mset_sum_list)
  also have "\<dots> = (\<Sum>k\<in>#mset (map fst m). mset (?entry k))" by (simp only: assms(2))
  also have "\<dots> = (\<Sum>x\<in>#mset m. mset (?entry (fst x)))" by (simp add: image_mset.compositionality comp_def)
  also have "\<dots> = (\<Sum>x\<in>#mset m. {#snd x#})"
    using assms(1) by (intro arg_cong [where f = sum_mset] image_mset_cong) (auto dest: gget_in_set [OF assms(1), THEN iffD2])
  finally show ?thesis by simp
qed

lemma ranged_values:
  assumes "wf_gomap m"
  shows "set (ranged order m) \<subseteq> snd ` set m"
proof
  fix v assume "v \<in> set (ranged order m)"
  then obtain k where "gget m k = Some v" by (auto simp: ranged_def split: option.splits)
  then have "(k, v) \<in> set m" using gget_in_set [OF assms] by blast
  then show "v \<in> snd ` set m" by (rule rev_image_eqI) simp
qed

lemma set_insertBy: "set (insertBy lt x xs) = insert x (set xs)"
  by (induction xs) auto

lemma sortSlice_cong:
  assumes "\<forall>x\<in>set xs. \<forall>y\<in>set xs. lt x y = lt' x y"
  shows "sortSlice lt xs = sortSlice lt' xs"
proof -
  have insert: "insertBy lt x ys = insertBy lt' x ys" if "\<forall>y\<in>set ys. lt x y = lt' x y" for x ys
    using that by (induction ys) auto
  have "fold (insertBy lt) ys acc = fold (insertBy lt') ys acc \<and> set (fold (insertBy lt') ys acc) \<subseteq> set xs"
    if "set ys \<subseteq> set xs" "set acc \<subseteq> set xs" for ys acc
    using that
  proof (induction ys arbitrary: acc)
    case (Cons y ys)
    have "insertBy lt y acc = insertBy lt' y acc" using Cons.prems assms by (intro insert) auto
    moreover have "set (insertBy lt' y acc) \<subseteq> set xs"
      using Cons.prems by (simp add: set_insertBy)
    ultimately show ?case using Cons by simp
  qed simp
  then show ?thesis by (simp add: sortSlice_def)
qed

lemma groupFindings_canonical:
  assumes "\<forall>ks. mset (order ks) = mset ks" "\<forall>ks. mset (order' ks) = mset ks"
  shows "groupFindings order fs groupBy = groupFindings order' fs groupBy"
proof -
  let ?m = "fold (addToGroup groupBy) fs []"
  have wf: "wf_gomap ?m" "\<forall>(k, g)\<in>set ?m. fg_key g = k \<and> 0 < fg_count g" using groups_wf [of "[]"] by auto
  have groups: "mset (ranged arr ?m) = mset (map snd ?m)" if "\<forall>ks. mset (arr ks) = mset ks" for arr
    using wf(1) that by (intro mset_ranged) blast+
  have "sortSlice lessGroup (ranged arr ?m) = sortSlice lessMean (map snd ?m)" if "\<forall>ks. mset (arr ks) = mset ks" for arr
  proof -
    have set: "set (ranged arr ?m) = snd ` set ?m" using groups [OF that] by (metis set_mset_mset set_map)
    have "sortSlice lessGroup (ranged arr ?m) = sortSlice lessMean (ranged arr ?m)"
    proof (rule sortSlice_cong)
      have "\<forall>g\<in>set (ranged arr ?m). 0 < fg_count g" using wf(2) by (auto simp: set)
      then show "\<forall>x\<in>set (ranged arr ?m). \<forall>y\<in>set (ranged arr ?m). lessGroup x y = lessMean x y"
        by (simp add: lessGroup_mean)
    qed
    also have "\<dots> = sortSlice lessMean (map snd ?m)"
    proof (rule mean_order.sortSlice_unique [OF groups [OF that]])
      show "\<forall>x\<in>set (ranged arr ?m). \<forall>y\<in>set (ranged arr ?m). lessMean x y \<or> lessMean y x \<or> x = y"
      proof (intro ballI)
        fix x y assume "x \<in> set (ranged arr ?m)" "y \<in> set (ranged arr ?m)"
        then have "(fg_key x, x) \<in> set ?m" "(fg_key y, y) \<in> set ?m" using wf(2) by (auto simp: set)
        then have "fg_key x = fg_key y \<Longrightarrow> x = y" using wf(1) by (metis gget_in_set option.inject)
        then have "fg_key x < fg_key y \<or> fg_key y < fg_key x \<or> x = y" by (metis linorder_less_linear)
        then show "lessMean x y \<or> lessMean y x \<or> x = y" by (auto simp: lessMean_def)
      qed
    qed
    finally show ?thesis .
  qed
  note same = this
  show ?thesis unfolding groupFindings_def same [OF assms(1)] same [OF assms(2)] ..
qed

text \<open>
  C31. The answer to a listing depends on the set of findings it shows and on the query, neither on the
  order in which these findings arrive nor on the one in which the map of the groups is iterated.
\<close>
theorem sort_canonical:
  assumes "distinct (map f_id fs)" "mset fs = mset fs'"
    and "\<forall>ks. mset (order ks) = mset ks" "\<forall>ks. mset (order' ks) = mset ks"
  shows "renderFindings order rq fs = renderFindings order' rq fs'"
proof -
  have "sortFindings fs field direction = sortFindings fs' field direction" for field direction
    using finding_order.sortSlice_unique [OF assms(2)] lessFinding_total [OF assms(1)]
    by (simp add: sortFindings_def Let_def)
  moreover have "groupFindings order = groupFindings order'"
    by (intro ext) (rule groupFindings_canonical [OF assms(3,4)])
  ultimately show ?thesis by (simp only: renderFindings_def)
qed

subsection \<open>Following the cursors\<close>

lemma indexAfter_nth: "distinct (map f_id fs) \<Longrightarrow> k < length fs \<Longrightarrow> indexAfter (f_id (fs ! k)) fs = Some (k + 1)"
  by (induction fs arbitrary: k) (auto simp: nth_Cons' split: if_splits)

text \<open>
  A client that repeats its query with the cursor of the last page, until there is none; the runtime
  iterates over maps in another order for every request.
\<close>

fun followCursors ::
  "(nat \<Rightarrow> string list \<Rightarrow> string list) \<Rightarrow> nat \<Rightarrow> request \<Rightarrow> finding list \<Rightarrow> string \<Rightarrow> finding list list option" where
  "followCursors orders 0 rq fs cursor = None"
| "followCursors orders (Suc n) rq fs cursor =
     (case rs_body (renderFindings (orders n) (rq\<lparr>rq_query := gput ''cursor'' cursor (rq_query rq)\<rparr>) fs) of
        JsonBody (PFindingList page) \<Rightarrow>
          if fl_nextCursor page = '''' then Some [fl_items page]
          else map_option ((#) (fl_items page)) (followCursors orders n rq fs (fl_nextCursor page))
      | _ \<Rightarrow> None)"

definition validQuery :: "request \<Rightarrow> finding list \<Rightarrow> finding list \<Rightarrow> int \<Rightarrow> bool" where
  "validQuery rq fs shown limit \<longleftrightarrow>
     sortFindings fs (gval (rq_query rq) ''sort'') (gval (rq_query rq) ''order'') = Inr shown \<and>
     (let groupBy = gval (rq_query rq) ''groupBy'' in groupBy \<in> {'''', ''workload'', ''namespace'', ''owner''}) \<and>
     queryInt rq ''limit'' 50 1 200 = Inr limit"

lemma queryInt_bounds: "queryInt rq name d lo hi = Inr v \<Longrightarrow> lo \<le> d \<Longrightarrow> d \<le> hi \<Longrightarrow> lo \<le> v \<and> v \<le> hi"
  by (auto simp: queryInt_def Let_def split: if_splits option.splits)

lemma sortFindings_perm: "sortFindings fs field order = Inr shown \<Longrightarrow> mset shown = mset fs"
  by (auto simp: sortFindings_def Let_def split: if_splits)

lemma gval_cursor [simp]:
  "gval (gput ''cursor'' c q) k = (if k = ''cursor'' then c else gval q k)"
  by (simp add: gval_def)

lemma render_page:
  assumes "validQuery rq fs shown limit" "cursorStart shown cursor = Inr start"
  obtains groups where "rs_body (renderFindings order (rq\<lparr>rq_query := gput ''cursor'' cursor (rq_query rq)\<rparr>) fs) =
    JsonBody (PFindingList \<lparr>fl_total = int (length shown), fl_groups = groups,
      fl_items = fst (pageFrom shown limit start), fl_nextCursor = snd (pageFrom shown limit start)\<rparr>)"
  using assms that by (auto simp: validQuery_def renderFindings_def queryInt_def groupFindings_def Let_def case_prod_unfold)

lemma follow_from:
  assumes "validQuery rq fs shown limit" "distinct (map f_id shown)" "'''' \<notin> f_id ` set shown" "1 \<le> limit"
    and "cursorStart shown cursor = Inr start" "start \<le> length shown" "length shown < start + fuel"
  shows "\<exists>pages. followCursors orders fuel rq fs cursor = Some pages \<and> concat pages = drop start shown \<and>
    (\<forall>page\<in>set pages. length page \<le> nat limit)"
  using assms(5-)
proof (induction fuel arbitrary: cursor start)
  case (Suc fuel)
  obtain groups where page: "rs_body (renderFindings (orders fuel) (rq\<lparr>rq_query := gput ''cursor'' cursor (rq_query rq)\<rparr>) fs) =
    JsonBody (PFindingList \<lparr>fl_total = int (length shown), fl_groups = groups,
      fl_items = fst (pageFrom shown limit start), fl_nextCursor = snd (pageFrom shown limit start)\<rparr>)"
    using render_page [OF assms(1) Suc.prems(1)] by blast
  show ?case
  proof (cases "start + nat limit < length shown")
    case False
    then show ?thesis using Suc.prems page by (simp add: pageFrom_def Let_def min_def)
  next
    case True
    let ?k = "start + nat limit"
    have next_page: "pageFrom shown limit start = (take (nat limit) (drop start shown), b64Encode (f_id (shown ! (?k - 1))))"
      using True by (simp add: pageFrom_def Let_def min_def)
    have "1 \<le> nat limit" using assms(4) by simp
    have k: "?k - 1 < length shown" "?k - 1 + 1 = ?k" using True assms(4) by auto
    then have id: "f_id (shown ! (?k - 1)) \<noteq> ''''" using assms(3) by (metis image_eqI nth_mem)
    have start: "cursorStart shown (b64Encode (f_id (shown ! (?k - 1)))) = Inr ?k"
      using id indexAfter_nth [OF assms(2) k(1)] k(2) by (simp add: cursorStart_def b64Decode_Encode)
    obtain pages where "followCursors orders fuel rq fs (b64Encode (f_id (shown ! (?k - 1)))) = Some pages"
      "concat pages = drop ?k shown" "\<forall>page\<in>set pages. length page \<le> nat limit"
      using Suc.IH [OF start] True Suc.prems(3) \<open>1 \<le> nat limit\<close> by auto
    moreover have "take (nat limit) (drop start shown) @ drop ?k shown = drop start shown"
      by (metis append_take_drop_id drop_drop add.commute)
    ultimately show ?thesis using id by (simp add: page next_page)
  qed
qed simp

text \<open>
  C21. Paging ends and is complete: a client that asks for the next page until there is no
  cursor needs at most one request more than there are findings, gets every finding exactly
  once and in the order of the query, and no page exceeds the limit.
\<close>
theorem pages_complete:
  assumes "validQuery rq fs shown limit" "distinct (map f_id fs)" "'''' \<notin> f_id ` set fs"
  shows "\<exists>pages. followCursors orders (length fs + 1) rq fs '''' = Some pages \<and> concat pages = shown \<and>
    (\<forall>page\<in>set pages. length page \<le> nat limit) \<and> mset shown = mset fs"
proof -
  have perm: "mset shown = mset fs" using assms(1) sortFindings_perm by (auto simp: validQuery_def)
  then have "length shown = length fs" "set shown = set fs" by (metis size_mset, metis set_mset_mset)
  moreover from perm have "distinct (map f_id shown)"
    using assms(2) by (metis mset_map mset_eq_imp_distinct_iff)
  moreover have "1 \<le> limit" using assms(1) queryInt_bounds by (auto simp: validQuery_def)
  ultimately show ?thesis
    using follow_from [OF assms(1), of "''''" 0 "length fs + 1"] assms(3) perm by (simp add: cursorStart_def)
qed

subsection \<open>What a listing shows\<close>

lemma ensureKeys_keeps [simp]:
  "f_resources (ensureKeys f) = f_resources f" "f_id (ensureKeys f) = f_id f"
  by (simp_all add: ensureKeys_def Let_def split: list.splits)

lemma correlate_Some: "CorrelateWithConfig fs config = Some (correlate config fs)"
  using CorrelateWithConfig_total [of fs config] by (auto simp: correlate_def)

lemma correlate_marks:
  "correlate config input =
     (let fs = map ensureKeys input in
      map (\<lambda>i. markFinding config fs (class_of (allLinks config fs) (length fs) i) (fs ! i)) [0..<length fs])"
  using Correlate_marks [OF refl, of input config] correlate_Some [of input config] by (simp add: Let_def)

lemma markFinding_keeps [simp]:
  "f_resources (markFinding config fs ixs f) = f_resources f" "f_id (markFinding config fs ixs f) = f_id f"
  by (simp_all add: markFinding_def Let_def)

lemma correlate_ids: "map f_id (correlate config fs) = map f_id fs"
  by (auto simp: correlate_marks Let_def intro: nth_equalityI)

lemma correlate_resources: "f \<in> set (correlate config fs) \<Longrightarrow> \<exists>g\<in>set fs. f_resources f = f_resources g"
  by (auto simp: correlate_marks Let_def)

lemma findingAllowed_resources: "f_resources f = f_resources g \<Longrightarrow> findingAllowed p c f = findingAllowed p c g"
  by (simp add: findingAllowed_def resourcesAllowed_def)

lemma addToGroup_findings:
  assumes "(k, g) \<in> set (fold (addToGroup groupBy) fs groups)" "f \<in> set (fg_findings g)" "wf_gomap groups"
  shows "f \<in> set fs \<or> (\<exists>k h. (k, h) \<in> set groups \<and> f \<in> set (fg_findings h))"
  using assms
proof (induction fs arbitrary: groups)
  case (Cons x fs)
  let ?groups = "addToGroup groupBy x groups"
  have wf: "wf_gomap ?groups" using Cons.prems(3) by (simp add: addToGroup_def Let_def)
  have "f = x \<or> (\<exists>k h. (k, h) \<in> set groups \<and> f \<in> set (fg_findings h))"
    if "(k', h) \<in> set ?groups" "f \<in> set (fg_findings h)" for k' h
    using that set_gput_subset Cons.prems(3)
    by (fastforce simp: addToGroup_def Let_def gget_in_set split: option.splits)
  with Cons.IH [OF _ Cons.prems(2) wf] Cons.prems(1) show ?case by fastforce
qed auto

lemma groupFindings_set:
  "groupFindings order fs groupBy = Inr groups \<Longrightarrow> set groups \<subseteq> snd ` set (fold (addToGroup groupBy) fs [])"
  using ranged_values [OF conjunct1 [OF groups_wf [of "[]" groupBy fs]], of order]
  by (auto simp: groupFindings_def split: if_splits)

lemma renderFindings_shows:
  assumes "rs_body (renderFindings order rq fs) = JsonBody (PFindingList page)"
  shows "set (fl_items page) \<subseteq> set fs" "g \<in> set (fl_groups page) \<Longrightarrow> set (fg_findings g) \<subseteq> set fs"
proof -
  obtain shown groups limit start where parts:
    "sortFindings fs (gval (rq_query rq) ''sort'') (gval (rq_query rq) ''order'') = Inr shown"
    "groups = [] \<or> groupFindings order shown (gval (rq_query rq) ''groupBy'') = Inr groups"
    "page = \<lparr>fl_total = int (length shown), fl_groups = groups, fl_items = fst (pageFrom shown limit start),
      fl_nextCursor = snd (pageFrom shown limit start)\<rparr>"
    using assms by (auto simp: renderFindings_def Let_def case_prod_unfold split: sum.splits if_splits)
  have shown: "set shown = set fs" using sortFindings_perm [OF parts(1)] by (metis set_mset_mset)
  then show "set (fl_items page) \<subseteq> set fs"
    using parts(3) by (auto simp: pageFrom_def Let_def dest!: in_set_takeD in_set_dropD)
  show "set (fg_findings g) \<subseteq> set fs" if "g \<in> set (fl_groups page)"
  proof
    fix f assume f: "f \<in> set (fg_findings g)"
    obtain k where k: "(k, g) \<in> set (fold (addToGroup (gval (rq_query rq) ''groupBy'')) shown [])"
    proof -
      have "g \<in> set groups" using \<open>g \<in> set (fl_groups page)\<close> parts(3) by simp
      moreover from this have "groupFindings order shown (gval (rq_query rq) ''groupBy'') = Inr groups" using parts(2) by auto
      ultimately have "g \<in> snd ` set (fold (addToGroup (gval (rq_query rq) ''groupBy'')) shown [])"
        using groupFindings_set by blast
      then show thesis using that by auto
    qed
    from addToGroup_findings [OF k f] shown show "f \<in> set fs" by simp
  qed
qed

text \<open>
  C17. A listing only shows findings that the principal may see: on a page and in its groups,
  every finding passes the access rule of the principal in the request.
\<close>
theorem listing_authorized:
  assumes "listFindings sv ctx now pctx rq st = (rs, st')" "rs_body rs = JsonBody (PFindingList page)"
    and "f \<in> set (fl_items page) \<union> (\<Union>g\<in>set (fl_groups page). set (fg_findings g))"
  shows "\<exists>p. pctx = Some p \<and> findingAllowed p (sv_clusterID sv) f"
proof -
  obtain filt st0 st1 fs where view: "viewFindings sv ctx now pctx filt st0 = (Inr fs, st1)" "rs = renderFindings (sv_mapOrder sv) rq fs"
    using assms(1,2) by (auto simp: listFindings_def Let_def writeError_def split: sum.splits prod.splits)
  obtain gs where gs: "fs = correlate (effectiveConfig sv) (filterAuthorizedFindings sv pctx gs)"
    using view(1) by (auto simp: viewFindings_def Let_def split: sum.splits prod.splits)
  have "f \<in> set fs" using renderFindings_shows [OF assms(2) [unfolded view(2)]] assms(3) by auto
  then obtain g where "g \<in> set (filterAuthorizedFindings sv pctx gs)" "f_resources f = f_resources g"
    using correlate_resources unfolding gs by blast
  then show ?thesis using filterAuthorized_allowed findingAllowed_resources by metis
qed

subsection \<open>Concrete listings\<close>

definition sample_server :: "unit server" where
  "sample_server =
     \<lparr>sv_insecureDevAuth = False, sv_authenticator = None, sv_clusterID = ''default'', sv_allowMemoryWorkflows = True,
      sv_riskConfig = DefaultConfig, sv_findingExpiry = 0, sv_providerSecretNS = ''kubeathrix'',
      sv_inspector = None, sv_adapters = None, sv_workflow = None, sv_chaos = None, sv_advisor = None, sv_managed = None,
      sv_autonomyMode = '''', sv_runtimeIdentity = '''', sv_startedAt = 0, sv_secrets = None,
      sv_validSecretName = (\<lambda>s. True), sv_validSecretKey = (\<lambda>s. True),
      sv_mapOrder = (\<lambda>ks. ks)\<rparr>"

definition sample_request :: "(string, string) gomap \<Rightarrow> request" where
  "sample_request q =
     \<lparr>rq_method = ''GET'', rq_path = ''/api/findings'', rq_query = q, rq_authorization = '''', rq_requestID = '''',
      rq_idempotencyKey = '''', rq_contentType = '''', rq_remoteAddr = '''', rq_body = '''', rq_tooLarge = False\<rparr>"

definition sample_viewer :: principal where
  "sample_viewer = \<lparr>pc_subject = ''v'', pc_displayName = '''', pc_roles = {RoleViewer}, pc_namespaces = {''shop''}, pc_clusters = {}\<rparr>"

definition sample_store :: store where
  "sample_store = NewMemoryStore [WithFindings sample_pair]"


definition sample_admin :: principal where
  "sample_admin = sample_viewer\<lparr>pc_roles := {RoleAdministrator}\<rparr>"

definition sample_left :: finding where
  "sample_left = sample_finding ''Deployment'' ''no pdb''"

definition sample_right :: finding where
  "sample_right = (sample_finding ''Deployment'' ''no probes'')\<lparr>f_id := ''f2'', f_source := ''trivy'', f_updatedAt := minute\<rparr>"

lemma sample_store_findings: "st_findings sample_store = [(''f1'', sample_left), (''f2'', sample_right)]" "st_exceptions sample_store = []"
  by (simp_all add: sample_store_def sample_pair_def sample_left_def sample_right_def NewMemoryStore_def
      WithFindings_def emptyStore_def sample_finding_def)

lemma list_store:
  assumes "st_exceptions s = []" "\<forall>(k, f)\<in>set (st_findings s). f_status f = FindingOpen"
  shows "ListFindings None now filt s = (Inr (sortSlice byRisk (filter (matchesFilter filt) (map snd (st_findings s)))), s)"
proof -
  have "gmap_vals (\<lambda>_ f. if f_status f = FindingSuppressed \<and> \<not> hasActiveException s f now then reopenFinding now f else f)
      (st_findings s) = st_findings s"
    using assms(2) by (auto simp: gmap_vals_def intro!: map_idI)
  then show ?thesis
    using assms(1) by (simp add: ListFindings_def expireExceptionsLocked_def reopenLapsed_def)
qed

lemma find_root_at: "parents ! v = v \<Longrightarrow> find_root parents v = Some (v, parents)"
  by (subst find_root.simps) simp

lemma find_root_up: "parents ! v \<noteq> v \<Longrightarrow> find_root parents v =
    Option.bind (find_root parents (parents ! v)) (\<lambda>(r, ps). Some (r, ps[v := r]))"
  by (subst find_root.simps) simp

lemma pair_correlated:
  assumes "allLinks c (map ensureKeys [f, g]) = [(1, 0)]"
  shows "correlate c [f, g] =
    (let fs = map ensureKeys [f, g] in map (markFinding c fs [0, 1]) fs)"
proof -
  have "union_all [0..<2] [(1, 0)] = Some [1, 1]"
    by (simp add: upt_rec union_roots_def find_root_at)
  moreover have "groupRoots [1, 1] [0..<2] [] = Some [(1, [0, 1])]"
    by (simp add: upt_rec find_root_at find_root_up appendTo_def)
  ultimately show ?thesis
    using assms by (simp add: correlate_def CorrelateWithConfig_def Let_def markGroup_def numeral_2_eq_2
        find_root_at find_root_up appendTo_def)
qed

lemmas score_eval = markFinding_def Let_def score_def riskFactors_def factor_def severityBase_def DefaultConfig_def
  ensureKeys_def sample_left_def sample_right_def sample_finding_def

definition markedPair :: "finding \<Rightarrow> finding" where
  "markedPair f = markFinding DefaultConfig (map ensureKeys [sample_right, sample_left]) [0, 1] (ensureKeys f)"

lemma pair_listed: "correlate DefaultConfig [sample_right, sample_left] = [markedPair sample_right, markedPair sample_left]"
  by (subst pair_correlated) (simp_all add: sample_left_def sample_right_def corr_eval upt_rec markedPair_def Let_def)

lemma markedPair_fields:
  "f_riskScore (markedPair sample_left) = 57" "f_riskScore (markedPair sample_right) = 57"
  "f_status (markedPair sample_left) = FindingOpen" "f_status (markedPair sample_right) = FindingOpen"
  "f_id (markedPair sample_left) = ''f1''" "f_id (markedPair sample_right) = ''f2''"
  "f_source (markedPair sample_left) = ''native''" "f_source (markedPair sample_right) = ''trivy''"
  "f_createdAt (markedPair sample_left) = 1" "f_createdAt (markedPair sample_right) = 1"
  by (simp_all add: markedPair_def score_eval)

lemma sample_fields:
  "f_riskScore sample_left = 50" "f_riskScore sample_right = 50" "f_updatedAt sample_left = 1" "f_updatedAt sample_right = minute"
  "f_status sample_left = FindingOpen" "f_status sample_right = FindingOpen"
  "f_createdAt sample_left = 1" "f_createdAt sample_right = 1" "f_id sample_left = ''f1''" "f_id sample_right = ''f2''"
  by (simp_all add: sample_left_def sample_right_def sample_finding_def)

theorem sort_canonical_witness:
  "renderFindings rev (sample_request [(''groupBy'', ''owner'')]) [sample_left, sample_right] =
   renderFindings (\<lambda>ks. ks) (sample_request [(''groupBy'', ''owner'')]) [sample_right, sample_left]"
  by (rule sort_canonical) (simp_all add: sample_fields)

lemma sample_query: "validQuery (sample_request [(''limit'', ''1'')]) [sample_right, sample_left] [sample_left, sample_right] 1"
proof -
  have "lessFinding ''risk'' ''desc'' sample_left sample_right" "\<not> lessFinding ''risk'' ''desc'' sample_right sample_left"
    by (simp_all add: lessFinding_def compareFindings_def sample_fields) 
  then show ?thesis
    by (simp add: validQuery_def sample_request_def gval_def sortFindings_def sortSlice_def queryInt_def parseInt_def
        digitsVal_def isDigit_def)
qed

theorem pages_complete_witness:
  "\<exists>pages. followCursors (\<lambda>_ ks. ks) 3 (sample_request [(''limit'', ''1'')]) [sample_right, sample_left] '''' = Some pages \<and>
     concat pages = [sample_left, sample_right]"
  using pages_complete [OF sample_query] by (auto simp: sample_fields numeral_3_eq_3)

lemma viewer_allowed: "findingAllowed sample_viewer ''default'' f = list_all (\<lambda>r. resourceNamespace r = ''shop'') (f_resources f)"
  if "f_resources f \<noteq> []"
  using that by (auto simp: findingAllowed_def resourcesAllowed_def CanAccessCluster_def CanAccessNamespace_def HasRole_def
      sample_viewer_def list_all_iff)

lemma sample_allowed: "findingAllowed sample_viewer ''default'' sample_left" "findingAllowed sample_viewer ''default'' sample_right"
  by (simp_all add: viewer_allowed sample_left_def sample_right_def sample_finding_def resourceNamespace_def)

lemma sample_listing:
  "\<exists>page. rs_body (fst (listFindings sample_server None minute (Some sample_viewer) (sample_request []) (sample_store, ()))) =
     JsonBody (PFindingList page) \<and> markedPair sample_left \<in> set (fl_items page)"
proof -
  have "sortSlice byRisk (filter (matchesFilter (listFilter (sample_request []) 0)) (map snd (st_findings sample_store)))
      = [sample_right, sample_left]"
    by (simp add: sample_store_findings matchesFilter_def listFilter_def sample_request_def gval_def matchesResourceFilter_def
        sortSlice_def byRisk_def sample_fields minute_def second_def)
  moreover have "filterAuthorizedFindings sample_server (Some sample_viewer) [sample_right, sample_left] = [sample_right, sample_left]"
    by (simp add: filterAuthorizedFindings_def sample_server_def sample_allowed)
  ultimately have view: "fst (viewFindings sample_server None minute (Some sample_viewer) (listFilter (sample_request []) 0) (sample_store, ())) =
      Inr [markedPair sample_right, markedPair sample_left]"
    using list_store [of sample_store minute]
    by (simp add: viewFindings_def inStore_def sample_store_findings sample_fields mergeLiveFindings_def liveSnapshot_def
        mergeAdapterFindings_def collected_def mergeWorkflowFindings_def sample_server_def effectiveConfig_def
        pair_listed [unfolded DefaultConfig_def] DefaultConfig_def Let_def)
  have "lessFinding ''risk'' ''desc'' (markedPair sample_left) (markedPair sample_right)"
    by (simp add: lessFinding_def compareFindings_def markedPair_fields)
  then have "rs_body (renderFindings (\<lambda>ks. ks) (sample_request []) [markedPair sample_right, markedPair sample_left]) =
      JsonBody (PFindingList \<lparr>fl_total = 2, fl_groups = [], fl_items = [markedPair sample_left, markedPair sample_right],
        fl_nextCursor = ''''\<rparr>)"
    by (simp add: renderFindings_def sample_request_def gval_def sortFindings_def sortSlice_def queryInt_def cursorStart_def
        pageFrom_def Let_def)
  with view show ?thesis
    by (auto simp: listFindings_def expireStaleFindings_def sample_server_def queryInt_def sample_request_def gval_def Let_def
        split: prod.splits sum.splits)
qed

theorem listing_authorized_witness:
  "\<exists>page. rs_body (fst (listFindings sample_server None minute (Some sample_viewer) (sample_request []) (sample_store, ()))) =
     JsonBody (PFindingList page) \<and> markedPair sample_left \<in> set (fl_items page) \<and>
     findingAllowed sample_viewer ''default'' (markedPair sample_left)"
proof -
  obtain page where page: "rs_body (fst (listFindings sample_server None minute (Some sample_viewer) (sample_request []) (sample_store, ()))) =
     JsonBody (PFindingList page)" "markedPair sample_left \<in> set (fl_items page)"
    using sample_listing by blast
  obtain rs st' where "listFindings sample_server None minute (Some sample_viewer) (sample_request []) (sample_store, ()) = (rs, st')"
    by (meson surj_pair)
  from listing_authorized [OF this, of page "markedPair sample_left"] page this show ?thesis
    by (auto simp: sample_server_def)
qed

end
