(* ===== verification/GoTime.thy ===== *)
theory GoTime
  imports Go_Text
begin

text \<open>
  Reading a time in the layout \<open>time.RFC3339\<close>: the strict form that \<open>time.Time\<close> accepts in
  JSON and that \<open>time.Parse\<close> accepts on every string the program has formatted itself, and the
  proof that reading a time that was formatted with its fraction gives that time
  (\<open>rfc3339Nano_roundtrip\<close>).  It is arithmetic of the standard library on which the round trip of a
  finding in \<open>WorkflowFinding\<close> rests.
\<close>

definition isLeap :: "int \<Rightarrow> bool" where
  "isLeap y \<longleftrightarrow> y mod 4 = 0 \<and> (y mod 100 \<noteq> 0 \<or> y mod 400 = 0)"

definition daysIn :: "int \<Rightarrow> int \<Rightarrow> int" where
  "daysIn m y =
     (if m = 2 then (if isLeap y then 29 else 28) else if m \<in> {4, 6, 9, 11} then 30 else 31)"

text \<open>The day count of a civil date, the inverse of \<open>civilDate\<close>.\<close>

definition civilDays :: "int \<Rightarrow> int \<Rightarrow> int \<Rightarrow> int" where
  "civilDays y m d =
     (let y' = (if m \<le> 2 then y - 1 else y); era = y' div 400; yoe = y' mod 400;
          mp = (if m > 2 then m - 3 else m + 9); doy = (153 * mp + 2) div 5 + d - 1
      in era * 146097 + (yoe * 365 + yoe div 4 - yoe div 100 + doy) - 306)"

definition parseUint :: "string \<Rightarrow> int \<Rightarrow> int \<Rightarrow> int option" where
  "parseUint s lo hi =
     (if list_all isDigit s \<and> lo \<le> digitsVal s \<and> digitsVal s \<le> hi then Some (digitsVal s) else None)"

text \<open>A fraction of a second: at most nine digits count.\<close>

definition parseNanos :: "string \<Rightarrow> int" where
  "parseNanos ds = (let n = take 9 ds in digitsVal n * 10 ^ (9 - length n))"

definition parseZone :: "string \<Rightarrow> int option" where
  "parseZone s =
     (if s = ''Z'' then Some 0
      else if length s = 6 \<and> hd s \<in> {CHR ''+'', CHR ''-''} \<and> s ! 3 = CHR '':'' then
        (case (parseUint (take 2 (drop 1 s)) 0 23, parseUint (drop 4 s) 0 59) of
           (Some h, Some m) \<Rightarrow> Some (if hd s = CHR ''-'' then - (h * 3600 + m * 60) else h * 3600 + m * 60)
         | _ \<Rightarrow> None)
      else None)"

definition parseDate :: "string \<Rightarrow> (int \<times> int \<times> int) option" where
  "parseDate s =
     (if length s = 10 \<and> s ! 4 = CHR ''-'' \<and> s ! 7 = CHR ''-'' then
        (case (parseUint (take 4 s) 0 9999, parseUint (take 2 (drop 5 s)) 1 12) of
           (Some y, Some m) \<Rightarrow>
             map_option (\<lambda>d. (y, m, d)) (parseUint (drop 8 s) 1 (daysIn m y))
         | _ \<Rightarrow> None)
      else None)"

definition parseClock :: "string \<Rightarrow> int option" where
  "parseClock s =
     (if length s = 8 \<and> s ! 2 = CHR '':'' \<and> s ! 5 = CHR '':'' then
        (case (parseUint (take 2 s) 0 23, parseUint (take 2 (drop 3 s)) 0 59, parseUint (drop 6 s) 0 59) of
           (Some h, Some m, Some sec) \<Rightarrow> Some (h * 3600 + m * 60 + sec)
         | _ \<Rightarrow> None)
      else None)"

definition parseRFC3339 :: "string \<Rightarrow> gotime option" where
  "parseRFC3339 s =
     (if length s < 20 \<or> s ! 10 \<noteq> CHR ''T'' then None
      else (case (parseDate (take 10 s), parseClock (take 8 (drop 11 s))) of
        (Some (y, m, d), Some secs) \<Rightarrow>
          (let rest = drop 19 s;
               frac = (if take 1 rest = ''.'' then takeWhile isDigit (drop 1 rest) else []);
               zone = (if frac = [] then rest else drop (1 + length frac) rest)
           in map_option (\<lambda>off. (civilDays y m d * 86400 + secs - off) * second + parseNanos frac) (parseZone zone))
      | _ \<Rightarrow> None))"


subsection \<open>The civil calendar\<close>

text \<open>Days before the year \<open>y\<close> of an era, and the year of a day of the era.\<close>

definition yearStart :: "int \<Rightarrow> int" where
  "yearStart y = 365 * y + y div 4 - y div 100 + y div 400"

definition eraYear :: "int \<Rightarrow> int" where
  "eraYear d = (d - d div 1460 + d div 36524 - d div 146096) div 365"

lemma eraYear_step:
  assumes "0 \<le> d" "d < 146096"
  shows "eraYear d \<le> eraYear (d + 1)"
proof -
  have "(d + 1) div 1460 \<le> d div 1460 + 1" by linarith
  moreover have "d div 36524 - d div 146096 \<le> (d + 1) div 36524 - (d + 1) div 146096"
  proof (cases "d = 146095")
    case False
    then have "d div 146096 = 0" "(d + 1) div 146096 = 0" using assms by auto
    moreover have "d div 36524 \<le> (d + 1) div 36524" by (intro zdiv_mono1) simp_all
    ultimately show ?thesis by simp
  qed simp
  ultimately show ?thesis unfolding eraYear_def by (intro zdiv_mono1) linarith+
qed

lemma eraYear_mono:
  assumes "a \<le> b" "0 \<le> a" "b \<le> 146096"
  shows "eraYear a \<le> eraYear b"
  using assms(1,3)
proof (induction rule: int_ge_induct)
  case (step i)
  then show ?case using eraYear_step [of i] assms(2) by linarith
qed simp

definition yearChecked :: "int \<Rightarrow> bool" where
  "yearChecked y \<longleftrightarrow> eraYear (yearStart y) = y \<and> eraYear (yearStart (y + 1) - 1) = y \<and>
     yearStart (y + 1) - yearStart y = (if isLeap (y + 1) then 366 else 365)"

lemma years_checked: "list_all yearChecked (map int [0..<400])"
  by code_simp

lemma yearChecked: "0 \<le> y \<Longrightarrow> y < 400 \<Longrightarrow> yearChecked y"
  using years_checked by (auto simp: list_all_iff dest: bspec [of _ _ "nat y"])

lemma year_exists:
  assumes "0 \<le> d" "d \<le> yearStart k - 1" "0 \<le> k"
  shows "\<exists>y. 0 \<le> y \<and> y < k \<and> yearStart y \<le> d \<and> d < yearStart (y + 1)"
  using assms(3,2)
proof (induction k rule: int_ge_induct)
  case base
  then show ?case using assms(1) by (simp add: yearStart_def)
next
  case (step i)
  show ?case
  proof (cases "d \<le> yearStart i - 1")
    case True
    then obtain y where "0 \<le> y" "y < i" "yearStart y \<le> d" "d < yearStart (y + 1)" using step.IH by blast
    then show ?thesis by (intro exI [of _ y]) simp
  next
    case False
    then show ?thesis using step.hyps step.prems by (intro exI [of _ i]) simp
  qed
qed

lemma era_day:
  assumes "0 \<le> d" "d < 146097"
  shows "0 \<le> eraYear d \<and> eraYear d < 400 \<and> yearStart (eraYear d) \<le> d \<and> d < yearStart (eraYear d + 1)"
proof -
  have "d \<le> yearStart 400 - 1" using assms(2) by (simp add: yearStart_def)
  then obtain y where y: "0 \<le> y" "y < 400" "yearStart y \<le> d" "d < yearStart (y + 1)"
    using year_exists [of d 400] assms(1) by auto
  have "0 \<le> yearStart y" "yearStart (y + 1) - 1 \<le> 146096"
  proof -
    show "0 \<le> yearStart y" using y(1) by (simp add: yearStart_def) 
    show "yearStart (y + 1) - 1 \<le> 146096"
    proof (cases "y = 399")
      case False
      then have "(y + 1) div 400 = 0" using y by auto
      then show ?thesis using y False by (simp add: yearStart_def)
    qed (simp add: yearStart_def)
  qed
  then have "y \<le> eraYear d" "eraYear d \<le> y"
    using yearChecked [OF y(1,2)] eraYear_mono [of "yearStart y" d] eraYear_mono [of d "yearStart (y + 1) - 1"] y assms
    by (simp_all add: yearChecked_def)
  then have "eraYear d = y" by simp
  then show ?thesis using y by simp
qed

text \<open>The month and the day of the month of a day of the year, which starts on 1 March.\<close>

definition monthOf :: "int \<Rightarrow> int" where
  "monthOf doy = (let mp = (5 * doy + 2) div 153 in if mp < 10 then mp + 3 else mp - 9)"

definition dayOf :: "int \<Rightarrow> int" where
  "dayOf doy = doy - (153 * ((5 * doy + 2) div 153) + 2) div 5 + 1"

definition dayChecked :: "int \<Rightarrow> bool" where
  "dayChecked doy \<longleftrightarrow>
     (let m = monthOf doy; d = dayOf doy; mp = (if m > 2 then m - 3 else m + 9)
      in 1 \<le> m \<and> m \<le> 12 \<and> 1 \<le> d \<and> d \<le> daysIn m (if doy = 365 then 0 else 1) \<and> (153 * mp + 2) div 5 + d - 1 = doy)"

lemma days_checked: "list_all dayChecked (map int [0..<366])"
  by code_simp

lemma dayChecked: "0 \<le> doy \<Longrightarrow> doy \<le> 365 \<Longrightarrow> dayChecked doy"
  using days_checked by (auto simp: list_all_iff dest: bspec [of _ _ "nat doy"])


lemma isLeap_period: "isLeap (y + 400 * k) = isLeap y"
proof -
  have "(y + 400 * k) mod 4 = y mod 4" using mod_mult_self2 [of y 4 "100 * k"] by simp
  moreover have "(y + 400 * k) mod 100 = y mod 100" using mod_mult_self2 [of y 100 "4 * k"] by simp
  ultimately show ?thesis by (simp add: isLeap_def)
qed

text \<open>The civil date of a day is a date of the calendar, and its day count is the day.\<close>

lemma civilDate_inverse:
  assumes "civilDate n = (y, m, d)"
  shows "civilDays y m d = n \<and> 1 \<le> m \<and> m \<le> 12 \<and> 1 \<le> d \<and> d \<le> daysIn m y"
proof -
  define doe where "doe = (n + 306) mod 146097"
  define era where "era = (n + 306) div 146097"
  define yoe where "yoe = eraYear doe"
  define doy where "doy = doe - (365 * yoe + yoe div 4 - yoe div 100)"
  have doe: "0 \<le> doe" "doe < 146097" by (simp_all add: doe_def)
  note yoe = era_day [OF doe, folded yoe_def]
  have y400: "yoe div 400 = 0" using yoe by simp
  then have start: "doy = doe - yearStart yoe" by (simp add: doy_def yearStart_def)
  have doy: "0 \<le> doy" "doy = doe - yearStart yoe" using yoe start by linarith+
  have len: "yearStart (yoe + 1) - yearStart yoe = (if isLeap (yoe + 1) then 366 else 365)"
    using yearChecked [of yoe] yoe by (simp add: yearChecked_def)
  then have doy365: "doy \<le> 365" "doy = 365 \<Longrightarrow> isLeap (yoe + 1)"
    using yoe doy(2) by (auto split: if_splits)
  have "(y, m, d) = (yoe + 400 * era + (if monthOf doy \<le> 2 then 1 else 0), monthOf doy, dayOf doy)"
    unfolding assms [symmetric] civilDate_def Let_def monthOf_def dayOf_def doy_def yoe_def eraYear_def doe_def era_def
    by (rule refl)
  then have eqs: "y = yoe + 400 * era + (if m \<le> 2 then 1 else 0)" "m = monthOf doy" "d = dayOf doy" by simp_all
  have checked: "1 \<le> m" "m \<le> 12" "1 \<le> d" "d \<le> daysIn m (if doy = 365 then 0 else 1)"
      "(153 * (if m > 2 then m - 3 else m + 9) + 2) div 5 + d - 1 = doy"
    using dayChecked [OF doy(1) doy365(1)] unfolding dayChecked_def Let_def eqs(2,3) [symmetric] by blast+
  have "m = 2 \<Longrightarrow> doy = 365 \<Longrightarrow> isLeap y"
    using doy365(2) isLeap_period [of "yoe + 1" era] by (simp add: eqs(1) algebra_simps)
  moreover have "\<not> isLeap 1" by (simp add: isLeap_def)
  ultimately have "daysIn m (if doy = 365 then 0 else 1) \<le> daysIn m y"
    by (auto simp: daysIn_def)
  then have valid: "d \<le> daysIn m y" using checked(4) by linarith
  have "(if m \<le> 2 then y - 1 else y) = yoe + 400 * era" by (simp add: eqs(1))
  moreover have "(yoe + 400 * era) div 400 = era" "(yoe + 400 * era) mod 400 = yoe" using yoe by simp_all
  ultimately have "civilDays y m d = era * 146097 + (yoe * 365 + yoe div 4 - yoe div 100 + doy) - 306"
    using checked(5) by (simp add: civilDays_def Let_def)
  also have "\<dots> = era * 146097 + doe - 306" by (simp add: doy_def)
  also have "\<dots> = n" using div_mult_mod_eq [of "n + 306" 146097] by (simp add: era_def doe_def)
  finally show ?thesis using checked(1-3) valid by blast
qed


subsection \<open>Formatting and reading\<close>

lemma digitsVal_append: "digitsVal (s @ [c]) = 10 * digitsVal s + (of_char c - 48)"
  by (simp add: digitsVal_def)

lemma digitsVal_zeros: "digitsVal (replicate k (CHR ''0'') @ s) = digitsVal s"
proof -
  have "foldl (\<lambda>a c. 10 * a + (of_char c - 48)) (0 :: int) (replicate k (CHR ''0'')) = 0" by (induction k) simp_all
  then show ?thesis by (simp add: digitsVal_def)
qed

lemma digitChar_digit:
  assumes "0 \<le> n" "n < 10"
  shows "isDigit (digitChar n)" "of_char (digitChar n) - 48 = n"
proof -
  have "n \<in> {0, 1, 2, 3, 4, 5, 6, 7, 8, 9}" using assms by simp presburger
  then show "isDigit (digitChar n)" "of_char (digitChar n) - 48 = n"
    by (elim insertE emptyE; simp add: digitChar_def char_of_def isDigit_def less_eq_char_def)+
qed

lemma intDigits_value: "0 \<le> n \<Longrightarrow> digitsVal (intDigits n) = n \<and> list_all isDigit (intDigits n)"
proof (induction n rule: intDigits.induct)
  case (1 n)
  show ?case
  proof (cases "n < 10")
    case True
    then show ?thesis using digitChar_digit [of n] 1(2) by (simp add: intDigits.simps [of n] digitsVal_def)
  next
    case False
    have "0 \<le> n mod 10" "n mod 10 < 10" by simp_all
    note digitChar_digit [OF this]
    moreover have "10 * (n div 10) + n mod 10 = n" by simp
    ultimately show ?thesis using False 1 by (simp add: intDigits.simps [of n] digitsVal_append)
  qed
qed

lemma intDigits_length: "n < 10 ^ Suc k \<Longrightarrow> length (intDigits n) \<le> Suc k"
proof (induction k arbitrary: n)
  case 0
  then show ?case by (simp add: intDigits.simps [of n])
next
  case (Suc k)
  show ?case
  proof (cases "n < 10")
    case False
    define p :: int where "p = 10 ^ Suc k"
    have "n < 10 * p" using Suc.prems by (simp add: p_def)
    then have "n div 10 < 10 ^ Suc k" unfolding p_def [symmetric] by presburger
    then show ?thesis using False Suc.IH by (simp add: intDigits.simps [of n])
  qed (simp add: intDigits.simps [of n])
qed

lemma parseUint_padZero:
  assumes "0 \<le> v" "v < 10 ^ Suc k" "lo \<le> v" "v \<le> hi"
  shows "parseUint (padZero (Suc k) v) lo hi = Some v" "length (padZero (Suc k) v) = Suc k"
proof -
  have "list_all isDigit (replicate j (CHR ''0''))" for j by (simp add: list_all_iff isDigit_def less_eq_char_def)
  then show "parseUint (padZero (Suc k) v) lo hi = Some v"
    using intDigits_value [OF assms(1)] assms(3,4) by (simp add: parseUint_def padZero_def digitsVal_zeros)
  show "length (padZero (Suc k) v) = Suc k"
    using intDigits_length [OF assms(2)] by (simp add: padZero_def)
qed

text \<open>A time stamp in its parts: date and clock as six numbers that its strings parse to.\<close>

definition stampParts :: "gotime \<Rightarrow> string list \<Rightarrow> bool" where
  "stampParts t ps \<longleftrightarrow>
     (\<exists>y m d h mi s. map (\<lambda>p. length p) ps = [4, 2, 2, 2, 2, 2] \<and>
        parseUint (ps ! 0) 0 9999 = Some y \<and> parseUint (ps ! 1) 1 12 = Some m \<and> parseUint (ps ! 2) 1 (daysIn m y) = Some d \<and>
        parseUint (ps ! 3) 0 23 = Some h \<and> parseUint (ps ! 4) 0 59 = Some mi \<and> parseUint (ps ! 5) 0 59 = Some s \<and>
        civilDays y m d * 86400 + (h * 3600 + mi * 60 + s) = t div second)"

definition stamp :: "string list \<Rightarrow> string" where
  "stamp ps = ps ! 0 @ ''-'' @ ps ! 1 @ ''-'' @ ps ! 2 @ ''T'' @ ps ! 3 @ '':'' @ ps ! 4 @ '':'' @ ps ! 5"

lemma length_six: "map (\<lambda>p. length p) ps = [4, 2, 2, 2, 2, 2] \<Longrightarrow>
  \<exists>y1 y2 y3 y4 m1 m2 d1 d2 h1 h2 i1 i2 s1 s2. ps = [[y1, y2, y3, y4], [m1, m2], [d1, d2], [h1, h2], [i1, i2], [s1, s2]]"
  by (auto simp: map_eq_Cons_conv numeral_eq_Suc length_Suc_conv)

lemma parse_stamp:
  assumes "stampParts t ps" "rest = ''Z'' \<or> (\<exists>ds. rest = ''.'' @ ds @ ''Z'' \<and> ds \<noteq> [] \<and> list_all isDigit ds \<and> nanos = parseNanos ds)"
    "rest = ''Z'' \<Longrightarrow> nanos = 0"
  shows "length (stamp ps) = 19 \<and> parseRFC3339 (stamp ps @ rest) = Some (t div second * second + nanos)"
proof -
  obtain y m d h mi s where parts: "map (\<lambda>p. length p) ps = [4, 2, 2, 2, 2, 2]"
      "parseUint (ps ! 0) 0 9999 = Some y" "parseUint (ps ! 1) 1 12 = Some m" "parseUint (ps ! 2) 1 (daysIn m y) = Some d"
      "parseUint (ps ! 3) 0 23 = Some h" "parseUint (ps ! 4) 0 59 = Some mi" "parseUint (ps ! 5) 0 59 = Some s"
      "civilDays y m d * 86400 + (h * 3600 + mi * 60 + s) = t div second"
    using assms(1) unfolding stampParts_def by (elim exE conjE) (rule that)
  obtain y1 y2 y3 y4 m1 m2 d1 d2 h1 h2 i1 i2 s1 s2 where
    ps: "ps = [[y1, y2, y3, y4], [m1, m2], [d1, d2], [h1, h2], [i1, i2], [s1, s2]]"
    using length_six [OF parts(1)] by blast
  have rest: "rest \<noteq> []" "(let frac = (if take 1 rest = ''.'' then takeWhile isDigit (drop 1 rest) else []);
       zone = (if frac = [] then rest else drop (1 + length frac) rest)
     in map_option (\<lambda>off. (k - off) * second + parseNanos frac) (parseZone zone)) = Some (k * second + nanos)" for k
  proof -
    have z: "\<not> isDigit (CHR ''Z'')" by (simp add: isDigit_def less_eq_char_def)
    have zero: "parseNanos [] = 0" by (simp add: parseNanos_def digitsVal_def)
    have zone: "parseZone ''Z'' = Some 0" by (simp add: parseZone_def)
    show "rest \<noteq> []" using assms(2) by auto
    show "(let frac = (if take 1 rest = ''.'' then takeWhile isDigit (drop 1 rest) else []);
       zone = (if frac = [] then rest else drop (1 + length frac) rest)
     in map_option (\<lambda>off. (k - off) * second + parseNanos frac) (parseZone zone)) = Some (k * second + nanos)"
      using assms(2)
    proof
      assume "rest = ''Z''"
      then show ?thesis using assms(3) by (simp add: zone zero)
    next
      assume "\<exists>ds. rest = ''.'' @ ds @ ''Z'' \<and> ds \<noteq> [] \<and> list_all isDigit ds \<and> nanos = parseNanos ds"
      then obtain ds where ds: "rest = ''.'' @ ds @ ''Z''" "ds \<noteq> []" "list_all isDigit ds" "nanos = parseNanos ds" by blast
      have frac: "takeWhile isDigit (ds @ ''Z'') = ds" using ds(3) z by (simp add: list_all_iff)
      have point: "take 1 rest = ''.''" "drop 1 rest = ds @ ''Z''" "drop (1 + length ds) rest = ''Z''" by (simp_all add: ds(1))
      show ?thesis unfolding point(1,2) frac if_P [OF refl] Let_def if_not_P [OF ds(2)] point(3) by (simp add: zone ds(4))
    qed
  qed
  have tail: "drop 19 (stamp ps @ rest) = rest" "take 10 (stamp ps @ rest) = [y1, y2, y3, y4, CHR ''-'', m1, m2, CHR ''-'', d1, d2]"
    "take 8 (drop 11 (stamp ps @ rest)) = [h1, h2, CHR '':'', i1, i2, CHR '':'', s1, s2]" "(stamp ps @ rest) ! 10 = CHR ''T''"
    "\<not> length (stamp ps @ rest) < 20" "length (stamp ps) = 19"
    using rest(1) by (simp_all add: stamp_def ps nth_Cons' Suc_le_eq)
  have date: "parseDate [y1, y2, y3, y4, CHR ''-'', m1, m2, CHR ''-'', d1, d2] = Some (y, m, d)"
    using parts by (simp add: parseDate_def ps nth_Cons' take_Cons' drop_Cons')
  have clock: "parseClock [h1, h2, CHR '':'', i1, i2, CHR '':'', s1, s2] = Some (h * 3600 + mi * 60 + s)"
    using parts by (simp add: parseClock_def ps nth_Cons' take_Cons' drop_Cons')
  have "parseRFC3339 (stamp ps @ rest) = Some ((civilDays y m d * 86400 + (h * 3600 + mi * 60 + s)) * second + nanos)"
    unfolding parseRFC3339_def tail date clock using tail(4,5) rest(2) by (simp add: Let_def)
  then show ?thesis using parts(8) tail(6) by simp
qed

lemma rfc3339_parts:
  assumes "fst (civilDate (t div second div 86400)) \<in> {0..9999}"
  obtains ps where "stampParts t ps" "rfc3339 t = stamp ps @ ''Z''"
proof -
  define n where "n = t div second div 86400"
  define r where "r = t div second mod 86400"
  obtain y m d where date: "civilDate n = (y, m, d)" by (cases "civilDate n")
  note inverse = civilDate_inverse [OF date]
  have y: "0 \<le> y" "y \<le> 9999" using assms date by (simp_all add: n_def)
  have days: "daysIn m y < 100" by (simp add: daysIn_def)
  have r: "0 \<le> r" "r < 86400" by (simp_all add: r_def)
  have clock: "0 \<le> r div 3600" "r div 3600 \<le> 23" "0 \<le> r mod 3600 div 60" "r mod 3600 div 60 \<le> 59" "0 \<le> r mod 60" "r mod 60 \<le> 59"
    using r by (auto simp: pos_imp_zdiv_nonneg_iff intro: order_trans [of _ "3599 div 60"])
  have two: "parseUint (padZero 2 v) lo hi = Some v \<and> length (padZero 2 v) = 2" if "0 \<le> v" "v < 100" "lo \<le> v" "v \<le> hi" for v lo hi
    using parseUint_padZero [of v 1 lo hi] that by (simp add: numeral_2_eq_2)
  have small: "parseUint (padZero 2 v) 0 hi = Some v \<and> length (padZero 2 v) = 2" if "0 \<le> v" "v \<le> hi" "hi < 100" for v hi
    using two [of v 0 hi] that by simp
  have four: "parseUint (padZero 4 y) 0 9999 = Some y" "length (padZero 4 y) = 4"
    using parseUint_padZero [of y 3 0 9999] y by (simp_all add: numeral_eq_Suc)
  have month: "parseUint (padZero 2 m) 1 12 = Some m" "length (padZero 2 m) = 2"
    using two [of m 1 12] inverse by simp_all
  have day: "parseUint (padZero 2 d) 1 (daysIn m y) = Some d" "length (padZero 2 d) = 2"
    using two [of d 1 "daysIn m y"] inverse days by simp_all
  have hours: "parseUint (padZero 2 (r div 3600)) 0 23 = Some (r div 3600)" "length (padZero 2 (r div 3600)) = 2"
    and minutes: "parseUint (padZero 2 (r mod 3600 div 60)) 0 59 = Some (r mod 3600 div 60)" "length (padZero 2 (r mod 3600 div 60)) = 2"
    and seconds: "parseUint (padZero 2 (r mod 60)) 0 59 = Some (r mod 60)" "length (padZero 2 (r mod 60)) = 2"
    using small [OF clock(1,2)] small [OF clock(3,4)] small [OF clock(5,6)] by simp_all
  have "r div 3600 * 3600 + r mod 3600 div 60 * 60 + r mod 60 = r"
  proof -
    have "r mod 3600 mod 60 = r mod 60" by (rule mod_mod_cancel) simp
    then have "r mod 3600 div 60 * 60 + r mod 60 = r mod 3600" using div_mult_mod_eq [of "r mod 3600" 60] by (simp only:)
    then show ?thesis using div_mult_mod_eq [of r 3600] by (simp only: add.assoc)
  qed
  moreover have "n * 86400 + r = t div second" by (simp add: n_def r_def)
  ultimately have total: "civilDays y m d * 86400 + (r div 3600 * 3600 + r mod 3600 div 60 * 60 + r mod 60) = t div second"
    using inverse by simp
  define ps where "ps = [padZero 4 y, padZero 2 m, padZero 2 d, padZero 2 (r div 3600), padZero 2 (r mod 3600 div 60), padZero 2 (r mod 60)]"
  have nths: "ps ! 0 = padZero 4 y" "ps ! 1 = padZero 2 m" "ps ! 2 = padZero 2 d" "ps ! 3 = padZero 2 (r div 3600)"
    "ps ! 4 = padZero 2 (r mod 3600 div 60)" "ps ! 5 = padZero 2 (r mod 60)"
    by (simp_all add: ps_def)
  have "map (\<lambda>p. length p) ps = [4, 2, 2, 2, 2, 2]"
    unfolding ps_def using four(2) month(2) day(2) hours(2) minutes(2) seconds(2) by (simp only: list.map)
  then have "stampParts t ps"
    unfolding stampParts_def nths using four(1) month(1) day(1) hours(1) minutes(1) seconds(1) total
    by (intro exI conjI) assumption+
  moreover have "rfc3339 t = stamp ps @ ''Z''"
    unfolding rfc3339_def Let_def n_def [symmetric] r_def [symmetric] date prod.case stamp_def nths by (simp only: append_assoc)
  ultimately show ?thesis by (rule that)
qed

text \<open>The layout of \<open>time.RFC3339Nano\<close>, in UTC: the fraction without its trailing zeros.\<close>

definition fraction :: "int \<Rightarrow> string" where
  "fraction nanos = rev (dropWhile (\<lambda>c. c = CHR ''0'') (rev (padZero 9 nanos)))"

definition rfc3339Nano :: "gotime \<Rightarrow> string" where
  "rfc3339Nano t =
     (let nanos = t mod second; whole = take 19 (rfc3339 t)
      in if nanos = 0 then whole @ ''Z'' else whole @ ''.'' @ fraction nanos @ ''Z'')"

lemma digitsVal_shift: "digitsVal (s @ replicate k (CHR ''0'')) = digitsVal s * 10 ^ k"
proof (induction k)
  case (Suc k)
  have snoc: "s @ replicate (Suc k) (CHR ''0'') = (s @ replicate k (CHR ''0'')) @ [CHR ''0'']"
    by (simp add: replicate_append_same)
  show ?case unfolding snoc digitsVal_append using Suc by simp
qed simp

lemma takeWhile_constant: "takeWhile (\<lambda>c. c = x) xs = replicate (length (takeWhile (\<lambda>c. c = x) xs)) x"
  by (induction xs) auto

lemma fraction_value:
  assumes "0 < n" "n < second"
  shows "fraction n \<noteq> [] \<and> list_all isDigit (fraction n) \<and> parseNanos (fraction n) = n"
proof -
  define s where "s = padZero 9 n"
  have p: "parseUint s 0 n = Some n" "length s = 9"
    using parseUint_padZero [of n 8 0 n] assms by (simp_all add: s_def second_def numeral_eq_Suc)
  then have digits: "list_all isDigit s" and val_s: "digitsVal s = n" by (auto simp: parseUint_def split: if_splits)
  have "rev s = takeWhile (\<lambda>c. c = CHR ''0'') (rev s) @ dropWhile (\<lambda>c. c = CHR ''0'') (rev s)" by simp
  moreover have "takeWhile (\<lambda>c. c = CHR ''0'') (rev s) = replicate k (CHR ''0'')" if "k = length (takeWhile (\<lambda>c. c = CHR ''0'') (rev s))" for k
    unfolding that by (rule takeWhile_constant)
  ultimately obtain k where "rev s = replicate k (CHR ''0'') @ dropWhile (\<lambda>c. c = CHR ''0'') (rev s)" by metis
  then have split: "s = fraction n @ replicate k (CHR ''0'')" unfolding fraction_def s_def by (metis rev_append rev_replicate rev_rev_ident)
  then have len: "length (fraction n) + k = 9" using p(2) by (metis length_append length_replicate)
  have val: "digitsVal (fraction n) * 10 ^ k = n" using val_s split digitsVal_shift by metis
  have "fraction n \<noteq> []"
  proof
    assume "fraction n = []"
    then show False using val assms(1) by (simp add: digitsVal_def)
  qed
  moreover have "list_all isDigit (fraction n)" using digits split by (metis list_all_append)
  moreover have "parseNanos (fraction n) = n"
  proof -
    have "9 - length (fraction n) = k" "take 9 (fraction n) = fraction n" using len by simp_all
    then show ?thesis using val by (simp add: parseNanos_def Let_def)
  qed
  ultimately show ?thesis by blast
qed

text \<open>With the fraction, reading gives the very time back.\<close>

theorem rfc3339Nano_roundtrip:
  assumes "fst (civilDate (t div second div 86400)) \<in> {0..9999}"
  shows "parseRFC3339 (rfc3339Nano t) = Some t"
proof -
  obtain ps where ps: "stampParts t ps" "rfc3339 t = stamp ps @ ''Z''" using rfc3339_parts [OF assms] .
  then have "length (stamp ps) = 19" using parse_stamp [of t ps "''Z''" 0] by simp
  then have whole: "take 19 (rfc3339 t) = stamp ps" using ps(2) by simp
  have t: "t div second * second + t mod second = t" by simp
  show ?thesis
  proof (cases "t mod second = 0")
    case True
    then show ?thesis using parse_stamp [OF ps(1), of "''Z''" 0] t by (simp add: rfc3339Nano_def whole)
  next
    case False
    have "0 \<le> t mod second" "t mod second < second" by (simp_all add: second_def)
    then have "0 < t mod second" "t mod second < second" using False by simp_all
    note f = fraction_value [OF this]
    have "parseRFC3339 (stamp ps @ ''.'' @ fraction (t mod second) @ ''Z'') = Some (t div second * second + t mod second)"
      by (rule conjunct2 [OF parse_stamp [OF ps(1)]]) (use f in auto)
    then show ?thesis using False t by (simp add: rfc3339Nano_def whole Let_def)
  qed
qed

end
