(* ===== verification/HttpServer.thy ===== *)
theory HttpServer
  imports FindingsApi GoTime
begin

text \<open>
  Handlers of \<open>internal/httpapi/server.go\<close>: findings, exceptions, remediation plans, runs and
  approvals.  The findings listing is in \<open>FindingsApi\<close>, the handlers for audit events, evidence,
  integrations, chaos experiments and model providers in \<open>HttpOperations\<close>, the dashboard, the
  managed resources and the catalogue in \<open>HttpDashboard\<close>, the route table in \<open>HttpRoutes\<close>.
\<close>

subsection \<open>Health and findings\<close>

definition liveness :: "'w serve" where
  "liveness pctx rq st = (writeJSON 200 (PStatus ''alive''), st)"

definition authConfig :: "'w server \<Rightarrow> 'w serve" where
  "authConfig sv pctx rq st =
     (writeJSON 200 (PStatus (if sv_insecureDevAuth sv then ''development'' else ''oidc'')), st)"

definition readiness :: "'w server \<Rightarrow> ctx_err \<Rightarrow> 'w serve" where
  "readiness sv ctx pctx rq st =
     (if Health ctx \<noteq> None then (writeError rq 503 ''repository is not ready'', st)
      else if \<not> sv_insecureDevAuth sv \<and> sv_authenticator sv = None
      then (writeError rq 503 ''authentication is not configured'', st)
      else if sv_workflow sv = None \<and> \<not> sv_allowMemoryWorkflows sv
      then (writeError rq 503 ''Kubernetes workflow client is not configured'', st)
      else if (case sv_chaos sv of None \<Rightarrow> False | Some ca \<Rightarrow> ca_Health ca st \<noteq> None)
      then (writeError rq 503 ''chaos execution dependency is not ready'', st)
      else (case sv_workflow sv of
        None \<Rightarrow> (writeJSON 200 (PStatus ''ready''), st)
      | Some wc \<Rightarrow>
          (case inWorld (wc_Health wc) st of
             (Inl e, st1) \<Rightarrow> (writeError rq 503 ''Kubernetes workflow API is not ready'', st1)
           | (Inr _, st1) \<Rightarrow> (writeJSON 200 (PStatus ''ready''), st1))))"

definition health :: "ctx_err \<Rightarrow> 'w serve" where
  "health ctx pctx rq st =
     (case Health ctx of
        Some e \<Rightarrow> (writeError rq 503 (storeText e), st)
      | None \<Rightarrow> (writeJSON 200 (PStatus ''ok''), st))"

definition getFinding :: "'w server \<Rightarrow> ctx_err \<Rightarrow> string \<Rightarrow> 'w serve" where
  "getFinding sv ctx i pctx rq st =
     (case getFindingByID sv ctx i st of
        (Inl e, st1) \<Rightarrow> (writeError rq (storeStatus True False False e) (storeText e), st1)
      | (Inr f, st1) \<Rightarrow>
          unlessAnswered (requireFindingAccess sv pctx rq f) st1 (writeJSON 200 (PFinding f), st1))"

definition findingStatusOf :: "string \<Rightarrow> finding_status" where
  "findingStatusOf s =
     (if s = ''open'' then FindingOpen else if s = ''in_review'' then FindingInReview
      else if s = ''remediating'' then FindingRemediating else if s = ''resolved'' then FindingResolved
      else if s = ''suppressed'' then FindingSuppressed else if s = ''expired'' then FindingExpired
      else FindingOther s)"

definition updateFindingStatus :: "'w server \<Rightarrow> ctx_err \<Rightarrow> gotime \<Rightarrow> string \<Rightarrow> 'w serve" where
  "updateFindingStatus sv ctx now i pctx rq st =
     (case decodeStrict [''status'', ''reason''] rq of
        Inl rs \<Rightarrow> (rs, st)
      | Inr m \<Rightarrow>
          (case getFindingByID sv ctx i st of
             (Inl e, st1) \<Rightarrow> (writeError rq 404 (storeText ErrNotFound), st1)
           | (Inr f, st1) \<Rightarrow>
               unlessAnswered (requireFindingAccess sv pctx rq f) st1
                 (let actor = actorFromRequest pctx; reason = trimSpace (gval m ''reason'');
                      status = findingStatusOf (gval m ''status'');
                      persisted = (case sv_workflow sv of
                        None \<Rightarrow> (Inr (), st1)
                      | Some wc \<Rightarrow> inWorld (wc_SetFindingStatus wc f status actor reason) st1)
                  in case persisted of
                       (Inl e, st2) \<Rightarrow>
                         (writeError rq 503 ''finding lifecycle state could not be persisted to Kubernetes'', st2)
                     | (Inr _, st2) \<Rightarrow>
                         (case inStore (UpdateFindingStatus ctx now (f_id f) status actor reason) st2 of
                            (Inl e, st3) \<Rightarrow> (writeError rq (storeStatus False True True e) (storeText e), st3)
                          | (Inr updated, st3) \<Rightarrow> (writeJSON 200 (PFinding updated), st3)))))"

subsection \<open>Exceptions\<close>

text \<open>The loop that keeps the exceptions whose finding the principal may see.\<close>

fun visibleExceptions ::
  "'w server \<Rightarrow> ctx_err \<Rightarrow> principal \<Rightarrow> exception_rec list \<Rightarrow> store \<times> 'w \<Rightarrow> exception_rec list \<times> (store \<times> 'w)" where
  "visibleExceptions sv ctx p [] st = ([], st)"
| "visibleExceptions sv ctx p (x # xs) st =
     (let (r, st1) = getFindingByID sv ctx (x_scope x) st;
          (rest, st2) = visibleExceptions sv ctx p xs st1
      in ((case r of Inr f \<Rightarrow> if findingAllowed p (sv_clusterID sv) f then x # rest else rest | Inl e \<Rightarrow> rest), st2))"

definition listExceptions :: "'w server \<Rightarrow> ctx_err \<Rightarrow> gotime \<Rightarrow> 'w serve" where
  "listExceptions sv ctx now pctx rq st =
     (case inStore (ListExceptions ctx now) st of
        (Inl e, st1) \<Rightarrow> (writeError rq 500 (storeText e), st1)
      | (Inr items, st1) \<Rightarrow>
          if CanAccessCluster (principalOr pctx) (sv_clusterID sv) then (writeJSON 200 (PExceptions items), st1)
          else (let (kept, st2) = visibleExceptions sv ctx (principalOr pctx) items st1
                in (writeJSON 200 (PExceptions kept), st2)))"

definition exceptionAccess ::
  "'w server \<Rightarrow> ctx_err \<Rightarrow> principal option \<Rightarrow> request \<Rightarrow> string \<Rightarrow> store \<times> 'w \<Rightarrow> payload response option \<times> (store \<times> 'w)" where
  "exceptionAccess sv ctx pctx rq scope st =
     (case getFindingByID sv ctx scope st of
        (Inr f, st1) \<Rightarrow> (requireFindingAccess sv pctx rq f, st1)
      | (Inl e, st1) \<Rightarrow> (requireClusterAccess sv pctx rq, st1))"

text \<open>
  The body has a time as its third field.  (A time written with escape sequences, which
  \<open>encoding/json\<close> refuses, is not told from the same time without them.)
\<close>

definition setExceptionField ::
  "string \<Rightarrow> json \<Rightarrow> (string, string) gomap \<times> gotime \<Rightarrow> ((string, string) gomap \<times> gotime) option" where
  "setExceptionField n v s =
     (if n = ''expiresAt'' then
        (case v of JNull \<Rightarrow> Some s | JStr t \<Rightarrow> map_option (\<lambda>at. (fst s, at)) (parseRFC3339 t) | _ \<Rightarrow> None)
      else map_option (\<lambda>m. (m, snd s)) (setText n v (fst s)))"

definition decodeException :: "request \<Rightarrow> payload response + (string, string) gomap \<times> gotime" where
  "decodeException rq = decodeWith (decodeObject [''scope'', ''reason'', ''expiresAt''] setExceptionField ([], 0)) rq"

definition createException :: "'w server \<Rightarrow> ctx_err \<Rightarrow> gotime \<Rightarrow> 'w serve" where
  "createException sv ctx now pctx rq st =
     (case decodeException rq of
        Inl rs \<Rightarrow> (rs, st)
      | Inr (m, expiresAt) \<Rightarrow>
          (let scope = trimSpace (gval m ''scope''); reason = trimSpace (gval m ''reason''); (answer, st1) = exceptionAccess sv ctx pctx rq scope st in
           unlessAnswered answer st1
             (case inStore (CreateException ctx now
                 \<lparr>x_id = '''', x_scope = scope, x_owner = '''', x_reason = reason, x_expiresAt = expiresAt,
                  x_auditMetadata = '''', x_status = '''', x_createdAt = 0, x_updatedAt = 0\<rparr> (actorFromRequest pctx)) st1 of
                (Inl e, st2) \<Rightarrow> (writeError rq (storeStatus False True False e) (storeText e), st2)
              | (Inr x, st2) \<Rightarrow>
                  (case sv_workflow sv of
                     None \<Rightarrow> (writeJSON 201 (PException x), st2)
                   | Some wc \<Rightarrow>
                       (case inWorld (wc_CreateException wc x) st2 of
                          (Inr _, st3) \<Rightarrow> (writeJSON 201 (PException x), st3)
                        | (Inl e, st3) \<Rightarrow>
                            (writeError rq 503 ''exception could not be persisted to Kubernetes workflow state'',
                             snd (inStore (DeleteException ctx now (x_id x) (actorFromRequest pctx)) st3)))))))"

definition deleteException :: "'w server \<Rightarrow> ctx_err \<Rightarrow> gotime \<Rightarrow> string \<Rightarrow> 'w serve" where
  "deleteException sv ctx now i pctx rq st =
     (case inStore (ListExceptions ctx now) st of
        (Inl e, st1) \<Rightarrow> (writeError rq 500 (storeText e), st1)
      | (Inr items, st1) \<Rightarrow>
          (case find (\<lambda>x. x_id x = i) items of
             None \<Rightarrow> (writeError rq 404 (storeText ErrNotFound), st1)
           | Some x \<Rightarrow>
               (let (answer, st2) = exceptionAccess sv ctx pctx rq (x_scope x) st1 in
                unlessAnswered answer st2
                  (let deleted = (case sv_workflow sv of None \<Rightarrow> (Inr (), st2) | Some wc \<Rightarrow> inWorld (wc_DeleteException wc (x_id x)) st2)
                   in case deleted of
                        (Inl e, st3) \<Rightarrow> (writeError rq 503 ''exception could not be deleted from Kubernetes workflow state'', st3)
                      | (Inr _, st3) \<Rightarrow>
                          (case inStore (DeleteException ctx now (x_id x) (actorFromRequest pctx)) st3 of
                             (Inl e, st4) \<Rightarrow> (writeError rq 500 (storeText e), st4)
                           | (Inr _, st4) \<Rightarrow> (noContent, st4))))))"

subsection \<open>Plans\<close>

definition enrichPlanWithAI ::
  "'w server \<Rightarrow> finding \<Rightarrow> remediation_plan \<Rightarrow> store \<times> 'w \<Rightarrow> remediation_plan \<times> (store \<times> 'w)" where
  "enrichPlanWithAI sv f plan st =
     (case sv_advisor sv of
        None \<Rightarrow> (plan, st)
      | Some analyze \<Rightarrow>
          if p_ai plan \<noteq> None then (plan, st)
          else (case inWorld (analyze f plan) st of
            (Inl e, st1) \<Rightarrow> (plan, st1)
          | (Inr analysis, st1) \<Rightarrow> (plan\<lparr>p_ai := Some analysis\<rparr>, st1)))"

definition previewOf :: "ctx_err \<Rightarrow> gotime \<Rightarrow> finding \<Rightarrow> string \<Rightarrow> string \<Rightarrow> store \<Rightarrow> store_error + remediation_preview" where
  "previewOf ctx now f findingID requester s =
     (case PreviewRemediationPlan ctx now findingID requester s of
        Inl ErrNotFound \<Rightarrow>
          Inr (buildRemediationPreview f ((buildRemediationPlan f requester now 0)\<lparr>p_id := ''preview-'' @ f_id f\<rparr>) now)
      | r \<Rightarrow> r)"

definition previewRemediationPlan :: "'w server \<Rightarrow> ctx_err \<Rightarrow> gotime \<Rightarrow> 'w serve" where
  "previewRemediationPlan sv ctx now pctx rq st =
     (case decodeStrict [''findingId''] rq of
        Inl rs \<Rightarrow> (rs, st)
      | Inr m \<Rightarrow>
          if gval m ''findingId'' = '''' then (writeError rq 400 ''findingId is required'', st)
          else (case getFindingByID sv ctx (gval m ''findingId'') st of
            (Inl e, st1) \<Rightarrow> (writeError rq (storeStatus True False False e) (storeText e), st1)
          | (Inr f, st1) \<Rightarrow>
              unlessAnswered (requireFindingAccess sv pctx rq f) st1
                (case previewOf ctx now f (gval m ''findingId'') (actorFromRequest pctx) (fst st1) of
                   Inl e \<Rightarrow> (writeError rq (storeStatus True False False e) (storeText e), st1)
                 | Inr preview \<Rightarrow>
                     (let (candidate, st2) = enrichPlanWithAI sv f (pv_candidate preview) st1
                      in (writeJSON 200 (PPreview (preview\<lparr>pv_candidate := candidate, pv_ai := p_ai candidate\<rparr>)), st2)))))"

definition persistPlan :: "'w server \<Rightarrow> principal option \<Rightarrow> request \<Rightarrow> finding \<Rightarrow> remediation_plan \<Rightarrow> store \<times> 'w \<Rightarrow> payload response \<times> (store \<times> 'w)" where
  "persistPlan sv pctx rq f plan st =
     (case sv_workflow sv of
        None \<Rightarrow>
          if \<not> sv_allowMemoryWorkflows sv then (writeError rq 503 ''Kubernetes workflow persistence is required'', st)
          else (writeJSON 201 (PPlan plan), st)
      | Some wc \<Rightarrow>
          (case inWorld (wc_CreatePlan wc f plan (actorFromRequest pctx)) st of
             (Inl e, st1) \<Rightarrow> (writeError rq 503 ''Kubernetes workflow persistence failed'', st1)
           | (Inr _, st1) \<Rightarrow> (writeJSON 201 (PPlan plan), st1)))"

text \<open>A header set before the answer is written is part of every answer that follows.\<close>

definition withHeader :: "string \<Rightarrow> string \<Rightarrow> 'p response \<times> 's \<Rightarrow> 'p response \<times> 's" where
  "withHeader k v r = (setHeader k v (fst r), snd r)"

lemma withHeader_simps [simp]:
  "rs_status (fst (withHeader k v r)) = rs_status (fst r)" "rs_body (fst (withHeader k v r)) = rs_body (fst r)"
  "snd (withHeader k v r) = snd r"
  by (simp_all add: withHeader_def)

definition createRemediationPlan :: "'w server \<Rightarrow> ctx_err \<Rightarrow> gotime \<Rightarrow> 'w serve" where
  "createRemediationPlan sv ctx now pctx rq st =
     (case decodeStrict [''findingId''] rq of
        Inl rs \<Rightarrow> (rs, st)
      | Inr m \<Rightarrow>
          (let key = trimSpace (rq_idempotencyKey rq) in
           if gval m ''findingId'' = '''' then (writeError rq 400 ''findingId is required'', st)
           else if \<not> validRequestID key
           then (writeError rq 400 ''Idempotency-Key is required and must contain 8 to 128 URL-safe characters'', st)
           else withHeader ''Idempotency-Key'' key (case getFindingByID sv ctx (gval m ''findingId'') st of
             (Inl e, st1) \<Rightarrow> (writeError rq (storeStatus True False False e) (storeText e), st1)
           | (Inr f, st1) \<Rightarrow>
               unlessAnswered (requireFindingAccess sv pctx rq f) st1
                 (case inStore (CreateRemediationPlanFromFinding ctx now f (actorFromRequest pctx) [key]) st1 of
                    (Inl e, st2) \<Rightarrow> (writeError rq (storeStatus True False True e) (storeText e), st2)
                  | (Inr plan0, st2) \<Rightarrow>
                      (let (plan, st3) = enrichPlanWithAI sv f plan0 st2;
                           synced = (if p_ai plan \<noteq> None then inStore (SyncRemediationPlan ctx plan) st3 else (Inr (), st3))
                       in case synced of
                            (Inl e, st4) \<Rightarrow> (writeError rq 500 (storeText e), st4)
                          | (Inr _, st4) \<Rightarrow> persistPlan sv pctx rq f plan st4)))))"

definition requirePlanAccess ::
  "'w server \<Rightarrow> ctx_err \<Rightarrow> principal option \<Rightarrow> request \<Rightarrow> string \<Rightarrow> store \<times> 'w \<Rightarrow> payload response option \<times> (store \<times> 'w)" where
  "requirePlanAccess sv ctx pctx rq planID st =
     (case GetRemediationPlan ctx planID (fst st) of
        Inl e \<Rightarrow> (Some (writeError rq (storeStatus True False False e) (storeText e)), st)
      | Inr plan \<Rightarrow>
          (case getFindingByID sv ctx (p_findingID plan) st of
             (Inl e, st1) \<Rightarrow> (Some (writeError rq (storeStatus True False False e) (storeText e)), st1)
           | (Inr f, st1) \<Rightarrow> (requireFindingAccess sv pctx rq f, st1)))"

definition getRemediationPlanDiff :: "'w server \<Rightarrow> ctx_err \<Rightarrow> string \<Rightarrow> 'w serve" where
  "getRemediationPlanDiff sv ctx i pctx rq st =
     (let (answer, st1) = requirePlanAccess sv ctx pctx rq i st in
      unlessAnswered answer st1
        (case GetRemediationPlan ctx i (fst st1) of
           Inl e \<Rightarrow> (writeError rq 404 (storeText ErrNotFound), st1)
         | Inr plan \<Rightarrow>
             (case sv_workflow sv of
                Some wc \<Rightarrow>
                  (case inWorld (wc_RenderDiff wc plan) st1 of
                     (Inl e, st2) \<Rightarrow> (writeError rq 500 e, st2)
                   | (Inr d, st2) \<Rightarrow> (writeJSON 200 (PDiff d), st2))
              | None \<Rightarrow>
                  (case GetRemediationPlanDiff ctx i (fst st1) of
                     Inl e \<Rightarrow> (writeError rq (storeStatus True False False e) (storeText e), st1)
                   | Inr d \<Rightarrow> (writeJSON 200 (PDiff d), st1)))))"

subsection \<open>Execution, runs and approvals\<close>

definition executeRemediationPlan :: "'w server \<Rightarrow> ctx_err \<Rightarrow> gotime \<Rightarrow> string \<Rightarrow> 'w serve" where
  "executeRemediationPlan sv ctx now i pctx rq st =
     (case decodeStrict [] rq of
        Inl rs \<Rightarrow> (rs, st)
      | Inr m \<Rightarrow>
          (let (answer, st1) = requirePlanAccess sv ctx pctx rq i st in
           unlessAnswered answer st1
             (if sv_workflow sv = None \<and> \<not> sv_allowMemoryWorkflows sv
              then (writeError rq 503 ''Kubernetes workflow persistence is required'', st1)
              else (let requested = (case sv_workflow sv of
                          None \<Rightarrow> (Inr None, st1)
                        | Some wc \<Rightarrow>
                            (case inWorld (wc_RequestExecution wc i (actorFromRequest pctx)) st1 of
                               (Inl e, st2) \<Rightarrow> (Inl e, st2) | (Inr run, st2) \<Rightarrow> (Inr (Some run), st2)))
                    in case requested of
                         (Inl e, st2) \<Rightarrow> (writeError rq 409 ''execution request was rejected by Kubernetes workflow state'', st2)
                       | (Inr clusterRun, st2) \<Rightarrow>
                           (case inStore (ExecuteRemediationPlan ctx now i (actorFromRequest pctx)) st2 of
                              (Inl e, st3) \<Rightarrow> (writeError rq (storeStatus True True False e) (storeText e), st3)
                            | (Inr run, st3) \<Rightarrow>
                                (writeJSON 202 (PRun (case clusterRun of None \<Rightarrow> run | Some r \<Rightarrow> r)), st3))))))"

definition storedRun :: "'w server \<Rightarrow> ctx_err \<Rightarrow> string \<Rightarrow> 'w serve" where
  "storedRun sv ctx i pctx rq st =
     (case GetRemediationRun ctx i (fst st) of
        Inl e \<Rightarrow> (writeError rq (storeStatus True False False e) (storeText e), st)
      | Inr run \<Rightarrow>
          (let (answer, st1) = requirePlanAccess sv ctx pctx rq (r_planID run) st
           in unlessAnswered answer st1 (writeJSON 200 (PRun run), st1)))"

definition getRemediationRun :: "'w server \<Rightarrow> ctx_err \<Rightarrow> string \<Rightarrow> 'w serve" where
  "getRemediationRun sv ctx i pctx rq st =
     (case sv_workflow sv of
        None \<Rightarrow> storedRun sv ctx i pctx rq st
      | Some wc \<Rightarrow>
          (case inWorld (wc_GetRun wc i) st of
             (Inl e, st1) \<Rightarrow> storedRun sv ctx i pctx rq st1
           | (Inr run, st1) \<Rightarrow>
               (let (answer, st2) = requirePlanAccess sv ctx pctx rq (r_planID run) st1
                in unlessAnswered answer st2
                     (writeJSON 200 (PRun run), snd (inStore (SyncRemediationRun ctx run) st2)))))"

definition rollbackRemediationRun :: "'w server \<Rightarrow> ctx_err \<Rightarrow> gotime \<Rightarrow> string \<Rightarrow> 'w serve" where
  "rollbackRemediationRun sv ctx now i pctx rq st =
     (case decodeStrict [] rq of
        Inl rs \<Rightarrow> (rs, st)
      | Inr m \<Rightarrow>
          (case sv_workflow sv of
             None \<Rightarrow> (writeError rq 503 ''rollback requires Kubernetes workflow state'', st)
           | Some wc \<Rightarrow>
               (case inWorld (wc_GetRun wc i) st of
                  (Inl e, st1) \<Rightarrow> (writeError rq 404 (storeText ErrNotFound), st1)
                | (Inr current, st1) \<Rightarrow>
                    (let (answer, st2) = requirePlanAccess sv ctx pctx rq (r_planID current) st1
                     in unlessAnswered answer st2
                          (case inWorld (wc_RequestRollback wc i (actorFromRequest pctx)) st2 of
                             (Inl e, st3) \<Rightarrow>
                               (writeError rq 409 ''run is not eligible for rollback or has no controller snapshot'', st3)
                           | (Inr run, st3) \<Rightarrow>
                               (case inStore (RequestRollback ctx now i (actorFromRequest pctx)) st3 of
                                  (Inl e, st4) \<Rightarrow> (writeError rq 500 (storeText e), st4)
                                | (Inr _, st4) \<Rightarrow> (writeJSON 202 (PRun run), st4)))))))"

definition decideApproval :: "'w server \<Rightarrow> ctx_err \<Rightarrow> gotime \<Rightarrow> bool \<Rightarrow> string \<Rightarrow> 'w serve" where
  "decideApproval sv ctx now approve i pctx rq st =
     (case decodeStrict [''reason''] rq of
        Inl rs \<Rightarrow> (rs, st)
      | Inr m \<Rightarrow>
          (let reason = trimSpace (gval m ''reason'') in
           if reason = '''' \<or> length reason > 2048
           then (writeError rq 400 ''a decision reason between 1 and 2048 characters is required'', st)
           else (let planID = trimPrefix i ''approval-'' in
             if planID = i then (writeError rq 400 ''invalid approval id'', st)
             else (let (answer, st1) = requirePlanAccess sv ctx pctx rq planID st;
                       actor = actorFromRequest pctx;
                       decision = (if approve then ApprovalApproved else ApprovalRejected)
                   in unlessAnswered answer st1
                        (if sv_workflow sv = None \<and> \<not> sv_allowMemoryWorkflows sv
                         then (writeError rq 503 ''Kubernetes workflow persistence is required'', st1)
                         else (let decided = (case sv_workflow sv of
                                     None \<Rightarrow> (Inr (), st1)
                                   | Some wc \<Rightarrow>
                                       (case inWorld (wc_DecideApproval wc i decision actor reason) st1 of
                                          (Inl e, st2) \<Rightarrow> (Inl e, st2) | (Inr _, st2) \<Rightarrow> (Inr (), st2)))
                               in case decided of
                                    (Inl e, st2) \<Rightarrow>
                                      (writeError rq 409 ''approval decision was rejected by Kubernetes workflow state'', st2)
                                  | (Inr _, st2) \<Rightarrow>
                                      (case inStore (if approve then Approve ctx now i actor reason else Reject ctx now i actor reason) st2 of
                                         (Inl e, st3) \<Rightarrow> (writeError rq (storeStatus True True False e) (storeText e), st3)
                                       | (Inr approval, st3) \<Rightarrow> (writeJSON 200 (PApproval approval), st3))))))))"

end
