(* ===== verification/HttpOperations.thy ===== *)
theory HttpOperations
  imports HttpServer
begin

text \<open>
  The handlers of \<open>internal/httpapi/server.go\<close> for audit events, evidence, integrations, chaos
  experiments and model providers, with the default experiments of
  \<open>internal/core/experiments.go\<close>.  A panic of a handler is the 500 answer that
  \<open>withRecovery\<close> gives.
\<close>

subsection \<open>Path values\<close>

text \<open>\<open>url.PathUnescape\<close>: \<open>None\<close> is its error.\<close>

fun pathUnescape :: "string \<Rightarrow> string option" where
  "pathUnescape [] = Some []"
| "pathUnescape (c # s) =
     (if c = CHR ''%'' then
        (case s of
           a # b # r \<Rightarrow>
             if isHex a \<and> isHex b then map_option (\<lambda>t. char_of (16 * hexVal a + hexVal b) # t) (pathUnescape r)
             else None
         | _ \<Rightarrow> None)
      else map_option (\<lambda>t. c # t) (pathUnescape s))"

definition pathValue :: "string \<Rightarrow> string" where
  "pathValue v = (case pathUnescape v of None \<Rightarrow> v | Some d \<Rightarrow> d)"

definition normalizeName :: "string \<Rightarrow> string" where
  "normalizeName s =
     trimChar (CHR ''-'') (map (\<lambda>c. if c = CHR '' '' \<or> c = CHR ''_'' \<or> c = CHR ''/'' then CHR ''-'' else c) (toLower s))"

subsection \<open>Audit, evidence, integrations\<close>

definition auditEvents :: "'w server \<Rightarrow> ctx_err \<Rightarrow> 'w serve" where
  "auditEvents sv ctx pctx rq st =
     unlessAnswered (requireClusterAccess sv pctx rq) st
       (case ListAuditEvents ctx (fst st) of
          Inl e \<Rightarrow> (writeError rq 500 (storeText e), st)
        | Inr events \<Rightarrow> (writeJSON 200 (PAudit events), st))"

definition evidenceBundle :: "'w server \<Rightarrow> ctx_err \<Rightarrow> gotime \<Rightarrow> string \<Rightarrow> 'w serve" where
  "evidenceBundle sv ctx now scope pctx rq st =
     unlessAnswered (requireClusterAccess sv pctx rq) st
       (case EvidenceBundle ctx now (pathValue scope) (fst st) of
          Inl e \<Rightarrow> (writeError rq (storeStatus True False False e) (storeText e), st)
        | Inr bundle \<Rightarrow> (writeJSON 200 (PBundle bundle), st))"

definition integrations :: "'w server \<Rightarrow> ctx_err \<Rightarrow> 'w serve" where
  "integrations sv ctx pctx rq st =
     unlessAnswered (requireClusterAccess sv pctx rq) st
       (case collected sv st of
          (Some c, st1) \<Rightarrow> (writeJSON 200 (PIntegrations (ad_integrations c)), st1)
        | (None, st1) \<Rightarrow>
            (case ListIntegrations ctx (fst st1) of
               Inl e \<Rightarrow> (writeError rq 500 (storeText e), st1)
             | Inr items \<Rightarrow> (writeJSON 200 (PIntegrations items), st1)))"

definition integrationHealth :: "'w server \<Rightarrow> ctx_err \<Rightarrow> gotime \<Rightarrow> string \<Rightarrow> 'w serve" where
  "integrationHealth sv ctx now name pctx rq st =
     unlessAnswered (requireClusterAccess sv pctx rq) st
       (case collected sv st of
          (Some c, st1) \<Rightarrow>
            (case find (\<lambda>h. normalizeName (ih_name h) = normalizeName (pathValue name)) (ad_health c) of
               Some h \<Rightarrow> (writeJSON 200 (PIntegration h), st1)
             | None \<Rightarrow> (writeError rq 404 (storeText ErrNotFound), st1))
        | (None, st1) \<Rightarrow>
            (case IntegrationHealth ctx now (pathValue name) (fst st1) of
               None \<Rightarrow> (writeError rq 500 ''internal server error'', st1)
             | Some (Inl e) \<Rightarrow> (writeError rq (storeStatus True False False e) (storeText e), st1)
             | Some (Inr h) \<Rightarrow> (writeJSON 200 (PIntegration h), st1)))"

subsection \<open>Default experiments\<close>

definition textLines :: "string list \<Rightarrow> string" where
  "textLines ls = joinWith [CHR 0x0A] ls"

definition quoted :: "string \<Rightarrow> string" where
  "quoted s = CHR 0x22 # s @ [CHR 0x22]"

definition targetSelector :: "string list" where
  "targetSelector =
     [''  selector:'', ''    namespaces:'', ''      - '' @ quoted ''{{TARGET_NAMESPACE}}'', ''    labelSelectors:'',
      ''      '' @ quoted ''{{TARGET_LABEL_KEY}}'' @ '': '' @ quoted ''{{TARGET_LABEL_VALUE}}'']"

definition manifestHead :: "string \<Rightarrow> string \<Rightarrow> string list" where
  "manifestHead kind name =
     [''apiVersion: chaos-mesh.org/v1alpha1'', ''kind: '' @ kind, ''metadata:'', ''  name: '' @ name,
      ''  namespace: '' @ quoted ''{{TARGET_NAMESPACE}}'', ''spec:'']"

definition serviceLatency :: chaos_experiment where
  "serviceLatency =
     \<lparr>ex_id = ''network-latency-service'', ex_name = ''Service network latency'', ex_category = ''network'',
      ex_target = ''Service-backed pods'', ex_status = ''preflight_default_execution_opt_in'', ex_engine = ''chaos-mesh'',
      ex_description = ''Validates a bounded latency run for selected service pods. Explicitly configured installations persist approval, execution, cleanup, and recovery state.'',
      ex_preflight =
        [''Target selector resolves to non-system pods.'', ''Experiment duration and latency are bounded.'',
         ''Execution requires durable persistence, a separate approver, and an explicit operator request.''],
      ex_manifest = textLines (manifestHead ''NetworkChaos'' ''kubeathrix-service-latency'' @
         [''  action: delay'', ''  direction: to'', ''  mode: one''] @ targetSelector @
         [''  delay:'', ''    latency: '' @ quoted ''150ms'', ''    correlation: '' @ quoted ''25'',
          ''    jitter: '' @ quoted ''20ms'', ''  duration: '' @ quoted ''2m''])\<rparr>"

definition cpuStress :: chaos_experiment where
  "cpuStress =
     \<lparr>ex_id = ''cpu-stress-workload'', ex_name = ''Workload CPU stress'', ex_category = ''capacity'',
      ex_target = ''Deployment pods'', ex_status = ''preflight_default_execution_opt_in'', ex_engine = ''chaos-mesh'',
      ex_description = ''Validates bounded CPU pressure. Execution-enabled installations clean up the resource and verify target pod recovery.'',
      ex_preflight =
        [''Target pods have CPU requests and limits.'', ''HorizontalPodAutoscaler or runbook owner is defined.'',
         ''Duration is short enough for a safe maintenance window.''],
      ex_manifest = textLines (manifestHead ''StressChaos'' ''kubeathrix-cpu-stress'' @ [''  mode: one''] @ targetSelector @
         [''  stressors:'', ''    cpu:'', ''      workers: 1'', ''      load: 70'', ''  duration: '' @ quoted ''2m''])\<rparr>"

definition dnsFailure :: chaos_experiment where
  "dnsFailure =
     \<lparr>ex_id = ''dns-failure-readiness'', ex_name = ''DNS failure readiness'', ex_category = ''dependency'',
      ex_target = ''Application namespace'', ex_status = ''preflight_default_execution_opt_in'', ex_engine = ''chaos-mesh'',
      ex_description = ''Validates a scoped DNS-failure run with an opt-in persistent execution and recovery lifecycle.'',
      ex_preflight =
        [''Experiment is scoped to one namespace.'', ''Target application has health signals visible to KubeAthrix.'',
         ''Execution requires durable persistence, a separate approver, and an explicit operator request.''],
      ex_manifest = textLines (manifestHead ''DNSChaos'' ''kubeathrix-dns-failure'' @
         [''  action: error'', ''  mode: one'', ''  patterns:'', ''    - '' @ quoted ''dependency.internal''] @
         targetSelector @ [''  duration: '' @ quoted ''90s''])\<rparr>"

definition DefaultChaosExperiments :: "chaos_experiment list" where
  "DefaultChaosExperiments = [serviceLatency, cpuStress, dnsFailure]"

definition findExperiment :: "chaos_experiment list \<Rightarrow> string \<Rightarrow> chaos_experiment option" where
  "findExperiment xs i = find (\<lambda>e. ex_id e = i) xs"

definition experiments :: "'w server \<Rightarrow> 'w serve" where
  "experiments sv pctx rq st =
     unlessAnswered (requireClusterAccess sv pctx rq) st
       (case liveSnapshot sv st of
          (Some sn, st1) \<Rightarrow>
            (writeJSON 200 (PExperiments (if sn_experiments sn \<noteq> [] then sn_experiments sn else DefaultChaosExperiments)), st1)
        | (None, st1) \<Rightarrow> (writeJSON 200 (PExperiments DefaultChaosExperiments), st1))"

subsection \<open>Experiment runs\<close>

definition answerRun :: "request \<Rightarrow> int \<Rightarrow> (store, 'w, chaos_run) managed \<Rightarrow> payload response \<times> (store \<times> 'w)" where
  "answerRun rq status r =
     (case r of (Inl e, st) \<Rightarrow> (writeStoreError rq e, st) | (Inr run, st) \<Rightarrow> (writeJSON status (PChaosRun run), st))"

definition experimentManifest :: "string \<Rightarrow> string \<Rightarrow> string" where
  "experimentManifest i given =
     (if given = '''' then (case findExperiment DefaultChaosExperiments i of Some e \<Rightarrow> ex_manifest e | None \<Rightarrow> '''') else given)"

definition startExperiment :: "'w server \<Rightarrow> string \<Rightarrow> 'w serve" where
  "startExperiment sv i pctx rq st =
     (case decodeStrict [''manifest''] rq of
        Inl rs \<Rightarrow> (rs, st)
      | Inr m \<Rightarrow>
          if findExperiment DefaultChaosExperiments i = None \<and> i \<noteq> ''custom''
          then (writeError rq 404 (storeText ErrNotFound), st)
          else (let manifest = experimentManifest i (gval m ''manifest'') in
            if manifest = '''' then (writeError rq 400 ''manifest is required'', st)
            else (case sv_chaos sv of
              None \<Rightarrow> (writeError rq 503 ''chaos manager is not configured'', st)
            | Some ca \<Rightarrow>
                (case ca_TargetNamespace ca manifest of
                   Inl e \<Rightarrow> (writeError rq 400 e, st)
                 | Inr namespace \<Rightarrow>
                     if \<not> CanAccessNamespace (principalOr pctx) (sv_clusterID sv) namespace
                     then (writeError rq 403 ErrUnauthorized, st)
                     else answerRun rq 201 (ca_Request ca i manifest (actorFromRequest pctx) st)))))"

definition listExperimentRuns :: "'w server \<Rightarrow> 'w serve" where
  "listExperimentRuns sv pctx rq st =
     (case sv_chaos sv of
        None \<Rightarrow> (writeError rq 503 ''chaos manager is not configured'', st)
      | Some ca \<Rightarrow>
          (case ca_List ca st of
             (Inl e, st1) \<Rightarrow> (writeStoreError rq e, st1)
           | (Inr runs, st1) \<Rightarrow>
               (writeJSON 200 (PChaosRuns (filter (\<lambda>run. CanAccessNamespace (principalOr pctx) (sv_clusterID sv)
                  (rr_namespace (c_resource run))) runs)), st1)))"

definition authorizedExperimentRun ::
  "'w server \<Rightarrow> string \<Rightarrow> principal option \<Rightarrow> request \<Rightarrow> store \<times> 'w \<Rightarrow>
     (payload response + 'w chaos_api \<times> chaos_run) \<times> (store \<times> 'w)" where
  "authorizedExperimentRun sv i pctx rq st =
     (case sv_chaos sv of
        None \<Rightarrow> (Inl (writeError rq 503 ''chaos manager is not configured''), st)
      | Some ca \<Rightarrow>
          (case ca_Get ca i st of
             (Inl e, st1) \<Rightarrow> (Inl (writeStoreError rq e), st1)
           | (Inr run, st1) \<Rightarrow>
               if \<not> CanAccessNamespace (principalOr pctx) (sv_clusterID sv) (rr_namespace (c_resource run))
               then (Inl (writeError rq 403 ErrUnauthorized), st1) else (Inr (ca, run), st1)))"

definition getExperimentRun :: "'w server \<Rightarrow> string \<Rightarrow> 'w serve" where
  "getExperimentRun sv i pctx rq st =
     (case authorizedExperimentRun sv i pctx rq st of
        (Inl rs, st1) \<Rightarrow> (rs, st1)
      | (Inr (ca, run), st1) \<Rightarrow> (writeJSON 200 (PChaosRun run), st1))"

definition decideExperimentRun :: "'w server \<Rightarrow> bool \<Rightarrow> string \<Rightarrow> 'w serve" where
  "decideExperimentRun sv approve i pctx rq st =
     (case authorizedExperimentRun sv i pctx rq st of
        (Inl rs, st1) \<Rightarrow> (rs, st1)
      | (Inr (ca, run), st1) \<Rightarrow>
          (case decodeStrict [''reason''] rq of
             Inl rs \<Rightarrow> (rs, st1)
           | Inr m \<Rightarrow> answerRun rq 200
               (if approve then ca_Approve ca i (actorFromRequest pctx) (gval m ''reason'') st1
                else ca_Reject ca i (actorFromRequest pctx) (gval m ''reason'') st1)))"

definition executeExperimentRun :: "'w server \<Rightarrow> string \<Rightarrow> 'w serve" where
  "executeExperimentRun sv i pctx rq st =
     (case authorizedExperimentRun sv i pctx rq st of
        (Inl rs, st1) \<Rightarrow> (rs, st1)
      | (Inr (ca, run), st1) \<Rightarrow> answerRun rq 202 (ca_Execute ca i (actorFromRequest pctx) st1))"

definition abortExperimentRun :: "'w server \<Rightarrow> string \<Rightarrow> 'w serve" where
  "abortExperimentRun sv i pctx rq st =
     (case authorizedExperimentRun sv i pctx rq st of
        (Inl rs, st1) \<Rightarrow> (rs, st1)
      | (Inr (ca, run), st1) \<Rightarrow>
          (case decodeStrict [''reason''] rq of
             Inl rs \<Rightarrow> (rs, st1)
           | Inr m \<Rightarrow> answerRun rq 200 (ca_Abort ca i (actorFromRequest pctx) (gval m ''reason'') st1)))"

subsection \<open>Model providers\<close>

definition getModelProviders :: "ctx_err \<Rightarrow> 'w serve" where
  "getModelProviders ctx pctx rq st =
     (case GetModelProviders ctx (fst st) of
        Inl e \<Rightarrow> (writeError rq 500 (storeText e), st)
      | Inr settings \<Rightarrow> (writeJSON 200 (PProviders settings), st))"

text \<open>
  The settings structure.  Decoding an array into a slice decodes the i-th element into the i-th
  element the slice had; a pointer is allocated at the first value that is not \<open>null\<close>.
\<close>

definition setSecretRef :: "string \<Rightarrow> json \<Rightarrow> secret_ref \<Rightarrow> secret_ref option" where
  "setSecretRef n v s =
     (if n = ''name'' then map_option (\<lambda>x. s\<lparr>sr_name := x\<rparr>) (decodeStringField v (sr_name s))
      else map_option (\<lambda>x. s\<lparr>sr_key := x\<rparr>) (decodeStringField v (sr_key s)))"

definition setExternalRef :: "string \<Rightarrow> json \<Rightarrow> external_secret_ref \<Rightarrow> external_secret_ref option" where
  "setExternalRef n v s =
     (if n = ''store'' then map_option (\<lambda>x. s\<lparr>xr_store := x\<rparr>) (decodeStringField v (xr_store s))
      else if n = ''path'' then map_option (\<lambda>x. s\<lparr>xr_path := x\<rparr>) (decodeStringField v (xr_path s))
      else map_option (\<lambda>x. s\<lparr>xr_key := x\<rparr>) (decodeStringField v (xr_key s)))"

definition decodePointer :: "('s \<Rightarrow> json \<Rightarrow> 's option) \<Rightarrow> 's \<Rightarrow> json \<Rightarrow> 's option \<Rightarrow> 's option option" where
  "decodePointer decode zero v old =
     (if v = JNull then Some None else map_option Some (decode (case old of None \<Rightarrow> zero | Some s \<Rightarrow> s) v))"

definition setProviderField :: "string \<Rightarrow> json \<Rightarrow> model_provider \<Rightarrow> model_provider option" where
  "setProviderField n v s =
     (if n = ''name'' then map_option (\<lambda>x. s\<lparr>mp_name := x\<rparr>) (decodeStringField v (mp_name s))
      else if n = ''type'' then map_option (\<lambda>x. s\<lparr>mp_type := x\<rparr>) (decodeStringField v (mp_type s))
      else if n = ''model'' then map_option (\<lambda>x. s\<lparr>mp_model := x\<rparr>) (decodeStringField v (mp_model s))
      else if n = ''apiKeySecretRef'' then
        map_option (\<lambda>x. s\<lparr>mp_apiKeySecretRef := x\<rparr>)
          (decodePointer (decodeObject [''name'', ''key''] setSecretRef) \<lparr>sr_name = '''', sr_key = ''''\<rparr> v
            (mp_apiKeySecretRef s))
      else map_option (\<lambda>x. s\<lparr>mp_externalSecretRef := x\<rparr>)
          (decodePointer (decodeObject [''store'', ''path'', ''key''] setExternalRef)
            \<lparr>xr_store = '''', xr_path = '''', xr_key = ''''\<rparr> v (mp_externalSecretRef s)))"

definition noProvider :: model_provider where
  "noProvider = \<lparr>mp_name = '''', mp_type = '''', mp_model = '''', mp_apiKeySecretRef = None, mp_externalSecretRef = None\<rparr>"

fun decodeProviders :: "json list \<Rightarrow> model_provider list \<Rightarrow> model_provider list option" where
  "decodeProviders [] olds = Some []"
| "decodeProviders (v # vs) olds =
     (case decodeObject [''name'', ''type'', ''model'', ''apiKeySecretRef'', ''externalSecretRef''] setProviderField
        (case olds of [] \<Rightarrow> noProvider | old # _ \<Rightarrow> old) v of
        None \<Rightarrow> None
      | Some p \<Rightarrow> map_option ((#) p) (decodeProviders vs (drop 1 olds)))"

definition setProviders :: "string \<Rightarrow> json \<Rightarrow> model_provider list \<Rightarrow> model_provider list option" where
  "setProviders n v ps =
     (case v of JNull \<Rightarrow> Some [] | JArr vs \<Rightarrow> decodeProviders vs ps | _ \<Rightarrow> None)"

definition putModelProviders :: "ctx_err \<Rightarrow> gotime \<Rightarrow> 'w serve" where
  "putModelProviders ctx now pctx rq st =
     (case decodeWith (decodeObject [''providers''] setProviders []) rq of
        Inl rs \<Rightarrow> (rs, st)
      | Inr ps \<Rightarrow>
          (case inStore (SaveModelProviders ctx ps) st of
             (Inl e, st1) \<Rightarrow> (writeError rq (storeStatus False True False e) (storeText e), st1)
           | (Inr updated, st1) \<Rightarrow>
               (case inStore (RecordAuditEvent ctx now
                   \<lparr>ae_id = '''', ae_actor = actorFromRequest pctx, ae_action = ''model-provider.settings.updated'',
                    ae_subject = ''model-providers'',
                    ae_message = ''Model provider references replaced ('' @ itoa (int (length updated)) @ '' configured)'',
                    ae_createdAt = now\<rparr>) st1 of
                  (Inl e, st2) \<Rightarrow>
                    (writeError rq 500 ''provider settings were saved but the audit event could not be recorded'', st2)
                | (Inr _, st2) \<Rightarrow> (writeJSON 200 (PProviders updated), st2))))"

definition checkSecretRequest :: "'w server \<Rightarrow> string \<Rightarrow> string \<Rightarrow> string \<Rightarrow> string \<Rightarrow> (int \<times> string) option" where
  "checkSecretRequest sv provider secretName key secret =
     (if provider = '''' \<or> secretName = '''' \<or> key = '''' \<or> secret = ''''
      then Some (400, ''provider name, secretName, key, and value are required'')
      else if length provider > 128 then Some (400, ''provider name must be at most 128 characters'')
      else if \<not> sv_validSecretName sv secretName then Some (400, ''secretName must be a valid Kubernetes Secret name'')
      else if \<not> sv_validSecretKey sv key then Some (400, ''key must be a valid Kubernetes Secret data key'')
      else if length secret > 65536 then Some (413, ''provider secret value exceeds 64 KiB'')
      else None)"

definition secretNamespace :: "'w server \<Rightarrow> string" where
  "secretNamespace sv = (let ns = trimSpace (sv_providerSecretNS sv) in if ns = '''' then ''kubeathrix'' else ns)"

definition putModelProviderSecret :: "'w server \<Rightarrow> ctx_err \<Rightarrow> gotime \<Rightarrow> string \<Rightarrow> 'w serve" where
  "putModelProviderSecret sv ctx now name pctx rq st =
     (case sv_secrets sv of
        None \<Rightarrow> (writeError rq 503 ''provider secret management is not configured'', st)
      | Some upsert \<Rightarrow>
          (case decodeStrict [''secretName'', ''key'', ''value''] rq of
             Inl rs \<Rightarrow> (rs, st)
           | Inr m \<Rightarrow>
               (let provider = trimSpace name; secretName = trimSpace (gval m ''secretName'');
                    key = trimSpace (gval m ''key''); namespace = secretNamespace sv
                in case checkSecretRequest sv provider secretName key (gval m ''value'') of
                     Some (status, msg) \<Rightarrow> (writeError rq status msg, st)
                   | None \<Rightarrow>
                       (case inWorld (upsert namespace secretName key (gval m ''value'')) st of
                          (Inl e, st1) \<Rightarrow> (writeError rq 500 ''provider secret could not be stored'', st1)
                        | (Inr _, st1) \<Rightarrow>
                            (case inStore (RecordAuditEvent ctx now
                                \<lparr>ae_id = '''', ae_actor = actorFromRequest pctx, ae_action = ''model-provider.secret.rotated'',
                                 ae_subject = provider,
                                 ae_message = ''Kubernetes Secret '' @ namespace @ ''/'' @ secretName @ '' key '' @ key @
                                   '' was created or rotated'',
                                 ae_createdAt = now\<rparr>) st1 of
                               (Inl e, st2) \<Rightarrow>
                                 (writeError rq 500 ''provider secret was stored but the audit event could not be recorded'', st2)
                             | (Inr _, st2) \<Rightarrow> (writeJSON 200 (PSecret provider namespace secretName key), st2))))))"

end
