(* ===== verification/HttpDashboard.thy ===== *)
theory HttpDashboard
  imports HttpOperations
begin

text \<open>
  The dashboard, the managed resource listing and the action catalogue answer of
  \<open>internal/httpapi/server.go\<close>.

  The mean score of the dashboard is binary64, as in the source: the store divides once, and
  \<open>addFindingToDashboard\<close> multiplies the mean by the old number of findings, truncates and
  divides again.  The cluster inventory,
  scan and compliance records are copied unread and left out.  The uptime is whole seconds;
  the rounding of \<open>Duration.Seconds\<close> is left out.
\<close>

subsection \<open>Binary64 arithmetic on non-negative numbers\<close>

definition f64Round :: "int \<Rightarrow> int \<Rightarrow> int \<times> int" where
  "f64Round num den =
     (if num = 0 then (0, 0)
      else
        (let q0 = bitLen num - bitLen den - 53;
             q1 = (if num * pow2 (max 0 (- q0)) \<ge> 2 ^ 53 * (den * pow2 (max 0 q0)) then q0 + 1 else q0);
             q = max q1 (- 1074);
             m = roundHalfEven (num * pow2 (max 0 (- q))) (den * pow2 (max 0 q))
         in if m = 2 ^ 53 then (2 ^ 52, q + 1) else (m, q)))"

definition f64Div :: "int \<Rightarrow> int \<Rightarrow> int \<times> int" where
  "f64Div n d = f64Round n d"

definition f64Mul :: "int \<times> int \<Rightarrow> int \<Rightarrow> int \<times> int" where
  "f64Mul x k = (let (m, q) = x in f64Round (m * k * pow2 (max 0 q)) (pow2 (max 0 (- q))))"

definition f64Trunc :: "int \<times> int \<Rightarrow> int" where
  "f64Trunc x = (let (m, q) = x in m * pow2 (max 0 q) div pow2 (max 0 (- q)))"

subsection \<open>Dashboard\<close>

definition incr :: "string \<Rightarrow> (string, int) gomap \<Rightarrow> (string, int) gomap" where
  "incr k m = gput k ((case gget m k of None \<Rightarrow> 0 | Some n \<Rightarrow> n) + 1) m"

definition addFindingToDashboard :: "finding \<Rightarrow> dashboard_view \<Rightarrow> dashboard_view" where
  "addFindingToDashboard f d0 =
     (let d1 = d0\<lparr>db_totalFindings := db_totalFindings d0 + 1,
                  db_findingsBySeverity := incr (severityString (f_severity f)) (db_findingsBySeverity d0),
                  db_findingsBySource := incr (f_source f) (db_findingsBySource d0),
                  db_remediationByState := incr (f_remediationState f) (db_remediationByState d0)\<rparr>;
          d2 = (if f_severity f = SeverityCritical \<and> f_status f \<noteq> FindingResolved \<and> f_status f \<noteq> FindingSuppressed
                then d1\<lparr>db_openCritical := db_openCritical d1 + 1\<rparr> else d1);
          d3 = (if f_status f = FindingRemediating then d2\<lparr>db_activeRemediations := db_activeRemediations d2 + 1\<rparr> else d2);
          d4 = (if f_fixability f = FixabilityDeterministic \<or> f_fixability f = FixabilityGated
                then d3\<lparr>db_findingsWithSafeFix := db_findingsWithSafeFix d3 + 1\<rparr> else d3);
          d5 = (if f_status f = FindingResolved then d4\<lparr>db_riskReduced := db_riskReduced d4 + f_riskScore f\<rparr> else d4)
      in if db_totalFindings d5 > 0
         then d5\<lparr>dv_mean := f64Div (f64Trunc (f64Mul (dv_mean d5) (db_totalFindings d5 - 1)) + f_riskScore f)
                             (db_totalFindings d5)\<rparr>
         else d5)"

text \<open>The loop over observed findings, with the identifiers already counted.\<close>

fun addObserved :: "finding list \<Rightarrow> string list \<Rightarrow> dashboard_view \<Rightarrow> string list \<times> dashboard_view" where
  "addObserved [] seen d = (seen, d)"
| "addObserved (f # fs) seen d =
     (if f_id f \<in> set seen then addObserved fs seen d
      else addObserved fs (f_id f # seen) (addFindingToDashboard f d))"

definition freshnessLabel :: "gotime \<Rightarrow> gotime \<Rightarrow> string" where
  "freshnessLabel observedAt now =
     (if isZero observedAt then ''no-evidence''
      else if now - observedAt \<le> 15 * minute then ''fresh''
      else if now - observedAt \<le> 2 * hour then ''recent''
      else if now - observedAt \<le> 24 * hour then ''stale''
      else ''expired'')"

definition addSnapshot :: "gotime \<Rightarrow> cluster_snapshot option \<Rightarrow> string list \<Rightarrow> dashboard_view \<Rightarrow> string list \<times> dashboard_view" where
  "addSnapshot now snapshot seen d =
     (case snapshot of
        None \<Rightarrow> (seen, d)
      | Some sn \<Rightarrow>
          addObserved (sn_findings sn) seen
            (d\<lparr>dv_experiments := (if sn_experiments sn \<noteq> [] then sn_experiments sn else dv_experiments d),
               db_protectedNamespaces := max (db_protectedNamespaces d) (sn_namespaces sn),
               db_evidenceFreshness := freshnessLabel (sn_lastRunAt sn) now\<rparr>))"

definition addCollection :: "adapter_collection option \<Rightarrow> string list \<Rightarrow> dashboard_view \<Rightarrow> dashboard_view" where
  "addCollection collection seen d =
     (case collection of
        None \<Rightarrow> d
      | Some c \<Rightarrow>
          snd (addObserved (ad_findings c) seen
            (d\<lparr>db_bundledEnginesOnline := countIf (\<lambda>h. ih_health h = ''healthy'') (ad_health c)\<rparr>)))"

definition liveApprovals :: "'w server \<Rightarrow> gotime \<Rightarrow> dashboard_view \<Rightarrow> store \<times> 'w \<Rightarrow> dashboard_view \<times> (store \<times> 'w)" where
  "liveApprovals sv now d st =
     (case sv_workflow sv of
        None \<Rightarrow> (d, st)
      | Some wc \<Rightarrow>
          (case inWorld (wc_ListApprovals wc) st of
             (Inl e, st1) \<Rightarrow> (d, st1)
           | (Inr approvals, st1) \<Rightarrow>
               (d\<lparr>db_pendingApprovals := countIf (\<lambda>a. a_status a = ApprovalPending \<and> a_expiresAt a > now) approvals\<rparr>, st1)))"

definition noFilter :: finding_filter where
  "noFilter = \<lparr>ff_severity = '''', ff_status = '''', ff_source = '''', ff_query = '''', ff_namespace = '''', ff_kind = '''',
     ff_fixability = '''', ff_minRisk = 0\<rparr>"

definition enrichDashboard ::
  "'w server \<Rightarrow> ctx_err \<Rightarrow> gotime \<Rightarrow> dashboard_view \<Rightarrow> store \<times> 'w \<Rightarrow> dashboard_view \<times> (store \<times> 'w)" where
  "enrichDashboard sv ctx now d st =
     (let (persisted, st0) = inStore (ListFindings ctx now noFilter) st;
          seen = (case persisted of Inl e \<Rightarrow> [] | Inr fs \<Rightarrow> map f_id fs);
          (snapshot, st1) = liveSnapshot sv st0;
          (seen1, d1) = addSnapshot now snapshot seen (d\<lparr>dv_experiments := DefaultChaosExperiments\<rparr>);
          (collection, st2) = collected sv st1
      in liveApprovals sv now (addCollection collection seen1 d1) st2)"

definition agentStatus :: "'w server \<Rightarrow> ctx_err \<Rightarrow> gotime \<Rightarrow> store \<Rightarrow> agent_status" where
  "agentStatus sv ctx now s =
     (let mode = trimSpace (sv_autonomyMode sv); identity = trimSpace (sv_runtimeIdentity sv) in
      \<lparr>as_autonomyMode = (if mode = '''' then ''recommend'' else mode),
       as_uptimeSeconds = max 0 ((now - sv_startedAt sv) div second),
       as_actionsLast24H = (case ListAuditEvents ctx s of
         Inl e \<Rightarrow> 0
       | Inr events \<Rightarrow> countIf (\<lambda>ev. \<not> ae_createdAt ev < now - 24 * hour) events),
       as_runtimeIdentity = (if identity = '''' then ''api/'' @ sv_clusterID sv else identity)\<rparr>)"

definition syncWorkflowState :: "'w server \<Rightarrow> ctx_err \<Rightarrow> gotime \<Rightarrow> store \<times> 'w \<Rightarrow> store \<times> 'w" where
  "syncWorkflowState sv ctx now st =
     (case sv_workflow sv of
        None \<Rightarrow> st
      | Some wc \<Rightarrow>
          (let (findings, s1, w1) = inWorld (wc_ListFindings wc) st;
               s2 = (case findings of Inl e \<Rightarrow> s1 | Inr fs \<Rightarrow> fold (\<lambda>f s. snd (SyncFinding ctx now f s)) fs s1);
               (runs, s3, w3) = inWorld (wc_ListRuns wc) (s2, w1)
           in ((case runs of Inl e \<Rightarrow> s3 | Inr rs \<Rightarrow> fold (\<lambda>r s. snd (SyncRemediationRun ctx r s)) rs s3), w3)))"

definition dashboardView :: "dashboard \<Rightarrow> dashboard_view" where
  "dashboardView d =
     dashboard.extend d
       \<lparr>dv_mean = (case db_meanRiskScore d of None \<Rightarrow> (0, 0) | Some (t, n) \<Rightarrow> f64Div t n), dv_experiments = [],
        dv_agent = \<lparr>as_autonomyMode = '''', as_uptimeSeconds = 0, as_actionsLast24H = 0, as_runtimeIdentity = ''''\<rparr>\<rparr>"

definition dashboardPage :: "'w server \<Rightarrow> ctx_err \<Rightarrow> gotime \<Rightarrow> 'w serve" where
  "dashboardPage sv ctx now pctx rq st =
     unlessAnswered (requireClusterAccess sv pctx rq) st
       (let st1 = expireStaleFindings sv ctx now (syncWorkflowState sv ctx now st) in
        case inStore (Dashboard ctx now) st1 of
          (Inl e, st2) \<Rightarrow> (writeError rq 500 (storeText e), st2)
        | (Inr d, st2) \<Rightarrow>
            (let (view, st3) = enrichDashboard sv ctx now (dashboardView d) st2
             in (writeJSON 200 (PDashboard (view\<lparr>dv_agent := agentStatus sv ctx now (fst st3)\<rparr>)), st3)))"

subsection \<open>Managed resources\<close>

definition managedReferenceInResources :: "resource_reference \<Rightarrow> resource_reference list \<Rightarrow> bool" where
  "managedReferenceInResources ref resources =
     list_ex (\<lambda>r.
       (mr_uid ref \<noteq> '''' \<and> mr_uid r \<noteq> '''' \<and> mr_uid ref = mr_uid r) \<or>
       (mr_name ref = mr_name r \<and> mr_namespace ref = mr_namespace r \<and>
        (mr_apiVersion ref = '''' \<or> mr_apiVersion ref = mr_apiVersion r) \<and>
        (mr_kind ref = '''' \<or> mr_kind ref = mr_kind r))) resources"

definition managedView :: "principal \<Rightarrow> string \<Rightarrow> managed_snapshot \<Rightarrow> managed_list" where
  "managedView p clusterID sn =
     (let observedAt = (if isZero (ms_observedAt sn) then None else Some (ms_observedAt sn)) in
      if CanAccessCluster p clusterID
      then \<lparr>ml_enabled = True, ml_observedAt = observedAt, ml_resources = ms_resources sn,
            ml_relationships = ms_relationships sn, ml_findings = ms_findings sn, ml_warnings = ms_warnings sn\<rparr>
      else
        (let resources = filter (\<lambda>r. mr_namespace r \<noteq> '''' \<and> CanAccessNamespace p clusterID (mr_namespace r)) (ms_resources sn)
         in \<lparr>ml_enabled = True, ml_observedAt = observedAt, ml_resources = resources,
             ml_relationships = filter (\<lambda>rel. managedReferenceInResources (rel_from rel) resources \<and>
               managedReferenceInResources (rel_to rel) resources) (ms_relationships sn),
             ml_findings = filter (findingAllowed p clusterID) (ms_findings sn), ml_warnings = []\<rparr>))"

definition listManagedResources :: "'w server \<Rightarrow> 'w serve" where
  "listManagedResources sv pctx rq st =
     (case sv_managed sv of
        None \<Rightarrow> (writeJSON 200 (PManaged \<lparr>ml_enabled = False, ml_observedAt = None, ml_resources = [],
                   ml_relationships = [], ml_findings = [], ml_warnings = []\<rparr>), st)
      | Some discover \<Rightarrow>
          (case inWorld discover st of
             (Inl e, st1) \<Rightarrow> (writeError rq 503 ''managed resource discovery is unavailable'', st1)
           | (Inr sn, st1) \<Rightarrow>
               (case pctx of
                  None \<Rightarrow> (writeError rq 401 ErrUnauthenticated, st1)
                | Some p \<Rightarrow> (writeJSON 200 (PManaged (managedView p (sv_clusterID sv) sn)), st1))))"

definition actionCatalog :: "'w serve" where
  "actionCatalog pctx rq st = (writeJSON 200 (PCatalog Version AllDefinitions), st)"

end
