(* ===== verification/HttpRoutes.thy ===== *)
theory HttpRoutes
  imports HttpDashboard
begin

text \<open>
  The route table and the wrappers of \<open>Server.Routes\<close>.  A request comes with the segments of
  its cleaned path, each unescaped, which is what the pattern matcher of \<open>net/http\<close> compares;
  the redirect it sends for a path that is not clean is left out, and its own 404 and 405 answers
  have no body here.  No pattern has more than one wildcard, and no two patterns of one method
  match the same path (\<open>routes_unambiguous\<close>), so the first match is the only one.

  Left out of the chain: logging and request metrics; the body limit is the flag
  \<open>rq_tooLarge\<close> and the recovery of a panic is the 500 answer of the handler concerned.  Of the
  metrics text the model keeps the chaos run counts.
\<close>

datatype segment = Lit string | Wild

fun matchSegments :: "segment list \<Rightarrow> string list \<Rightarrow> string option" where
  "matchSegments [] [] = Some ''''"
| "matchSegments (Lit a # ps) (s # ss) = (if a = s then matchSegments ps ss else None)"
| "matchSegments (Wild # ps) (s # ss) =
     (if s = '''' then None else (case matchSegments ps ss of None \<Rightarrow> None | Some _ \<Rightarrow> Some s))"
| "matchSegments _ _ = None"

record 'w route =
  rt_method :: string
  rt_pattern :: "segment list"
  rt_role :: "role option"
  rt_serve :: "string \<Rightarrow> 'w serve"

definition public :: "string \<Rightarrow> segment list \<Rightarrow> 'w serve \<Rightarrow> 'w route" where
  "public m p h = \<lparr>rt_method = m, rt_pattern = p, rt_role = None, rt_serve = (\<lambda>_. h)\<rparr>"

definition guarded :: "string \<Rightarrow> string list \<Rightarrow> role \<Rightarrow> 'w serve \<Rightarrow> 'w route" where
  "guarded m p r h = \<lparr>rt_method = m, rt_pattern = map Lit (''api'' # p), rt_role = Some r, rt_serve = (\<lambda>_. h)\<rparr>"

text \<open>\<open>/api/collection/{id}\<close>, or with an action behind the wildcard.\<close>

definition guardedAt :: "string \<Rightarrow> string list \<Rightarrow> string list \<Rightarrow> role \<Rightarrow> (string \<Rightarrow> 'w serve) \<Rightarrow> 'w route" where
  "guardedAt m p act r h =
     \<lparr>rt_method = m, rt_pattern = map Lit (''api'' # p) @ [Wild] @ map Lit act, rt_role = Some r, rt_serve = h\<rparr>"

definition prometheusMetrics :: "ctx_err \<Rightarrow> 'w serve" where
  "prometheusMetrics ctx pctx rq st =
     (writeJSON 200 (PMetrics (case ListChaosRuns ctx (fst st) of
        Inl e \<Rightarrow> []
      | Inr runs \<Rightarrow> sortSlice (\<lambda>a b. fst a < fst b) (countBy (\<lambda>c. chaosStatusString (c_status c)) runs))), st)"

definition routes :: "'w server \<Rightarrow> ctx_err \<Rightarrow> gotime \<Rightarrow> 'w route list" where
  "routes sv ctx now =
     [public ''GET'' [Lit ''health'', Lit ''live''] liveness,
      public ''GET'' [Lit ''health'', Lit ''ready''] (readiness sv ctx),
      public ''GET'' [Lit ''auth'', Lit ''config''] (authConfig sv),
      guarded ''GET'' [''health''] RoleViewer (health ctx),
      guarded ''GET'' [''metrics''] RoleViewer (prometheusMetrics ctx),
      guarded ''GET'' [''action-catalog''] RoleViewer actionCatalog,
      guarded ''GET'' [''dashboard''] RoleViewer (dashboardPage sv ctx now),
      guarded ''GET'' [''findings''] RoleViewer (listFindings sv ctx now),
      guardedAt ''GET'' [''findings''] [] RoleViewer (getFinding sv ctx),
      guarded ''GET'' [''managed-resources''] RoleViewer (listManagedResources sv),
      guardedAt ''PATCH'' [''findings''] [''status''] RoleOperator (updateFindingStatus sv ctx now),
      guarded ''GET'' [''exceptions''] RoleViewer (listExceptions sv ctx now),
      guarded ''POST'' [''exceptions''] RoleOperator (createException sv ctx now),
      guardedAt ''DELETE'' [''exceptions''] [] RoleOperator (deleteException sv ctx now),
      guarded ''POST'' [''remediation-plans'', ''preview''] RoleOperator (previewRemediationPlan sv ctx now),
      guarded ''POST'' [''remediation-plans''] RoleOperator (createRemediationPlan sv ctx now),
      guardedAt ''GET'' [''remediation-plans''] [''diff''] RoleViewer (getRemediationPlanDiff sv ctx),
      guardedAt ''POST'' [''remediation-plans''] [''execute''] RoleOperator (executeRemediationPlan sv ctx now),
      guardedAt ''GET'' [''remediation-runs''] [] RoleViewer (getRemediationRun sv ctx),
      guardedAt ''POST'' [''remediation-runs''] [''rollback''] RoleOperator (rollbackRemediationRun sv ctx now),
      guardedAt ''POST'' [''approvals''] [''approve''] RoleApprover (decideApproval sv ctx now True),
      guardedAt ''POST'' [''approvals''] [''reject''] RoleApprover (decideApproval sv ctx now False),
      guarded ''GET'' [''audit-events''] RoleViewer (auditEvents sv ctx),
      guardedAt ''GET'' [''evidence-bundles''] [] RoleViewer (evidenceBundle sv ctx now),
      guarded ''GET'' [''integrations''] RoleViewer (integrations sv ctx),
      guardedAt ''GET'' [''integrations''] [''health''] RoleViewer (integrationHealth sv ctx now),
      guarded ''GET'' [''experiments''] RoleViewer (experiments sv),
      guardedAt ''POST'' [''experiments''] [''runs''] RoleOperator (startExperiment sv),
      guarded ''GET'' [''experiment-runs''] RoleViewer (listExperimentRuns sv),
      guardedAt ''GET'' [''experiment-runs''] [] RoleViewer (getExperimentRun sv),
      guardedAt ''POST'' [''experiment-runs''] [''approve''] RoleApprover (decideExperimentRun sv True),
      guardedAt ''POST'' [''experiment-runs''] [''reject''] RoleApprover (decideExperimentRun sv False),
      guardedAt ''POST'' [''experiment-runs''] [''execute''] RoleOperator (executeExperimentRun sv),
      guardedAt ''POST'' [''experiment-runs''] [''abort''] RoleOperator (abortExperimentRun sv),
      guarded ''GET'' [''settings'', ''model-providers''] RoleAdministrator (getModelProviders ctx),
      guarded ''PUT'' [''settings'', ''model-providers''] RoleAdministrator (putModelProviders ctx now),
      guardedAt ''PUT'' [''settings'', ''model-providers''] [''secret''] RoleAdministrator (putModelProviderSecret sv ctx now)]"

subsection \<open>Dispatch\<close>

definition methodMatches :: "string \<Rightarrow> string \<Rightarrow> bool" where
  "methodMatches pattern m \<longleftrightarrow> m = pattern \<or> (pattern = ''GET'' \<and> m = ''HEAD'')"

definition routeMatches :: "string \<Rightarrow> string list \<Rightarrow> 'w route \<Rightarrow> bool" where
  "routeMatches m segs r \<longleftrightarrow> methodMatches (rt_method r) m \<and> matchSegments (rt_pattern r) segs \<noteq> None"

definition serveRoute :: "'w route \<Rightarrow> string \<Rightarrow> 'w serve" where
  "serveRoute r arg = (case rt_role r of None \<Rightarrow> rt_serve r arg | Some need \<Rightarrow> requireRole need (rt_serve r arg))"

definition bare :: "int \<Rightarrow> payload response" where
  "bare status = \<lparr>rs_status = status, rs_headers = [], rs_body = NoBody\<rparr>"

definition mux :: "'w server \<Rightarrow> ctx_err \<Rightarrow> gotime \<Rightarrow> string list \<Rightarrow> 'w serve" where
  "mux sv ctx now segs pctx rq st =
     (case find (routeMatches (rq_method rq) segs) (routes sv ctx now) of
        Some r \<Rightarrow> serveRoute r (case matchSegments (rt_pattern r) segs of None \<Rightarrow> '''' | Some v \<Rightarrow> v) pctx rq st
      | None \<Rightarrow>
          if list_ex (\<lambda>r. matchSegments (rt_pattern r) segs \<noteq> None) (routes sv ctx now)
          then (bare 405, st) else (bare 404, st))"

definition httpConfig :: "'w server \<Rightarrow> string http_config" where
  "httpConfig sv = \<lparr>hc_insecureDevAuth = sv_insecureDevAuth sv, hc_authenticator = sv_authenticator sv\<rparr>"

definition serveHTTP ::
  "'w server \<Rightarrow> ctx_err \<Rightarrow> gotime \<Rightarrow> string option \<Rightarrow> string list \<Rightarrow> request \<Rightarrow> request_limiter \<times> (store \<times> 'w) \<Rightarrow>
     payload response \<times> (request_limiter \<times> (store \<times> 'w))" where
  "serveHTTP sv ctx now bytes segs rq st =
     withRequestID bytes (withSecurityHeaders
       (withAuthentication (httpConfig sv) (withRateLimit now (withJSON (mux sv ctx now segs))))) None rq st"

subsection \<open>The table\<close>

definition fits :: "segment \<Rightarrow> string \<Rightarrow> bool" where
  "fits p s \<longleftrightarrow> (case p of Lit a \<Rightarrow> a = s | Wild \<Rightarrow> s \<noteq> '''')"

definition compatible :: "segment \<Rightarrow> segment \<Rightarrow> bool" where
  "compatible p q \<longleftrightarrow> (case p of Wild \<Rightarrow> True | Lit a \<Rightarrow> (case q of Wild \<Rightarrow> True | Lit b \<Rightarrow> a = b))"

lemma match_iff: "matchSegments p segs \<noteq> None \<longleftrightarrow> list_all2 fits p segs"
  by (induction p segs rule: matchSegments.induct) (auto simp: fits_def split: option.splits)

lemma match_overlap:
  assumes "matchSegments p segs \<noteq> None" "matchSegments q segs \<noteq> None"
  shows "list_all2 compatible p q"
proof -
  have "list_all2 fits p segs" "list_all2 fits q segs" using assms by (simp_all only: match_iff)
  then show ?thesis
    by (auto simp: list_all2_conv_all_nth fits_def compatible_def split: segment.splits)
qed

definition shape :: "'w route \<Rightarrow> string \<times> segment list" where
  "shape r = (rt_method r, rt_pattern r)"

lemma shape_simps [simp]:
  "shape (public m p h) = (m, p)" "shape (guarded m ps r h) = (m, map Lit (''api'' # ps))"
  "shape (guardedAt m ps act r g) = (m, map Lit (''api'' # ps) @ [Wild] @ map Lit act)"
  by (simp_all add: shape_def public_def guarded_def guardedAt_def)

definition routesApart :: "(string \<times> segment list) list \<Rightarrow> bool" where
  "routesApart xs \<longleftrightarrow> list_all (\<lambda>a. list_all (\<lambda>b. a = b \<or> fst a \<noteq> fst b \<or> \<not> list_all2 compatible (snd a) (snd b)) xs) xs"

definition tableShapes :: "(string \<times> segment list) list" where
  "tableShapes =
     (let at = (\<lambda>m ps act. (m, map Lit (''api'' # ps) @ [Wild] @ map Lit act)); plain = (\<lambda>m ps. (m, map Lit (''api'' # ps))) in
      [(''GET'', [Lit ''health'', Lit ''live'']), (''GET'', [Lit ''health'', Lit ''ready'']), (''GET'', [Lit ''auth'', Lit ''config'']),
       plain ''GET'' [''health''], plain ''GET'' [''metrics''], plain ''GET'' [''action-catalog''], plain ''GET'' [''dashboard''],
       plain ''GET'' [''findings''], at ''GET'' [''findings''] [], plain ''GET'' [''managed-resources''],
       at ''PATCH'' [''findings''] [''status''], plain ''GET'' [''exceptions''], plain ''POST'' [''exceptions''],
       at ''DELETE'' [''exceptions''] [], plain ''POST'' [''remediation-plans'', ''preview''], plain ''POST'' [''remediation-plans''],
       at ''GET'' [''remediation-plans''] [''diff''], at ''POST'' [''remediation-plans''] [''execute''],
       at ''GET'' [''remediation-runs''] [], at ''POST'' [''remediation-runs''] [''rollback''],
       at ''POST'' [''approvals''] [''approve''], at ''POST'' [''approvals''] [''reject''],
       plain ''GET'' [''audit-events''], at ''GET'' [''evidence-bundles''] [], plain ''GET'' [''integrations''],
       at ''GET'' [''integrations''] [''health''], plain ''GET'' [''experiments''], at ''POST'' [''experiments''] [''runs''],
       plain ''GET'' [''experiment-runs''], at ''GET'' [''experiment-runs''] [], at ''POST'' [''experiment-runs''] [''approve''],
       at ''POST'' [''experiment-runs''] [''reject''], at ''POST'' [''experiment-runs''] [''execute''],
       at ''POST'' [''experiment-runs''] [''abort''], plain ''GET'' [''settings'', ''model-providers''],
       plain ''PUT'' [''settings'', ''model-providers''], at ''PUT'' [''settings'', ''model-providers''] [''secret'']])"

lemma routes_shapes: "map shape (routes sv ctx now) = tableShapes"
  by (simp add: routes_def tableShapes_def Let_def)

lemma tableShapes_apart: "routesApart tableShapes" "distinct tableShapes" "list_all (\<lambda>x. fst x \<noteq> ''HEAD'') tableShapes"
  by code_simp+

lemma route_not_HEAD: "r \<in> set (routes sv ctx now) \<Longrightarrow> rt_method r \<noteq> ''HEAD''"
  using tableShapes_apart(3) by (auto simp: list_all_iff shape_def simp flip: routes_shapes [of sv ctx now])

theorem routes_unambiguous:
  assumes "r \<in> set (routes sv ctx now)" "r' \<in> set (routes sv ctx now)" "routeMatches m segs r" "routeMatches m segs r'"
  shows "r = r'"
proof -
  have "list_all2 compatible (rt_pattern r) (rt_pattern r')"
    using assms(3,4) unfolding routeMatches_def by (blast intro: match_overlap)
  moreover have shapes: "shape r \<in> set tableShapes" "shape r' \<in> set tableShapes"
    using assms(1,2) by (simp_all flip: routes_shapes [of sv ctx now])
  moreover have "rt_method r = rt_method r'"
    using assms(3,4) route_not_HEAD [OF assms(1)] route_not_HEAD [OF assms(2)]
    by (auto simp: routeMatches_def methodMatches_def)
  ultimately have "shape r = shape r'"
    using tableShapes_apart(1) by (fastforce simp: routesApart_def list_all_iff shape_def)
  moreover have "distinct (map shape (routes sv ctx now))"
    using tableShapes_apart(2) by (simp add: routes_shapes)
  ultimately show ?thesis using assms(1,2) by (auto simp: distinct_map inj_on_def)
qed

end
