(* ===== verification/HttpSafety.thy ===== *)
theory HttpSafety
  imports HttpRoutes RateLimiter
begin

text \<open>
  A property of the whole request path: whatever the request, something changes only on behalf of a
  verified principal with the role that the route asks for (\<open>changes_need_role\<close>).  The properties of
  single handlers are in \<open>HttpAccess\<close>.
\<close>

subsection \<open>Roles\<close>

text \<open>The principal that \<open>withAuthentication\<close> puts into the context, if any.\<close>

definition authenticated :: "'w server \<Rightarrow> request \<Rightarrow> principal \<Rightarrow> bool" where
  "authenticated sv rq p \<longleftrightarrow>
     hasPrefix (rq_path rq) ''/api/'' \<and>
     (if sv_insecureDevAuth sv then p = DevelopmentPrincipal
      else (\<exists>verify scheme token. sv_authenticator sv = Some verify \<and>
        strFields (trimSpace (rq_authorization rq)) = [scheme, token] \<and> equalFold scheme ''Bearer'' \<and>
        verify token = Inr p))"

lemma authenticated_path:
  "snd (withAuthentication (httpConfig sv) h None rq st) = st \<or>
   (\<exists>p. authenticated sv rq p \<and> withAuthentication (httpConfig sv) h None rq st = h (Some p) rq st) \<or>
   (\<not> hasPrefix (rq_path rq) ''/api/'' \<and> withAuthentication (httpConfig sv) h None rq st = h None rq st)"
proof (cases "hasPrefix (rq_path rq) ''/api/''")
  case False
  then show ?thesis by (simp add: withAuthentication_def)
next
  case api: True
  show ?thesis
  proof (cases "sv_insecureDevAuth sv")
    case True
    then show ?thesis using api by (simp add: withAuthentication_def httpConfig_def authenticated_def)
  next
    case False
    then have "\<not> hc_insecureDevAuth (httpConfig sv)" by (simp add: httpConfig_def)
    from api this show ?thesis
    proof (cases rule: authentication_required [where h = h and ctx = None and st = st])
      case (passed scheme token verify p)
      then show ?thesis using api False by (auto simp: authenticated_def httpConfig_def)
    next
      case (refused rs)
      then show ?thesis by simp
    qed
  qed
qed

lemma table_roles:
  "list_all (\<lambda>r. rt_method r = ''GET'' \<or> (case rt_role r of None \<Rightarrow> False | Some need \<Rightarrow> need \<noteq> RoleViewer)) (routes sv ctx now)"
  by (simp add: routes_def public_def guarded_def guardedAt_def)

lemma mux_changes:
  assumes "snd (mux sv ctx now segs pctx rq st) \<noteq> st" "rq_method rq \<notin> {''GET'', ''HEAD''}"
  shows "\<exists>r need p. r \<in> set (routes sv ctx now) \<and> routeMatches (rq_method rq) segs r \<and> rt_role r = Some need \<and>
    need \<noteq> RoleViewer \<and> pctx = Some p \<and> HasRole p need"
proof (cases "find (routeMatches (rq_method rq) segs) (routes sv ctx now)")
  case None
  then show ?thesis using assms(1) by (simp add: mux_def split: if_splits)
next
  case (Some r)
  then have r: "r \<in> set (routes sv ctx now)" "routeMatches (rq_method rq) segs r" by (auto dest: find_SomeD)
  then have "rt_method r \<noteq> ''GET''" using assms(2) by (auto simp: routeMatches_def methodMatches_def)
  then obtain need where need: "rt_role r = Some need" "need \<noteq> RoleViewer"
    using table_roles [of sv ctx now] r(1) by (auto simp: list_all_iff split: option.splits)
  have "\<not> (case pctx of None \<Rightarrow> True | Some p \<Rightarrow> \<not> HasRole p need)"
    using assms(1) by (cases pctx) (auto simp: mux_def Some serveRoute_def need(1) requireRole_def split: if_splits)
  then show ?thesis using r need by (auto split: option.splits)
qed

lemma wrapped_changes:
  assumes "snd (snd (serveHTTP sv ctx now bytes segs rq0 (l, st))) \<noteq> st"
  obtains rq where "rq_method rq = rq_method rq0" "rq_path rq = rq_path rq0" "rq_authorization rq = rq_authorization rq0"
    "snd (mux sv ctx now segs None rq st) \<noteq> st"
  | rq p where "rq_method rq = rq_method rq0" "rq_path rq = rq_path rq0" "rq_authorization rq = rq_authorization rq0"
    "authenticated sv rq0 p" "snd (mux sv ctx now segs (Some p) rq st) \<noteq> st"
proof -
  define requestID where "requestID = (if \<not> validRequestID (trimSpace (rq_requestID rq0)) then newRequestID bytes else trimSpace (rq_requestID rq0))"
  define rq where "rq = rq0\<lparr>rq_requestID := requestID\<rparr>"
  have same: "rq_method rq = rq_method rq0" "rq_path rq = rq_path rq0" "rq_authorization rq = rq_authorization rq0"
    by (simp_all add: rq_def)
  define h where "h = withRateLimit now (withJSON (mux sv ctx now segs))"
  have "snd (serveHTTP sv ctx now bytes segs rq0 (l, st)) = snd (withAuthentication (httpConfig sv) h None rq (l, st))"
    by (simp add: serveHTTP_def withRequestID_def withSecurityHeaders_def Let_def case_prod_unfold h_def rq_def requestID_def)
  then have changed: "snd (snd (withAuthentication (httpConfig sv) h None rq (l, st))) \<noteq> st" using assms by simp
  have inner: "snd (snd (h pctx rq (l, st))) \<noteq> st \<Longrightarrow> snd (mux sv ctx now segs pctx rq st) \<noteq> st" for pctx
    by (auto simp: h_def withRateLimit_def withJSON_def Let_def case_prod_unfold split: if_splits)
  have "authenticated sv rq p = authenticated sv rq0 p" for p by (simp add: authenticated_def same)
  then show ?thesis
    using authenticated_path [of sv h rq "(l, st)"] changed inner that same by (metis snd_conv)
qed

text \<open>
  C16. A request other than GET and HEAD that changes the repository or anything outside it was
  sent by an authenticated principal that has the role its route asks for, and that role is
  never just the viewer's: without a valid token (or the development mode) nothing changes.
\<close>
theorem changes_need_role:
  assumes "snd (snd (serveHTTP sv ctx now bytes segs rq (l, st))) \<noteq> st" "rq_method rq \<notin> {''GET'', ''HEAD''}"
  shows "\<exists>p r need. authenticated sv rq p \<and> r \<in> set (routes sv ctx now) \<and> routeMatches (rq_method rq) segs r \<and>
    rt_role r = Some need \<and> need \<noteq> RoleViewer \<and> HasRole p need \<and> HasRole p RoleOperator"
proof -
  have op: "HasRole p need \<Longrightarrow> need \<noteq> RoleViewer \<Longrightarrow> HasRole p RoleOperator" for p need
    using role_hierarchy(1,2) [of p] by (cases need) auto
  from assms(1) show ?thesis
  proof (cases rule: wrapped_changes)
    case (1 rq1)
    then show ?thesis using mux_changes [of sv ctx now segs None rq1 st] assms(2) by simp
  next
    case (2 rq1 p)
    then obtain r need where "r \<in> set (routes sv ctx now)" "routeMatches (rq_method rq) segs r" "rt_role r = Some need"
        "need \<noteq> RoleViewer" "HasRole p need"
      using mux_changes [of sv ctx now segs "Some p" rq1 st] assms(2) by auto
    then show ?thesis using 2(4) op [of p need] by blast
  qed
qed


definition sample_chaos_run :: chaos_run where
  "sample_chaos_run =
     \<lparr>c_id = ''run-1'', c_experimentID = ''custom'', c_status = ChaosApproved, c_message = '''', c_manifest = '''',
      c_resource = \<lparr>rr_apiVersion = '''', rr_kind = ''PodChaos'', rr_namespace = ''shop'', rr_name = ''x''\<rparr>,
      c_targetSelector = [], c_targetCount = 1, c_durationSeconds = 60, c_requestedBy = ''a'', c_approvedBy = ''b'',
      c_approvalReason = '''', c_abortedBy = '''', c_failureReason = '''', c_recoveryStatus = '''', c_recoveryMessage = '''',
      c_attemptCount = 0, c_version = 1, c_createdAt = 1, c_updatedAt = 1, c_approvalExpiresAt = None,
      c_injectionDeadline = None, c_startedAt = None, c_finishedAt = None, c_cleanupDeadline = None, c_recoveryDeadline = None\<rparr>"

text \<open>A chaos manager that counts its executions in the world.\<close>

definition sample_chaos :: "nat chaos_api" where
  "sample_chaos =
     \<lparr>ca_Health = (\<lambda>st. None), ca_TargetNamespace = (\<lambda>m. Inr ''shop''),
      ca_Request = (\<lambda>i m a st. (Inr sample_chaos_run, st)), ca_Approve = (\<lambda>i a r st. (Inr sample_chaos_run, st)),
      ca_Reject = (\<lambda>i a r st. (Inr sample_chaos_run, st)),
      ca_Execute = (\<lambda>i a st. (Inr sample_chaos_run, (fst st, Suc (snd st)))),
      ca_Abort = (\<lambda>i a r st. (Inr sample_chaos_run, st)), ca_Get = (\<lambda>i st. (Inr sample_chaos_run, st)),
      ca_List = (\<lambda>st. (Inr [sample_chaos_run], st))\<rparr>"

definition dev_server :: "'w chaos_api option \<Rightarrow> 'w workflow_client option \<Rightarrow> bool \<Rightarrow> 'w server" where
  "dev_server ca wc mem =
     \<lparr>sv_insecureDevAuth = True, sv_authenticator = None, sv_clusterID = ''default'', sv_allowMemoryWorkflows = mem,
      sv_riskConfig = DefaultConfig, sv_findingExpiry = 0, sv_providerSecretNS = ''kubeathrix'',
      sv_inspector = None, sv_adapters = None, sv_workflow = wc, sv_chaos = ca, sv_advisor = None, sv_managed = None,
      sv_autonomyMode = '''', sv_runtimeIdentity = '''', sv_startedAt = 0, sv_secrets = None,
      sv_validSecretName = (\<lambda>s. True), sv_validSecretKey = (\<lambda>s. True),
      sv_mapOrder = (\<lambda>ks. ks)\<rparr>"

definition execute_request :: request where
  "execute_request =
     \<lparr>rq_method = ''POST'', rq_path = ''/api/experiment-runs/run-1/execute'', rq_query = [], rq_authorization = '''',
      rq_requestID = '''', rq_idempotencyKey = '''', rq_contentType = '''', rq_remoteAddr = '''', rq_body = '''', rq_tooLarge = False\<rparr>"

lemma execute_counts:
  "snd (snd (serveHTTP (dev_server (Some sample_chaos) None True) None 1 None [''api'', ''experiment-runs'', ''run-1'', ''execute'']
     execute_request (newRequestLimiter 0, (s, 0)))) = (s, 1)"
  by (simp add: serveHTTP_def withRequestID_def withSecurityHeaders_def withAuthentication_def withRateLimit_def withJSON_def
      httpConfig_def dev_server_def execute_request_def allow_def bumpWindow_def newRequestLimiter_def Let_def
      mux_def routes_def routeMatches_def methodMatches_def public_def guarded_def guardedAt_def serveRoute_def
      requireRole_def DevelopmentPrincipal_def HasRole_def executeExperimentRun_def authorizedExperimentRun_def
      sample_chaos_def CanAccessNamespace_def CanAccessCluster_def principalOr_def answerRun_def case_prod_unfold hasPrefix_def isZero_def minute_def second_def)

lemma changes_need_role_witness:
  "\<exists>p r need. authenticated (dev_server (Some sample_chaos) None True) execute_request p \<and>
     r \<in> set (routes (dev_server (Some sample_chaos) None True) None 1) \<and>
     routeMatches ''POST'' [''api'', ''experiment-runs'', ''run-1'', ''execute''] r \<and>
     rt_role r = Some need \<and> need \<noteq> RoleViewer \<and> HasRole p need \<and> HasRole p RoleOperator"
  using changes_need_role [of "dev_server (Some sample_chaos) None True" None 1 None
      "[''api'', ''experiment-runs'', ''run-1'', ''execute'']" execute_request "newRequestLimiter 0" "(NewMemoryStore [], 0)"]
  by (simp add: execute_counts) (simp add: execute_request_def)

end
