(* ===== verification/HttpAccess.thy ===== *)
theory HttpAccess
  imports HttpSafety StoreWorkflow
begin

text \<open>
  What access the plan and finding handlers need (\<open>plan_access_required\<close>,
  \<open>finding_access_required\<close>), what a namespaced principal sees of the managed resources
  (\<open>managed_view_confined\<close>), that a provider secret leaves no trace
  (\<open>secret_leaves_no_trace\<close>), and the handlers whose answer and effect disagree
  (\<open>refused_status_is_written\<close>, \<open>refused_plan_is_stored\<close>).
\<close>

subsection \<open>Refusals\<close>

text \<open>An answer without a payload.\<close>

definition refusal :: "payload response \<Rightarrow> bool" where
  "refusal rs \<longleftrightarrow> (\<forall>p. rs_body rs \<noteq> JsonBody p)"

lemma refusal_writeError [simp]: "refusal (writeError rq status message)"
  by (simp add: refusal_def)

lemma refusal_withHeader [simp]: "refusal (fst (withHeader k v r)) = refusal (fst r)"
  by (simp add: refusal_def)

lemma decodeWith_refusal: "decodeWith target rq = Inl rs \<Longrightarrow> refusal rs"
  by (auto simp: decodeWith_def Let_def split: if_splits option.splits prod.splits)

lemma decodeStrict_refusal: "decodeStrict names rq = Inl rs \<Longrightarrow> refusal rs"
  unfolding decodeStrict_def by (rule decodeWith_refusal)

lemma requireFindingAccess_refusal: "requireFindingAccess sv pctx rq f = Some rs \<Longrightarrow> refusal rs"
  by (auto simp: requireFindingAccess_def split: option.splits if_splits)

definition planAllowed :: "'w server \<Rightarrow> ctx_err \<Rightarrow> principal option \<Rightarrow> string \<Rightarrow> store \<times> 'w \<Rightarrow> bool" where
  "planAllowed sv ctx pctx i st \<longleftrightarrow>
     (\<exists>p plan f. pctx = Some p \<and> GetRemediationPlan ctx i (fst st) = Inr plan \<and>
        fst (getFindingByID sv ctx (p_findingID plan) st) = Inr f \<and> findingAllowed p (sv_clusterID sv) f)"

lemma requirePlanAccess_cases:
  obtains (allowed) st1 where "requirePlanAccess sv ctx pctx rq i st = (None, st1)" "planAllowed sv ctx pctx i st"
    "fst st1 = fst st"
  | (refused) rs st1 where "requirePlanAccess sv ctx pctx rq i st = (Some rs, st1)" "refusal rs" "fst st1 = fst st"
proof -
  obtain answer st1 where eq: "requirePlanAccess sv ctx pctx rq i st = (answer, st1)"
    by (cases "requirePlanAccess sv ctx pctx rq i st")
  then have same: "fst st1 = fst st"
    by (auto simp: requirePlanAccess_def dest: getFindingByID_store split: sum.splits prod.splits)
  show ?thesis
  proof (cases answer)
    case None
    then have "planAllowed sv ctx pctx i st"
      using eq requireFindingAccess_None [of sv pctx rq]
      by (auto simp: requirePlanAccess_def planAllowed_def split: sum.splits prod.splits)
    then show ?thesis using None eq same by (auto intro: allowed)
  next
    case (Some rs)
    then have "refusal rs"
      using eq by (auto simp: requirePlanAccess_def dest: requireFindingAccess_refusal split: sum.splits prod.splits)
    then show ?thesis using Some eq same by (auto intro: refused)
  qed
qed

text \<open>
  C18. Showing the diff of a plan, executing it and deciding on its approval need access to the
  finding of the plan: otherwise the answer carries no payload, the repository is unchanged, and
  outside it only the lookup of the finding has happened.
\<close>
theorem plan_access_required:
  assumes "h \<in> {getRemediationPlanDiff sv ctx i, executeRemediationPlan sv ctx now i,
      decideApproval sv ctx now approve (''approval-'' @ i)}"
  shows "planAllowed sv ctx pctx i st \<or>
    (refusal (fst (h pctx rq st)) \<and> fst (snd (h pctx rq st)) = fst st \<and>
     snd (h pctx rq st) \<in> {st, snd (requirePlanAccess sv ctx pctx rq i st)})"
proof (cases rule: requirePlanAccess_cases [of sv ctx pctx rq i st])
  case (refused rs st1)
  then show ?thesis
    using assms
    by (auto simp: getRemediationPlanDiff_def executeRemediationPlan_def decideApproval_def unlessAnswered_def Let_def
        trimPrefix_def hasPrefix_def dest: decodeStrict_refusal split: sum.splits)
qed simp

definition findingAccess :: "'w server \<Rightarrow> ctx_err \<Rightarrow> principal option \<Rightarrow> string \<Rightarrow> store \<times> 'w \<Rightarrow> bool" where
  "findingAccess sv ctx pctx i st \<longleftrightarrow>
     (\<exists>p f. pctx = Some p \<and> fst (getFindingByID sv ctx i st) = Inr f \<and> findingAllowed p (sv_clusterID sv) f)"

text \<open>
  C19. Reading a finding, changing its status, previewing and creating its plan need access to
  that finding: otherwise the answer carries no payload, the repository is unchanged, and
  outside it only the lookup of the finding has happened.
\<close>
theorem finding_access_required:
  assumes "(h, i) \<in> {(getFinding sv ctx k, k), (updateFindingStatus sv ctx now k, k)} \<or>
    (\<exists>m. decodeStrict [''findingId''] rq = Inr m \<and> i = gval m ''findingId'' \<and>
      h \<in> {previewRemediationPlan sv ctx now, createRemediationPlan sv ctx now})"
  shows "findingAccess sv ctx pctx i st \<or>
    (refusal (fst (h pctx rq st)) \<and> fst (snd (h pctx rq st)) = fst st \<and>
     snd (h pctx rq st) \<in> {st, snd (getFindingByID sv ctx i st)})"
proof -
  obtain r st1 where get: "getFindingByID sv ctx i st = (r, st1)" by (cases "getFindingByID sv ctx i st")
  then have same: "fst st1 = fst st" by (rule getFindingByID_store)
  show ?thesis
  proof (cases r)
    case (Inl e)
    then show ?thesis using assms get same
      by (auto simp: getFinding_def updateFindingStatus_def previewRemediationPlan_def createRemediationPlan_def Let_def
          dest: decodeStrict_refusal split: sum.splits)
  next
    case (Inr f)
    show ?thesis
    proof (cases "requireFindingAccess sv pctx rq f")
      case None
      then show ?thesis using get Inr by (auto simp: requireFindingAccess_None findingAccess_def)
    next
      case (Some rs)
      then have "refusal rs" by (rule requireFindingAccess_refusal)
      then show ?thesis using assms get same Inr Some
        by (auto simp: getFinding_def updateFindingStatus_def previewRemediationPlan_def createRemediationPlan_def Let_def
            unlessAnswered_def dest: decodeStrict_refusal split: sum.splits)
    qed
  qed
qed

subsection \<open>Managed resources\<close>

text \<open>
  A principal without access to the cluster sees, of the managed resources, only those of
  the namespaces it may access, only relationships between resources it sees, only findings
  all of whose resources are in its namespaces, and no warnings.
\<close>
theorem managed_view_confined:
  assumes "\<not> CanAccessCluster p c" "view = managedView p c sn"
  shows "(\<forall>r\<in>set (ml_resources view). r \<in> set (ms_resources sn) \<and> mr_namespace r \<noteq> '''' \<and> CanAccessNamespace p c (mr_namespace r)) \<and>
    (\<forall>rel\<in>set (ml_relationships view). \<forall>e\<in>{rel_from rel, rel_to rel}. \<exists>r\<in>set (ml_resources view).
       (mr_uid e = mr_uid r \<and> mr_uid e \<noteq> '''') \<or> (mr_name e = mr_name r \<and> mr_namespace e = mr_namespace r)) \<and>
    (\<forall>f\<in>set (ml_findings view). f_resources f \<noteq> [] \<and>
       (\<forall>r\<in>set (f_resources f). resourceNamespace r \<noteq> '''' \<and> CanAccessNamespace p c (resourceNamespace r))) \<and>
    ml_warnings view = []"
  using assms
  by (auto simp: managedView_def Let_def managedReferenceInResources_def list_ex_iff findingAllowed_def resourcesAllowed_def
      list_all_iff split: if_splits)

subsection \<open>Provider secrets\<close>

text \<open>
  C20. The value of a provider secret reaches nothing but the secret writer: two requests that
  differ in the value only get the same answer and leave the same repository, audit log
  included.
\<close>
theorem secret_leaves_no_trace:
  assumes "decodeStrict [''secretName'', ''key'', ''value''] rq = Inr m"
    "decodeStrict [''secretName'', ''key'', ''value''] (rq\<lparr>rq_body := body\<rparr>) = Inr m'"
    "gval m' ''secretName'' = gval m ''secretName''" "gval m' ''key'' = gval m ''key''"
    "gval m ''value'' \<noteq> ''''" "gval m' ''value'' \<noteq> ''''"
    "length (gval m ''value'') \<le> 65536" "length (gval m' ''value'') \<le> 65536"
    "\<forall>upsert ns n k v v' w. sv_secrets sv = Some upsert \<longrightarrow> isl (fst (upsert ns n k v w)) = isl (fst (upsert ns n k v' w))"
  shows "fst (putModelProviderSecret sv ctx now name pctx (rq\<lparr>rq_body := body\<rparr>) st) =
      fst (putModelProviderSecret sv ctx now name pctx rq st)
    \<and> fst (snd (putModelProviderSecret sv ctx now name pctx (rq\<lparr>rq_body := body\<rparr>) st)) =
      fst (snd (putModelProviderSecret sv ctx now name pctx rq st))"
proof (cases "sv_secrets sv")
  case None
  then show ?thesis by (simp add: putModelProviderSecret_def writeError_def)
next
  case (Some upsert)
  have id: "writeError (rq\<lparr>rq_body := body\<rparr>) = (writeError rq :: _ \<Rightarrow> _ \<Rightarrow> payload response)"
    by (intro ext) (simp add: writeError_def)
  let ?n = "trimSpace (gval m ''secretName'')" let ?k = "trimSpace (gval m ''key'')"
  let ?c = "\<lambda>v. checkSecretRequest sv (trimSpace name) ?n ?k v"
  let ?u = "\<lambda>v. upsert (secretNamespace sv) ?n ?k v (snd st)"
  have check: "?c (gval m' ''value'') = ?c (gval m ''value'')"
    using assms(5-8) by (simp add: checkSecretRequest_def)
  have outcome: "isl (fst (?u (gval m' ''value''))) = isl (fst (?u (gval m ''value'')))"
    using assms(9) Some by blast
  show ?thesis
  proof (cases "?c (gval m ''value'')")
    case (Some e)
    then show ?thesis
      using \<open>sv_secrets sv = Some upsert\<close> check
      by (simp add: putModelProviderSecret_def assms(1-4) Let_def id split: prod.splits)
  next
    case None
    obtain a w where a: "?u (gval m ''value'') = (a, w)" by (cases "?u (gval m ''value'')")
    obtain a' w' where a': "?u (gval m' ''value'') = (a', w')" by (cases "?u (gval m' ''value'')")
    have put: "inWorld (upsert (secretNamespace sv) ?n ?k (gval m ''value'')) st = (a, (fst st, w))"
      "inWorld (upsert (secretNamespace sv) ?n ?k (gval m' ''value'')) st = (a', (fst st, w'))"
      by (simp_all add: inWorld_def a a')
    have stored: "inStore g (s, v) = (fst (g s), (snd (g s), v))" for g :: "store \<Rightarrow> unit store_result" and s and v :: 'b
      by (simp add: inStore_def case_prod_unfold Let_def)
    have "isl a' = isl a" using outcome by (simp add: a a')
    then show ?thesis
      using Some None check
      by (cases a; cases a')
        (auto simp: putModelProviderSecret_def assms(1-4) Let_def id put stored split: sum.splits)
  qed
qed

subsection \<open>Where answer and effect disagree\<close>

text \<open>
  C37. A status change that the repository refuses - every status but \<open>open\<close> and \<open>in_review\<close>, or a
  missing reason - is answered 400, but with a Kubernetes workflow client the new status has
  been written to the finding's custom resource by then.
\<close>
theorem refused_status_is_written:
  assumes "decodeStrict [''status'', ''reason''] rq = Inr m" "getFindingByID sv None i st = (Inr f, st1)"
    "findingAllowed p (sv_clusterID sv) f" "sv_workflow sv = Some wc"
    "wc_SetFindingStatus wc f (findingStatusOf (gval m ''status'')) (Actor p) (trimSpace (gval m ''reason'')) (snd st1) = (Inr (), w2)"
    "gval m ''status'' \<notin> {''open'', ''in_review''} \<or> blank (trimSpace (gval m ''reason''))"
  shows "rs_status (fst (updateFindingStatus sv None now i (Some p) rq st)) = 400
    \<and> snd (updateFindingStatus sv None now i (Some p) rq st) = (fst st, w2)"
proof -
  let ?status = "findingStatusOf (gval m ''status'')"
  have refused: "\<exists>msg. UpdateFindingStatus None now (f_id f) ?status (Actor p) (trimSpace (gval m ''reason'')) s = (Inl (ErrInvalid msg), s)" for s
    using assms(6) by (auto simp: UpdateFindingStatus_def findingStatusOf_def)
  then obtain msg where "UpdateFindingStatus None now (f_id f) ?status (Actor p) (trimSpace (gval m ''reason'')) (fst st) = (Inl (ErrInvalid msg), fst st)"
    by blast
  moreover have "requireFindingAccess sv (Some p) rq f = None" using assms(3) by (simp add: requireFindingAccess_None)
  ultimately show ?thesis
    using assms(1,2,4,5) getFindingByID_store [OF assms(2)]
    by (simp add: updateFindingStatus_def unlessAnswered_def Let_def actorFromRequest_def inWorld_def inStore_def storeStatus_def)
qed

text \<open>
  C. Without a workflow client and without the memory mode, creating a plan is answered 503
  \<open>Kubernetes workflow persistence is required\<close>, but the plan has been stored by then: the
  repository is the one its creation left.
\<close>
theorem refused_plan_is_stored:
  assumes "sv_workflow sv = None" "\<not> sv_allowMemoryWorkflows sv" "sv_advisor sv = None"
    "decodeStrict [''findingId''] rq = Inr m" "gval m ''findingId'' \<noteq> ''''" "validRequestID (trimSpace (rq_idempotencyKey rq))"
    "getFindingByID sv None (gval m ''findingId'') st = (Inr f, st1)" "findingAllowed p (sv_clusterID sv) f"
    "CreateRemediationPlanFromFinding None now f (Actor p) [trimSpace (rq_idempotencyKey rq)] (fst st) = (Inr plan, s2)"
    "p_ai plan = None"
  shows "rs_status (fst (createRemediationPlan sv None now (Some p) rq st)) = 503
    \<and> fst (snd (createRemediationPlan sv None now (Some p) rq st)) = s2"
proof -
  have "requireFindingAccess sv (Some p) rq f = None" using assms(8) by (simp add: requireFindingAccess_None)
  then show ?thesis
    using assms(1-7,9,10) getFindingByID_store [OF assms(7)]
    by (simp add: createRemediationPlan_def unlessAnswered_def Let_def actorFromRequest_def inStore_def enrichPlanWithAI_def
        persistPlan_def)
qed

subsection \<open>The theorems at concrete inputs\<close>

definition post_request :: "string \<Rightarrow> string \<Rightarrow> string \<Rightarrow> request" where
  "post_request m key body =
     \<lparr>rq_method = m, rq_path = ''/api/'', rq_query = [], rq_authorization = '''', rq_requestID = '''',
      rq_idempotencyKey = key, rq_contentType = ''application/json'', rq_remoteAddr = '''', rq_body = body, rq_tooLarge = False\<rparr>"

definition one_field :: "string \<Rightarrow> string \<Rightarrow> string" where
  "one_field k v = ''{'' @ quoted k @ '':'' @ quoted v @ ''}''"

definition alice :: principal where
  "alice = \<lparr>pc_subject = ''alice'', pc_displayName = '''', pc_roles = {RoleOperator}, pc_namespaces = {}, pc_clusters = {''*''}\<rparr>"

definition visitor :: principal where
  "visitor = \<lparr>pc_subject = ''v'', pc_displayName = '''', pc_roles = {RoleOperator}, pc_namespaces = {''lab''}, pc_clusters = {}\<rparr>"

lemma json_type: "toLower (trimSpace ''application/json'') = ''application/json''"
  by code_simp

lemmas body_eval = decodeStrict_def decodeWith_def post_request_def one_field_def quoted_def decodeObject_def setText_def
  json_type json_eval gval_def

lemma decode_finding: "decodeStrict [''findingId''] (post_request ''POST'' key (one_field ''findingId'' ''f1'')) = Inr [(''findingId'', ''f1'')]"
  by (simp add: body_eval)

lemma decode_status: "decodeStrict [''status'', ''reason''] (post_request ''PATCH'' '''' (one_field ''status'' ''resolved'')) = Inr [(''status'', ''resolved'')]"
  by (simp add: body_eval)

lemma sample_start_lookup:
  "sv_workflow sv = None \<Longrightarrow> getFindingByID sv None ''f1'' (sample_start, w) = (Inr (sample_finding ''Deployment'' ''no pdb''), (sample_start, w))"
  by (simp add: getFindingByID_def repoFinding_def GetFinding_def sample_start_finding)

lemma visitor_refused: "\<not> findingAllowed visitor c (sample_finding ''Deployment'' ''no pdb'')"
  by (simp add: findingAllowed_def CanAccessCluster_def HasRole_def visitor_def resourcesAllowed_def sample_finding_def
      resourceNamespace_def CanAccessNamespace_def)

lemma plan_access_required_witness:
  "refusal (fst (executeRemediationPlan (dev_server None None True) None 1 ''plan-9'' (Some visitor)
     (post_request ''POST'' '''' ''{}'') (sample_start, ())))"
proof -
  have "\<not> planAllowed (dev_server None None True) None (Some visitor) ''plan-9'' (sample_start, ())"
    by (simp add: planAllowed_def GetRemediationPlan_def sample_start_def NewMemoryStore_def WithFindings_def
        WithIntegrations_def emptyStore_def)
  then show ?thesis
    using plan_access_required [of "executeRemediationPlan (dev_server None None True) None 1 ''plan-9''"
        "dev_server None None True" None "''plan-9''" 1 True "Some visitor" "(sample_start, ())"] by blast
qed

lemma finding_access_required_witness:
  "fst (snd (updateFindingStatus (dev_server None None True) None 1 ''f1'' (Some visitor)
     (post_request ''PATCH'' '''' (one_field ''status'' ''resolved'')) (sample_start, ()))) = sample_start"
proof -
  have "\<not> findingAccess (dev_server None None True) None (Some visitor) ''f1'' (sample_start, ())"
    using sample_start_lookup [of "dev_server None None True :: unit server" "()"] visitor_refused
    by (simp add: findingAccess_def dev_server_def)
  then show ?thesis
    using finding_access_required [where h = "updateFindingStatus (dev_server None None True) None 1 ''f1''" and i = "''f1''" and k = "''f1''"
        and sv = "dev_server None None True" and ctx = None and now = 1 and pctx = "Some visitor"
        and rq = "post_request ''PATCH'' '''' (one_field ''status'' ''resolved'')" and st = "(sample_start, ())"]
    by auto
qed

definition sample_managed :: managed_snapshot where
  "sample_managed =
     \<lparr>ms_observedAt = 1,
      ms_resources = [\<lparr>mr_apiVersion = ''v1'', mr_kind = ''Bucket'', mr_namespace = ''lab'', mr_name = ''b'', mr_uid = ''1''\<rparr>,
        \<lparr>mr_apiVersion = ''v1'', mr_kind = ''Bucket'', mr_namespace = ''shop'', mr_name = ''c'', mr_uid = ''2''\<rparr>],
      ms_relationships = [], ms_findings = [sample_finding ''Deployment'' ''no pdb''], ms_warnings = [''w'']\<rparr>"

lemma managed_view_confined_witness:
  "map mr_name (ml_resources (managedView visitor ''default'' sample_managed)) = [''b''] \<and>
   ml_warnings (managedView visitor ''default'' sample_managed) = []"
proof -
  have no: "\<not> CanAccessCluster visitor ''default''" by (simp add: CanAccessCluster_def HasRole_def visitor_def)
  have "map mr_name (ml_resources (managedView visitor ''default'' sample_managed)) = [''b'']"
    using no by (simp add: managedView_def Let_def sample_managed_def CanAccessNamespace_def) (simp add: visitor_def)
  then show ?thesis using managed_view_confined [OF no refl, of sample_managed] by simp
qed

definition secret_body :: "string \<Rightarrow> string" where
  "secret_body v = ''{'' @ quoted ''secretName'' @ '':'' @ quoted ''s'' @ '','' @ quoted ''key'' @ '':'' @ quoted ''k'' @ '','' @
     quoted ''value'' @ '':'' @ quoted v @ ''}''"

lemma decode_secret:
  "decodeStrict [''secretName'', ''key'', ''value''] (post_request ''PUT'' '''' (secret_body ''one'')) =
     Inr [(''secretName'', ''s''), (''key'', ''k''), (''value'', ''one'')]"
  "decodeStrict [''secretName'', ''key'', ''value''] ((post_request ''PUT'' '''' (secret_body ''one''))\<lparr>rq_body := secret_body ''two''\<rparr>) =
     Inr [(''secretName'', ''s''), (''key'', ''k''), (''value'', ''two'')]"
  by (simp_all add: body_eval secret_body_def)

text \<open>A secret writer that keeps what it is given in the world.\<close>

definition secret_server :: "string server" where
  "secret_server = (dev_server None None True)\<lparr>sv_secrets := Some (\<lambda>ns n k v w. (Inr (), v))\<rparr>"

lemma secret_leaves_no_trace_witness:
  "fst (snd (putModelProviderSecret secret_server None 1 ''openai'' (Some alice)
     ((post_request ''PUT'' '''' (secret_body ''one''))\<lparr>rq_body := secret_body ''two''\<rparr>) (sample_start, ''''))) =
   fst (snd (putModelProviderSecret secret_server None 1 ''openai'' (Some alice)
     (post_request ''PUT'' '''' (secret_body ''one'')) (sample_start, '''')))"
  using secret_leaves_no_trace [OF decode_secret, of secret_server None 1 "''openai''" "Some alice" "(sample_start, '''')"]
  by (simp add: secret_server_def dev_server_def gval_def)

text \<open>A workflow client that counts the status writes in the world.\<close>

definition sample_workflow :: "nat workflow_client" where
  "sample_workflow =
     \<lparr>wc_Health = (\<lambda>w. (Inr (), w)), wc_ListFindings = (\<lambda>w. (Inr [], w)), wc_GetFinding = (\<lambda>i w. (Inl ''not found'', w)),
      wc_ListRuns = (\<lambda>w. (Inr [], w)), wc_CreatePlan = (\<lambda>f p a w. (Inr (), w)),
      wc_DecideApproval = (\<lambda>i d a r w. (Inl ''not found'', w)), wc_RequestExecution = (\<lambda>i a w. (Inl ''not found'', w)),
      wc_RequestRollback = (\<lambda>i a w. (Inl ''not found'', w)), wc_GetRun = (\<lambda>i w. (Inl ''not found'', w)),
      wc_RenderDiff = (\<lambda>p w. (Inl ''no diff'', w)), wc_SetFindingStatus = (\<lambda>f s a r w. (Inr (), Suc w)),
      wc_CreateException = (\<lambda>x w. (Inr (), w)), wc_DeleteException = (\<lambda>i w. (Inr (), w)),
      wc_ListApprovals = (\<lambda>w. (Inr [], w))\<rparr>"

lemma refused_status_is_written_witness:
  "rs_status (fst (updateFindingStatus (dev_server None (Some sample_workflow) True) None 1 ''f1'' (Some alice)
      (post_request ''PATCH'' '''' (one_field ''status'' ''resolved'')) (sample_start, 0))) = 400
   \<and> snd (updateFindingStatus (dev_server None (Some sample_workflow) True) None 1 ''f1'' (Some alice)
      (post_request ''PATCH'' '''' (one_field ''status'' ''resolved'')) (sample_start, 0)) = (sample_start, 1)"
proof -
  have "getFindingByID (dev_server None (Some sample_workflow) True) None ''f1'' (sample_start, 0) =
      (Inr (sample_finding ''Deployment'' ''no pdb''), (sample_start, 0))"
    by (simp add: getFindingByID_def repoFinding_def GetFinding_def sample_start_finding dev_server_def sample_workflow_def inWorld_def)
  moreover have "findingAllowed alice c (sample_finding ''Deployment'' ''no pdb'')" for c
    by (simp add: findingAllowed_def CanAccessCluster_def alice_def)
  ultimately show ?thesis
    using refused_status_is_written [OF decode_status, of "dev_server None (Some sample_workflow) True" "''f1''" "(sample_start, 0)"
        "sample_finding ''Deployment'' ''no pdb''" "(sample_start, 0)" alice sample_workflow 1 1]
    by (simp add: dev_server_def sample_workflow_def gval_def)
qed

lemma refused_plan_is_stored_witness:
  "rs_status (fst (createRemediationPlan (dev_server None None False) None 100 (Some alice)
      (post_request ''POST'' ''key-0001'' (one_field ''findingId'' ''f1'')) (sample_start, ()))) = 503
   \<and> fst (snd (createRemediationPlan (dev_server None None False) None 100 (Some alice)
      (post_request ''POST'' ''key-0001'' (one_field ''findingId'' ''f1'')) (sample_start, ()))) = sample_planned ''key-0001''"
proof -
  have created: "CreateRemediationPlanFromFinding None 100 (sample_finding ''Deployment'' ''no pdb'') ''alice'' [''key-0001''] sample_start =
      (Inr (sample_plan ''key-0001''), sample_planned ''key-0001'')"
    using sample_created [of "''key-0001''"]
    by (simp add: CreateRemediationPlanFromFinding_def CreateRemediationPlan_def sample_start_finding)
      (simp add: sample_finding_def sample_start_finding)
  have actor: "Actor alice = ''alice''" by (simp add: Actor_def alice_def)
  have key: "trimSpace (rq_idempotencyKey (post_request ''POST'' ''key-0001'' b)) = ''key-0001''" for b
    by (simp add: post_request_def) code_simp
  have valid: "validRequestID ''key-0001''" by code_simp
  have ai: "p_ai (sample_plan ''key-0001'') = None"
    by (simp add: sample_plan_def planFor_def buildRemediationPlan_def Let_def)
  have "findingAllowed alice c (sample_finding ''Deployment'' ''no pdb'')" for c
    by (simp add: findingAllowed_def CanAccessCluster_def alice_def)
  then show ?thesis
    using refused_plan_is_stored [OF _ _ _ decode_finding [of "''key-0001''"], of "dev_server None None False" "(sample_start, ())"
        "sample_finding ''Deployment'' ''no pdb''" "(sample_start, ())" alice 100 "sample_plan ''key-0001''" "sample_planned ''key-0001''"]
      sample_start_lookup [of "dev_server None None False :: unit server" "()"] created actor key valid ai
    by (simp add: dev_server_def gval_def)
qed

end
