(* ===== verification/WorkflowObjects.thy ===== *)
theory WorkflowObjects
  imports MemoryStore Json GoTime Sha256 Kubernetes
begin

text \<open>
  The custom resources of \<open>internal/cluster/workflow.go\<close>: their names, how findings, plans and
  approvals are written into them and read back.

  An object is its metadata with the JSON values of \<open>spec\<close> and \<open>status\<close>; a JSON object is a map,
  so the order of its members does not matter.  A nil slice is the empty list and is written as
  an empty array.  Strings are valid UTF-8, which JSON transport leaves alone.  Times are read in
  the strict RFC 3339 form (\<open>GoTime\<close>).
\<close>

subsection \<open>Names\<close>

text \<open>
  \<open>letter\<close> is what remains of a rune of several bytes: its lower-case form when that is a lower-case
  letter or a decimal digit of Unicode, nothing otherwise; the tables of the package \<open>unicode\<close> are
  not written out.  \<open>toLower\<close> is the ASCII part of \<open>strings.ToLower\<close>.
\<close>

definition nameRune :: "(string \<Rightarrow> string) \<Rightarrow> string \<Rightarrow> string" where
  "nameRune letter r =
     (case r of [c] \<Rightarrow> if isDigit c \<or> (CHR ''a'' \<le> c \<and> c \<le> CHR ''z'') then [c] else '''' | _ \<Rightarrow> letter r)"

fun dashRunes :: "(string \<Rightarrow> string) \<Rightarrow> string list \<Rightarrow> string \<Rightarrow> bool \<Rightarrow> string" where
  "dashRunes letter [] out previousDash = out"
| "dashRunes letter (r # rs) out previousDash =
     (if nameRune letter r \<noteq> '''' then dashRunes letter rs (out @ nameRune letter r) False
      else if \<not> previousDash \<and> out \<noteq> [] then dashRunes letter rs (out @ ''-'') True
      else dashRunes letter rs out previousDash)"

definition ObjectName :: "(string \<Rightarrow> string) \<Rightarrow> string \<Rightarrow> string" where
  "ObjectName letter v =
     (let trimmed = trimChar (CHR ''-'') (dashRunes letter (runes (toLower (trimSpace v))) [] False);
          normalized = (if trimmed = '''' then ''workflow'' else trimmed)
      in if length normalized \<le> 63 then normalized
         else trimChar (CHR ''-'') (take 50 normalized) @ ''-'' @ take 12 (hexEncode (sha256 v)))"

subsection \<open>Objects\<close>

record wf_object =
  wo_kind :: string
  wo_name :: string
  wo_annotations :: "(string, string) gomap"
  wo_created :: gotime
  wo_version :: string
  wo_spec :: "json option"
  wo_status :: "json option"

definition apiIDAnnotation :: string where "apiIDAnnotation = ''security.kubeathrix.io/api-id''"
definition findingIDAnnotation :: string where "findingIDAnnotation = ''security.kubeathrix.io/finding-id''"
definition actorAnnotation :: string where "actorAnnotation = ''security.kubeathrix.io/actor''"

definition newObject :: "string \<Rightarrow> string \<Rightarrow> (string, string) gomap \<Rightarrow> json \<Rightarrow> wf_object" where
  "newObject kind name annotations spec =
     \<lparr>wo_kind = kind, wo_name = name, wo_annotations = annotations, wo_created = 0, wo_version = '''',
      wo_spec = Some spec, wo_status = None\<rparr>"

definition annotationOr :: "wf_object \<Rightarrow> string \<Rightarrow> string \<Rightarrow> string" where
  "annotationOr ob name fallback =
     (if gval (wo_annotations ob) name \<noteq> '''' then gval (wo_annotations ob) name else fallback)"

text \<open>\<open>unstructured.NestedString\<close> and its siblings, with the zero value for every failure.\<close>

fun jsonAt :: "json \<Rightarrow> string list \<Rightarrow> json option" where
  "jsonAt j [] = Some j"
| "jsonAt (JObj ms) (k # ks) = (case gget ms k of None \<Rightarrow> None | Some v \<Rightarrow> jsonAt v ks)"
| "jsonAt _ (k # ks) = None"

definition nestedAt :: "json option \<Rightarrow> string list \<Rightarrow> json option" where
  "nestedAt j ks = (case j of None \<Rightarrow> None | Some v \<Rightarrow> jsonAt v ks)"

definition nestedString :: "json option \<Rightarrow> string list \<Rightarrow> string" where
  "nestedString j ks = (case nestedAt j ks of Some (JStr s) \<Rightarrow> s | _ \<Rightarrow> '''')"

definition nestedBool :: "json option \<Rightarrow> string list \<Rightarrow> bool" where
  "nestedBool j ks = (case nestedAt j ks of Some (JBool b) \<Rightarrow> b | _ \<Rightarrow> False)"

definition nestedSlice :: "json option \<Rightarrow> string list \<Rightarrow> json list" where
  "nestedSlice j ks = (case nestedAt j ks of Some (JArr vs) \<Rightarrow> vs | _ \<Rightarrow> [])"

text \<open>\<open>unstructured.SetNestedField\<close>: \<open>None\<close> when something on the way is not a map.\<close>

fun setNested :: "json \<Rightarrow> string list \<Rightarrow> json \<Rightarrow> json option" where
  "setNested (JObj ms) [k] v = Some (JObj (gput k v ms))"
| "setNested (JObj ms) (k # k' # ks) v =
     (case setNested (case gget ms k of None \<Rightarrow> JObj [] | Some j \<Rightarrow> j) (k' # ks) v of
        None \<Rightarrow> None | Some j \<Rightarrow> Some (JObj (gput k j ms)))"
| "setNested _ _ v = None"

definition setSpec :: "string list \<Rightarrow> json \<Rightarrow> wf_object \<Rightarrow> wf_object option" where
  "setSpec ks v ob =
     map_option (\<lambda>j. ob\<lparr>wo_spec := Some j\<rparr>)
       (setNested (case wo_spec ob of None \<Rightarrow> JObj [] | Some j \<Rightarrow> j) ks v)"

subsection \<open>Times\<close>

definition parseOrZero :: "string \<Rightarrow> gotime" where
  "parseOrZero s = (case parseRFC3339 s of None \<Rightarrow> 0 | Some t \<Rightarrow> t)"

definition transitionTime :: "wf_object \<Rightarrow> gotime" where
  "transitionTime ob =
     (case parseRFC3339 (nestedString (wo_status ob) [''lastTransitionTime'']) of Some t \<Rightarrow> t | None \<Rightarrow> wo_created ob)"

subsection \<open>Writing\<close>

definition omitEmpty :: "string \<Rightarrow> string \<Rightarrow> (string \<times> json) list" where
  "omitEmpty k v = (if v = '''' then [] else [(k, JStr v)])"

definition jsonInt :: "int \<Rightarrow> json" where "jsonInt i = JNum (itoa i)"

definition jsonTexts :: "string list \<Rightarrow> json" where "jsonTexts xs = JArr (map JStr xs)"

definition evidenceJson :: "evidence \<Rightarrow> json" where
  "evidenceJson e =
     JObj [(''details'', JStr (ev_details e)), (''observedAt'', JStr (rfc3339Nano (ev_observedAt e))),
       (''sourceId'', JStr (ev_sourceID e)), (''summary'', JStr (ev_summary e))]"

definition resourceJson :: "resource_ref \<Rightarrow> json" where
  "resourceJson r =
     JObj ([(''apiVersion'', JStr (rr_apiVersion r)), (''kind'', JStr (rr_kind r)), (''name'', JStr (rr_name r))] @
       omitEmpty ''namespace'' (rr_namespace r))"

definition keysJson :: "correlation_keys \<Rightarrow> json" where
  "keysJson k =
     JObj (omitEmpty ''identity'' (ck_identity k) @ omitEmpty ''image'' (ck_image k) @ omitEmpty ''namespace'' (ck_namespace k) @
       omitEmpty ''networkExposure'' (ck_networkExposure k) @ omitEmpty ''workload'' (ck_workload k))"

definition factorJson :: "risk_factor \<Rightarrow> json" where
  "factorJson f = JObj [(''name'', JStr (rf_name f)), (''points'', jsonInt (rf_points f)), (''reason'', JStr (rf_reason f))]"

definition riskJson :: "risk_explanation \<Rightarrow> json" where
  "riskJson e =
     JObj [(''baseScore'', jsonInt (re_baseScore e)), (''factors'', JArr (map factorJson (re_factors e))),
       (''finalScore'', jsonInt (re_finalScore e)), (''version'', JStr (re_version e))]"

definition findingSpec :: "finding \<Rightarrow> json" where
  "findingSpec f =
     JObj [(''blastRadius'', JStr (f_blastRadius f)), (''correlationGroup'', JStr (f_correlationGroup f)),
       (''correlationKeys'', keysJson (f_correlationKeys f)), (''evidence'', JArr (map evidenceJson (f_evidence f))),
       (''findingStatus'', JStr (findingStatusString (f_status f))), (''fixability'', JStr (fixabilityString (f_fixability f))),
       (''recommendedAction'', JStr (f_recommendedAction f)), (''remediationState'', JStr (f_remediationState f)),
       (''resources'', JArr (map resourceJson (f_resources f))), (''riskExplanation'', riskJson (f_riskExplanation f)),
       (''riskScore'', jsonInt (f_riskScore f)), (''severity'', JStr (severityString (f_severity f))),
       (''source'', JStr (f_source f)), (''title'', JStr (f_title f))]"

definition actionJson :: "typed_action \<Rightarrow> json" where
  "actionJson a =
     JObj ([(''description'', JStr (ta_description a))] @
       (if ta_params a = [] then [] else [(''params'', JObj (map (\<lambda>(k, v). (k, JStr v)) (ta_params a)))]) @
       [(''target'', resourceJson (ta_target a)), (''type'', JStr (ta_type a))])"

definition policyJson :: "approval_policy \<Rightarrow> json" where
  "policyJson p =
     JObj ((if ap_categories p = [] then [] else [(''categories'', jsonTexts (ap_categories p))]) @
       omitEmpty ''decision'' (approvalStatusString (ap_decision p)) @ [(''required'', JBool (ap_required p))])"

definition analysisJson :: "ai_analysis \<Rightarrow> json" where
  "analysisJson a =
     JObj [(''autonomousPolicy'', JStr (ai_autonomousPolicy a)), (''confidence'', JStr (ai_confidence a)),
       (''generatedAt'', JStr (rfc3339Nano (ai_generatedAt a))), (''impact'', JStr (ai_impact a)), (''mode'', JStr (ai_mode a)),
       (''model'', JStr (ai_model a)), (''provider'', JStr (ai_provider a)), (''recommendedAction'', JStr (ai_recommendedAction a)),
       (''rootCause'', JStr (ai_rootCause a)), (''safetyNotes'', jsonTexts (ai_safetyNotes a)), (''summary'', JStr (ai_summary a))]"

subsection \<open>Reading\<close>

text \<open>The members come in the order of their keys, in which \<open>json.Marshal\<close> wrote the map.\<close>

definition readObject :: "string list \<Rightarrow> (string \<Rightarrow> json \<Rightarrow> 's \<Rightarrow> 's option) \<Rightarrow> 's \<Rightarrow> json \<Rightarrow> 's option" where
  "readObject names setField s j =
     (case j of
        JObj ms \<Rightarrow> readMembers names setField (sortSlice (\<lambda>a b. fst a < fst b) ms) s
      | JNull \<Rightarrow> Some s
      | _ \<Rightarrow> None)"

definition readInt :: "json \<Rightarrow> int \<Rightarrow> int option" where
  "readInt j old = (case j of JNum lit \<Rightarrow> parseInt 64 lit | JNull \<Rightarrow> Some old | _ \<Rightarrow> None)"

definition readTime :: "json \<Rightarrow> gotime \<Rightarrow> gotime option" where
  "readTime j old = (case j of JStr s \<Rightarrow> parseRFC3339 s | JNull \<Rightarrow> Some old | _ \<Rightarrow> None)"

definition noEvidence :: evidence where
  "noEvidence = \<lparr>ev_summary = '''', ev_details = '''', ev_sourceID = '''', ev_observedAt = 0\<rparr>"

definition setEvidence :: "string \<Rightarrow> json \<Rightarrow> evidence \<Rightarrow> evidence option" where
  "setEvidence n v e =
     (if n = ''summary'' then map_option (\<lambda>x. e\<lparr>ev_summary := x\<rparr>) (decodeStringField v (ev_summary e))
      else if n = ''details'' then map_option (\<lambda>x. e\<lparr>ev_details := x\<rparr>) (decodeStringField v (ev_details e))
      else if n = ''sourceId'' then map_option (\<lambda>x. e\<lparr>ev_sourceID := x\<rparr>) (decodeStringField v (ev_sourceID e))
      else map_option (\<lambda>x. e\<lparr>ev_observedAt := x\<rparr>) (readTime v (ev_observedAt e)))"

definition noResource :: resource_ref where
  "noResource = \<lparr>rr_apiVersion = '''', rr_kind = '''', rr_namespace = '''', rr_name = ''''\<rparr>"

definition setResource :: "string \<Rightarrow> json \<Rightarrow> resource_ref \<Rightarrow> resource_ref option" where
  "setResource n v r =
     (if n = ''apiVersion'' then map_option (\<lambda>x. r\<lparr>rr_apiVersion := x\<rparr>) (decodeStringField v (rr_apiVersion r))
      else if n = ''kind'' then map_option (\<lambda>x. r\<lparr>rr_kind := x\<rparr>) (decodeStringField v (rr_kind r))
      else if n = ''namespace'' then map_option (\<lambda>x. r\<lparr>rr_namespace := x\<rparr>) (decodeStringField v (rr_namespace r))
      else map_option (\<lambda>x. r\<lparr>rr_name := x\<rparr>) (decodeStringField v (rr_name r)))"

definition noKeys :: correlation_keys where
  "noKeys = \<lparr>ck_workload = '''', ck_namespace = '''', ck_identity = '''', ck_networkExposure = '''', ck_image = ''''\<rparr>"

definition setKeys :: "string \<Rightarrow> json \<Rightarrow> correlation_keys \<Rightarrow> correlation_keys option" where
  "setKeys n v k =
     (if n = ''workload'' then map_option (\<lambda>x. k\<lparr>ck_workload := x\<rparr>) (decodeStringField v (ck_workload k))
      else if n = ''namespace'' then map_option (\<lambda>x. k\<lparr>ck_namespace := x\<rparr>) (decodeStringField v (ck_namespace k))
      else if n = ''identity'' then map_option (\<lambda>x. k\<lparr>ck_identity := x\<rparr>) (decodeStringField v (ck_identity k))
      else if n = ''networkExposure'' then map_option (\<lambda>x. k\<lparr>ck_networkExposure := x\<rparr>) (decodeStringField v (ck_networkExposure k))
      else map_option (\<lambda>x. k\<lparr>ck_image := x\<rparr>) (decodeStringField v (ck_image k)))"

definition setFactor :: "string \<Rightarrow> json \<Rightarrow> risk_factor \<Rightarrow> risk_factor option" where
  "setFactor n v f =
     (if n = ''name'' then map_option (\<lambda>x. f\<lparr>rf_name := x\<rparr>) (decodeStringField v (rf_name f))
      else if n = ''points'' then map_option (\<lambda>x. f\<lparr>rf_points := x\<rparr>) (readInt v (rf_points f))
      else map_option (\<lambda>x. f\<lparr>rf_reason := x\<rparr>) (decodeStringField v (rf_reason f)))"

definition noExplanation :: risk_explanation where
  "noExplanation = \<lparr>re_version = '''', re_baseScore = 0, re_factors = [], re_finalScore = 0\<rparr>"

definition setExplanation :: "string \<Rightarrow> json \<Rightarrow> risk_explanation \<Rightarrow> risk_explanation option" where
  "setExplanation n v e =
     (if n = ''version'' then map_option (\<lambda>x. e\<lparr>re_version := x\<rparr>) (decodeStringField v (re_version e))
      else if n = ''baseScore'' then map_option (\<lambda>x. e\<lparr>re_baseScore := x\<rparr>) (readInt v (re_baseScore e))
      else if n = ''factors'' then
        map_option (\<lambda>x. e\<lparr>re_factors := x\<rparr>)
          (readArray (readObject [''name'', ''points'', ''reason''] setFactor \<lparr>rf_name = '''', rf_points = 0, rf_reason = ''''\<rparr>) v)
      else map_option (\<lambda>x. e\<lparr>re_finalScore := x\<rparr>) (readInt v (re_finalScore e)))"

definition severityOf :: "string \<Rightarrow> severity" where
  "severityOf s =
     (if s = ''critical'' then SeverityCritical else if s = ''high'' then SeverityHigh else if s = ''medium'' then SeverityMedium
      else if s = ''low'' then SeverityLow else if s = ''info'' then SeverityInfo else SeverityOther s)"

definition fixabilityOf :: "string \<Rightarrow> fixability" where
  "fixabilityOf s =
     (if s = ''safe_deterministic'' then FixabilityDeterministic else if s = ''dry_run_then_gated'' then FixabilityGated
      else if s = ''human_approved_only'' then FixabilityHumanOnly
      else if s = ''informational_no_fix'' then FixabilityInformational else FixabilityOther s)"

definition statusOf :: "string \<Rightarrow> finding_status" where
  "statusOf s =
     (if s = ''open'' then FindingOpen else if s = ''in_review'' then FindingInReview
      else if s = ''remediating'' then FindingRemediating else if s = ''resolved'' then FindingResolved
      else if s = ''suppressed'' then FindingSuppressed else if s = ''expired'' then FindingExpired
      else FindingOther s)"

definition approvalOf :: "string \<Rightarrow> approval_status" where
  "approvalOf s =
     (if s = ''pending'' then ApprovalPending else if s = ''approved'' then ApprovalApproved
      else if s = ''rejected'' then ApprovalRejected else if s = ''expired'' then ApprovalExpired else ApprovalOther s)"

definition runStateOf :: "string \<Rightarrow> run_state" where
  "runStateOf s =
     (case find (\<lambda>r. runStateString r = s)
         [RunPendingApproval, RunPrepared, RunApproved, RunExecutionRequested, RunProposalOnly, RunDryRunPassed, RunRunning,
          RunVerifying, RunRollbackRequested, RunSucceeded, RunFailed, RunRolledBack] of
        Some r \<Rightarrow> r | None \<Rightarrow> RunOther s)"

text \<open>The wire structure is a finding whose identity and times are filled in later.\<close>

definition noFinding :: finding where
  "noFinding =
     \<lparr>f_id = '''', f_source = '''', f_title = '''', f_severity = severityOf '''', f_evidence = [], f_resources = [], f_blastRadius = '''',
      f_fixability = fixabilityOf '''', f_status = statusOf '''', f_correlationGroup = '''', f_correlationKeys = noKeys, f_riskScore = 0,
      f_riskExplanation = noExplanation, f_remediationState = '''', f_recommendedAction = '''', f_createdAt = 0, f_updatedAt = 0\<rparr>"

definition wireFields :: "string list" where
  "wireFields = [''source'', ''title'', ''severity'', ''evidence'', ''resources'', ''blastRadius'', ''fixability'', ''findingStatus'',
     ''correlationGroup'', ''riskScore'', ''correlationKeys'', ''riskExplanation'', ''remediationState'', ''recommendedAction'']"

definition setWire :: "string \<Rightarrow> json \<Rightarrow> finding \<Rightarrow> finding option" where
  "setWire n v f =
     (if n = ''source'' then map_option (\<lambda>x. f\<lparr>f_source := x\<rparr>) (decodeStringField v (f_source f))
      else if n = ''title'' then map_option (\<lambda>x. f\<lparr>f_title := x\<rparr>) (decodeStringField v (f_title f))
      else if n = ''severity'' then map_option (\<lambda>x. f\<lparr>f_severity := severityOf x\<rparr>) (decodeStringField v (severityString (f_severity f)))
      else if n = ''evidence'' then
        map_option (\<lambda>x. f\<lparr>f_evidence := x\<rparr>)
          (readArray (readObject [''summary'', ''details'', ''sourceId'', ''observedAt''] setEvidence noEvidence) v)
      else if n = ''resources'' then
        map_option (\<lambda>x. f\<lparr>f_resources := x\<rparr>)
          (readArray (readObject [''apiVersion'', ''kind'', ''namespace'', ''name''] setResource noResource) v)
      else if n = ''blastRadius'' then map_option (\<lambda>x. f\<lparr>f_blastRadius := x\<rparr>) (decodeStringField v (f_blastRadius f))
      else if n = ''fixability'' then
        map_option (\<lambda>x. f\<lparr>f_fixability := fixabilityOf x\<rparr>) (decodeStringField v (fixabilityString (f_fixability f)))
      else if n = ''findingStatus'' then
        map_option (\<lambda>x. f\<lparr>f_status := statusOf x\<rparr>) (decodeStringField v (findingStatusString (f_status f)))
      else if n = ''correlationGroup'' then
        map_option (\<lambda>x. f\<lparr>f_correlationGroup := x\<rparr>) (decodeStringField v (f_correlationGroup f))
      else if n = ''riskScore'' then map_option (\<lambda>x. f\<lparr>f_riskScore := x\<rparr>) (readInt v (f_riskScore f))
      else if n = ''correlationKeys'' then
        map_option (\<lambda>x. f\<lparr>f_correlationKeys := x\<rparr>)
          (readObject [''workload'', ''namespace'', ''identity'', ''networkExposure'', ''image''] setKeys (f_correlationKeys f) v)
      else if n = ''riskExplanation'' then
        map_option (\<lambda>x. f\<lparr>f_riskExplanation := x\<rparr>)
          (readObject [''version'', ''baseScore'', ''factors'', ''finalScore''] setExplanation (f_riskExplanation f) v)
      else if n = ''remediationState'' then
        map_option (\<lambda>x. f\<lparr>f_remediationState := x\<rparr>) (decodeStringField v (f_remediationState f))
      else map_option (\<lambda>x. f\<lparr>f_recommendedAction := x\<rparr>) (decodeStringField v (f_recommendedAction f)))"

definition phaseStatus :: "string \<Rightarrow> finding_status \<Rightarrow> finding_status" where
  "phaseStatus phase status =
     (if phase = ''Resolved'' then FindingResolved else if phase = ''Remediating'' then FindingRemediating
      else if phase = ''InReview'' then FindingInReview else if phase = ''Open'' then FindingOpen else status)"

definition findingFromObject :: "wf_object \<Rightarrow> string + finding" where
  "findingFromObject ob =
     (case wo_spec ob of
        Some (JObj ms) \<Rightarrow>
          (case readObject wireFields setWire noFinding (JObj ms) of
             None \<Rightarrow> Inl ''json''
           | Some wire \<Rightarrow>
               Inr (wire\<lparr>f_id := annotationOr ob apiIDAnnotation (wo_name ob),
                 f_status := phaseStatus (nestedString (wo_status ob) [''phase'']) (f_status wire),
                 f_remediationState := (if nestedString (wo_status ob) [''remediationState''] \<noteq> ''''
                   then nestedString (wo_status ob) [''remediationState''] else f_remediationState wire),
                 f_createdAt := wo_created ob, f_updatedAt := transitionTime ob\<rparr>))
      | _ \<Rightarrow> Inl (''Finding CRD '' @ wo_name ob @ '' has no spec''))"

definition approvalFromObject :: "wf_object \<Rightarrow> approval_request" where
  "approvalFromObject ob =
     (let text = (\<lambda>k. nestedString (wo_spec ob) [k]) in
      \<lparr>a_id = annotationOr ob apiIDAnnotation (wo_name ob), a_subjectRef = text ''subjectRef'',
       a_requestedAction = text ''requestedAction'', a_requester = text ''requester'', a_approver = text ''decidedBy'',
       a_status = approvalOf (text ''decision''), a_expiresAt = parseOrZero (text ''expiresAt''),
       a_createdAt = wo_created ob,
       a_updatedAt = (if text ''decidedAt'' \<noteq> '''' then parseOrZero (text ''decidedAt'') else wo_created ob),
       a_decisionReason = text ''decisionReason''\<rparr>)"

definition primaryActionDescription :: "remediation_plan \<Rightarrow> string" where
  "primaryActionDescription plan =
     (case p_actions plan of [] \<Rightarrow> ''Review remediation plan'' | a # _ \<Rightarrow> ta_description a)"

end
