(* ===== verification/WorkflowClient.thy ===== *)
theory WorkflowClient
  imports WorkflowObjects GoDuration
begin

text \<open>
  The workflow client of \<open>internal/cluster/workflow.go\<close>, which keeps findings, plans, approvals,
  runs and exceptions as custom resources.

  The dynamic client of client-go is the parameter record \<open>wf_api\<close>: operations on named objects
  of a resource over a world \<open>'w\<close>, which other writers may change at any call.  An update sends the
  object with the version it was read with.  The clock is read once for an operation.
\<close>

subsection \<open>Errors\<close>

datatype api_error = ApiNotFound string | ApiAlreadyExists string | ApiConflict string | ApiOther string

datatype wf_error = WfApi api_error | WfNotFound string | WfConflict string | WfText string

fun apiText :: "api_error \<Rightarrow> string" where
  "apiText (ApiNotFound t) = t"
| "apiText (ApiAlreadyExists t) = t"
| "apiText (ApiConflict t) = t"
| "apiText (ApiOther t) = t"

fun wfText :: "wf_error \<Rightarrow> string" where
  "wfText (WfApi e) = apiText e"
| "wfText (WfNotFound t) = t"
| "wfText (WfConflict t) = t"
| "wfText (WfText t) = t"

definition ErrWorkflowConflict :: wf_error where "ErrWorkflowConflict = WfConflict ''workflow object conflict''"

text \<open>\<open>fmt.Errorf("prefix: %w", err)\<close> keeps what kind of error it is.\<close>

fun wrapWf :: "string \<Rightarrow> wf_error \<Rightarrow> wf_error" where
  "wrapWf p (WfApi (ApiNotFound t)) = WfApi (ApiNotFound (p @ t))"
| "wrapWf p (WfApi (ApiAlreadyExists t)) = WfApi (ApiAlreadyExists (p @ t))"
| "wrapWf p (WfApi (ApiConflict t)) = WfApi (ApiConflict (p @ t))"
| "wrapWf p (WfApi (ApiOther t)) = WfApi (ApiOther (p @ t))"
| "wrapWf p (WfNotFound t) = WfNotFound (p @ t)"
| "wrapWf p (WfConflict t) = WfConflict (p @ t)"
| "wrapWf p (WfText t) = WfText (p @ t)"

fun workflowError :: "wf_error \<Rightarrow> wf_error" where
  "workflowError (WfApi (ApiNotFound t)) = WfNotFound (''workflow object not found: '' @ t)"
| "workflowError (WfApi (ApiConflict t)) = WfConflict (''workflow object conflict: '' @ t)"
| "workflowError e = e"

subsection \<open>The client\<close>

record 'w wf_api =
  ap_get :: "string \<Rightarrow> string \<Rightarrow> 'w \<Rightarrow> (api_error + wf_object) \<times> 'w"
  ap_list :: "string \<Rightarrow> 'w \<Rightarrow> (api_error + wf_object list) \<times> 'w"
  ap_create :: "string \<Rightarrow> wf_object \<Rightarrow> 'w \<Rightarrow> (api_error + wf_object) \<times> 'w"
  ap_update :: "string \<Rightarrow> wf_object \<Rightarrow> 'w \<Rightarrow> (api_error + wf_object) \<times> 'w"
  ap_delete :: "string \<Rightarrow> string \<Rightarrow> 'w \<Rightarrow> (api_error + unit) \<times> 'w"

record 'w wf_client =
  wf_api :: "'w wf_api"
  wf_namespace :: string
  wf_letter :: "string \<Rightarrow> string"

definition NewWorkflowClient :: "'w wf_api \<Rightarrow> string \<Rightarrow> (string \<Rightarrow> string) \<Rightarrow> 'w wf_client" where
  "NewWorkflowClient api namespace letter =
     \<lparr>wf_api = api, wf_namespace = (if namespace = '''' then ''kubeathrix'' else namespace), wf_letter = letter\<rparr>"

definition findingResource :: string where "findingResource = ''findings''"
definition planResource :: string where "planResource = ''remediationplans''"
definition approvalResource :: string where "approvalResource = ''approvalrequests''"
definition runResource :: string where "runResource = ''remediationruns''"
definition exceptionResource :: string where "exceptionResource = ''exceptions''"

type_synonym ('w, 'a) wf = "'w \<Rightarrow> (wf_error + 'a) \<times> 'w"

definition viaApi :: "(api_error + 'a) \<times> 'w \<Rightarrow> (wf_error + 'a) \<times> 'w" where
  "viaApi r = (case r of (Inl e, w) \<Rightarrow> (Inl (WfApi e), w) | (Inr a, w) \<Rightarrow> (Inr a, w))"

definition mapErr :: "(wf_error \<Rightarrow> wf_error) \<Rightarrow> (wf_error + 'a) \<times> 'w \<Rightarrow> (wf_error + 'a) \<times> 'w" where
  "mapErr g r = (case r of (Inl e, w) \<Rightarrow> (Inl (g e), w) | (Inr a, w) \<Rightarrow> (Inr a, w))"

definition getObject :: "'w wf_client \<Rightarrow> string \<Rightarrow> string \<Rightarrow> ('w, wf_object) wf" where
  "getObject c r name w = viaApi (ap_get (wf_api c) r name w)"

definition updateObject :: "'w wf_client \<Rightarrow> string \<Rightarrow> wf_object \<Rightarrow> ('w, wf_object) wf" where
  "updateObject c r ob w = viaApi (ap_update (wf_api c) r ob w)"

definition createObject :: "'w wf_client \<Rightarrow> string \<Rightarrow> wf_object \<Rightarrow> ('w, wf_object) wf" where
  "createObject c r ob w = viaApi (ap_create (wf_api c) r ob w)"

definition objectName :: "'w wf_client \<Rightarrow> string \<Rightarrow> string" where
  "objectName c v = ObjectName (wf_letter c) v"

text \<open>\<open>retry.RetryOnConflict\<close>: one more attempt after each conflict, five with \<open>retry.DefaultRetry\<close>.\<close>

fun retryOnConflict :: "nat \<Rightarrow> ('w, 'a) wf \<Rightarrow> ('w, 'a) wf" where
  "retryOnConflict 0 f w = f w"
| "retryOnConflict (Suc n) f w =
     (case f w of (Inl (WfApi (ApiConflict t)), w1) \<Rightarrow> retryOnConflict n f w1 | r \<Rightarrow> r)"

definition DefaultRetry :: nat where "DefaultRetry = 4"

text \<open>The closure given to it: read an object, change it, send it back.\<close>

definition readModifyWrite ::
  "'w wf_client \<Rightarrow> string \<Rightarrow> string \<Rightarrow> (wf_object \<Rightarrow> wf_error + wf_object) \<Rightarrow> ('w, wf_object) wf" where
  "readModifyWrite c r name change w =
     bindR (getObject c r name w) (\<lambda>ob w1.
       (case change ob of Inl e \<Rightarrow> (Inl e, w1) | Inr ob1 \<Rightarrow> updateObject c r ob1 w1))"

definition setFields :: "(string list \<times> json) list \<Rightarrow> wf_object \<Rightarrow> wf_error + wf_object" where
  "setFields fs ob =
     fold (\<lambda>(ks, v) r. case r of
         Inl e \<Rightarrow> Inl e
       | Inr o1 \<Rightarrow> (case setSpec ks v o1 of
           None \<Rightarrow> Inl (WfText ''value cannot be set because a field on the way is not a map'') | Some o2 \<Rightarrow> Inr o2))
       fs (Inr ob)"

definition createIdempotent :: "'w wf_client \<Rightarrow> string \<Rightarrow> wf_object \<Rightarrow> string \<Rightarrow> ('w, unit) wf" where
  "createIdempotent c r ob apiID w =
     (case createObject c r ob w of
        (Inr _, w1) \<Rightarrow> (Inr (), w1)
      | (Inl (WfApi (ApiAlreadyExists t)), w1) \<Rightarrow>
          bindR (getObject c r (wo_name ob) w1) (\<lambda>existing w2.
            if annotationOr existing apiIDAnnotation '''' \<noteq> apiID then (Inl ErrWorkflowConflict, w2) else (Inr (), w2))
      | (Inl e, w1) \<Rightarrow> (Inl e, w1))"

subsection \<open>Findings\<close>

definition upsertStep :: "'w wf_client \<Rightarrow> finding \<Rightarrow> ('w, wf_object) wf" where
  "upsertStep c f w =
     (case getObject c findingResource (objectName c (f_id f)) w of
        (Inl (WfApi (ApiNotFound t)), w1) \<Rightarrow>
          createObject c findingResource
            (newObject ''Finding'' (objectName c (f_id f)) [(apiIDAnnotation, f_id f)] (findingSpec f)) w1
      | (Inl e, w1) \<Rightarrow> (Inl e, w1)
      | (Inr current, w1) \<Rightarrow>
          if annotationOr current apiIDAnnotation '''' \<noteq> f_id f then (Inl ErrWorkflowConflict, w1)
          else updateObject c findingResource (current\<lparr>wo_spec := Some (findingSpec f)\<rparr>) w1)"

definition upsertFinding :: "'w wf_client \<Rightarrow> finding \<Rightarrow> ('w, wf_object) wf" where
  "upsertFinding c f w = retryOnConflict DefaultRetry (upsertStep c f) w"

definition statusStep :: "'w wf_client \<Rightarrow> finding \<Rightarrow> finding_status \<Rightarrow> string \<Rightarrow> string \<Rightarrow> ('w, wf_object) wf" where
  "statusStep c f status actor reason w =
     bindR (mapErr workflowError (getObject c findingResource (objectName c (f_id f)) w)) (\<lambda>ob w1.
       (case setFields [([''findingStatus''], JStr (findingStatusString status))]
          (ob\<lparr>wo_annotations := gput ''security.kubeathrix.io/status-reason'' reason (gput actorAnnotation actor (wo_annotations ob))\<rparr>) of
          Inl e \<Rightarrow> (Inl e, w1)
        | Inr ob1 \<Rightarrow> updateObject c findingResource ob1 w1))"

definition SetFindingStatus ::
  "'w wf_client \<Rightarrow> gotime \<Rightarrow> finding \<Rightarrow> finding_status \<Rightarrow> string \<Rightarrow> string \<Rightarrow> ('w, unit) wf" where
  "SetFindingStatus c now f status actor reason w =
     bindR (upsertFinding c (f\<lparr>f_status := status, f_updatedAt := now\<rparr>) w) (\<lambda>_ w1.
       bindR (retryOnConflict DefaultRetry (statusStep c f status actor reason) w1) (\<lambda>_ w2. (Inr (), w2)))"

fun readFindings :: "wf_object list \<Rightarrow> wf_error + finding list" where
  "readFindings [] = Inr []"
| "readFindings (ob # obs) =
     (case findingFromObject ob of
        Inl e \<Rightarrow> Inl (WfText e)
      | Inr f \<Rightarrow> (case readFindings obs of Inl e \<Rightarrow> Inl e | Inr fs \<Rightarrow> Inr (f # fs)))"

definition listObjects :: "'w wf_client \<Rightarrow> string \<Rightarrow> ('w, wf_object list) wf" where
  "listObjects c r w = mapErr workflowError (viaApi (ap_list (wf_api c) r w))"

definition wfListFindings :: "'w wf_client \<Rightarrow> ('w, finding list) wf" where
  "wfListFindings c w = bindR (listObjects c findingResource w) (\<lambda>obs w1. (readFindings obs, w1))"

definition wfGetFinding :: "'w wf_client \<Rightarrow> string \<Rightarrow> ('w, finding) wf" where
  "wfGetFinding c i w =
     bindR (mapErr workflowError (getObject c findingResource (objectName c i) w)) (\<lambda>ob w1.
       (case findingFromObject ob of Inl e \<Rightarrow> (Inl (WfText e), w1) | Inr f \<Rightarrow> (Inr f, w1)))"

subsection \<open>Exceptions\<close>

definition exceptionSpec :: "exception_rec \<Rightarrow> json" where
  "exceptionSpec x =
     JObj [(''auditMetadata'', JStr (x_auditMetadata x)), (''expiresAt'', JStr (rfc3339 (x_expiresAt x))), (''owner'', JStr (x_owner x)),
       (''reason'', JStr (x_reason x)), (''scope'', JStr (x_scope x))]"

definition wfCreateException :: "'w wf_client \<Rightarrow> exception_rec \<Rightarrow> ('w, unit) wf" where
  "wfCreateException c x w =
     (case createObject c exceptionResource
         (newObject ''Exception'' (objectName c (x_id x)) [(apiIDAnnotation, x_id x)] (exceptionSpec x)) w of
        (Inr _, w1) \<Rightarrow> (Inr (), w1)
      | (Inl (WfApi (ApiAlreadyExists t)), w1) \<Rightarrow>
          bindR (mapErr workflowError (getObject c exceptionResource (objectName c (x_id x)) w1)) (\<lambda>current w2.
            if annotationOr current apiIDAnnotation '''' = x_id x then (Inr (), w2)
            else (Inl (workflowError (WfApi (ApiAlreadyExists t))), w2))
      | (Inl e, w1) \<Rightarrow> (Inl (workflowError e), w1))"

definition wfDeleteException :: "'w wf_client \<Rightarrow> string \<Rightarrow> ('w, unit) wf" where
  "wfDeleteException c i w =
     (case viaApi (ap_delete (wf_api c) exceptionResource (objectName c i) w) of
        (Inl (WfApi (ApiNotFound t)), w1) \<Rightarrow> (Inr (), w1)
      | r \<Rightarrow> mapErr workflowError r)"

subsection \<open>Plans and approvals\<close>

definition planSpec :: "'w wf_client \<Rightarrow> finding \<Rightarrow> remediation_plan \<Rightarrow> json" where
  "planSpec c f plan =
     JObj ([(''actions'', JArr (map actionJson (p_actions plan)))] @
       (case p_ai plan of None \<Rightarrow> [] | Some a \<Rightarrow> [(''ai'', analysisJson a)]) @
       [(''approvalPolicy'', policyJson (p_approvalPolicy plan)), (''catalogVersion'', JStr (p_catalogVersion plan)),
        (''dryRunResult'', JObj [(''message'', JStr (dr_message (p_dryRunResult plan))), (''passed'', JBool (dr_passed (p_dryRunResult plan)))]),
        (''executionRequested'', JBool False),
        (''findingRef'', JObj [(''name'', JStr (objectName c (f_id f))), (''namespace'', JStr (wf_namespace c))]),
        (''riskTier'', JStr (tierString (p_riskTier plan))), (''rollbackSteps'', jsonTexts (p_rollbackSteps plan)),
        (''rootCause'', JStr (p_rootCause plan)), (''runName'', JStr (objectName c (''run-'' @ p_id plan))),
        (''verificationSteps'', jsonTexts (p_verificationSteps plan))])"

definition planObject :: "'w wf_client \<Rightarrow> finding \<Rightarrow> remediation_plan \<Rightarrow> string \<Rightarrow> wf_object" where
  "planObject c f plan actor =
     newObject ''RemediationPlan'' (objectName c (p_id plan))
       [(apiIDAnnotation, p_id plan), (findingIDAnnotation, f_id f), (actorAnnotation, actor)] (planSpec c f plan)"

definition approvalObject :: "'w wf_client \<Rightarrow> gotime \<Rightarrow> remediation_plan \<Rightarrow> string \<Rightarrow> wf_object" where
  "approvalObject c now plan actor =
     newObject ''ApprovalRequest'' (objectName c (''approval-'' @ p_id plan))
       [(apiIDAnnotation, ''approval-'' @ p_id plan), (actorAnnotation, actor)]
       (JObj [(''decision'', JStr ''pending''), (''expiresAt'', JStr (rfc3339 (now + 24 * hour))),
          (''requestedAction'', JStr (primaryActionDescription plan)), (''requester'', JStr actor),
          (''subjectRef'', JStr (objectName c (p_id plan)))])"

definition CreatePlan :: "'w wf_client \<Rightarrow> gotime \<Rightarrow> finding \<Rightarrow> remediation_plan \<Rightarrow> string \<Rightarrow> ('w, unit) wf" where
  "CreatePlan c now f plan actor w =
     (if f_id f = '''' \<or> p_id plan = '''' \<or> p_findingID plan \<noteq> f_id f
      then (Inl (WfText ''invalid finding or remediation plan identity''), w)
      else bindR (mapErr (wrapWf ''persist Finding CRD: '') (upsertFinding c f w)) (\<lambda>_ w1.
        bindR (mapErr (wrapWf ''persist RemediationPlan CRD: '')
            (createIdempotent c planResource (planObject c f plan actor) (p_id plan) w1)) (\<lambda>_ w2.
          if ap_required (p_approvalPolicy plan)
          then mapErr (wrapWf ''persist ApprovalRequest CRD: '')
            (createIdempotent c approvalResource (approvalObject c now plan actor) (''approval-'' @ p_id plan) w2)
          else (Inr (), w2))))"

definition decideChange :: "gotime \<Rightarrow> approval_status \<Rightarrow> string \<Rightarrow> string \<Rightarrow> wf_object \<Rightarrow> wf_error + wf_object" where
  "decideChange now decision actor reason ob =
     (let current = nestedString (wo_spec ob) [''decision''] in
      if current \<noteq> '''' \<and> current \<noteq> ''pending'' \<and> current \<noteq> approvalStatusString decision
      then Inl (WfConflict (''workflow object conflict: approval is already '' @ current))
      else setFields [([''decision''], JStr (approvalStatusString decision)), ([''decidedBy''], JStr actor),
          ([''decisionReason''], JStr reason), ([''decidedAt''], JStr (rfc3339 now))] ob)"

definition setPlanApprovalDecision :: "'w wf_client \<Rightarrow> string \<Rightarrow> approval_status \<Rightarrow> ('w, wf_object) wf" where
  "setPlanApprovalDecision c planName decision w =
     retryOnConflict DefaultRetry
       (readModifyWrite c planResource planName
         (setFields [([''approvalPolicy'', ''decision''], JStr (approvalStatusString decision))])) w"

definition DecideApproval ::
  "'w wf_client \<Rightarrow> gotime \<Rightarrow> string \<Rightarrow> approval_status \<Rightarrow> string \<Rightarrow> string \<Rightarrow> ('w, approval_request) wf" where
  "DecideApproval c now approvalID decision actor reason w =
     (if decision \<noteq> ApprovalApproved \<and> decision \<noteq> ApprovalRejected
      then (Inl (WfText (''unsupported approval decision '' @ quoteGo (approvalStatusString decision))), w)
      else bindR (mapErr workflowError (retryOnConflict DefaultRetry
          (readModifyWrite c approvalResource (objectName c approvalID) (decideChange now decision actor reason)) w))
        (\<lambda>updated w1.
          let planName = nestedString (wo_spec updated) [''subjectRef''] in
          if planName \<noteq> ''''
          then bindR (setPlanApprovalDecision c planName decision w1) (\<lambda>_ w2. (Inr (approvalFromObject updated), w2))
          else (Inr (approvalFromObject updated), w1)))"

definition wfListApprovals :: "'w wf_client \<Rightarrow> ('w, approval_request list) wf" where
  "wfListApprovals c w = bindR (listObjects c approvalResource w) (\<lambda>obs w1. (Inr (map approvalFromObject obs), w1))"

subsection \<open>Execution and runs\<close>

definition executeChange :: "gotime \<Rightarrow> string \<Rightarrow> wf_object \<Rightarrow> wf_error + wf_object" where
  "executeChange now actor ob =
     (if nestedBool (wo_spec ob) [''approvalPolicy'', ''required''] \<and>
         nestedString (wo_spec ob) [''approvalPolicy'', ''decision''] \<noteq> ''approved''
      then Inl (WfConflict ''workflow object conflict: approval is still required'')
      else setFields [([''executionRequested''], JBool True), ([''executionRequestedBy''], JStr actor),
          ([''executionRequestedAt''], JStr (rfc3339 now))] ob)"

definition RequestExecution :: "'w wf_client \<Rightarrow> gotime \<Rightarrow> string \<Rightarrow> string \<Rightarrow> ('w, remediation_run) wf" where
  "RequestExecution c now planID actor w =
     bindR (mapErr workflowError (retryOnConflict DefaultRetry
         (readModifyWrite c planResource (objectName c planID) (executeChange now actor)) w))
       (\<lambda>_ w1. (Inr
         \<lparr>r_id = ''run-'' @ planID, r_planID = planID, r_state = RunExecutionRequested, r_actionStatuses = [],
          r_validationResult = ''execution request is persisted in the RemediationPlan CRD; controller status is pending'',
          r_rollbackMetadata = ''no snapshot exists until the controller begins a mutating action'',
          r_createdAt = now, r_updatedAt = now\<rparr>, w1))"

definition actionStatusOf :: "json \<Rightarrow> action_status option" where
  "actionStatusOf j =
     (case j of
        JObj ms \<Rightarrow> Some \<lparr>as_actionType = nestedString (Some j) [''actionType''], as_state = nestedString (Some j) [''state''],
                      as_message = nestedString (Some j) [''message'']\<rparr>
      | _ \<Rightarrow> None)"

text \<open>The plan identifier of a run: the annotation of its plan, of the run itself, or the plan's name.\<close>

definition runPlanID :: "'w wf_client \<Rightarrow> wf_object \<Rightarrow> 'w \<Rightarrow> string \<times> 'w" where
  "runPlanID c ob w =
     (let planName = nestedString (wo_spec ob) [''planRef'', ''name''];
          annotated = gval (wo_annotations ob) ''security.kubeathrix.io/plan-id'';
          planID = (if annotated = '''' then planName else annotated)
      in if planName = '''' then (planID, w)
         else (case getObject c planResource planName w of
           (Inl e, w1) \<Rightarrow> (planID, w1)
         | (Inr plan, w1) \<Rightarrow> (annotationOr plan apiIDAnnotation planID, w1)))"

definition wfGetRun :: "'w wf_client \<Rightarrow> string \<Rightarrow> ('w, remediation_run) wf" where
  "wfGetRun c runID w =
     bindR (mapErr workflowError (getObject c runResource (objectName c runID) w)) (\<lambda>ob w1.
       let (planID, w2) = runPlanID c ob w1; status = (\<lambda>k. nestedString (wo_status ob) [k]) in
       (Inr \<lparr>r_id = annotationOr ob apiIDAnnotation runID, r_planID = planID, r_state = runStateOf (status ''state''),
             r_actionStatuses = List.map_filter actionStatusOf (nestedSlice (wo_status ob) [''actionStatuses'']),
             r_validationResult = status ''validationResult'', r_rollbackMetadata = status ''rollbackMetadata'',
             r_createdAt = wo_created ob, r_updatedAt = transitionTime ob\<rparr>, w2))"

fun readRuns :: "'w wf_client \<Rightarrow> wf_object list \<Rightarrow> ('w, remediation_run list) wf" where
  "readRuns c [] w = (Inr [], w)"
| "readRuns c (ob # obs) w =
     bindR (wfGetRun c (annotationOr ob apiIDAnnotation (wo_name ob)) w) (\<lambda>run w1.
       bindR (readRuns c obs w1) (\<lambda>runs w2. (Inr (run # runs), w2)))"

definition wfListRuns :: "'w wf_client \<Rightarrow> ('w, remediation_run list) wf" where
  "wfListRuns c w = bindR (listObjects c runResource w) (\<lambda>obs w1. readRuns c obs w1)"

definition rollbackChange :: "gotime \<Rightarrow> string \<Rightarrow> wf_object \<Rightarrow> wf_error + wf_object" where
  "rollbackChange now actor ob =
     setFields [([''rollbackRequested''], JBool True), ([''rollbackRequestedBy''], JStr actor),
       ([''rollbackRequestedAt''], JStr (rfc3339 now))] ob"

definition wfRequestRollback :: "'w wf_client \<Rightarrow> gotime \<Rightarrow> string \<Rightarrow> string \<Rightarrow> ('w, remediation_run) wf" where
  "wfRequestRollback c now runID actor w =
     bindR (wfGetRun c runID w) (\<lambda>run w1.
       if r_state run \<noteq> RunSucceeded \<and> r_state run \<noteq> RunFailed \<and> r_state run \<noteq> RunVerifying
       then (Inl (WfConflict (''workflow object conflict: run state '' @ runStateString (r_state run) @ '' is not eligible for rollback'')), w1)
       else bindR (mapErr workflowError (retryOnConflict DefaultRetry
           (readModifyWrite c planResource (objectName c (r_planID run)) (rollbackChange now actor)) w1))
         (\<lambda>_ w2. (Inr (run\<lparr>r_state := RunRollbackRequested, r_updatedAt := now,
            r_validationResult := ''rollback request is persisted in the RemediationPlan CRD; controller restoration is pending''\<rparr>), w2)))"

definition wfHealth :: "'w wf_client \<Rightarrow> ('w, unit) wf" where
  "wfHealth c w = bindR (viaApi (ap_list (wf_api c) planResource w)) (\<lambda>_ w1. (Inr (), w1))"

end
