(* ===== verification/WorkflowSafety.thy ===== *)
theory WorkflowSafety
  imports WorkflowClient
begin

text \<open>
  Properties of the workflow client: object names are DNS labels (\<open>objectName_label\<close>); the
  approval gate holds for the very version of the plan that a request to execute overwrites
  (\<open>execution_gate_at_write\<close>), and a decision is only written over an open or equal one
  (\<open>decision_at_write\<close>), whatever other writers do in between.
\<close>

subsection \<open>Names\<close>

definition nameChar :: "char \<Rightarrow> bool" where
  "nameChar c \<longleftrightarrow> isDigit c \<or> (CHR ''a'' \<le> c \<and> c \<le> CHR ''z'') \<or> c = CHR ''-''"

definition dnsLabel :: "string \<Rightarrow> bool" where
  "dnsLabel s \<longleftrightarrow> s \<noteq> '''' \<and> length s \<le> 63 \<and> list_all nameChar s \<and> hd s \<noteq> CHR ''-'' \<and> last s \<noteq> CHR ''-''"

lemma dashRunes_chars:
  assumes "\<forall>r\<in>set rs. letter r = ''''" "list_all nameChar out"
  shows "list_all nameChar (dashRunes letter rs out p)"
  using assms
proof (induction rs arbitrary: out p)
  case (Cons r rs)
  have "list_all nameChar (nameRune letter r)"
    using Cons.prems(1) by (auto simp: nameRune_def nameChar_def split: list.splits)
  moreover have "nameChar (CHR ''-'')" by (simp add: nameChar_def)
  ultimately show ?case using Cons by auto
qed simp

lemma trimChar_ends:
  assumes "trimChar c s \<noteq> []"
  shows "hd (trimChar c s) \<noteq> c" "last (trimChar c s) \<noteq> c" "set (trimChar c s) \<subseteq> set s"
proof -
  define a where "a = dropWhile (\<lambda>x. x = c) s"
  define b where "b = dropWhile (\<lambda>x. x = c) (rev a)"
  have t: "trimChar c s = rev b" by (simp add: trimChar_def a_def b_def)
  have ne: "b \<noteq> []" using assms by (simp add: t)
  then have "hd b \<noteq> c" unfolding b_def by (rule hd_dropWhile)
  then show "last (trimChar c s) \<noteq> c" by (simp add: t last_rev ne)
  obtain d where d: "rev a = d @ b" unfolding b_def by (metis takeWhile_dropWhile_id)
  then have a: "a = rev b @ rev d" by (metis rev_append rev_rev_ident)
  then have "a \<noteq> []" using ne by simp
  then have "hd a \<noteq> c" unfolding a_def by (rule hd_dropWhile)
  then show "hd (trimChar c s) \<noteq> c" using ne by (simp add: t a)
  have "set b \<subseteq> set a" using d by (metis set_append set_rev Un_upper2)
  also have "set a \<subseteq> set s" unfolding a_def by (meson set_dropWhileD subsetI)
  finally show "set (trimChar c s) \<subseteq> set s" by (simp add: t)
qed

lemma dropWhile_kept: "x \<in> set s \<Longrightarrow> x \<noteq> c \<Longrightarrow> x \<in> set (dropWhile (\<lambda>y. y = c) s)"
  by (induction s) auto

lemma trimChar_kept: "x \<in> set s \<Longrightarrow> x \<noteq> c \<Longrightarrow> trimChar c s \<noteq> []"
proof -
  assume "x \<in> set s" "x \<noteq> c"
  then have "x \<in> set (dropWhile (\<lambda>y. y = c) (rev (dropWhile (\<lambda>y. y = c) s)))" by (simp add: dropWhile_kept)
  then show ?thesis unfolding trimChar_def by (metis empty_iff list.set(1) rev_is_Nil_conv)
qed

lemma hexDigit_name: "0 \<le> n \<Longrightarrow> n < 16 \<Longrightarrow> nameChar (hexDigit n) \<and> hexDigit n \<noteq> CHR ''-''"
proof -
  assume "0 \<le> n" "n < 16"
  then have "n \<in> {0, 1, 2, 3, 4, 5, 6, 7, 8, 9, 10, 11, 12, 13, 14, 15}" by simp presburger
  then show ?thesis
    by (elim insertE emptyE; simp add: hexDigit_def char_of_def nameChar_def isDigit_def less_eq_char_def)
qed

lemma hex_names: "\<forall>c\<in>set (hexEncode bs). nameChar c \<and> c \<noteq> CHR ''-''"
proof (induction bs)
  case (Cons b bs)
  have "0 \<le> (of_char b :: int) div 16" "(of_char b :: int) div 16 < 16"
    using of_char_bounds [of b] by auto
  note hexDigit_name [OF this]
  moreover have "0 \<le> (of_char b :: int) mod 16" "(of_char b :: int) mod 16 < 16" by simp_all
  note hexDigit_name [OF this]
  ultimately show ?case using Cons by (auto simp: hexEncode_def)
qed (simp add: hexEncode_def)

text \<open>
  An object name is a DNS label of at most 63 characters, for every identifier none of whose
  runes is a letter or digit outside ASCII: long names are cut and made distinct by a hash.
\<close>
theorem objectName_label:
  assumes "\<forall>r\<in>set (runes (toLower (trimSpace v))). letter r = ''''"
  shows "dnsLabel (ObjectName letter v)"
proof -
  define out where "out = dashRunes letter (runes (toLower (trimSpace v))) [] False"
  define n where "n = (if trimChar (CHR ''-'') out = '''' then ''workflow'' else trimChar (CHR ''-'') out)"
  have chars: "list_all nameChar out" unfolding out_def by (rule dashRunes_chars) (use assms in simp_all)
  have "list_all nameChar ''workflow''" by code_simp
  then have n: "n \<noteq> []" "list_all nameChar n" "hd n \<noteq> CHR ''-''" "last n \<noteq> CHR ''-''"
    using trimChar_ends [of "CHR ''-''" out] chars by (auto simp: n_def list_all_iff)
  show ?thesis
  proof (cases "length n \<le> 63")
    case True
    then show ?thesis using n by (simp add: ObjectName_def Let_def n_def [symmetric] out_def [symmetric] dnsLabel_def)
  next
    case False
    define cut where "cut = trimChar (CHR ''-'') (take 50 n)"
    define hash where "hash = take 12 (hexEncode (sha256 v))"
    have name: "ObjectName letter v = cut @ ''-'' @ hash"
      using False by (simp add: ObjectName_def Let_def n_def [symmetric] out_def [symmetric] cut_def hash_def)
    have "hd n \<in> set (take 50 n)" using n(1) by (cases n) auto
    then have "cut \<noteq> []" unfolding cut_def using n(3) by (rule trimChar_kept)
    then have cut: "cut \<noteq> []" "hd cut \<noteq> CHR ''-''" "list_all nameChar cut" "length cut \<le> 50"
    proof -
      show "cut \<noteq> []" by fact
      show "hd cut \<noteq> CHR ''-''" using trimChar_ends(1) [of "CHR ''-''" "take 50 n"] \<open>cut \<noteq> []\<close> by (simp add: cut_def)
      show "list_all nameChar cut" using trimChar_ends(3) [of "CHR ''-''" "take 50 n"] \<open>cut \<noteq> []\<close> n(2)
        by (auto simp: cut_def list_all_iff dest: in_set_takeD)
      show "length cut \<le> 50" unfolding cut_def trimChar_def
        by (metis (no_types, lifting) length_dropWhile_le length_rev length_take min.bounded_iff order_trans min.cobounded2)
    qed
    have hash: "length hash = 12" by (simp add: hash_def)
    have "last hash \<in> set hash" using hash by (metis last_in_set length_0_conv zero_neq_numeral)
    have lower: "list_all nameChar hash" "last hash \<noteq> CHR ''-''"
      using hex_names [of "sha256 v"] \<open>last hash \<in> set hash\<close>
      by (auto simp: hash_def list_all_iff dest!: in_set_takeD)
    have "hash \<noteq> []" using hash by auto
    then show ?thesis using cut hash lower by (simp add: name dnsLabel_def nameChar_def)
  qed
qed


lemma objectName_label_witness: "dnsLabel (ObjectName (\<lambda>r. '''') ''Prod/Web -- image: v1'')"
  by (rule objectName_label) simp

subsection \<open>Writes under optimistic concurrency\<close>

text \<open>
  What the API server documents of \<open>resourceVersion\<close>: an update that carries the version of the
  object just read succeeds only if that object is still the stored one, and then stores what
  was sent.  \<open>stored\<close> is the content of the server; between reading and writing it may have
  been changed by others, in which case the update fails.
\<close>

definition optimistic :: "'w wf_api \<Rightarrow> ('w \<Rightarrow> string \<Rightarrow> string \<Rightarrow> wf_object option) \<Rightarrow> bool" where
  "optimistic api stored \<longleftrightarrow>
     (\<forall>r n w ob w1 ob' u w2. ap_get api r n w = (Inr ob, w1) \<and> wo_name ob' = wo_name ob \<and> wo_version ob' = wo_version ob \<and>
        ap_update api r ob' w1 = (Inr u, w2) \<longrightarrow>
        stored w1 r n = Some ob \<and> stored w2 r n = Some u \<and> wo_spec u = wo_spec ob' \<and> wo_annotations u = wo_annotations ob')"

text \<open>A server that keeps its objects in memory, with a counter for the versions, has this contract.\<close>

type_synonym mem_world = "(string \<times> string, wf_object) gomap \<times> int"

definition memGet :: "string \<Rightarrow> string \<Rightarrow> mem_world \<Rightarrow> (api_error + wf_object) \<times> mem_world" where
  "memGet r n w = (case gget (fst w) (r, n) of None \<Rightarrow> (Inl (ApiNotFound n), w) | Some ob \<Rightarrow> (Inr (ob\<lparr>wo_name := n\<rparr>), w))"

definition memUpdate :: "string \<Rightarrow> wf_object \<Rightarrow> mem_world \<Rightarrow> (api_error + wf_object) \<times> mem_world" where
  "memUpdate r ob w =
     (case gget (fst w) (r, wo_name ob) of
        None \<Rightarrow> (Inl (ApiNotFound (wo_name ob)), w)
      | Some current \<Rightarrow>
          if wo_version current \<noteq> wo_version ob then (Inl (ApiConflict (wo_name ob)), w)
          else (let u = ob\<lparr>wo_version := itoa (snd w)\<rparr> in (Inr u, (gput (r, wo_name ob) u (fst w), snd w + 1))))"

definition memCreate :: "string \<Rightarrow> wf_object \<Rightarrow> mem_world \<Rightarrow> (api_error + wf_object) \<times> mem_world" where
  "memCreate r ob w =
     (case gget (fst w) (r, wo_name ob) of
        Some current \<Rightarrow> (Inl (ApiAlreadyExists (wo_name ob)), w)
      | None \<Rightarrow> (let u = ob\<lparr>wo_version := itoa (snd w)\<rparr> in (Inr u, (gput (r, wo_name ob) u (fst w), snd w + 1))))"

definition memApi :: "mem_world wf_api" where
  "memApi = \<lparr>ap_get = memGet, ap_list = (\<lambda>r w. (Inr (map snd [x \<leftarrow> fst w. fst (fst x) = r]), w)), ap_create = memCreate,
     ap_update = memUpdate, ap_delete = (\<lambda>r n w. (Inr (), (filter (\<lambda>x. fst x \<noteq> (r, n)) (fst w), snd w)))\<rparr>"

definition memStored :: "mem_world \<Rightarrow> string \<Rightarrow> string \<Rightarrow> wf_object option" where
  "memStored w r n = map_option (\<lambda>ob. ob\<lparr>wo_name := n\<rparr>) (gget (fst w) (r, n))"

lemma memApi_optimistic: "optimistic memApi memStored"
  by (auto simp: optimistic_def memApi_def memGet_def memUpdate_def memStored_def Let_def split: option.splits if_splits)

definition memClient :: "mem_world wf_client" where
  "memClient = NewWorkflowClient memApi '''' (\<lambda>r. '''')"

lemma memClient_optimistic: "optimistic (wf_api memClient) memStored"
  by (simp add: memClient_def NewWorkflowClient_def memApi_optimistic)

lemma viaApi_Inr: "viaApi r = (Inr a, w) \<longleftrightarrow> r = (Inr a, w)"
  by (cases r; cases "fst r") (auto simp: viaApi_def)

lemma mapErr_Inr: "mapErr g r = (Inr a, w) \<longleftrightarrow> r = (Inr a, w)"
  by (cases r; cases "fst r") (auto simp: mapErr_def)

lemma retry_success: "retryOnConflict n f w = (Inr a, w') \<Longrightarrow> \<exists>w0. f w0 = (Inr a, w')"
proof (induction n f w rule: retryOnConflict.induct)
  case (2 n f w)
  then show ?case by (auto split: prod.splits sum.splits wf_error.splits api_error.splits)
qed auto

lemma setFields_meta:
  assumes "setFields fs ob = Inr ob'"
  shows "wo_name ob' = wo_name ob \<and> wo_version ob' = wo_version ob \<and> wo_annotations ob' = wo_annotations ob"
  using assms unfolding setFields_def
proof (induction fs arbitrary: ob)
  case (Cons a fs)
  have err: "fold (\<lambda>(ks, v) r. case r of Inl e \<Rightarrow> Inl e | Inr o1 \<Rightarrow> (case setSpec ks v o1 of
      None \<Rightarrow> Inl (WfText ''value cannot be set because a field on the way is not a map'') | Some o2 \<Rightarrow> Inr o2)) fs (Inl e) = Inl e" for e
    by (induction fs) auto
  obtain ks v where a: "a = (ks, v)" by (cases a)
  then obtain o2 where o2: "setSpec ks v ob = Some o2" using Cons.prems err by (auto split: option.splits)
  then show ?case using Cons a by (force simp: setSpec_def)
qed auto

text \<open>A field that was set is read back, and others keep their value.\<close>

lemma setNested_same: "setNested j ks v = Some j' \<Longrightarrow> jsonAt j' ks = Some v"
  by (induction j ks v arbitrary: j' rule: setNested.induct) (auto split: option.splits)

lemma setSpec_one:
  assumes "setSpec [k] v ob = Some ob'"
  shows "nestedAt (wo_spec ob') (k' # ks) = (if k' = k then jsonAt v ks else nestedAt (wo_spec ob) (k' # ks))"
  using assms by (auto simp: setSpec_def nestedAt_def elim!: setNested.elims split: option.splits)

lemma setFields_step:
  "setFields ((ks, v) # fs) ob = Inr ob' \<Longrightarrow> \<exists>o1. setSpec ks v ob = Some o1 \<and> setFields fs o1 = Inr ob'"
proof -
  have err: "fold (\<lambda>(ks, v) r. case r of Inl e \<Rightarrow> Inl e | Inr o1 \<Rightarrow> (case setSpec ks v o1 of
      None \<Rightarrow> Inl (WfText ''value cannot be set because a field on the way is not a map'') | Some o2 \<Rightarrow> Inr o2)) fs (Inl e) = Inl e" for e
    by (induction fs) auto
  assume "setFields ((ks, v) # fs) ob = Inr ob'"
  then show ?thesis using err by (auto simp: setFields_def split: option.splits)
qed

lemma setFields_Nil: "setFields [] ob = Inr ob' \<longleftrightarrow> ob' = ob"
  by (auto simp: setFields_def)

lemma accepted_write:
  assumes "optimistic (wf_api c) stored" "readModifyWrite c r name change w = (Inr u, w')"
    "\<And>ob ob'. change ob = Inr ob' \<Longrightarrow> wo_name ob' = wo_name ob \<and> wo_version ob' = wo_version ob"
  obtains wr ob ob' where "stored wr r name = Some ob" "change ob = Inr ob'" "ap_update (wf_api c) r ob' wr = (Inr u, w')"
    "stored w' r name = Some u" "wo_spec u = wo_spec ob'"
proof -
  obtain ob w1 where read: "ap_get (wf_api c) r name w = (Inr ob, w1)"
      and rest: "(case change ob of Inl e \<Rightarrow> (Inl e, w1) | Inr ob1 \<Rightarrow> updateObject c r ob1 w1) = (Inr u, w')"
    using assms(2) by (auto simp: readModifyWrite_def bindR_Inr getObject_def viaApi_Inr)
  then obtain ob' where change: "change ob = Inr ob'" and sent: "ap_update (wf_api c) r ob' w1 = (Inr u, w')"
    by (cases "change ob") (auto simp: updateObject_def viaApi_Inr)
  have "stored w1 r name = Some ob \<and> stored w' r name = Some u \<and> wo_spec u = wo_spec ob'"
    using assms(1) [unfolded optimistic_def] read assms(3) [OF change] sent by blast
  then show ?thesis using change sent by (auto intro: that)
qed

text \<open>
  C13. When a request to execute a plan succeeds, its last act was an update, and the version of the
  plan stored at that moment (\<open>wr\<close>) - not just one that was read earlier - needed no approval or
  was approved; the plan is now marked as requested by the actor, however other writers interfere.
\<close>
theorem execution_gate_at_write:
  assumes "optimistic (wf_api c) stored" "RequestExecution c now planID actor w = (Inr run, w')"
  shows "\<exists>wr ob sent u. ap_update (wf_api c) planResource sent wr = (Inr u, w') \<and>
    stored wr planResource (objectName c planID) = Some ob \<and> stored w' planResource (objectName c planID) = Some u \<and>
    (nestedBool (wo_spec ob) [''approvalPolicy'', ''required''] \<longrightarrow>
       nestedString (wo_spec ob) [''approvalPolicy'', ''decision''] = ''approved'') \<and>
    nestedBool (wo_spec u) [''executionRequested''] \<and> nestedString (wo_spec u) [''executionRequestedBy''] = actor"
proof -
  from assms(2) obtain u where decided: "retryOnConflict DefaultRetry (readModifyWrite c planResource (objectName c planID) (executeChange now actor)) w = (Inr u, w')"
    by (auto simp: RequestExecution_def bindR_Inr mapErr_Inr)
  from retry_success [OF decided] obtain w0 where attempt: "readModifyWrite c planResource (objectName c planID) (executeChange now actor) w0 = (Inr u, w')"
    by blast
  have meta: "executeChange now actor ob = Inr ob' \<Longrightarrow> wo_name ob' = wo_name ob \<and> wo_version ob' = wo_version ob" for ob ob'
    using setFields_meta by (auto simp: executeChange_def split: if_splits)
  from assms(1) attempt meta obtain wr ob ob' where
    before: "stored wr planResource (objectName c planID) = Some ob" and change: "executeChange now actor ob = Inr ob'" and
    sent: "ap_update (wf_api c) planResource ob' wr = (Inr u, w')" and
    after: "stored w' planResource (objectName c planID) = Some u" "wo_spec u = wo_spec ob'"
    by (rule accepted_write)
  from change have gate: "nestedBool (wo_spec ob) [''approvalPolicy'', ''required''] \<longrightarrow>
      nestedString (wo_spec ob) [''approvalPolicy'', ''decision''] = ''approved''"
    and set: "setFields [([''executionRequested''], JBool True), ([''executionRequestedBy''], JStr actor),
          ([''executionRequestedAt''], JStr (rfc3339 now))] ob = Inr ob'"
    by (auto simp: executeChange_def split: if_splits)
  from set obtain o1 o2 where "setSpec [''executionRequested''] (JBool True) ob = Some o1"
    "setSpec [''executionRequestedBy''] (JStr actor) o1 = Some o2" "setSpec [''executionRequestedAt''] (JStr (rfc3339 now)) o2 = Some ob'"
    by (auto dest!: setFields_step simp: setFields_Nil)
  then have "nestedBool (wo_spec u) [''executionRequested'']" "nestedString (wo_spec u) [''executionRequestedBy''] = actor"
    by (simp_all add: nestedBool_def nestedString_def after(2) setSpec_one)
  then show ?thesis using before after(1) gate sent by blast
qed

definition sampleWorld :: mem_world where
  "sampleWorld =
     ([((''remediationplans'', ''p1''), (newObject ''RemediationPlan'' ''p1'' [(apiIDAnnotation, ''p1'')]
         (JObj [(''approvalPolicy'', JObj [(''decision'', JStr ''approved''), (''required'', JBool True)])]))),
       ((''approvalrequests'', ''approval-p1''), (newObject ''ApprovalRequest'' ''approval-p1'' [(apiIDAnnotation, ''approval-p1'')]
         (JObj [(''decision'', JStr ''pending''), (''subjectRef'', JStr ''p1'')])))], 1)"

lemma execution_gate_at_write_witness:
  "\<exists>wr ob sent u. ap_update (wf_api memClient) planResource sent wr = (Inr u, snd (RequestExecution memClient 0 ''p1'' ''bob'' sampleWorld)) \<and>
     memStored wr planResource (objectName memClient ''p1'') = Some ob \<and>
     nestedBool (wo_spec u) [''executionRequested''] \<and> nestedString (wo_spec u) [''executionRequestedBy''] = ''bob''"
proof -
  have "r_id (projr (fst (RequestExecution memClient 0 ''p1'' ''bob'' sampleWorld))) = ''run-p1''"
    "isl (fst (RequestExecution memClient 0 ''p1'' ''bob'' sampleWorld)) = False" by code_simp+
  then obtain run where "RequestExecution memClient 0 ''p1'' ''bob'' sampleWorld = (Inr run, snd (RequestExecution memClient 0 ''p1'' ''bob'' sampleWorld))"
    by (metis prod.collapse sum.collapse(2))
  from execution_gate_at_write [OF memClient_optimistic this] show ?thesis by blast
qed

text \<open>
  The first half of a decision: the approval was undecided, or carried the same decision, in the
  very state \<open>wr\<close> that the update was applied to.
\<close>

lemma decision_written:
  assumes "optimistic (wf_api c) stored" "decision = ApprovalApproved \<or> decision = ApprovalRejected"
    "retryOnConflict DefaultRetry (readModifyWrite c approvalResource name (decideChange now decision actor reason)) w = (Inr u, wd)"
  shows "\<exists>wr ob sent. ap_update (wf_api c) approvalResource sent wr = (Inr u, wd) \<and>
    stored wr approvalResource name = Some ob \<and>
    nestedString (wo_spec ob) [''decision''] \<in> {'''', ''pending'', approvalStatusString decision} \<and>
    stored wd approvalResource name = Some u \<and>
    a_status (approvalFromObject u) = decision \<and> a_approver (approvalFromObject u) = actor \<and>
    nestedString (wo_spec u) [''decisionReason''] = reason"
proof -
  from retry_success [OF assms(3)] obtain w0
    where attempt: "readModifyWrite c approvalResource name (decideChange now decision actor reason) w0 = (Inr u, wd)"
    by blast
  have meta: "decideChange now decision actor reason ob = Inr ob' \<Longrightarrow> wo_name ob' = wo_name ob \<and> wo_version ob' = wo_version ob" for ob ob'
    using setFields_meta by (auto simp: decideChange_def Let_def split: if_splits)
  from assms(1) attempt meta obtain wr ob ob' where
    before: "stored wr approvalResource name = Some ob" and change: "decideChange now decision actor reason ob = Inr ob'" and
    sent: "ap_update (wf_api c) approvalResource ob' wr = (Inr u, wd)" and
    after: "stored wd approvalResource name = Some u" "wo_spec u = wo_spec ob'"
    by (rule accepted_write)
  from change have gate: "nestedString (wo_spec ob) [''decision''] \<in> {'''', ''pending'', approvalStatusString decision}"
    and set: "setFields [([''decision''], JStr (approvalStatusString decision)), ([''decidedBy''], JStr actor),
          ([''decisionReason''], JStr reason), ([''decidedAt''], JStr (rfc3339 now))] ob = Inr ob'"
    by (auto simp: decideChange_def Let_def split: if_splits)
  from set obtain o1 o2 o3 where "setSpec [''decision''] (JStr (approvalStatusString decision)) ob = Some o1"
    "setSpec [''decidedBy''] (JStr actor) o1 = Some o2" "setSpec [''decisionReason''] (JStr reason) o2 = Some o3"
    "setSpec [''decidedAt''] (JStr (rfc3339 now)) o3 = Some ob'"
    by (auto dest!: setFields_step simp: setFields_Nil)
  then have fields: "nestedString (wo_spec u) [''decision''] = approvalStatusString decision"
    "nestedString (wo_spec u) [''decidedBy''] = actor" "nestedString (wo_spec u) [''decisionReason''] = reason"
    by (simp_all add: nestedString_def after(2) setSpec_one)
  then have "a_approver (approvalFromObject u) = actor" "a_status (approvalFromObject u) = decision"
    using assms(2) by (auto simp: approvalFromObject_def Let_def approvalOf_def approvalStatusString_def)
  then show ?thesis using before after(1) gate fields sent by blast
qed

text \<open>The second half: the plan it is about carries the decision.\<close>

lemma decision_on_plan:
  assumes "optimistic (wf_api c) stored" "setPlanApprovalDecision c name decision w = (Inr u, w')"
  shows "stored w' planResource name = Some u \<and>
    nestedString (wo_spec u) [''approvalPolicy'', ''decision''] = approvalStatusString decision"
proof -
  from retry_success [OF assms(2) [unfolded setPlanApprovalDecision_def]]
  obtain w0 where attempt: "readModifyWrite c planResource name
      (setFields [([''approvalPolicy'', ''decision''], JStr (approvalStatusString decision))]) w0 = (Inr u, w')"
    by blast
  have meta: "setFields [([''approvalPolicy'', ''decision''], JStr (approvalStatusString decision))] ob = Inr ob' \<Longrightarrow>
      wo_name ob' = wo_name ob \<and> wo_version ob' = wo_version ob" for ob ob'
    using setFields_meta by blast
  from assms(1) attempt meta obtain wr ob ob' where
    change: "setFields [([''approvalPolicy'', ''decision''], JStr (approvalStatusString decision))] ob = Inr ob'" and
    after: "stored w' planResource name = Some u" "wo_spec u = wo_spec ob'"
    by (rule accepted_write)
  from setFields_step [OF change] have "setSpec [''approvalPolicy'', ''decision''] (JStr (approvalStatusString decision)) ob = Some ob'"
    by (auto simp: setFields_Nil)
  then obtain j j' where "wo_spec ob' = Some j'" "setNested j [''approvalPolicy'', ''decision''] (JStr (approvalStatusString decision)) = Some j'"
    by (auto simp: setSpec_def simp del: setNested.simps)
  then have "nestedAt (wo_spec ob') [''approvalPolicy'', ''decision''] = Some (JStr (approvalStatusString decision))"
    by (simp add: nestedAt_def setNested_same)
  then show ?thesis using after by (simp add: nestedString_def)
qed

text \<open>
  C14. When a decision on an approval is accepted, the version its update overwrote was undecided
  or carried the same decision: a decision is never turned into its opposite.  The stored approval
  then names decision, actor and reason, the answer says so too, and the plan it refers to, if
  any, is stored with that decision when the call returns.
\<close>
theorem decision_at_write:
  assumes "optimistic (wf_api c) stored" "DecideApproval c now i decision actor reason w = (Inr approval, w')"
  shows "\<exists>wr ob sent u wd. ap_update (wf_api c) approvalResource sent wr = (Inr u, wd) \<and>
    stored wr approvalResource (objectName c i) = Some ob \<and>
    nestedString (wo_spec ob) [''decision''] \<in> {'''', ''pending'', approvalStatusString decision} \<and>
    stored wd approvalResource (objectName c i) = Some u \<and> approval = approvalFromObject u \<and>
    a_status approval = decision \<and> a_approver approval = actor \<and>
    nestedString (wo_spec u) [''decisionReason''] = reason \<and>
    (let planName = nestedString (wo_spec u) [''subjectRef''] in
     planName = '''' \<or> (\<exists>plan. stored w' planResource planName = Some plan \<and>
       nestedString (wo_spec plan) [''approvalPolicy'', ''decision''] = approvalStatusString decision))"
proof -
  from assms(2) obtain u wd where decided: "retryOnConflict DefaultRetry
      (readModifyWrite c approvalResource (objectName c i) (decideChange now decision actor reason)) w = (Inr u, wd)"
    and decision: "decision = ApprovalApproved \<or> decision = ApprovalRejected" and answer: "approval = approvalFromObject u"
    and plan: "nestedString (wo_spec u) [''subjectRef''] = '''' \<or>
      (\<exists>v. setPlanApprovalDecision c (nestedString (wo_spec u) [''subjectRef'']) decision wd = (Inr v, w'))"
    by (auto simp: DecideApproval_def bindR_Inr mapErr_Inr Let_def split: if_splits)
  note decision_written [OF assms(1) decision decided]
  moreover have "let planName = nestedString (wo_spec u) [''subjectRef''] in
     planName = '''' \<or> (\<exists>plan. stored w' planResource planName = Some plan \<and>
       nestedString (wo_spec plan) [''approvalPolicy'', ''decision''] = approvalStatusString decision)"
    using plan decision_on_plan [OF assms(1)] by (auto simp: Let_def)
  ultimately show ?thesis unfolding answer by blast
qed

lemma decision_at_write_witness:
  "\<exists>approval wr ob sent u wd. DecideApproval memClient 0 ''approval-p1'' ApprovalRejected ''alice'' ''too risky'' sampleWorld =
       (Inr approval, snd (DecideApproval memClient 0 ''approval-p1'' ApprovalRejected ''alice'' ''too risky'' sampleWorld)) \<and>
     ap_update (wf_api memClient) approvalResource sent wr = (Inr u, wd) \<and>
     memStored wr approvalResource (objectName memClient ''approval-p1'') = Some ob \<and>
     a_status approval = ApprovalRejected \<and> a_approver approval = ''alice''"
proof -
  have "isl (fst (DecideApproval memClient 0 ''approval-p1'' ApprovalRejected ''alice'' ''too risky'' sampleWorld)) = False" by code_simp
  then obtain approval where "DecideApproval memClient 0 ''approval-p1'' ApprovalRejected ''alice'' ''too risky'' sampleWorld =
      (Inr approval, snd (DecideApproval memClient 0 ''approval-p1'' ApprovalRejected ''alice'' ''too risky'' sampleWorld))"
    by (metis prod.collapse sum.collapse(2))
  from this decision_at_write [OF memClient_optimistic this] show ?thesis by blast
qed

end
