(* ===== verification/WorkflowFinding.thy ===== *)
theory WorkflowFinding
  imports WorkflowSafety
begin

text \<open>
  A finding survives the custom resource: after \<open>upsertFinding\<close>, \<open>GetFinding\<close> reads every member of its
  specification back; the times are the object's, and a status that the operator has written takes
  precedence (\<open>finding_roundtrip\<close>).
\<close>

subsection \<open>Integers and sorted members\<close>

lemma intDigits_nonempty: "intDigits n \<noteq> []"
  by (subst intDigits.simps) simp

lemma digit_not_sign: "isDigit c \<Longrightarrow> c \<noteq> CHR ''-'' \<and> c \<noteq> CHR ''+''"
  by (auto simp: isDigit_def less_eq_char_def)

lemma parseInt_itoa:
  assumes "- (2 ^ 63) \<le> i" "i < 2 ^ 63"
  shows "parseInt 64 (itoa i) = Some i"
proof -
  define d where "d = intDigits (if i < 0 then - i else i)"
  have d: "digitsVal d = (if i < 0 then - i else i)" "list_all isDigit d" "d \<noteq> []"
    using intDigits_value [of "if i < 0 then - i else i"] by (auto simp: d_def intDigits_nonempty)
  obtain c r where cr: "d = c # r" using d(3) by (cases d) auto
  then have c: "c \<noteq> CHR ''-''" "c \<noteq> CHR ''+''" using d(2) digit_not_sign by auto
  show ?thesis
  proof (cases "i < 0")
    case True
    then have "itoa i = CHR ''-'' # d" by (simp add: itoa_def d_def)
    then show ?thesis using d True assms by (simp add: parseInt_def)
  next
    case False
    then have "itoa i = d" by (simp add: itoa_def d_def)
    then show ?thesis using d False assms c by (simp add: parseInt_def Let_def cr)
  qed
qed

lemma insertBy_last:
  "\<forall>y\<in>set ys. \<not> lt x y \<Longrightarrow> insertBy lt x ys = ys @ [x]"
  by (induction ys) auto

lemma sortSlice_sorted:
  assumes "sorted_wrt (\<lambda>a b. \<not> lt b a) xs"
  shows "sortSlice lt xs = xs"
proof -
  have "sorted_wrt (\<lambda>a b. \<not> lt b a) (acc @ xs) \<Longrightarrow> fold (insertBy lt) xs acc = acc @ xs" for acc
  proof (induction xs arbitrary: acc)
    case (Cons x xs)
    then have "insertBy lt x acc = acc @ [x]" by (intro insertBy_last) (auto simp: sorted_wrt_append)
    then show ?case using Cons by simp
  qed simp
  then show ?thesis using assms by (simp add: sortSlice_def)
qed

lemma keys_sorted:
  assumes "sorted_wrt (<) (map fst ms)"
  shows "sortSlice (\<lambda>a b. fst a < fst b) ms = (ms :: (string \<times> json) list)"
proof (rule sortSlice_sorted)
  show "sorted_wrt (\<lambda>a b. \<not> fst b < fst a) ms"
    using assms by (auto simp: sorted_wrt_map elim!: sorted_wrt_mono_rel [rotated])
qed

lemma readObject_sorted:
  "sorted_wrt (<) (map fst ms) \<Longrightarrow> readObject names setField s (JObj ms) = readMembers names setField ms s"
  by (simp add: readObject_def keys_sorted)

lemma readArray_map:
  "\<forall>x\<in>set xs. read (write_one x) = Some x \<Longrightarrow> readArray read (JArr (map write_one xs)) = Some xs"
  unfolding readArray_def by (simp, induction xs) auto

subsection \<open>The parts of a finding\<close>

definition timeOk :: "gotime \<Rightarrow> bool" where
  "timeOk t \<longleftrightarrow> fst (civilDate (t div second div 86400)) \<in> {0..9999}"

definition int64 :: "int \<Rightarrow> bool" where
  "int64 i \<longleftrightarrow> - (2 ^ 63) \<le> i \<and> i < 2 ^ 63"


lemma read_evidence:
  assumes "timeOk (ev_observedAt e)"
  shows "readObject [''summary'', ''details'', ''sourceId'', ''observedAt''] setEvidence noEvidence (evidenceJson e) = Some e"
proof -
  have "sorted_wrt (<) [''details'', ''observedAt'', ''sourceId'', ''summary'']" by code_simp
  then show ?thesis
    using rfc3339Nano_roundtrip [OF assms [unfolded timeOk_def]]
    by (simp add: evidenceJson_def readObject_sorted matchField_def setEvidence_def readTime_def noEvidence_def)
qed

lemma read_resource:
  "readObject [''apiVersion'', ''kind'', ''namespace'', ''name''] setResource noResource (resourceJson r) = Some r"
proof -
  have "sorted_wrt (<) [''apiVersion'', ''kind'', ''name'', ''namespace'']" "sorted_wrt (<) [''apiVersion'', ''kind'', ''name'']"
    by code_simp+
  then show ?thesis
    by (cases r) (simp add: resourceJson_def omitEmpty_def readObject_sorted matchField_def setResource_def noResource_def)
qed

lemma read_factor:
  assumes "int64 (rf_points f)"
  shows "readObject [''name'', ''points'', ''reason''] setFactor \<lparr>rf_name = '''', rf_points = 0, rf_reason = ''''\<rparr> (factorJson f) = Some f"
proof -
  have "sorted_wrt (<) [''name'', ''points'', ''reason'']" by code_simp
  then show ?thesis
    using parseInt_itoa assms
    by (simp add: factorJson_def readObject_sorted matchField_def setFactor_def readInt_def jsonInt_def int64_def)
qed

lemma read_risk:
  assumes "int64 (re_baseScore e)" "int64 (re_finalScore e)" "\<forall>f\<in>set (re_factors e). int64 (rf_points f)"
  shows "readObject [''version'', ''baseScore'', ''factors'', ''finalScore''] setExplanation noExplanation (riskJson e) = Some e"
proof -
  have sorted: "sorted_wrt (<) [''baseScore'', ''factors'', ''finalScore'', ''version'']" by code_simp
  have factors: "readArray (readObject [''name'', ''points'', ''reason''] setFactor \<lparr>rf_name = '''', rf_points = 0, rf_reason = ''''\<rparr>)
      (JArr (map factorJson (re_factors e))) = Some (re_factors e)"
    by (rule readArray_map) (use assms(3) read_factor in blast)
  show ?thesis
    using sorted factors parseInt_itoa assms(1,2)
    by (simp add: riskJson_def readObject_sorted matchField_def setExplanation_def readInt_def jsonInt_def int64_def noExplanation_def)
qed

lemma omit_sorted: "sorted_wrt (<) (map fst (omitEmpty ''identity'' a @ omitEmpty ''image'' b @ omitEmpty ''namespace'' c @
    omitEmpty ''networkExposure'' d @ omitEmpty ''workload'' e))"
proof -
  have "sorted_wrt (<) [''identity'', ''image'', ''namespace'', ''networkExposure'', ''workload'']" by code_simp
  then show ?thesis by (auto simp: omitEmpty_def)
qed

lemma read_keys:
  "readObject [''workload'', ''namespace'', ''identity'', ''networkExposure'', ''image''] setKeys noKeys (keysJson k) = Some k"
  unfolding keysJson_def readObject_sorted [OF omit_sorted]
  by (cases k) (simp add: omitEmpty_def matchField_def setKeys_def noKeys_def)

definition canonicalFinding :: "finding \<Rightarrow> bool" where
  "canonicalFinding f \<longleftrightarrow>
     f_id f \<noteq> '''' \<and> severityOf (severityString (f_severity f)) = f_severity f \<and>
     fixabilityOf (fixabilityString (f_fixability f)) = f_fixability f \<and> statusOf (findingStatusString (f_status f)) = f_status f \<and>
     (\<forall>e\<in>set (f_evidence f). timeOk (ev_observedAt e)) \<and> int64 (f_riskScore f) \<and>
     int64 (re_baseScore (f_riskExplanation f)) \<and> int64 (re_finalScore (f_riskExplanation f)) \<and>
     (\<forall>x\<in>set (re_factors (f_riskExplanation f)). int64 (rf_points x))"

lemma read_finding:
  assumes "canonicalFinding f"
  shows "readObject wireFields setWire noFinding (findingSpec f) = Some (f\<lparr>f_id := '''', f_createdAt := 0, f_updatedAt := 0\<rparr>)"
proof -
  have sorted: "sorted_wrt (<) [''blastRadius'', ''correlationGroup'', ''correlationKeys'', ''evidence'', ''findingStatus'', ''fixability'',
      ''recommendedAction'', ''remediationState'', ''resources'', ''riskExplanation'', ''riskScore'', ''severity'', ''source'', ''title'']"
    by code_simp
  have evidence: "readArray (readObject [''summary'', ''details'', ''sourceId'', ''observedAt''] setEvidence noEvidence)
      (JArr (map evidenceJson (f_evidence f))) = Some (f_evidence f)"
    by (rule readArray_map) (use assms read_evidence in \<open>auto simp: canonicalFinding_def\<close>)
  have resources: "readArray (readObject [''apiVersion'', ''kind'', ''namespace'', ''name''] setResource noResource)
      (JArr (map resourceJson (f_resources f))) = Some (f_resources f)"
    by (rule readArray_map) (use read_resource in blast)
  have risk: "readObject [''version'', ''baseScore'', ''factors'', ''finalScore''] setExplanation noExplanation
      (riskJson (f_riskExplanation f)) = Some (f_riskExplanation f)"
    by (rule read_risk) (use assms in \<open>auto simp: canonicalFinding_def\<close>)
  have score: "parseInt 64 (itoa (f_riskScore f)) = Some (f_riskScore f)"
    using assms parseInt_itoa by (auto simp: canonicalFinding_def int64_def)
  show ?thesis
    using sorted evidence resources risk score read_keys assms
    by (simp add: findingSpec_def readObject_sorted wireFields_def matchField_def setWire_def readInt_def jsonInt_def noFinding_def
        canonicalFinding_def)
qed

text \<open>
  What the client relies on of the API server: a read returns the object that was asked for, and the
  specification and the annotations of an accepted object are those that were sent, in the answer and
  in a read that follows at once.  The status is the server's: an update does not write it.
\<close>

definition keepsSent :: "'w wf_api \<Rightarrow> bool" where
  "keepsSent api \<longleftrightarrow>
     (\<forall>r n w ob w1. ap_get api r n w = (Inr ob, w1) \<longrightarrow> wo_name ob = n) \<and>
     (\<forall>r sent w u w1. ap_create api r sent w = (Inr u, w1) \<or> ap_update api r sent w = (Inr u, w1) \<longrightarrow>
        wo_spec u = wo_spec sent \<and> wo_annotations u = wo_annotations sent \<and>
        fst (ap_get api r (wo_name sent) w1) = Inr u)"

lemma memApi_keepsSent: "keepsSent memApi"
  by (auto simp: keepsSent_def memApi_def memGet_def memUpdate_def memCreate_def Let_def split: option.splits if_splits)

text \<open>What a stored object says of the finding that was sent: status and times are its own.\<close>

definition seenThrough :: "wf_object \<Rightarrow> finding \<Rightarrow> finding" where
  "seenThrough ob f =
     f\<lparr>f_status := phaseStatus (nestedString (wo_status ob) [''phase'']) (f_status f),
       f_remediationState := (if nestedString (wo_status ob) [''remediationState''] = '''' then f_remediationState f
         else nestedString (wo_status ob) [''remediationState'']),
       f_createdAt := wo_created ob, f_updatedAt := transitionTime ob\<rparr>"

lemma findingFromObject_sent:
  assumes "canonicalFinding f" "wo_spec ob = Some (findingSpec f)" "annotationOr ob apiIDAnnotation '''' = f_id f"
  shows "findingFromObject ob = Inr (seenThrough ob f)"
proof -
  have "\<exists>ms. findingSpec f = JObj ms" by (simp add: findingSpec_def)
  then obtain ms where ms: "findingSpec f = JObj ms" ..
  have id: "annotationOr ob apiIDAnnotation n = f_id f" for n
    using assms(1,3) by (auto simp: annotationOr_def canonicalFinding_def split: if_splits)
  show ?thesis
    using read_finding [OF assms(1)] by (simp add: findingFromObject_def seenThrough_def assms(2) ms id)
qed

text \<open>An accepted write of a finding sent its specification under its name and identifier.\<close>

lemma upsertStep_sent:
  assumes "keepsSent (wf_api c)" "f_id f \<noteq> ''''" "upsertStep c f w = (Inr ob, w1)"
  shows "wo_spec ob = Some (findingSpec f) \<and> annotationOr ob apiIDAnnotation '''' = f_id f \<and>
    fst (ap_get (wf_api c) findingResource (objectName c (f_id f)) w1) = Inr ob"
proof -
  obtain r w0 where get: "ap_get (wf_api c) findingResource (objectName c (f_id f)) w = (r, w0)" by fastforce
  have step: "upsertStep c f w =
    (case viaApi (r, w0) of
        (Inl (WfApi (ApiNotFound t)), w1) \<Rightarrow>
          createObject c findingResource
            (newObject ''Finding'' (objectName c (f_id f)) [(apiIDAnnotation, f_id f)] (findingSpec f)) w1
      | (Inl e, w1) \<Rightarrow> (Inl e, w1)
      | (Inr current, w1) \<Rightarrow>
          if annotationOr current apiIDAnnotation '''' \<noteq> f_id f then (Inl ErrWorkflowConflict, w1)
          else updateObject c findingResource (current\<lparr>wo_spec := Some (findingSpec f)\<rparr>) w1)"
    by (simp only: upsertStep_def getObject_def get)
  obtain sent where accepted: "ap_create (wf_api c) findingResource sent w0 = (Inr ob, w1) \<or>
      ap_update (wf_api c) findingResource sent w0 = (Inr ob, w1)"
    and sent: "wo_spec sent = Some (findingSpec f)" "annotationOr sent apiIDAnnotation '''' = f_id f"
      "wo_name sent = objectName c (f_id f)"
  proof (cases r)
    case (Inl e)
    then obtain t where e: "e = ApiNotFound t"
      using assms(3) step by (cases e) (simp_all add: viaApi_def)
    let ?new = "newObject ''Finding'' (objectName c (f_id f)) [(apiIDAnnotation, f_id f)] (findingSpec f)"
    have "ap_create (wf_api c) findingResource ?new w0 = (Inr ob, w1)"
      using assms(3) step Inl e by (simp add: viaApi_def [of "(Inl (ApiNotFound t), w0)"] createObject_def viaApi_Inr)
    then show ?thesis by (rule that [OF disjI1]) (simp_all add: newObject_def annotationOr_def gval_def)
  next
    case (Inr current)
    have name: "wo_name current = objectName c (f_id f)"
      using assms(1) get Inr unfolding keepsSent_def by blast
    have id: "annotationOr current apiIDAnnotation '''' = f_id f"
      and up: "ap_update (wf_api c) findingResource (current\<lparr>wo_spec := Some (findingSpec f)\<rparr>) w0 = (Inr ob, w1)"
      using assms(3) step Inr by (simp_all add: viaApi_def [of "(Inr current, w0)"] updateObject_def viaApi_Inr split: if_splits)
    show ?thesis by (rule that [OF disjI2 [OF up]]) (use name id in \<open>simp_all add: annotationOr_def split: if_splits\<close>)
  qed
  from assms(1) accepted have kept: "wo_spec ob = wo_spec sent" "wo_annotations ob = wo_annotations sent"
    "fst (ap_get (wf_api c) findingResource (wo_name sent) w1) = Inr ob"
    unfolding keepsSent_def by blast+
  then show ?thesis using sent by (simp add: annotationOr_def split: if_splits)
qed

text \<open>
  C15. A finding that was written to its custom resource is read back from it: every member of the
  finding is the one that was written, except that the times are those of the stored object and that
  the phase and the remediation state that the operator has reported in its status prevail.  This
  holds for a new object and for one that is overwritten, whatever its status, provided the finding
  is canonical: its enumerations are not spelled as another constructor of the model, its numbers fit
  64 bits and its times have years of four digits.
\<close>

theorem finding_roundtrip:
  assumes "canonicalFinding f" "keepsSent (wf_api c)" "upsertFinding c f w = (Inr ob, w1)"
  shows "fst (wfGetFinding c (f_id f) w1) =
    Inr (f\<lparr>f_status := phaseStatus (nestedString (wo_status ob) [''phase'']) (f_status f),
      f_remediationState := (if nestedString (wo_status ob) [''remediationState''] = '''' then f_remediationState f
        else nestedString (wo_status ob) [''remediationState'']),
      f_createdAt := wo_created ob, f_updatedAt := transitionTime ob\<rparr>)"
proof -
  have "f_id f \<noteq> ''''" using assms(1) by (simp add: canonicalFinding_def)
  moreover from assms(3) obtain w0 where "upsertStep c f w0 = (Inr ob, w1)"
    unfolding upsertFinding_def by (blast dest: retry_success)
  ultimately have sent: "wo_spec ob = Some (findingSpec f)" "annotationOr ob apiIDAnnotation '''' = f_id f"
    and read: "fst (ap_get (wf_api c) findingResource (objectName c (f_id f)) w1) = Inr ob"
    using upsertStep_sent [OF assms(2)] by blast+
  obtain w2 where "getObject c findingResource (objectName c (f_id f)) w1 = (Inr ob, w2)"
    using read by (metis getObject_def prod.collapse viaApi_Inr)
  then have "fst (wfGetFinding c (f_id f) w1) = Inr (seenThrough ob f)"
    by (simp add: wfGetFinding_def bindR_def mapErr_def findingFromObject_sent [OF assms(1) sent])
  then show ?thesis by (simp add: seenThrough_def)
qed

definition sampleFinding :: finding where
  "sampleFinding =
     noFinding\<lparr>f_id := ''f-1'', f_title := ''Privileged pod'', f_severity := SeverityHigh, f_fixability := FixabilityGated,
       f_status := FindingOpen, f_riskScore := 70,
       f_evidence := [\<lparr>ev_summary = ''s'', ev_details = ''d'', ev_sourceID = ''kyverno'', ev_observedAt = 5\<rparr>],
       f_resources := [\<lparr>rr_apiVersion = ''v1'', rr_kind = ''Pod'', rr_namespace = ''prod'', rr_name = ''web''\<rparr>]\<rparr>"

lemma sample_canonical: "canonicalFinding sampleFinding"
proof -
  have "fst (civilDate (5 div second div 86400)) = 1" by code_simp
  then show ?thesis
    by (simp add: canonicalFinding_def sampleFinding_def noFinding_def noExplanation_def int64_def timeOk_def
        severityOf_def fixabilityOf_def statusOf_def)
qed

text \<open>A stored version of the finding whose status says that it was resolved; it is overwritten.\<close>

definition resolvedWorld :: mem_world where
  "resolvedWorld =
     ([((findingResource, objectName memClient ''f-1''),
       (newObject ''Finding'' (objectName memClient ''f-1'') [(apiIDAnnotation, ''f-1'')] (JObj []))
         \<lparr>wo_created := 9, wo_status := Some (JObj [(''phase'', JStr ''Resolved'')])\<rparr>)], 1)"

theorem finding_roundtrip_witness:
  "fst (wfGetFinding memClient ''f-1'' (snd (upsertFinding memClient sampleFinding resolvedWorld))) =
     Inr (sampleFinding\<lparr>f_status := FindingResolved, f_createdAt := 9, f_updatedAt := 9\<rparr>)"
proof -
  have id: "f_id sampleFinding = ''f-1''" by (simp add: sampleFinding_def)
  have api: "wf_api memClient = memApi" by (simp add: memClient_def NewWorkflowClient_def)
  obtain ob w1 where step: "upsertStep memClient sampleFinding resolvedWorld = (Inr ob, w1)"
    and status: "wo_status ob = Some (JObj [(''phase'', JStr ''Resolved'')])" "wo_created ob = 9"
    by (simp add: upsertStep_def id getObject_def updateObject_def viaApi_def api memApi_def memGet_def memUpdate_def
        resolvedWorld_def newObject_def annotationOr_def gval_def Let_def)
  have wrote: "upsertFinding memClient sampleFinding resolvedWorld = (Inr ob, w1)"
    by (simp add: upsertFinding_def DefaultRetry_def eval_nat_numeral step)
  have "nestedString (wo_status ob) [''phase''] = ''Resolved''" "nestedString (wo_status ob) [''remediationState''] = ''''"
    "transitionTime ob = 9"
    unfolding transitionTime_def status by code_simp+
  then have "fst (wfGetFinding memClient (f_id sampleFinding) w1) =
      Inr (sampleFinding\<lparr>f_status := FindingResolved, f_remediationState := f_remediationState sampleFinding,
        f_createdAt := 9, f_updatedAt := 9\<rparr>)"
    using finding_roundtrip [OF sample_canonical memApi_keepsSent [folded api] wrote] by (simp add: status phaseStatus_def)
  then show ?thesis by (simp add: wrote id)
qed

end
