(* ===== verification/GoRegexp.thy ===== *)
theory GoRegexp
  imports Json
begin

text \<open>
  The part of package \<open>regexp\<close> that the program uses: patterns over classes of runes, matched
  leftmost with the preferences of a backtracking matcher (the order of alternatives, greedy or
  reluctant repetition), word boundaries, groups, and \<open>ReplaceAllString\<close>.

  An item of a pattern reads one rune of the string and says how many bytes it takes, 0 when it
  does not match; repetition applies to items only.  None of the patterns matches the empty string.
\<close>

subsection \<open>Items\<close>

type_synonym item = "string \<Rightarrow> nat"

text \<open>The length of the first rune: an invalid byte is a rune of its own.\<close>

definition runeLen :: "string \<Rightarrow> nat" where
  "runeLen s = (if s = [] then 0 else max 1 (utf8Len s))"

definition anyRune :: item where "anyRune s = runeLen s"

definition byteIn :: "(char \<Rightarrow> bool) \<Rightarrow> item" where
  "byteIn p s = (case s of c # _ \<Rightarrow> if c < CHR 0x80 \<and> p c then 1 else 0 | [] \<Rightarrow> 0)"

definition runeNotIn :: "(char \<Rightarrow> bool) \<Rightarrow> item" where
  "runeNotIn p s = (case s of c # _ \<Rightarrow> if c < CHR 0x80 \<and> p c then 0 else runeLen s | [] \<Rightarrow> 0)"

text \<open>
  With the flag \<open>i\<close> a letter matches in either case, s also U+017F and k also U+212A.
\<close>

definition foldIn :: "(char \<Rightarrow> bool) \<Rightarrow> item" where
  "foldIn p s =
     (case s of
        c # r \<Rightarrow>
          if c = CHR 0xC5 \<and> take 1 r = [CHR 0xBF] then (if p (CHR ''s'') then 2 else 0)
          else if c = CHR 0xE2 \<and> take 2 r = [CHR 0x84, CHR 0xAA] then (if p (CHR ''k'') then 3 else 0)
          else if c < CHR 0x80 \<and> p (asciiLower c) then 1 else 0
      | [] \<Rightarrow> 0)"

subsection \<open>Patterns\<close>

datatype regex =
    RItem item | RRep bool nat item | RSeq regex regex | RAlt regex regex | RGroup nat regex | RWordBoundary | REmpty

text \<open>\<open>RRep greedy n i\<close> is \<open>n\<close> or more times \<open>i\<close>.\<close>

record scan =
  sc_prev :: "char option"
  sc_rest :: string
  sc_groups :: "(nat, string) gomap"

definition isWordByte :: "char \<Rightarrow> bool" where
  "isWordByte c \<longleftrightarrow> isDigit c \<or> (CHR ''a'' \<le> c \<and> c \<le> CHR ''z'') \<or> (CHR ''A'' \<le> c \<and> c \<le> CHR ''Z'') \<or> c = CHR ''_''"

definition atWordBoundary :: "scan \<Rightarrow> bool" where
  "atWordBoundary sc \<longleftrightarrow>
     (case sc_prev sc of None \<Rightarrow> False | Some c \<Rightarrow> isWordByte c) \<noteq>
     (case sc_rest sc of [] \<Rightarrow> False | c # _ \<Rightarrow> isWordByte c)"

definition advance :: "nat \<Rightarrow> scan \<Rightarrow> scan" where
  "advance n sc =
     (if n = 0 then sc
      else sc\<lparr>sc_prev := Some (last (take n (sc_rest sc))), sc_rest := drop n (sc_rest sc)\<rparr>)"

definition taken :: "item \<Rightarrow> string \<Rightarrow> nat" where
  "taken i s = min (i s) (length s)"

text \<open>
  The ways in which a pattern matches at a position, in the order in which a backtracking matcher
  finds them: the first one counts.
\<close>

function repeatItem :: "bool \<Rightarrow> nat \<Rightarrow> item \<Rightarrow> scan \<Rightarrow> scan list" where
  "repeatItem greedy n i sc =
     (let stop = (if n = 0 then [sc] else []);
          go = (if taken i (sc_rest sc) = 0 then [] else repeatItem greedy (n - 1) i (advance (taken i (sc_rest sc)) sc))
      in if greedy then go @ stop else stop @ go)"
  by pat_completeness auto
termination
  by (relation "measure (\<lambda>(_, _, i, sc). length (sc_rest sc))") (auto simp: taken_def advance_def)

declare repeatItem.simps [simp del]

definition setGroup :: "nat \<Rightarrow> string \<Rightarrow> scan \<Rightarrow> scan" where
  "setGroup g s sc = sc\<lparr>sc_groups := gput g (take (length s - length (sc_rest sc)) s) (sc_groups sc)\<rparr>"

primrec match :: "regex \<Rightarrow> scan \<Rightarrow> scan list" where
  "match (RItem i) sc = (if taken i (sc_rest sc) = 0 then [] else [advance (taken i (sc_rest sc)) sc])"
| "match (RRep greedy n i) sc = repeatItem greedy n i sc"
| "match (RSeq a b) sc = concat (map (match b) (match a sc))"
| "match (RAlt a b) sc = match a sc @ match b sc"
| "match (RGroup g a) sc = map (setGroup g (sc_rest sc)) (match a sc)"
| "match RWordBoundary sc = (if atWordBoundary sc then [sc] else [])"
| "match REmpty sc = [sc]"

subsection \<open>Replacement\<close>

definition matchAt :: "regex \<Rightarrow> char option \<Rightarrow> string \<Rightarrow> scan option" where
  "matchAt r prev s = (case match r \<lparr>sc_prev = prev, sc_rest = s, sc_groups = []\<rparr> of [] \<Rightarrow> None | sc # _ \<Rightarrow> Some sc)"

function replaceFrom :: "regex \<Rightarrow> ((nat, string) gomap \<Rightarrow> string) \<Rightarrow> char option \<Rightarrow> string \<Rightarrow> string" where
  "replaceFrom r template prev s =
     (if s = [] then []
      else (case matchAt r prev s of
          None \<Rightarrow> take (runeLen s) s @ replaceFrom r template (Some (last (take (runeLen s) s))) (drop (runeLen s) s)
        | Some sc \<Rightarrow>
            if length (sc_rest sc) < length s
            then template (sc_groups sc) @ replaceFrom r template (sc_prev sc) (sc_rest sc)
            else take (runeLen s) s @ replaceFrom r template (Some (last (take (runeLen s) s))) (drop (runeLen s) s)))"
  by pat_completeness auto
termination
  by (relation "measure (\<lambda>(_, _, _, s). length s)") (auto simp: runeLen_def)

declare replaceFrom.simps [simp del]

definition ReplaceAllString :: "regex \<Rightarrow> ((nat, string) gomap \<Rightarrow> string) \<Rightarrow> string \<Rightarrow> string" where
  "ReplaceAllString r template s = replaceFrom r template None s"

subsection \<open>Building patterns\<close>

primrec literal :: "string \<Rightarrow> regex" where
  "literal [] = REmpty"
| "literal (c # s) = RSeq (RItem (byteIn (\<lambda>x. x = c))) (literal s)"

primrec foldLiteral :: "string \<Rightarrow> regex" where
  "foldLiteral [] = REmpty"
| "foldLiteral (c # s) = RSeq (RItem (foldIn (\<lambda>x. x = c))) (foldLiteral s)"

primrec sequence :: "regex list \<Rightarrow> regex" where
  "sequence [] = REmpty"
| "sequence (r # rs) = RSeq r (sequence rs)"

fun alternatives :: "regex list \<Rightarrow> regex" where
  "alternatives [] = REmpty"
| "alternatives [r] = r"
| "alternatives (r # rs) = RAlt r (alternatives rs)"

definition exactly :: "nat \<Rightarrow> item \<Rightarrow> regex" where
  "exactly n i = sequence (replicate n (RItem i))"

definition optional :: "item \<Rightarrow> regex" where
  "optional i = RAlt (RItem i) REmpty"

subsection \<open>What replacement leaves alone\<close>

text \<open>A string without a match of the pattern at any position is returned unchanged.\<close>

lemma replaceFrom_unmatched:
  assumes "\<And>a b. s = a @ b \<Longrightarrow> matchAt r (if a = [] then prev else Some (last a)) b = None"
  shows "replaceFrom r template prev s = s"
  using assms
proof (induction r template prev s rule: replaceFrom.induct)
  case (1 r template prev s)
  show ?case
  proof (cases "s = []")
    case True
    then show ?thesis by (simp add: replaceFrom.simps)
  next
    case False
    define n where "n = runeLen s"
    have n: "n \<noteq> 0" using False by (simp add: n_def runeLen_def)
    have here: "matchAt r prev s = None" using "1.prems" [of "[]" s] by simp
    have "matchAt r (if a = [] then Some (last (take n s)) else Some (last a)) b = None" if "drop n s = a @ b" for a b
    proof -
      have "s = (take n s @ a) @ b" using that by (metis append.assoc append_take_drop_id)
      from "1.prems" [OF this] show ?thesis using n False by (auto simp: last_append)
    qed
    then have "replaceFrom r template (Some (last (take n s))) (drop n s) = drop n s"
      using "1.IH"(1) [OF False here] unfolding n_def by blast
    then show ?thesis using False here by (simp add: replaceFrom.simps n_def [symmetric])
  qed
qed

end
