(* ===== verification/JsonText.thy ===== *)
theory JsonText
  imports Json
begin

text \<open>
  \<open>json.Marshal\<close> of structs and slices: members in the order of the fields, \<open>omitempty\<close>, lists.  The
  members come with their values already encoded.
\<close>

definition encodeStruct :: "(string \<times> string) list \<Rightarrow> string" where
  "encodeStruct ms = ''{'' @ joinWith '','' (map (\<lambda>(k, v). quoteJson k @ '':'' @ v) ms) @ ''}''"

definition encodeList :: "string list \<Rightarrow> string" where
  "encodeList xs = ''['' @ joinWith '','' xs @ '']''"

definition optText :: "string \<Rightarrow> string \<Rightarrow> (string \<times> string) list" where
  "optText k v = (if v = '''' then [] else [(k, quoteJson v)])"

definition optList :: "string \<Rightarrow> ('a \<Rightarrow> string) \<Rightarrow> 'a list \<Rightarrow> (string \<times> string) list" where
  "optList k encode xs = (if xs = [] then [] else [(k, encodeList (map encode xs))])"

definition boolText :: "bool \<Rightarrow> string" where "boolText b = (if b then ''true'' else ''false'')"

end
