(* ===== verification/AiProjection.thy ===== *)
theory AiProjection
  imports GoRegexp JsonText CoreTypes
begin

text \<open>
  What the AI advisor (\<open>internal/ai/advisor.go\<close>) sends to a provider: redaction, the projection of a
  finding and its plan, the request body and the loop that shrinks the projection until the body fits.

  Strings are valid UTF-8 where they are written as JSON.  A map used as a set is a list of its
  elements.  The parsed form of a URL is a parameter of the constructor (see \<open>AiAdvisor\<close>).
\<close>

subsection \<open>Redaction\<close>

definition upper :: "char \<Rightarrow> bool" where "upper c \<longleftrightarrow> CHR ''A'' \<le> c \<and> c \<le> CHR ''Z''"
definition lower :: "char \<Rightarrow> bool" where "lower c \<longleftrightarrow> CHR ''a'' \<le> c \<and> c \<le> CHR ''z''"
definition inlineSpace :: item where "inlineSpace = byteIn (\<lambda>c. c = CHR '' '' \<or> c = CHR 0x09)"

definition pemRule :: regex where
  "pemRule =
     (let name = RRep True 1 (byteIn (\<lambda>c. upper c \<or> isDigit c \<or> c \<in> set '' _-'')) in
      sequence [literal ''-----BEGIN'', RRep True 1 inlineSpace, name, literal ''-----'', RRep False 0 anyRune,
        literal ''-----END'', RRep True 1 inlineSpace, name, literal ''-----''])"

definition userinfoRule :: regex where
  "userinfoRule =
     sequence [RWordBoundary,
       RGroup 1 (sequence [RItem (foldIn lower), RRep True 0 (foldIn (\<lambda>c. lower c \<or> isDigit c \<or> c \<in> set ''+.-'')), literal ''://'']),
       RRep True 1 (runeNotIn (\<lambda>c. c \<in> {CHR ''/'', CHR ''@'', CHR 0x09, CHR 0x0A, CHR 0x0C, CHR 0x0D, CHR '' ''})), literal ''@'']"

definition bearerRule :: regex where
  "bearerRule =
     sequence [RWordBoundary, foldLiteral ''bearer'', RRep True 1 inlineSpace,
       RRep True 1 (foldIn (\<lambda>c. lower c \<or> isDigit c \<or> c \<in> set ''._~+/=-''))]"

text \<open>The names of credentials, with an optional dash or underscore between their words.\<close>

definition dashed :: "string \<Rightarrow> string \<Rightarrow> regex" where
  "dashed a b = sequence [foldLiteral a, optional (byteIn (\<lambda>c. c = CHR ''-'' \<or> c = CHR ''_'')), foldLiteral b]"

definition quotedRun :: "char \<Rightarrow> regex" where
  "quotedRun q =
     sequence [RItem (byteIn (\<lambda>c. c = q)), RRep True 0 (runeNotIn (\<lambda>c. c = q \<or> c = CHR 0x0D \<or> c = CHR 0x0A)), RItem (byteIn (\<lambda>c. c = q))]"

definition credentialRule :: regex where
  "credentialRule =
     sequence [RWordBoundary,
       RGroup 1 (alternatives [foldLiteral ''password'', foldLiteral ''passwd'', dashed ''api'' ''key'', foldLiteral ''token'', foldLiteral ''secret'',
         dashed ''client'' ''secret'', dashed ''access'' ''key'', dashed ''private'' ''key'', foldLiteral ''credential'']),
       RWordBoundary,
       RGroup 2 (sequence [RRep True 0 inlineSpace, RItem (byteIn (\<lambda>c. c = CHR '':'' \<or> c = CHR ''='')), RRep True 0 inlineSpace]),
       alternatives [quotedRun (CHR 0x22), quotedRun (CHR 0x27),
         RRep True 1 (runeNotIn (\<lambda>c. c \<in> {CHR 0x09, CHR 0x0A, CHR 0x0C, CHR 0x0D, CHR '' '', CHR '','', CHR '';'', CHR ''}'', CHR '']''}))]]"

definition jwtRule :: regex where
  "jwtRule =
     (let part = RRep True 8 (byteIn (\<lambda>c. lower c \<or> upper c \<or> isDigit c \<or> c = CHR ''_'' \<or> c = CHR ''-'')) in
      sequence [RWordBoundary, part, literal ''.'', part, literal ''.'', part, RWordBoundary])"

definition awsRule :: regex where
  "awsRule =
     sequence [RWordBoundary,
       alternatives (map literal [''AKIA'', ''ASIA'', ''AIDA'', ''AROA'', ''AIPA'', ''ANPA'', ''ANVA'', ''ABIA'', ''ACCA'']),
       exactly 16 (byteIn (\<lambda>c. upper c \<or> isDigit c)), RWordBoundary]"

definition redactionRules :: "(regex \<times> ((nat, string) gomap \<Rightarrow> string)) list" where
  "redactionRules =
     [(pemRule, \<lambda>g. ''[REDACTED-PEM]''), (userinfoRule, \<lambda>g. gval g 1 @ ''[REDACTED]@''), (bearerRule, \<lambda>g. ''Bearer [REDACTED]''),
      (credentialRule, \<lambda>g. gval g 1 @ gval g 2 @ ''[REDACTED]''), (jwtRule, \<lambda>g. ''[REDACTED-JWT]''), (awsRule, \<lambda>g. ''[REDACTED-AWS-KEY]'')]"

fun applyRules :: "(regex \<times> ((nat, string) gomap \<Rightarrow> string)) list \<Rightarrow> string \<Rightarrow> string" where
  "applyRules [] v = v"
| "applyRules ((r, template) # rules) v = applyRules rules (ReplaceAllString r template v)"

definition redactSensitive :: "string \<Rightarrow> string" where
  "redactSensitive v = applyRules redactionRules v"

text \<open>A conversion to runes and back turns an invalid byte into U+FFFD.\<close>

definition encodeRune :: "string \<Rightarrow> string" where
  "encodeRune r = (if utf8Len r = 0 then runeError else r)"

definition boundedString :: "string \<Rightarrow> nat \<Rightarrow> string" where
  "boundedString s maxRunes =
     (let v = trimSpace s in
      if maxRunes = 0 \<or> length (runes v) \<le> maxRunes then v
      else trimSpace (concat (map encodeRune (take maxRunes (runes v)))))"

definition sanitize :: "string \<Rightarrow> nat \<Rightarrow> string" where
  "sanitize s maxRunes = boundedString (redactSensitive s) maxRunes"

fun sanitizeAll :: "nat \<Rightarrow> string list \<Rightarrow> string list" where
  "sanitizeAll maxRunes [] = []"
| "sanitizeAll maxRunes (x # xs) =
     (let t = sanitize x maxRunes in if t = '''' then sanitizeAll maxRunes xs else t # sanitizeAll maxRunes xs)"

definition boundedSanitizedStrings :: "string list \<Rightarrow> nat \<Rightarrow> nat \<Rightarrow> string list" where
  "boundedSanitizedStrings xs limit maxRunes = sanitizeAll maxRunes (take limit xs)"

subsection \<open>The projection\<close>

record projected_evidence =
  pe_summary :: string
  pe_details :: string
  pe_sourceID :: string
  pe_observedAt :: string

record projected_resource =
  pr_apiVersion :: string
  pr_kind :: string
  pr_namespace :: string
  pr_name :: string

record projected_action =
  pa_type :: string
  pa_target :: "projected_resource option"
  pa_description :: string

record projected_finding =
  pf_id :: string
  pf_source :: string
  pf_title :: string
  pf_severity :: string
  pf_evidence :: "projected_evidence list"
  pf_resources :: "projected_resource list"
  pf_blastRadius :: string
  pf_fixability :: string
  pf_riskScore :: int
  pf_recommendedAction :: string

record projected_plan =
  pp_id :: string
  pp_findingID :: string
  pp_rootCause :: string
  pp_actions :: "projected_action list"
  pp_riskTier :: string
  pp_required :: bool
  pp_categories :: "string list"
  pp_verificationSteps :: "string list"
  pp_rollbackSteps :: "string list"

record advisor_input =
  adv_finding :: projected_finding
  adv_plan :: projected_plan

definition maxProjectedEvidence :: nat where "maxProjectedEvidence = 10"
definition maxProjectedResources :: nat where "maxProjectedResources = 20"
definition maxProjectedActions :: nat where "maxProjectedActions = 12"
definition maxProjectedSteps :: nat where "maxProjectedSteps = 10"

definition projectResource :: "resource_ref \<Rightarrow> projected_resource" where
  "projectResource r =
     \<lparr>pr_apiVersion = sanitize (rr_apiVersion r) 120, pr_kind = sanitize (rr_kind r) 120,
      pr_namespace = sanitize (rr_namespace r) 253, pr_name = sanitize (rr_name r) 253\<rparr>"

text \<open>Evidence without a source identifier is passed over and does not count.\<close>

fun projectEvidence :: "nat \<Rightarrow> evidence list \<Rightarrow> projected_evidence list" where
  "projectEvidence n [] = []"
| "projectEvidence n (e # es) =
     (if n = 0 then []
      else if sanitize (ev_sourceID e) 200 = '''' then projectEvidence n es
      else \<lparr>pe_summary = sanitize (ev_summary e) 500, pe_details = sanitize (ev_details e) 1200,
            pe_sourceID = sanitize (ev_sourceID e) 200, pe_observedAt = rfc3339 (ev_observedAt e)\<rparr> # projectEvidence (n - 1) es)"

definition projectAction :: "typed_action \<Rightarrow> projected_action" where
  "projectAction a =
     \<lparr>pa_type = sanitize (ta_type a) 160, pa_target = Some (projectResource (ta_target a)),
      pa_description = sanitize (ta_description a) 700\<rparr>"

definition projectAdvisorInput :: "finding \<Rightarrow> remediation_plan \<Rightarrow> advisor_input" where
  "projectAdvisorInput f plan =
     \<lparr>adv_finding =
        \<lparr>pf_id = sanitize (f_id f) 200, pf_source = sanitize (f_source f) 120, pf_title = sanitize (f_title f) 500,
         pf_severity = sanitize (severityString (f_severity f)) 30, pf_evidence = projectEvidence maxProjectedEvidence (f_evidence f),
         pf_resources = map projectResource (take maxProjectedResources (f_resources f)),
         pf_blastRadius = sanitize (f_blastRadius f) 700, pf_fixability = sanitize (fixabilityString (f_fixability f)) 60,
         pf_riskScore = f_riskScore f, pf_recommendedAction = sanitize (f_recommendedAction f) 700\<rparr>,
      adv_plan =
        \<lparr>pp_id = sanitize (p_id plan) 200, pp_findingID = sanitize (p_findingID plan) 200, pp_rootCause = sanitize (p_rootCause plan) 900,
         pp_actions = map projectAction (take maxProjectedActions (p_actions plan)), pp_riskTier = sanitize (tierString (p_riskTier plan)) 20,
         pp_required = ap_required (p_approvalPolicy plan),
         pp_categories = boundedSanitizedStrings (ap_categories (p_approvalPolicy plan)) maxProjectedSteps 200,
         pp_verificationSteps = boundedSanitizedStrings (p_verificationSteps plan) maxProjectedSteps 500,
         pp_rollbackSteps = boundedSanitizedStrings (p_rollbackSteps plan) maxProjectedSteps 500\<rparr>\<rparr>"

subsection \<open>Encoding\<close>

definition encodeEvidence :: "projected_evidence \<Rightarrow> string" where
  "encodeEvidence e =
     encodeStruct (optText ''summary'' (pe_summary e) @ optText ''details'' (pe_details e) @
       [(''sourceId'', quoteJson (pe_sourceID e))] @ optText ''observedAt'' (pe_observedAt e))"

definition encodeResource :: "projected_resource \<Rightarrow> string" where
  "encodeResource r =
     encodeStruct (optText ''apiVersion'' (pr_apiVersion r) @ optText ''kind'' (pr_kind r) @
       optText ''namespace'' (pr_namespace r) @ optText ''name'' (pr_name r))"

definition encodeAction :: "projected_action \<Rightarrow> string" where
  "encodeAction a =
     encodeStruct ([(''type'', quoteJson (pa_type a))] @
       (case pa_target a of None \<Rightarrow> [] | Some r \<Rightarrow> [(''target'', encodeResource r)]) @ optText ''description'' (pa_description a))"

definition encodeFinding :: "projected_finding \<Rightarrow> string" where
  "encodeFinding f =
     encodeStruct (optText ''id'' (pf_id f) @ optText ''source'' (pf_source f) @ optText ''title'' (pf_title f) @
       optText ''severity'' (pf_severity f) @ optList ''evidence'' encodeEvidence (pf_evidence f) @
       optList ''resources'' encodeResource (pf_resources f) @ optText ''blastRadius'' (pf_blastRadius f) @
       optText ''fixability'' (pf_fixability f) @ (if pf_riskScore f = 0 then [] else [(''riskScore'', itoa (pf_riskScore f))]) @
       optText ''recommendedAction'' (pf_recommendedAction f))"

definition encodePlan :: "projected_plan \<Rightarrow> string" where
  "encodePlan p =
     encodeStruct (optText ''id'' (pp_id p) @ optText ''findingId'' (pp_findingID p) @ optText ''rootCause'' (pp_rootCause p) @
       optList ''actions'' encodeAction (pp_actions p) @ optText ''riskTier'' (pp_riskTier p) @
       [(''approvalPolicy'', encodeStruct ((''required'', boolText (pp_required p)) # optList ''categories'' quoteJson (pp_categories p)))] @
       optList ''verificationSteps'' quoteJson (pp_verificationSteps p) @ optList ''rollbackSteps'' quoteJson (pp_rollbackSteps p))"

definition encodeInput :: "advisor_input \<Rightarrow> string" where
  "encodeInput x = encodeStruct [(''finding'', encodeFinding (adv_finding x)), (''plan'', encodePlan (adv_plan x))]"

definition systemPrompt :: string where
  "systemPrompt =
     ''You are KubeAthrix AI decision support. Return exactly one compact JSON object with only these fields: '' @
     ''summary, rootCause, impact, recommendedAction, confidence, safetyNotes, and evidenceSourceIds. '' @
     ''recommendedAction must exactly equal one input plan action type or human_review. '' @
     ''confidence must be low, medium, or high. When finding evidence is present, cite one or more of its sourceId values '' @
     ''in evidenceSourceIds. Do not invent cluster objects, executable actions, commands, or evidence, and do not bypass approvals.''"

definition chatMessageText :: "string \<Rightarrow> string \<Rightarrow> string" where
  "chatMessageText role content = encodeStruct [(''role'', quoteJson role), (''content'', quoteJson content)]"

definition chatRequest :: "string \<Rightarrow> int \<Rightarrow> string \<Rightarrow> string" where
  "chatRequest model maxTokens prompt =
     encodeStruct [(''model'', quoteJson model),
       (''messages'', encodeList [chatMessageText ''system'' systemPrompt, chatMessageText ''user'' prompt]),
       (''temperature'', ''0.1''), (''max_tokens'', itoa maxTokens),
       (''response_format'', encodeStruct [(''type'', quoteJson ''json_object'')])]"

subsection \<open>Shrinking\<close>

text \<open>
  One step of \<open>shrinkProjectedInput\<close> is the first rule that applies.  A field of the input is a
  pair of reading and replacing it.
\<close>

type_synonym 'a field = "(advisor_input \<Rightarrow> 'a) \<times> ('a \<Rightarrow> advisor_input \<Rightarrow> advisor_input)"
type_synonym shrink_rule = "advisor_input \<Rightarrow> advisor_input option"

definition ofFinding :: "(projected_finding \<Rightarrow> 'a) \<Rightarrow> (('a \<Rightarrow> 'a) \<Rightarrow> projected_finding \<Rightarrow> projected_finding) \<Rightarrow> 'a field" where
  "ofFinding get upd = (\<lambda>x. get (adv_finding x), \<lambda>v x. x\<lparr>adv_finding := upd (\<lambda>_. v) (adv_finding x)\<rparr>)"

definition ofPlan :: "(projected_plan \<Rightarrow> 'a) \<Rightarrow> (('a \<Rightarrow> 'a) \<Rightarrow> projected_plan \<Rightarrow> projected_plan) \<Rightarrow> 'a field" where
  "ofPlan get upd = (\<lambda>x. get (adv_plan x), \<lambda>v x. x\<lparr>adv_plan := upd (\<lambda>_. v) (adv_plan x)\<rparr>)"

definition evidenceField where "evidenceField = ofFinding pf_evidence pf_evidence_update"
definition resourcesField where "resourcesField = ofFinding pf_resources pf_resources_update"
definition actionsField where "actionsField = ofPlan pp_actions pp_actions_update"

text \<open>Drop the last element when there are more than \<open>n\<close>.\<close>

definition dropLast :: "nat \<Rightarrow> 'a list field \<Rightarrow> shrink_rule" where
  "dropLast n fd x = (if length (fst fd x) > n then Some (snd fd (butlast (fst fd x)) x) else None)"

text \<open>Change the first element with a property.\<close>

fun changeFirst :: "('a \<Rightarrow> bool) \<Rightarrow> ('a \<Rightarrow> 'a) \<Rightarrow> 'a list \<Rightarrow> 'a list option" where
  "changeFirst p f [] = None"
| "changeFirst p f (x # xs) = (if p x then Some (f x # xs) else map_option ((#) x) (changeFirst p f xs))"

definition clearFirst :: "'a list field \<Rightarrow> ('a \<Rightarrow> bool) \<Rightarrow> ('a \<Rightarrow> 'a) \<Rightarrow> shrink_rule" where
  "clearFirst fd p f x = map_option (\<lambda>xs. snd fd xs x) (changeFirst p f (fst fd x))"

definition halve :: "nat \<Rightarrow> string field \<Rightarrow> shrink_rule" where
  "halve n fd x =
     (if length (runes (fst fd x)) > n then Some (snd fd (boundedString (fst fd x) (length (runes (fst fd x)) div 2)) x) else None)"

definition clearText :: "string field \<Rightarrow> shrink_rule" where
  "clearText fd x = (if fst fd x \<noteq> '''' then Some (snd fd '''' x) else None)"

definition clearActions :: shrink_rule where
  "clearActions x = (if pp_actions (adv_plan x) \<noteq> [] then Some (snd actionsField [] x) else None)"

definition titleField where "titleField = ofFinding pf_title pf_title_update"
definition blastField where "blastField = ofFinding pf_blastRadius pf_blastRadius_update"
definition recommendedField where "recommendedField = ofFinding pf_recommendedAction pf_recommendedAction_update"
definition rootCauseField where "rootCauseField = ofPlan pp_rootCause pp_rootCause_update"
definition findingIDField where "findingIDField = ofFinding pf_id pf_id_update"
definition sourceField where "sourceField = ofFinding pf_source pf_source_update"
definition planIDField where "planIDField = ofPlan pp_id pp_id_update"
definition planFindingField where "planFindingField = ofPlan pp_findingID pp_findingID_update"
definition severityField where "severityField = ofFinding pf_severity pf_severity_update"
definition fixabilityField where "fixabilityField = ofFinding pf_fixability pf_fixability_update"
definition tierField where "tierField = ofPlan pp_riskTier pp_riskTier_update"

lemmas field_defs = ofFinding_def ofPlan_def evidenceField_def resourcesField_def actionsField_def titleField_def blastField_def
  recommendedField_def rootCauseField_def findingIDField_def sourceField_def planIDField_def planFindingField_def
  severityField_def fixabilityField_def tierField_def

definition hasTargetVersion :: "projected_action \<Rightarrow> bool" where
  "hasTargetVersion a \<longleftrightarrow> (case pa_target a of None \<Rightarrow> False | Some r \<Rightarrow> pr_apiVersion r \<noteq> '''')"

definition shrinkRules :: "shrink_rule list" where
  "shrinkRules =
     [dropLast 0 (ofPlan pp_rollbackSteps pp_rollbackSteps_update), dropLast 0 (ofPlan pp_verificationSteps pp_verificationSteps_update),
      dropLast 0 (ofPlan pp_categories pp_categories_update),
      clearFirst evidenceField (\<lambda>e. pe_details e \<noteq> '''') (pe_details_update (\<lambda>_. '''')),
      clearFirst actionsField (\<lambda>a. pa_description a \<noteq> '''') (pa_description_update (\<lambda>_. '''')),
      dropLast 8 resourcesField, dropLast 4 evidenceField, dropLast 8 actionsField] @
     map (halve 160) [titleField, blastField, recommendedField, rootCauseField] @
     [clearText recommendedField, clearText blastField, clearText rootCauseField,
      clearFirst evidenceField (\<lambda>e. pe_summary e \<noteq> '''') (pe_summary_update (\<lambda>_. '''')),
      clearFirst resourcesField (\<lambda>r. pr_apiVersion r \<noteq> '''') (pr_apiVersion_update (\<lambda>_. '''')),
      clearFirst actionsField hasTargetVersion (pa_target_update (map_option (pr_apiVersion_update (\<lambda>_. '''')))),
      dropLast 0 resourcesField, dropLast 0 evidenceField,
      clearFirst actionsField (\<lambda>a. pa_target a \<noteq> None) (pa_target_update (\<lambda>_. None)), dropLast 1 actionsField] @
     map (halve 32) [findingIDField, sourceField, titleField, planIDField, planFindingField] @
     map clearText [titleField, sourceField, findingIDField, planFindingField, planIDField, severityField, fixabilityField, tierField] @
     [clearActions]"

fun firstRule :: "shrink_rule list \<Rightarrow> advisor_input \<Rightarrow> advisor_input option" where
  "firstRule [] x = None"
| "firstRule (r # rs) x = (case r x of None \<Rightarrow> firstRule rs x | Some y \<Rightarrow> Some y)"

definition shrinkProjectedInput :: "advisor_input \<Rightarrow> advisor_input option" where
  "shrinkProjectedInput x = firstRule shrinkRules x"

subsection \<open>The request body\<close>

definition projectedEvidenceSourceIDs :: "advisor_input \<Rightarrow> string list" where
  "projectedEvidenceSourceIDs x = filter (\<lambda>i. i \<noteq> '''') (map (\<lambda>e. trimSpace (pe_sourceID e)) (pf_evidence (adv_finding x)))"

definition allowedActions :: "remediation_plan \<Rightarrow> string list" where
  "allowedActions plan = filter (\<lambda>t. t \<noteq> '''') (map (\<lambda>a. trimSpace (ta_type a)) (p_actions plan))"

text \<open>The loop: at most \<open>n\<close> attempts to make the body fit.\<close>

fun fitBody :: "nat \<Rightarrow> (advisor_input \<Rightarrow> string) \<Rightarrow> int \<Rightarrow> advisor_input \<Rightarrow> (string \<times> advisor_input) option" where
  "fitBody 0 body limit x = None"
| "fitBody (Suc n) body limit x =
     (if int (length (body x)) \<le> limit then Some (body x, x)
      else (case shrinkProjectedInput x of None \<Rightarrow> None | Some y \<Rightarrow> fitBody n body limit y))"

definition buildRequestBody ::
  "string \<Rightarrow> int \<Rightarrow> int \<Rightarrow> finding \<Rightarrow> remediation_plan \<Rightarrow> string + (string \<times> string list \<times> string list)" where
  "buildRequestBody model maxOutputTokens maxInputBytes f plan =
     (case fitBody 256 (\<lambda>x. chatRequest model maxOutputTokens (encodeInput x)) maxInputBytes (projectAdvisorInput f plan) of
        None \<Rightarrow> Inl (''projected AI input cannot fit within '' @ itoa maxInputBytes @ '' bytes'')
      | Some (body, x) \<Rightarrow> Inr (body, projectedEvidenceSourceIDs x, allowedActions plan))"

end
