(* ===== verification/AiAdvisor.thy ===== *)
theory AiAdvisor
  imports AiProjection GoDuration
begin

text \<open>
  The AI advisor of \<open>internal/ai/advisor.go\<close>: its construction and the checks of its endpoint, the
  exclusions, the circuit breaker, \<open>Analyze\<close> and the validation of what the provider returns.

  The HTTP client is a function over a world \<open>'w\<close>; \<open>url.Parse\<close> is the parameter \<open>parse\<close>, which
  gives the parts of the URL that are looked at.  The circuit breaker is the first half of the
  state of \<open>Analyze\<close>, which reads the clock before the request (\<open>t0\<close>) and after it (\<open>t1\<close>).  Of a JSON error
  only that it happened is kept.
\<close>

subsection \<open>Configuration\<close>

definition autonomousPolicy :: string where
  "autonomousPolicy =
     ''AI output is decision support only. KubeAthrix executes only catalog-validated typed actions through dry-run, approval gates, '' @
     ''controller reconciliation, verification, and rollback metadata.''"

record ai_config =
  cfg_enabled :: bool
  cfg_provider :: string
  cfg_endpoint :: string
  cfg_model :: string
  cfg_apiKey :: string
  cfg_timeout :: duration
  cfg_allowInsecureHTTP :: bool
  cfg_endpointHostAllowlist :: "string list"
  cfg_excludedSources :: "string list"
  cfg_excludedNamespaces :: "string list"
  cfg_maxInputBytes :: int
  cfg_maxOutputTokens :: int
  cfg_circuitBreakerThreshold :: int
  cfg_circuitBreakerCooldown :: duration

record url =
  url_scheme :: string
  url_host :: string
  url_hostname :: string
  url_hasUser :: bool
  url_fragment :: string
  url_text :: string

record advisor =
  adr_provider :: string
  adr_endpoint :: string
  adr_model :: string
  adr_apiKey :: string
  adr_timeout :: duration
  adr_allowInsecureHTTP :: bool
  adr_endpointAllowlist :: "string list"
  adr_excludedSources :: "string list"
  adr_excludedNamespaces :: "string list"
  adr_maxInputBytes :: int
  adr_maxOutputTokens :: int
  adr_circuitThreshold :: int
  adr_circuitCooldown :: duration

definition normalizeExactMatch :: "string \<Rightarrow> string" where
  "normalizeExactMatch v = toLower (trimSpace v)"

text \<open>\<open>strings.Trim(value, "[]")\<close>\<close>

definition trimBrackets :: "string \<Rightarrow> string" where
  "trimBrackets s = rev (dropWhile (\<lambda>c. c \<in> set ''[]'') (rev (dropWhile (\<lambda>c. c \<in> set ''[]'') s)))"

fun exactMatchSet :: "string list \<Rightarrow> bool \<Rightarrow> string + string list" where
  "exactMatchSet [] rejectWildcard = Inr []"
| "exactMatchSet (x # xs) rejectWildcard =
     (let v = trimSpace x in
      if v = '''' then Inl ''empty values are not allowed''
      else if rejectWildcard \<and> strContains v ''*'' then Inl (''wildcard value '' @ quoteGo v @ '' is not allowed'')
      else (case exactMatchSet xs rejectWildcard of
          Inl e \<Rightarrow> Inl e
        | Inr vs \<Rightarrow> Inr (normalizeExactMatch (trimBrackets v) # vs)))"

definition validateEndpoint :: "(string \<Rightarrow> string + url) \<Rightarrow> string \<Rightarrow> bool \<Rightarrow> string list \<Rightarrow> string + string" where
  "validateEndpoint parse rawEndpoint allowInsecureHTTP allowlist =
     (case parse rawEndpoint of
        Inl e \<Rightarrow> Inl (''invalid ai endpoint: '' @ e)
      | Inr u \<Rightarrow>
          if url_scheme u = '''' \<or> url_host u = '''' \<or> url_hostname u = ''''
          then Inl ''ai endpoint must be an absolute URL with a host''
          else if url_hasUser u then Inl ''ai endpoint must not contain userinfo''
          else if url_fragment u \<noteq> '''' then Inl ''ai endpoint must not contain a fragment''
          else if toLower (url_scheme u) \<noteq> ''https'' \<and> \<not> (toLower (url_scheme u) = ''http'' \<and> allowInsecureHTTP)
          then Inl ''ai endpoint must use HTTPS''
          else if allowlist \<noteq> [] \<and> normalizeExactMatch (url_hostname u) \<notin> set allowlist
          then Inl (''ai endpoint hostname '' @ quoteGo (url_hostname u) @ '' is not allowlisted'')
          else Inr (url_text u))"

definition orText :: "string \<Rightarrow> string \<Rightarrow> string" where
  "orText s fallback = (if trimSpace s = '''' then fallback else trimSpace s)"

definition orPositive :: "int \<Rightarrow> int \<Rightarrow> int" where
  "orPositive i fallback = (if i \<le> 0 then fallback else i)"

text \<open>An empty allowlist is filled with the host of the endpoint.\<close>

definition endpointAllowlist :: "(string \<Rightarrow> string + url) \<Rightarrow> ai_config \<Rightarrow> string \<Rightarrow> string + string list" where
  "endpointAllowlist parse config endpoint =
     (case exactMatchSet (cfg_endpointHostAllowlist config) True of
        Inl e \<Rightarrow> Inl (''invalid ai endpoint host allowlist: '' @ e)
      | Inr (h # hs) \<Rightarrow> Inr (h # hs)
      | Inr [] \<Rightarrow>
          (case parse endpoint of
             Inr u \<Rightarrow> if url_hostname u = '''' then Inl ''ai endpoint must be an absolute URL with a host''
                     else Inr [normalizeExactMatch (url_hostname u)]
           | Inl e \<Rightarrow> Inl ''ai endpoint must be an absolute URL with a host''))"

definition NewOpenAICompatibleAdvisor :: "(string \<Rightarrow> string + url) \<Rightarrow> ai_config \<Rightarrow> string + advisor" where
  "NewOpenAICompatibleAdvisor parse config =
     (let endpoint = orText (cfg_endpoint config) ''https://api.openai.com/v1/chat/completions'' in
      if \<not> cfg_enabled config then Inl ''ai advisor is disabled''
      else if trimSpace (cfg_model config) = '''' then Inl ''ai model is required''
      else if trimSpace (cfg_apiKey config) = '''' then Inl ''ai api key is required''
      else (case endpointAllowlist parse config endpoint of
          Inl e \<Rightarrow> Inl e
        | Inr allowlist \<Rightarrow>
            (case validateEndpoint parse endpoint (cfg_allowInsecureHTTP config) allowlist of
               Inl e \<Rightarrow> Inl e
             | Inr validated \<Rightarrow>
                 (case exactMatchSet (cfg_excludedSources config) False of
                    Inl e \<Rightarrow> Inl (''invalid excluded AI source: '' @ e)
                  | Inr sources \<Rightarrow>
                      (case exactMatchSet (cfg_excludedNamespaces config) False of
                         Inl e \<Rightarrow> Inl (''invalid excluded AI namespace: '' @ e)
                       | Inr namespaces \<Rightarrow> Inr
                           \<lparr>adr_provider = orText (cfg_provider config) ''openai-compatible'', adr_endpoint = validated,
                            adr_model = trimSpace (cfg_model config), adr_apiKey = trimSpace (cfg_apiKey config),
                            adr_timeout = orPositive (cfg_timeout config) (20 * second),
                            adr_allowInsecureHTTP = cfg_allowInsecureHTTP config, adr_endpointAllowlist = allowlist,
                            adr_excludedSources = sources, adr_excludedNamespaces = namespaces,
                            adr_maxInputBytes = orPositive (cfg_maxInputBytes config) 65536,
                            adr_maxOutputTokens = orPositive (cfg_maxOutputTokens config) 700,
                            adr_circuitThreshold = orPositive (cfg_circuitBreakerThreshold config) 3,
                            adr_circuitCooldown = orPositive (cfg_circuitBreakerCooldown config) (30 * second)\<rparr>)))))"

text \<open>The redirect policy, for a client that has none of its own.\<close>

definition checkRedirect :: "(string \<Rightarrow> string + url) \<Rightarrow> advisor \<Rightarrow> string \<Rightarrow> nat \<Rightarrow> string option" where
  "checkRedirect parse a target via =
     (case validateEndpoint parse target (adr_allowInsecureHTTP a) (adr_endpointAllowlist a) of
        Inl e \<Rightarrow> Some (''ai provider redirect rejected: '' @ e)
      | Inr _ \<Rightarrow> if via \<ge> 10 then Some ''stopped after 10 redirects'' else None)"

subsection \<open>Exclusions\<close>

definition checkNamespace :: "advisor \<Rightarrow> string \<Rightarrow> string option" where
  "checkNamespace a namespace =
     (let n = trimSpace namespace in
      if n = '''' then None
      else if normalizeExactMatch n \<in> set (adr_excludedNamespaces a)
      then Some (''namespace '' @ quoteGo n @ '' is excluded from AI processing'') else None)"

definition checkExclusions :: "advisor \<Rightarrow> finding \<Rightarrow> remediation_plan \<Rightarrow> string option" where
  "checkExclusions a f plan =
     (if normalizeExactMatch (f_source f) \<in> set (adr_excludedSources a)
      then Some (''finding source '' @ quoteGo (f_source f) @ '' is excluded from AI processing'')
      else forEachErr (checkNamespace a)
        (ck_namespace (f_correlationKeys f) # map rr_namespace (f_resources f) @ map (\<lambda>x. rr_namespace (ta_target x)) (p_actions plan)))"

subsection \<open>Circuit breaker\<close>

record circuit =
  cb_failures :: int
  cb_openUntil :: gotime

definition checkCircuit :: "gotime \<Rightarrow> circuit \<Rightarrow> string option \<times> circuit" where
  "checkCircuit now cb =
     (if isZero (cb_openUntil cb) then (None, cb)
      else if now < cb_openUntil cb
      then (Some (''ai provider circuit breaker is open until '' @ rfc3339 (cb_openUntil cb)), cb)
      else (None, \<lparr>cb_failures = 0, cb_openUntil = 0\<rparr>))"

definition recordFailure :: "advisor \<Rightarrow> gotime \<Rightarrow> circuit \<Rightarrow> circuit" where
  "recordFailure a now cb =
     (let n = cb_failures cb + 1 in
      if n \<ge> adr_circuitThreshold a then \<lparr>cb_failures = n, cb_openUntil = now + adr_circuitCooldown a\<rparr>
      else cb\<lparr>cb_failures := n\<rparr>)"

definition recordSuccess :: "circuit \<Rightarrow> circuit" where
  "recordSuccess cb = \<lparr>cb_failures = 0, cb_openUntil = 0\<rparr>"

subsection \<open>What the provider returns\<close>

record ai_request =
  aq_url :: string
  aq_authorization :: string
  aq_body :: string

record ai_response =
  ap_status :: int
  ap_body :: "string + string"

definition maxProviderResponseBytes :: nat where "maxProviderResponseBytes = 1048576"

record provider_output =
  po_summary :: string
  po_rootCause :: string
  po_impact :: string
  po_recommendedAction :: string
  po_confidence :: string
  po_safetyNotes :: "string list"
  po_evidenceSourceIDs :: "string list"

definition noOutput :: provider_output where
  "noOutput = \<lparr>po_summary = '''', po_rootCause = '''', po_impact = '''', po_recommendedAction = '''', po_confidence = '''',
     po_safetyNotes = [], po_evidenceSourceIDs = []\<rparr>"

definition readTexts :: "json \<Rightarrow> string list option" where
  "readTexts v = readArray (\<lambda>x. decodeStringField x '''') v"

definition outputFields :: "string list" where
  "outputFields = [''summary'', ''rootCause'', ''impact'', ''recommendedAction'', ''confidence'', ''safetyNotes'', ''evidenceSourceIds'']"

definition setOutput :: "string \<Rightarrow> json \<Rightarrow> provider_output \<Rightarrow> provider_output option" where
  "setOutput n v x =
     (if n = ''summary'' then map_option (\<lambda>s. x\<lparr>po_summary := s\<rparr>) (decodeStringField v (po_summary x))
      else if n = ''rootCause'' then map_option (\<lambda>s. x\<lparr>po_rootCause := s\<rparr>) (decodeStringField v (po_rootCause x))
      else if n = ''impact'' then map_option (\<lambda>s. x\<lparr>po_impact := s\<rparr>) (decodeStringField v (po_impact x))
      else if n = ''recommendedAction'' then map_option (\<lambda>s. x\<lparr>po_recommendedAction := s\<rparr>) (decodeStringField v (po_recommendedAction x))
      else if n = ''confidence'' then map_option (\<lambda>s. x\<lparr>po_confidence := s\<rparr>) (decodeStringField v (po_confidence x))
      else if n = ''safetyNotes'' then map_option (\<lambda>s. x\<lparr>po_safetyNotes := s\<rparr>) (readTexts v)
      else map_option (\<lambda>s. x\<lparr>po_evidenceSourceIDs := s\<rparr>) (readTexts v))"

text \<open>The contents of the messages in \<open>choices\<close>; other members are skipped.\<close>

definition readMessage :: "json \<Rightarrow> (string \<times> string) option" where
  "readMessage j =
     (case j of
        JObj ms \<Rightarrow> readMembers [''role'', ''content'']
          (\<lambda>n v (role, content).
             if n = ''role'' then map_option (\<lambda>s. (s, content)) (decodeStringField v role)
             else map_option (\<lambda>s. (role, s)) (decodeStringField v content)) ms ('''', '''')
      | JNull \<Rightarrow> Some ('''', '''')
      | _ \<Rightarrow> None)"

definition readChoice :: "json \<Rightarrow> string option" where
  "readChoice j =
     (case j of
        JObj ms \<Rightarrow> readMembers [''message''] (\<lambda>n v s. map_option snd (readMessage v)) ms ''''
      | JNull \<Rightarrow> Some ''''
      | _ \<Rightarrow> None)"

definition decodeCompletion :: "string \<Rightarrow> string list option" where
  "decodeCompletion body =
     (case jsonStrict body of
        None \<Rightarrow> None
      | Some JNull \<Rightarrow> Some []
      | Some (JObj ms) \<Rightarrow> readMembers [''choices''] (\<lambda>n v s. readArray readChoice v) ms []
      | Some _ \<Rightarrow> None)"

definition decodeOutput :: "string \<Rightarrow> provider_output option" where
  "decodeOutput content = (case jsonStrict content of None \<Rightarrow> None | Some v \<Rightarrow> decodeObject outputFields setOutput noOutput v)"

definition fence :: string where "fence = [CHR 0x60, CHR 0x60, CHR 0x60]"

definition stripJSONFence :: "string \<Rightarrow> string" where
  "stripJSONFence s =
     (let t = trimSpace s in
      if \<not> hasPrefix t fence then t
      else trimSpace (trimSuffix (trimPrefix (trimPrefix t (fence @ ''json'')) fence) fence))"

text \<open>
  The map of required fields is iterated in the order \<open>order\<close>, which decides only which of several
  missing fields is reported.
\<close>

definition requiredFields :: "provider_output \<Rightarrow> (string \<times> string) list" where
  "requiredFields x =
     [(''summary'', po_summary x), (''rootCause'', po_rootCause x), (''impact'', po_impact x),
      (''recommendedAction'', po_recommendedAction x), (''confidence'', po_confidence x)]"

definition missingField :: "string list \<Rightarrow> provider_output \<Rightarrow> string option" where
  "missingField order x =
     (let missing = map fst (filter (\<lambda>(n, v). blank v) (requiredFields x)) in
      case filter (\<lambda>n. n \<in> set missing) order @ missing of [] \<Rightarrow> None | n # _ \<Rightarrow> Some n)"

fun collectCitations :: "string list \<Rightarrow> string list \<Rightarrow> string list \<Rightarrow> string + string list" where
  "collectCitations evidence [] seen = Inr seen"
| "collectCitations evidence (i # is) seen =
     (let sourceID = trimSpace i in
      if sourceID = '''' then Inl ''evidenceSourceIds cannot contain an empty value''
      else if sourceID \<notin> set evidence
      then Inl (''evidence source '' @ quoteGo sourceID @ '' was not present in the input'')
      else collectCitations evidence is (if sourceID \<in> set seen then seen else seen @ [sourceID]))"

definition validateProviderOutput ::
  "string list \<Rightarrow> provider_output \<Rightarrow> string list \<Rightarrow> string list \<Rightarrow> string + (string \<times> string list)" where
  "validateProviderOutput order x allowed evidence =
     (case missingField order x of
        Some n \<Rightarrow> Inl (n @ '' is required'')
      | None \<Rightarrow>
          let action = trimSpace (po_recommendedAction x); confidence = toLower (trimSpace (po_confidence x)) in
          if action \<noteq> ''human_review'' \<and> action \<notin> set allowed
          then Inl (''recommendedAction '' @ quoteGo action @ '' is not a plan action'')
          else if confidence \<notin> {''low'', ''medium'', ''high''}
          then Inl (''confidence '' @ quoteGo (po_confidence x) @ '' is not low, medium, or high'')
          else (case collectCitations evidence (po_evidenceSourceIDs x) [] of
              Inl e \<Rightarrow> Inl e
            | Inr citations \<Rightarrow>
                if evidence \<noteq> [] \<and> citations = [] then Inl ''evidenceSourceIds must cite at least one input evidence source''
                else if evidence = [] \<and> po_evidenceSourceIDs x \<noteq> []
                then Inl ''evidenceSourceIds were returned without input evidence''
                else Inr (confidence, sortSlice (<) citations)))"

subsection \<open>Analyze\<close>

definition analysisOf :: "advisor \<Rightarrow> gotime \<Rightarrow> provider_output \<Rightarrow> string \<Rightarrow> string list \<Rightarrow> ai_analysis" where
  "analysisOf a now x confidence citations =
     \<lparr>ai_provider = adr_provider a, ai_model = adr_model a, ai_mode = ''assistive'', ai_summary = sanitize (po_summary x) 700,
      ai_rootCause = sanitize (po_rootCause x) 900, ai_impact = sanitize (po_impact x) 900,
      ai_recommendedAction = trimSpace (po_recommendedAction x), ai_confidence = confidence,
      ai_safetyNotes = boundedSanitizedStrings (po_safetyNotes x) (if citations = [] then 5 else 4) 300 @
        (if citations = [] then [] else [boundedString (''Evidence sources: '' @ joinWith '', '' citations) 300]),
      ai_autonomousPolicy = autonomousPolicy, ai_generatedAt = now\<rparr>"

definition readAnalysis ::
  "advisor \<Rightarrow> string list \<Rightarrow> gotime \<Rightarrow> string list \<Rightarrow> string list \<Rightarrow> string + ai_response \<Rightarrow> string + ai_analysis" where
  "readAnalysis a order now allowed evidence answer =
     (case answer of
        Inl e \<Rightarrow> Inl e
      | Inr response \<Rightarrow>
          (case ap_body response of
             Inl e \<Rightarrow> Inl e
           | Inr body \<Rightarrow>
               if length body > maxProviderResponseBytes then Inl ''ai provider response exceeded size limit''
               else if ap_status response < 200 \<or> ap_status response > 299
               then Inl (''ai provider returned '' @ itoa (ap_status response))
               else (case decodeCompletion body of
                   None \<Rightarrow> Inl ''ai provider returned invalid completion envelope''
                 | Some [] \<Rightarrow> Inl ''ai provider returned no choices''
                 | Some (content # _) \<Rightarrow>
                     (case decodeOutput (trimSpace (stripJSONFence content)) of
                        None \<Rightarrow> Inl ''ai provider returned invalid structured output''
                      | Some x \<Rightarrow>
                          (case validateProviderOutput order x allowed evidence of
                             Inl e \<Rightarrow> Inl (''ai provider returned invalid structured output: '' @ e)
                           | Inr (confidence, citations) \<Rightarrow> Inr (analysisOf a now x confidence citations))))))"

type_synonym 'w ai_client = "ai_request \<Rightarrow> 'w \<Rightarrow> (string + ai_response) \<times> 'w"

definition Analyze ::
  "advisor \<Rightarrow> 'w ai_client \<Rightarrow> string list \<Rightarrow> gotime \<Rightarrow> gotime \<Rightarrow> finding \<Rightarrow> remediation_plan \<Rightarrow> circuit \<times> 'w \<Rightarrow>
     (string + ai_analysis) \<times> (circuit \<times> 'w)" where
  "Analyze a client order t0 t1 f plan st =
     (case checkExclusions a f plan of
        Some e \<Rightarrow> (Inl e, st)
      | None \<Rightarrow>
          (case buildRequestBody (adr_model a) (adr_maxOutputTokens a) (adr_maxInputBytes a) f plan of
             Inl e \<Rightarrow> (Inl e, st)
           | Inr (body, evidence, allowed) \<Rightarrow>
               (case checkCircuit t0 (fst st) of
                  (Some e, cb) \<Rightarrow> (Inl e, (cb, snd st))
                | (None, cb) \<Rightarrow>
                    (case client \<lparr>aq_url = adr_endpoint a, aq_authorization = ''Bearer '' @ adr_apiKey a, aq_body = body\<rparr> (snd st) of
                       (answer, w) \<Rightarrow>
                         (case readAnalysis a order t1 allowed evidence answer of
                            Inl e \<Rightarrow> (Inl e, (recordFailure a t1 cb, w))
                          | Inr analysis \<Rightarrow> (Inr analysis, (recordSuccess cb, w)))))))"

end
