(* ===== verification/AiShrink.thy ===== *)
theory AiShrink
  imports AiProjection
begin

text \<open>
  The shrinking loop of the AI advisor ends, and its bound of 256 attempts never cuts it short: every
  step lowers a measure that is at most 190 for a projected input, and the steps only stop at the
  empty input (\<open>request_fits\<close>).
\<close>

subsection \<open>Runes\<close>

definition startByte :: "char \<Rightarrow> bool" where
  "startByte c \<longleftrightarrow> \<not> cont c"

text \<open>The conditions of \<open>utf8Len\<close> as named predicates.\<close>

definition twoLead :: "char \<Rightarrow> bool" where "twoLead = between CHR 0xC2 CHR 0xDF"
definition threeLead :: "char \<Rightarrow> bool" where "threeLead = between CHR 0xE0 CHR 0xEF"
definition fourLead :: "char \<Rightarrow> bool" where "fourLead = between CHR 0xF0 CHR 0xF4"

definition threeSecond :: "char \<Rightarrow> char \<Rightarrow> bool" where
  "threeSecond c = between (if c = CHR 0xE0 then CHR 0xA0 else CHR 0x80) (if c = CHR 0xED then CHR 0x9F else CHR 0xBF)"

definition fourSecond :: "char \<Rightarrow> char \<Rightarrow> bool" where
  "fourSecond c = between (if c = CHR 0xF0 then CHR 0x90 else CHR 0x80) (if c = CHR 0xF4 then CHR 0x8F else CHR 0xBF)"

lemma utf8Len_Cons:
  "utf8Len (c # s) =
     (if c < CHR 0x80 then 1
      else case s of
        [] \<Rightarrow> 0
      | b # s' \<Rightarrow>
          if twoLead c then (if cont b then 2 else 0)
          else (case s' of
            [] \<Rightarrow> 0
          | d # s'' \<Rightarrow>
              if threeLead c then (if threeSecond c b \<and> cont d then 3 else 0)
              else if fourLead c then (if fourSecond c b \<and> cont d \<and> s'' \<noteq> [] \<and> cont (hd s'') then 4 else 0)
              else 0))"
  unfolding twoLead_def threeLead_def fourLead_def threeSecond_def fourSecond_def utf8Len.simps ..

lemma second_cont: "threeSecond c b \<Longrightarrow> cont b" "fourSecond c b \<Longrightarrow> cont b"
  by (simp_all add: threeSecond_def fourSecond_def between_def split: if_splits) (simp_all add: less_eq_char_def)

lemma utf8Len_Nil [simp]: "utf8Len [] = 0"
  by (simp add: utf8Len.simps)

lemma utf8Len_shape:
  assumes "utf8Len s \<noteq> 0"
  obtains p r where "s = p @ r" "length p = utf8Len s" "\<forall>t. utf8Len (p @ t) = utf8Len s"
proof -
  obtain c s1 where s: "s = c # s1" using assms by (cases s) auto
  show ?thesis
  proof (cases "c < CHR 0x80")
    case True
    then show ?thesis using that [of "[c]" s1] by (simp add: s utf8Len_Cons)
  next
    case False
    obtain b s2 where s1: "s1 = b # s2" using assms False by (cases s1) (auto simp: s utf8Len_Cons)
    show ?thesis
    proof (cases "twoLead c")
      case True
      then show ?thesis using that [of "[c, b]" s2] assms False by (simp add: s s1 utf8Len_Cons split: if_splits)
    next
      case two: False
      obtain d s3 where s2: "s2 = d # s3" using assms False two by (cases s2) (auto simp: s s1 utf8Len_Cons)
      show ?thesis
      proof (cases "threeLead c")
        case True
        then show ?thesis using that [of "[c, b, d]" s3] assms False two by (simp add: s s1 s2 utf8Len_Cons split: if_splits)
      next
        case three: False
        then obtain x s4 where s3: "s3 = x # s4"
          using assms False two by (cases s3) (auto simp: s s1 s2 utf8Len_Cons split: if_splits)
        show ?thesis using that [of "[c, b, d, x]" s4] assms False two three by (simp add: s s1 s2 s3 utf8Len_Cons split: if_splits)
      qed
    qed
  qed
qed

lemma utf8Len_le: "utf8Len s \<le> length s"
proof (cases "utf8Len s = 0")
  case False
  then obtain p r where "s = p @ r" "length p = utf8Len s" by (rule utf8Len_shape)
  then have "length s = utf8Len s + length r" by (metis length_append)
  then show ?thesis by simp
qed simp

text \<open>Appending a string that starts a rune does not change the rune in front of it.\<close>

lemma utf8Len_append_start:
  assumes "s \<noteq> []" "t = [] \<or> startByte (hd t)"
  shows "utf8Len (s @ t) = utf8Len s"
proof (cases "utf8Len s = 0")
  case False
  then obtain p r where p: "s = p @ r" "length p = utf8Len s" "\<forall>t. utf8Len (p @ t) = utf8Len s" by (rule utf8Len_shape)
  have "utf8Len (p @ (r @ t)) = utf8Len s" using p(3) by blast
  then show ?thesis by (simp add: p(1))
next
  case True
  obtain c s1 where s: "s = c # s1" using assms(1) by (cases s) auto
  have no: "cont b \<Longrightarrow> t \<noteq> b # t1" for b t1 using assms(2) by (auto simp: startByte_def)
  show ?thesis
  proof (cases s1)
    case Nil
    then show ?thesis using True no second_cont by (cases t) (auto simp: s utf8Len_Cons split: list.splits if_splits)
  next
    case (Cons b s2)
    note s1 = Cons
    show ?thesis
    proof (cases s2)
      case Nil
      then show ?thesis using True no by (cases t) (auto simp: s s1 utf8Len_Cons split: if_splits)
    next
      case (Cons d s3)
      then show ?thesis using True no by (cases s3; cases t) (auto simp: s s1 utf8Len_Cons split: if_splits)
    qed
  qed
qed

lemma runes_Cons:
  "s \<noteq> [] \<Longrightarrow> runes s = take (max 1 (utf8Len s)) s # runes (drop (max 1 (utf8Len s)) s)"
  by (subst runes.simps) (simp add: Let_def)

lemma runes_Nil [simp]: "runes [] = []"
  by (simp add: runes.simps)

lemma runes_append:
  assumes "t = [] \<or> startByte (hd t)"
  shows "runes (s @ t) = runes s @ runes t"
  using assms
proof (induction s rule: runes.induct)
  case (1 s)
  show ?case
  proof (cases "s = []")
    case False
    define n where "n = max 1 (utf8Len s)"
    have n: "n \<le> length s" using utf8Len_le [of s] False by (auto simp: n_def Suc_le_eq)
    have "max 1 (utf8Len (s @ t)) = n" using utf8Len_append_start [OF False "1.prems"] by (simp add: n_def)
    then have "runes (s @ t) = take n s # runes (drop n s @ t)"
      using False n by (simp add: runes_Cons)
    moreover have "runes (drop n s @ t) = runes (drop n s) @ runes t"
      using "1.IH" [OF False n_def] "1.prems" by blast
    ultimately show ?thesis using False by (simp add: runes_Cons [of s] n_def)
  qed simp
qed

lemma runes_nonempty: "s \<noteq> [] \<Longrightarrow> length (runes s) > 0"
  by (simp add: runes_Cons)

lemma runes_Nil_iff: "length (runes s) = 0 \<longleftrightarrow> s = []"
  using runes_nonempty by fastforce

text \<open>Stripping white space strips whole runes.\<close>

lemma spaceEncodings_start: "e \<in> set spaceEncodings \<Longrightarrow> e \<noteq> [] \<and> startByte (hd e) \<and> utf8Len e = length e"
proof -
  have "list_all (\<lambda>e. e \<noteq> [] \<and> startByte (hd e) \<and> utf8Len e = length e) spaceEncodings" by code_simp
  then show "e \<in> set spaceEncodings \<Longrightarrow> ?thesis" by (simp add: list_all_iff)
qed

lemma utf8Len_whole:
  assumes "utf8Len e = length e" "e \<noteq> []"
  shows "utf8Len (e @ s) = length e"
proof -
  have "utf8Len e \<noteq> 0" using assms by simp
  then obtain p r where p: "e = p @ r" "length p = utf8Len e" "\<forall>t. utf8Len (p @ t) = utf8Len e" by (rule utf8Len_shape)
  from p(1) have "length e = length p + length r" by (metis length_append)
  then have "e = p" using p(1,2) assms(1) by simp
  then show ?thesis using p(3) assms(1) by metis
qed

lemma runes_drop_rune:
  assumes "utf8Len e = length e" "e \<noteq> []"
  shows "length (runes (e @ s)) = Suc (length (runes s))"
proof -
  have "Suc 0 \<le> length e" using assms by (cases e) auto
  then have "max 1 (utf8Len (e @ s)) = length e" using utf8Len_whole [OF assms] by (simp add: max_absorb2)
  then show ?thesis using assms(2) by (simp add: runes_Cons)
qed

lemma stripLeft_runes:
  "(\<And>e. e \<in> set encs \<Longrightarrow> e \<noteq> [] \<and> utf8Len e = length e) \<Longrightarrow> length (runes (stripLeft encs s)) \<le> length (runes s)"
proof (induction encs s rule: stripLeft.induct)
  case (1 encs s)
  show ?case
  proof (cases "find (\<lambda>e. e \<noteq> [] \<and> hasPrefix s e) encs")
    case None
    then show ?thesis by (subst stripLeft.simps) simp
  next
    case (Some e)
    then have e: "e \<in> set encs" "hasPrefix s e" by (auto dest: find_SomeD)
    then have s: "s = e @ drop (length e) s" by (auto simp: hasPrefix_iff)
    have "length (runes s) = Suc (length (runes (drop (length e) s)))"
      using runes_drop_rune [of e "drop (length e) s"] "1.prems" [OF e(1)] s by simp
    moreover have "length (runes (stripLeft encs (drop (length e) s))) \<le> length (runes (drop (length e) s))"
      using "1.IH" [OF Some] "1.prems" by blast
    ultimately show ?thesis using Some by (subst stripLeft.simps) simp
  qed
qed

lemma stripRight_runes:
  assumes "\<And>e. e \<in> set encs \<Longrightarrow> e \<noteq> [] \<and> startByte (hd e)"
  shows "length (runes (rev (stripLeft (map rev encs) r))) \<le> length (runes (rev r))"
proof (induction "map rev encs" r rule: stripLeft.induct)
  case (1 s)
  show ?case
  proof (cases "find (\<lambda>e. e \<noteq> [] \<and> hasPrefix s e) (map rev encs)")
    case None
    then show ?thesis by (subst stripLeft.simps) simp
  next
    case (Some e)
    then have e: "e \<in> set (map rev encs)" "hasPrefix s e" by (auto dest: find_SomeD)
    then have s: "s = e @ drop (length e) s" by (auto simp: hasPrefix_iff)
    have "rev e \<in> set encs" using e(1) by auto
    then have "rev e \<noteq> [] \<and> startByte (hd (rev e))" by (rule assms)
    then have "runes (rev (drop (length e) s) @ rev e) = runes (rev (drop (length e) s)) @ runes (rev e)"
      using runes_append by blast
    moreover have "rev s = rev (drop (length e) s) @ rev e" by (subst s) simp
    ultimately have "length (runes (rev (drop (length e) s))) \<le> length (runes (rev s))" by simp
    then show ?thesis using "1.hyps" [OF Some] Some by (subst stripLeft.simps) simp
  qed
qed

lemma trimSpace_runes: "length (runes (trimSpace s)) \<le> length (runes s)"
proof -
  have "length (runes (stripRight spaceEncodings (stripLeft spaceEncodings s))) \<le> length (runes (stripLeft spaceEncodings s))"
    unfolding stripRight_def using stripRight_runes [of spaceEncodings "rev (stripLeft spaceEncodings s)"] spaceEncodings_start
    by simp
  also have "\<dots> \<le> length (runes s)" by (rule stripLeft_runes) (use spaceEncodings_start in blast)
  finally show ?thesis by (simp add: trimSpace_def)
qed

lemma encodeRune_rune: "utf8Len r = 0 \<or> utf8Len r = length r \<Longrightarrow> utf8Len (encodeRune r) = length (encodeRune r)"
proof -
  have "utf8Len runeError = 3" by code_simp
  then show "utf8Len r = 0 \<or> utf8Len r = length r \<Longrightarrow> ?thesis" by (auto simp: encodeRune_def)
qed

lemma utf8Len_take: "utf8Len (take (max 1 (utf8Len s)) s) = 0 \<or> utf8Len (take (max 1 (utf8Len s)) s) = length (take (max 1 (utf8Len s)) s)"
proof (cases "utf8Len s = 0")
  case True
  have "utf8Len (take 1 s) \<le> 1" using utf8Len_le [of "take 1 s"] by simp
  then show ?thesis using True utf8Len_le [of "take 1 s"] by (cases s) (auto simp: utf8Len_Cons)
next
  case False
  then obtain p r where p: "s = p @ r" "length p = utf8Len s" "\<forall>t. utf8Len (p @ t) = utf8Len s" by (rule utf8Len_shape)
  have "max 1 (utf8Len s) = length p" using False p(2) by simp
  then have "take (max 1 (utf8Len s)) s = p" by (simp add: p(1))
  then show ?thesis using p(2) p(3) [THEN spec [where x = "[]"]] by simp
qed

lemma runes_are_runes: "r \<in> set (runes s) \<Longrightarrow> utf8Len r = 0 \<or> utf8Len r = length r"
proof (induction s rule: runes.induct)
  case (1 s)
  show ?case
  proof (cases "s = []")
    case False
    then show ?thesis using 1 runes_Cons [OF False] utf8Len_take [of s] by auto
  qed (use 1 in simp)
qed

lemma encoded_runes:
  "\<forall>r\<in>set rs. utf8Len r = 0 \<or> utf8Len r = length r \<Longrightarrow> length (runes (concat (map encodeRune rs))) = length rs"
proof (induction rs)
  case (Cons r rs)
  have "encodeRune r \<noteq> []" by (auto simp: encodeRune_def)
  moreover have "utf8Len (encodeRune r) = length (encodeRune r)" using Cons.prems encodeRune_rune by simp
  ultimately show ?case using Cons runes_drop_rune by simp
qed simp

lemma boundedString_runes:
  assumes "n > 0"
  shows "length (runes (boundedString s n)) \<le> n"
proof (cases "length (runes (trimSpace s)) \<le> n")
  case True
  then show ?thesis by (simp add: boundedString_def Let_def)
next
  case False
  define rs where "rs = take n (runes (trimSpace s))"
  have "\<forall>r\<in>set rs. utf8Len r = 0 \<or> utf8Len r = length r"
    unfolding rs_def using runes_are_runes in_set_takeD by metis
  then have "length (runes (concat (map encodeRune rs))) = length rs" by (rule encoded_runes)
  then have "length (runes (trimSpace (concat (map encodeRune rs)))) \<le> n"
    using trimSpace_runes [of "concat (map encodeRune rs)"] by (simp add: rs_def)
  then show ?thesis using False assms by (simp add: boundedString_def Let_def rs_def)
qed

lemma sanitize_runes: "n > 0 \<Longrightarrow> length (runes (sanitize s n)) \<le> n"
  by (simp add: sanitize_def boundedString_runes)

subsection \<open>The measure\<close>

fun textCost :: "nat \<Rightarrow> nat" where
  "textCost n = (if n = 0 then 0 else if n \<le> 32 then 1 else Suc (textCost (n div 2)))"

declare textCost.simps [simp del]

lemma textCost_mono: "m \<le> n \<Longrightarrow> textCost m \<le> textCost n"
proof (induction n arbitrary: m rule: textCost.induct)
  case (1 n)
  show ?case
  proof (cases "m \<le> 32")
    case True
    then show ?thesis using 1 by (simp add: textCost.simps [of m] textCost.simps [of n])
  next
    case False
    then have "textCost (m div 2) \<le> textCost (n div 2)" using 1 by (intro "1.IH") auto
    then show ?thesis using False 1 by (simp add: textCost.simps [of m] textCost.simps [of n])
  qed
qed

definition textWeight :: "string \<Rightarrow> nat" where "textWeight s = textCost (length (runes s))"

lemma textWeight_Nil [simp]: "textWeight [] = 0"
  by (simp add: textWeight_def textCost.simps)

lemma textWeight_pos: "s \<noteq> [] \<Longrightarrow> textWeight s > 0"
  using runes_nonempty [of s] by (auto simp: textWeight_def textCost.simps [of "length (runes s)"])

lemma textWeight_halved:
  assumes "length (runes s) > 32"
  shows "textWeight (boundedString s (length (runes s) div 2)) < textWeight s"
proof -
  have "length (runes (boundedString s (length (runes s) div 2))) \<le> length (runes s) div 2"
    by (rule boundedString_runes) (use assms in linarith)
  then have "textWeight (boundedString s (length (runes s) div 2)) \<le> textCost (length (runes s) div 2)"
    unfolding textWeight_def by (rule textCost_mono)
  also have "\<dots> < textWeight s"
    using assms unfolding textWeight_def by (subst (2) textCost.simps) (simp del: length_0_conv length_greater_0_conv)
  finally show ?thesis .
qed

definition present :: "string \<Rightarrow> nat" where "present s = (if s = '''' then 0 else 1)"

definition evidenceWeight :: "projected_evidence \<Rightarrow> nat" where
  "evidenceWeight e = 1 + present (pe_details e) + present (pe_summary e)"

definition resourceWeight :: "projected_resource \<Rightarrow> nat" where
  "resourceWeight r = 1 + present (pr_apiVersion r)"

definition actionWeight :: "projected_action \<Rightarrow> nat" where
  "actionWeight a = 1 + present (pa_description a) + (case pa_target a of None \<Rightarrow> 0 | Some r \<Rightarrow> resourceWeight r)"

definition findingWeight :: "projected_finding \<Rightarrow> nat" where
  "findingWeight f =
     textWeight (pf_id f) + textWeight (pf_source f) + textWeight (pf_title f) + textWeight (pf_severity f) +
     sum_list (map evidenceWeight (pf_evidence f)) + sum_list (map resourceWeight (pf_resources f)) +
     textWeight (pf_blastRadius f) + textWeight (pf_fixability f) + textWeight (pf_recommendedAction f)"

definition planWeight :: "projected_plan \<Rightarrow> nat" where
  "planWeight p =
     textWeight (pp_id p) + textWeight (pp_findingID p) + textWeight (pp_rootCause p) + sum_list (map actionWeight (pp_actions p)) +
     textWeight (pp_riskTier p) + length (pp_categories p) + length (pp_verificationSteps p) + length (pp_rollbackSteps p)"

definition inputWeight :: "advisor_input \<Rightarrow> nat" where
  "inputWeight x = findingWeight (adv_finding x) + planWeight (adv_plan x)"

text \<open>A field adds its own weight to the input and leaves the risk score and the approval flag alone.\<close>

definition weighs :: "'a field \<Rightarrow> ('a \<Rightarrow> nat) \<Rightarrow> bool" where
  "weighs fd weight \<longleftrightarrow>
     (\<forall>x v. inputWeight (snd fd v x) + weight (fst fd x) = inputWeight x + weight v \<and>
        pf_riskScore (adv_finding (snd fd v x)) = pf_riskScore (adv_finding x) \<and>
        pp_required (adv_plan (snd fd v x)) = pp_required (adv_plan x))"

lemmas weight_defs = weighs_def inputWeight_def findingWeight_def planWeight_def

lemma text_fields:
  "weighs titleField textWeight" "weighs blastField textWeight" "weighs recommendedField textWeight" "weighs rootCauseField textWeight"
  "weighs findingIDField textWeight" "weighs sourceField textWeight" "weighs planIDField textWeight" "weighs planFindingField textWeight"
  "weighs severityField textWeight" "weighs fixabilityField textWeight" "weighs tierField textWeight"
  by (simp_all add: weight_defs field_defs)

lemma list_fields:
  "weighs evidenceField (\<lambda>xs. sum_list (map evidenceWeight xs))" "weighs resourcesField (\<lambda>xs. sum_list (map resourceWeight xs))"
  "weighs actionsField (\<lambda>xs. sum_list (map actionWeight xs))" "weighs (ofPlan pp_rollbackSteps pp_rollbackSteps_update) length"
  "weighs (ofPlan pp_verificationSteps pp_verificationSteps_update) length" "weighs (ofPlan pp_categories pp_categories_update) length"
  by (simp_all add: weight_defs field_defs)

text \<open>What every rule does: it lowers the weight and keeps the two members that are always sent.\<close>

definition lowers :: "shrink_rule \<Rightarrow> bool" where
  "lowers r \<longleftrightarrow>
     (\<forall>x y. r x = Some y \<longrightarrow> inputWeight y < inputWeight x \<and> pf_riskScore (adv_finding y) = pf_riskScore (adv_finding x) \<and>
        pp_required (adv_plan y) = pp_required (adv_plan x))"

lemma lowersI:
  assumes "weighs fd weight" "\<And>x y. r x = Some y \<Longrightarrow> \<exists>v. y = snd fd v x \<and> weight v < weight (fst fd x)"
  shows "lowers r"
  unfolding lowers_def
proof (intro allI impI)
  fix x y assume "r x = Some y"
  then obtain v where v: "y = snd fd v x" "weight v < weight (fst fd x)" using assms(2) by blast
  have "inputWeight y + weight (fst fd x) = inputWeight x + weight v" "pf_riskScore (adv_finding y) = pf_riskScore (adv_finding x)"
    "pp_required (adv_plan y) = pp_required (adv_plan x)"
    using assms(1) by (simp_all add: weighs_def v(1))
  then show "inputWeight y < inputWeight x \<and> pf_riskScore (adv_finding y) = pf_riskScore (adv_finding x) \<and>
      pp_required (adv_plan y) = pp_required (adv_plan x)" using v(2) by auto
qed

lemma dropLast_lowers:
  assumes "weighs fd (\<lambda>xs. sum_list (map w xs))" "\<And>a. w a > 0"
  shows "lowers (dropLast n fd)"
proof (rule lowersI [OF assms(1)])
  fix x y assume "dropLast n fd x = Some y"
  then have y: "y = snd fd (butlast (fst fd x)) x" "fst fd x \<noteq> []" by (auto simp: dropLast_def split: if_splits)
  obtain ys z where "fst fd x = ys @ [z]" using y(2) by (metis rev_exhaust)
  then have "sum_list (map w (butlast (fst fd x))) < sum_list (map w (fst fd x))" using assms(2) by simp
  then show "\<exists>v. y = snd fd v x \<and> sum_list (map w v) < sum_list (map w (fst fd x))" using y(1) by blast
qed

lemma dropLast_lowers_length: "weighs fd length \<Longrightarrow> lowers (dropLast n fd)"
  using dropLast_lowers [of fd "\<lambda>_. 1"] by (simp add: sum_list_triv)

lemma changeFirst_lowers:
  assumes "\<And>a. p a \<Longrightarrow> w (f a) < w a" "changeFirst p f xs = Some ys"
  shows "sum_list (map w ys) < sum_list (map w xs :: nat list)"
  using assms(2) by (induction xs arbitrary: ys) (auto simp: assms(1) split: if_splits)

lemma clearFirst_lowers:
  assumes "weighs fd (\<lambda>xs. sum_list (map w xs))" "\<And>a. p a \<Longrightarrow> w (f a) < w a"
  shows "lowers (clearFirst fd p f)"
proof (rule lowersI [OF assms(1)])
  fix x y assume "clearFirst fd p f x = Some y"
  then obtain ys where ys: "changeFirst p f (fst fd x) = Some ys" "y = snd fd ys x" by (auto simp: clearFirst_def)
  from changeFirst_lowers [of p w f, OF assms(2) ys(1)] ys(2)
  show "\<exists>v. y = snd fd v x \<and> sum_list (map w v) < sum_list (map w (fst fd x))" by blast
qed

lemma halve_lowers:
  assumes "weighs fd textWeight" "n \<ge> 32"
  shows "lowers (halve n fd)"
proof (rule lowersI [OF assms(1)])
  fix x y assume "halve n fd x = Some y"
  then have "y = snd fd (boundedString (fst fd x) (length (runes (fst fd x)) div 2)) x" "32 < length (runes (fst fd x))"
    using assms(2) by (auto simp: halve_def split: if_splits)
  then show "\<exists>v. y = snd fd v x \<and> textWeight v < textWeight (fst fd x)" using textWeight_halved by blast
qed

lemma clearText_lowers:
  assumes "weighs fd textWeight"
  shows "lowers (clearText fd)"
proof (rule lowersI [OF assms])
  fix x y assume "clearText fd x = Some y"
  then have "y = snd fd '''' x" "textWeight '''' < textWeight (fst fd x)"
    by (auto simp: clearText_def textWeight_pos split: if_splits)
  then show "\<exists>v. y = snd fd v x \<and> textWeight v < textWeight (fst fd x)" by blast
qed

lemma clearActions_lowers: "lowers clearActions"
proof (rule lowersI [OF list_fields(3)])
  fix x y assume "clearActions x = Some y"
  then have y: "y = snd actionsField [] x" "fst actionsField x \<noteq> []"
    by (auto simp: clearActions_def field_defs split: if_splits)
  then have "sum_list (map actionWeight []) < sum_list (map actionWeight (fst actionsField x))"
    by (cases "fst actionsField x") (auto simp: actionWeight_def)
  then show "\<exists>v. y = snd actionsField v x \<and> sum_list (map actionWeight v) < sum_list (map actionWeight (fst actionsField x))"
    using y(1) by blast
qed

lemma rules_lower: "\<forall>r\<in>set shrinkRules. lowers r"
proof -
  have pos: "evidenceWeight e > 0" "resourceWeight r > 0" "actionWeight a > 0" for e r a
    by (simp_all add: evidenceWeight_def resourceWeight_def actionWeight_def)
  have clears:
    "lowers (clearFirst evidenceField (\<lambda>e. pe_details e \<noteq> '''') (pe_details_update (\<lambda>_. '''')))"
    "lowers (clearFirst evidenceField (\<lambda>e. pe_summary e \<noteq> '''') (pe_summary_update (\<lambda>_. '''')))"
    "lowers (clearFirst actionsField (\<lambda>a. pa_description a \<noteq> '''') (pa_description_update (\<lambda>_. '''')))"
    "lowers (clearFirst resourcesField (\<lambda>r. pr_apiVersion r \<noteq> '''') (pr_apiVersion_update (\<lambda>_. '''')))"
    "lowers (clearFirst actionsField hasTargetVersion (pa_target_update (map_option (pr_apiVersion_update (\<lambda>_. '''')))))"
    "lowers (clearFirst actionsField (\<lambda>a. pa_target a \<noteq> None) (pa_target_update (\<lambda>_. None)))"
    by (rule clearFirst_lowers, rule list_fields,
        force simp: evidenceWeight_def resourceWeight_def actionWeight_def present_def hasTargetVersion_def split: option.splits)+
  show ?thesis
    by (simp add: shrinkRules_def clears [simplified] clearActions_lowers clearText_lowers halve_lowers text_fields
        dropLast_lowers [OF list_fields(1)] dropLast_lowers [OF list_fields(2)] dropLast_lowers [OF list_fields(3)] pos
        dropLast_lowers_length list_fields)
qed

lemma firstRule_Some: "firstRule rs x = Some y \<Longrightarrow> \<exists>r\<in>set rs. r x = Some y"
  by (induction rs) (auto split: option.splits)

lemma firstRule_None: "firstRule rs x = None \<longleftrightarrow> (\<forall>r\<in>set rs. r x = None)"
  by (induction rs) (auto split: option.splits)

lemma shrink_lowers:
  assumes "shrinkProjectedInput x = Some y"
  shows "inputWeight y < inputWeight x" "pf_riskScore (adv_finding y) = pf_riskScore (adv_finding x)"
    "pp_required (adv_plan y) = pp_required (adv_plan x)"
  using rules_lower firstRule_Some [OF assms [unfolded shrinkProjectedInput_def]] by (auto simp: lowers_def)

subsection \<open>Where shrinking stops\<close>

definition emptyInput :: "int \<Rightarrow> bool \<Rightarrow> advisor_input" where
  "emptyInput score required =
     \<lparr>adv_finding = \<lparr>pf_id = '''', pf_source = '''', pf_title = '''', pf_severity = '''', pf_evidence = [], pf_resources = [],
        pf_blastRadius = '''', pf_fixability = '''', pf_riskScore = score, pf_recommendedAction = ''''\<rparr>,
      adv_plan = \<lparr>pp_id = '''', pp_findingID = '''', pp_rootCause = '''', pp_actions = [], pp_riskTier = '''', pp_required = required,
        pp_categories = [], pp_verificationSteps = [], pp_rollbackSteps = []\<rparr>\<rparr>"

lemma shrink_stops:
  assumes "shrinkProjectedInput x = None"
  shows "x = emptyInput (pf_riskScore (adv_finding x)) (pp_required (adv_plan x))"
proof -
  have "r x = None" if "r \<in> set shrinkRules" for r
    using assms that by (auto simp: shrinkProjectedInput_def firstRule_None)
  then have "clearActions x = None" "dropLast 0 resourcesField x = None" "dropLast 0 evidenceField x = None"
    "dropLast 0 (ofPlan pp_rollbackSteps pp_rollbackSteps_update) x = None"
    "dropLast 0 (ofPlan pp_verificationSteps pp_verificationSteps_update) x = None"
    "dropLast 0 (ofPlan pp_categories pp_categories_update) x = None"
    "clearText recommendedField x = None" "clearText blastField x = None" "clearText rootCauseField x = None"
    "clearText titleField x = None" "clearText sourceField x = None" "clearText findingIDField x = None"
    "clearText planFindingField x = None" "clearText planIDField x = None" "clearText severityField x = None"
    "clearText fixabilityField x = None" "clearText tierField x = None"
    by (simp_all add: shrinkRules_def)
  then show ?thesis
    by (cases "adv_finding x"; cases "adv_plan x"; cases x)
      (simp add: emptyInput_def clearActions_def dropLast_def clearText_def field_defs split: if_splits)
qed

lemma fitBody_fits:
  "fitBody n body limit x = Some (b, y) \<Longrightarrow> b = body y \<and> int (length b) \<le> limit"
  by (induction n body limit x rule: fitBody.induct) (auto split: if_splits option.splits)

lemma fitBody_ends:
  assumes "inputWeight x < n" "int (length (body (emptyInput (pf_riskScore (adv_finding x)) (pp_required (adv_plan x))))) \<le> limit"
  shows "fitBody n body limit x \<noteq> None"
  using assms
proof (induction n arbitrary: x)
  case (Suc n)
  show ?case
  proof (cases "shrinkProjectedInput x")
    case None
    then show ?thesis using Suc.prems(2) shrink_stops [OF None] by simp
  next
    case (Some y)
    then show ?thesis using Suc shrink_lowers [OF Some] by simp
  qed
qed simp

subsection \<open>The weight of a projection\<close>

lemma sanitize_cost: "0 < n \<Longrightarrow> textCost n \<le> k \<Longrightarrow> textWeight (sanitize s n) \<le> k"
  using textCost_mono [OF sanitize_runes [of n s]] by (simp add: textWeight_def)

lemma textCost_values:
  "textCost 20 = 1" "textCost 30 = 1" "textCost 60 = 2" "textCost 120 = 3" "textCost 200 = 4" "textCost 500 = 5" "textCost 700 = 6" "textCost 900 = 6"
  by (simp_all add: textCost.simps)

lemma sum_bounded:
  assumes "\<And>a. w a \<le> k" "length xs \<le> n"
  shows "sum_list (map w xs) \<le> k * (n :: nat)"
proof -
  have "sum_list (map w xs) \<le> k * length xs" using assms(1) by (induction xs) (auto simp: add_mono)
  also have "\<dots> \<le> k * n" using assms(2) by simp
  finally show ?thesis .
qed

lemma element_weights: "evidenceWeight e \<le> 3" "resourceWeight r \<le> 2" "actionWeight a \<le> 4"
  by (simp_all add: evidenceWeight_def resourceWeight_def actionWeight_def present_def split: option.splits)

lemma projectEvidence_length: "length (projectEvidence n es) \<le> n"
  by (induction n es rule: projectEvidence.induct) (auto simp: Suc_le_eq)

lemma sanitizeAll_length: "length (sanitizeAll k xs) \<le> length xs"
  by (induction xs) (auto simp: Let_def le_SucI)

lemma boundedSanitized_length: "length (boundedSanitizedStrings xs n k) \<le> n"
  using sanitizeAll_length [of k "take n xs"] by (simp add: boundedSanitizedStrings_def)

lemma projection_weight: "inputWeight (projectAdvisorInput f plan) \<le> 190"
proof -
  have "sum_list (map evidenceWeight (projectEvidence 10 (f_evidence f))) \<le> 3 * 10"
    by (rule sum_bounded) (simp_all add: element_weights projectEvidence_length)
  moreover have "sum_list (map resourceWeight (map projectResource (take 20 (f_resources f)))) \<le> 2 * 20"
    by (rule sum_bounded) (simp_all add: element_weights)
  moreover have "sum_list (map actionWeight (map projectAction (take 12 (p_actions plan)))) \<le> 4 * 12"
    by (rule sum_bounded) (simp_all add: element_weights)
  moreover have "length (boundedSanitizedStrings (ap_categories (p_approvalPolicy plan)) 10 200) \<le> 10"
    "length (boundedSanitizedStrings (p_verificationSteps plan) 10 500) \<le> 10"
    "length (boundedSanitizedStrings (p_rollbackSteps plan) 10 500) \<le> 10"
    by (rule boundedSanitized_length)+
  moreover have "textWeight (sanitize (f_id f) 200) \<le> 4" "textWeight (sanitize (f_source f) 120) \<le> 3"
    "textWeight (sanitize (f_title f) 500) \<le> 5" "textWeight (sanitize (severityString (f_severity f)) 30) \<le> 1"
    "textWeight (sanitize (f_blastRadius f) 700) \<le> 6" "textWeight (sanitize (fixabilityString (f_fixability f)) 60) \<le> 2"
    "textWeight (sanitize (f_recommendedAction f) 700) \<le> 6" "textWeight (sanitize (p_id plan) 200) \<le> 4"
    "textWeight (sanitize (p_findingID plan) 200) \<le> 4" "textWeight (sanitize (p_rootCause plan) 900) \<le> 6"
    "textWeight (sanitize (tierString (p_riskTier plan)) 20) \<le> 1"
    by (simp_all add: sanitize_cost textCost_values)
  ultimately show ?thesis
    unfolding inputWeight_def findingWeight_def planWeight_def projectAdvisorInput_def maxProjectedEvidence_def
      maxProjectedResources_def maxProjectedActions_def maxProjectedSteps_def advisor_input.simps projected_finding.simps projected_plan.simps
    by linarith
qed

text \<open>
  The bound of 256 attempts never cuts the shrinking loop short: whenever the request without any
  of the projected texts fits the limit, a request body is built, and it fits the limit.
\<close>
theorem request_fits:
  assumes "int (length (chatRequest model tokens (encodeInput (emptyInput (f_riskScore f) (ap_required (p_approvalPolicy plan)))))) \<le> limit"
  shows "\<exists>body evidence. buildRequestBody model tokens limit f plan = Inr (body, evidence, allowedActions plan) \<and> int (length body) \<le> limit"
proof -
  define body where "body = (\<lambda>x. chatRequest model tokens (encodeInput x))"
  define x where "x = projectAdvisorInput f plan"
  have "inputWeight x < 256" using projection_weight [of f plan] by (simp add: x_def)
  moreover have "pf_riskScore (adv_finding x) = f_riskScore f" "pp_required (adv_plan x) = ap_required (p_approvalPolicy plan)"
    by (simp_all add: x_def projectAdvisorInput_def)
  ultimately have "fitBody 256 body limit x \<noteq> None" using assms by (intro fitBody_ends) (simp_all add: body_def)
  then obtain b y where y: "fitBody 256 body limit x = Some (b, y)" by force
  then have "buildRequestBody model tokens limit f plan = Inr (b, projectedEvidenceSourceIDs y, allowedActions plan)"
    by (simp add: buildRequestBody_def body_def x_def)
  moreover have "int (length b) \<le> limit" using fitBody_fits [OF y] by blast
  ultimately show ?thesis by blast
qed

definition adviceFinding :: finding where
  "adviceFinding = (sample_finding ''Namespace'' ''no quota'')\<lparr>f_riskScore := 70\<rparr>"

definition advicePlan :: remediation_plan where
  "advicePlan =
     \<lparr>p_id = ''p1'', p_catalogVersion = ''v1'', p_findingID = ''f1'', p_rootCause = ''no quota'',
      p_actions = [\<lparr>ta_type = ''apply_resource_governance'', ta_target = \<lparr>rr_apiVersion = ''v1'', rr_kind = ''Namespace'', rr_namespace = '''', rr_name = ''prod''\<rparr>,
        ta_description = ''add a quota'', ta_params = []\<rparr>],
      p_riskTier = RiskA, p_dryRunResult = \<lparr>dr_passed = True, dr_message = ''''\<rparr>, p_verificationSteps = [], p_rollbackSteps = [],
      p_approvalPolicy = \<lparr>ap_required = False, ap_decision = ApprovalOther '''', ap_categories = []\<rparr>, p_ai = None, p_status = ''planned'', p_createdAt = 0\<rparr>"

lemma request_fits_witness:
  "\<exists>body evidence. buildRequestBody ''m'' 700 65536 adviceFinding advicePlan = Inr (body, evidence, allowedActions advicePlan) \<and>
     int (length body) \<le> 65536"
proof (rule request_fits)
  have "f_riskScore adviceFinding = 70" "ap_required (p_approvalPolicy advicePlan) = False"
    by (simp_all add: adviceFinding_def advicePlan_def)
  moreover have "int (length (chatRequest ''m'' 700 (encodeInput (emptyInput 70 False)))) \<le> 65536" by code_simp
  ultimately show "int (length (chatRequest ''m'' 700 (encodeInput (emptyInput (f_riskScore adviceFinding)
      (ap_required (p_approvalPolicy advicePlan)))))) \<le> 65536" by simp
qed

end
