(* ===== verification/AiSafety.thy ===== *)
theory AiSafety
  imports AiAdvisor AiShrink
begin

text \<open>
  What the AI advisor guarantees: the hosts it talks to (\<open>endpoint_pinned\<close>), what makes it refuse to
  send anything (\<open>excluded_nothing_sent\<close>), what an accepted analysis can say (\<open>analysis_validated\<close>),
  and how often a failing provider is asked (\<open>breaker_bound\<close>).  Its redaction misses quoted and
  prefixed credential names (\<open>redaction_misses\<close>).
\<close>

subsection \<open>The endpoint\<close>

definition acceptableURL :: "bool \<Rightarrow> string list \<Rightarrow> url \<Rightarrow> bool" where
  "acceptableURL insecure hosts u \<longleftrightarrow>
     \<not> url_hasUser u \<and> url_fragment u = '''' \<and> url_hostname u \<noteq> '''' \<and>
     (toLower (url_scheme u) = ''https'' \<or> insecure \<and> toLower (url_scheme u) = ''http'') \<and>
     normalizeExactMatch (url_hostname u) \<in> set hosts"

lemma validateEndpoint_accepts:
  assumes "validateEndpoint parse raw insecure hosts = Inr t" "hosts \<noteq> []"
  shows "\<exists>u. parse raw = Inr u \<and> acceptableURL insecure hosts u \<and> t = url_text u"
  using assms by (auto simp: validateEndpoint_def acceptableURL_def split: sum.splits if_splits)

lemma endpointAllowlist_nonempty: "endpointAllowlist parse config e = Inr hosts \<Longrightarrow> hosts \<noteq> []"
  by (auto simp: endpointAllowlist_def split: sum.splits list.splits if_splits)

text \<open>
  An advisor only ever talks to hosts of its allowlist, over HTTPS unless plain HTTP was allowed:
  this holds for its endpoint, and for every target of a redirect that it follows.  The allowlist
  is never empty, and without a configured one it is the host of the endpoint.
\<close>
theorem endpoint_pinned:
  assumes "NewOpenAICompatibleAdvisor parse config = Inr a"
  shows "adr_endpointAllowlist a \<noteq> [] \<and>
    (\<exists>u. acceptableURL (cfg_allowInsecureHTTP config) (adr_endpointAllowlist a) u \<and> adr_endpoint a = url_text u \<and>
       (cfg_endpointHostAllowlist config = [] \<longrightarrow> adr_endpointAllowlist a = [normalizeExactMatch (url_hostname u)])) \<and>
    (checkRedirect parse a target via = None \<longrightarrow>
       (\<exists>u. parse target = Inr u \<and> acceptableURL (cfg_allowInsecureHTTP config) (adr_endpointAllowlist a) u \<and> via < 10))"
proof -
  define e where "e = orText (cfg_endpoint config) ''https://api.openai.com/v1/chat/completions''"
  from assms have hosts: "endpointAllowlist parse config e = Inr (adr_endpointAllowlist a)"
    and valid: "validateEndpoint parse e (cfg_allowInsecureHTTP config) (adr_endpointAllowlist a) = Inr (adr_endpoint a)"
    and flag: "adr_allowInsecureHTTP a = cfg_allowInsecureHTTP config"
    by (auto simp: NewOpenAICompatibleAdvisor_def Let_def e_def split: sum.splits if_splits)
  note ne = endpointAllowlist_nonempty [OF hosts]
  from validateEndpoint_accepts [OF valid ne] obtain u where
    u: "parse e = Inr u" "acceptableURL (cfg_allowInsecureHTTP config) (adr_endpointAllowlist a) u" "adr_endpoint a = url_text u" by blast
  have "adr_endpointAllowlist a = [normalizeExactMatch (url_hostname u)]" if "cfg_endpointHostAllowlist config = []"
    using hosts that u(1) by (auto simp: endpointAllowlist_def split: if_splits)
  moreover have "\<exists>u. parse target = Inr u \<and> acceptableURL (cfg_allowInsecureHTTP config) (adr_endpointAllowlist a) u \<and> via < 10"
    if redirect: "checkRedirect parse a target via = None"
  proof -
    from redirect obtain t where "validateEndpoint parse target (cfg_allowInsecureHTTP config) (adr_endpointAllowlist a) = Inr t" "via < 10"
      by (auto simp: checkRedirect_def flag split: sum.splits if_splits)
    then show ?thesis using validateEndpoint_accepts ne by blast
  qed
  ultimately show ?thesis using ne u by blast
qed

definition sampleConfig :: ai_config where
  "sampleConfig =
     \<lparr>cfg_enabled = True, cfg_provider = '''', cfg_endpoint = ''https://ai.example/v1'', cfg_model = ''m'', cfg_apiKey = ''k'', cfg_timeout = 0,
      cfg_allowInsecureHTTP = False, cfg_endpointHostAllowlist = [], cfg_excludedSources = [], cfg_excludedNamespaces = [''Payments''],
      cfg_maxInputBytes = 0, cfg_maxOutputTokens = 0, cfg_circuitBreakerThreshold = 2, cfg_circuitBreakerCooldown = 60\<rparr>"

definition untilSlash :: "string \<Rightarrow> string" where "untilSlash s = takeWhile (\<lambda>c. c \<noteq> CHR ''/'') s"

definition sampleParse :: "string \<Rightarrow> string + url" where
  "sampleParse s =
     (if hasPrefix s ''https://'' then Inr \<lparr>url_scheme = ''https'', url_host = untilSlash (drop 8 s), url_hostname = untilSlash (drop 8 s),
        url_hasUser = False, url_fragment = '''', url_text = s\<rparr> else Inl ''unsupported'')"

definition sampleAdvisor :: advisor where
  "sampleAdvisor = projr (NewOpenAICompatibleAdvisor sampleParse sampleConfig)"

lemma sampleAdvisor_built: "NewOpenAICompatibleAdvisor sampleParse sampleConfig = Inr sampleAdvisor"
proof -
  have "isl (NewOpenAICompatibleAdvisor sampleParse sampleConfig) = False" by code_simp
  then show ?thesis by (simp add: sampleAdvisor_def)
qed

lemma endpoint_pinned_witness:
  "adr_endpointAllowlist sampleAdvisor \<noteq> [] \<and>
     (\<exists>u. acceptableURL False (adr_endpointAllowlist sampleAdvisor) u \<and> adr_endpoint sampleAdvisor = url_text u)"
proof -
  have "cfg_allowInsecureHTTP sampleConfig = False" by (simp add: sampleConfig_def)
  then show ?thesis using endpoint_pinned [OF sampleAdvisor_built] by metis
qed

subsection \<open>Exclusions\<close>

text \<open>
  Nothing is sent for a finding from an excluded source, or one that touches an excluded
  namespace - in its correlation keys, a resource or the target of a planned action: the call
  fails, and neither the provider nor the circuit breaker notices it.
\<close>
theorem excluded_nothing_sent:
  assumes "normalizeExactMatch (f_source f) \<in> set (adr_excludedSources a) \<or>
    (\<exists>n. n \<in> insert (ck_namespace (f_correlationKeys f)) (rr_namespace ` set (f_resources f) \<union> (rr_namespace \<circ> ta_target) ` set (p_actions plan)) \<and>
       trimSpace n \<noteq> '''' \<and> normalizeExactMatch (trimSpace n) \<in> set (adr_excludedNamespaces a))"
  shows "\<exists>e. Analyze a client order t0 t1 f plan st = (Inl e, st)"
proof -
  have "checkExclusions a f plan \<noteq> None"
  proof (cases "normalizeExactMatch (f_source f) \<in> set (adr_excludedSources a)")
    case False
    define ns where "ns = ck_namespace (f_correlationKeys f) # map rr_namespace (f_resources f) @ map (\<lambda>x. rr_namespace (ta_target x)) (p_actions plan)"
    from assms False obtain n where n: "n \<in> insert (ck_namespace (f_correlationKeys f))
        (rr_namespace ` set (f_resources f) \<union> (rr_namespace \<circ> ta_target) ` set (p_actions plan))"
      "trimSpace n \<noteq> ''''" "normalizeExactMatch (trimSpace n) \<in> set (adr_excludedNamespaces a)" by blast
    then have "checkNamespace a n \<noteq> None" by (simp add: checkNamespace_def Let_def)
    moreover have "n \<in> set ns" using n(1) by (auto simp: ns_def)
    ultimately have "forEachErr (checkNamespace a) ns \<noteq> None" using forEachErr_None [of "checkNamespace a" ns] by auto
    then show ?thesis using False by (simp add: checkExclusions_def ns_def)
  qed (simp add: checkExclusions_def)
  then show ?thesis by (auto simp: Analyze_def)
qed

definition excludedFinding :: finding where
  "excludedFinding = adviceFinding\<lparr>f_resources := [\<lparr>rr_apiVersion = ''v1'', rr_kind = ''Pod'', rr_namespace = '' PAYMENTS'', rr_name = ''p''\<rparr>]\<rparr>"

lemma excluded_nothing_sent_witness:
  "\<exists>e. Analyze sampleAdvisor (\<lambda>rq w. (Inl ''down'', Suc w)) [] 5 6 excludedFinding advicePlan (\<lparr>cb_failures = 0, cb_openUntil = 0\<rparr>, 0) =
     (Inl e, (\<lparr>cb_failures = 0, cb_openUntil = 0\<rparr>, 0))"
proof (rule excluded_nothing_sent)
  have "normalizeExactMatch (trimSpace '' PAYMENTS'') \<in> set (adr_excludedNamespaces sampleAdvisor)" "trimSpace '' PAYMENTS'' \<noteq> ''''"
    by code_simp+
  moreover have "'' PAYMENTS'' \<in> rr_namespace ` set (f_resources excludedFinding)" by (simp add: excludedFinding_def)
  ultimately show "normalizeExactMatch (f_source excludedFinding) \<in> set (adr_excludedSources sampleAdvisor) \<or>
    (\<exists>n. n \<in> insert (ck_namespace (f_correlationKeys excludedFinding)) (rr_namespace ` set (f_resources excludedFinding) \<union>
        (rr_namespace \<circ> ta_target) ` set (p_actions advicePlan)) \<and>
      trimSpace n \<noteq> '''' \<and> normalizeExactMatch (trimSpace n) \<in> set (adr_excludedNamespaces sampleAdvisor))" by blast
qed

subsection \<open>What an analysis can say\<close>

lemma collectCitations_sound:
  "collectCitations evidence is seen = Inr cs \<Longrightarrow> set seen \<subseteq> set evidence \<Longrightarrow> distinct seen \<Longrightarrow>
     set cs \<subseteq> set evidence \<and> distinct cs \<and> set cs = set seen \<union> trimSpace ` set is"
  by (induction evidence "is" seen rule: collectCitations.induct) (auto simp: Let_def split: if_splits)

lemma validated_output:
  assumes "validateProviderOutput order x allowed evidence = Inr (confidence, citations)"
  shows "trimSpace (po_recommendedAction x) \<in> insert ''human_review'' (set allowed)" "confidence \<in> {''low'', ''medium'', ''high''}"
    "set citations \<subseteq> set evidence" "distinct citations" "citations = [] \<longleftrightarrow> evidence = []" "sorted citations"
proof -
  from assms obtain cs where cs: "collectCitations evidence (po_evidenceSourceIDs x) [] = Inr cs" "citations = sortSlice (<) cs"
    and rest: "trimSpace (po_recommendedAction x) \<in> insert ''human_review'' (set allowed)" "confidence \<in> {''low'', ''medium'', ''high''}"
      "evidence \<noteq> [] \<longrightarrow> cs \<noteq> []"
    by (auto simp: validateProviderOutput_def Let_def split: option.splits sum.splits if_splits)
  from collectCitations_sound [OF cs(1)] have sound: "set cs \<subseteq> set evidence" "distinct cs" by auto
  show "trimSpace (po_recommendedAction x) \<in> insert ''human_review'' (set allowed)" "confidence \<in> {''low'', ''medium'', ''high''}"
    by (rule rest)+
  show "set citations \<subseteq> set evidence" using sound(1) by (simp add: cs(2))
  have "mset citations = mset cs" by (simp add: cs(2))
  then show "distinct citations" using sound(2) by (metis mset_eq_imp_distinct_iff)
  have "citations = [] \<longleftrightarrow> cs = []" using \<open>mset citations = mset cs\<close> by (metis mset_zero_iff_right)
  then show "citations = [] \<longleftrightarrow> evidence = []" using rest(3) sound(1) by auto
  show "sorted citations" using by_key.ordered_sortSlice [of "\<lambda>x. x" cs] by (simp add: cs(2) not_less)
qed

lemma sanitizeAll_bounded: "t \<in> set (sanitizeAll k xs) \<Longrightarrow> k > 0 \<Longrightarrow> length (runes t) \<le> k"
  by (induction xs) (auto simp: Let_def sanitize_runes split: if_splits)

lemma sanitizedNotes_bounded:
  assumes "t \<in> set (boundedSanitizedStrings xs n k)" "k > 0"
  shows "length (runes t) \<le> k"
  using assms sanitizeAll_bounded by (auto simp: boundedSanitizedStrings_def)

lemma analysis_accepted:
  assumes "Analyze a client order t0 t1 f plan (cb, w) = (Inr x, (cb', w'))"
  shows "ai_recommendedAction x \<in> insert ''human_review'' (set (allowedActions plan)) \<and> ai_confidence x \<in> {''low'', ''medium'', ''high''} \<and>
    length (runes (ai_summary x)) \<le> 700 \<and> length (runes (ai_rootCause x)) \<le> 900 \<and> length (runes (ai_impact x)) \<le> 900 \<and>
    length (ai_safetyNotes x) \<le> 5 \<and> (\<forall>t\<in>set (ai_safetyNotes x). length (runes t) \<le> 300) \<and>
    ai_provider x = adr_provider a \<and> ai_autonomousPolicy x = autonomousPolicy \<and> ai_generatedAt x = t1 \<and>
    cb' = \<lparr>cb_failures = 0, cb_openUntil = 0\<rparr> \<and>
    (\<exists>body response. client \<lparr>aq_url = adr_endpoint a, aq_authorization = ''Bearer '' @ adr_apiKey a, aq_body = body\<rparr> w = (Inr response, w') \<and>
       int (length body) \<le> adr_maxInputBytes a \<and> 200 \<le> ap_status response \<and> ap_status response \<le> 299)"
proof -
  define rq where "rq = (\<lambda>body. \<lparr>aq_url = adr_endpoint a, aq_authorization = ''Bearer '' @ adr_apiKey a, aq_body = body\<rparr>)"
  from assms obtain body evidence answer where
    body: "buildRequestBody (adr_model a) (adr_maxOutputTokens a) (adr_maxInputBytes a) f plan = Inr (body, evidence, allowedActions plan)"
    and sent: "client (rq body) w = (answer, w')" and answer: "readAnalysis a order t1 (allowedActions plan) evidence answer = Inr x"
    and closed: "cb' = \<lparr>cb_failures = 0, cb_openUntil = 0\<rparr>"
    by (auto simp: Analyze_def rq_def recordSuccess_def buildRequestBody_def split: option.splits sum.splits prod.splits)
  from body have fits: "int (length body) \<le> adr_maxInputBytes a"
    by (auto simp: buildRequestBody_def dest: fitBody_fits split: option.splits)
  from answer obtain response out confidence citations where
    response: "answer = Inr response" "200 \<le> ap_status response" "ap_status response \<le> 299"
    and out: "validateProviderOutput order out (allowedActions plan) evidence = Inr (confidence, citations)" and x: "x = analysisOf a t1 out confidence citations"
    by (auto simp: readAnalysis_def split: sum.splits if_splits option.splits list.splits prod.splits)
  have bounded: "length (ai_safetyNotes x) \<le> 5" "\<forall>t\<in>set (ai_safetyNotes x). length (runes t) \<le> 300"
    using boundedSanitized_length [of "po_safetyNotes out" 5 300] boundedSanitized_length [of "po_safetyNotes out" 4 300]
      sanitizedNotes_bounded [where k = 300] boundedString_runes [of 300]
    by (auto simp: x analysisOf_def)
  show ?thesis
    using validated_output(1,2) [OF out] bounded closed fits sent response sanitize_runes
    by (auto simp: x analysisOf_def rq_def)
qed

text \<open>
  C39. An analysis is only accepted from a provider that answered a single request - sent to the
  endpoint, no longer than the limit - with a success.  It recommends an action of the plan or
  human review, with one of three confidences; its texts and notes are bounded; provider, policy
  statement and time are the advisor's own; and the circuit breaker is closed.
\<close>
theorem analysis_validated:
  assumes "Analyze a client order t0 t1 f plan (cb, w) = (Inr x, (cb', w'))"
  shows "ai_recommendedAction x \<in> insert ''human_review'' (set (allowedActions plan)) \<and> ai_confidence x \<in> {''low'', ''medium'', ''high''} \<and>
    length (runes (ai_summary x)) \<le> 700 \<and> length (runes (ai_rootCause x)) \<le> 900 \<and> length (runes (ai_impact x)) \<le> 900 \<and>
    length (ai_safetyNotes x) \<le> 5 \<and> (\<forall>t\<in>set (ai_safetyNotes x). length (runes t) \<le> 300) \<and>
    ai_provider x = adr_provider a \<and> ai_autonomousPolicy x = autonomousPolicy \<and> ai_generatedAt x = t1 \<and>
    cb' = \<lparr>cb_failures = 0, cb_openUntil = 0\<rparr> \<and>
    (\<exists>body response. client \<lparr>aq_url = adr_endpoint a, aq_authorization = ''Bearer '' @ adr_apiKey a, aq_body = body\<rparr> w = (Inr response, w') \<and>
       int (length body) \<le> adr_maxInputBytes a \<and> 200 \<le> ap_status response \<and> ap_status response \<le> 299)"
  using analysis_accepted [OF assms] by blast

text \<open>A provider that answers every request with a JSON document.\<close>

lemma parseStr_escapedQuote: "parseStr (CHR 0x5C # CHR 0x22 # s) = map_option (\<lambda>(a, b). (CHR 0x22 # a, b)) (parseStr s)"
  by (subst parseStr.simps) (simp add: simpleEscape_def)

definition sampleOutput :: string where
  "sampleOutput =
     encodeStruct [(''summary'', quoteJson ''s''), (''rootCause'', quoteJson ''r''), (''impact'', quoteJson ''i''),
       (''recommendedAction'', quoteJson ''human_review''), (''confidence'', quoteJson ''low'')]"

definition sampleBody :: string where
  "sampleBody = encodeStruct [(''choices'', encodeList [encodeStruct [(''message'', encodeStruct [(''content'', quoteJson sampleOutput)])]])]"

definition sampleClient :: "nat ai_client" where
  "sampleClient rq n = (Inr \<lparr>ap_status = 200, ap_body = Inr sampleBody\<rparr>, Suc n)"

lemmas encode_eval = encodeStruct_def encodeList_def quoteJson_def escapeByte_def

lemma sampleOutput_read: "jsonStrict sampleOutput = Some (JObj [(''summary'', JStr ''s''), (''rootCause'', JStr ''r''), (''impact'', JStr ''i''),
    (''recommendedAction'', JStr ''human_review''), (''confidence'', JStr ''low'')])"
  by (simp add: sampleOutput_def encode_eval json_eval)

lemma sampleBody_read: "jsonStrict sampleBody = Some (JObj [(''choices'', JArr [JObj [(''message'', JObj [(''content'', JStr sampleOutput)])]])])"
  by (simp add: sampleBody_def sampleOutput_def encode_eval json_eval parseStr_escapedQuote)

lemma sample_read: "isl (readAnalysis sampleAdvisor [] 6 allowed [] (Inr \<lparr>ap_status = 200, ap_body = Inr sampleBody\<rparr>)) = False"
proof -
  have "int (length sampleBody) \<le> 1000" by code_simp
  then have "length sampleBody \<le> maxProviderResponseBytes" by (simp add: maxProviderResponseBytes_def)
  moreover have "decodeCompletion sampleBody = Some [sampleOutput]"
    by (simp add: decodeCompletion_def sampleBody_read matchField_def readArray_def readChoice_def readMessage_def)
  moreover have "trimSpace (stripJSONFence sampleOutput) = sampleOutput" by code_simp
  moreover have "decodeOutput sampleOutput = Some (noOutput\<lparr>po_summary := ''s'', po_rootCause := ''r'', po_impact := ''i'',
      po_recommendedAction := ''human_review'', po_confidence := ''low''\<rparr>)"
    by (simp add: decodeOutput_def sampleOutput_read decodeObject_def outputFields_def matchField_def setOutput_def noOutput_def)
  moreover have "validateProviderOutput [] (noOutput\<lparr>po_summary := ''s'', po_rootCause := ''r'', po_impact := ''i'',
      po_recommendedAction := ''human_review'', po_confidence := ''low''\<rparr>) allowed [] = Inr (''low'', [])"
  proof -
    have "trimSpace ''s'' = ''s''" "trimSpace ''r'' = ''r''" "trimSpace ''i'' = ''i''" "trimSpace ''human_review'' = ''human_review''"
      "trimSpace ''low'' = ''low''" "toLower ''low'' = ''low''" by code_simp+
    then show ?thesis
      by (simp add: validateProviderOutput_def missingField_def requiredFields_def noOutput_def sortSlice_def Let_def \<open>toLower ''low'' = ''low''\<close>)
  qed
  ultimately show ?thesis by (simp add: readAnalysis_def)
qed

lemma sample_body: "\<exists>body. buildRequestBody ''m'' 700 65536 adviceFinding advicePlan = Inr (body, [], allowedActions advicePlan)"
proof -
  have "int (length (chatRequest ''m'' 700 (encodeInput (projectAdvisorInput adviceFinding advicePlan)))) \<le> 65536" by code_simp
  moreover have "projectedEvidenceSourceIDs (projectAdvisorInput adviceFinding advicePlan) = []"
    by (simp add: projectedEvidenceSourceIDs_def projectAdvisorInput_def adviceFinding_def sample_finding_def)
  moreover have "(256 :: nat) = Suc 255" by simp
  ultimately show ?thesis by (simp only: buildRequestBody_def fitBody.simps) simp
qed

lemma analysis_validated_witness:
  "\<exists>x. Analyze sampleAdvisor sampleClient [] 5 6 adviceFinding advicePlan (\<lparr>cb_failures = 1, cb_openUntil = 0\<rparr>, 0) =
       (Inr x, (\<lparr>cb_failures = 0, cb_openUntil = 0\<rparr>, 1)) \<and>
     ai_recommendedAction x \<in> {''human_review'', ''apply_resource_governance''} \<and> length (runes (ai_summary x)) \<le> 700"
proof -
  have "checkExclusions sampleAdvisor adviceFinding advicePlan = None" by code_simp
  moreover have "adr_model sampleAdvisor = ''m''" "adr_maxOutputTokens sampleAdvisor = 700" "adr_maxInputBytes sampleAdvisor = 65536"
    by code_simp+
  ultimately obtain x where x: "Analyze sampleAdvisor sampleClient [] 5 6 adviceFinding advicePlan (\<lparr>cb_failures = 1, cb_openUntil = 0\<rparr>, 0) =
      (Inr x, (\<lparr>cb_failures = 0, cb_openUntil = 0\<rparr>, 1))"
    using sample_body sample_read [of "allowedActions advicePlan"]
    by (cases "readAnalysis sampleAdvisor [] 6 (allowedActions advicePlan) [] (Inr \<lparr>ap_status = 200, ap_body = Inr sampleBody\<rparr>)")
      (auto simp: Analyze_def checkCircuit_def isZero_def sampleClient_def recordSuccess_def)
  have "set (allowedActions advicePlan) = {''apply_resource_governance''}" by code_simp
  then show ?thesis using x analysis_validated [OF x] by auto
qed

subsection \<open>The circuit breaker\<close>

fun callAll ::
  "advisor \<Rightarrow> 'w ai_client \<Rightarrow> string list \<Rightarrow> (gotime \<times> gotime \<times> finding \<times> remediation_plan) list \<Rightarrow> circuit \<times> 'w \<Rightarrow>
     (string + ai_analysis) list \<times> (circuit \<times> 'w)" where
  "callAll a client order [] st = ([], st)"
| "callAll a client order ((t0, t1, f, plan) # calls) st =
     (let (r, st1) = Analyze a client order t0 t1 f plan st; (rs, st2) = callAll a client order calls st1 in (r # rs, st2))"

text \<open>A client that counts the requests it is asked to send.\<close>

definition counted :: "'w ai_client \<Rightarrow> ('w \<times> nat) ai_client" where
  "counted client rq w = (let (answer, w1) = client rq (fst w) in (answer, (w1, Suc (snd w))))"

text \<open>A failed call either left breaker and provider alone or asked the provider once.\<close>

lemma failed_call:
  assumes "Analyze a (counted client) order t0 t1 f plan (cb, (w, n)) = (Inl e, (cb', (w', n')))"
  shows "(cb' = cb \<and> n' = n) \<or> (\<exists>cb1. checkCircuit t0 cb = (None, cb1) \<and> cb' = recordFailure a t1 cb1 \<and> n' = Suc n)"
  using assms
  by (auto simp: Analyze_def counted_def Let_def checkCircuit_def split: option.splits sum.splits prod.splits if_splits)

definition requestsLeft :: "advisor \<Rightarrow> gotime \<Rightarrow> circuit \<Rightarrow> int" where
  "requestsLeft a end cb =
     (if cb_openUntil cb = 0 then max 1 (adr_circuitThreshold a - cb_failures cb)
      else if cb_openUntil cb \<ge> end then 0 else adr_circuitThreshold a)"

lemma failure_uses_one:
  assumes "checkCircuit t0 cb = (None, cb1)" "t0 < end" "end \<le> t1 + adr_circuitCooldown a" "0 < end" "0 < adr_circuitThreshold a"
  shows "requestsLeft a end (recordFailure a t1 cb1) + 1 \<le> requestsLeft a end cb"
  using assms
  by (auto simp: checkCircuit_def isZero_def recordFailure_def requestsLeft_def Let_def max_def split: if_splits)

lemma breaker_counts:
  assumes "callAll a (counted client) order calls (cb, (w, n)) = (rs, (cb', (w', n')))"
    "\<forall>r\<in>set rs. isl r" "\<forall>(t0, t1, f, plan)\<in>set calls. T \<le> t1 \<and> t0 < T + adr_circuitCooldown a"
    "0 \<le> T" "0 < adr_circuitCooldown a" "0 < adr_circuitThreshold a"
  shows "int n' \<le> int n + requestsLeft a (T + adr_circuitCooldown a) cb"
  using assms
proof (induction calls arbitrary: cb w n rs)
  case Nil
  then show ?case by (auto simp: requestsLeft_def)
next
  case (Cons c calls)
  obtain t0 t1 f plan where c: "c = (t0, t1, f, plan)" by (cases c)
  obtain r cb1 w1 n1 where call: "Analyze a (counted client) order t0 t1 f plan (cb, (w, n)) = (r, (cb1, (w1, n1)))"
    by (metis prod.collapse)
  obtain rs1 where rest: "callAll a (counted client) order calls (cb1, (w1, n1)) = (rs1, (cb', (w', n')))" "rs = r # rs1"
    using Cons.prems(1) by (auto simp: c call split: prod.splits)
  obtain e where "r = Inl e" using Cons.prems(2) rest(2) by (cases r) auto
  then have failed: "Analyze a (counted client) order t0 t1 f plan (cb, (w, n)) = (Inl e, (cb1, (w1, n1)))" using call by simp
  have "int n' \<le> int n1 + requestsLeft a (T + adr_circuitCooldown a) cb1"
    using Cons.IH [OF rest(1)] Cons.prems rest(2) by simp
  moreover from failed_call [OF failed]
  have "int n1 + requestsLeft a (T + adr_circuitCooldown a) cb1 \<le> int n + requestsLeft a (T + adr_circuitCooldown a) cb"
    using failure_uses_one [of t0 cb _ "T + adr_circuitCooldown a" t1 a] Cons.prems(3-6) by (auto simp: c)
  ultimately show ?case by linarith
qed

text \<open>
  C27. While a provider fails, the circuit breaker lets at most \<open>threshold\<close> requests through within any
  period as long as the cooldown, however many calls are made, from any state of the breaker.
\<close>
theorem breaker_bound:
  assumes "callAll a (counted client) order calls (cb, (w, 0)) = (rs, (cb', (w', n)))"
    "\<forall>r\<in>set rs. isl r" "\<forall>(t0, t1, f, plan)\<in>set calls. T \<le> t1 \<and> t0 < T + adr_circuitCooldown a"
    "0 \<le> T" "0 < adr_circuitCooldown a" "0 < adr_circuitThreshold a" "0 \<le> cb_failures cb"
  shows "int n \<le> adr_circuitThreshold a"
  using breaker_counts [OF assms(1-6)] assms(6,7) by (auto simp: requestsLeft_def split: if_splits)

lemma provider_down:
  assumes "\<And>rq w. isl (fst (client rq w))"
  shows "isl (fst (Analyze a client order t0 t1 f plan st))"
proof (rule ccontr)
  assume "\<not> ?thesis"
  then obtain x cb w where "Analyze a client order t0 t1 f plan (fst st, snd st) = (Inr x, (cb, w))"
    by (metis prod.collapse sum.collapse(2))
  from analysis_accepted [OF this] obtain rq response where "client rq (snd st) = (Inr response, w)" by blast
  then show False using assms [of rq "snd st"] by simp
qed

lemma breaker_bound_witness:
  "int (snd (snd (snd (callAll sampleAdvisor (counted (\<lambda>rq w. (Inl ''down'', w))) []
     [(100, 101, adviceFinding, advicePlan), (102, 103, adviceFinding, advicePlan), (104, 105, adviceFinding, advicePlan)]
     (\<lparr>cb_failures = 0, cb_openUntil = 0\<rparr>, (0 :: nat, 0)))))) \<le> 2"
proof -
  define calls :: "(gotime \<times> gotime \<times> finding \<times> remediation_plan) list" where "calls = [(100, 101, adviceFinding, advicePlan), (102, 103, adviceFinding, advicePlan), (104, 105, adviceFinding, advicePlan)]"
  obtain rs cb w n where all: "callAll sampleAdvisor (counted (\<lambda>rq w. (Inl ''down'', w))) [] calls (\<lparr>cb_failures = 0, cb_openUntil = 0\<rparr>, (0 :: nat, 0)) =
      (rs, (cb, (w, n)))" by (metis prod.collapse)
  have failed: "isl (fst (Analyze a (counted (\<lambda>rq w. (Inl ''down'', w))) [] t0 t1 f plan st))" for a t0 t1 f plan and st :: "circuit \<times> nat \<times> nat"
    by (rule provider_down) (simp add: counted_def)
  have "\<forall>r\<in>set (fst (callAll sampleAdvisor (counted (\<lambda>rq w. (Inl ''down'', w))) [] cs st)). isl r" for cs and st :: "circuit \<times> nat \<times> nat"
  proof (induction cs arbitrary: st)
    case (Cons c cs)
    obtain t0 t1 f plan where c: "c = (t0, t1, f, plan)" by (cases c)
    obtain r st1 where r: "Analyze sampleAdvisor (counted (\<lambda>rq w. (Inl ''down'', w))) [] t0 t1 f plan st = (r, st1)" by (metis prod.collapse)
    have "isl r" using failed [of sampleAdvisor t0 t1 f plan st] r by simp
    then show ?case using Cons.IH [of st1] r by (auto simp only: c callAll.simps Let_def split_def fst_conv snd_conv list.set insert_iff)
  qed simp
  then have "\<forall>r\<in>set rs. isl r" using all by (metis fst_conv)
  moreover have "adr_circuitCooldown sampleAdvisor = 60" "adr_circuitThreshold sampleAdvisor = 2" by code_simp+
  ultimately have "int n \<le> adr_circuitThreshold sampleAdvisor"
    using breaker_bound [OF all, of 100] by (simp add: calls_def)
  then show ?thesis using all \<open>adr_circuitThreshold sampleAdvisor = 2\<close> by (simp add: calls_def)
qed

subsection \<open>Redaction\<close>

text \<open>
  Redaction knows the name of a credential only as a word of its own in front of a colon or an
  equals sign: in a JSON document, where the name is quoted, and behind the underscore of an
  environment variable the value is sent to the provider.
\<close>
theorem redaction_misses:
  "redactSensitive ''password=hunter2'' = ''password=[REDACTED]'' \<and>
   redactSensitive ''DB_PASSWORD=hunter2'' = ''DB_PASSWORD=hunter2'' \<and>
   redactSensitive (quoteJson ''password'' @ '':'' @ quoteJson ''hunter2'') = quoteJson ''password'' @ '':'' @ quoteJson ''hunter2''"
proof (intro conjI)
  show "redactSensitive ''password=hunter2'' = ''password=[REDACTED]''" by code_simp
  show "redactSensitive ''DB_PASSWORD=hunter2'' = ''DB_PASSWORD=hunter2''" by code_simp
  show "redactSensitive (quoteJson ''password'' @ '':'' @ quoteJson ''hunter2'') = quoteJson ''password'' @ '':'' @ quoteJson ''hunter2''"
    by code_simp
qed

end
