(* ===== verification/AgentModel.thy ===== *)
theory AgentModel
  imports ServerModel JsonText Sha256
begin

text \<open>
  The AI agent of \<open>internal/agent/agent.go\<close>: its construction, one cycle over the active findings, the
  processing of a finding and its notifications.

  The repository is the in-memory store; the other interfaces are functions over a world \<open>'w\<close>, as for
  the HTTP server, and \<open>None\<close> is a nil interface.  A cycle runs at one instant \<open>now\<close>.  The state of the
  agent is the list of keys it has processed.  Log lines and the timer that starts the cycles are
  left out; the webhook is given the event whose JSON it sends.
\<close>

subsection \<open>Configuration\<close>

definition DefaultActor :: string where "DefaultActor = ''kubeathrix-ai-agent''"

record agent_config =
  acf_enabled :: bool
  acf_actor :: string
  acf_interval :: duration
  acf_minRiskScore :: int
  acf_maxFindingsPerCycle :: int
  acf_autoPlan :: bool
  acf_autoExecuteTierA :: bool
  acf_notificationTimeout :: duration
  acf_notificationWebhook :: string

record agent_event =
  evt_type :: string
  evt_message :: string
  evt_finding :: "finding option"
  evt_plan :: "remediation_plan option"
  evt_run :: "remediation_run option"
  evt_generatedAt :: gotime

type_synonym 'w notifier = "agent_event \<Rightarrow> ('w, unit) call"

record 'w agent =
  ag_config :: agent_config
  ag_advisor :: "finding \<Rightarrow> remediation_plan \<Rightarrow> ('w, ai_analysis) call"
  ag_workflow :: "'w workflow_client option"
  ag_snapshot :: "('w, cluster_snapshot) call option"
  ag_adapters :: "('w \<Rightarrow> adapter_collection \<times> 'w) option"
  ag_notifier :: "'w notifier option"

text \<open>The webhook: \<open>post\<close> sends a document to a URL and answers with the status code.\<close>

definition webhookNotify :: "(string \<Rightarrow> agent_event \<Rightarrow> ('w, int) call) \<Rightarrow> string \<Rightarrow> 'w notifier" where
  "webhookNotify post url event w =
     (if trimSpace url = '''' then (Inr (), w)
      else (case post (trimSpace url) event w of
          (Inl e, w1) \<Rightarrow> (Inl e, w1)
        | (Inr status, w1) \<Rightarrow>
            if status < 200 \<or> status > 299 then (Inl (''webhook returned '' @ itoa status), w1) else (Inr (), w1)))"

record 'w agent_deps =
  dep_repository :: bool
  dep_advisor :: "(finding \<Rightarrow> remediation_plan \<Rightarrow> ('w, ai_analysis) call) option"
  dep_workflow :: "'w workflow_client option"
  dep_snapshot :: "('w, cluster_snapshot) call option"
  dep_adapters :: "('w \<Rightarrow> adapter_collection \<times> 'w) option"
  dep_notifier :: "'w notifier option"

definition agentConfig :: "agent_config \<Rightarrow> agent_config" where
  "agentConfig c =
     c\<lparr>acf_actor := (if trimSpace (acf_actor c) = '''' then DefaultActor else acf_actor c),
       acf_interval := (if acf_interval c \<le> 0 then minute else acf_interval c),
       acf_maxFindingsPerCycle := (if acf_maxFindingsPerCycle c \<le> 0 then 10 else acf_maxFindingsPerCycle c),
       acf_autoExecuteTierA := acf_autoPlan c \<and> acf_autoExecuteTierA c,
       acf_notificationTimeout := (if acf_notificationTimeout c \<le> 0 then 5 * second else acf_notificationTimeout c)\<rparr>"

definition newAgent :: "(string \<Rightarrow> agent_event \<Rightarrow> ('w, int) call) \<Rightarrow> agent_config \<Rightarrow> 'w agent_deps \<Rightarrow> string + 'w agent" where
  "newAgent post c deps =
     (if \<not> acf_enabled c then Inl ''agent is disabled''
      else if \<not> dep_repository deps then Inl ''agent repository is required''
      else (case dep_advisor deps of
          None \<Rightarrow> Inl ''agent requires an enabled AI advisor''
        | Some advisor \<Rightarrow> Inr
            \<lparr>ag_config = agentConfig c, ag_advisor = advisor, ag_workflow = dep_workflow deps, ag_snapshot = dep_snapshot deps,
             ag_adapters = dep_adapters deps,
             ag_notifier = (case dep_notifier deps of
                 Some n \<Rightarrow> Some n
               | None \<Rightarrow> if trimSpace (acf_notificationWebhook c) = '''' then None
                         else Some (webhookNotify post (acf_notificationWebhook c)))\<rparr>))"

subsection \<open>Keys\<close>

text \<open>A byte of the key for each rune, up to 96 bytes.\<close>

definition keyChar :: "string \<Rightarrow> char" where
  "keyChar r =
     (case r of [c] \<Rightarrow> if (CHR ''a'' \<le> c \<and> c \<le> CHR ''z'') \<or> isDigit c \<or> c \<in> set ''-_.'' then c else CHR ''-'' | _ \<Rightarrow> CHR ''-'')"

definition trimSet :: "char list \<Rightarrow> string \<Rightarrow> string" where
  "trimSet cs s = rev (dropWhile (\<lambda>c. c \<in> set cs) (rev (dropWhile (\<lambda>c. c \<in> set cs) s)))"

definition safeKey :: "string \<Rightarrow> string" where
  "safeKey v =
     (let key = trimSet ''-_.'' (take 96 (map keyChar (runes (toLower v))))
      in if length key < 8 then ''ai-agent-event'' else key)"

definition encodeRef :: "resource_ref \<Rightarrow> string" where
  "encodeRef r =
     encodeStruct ([(''apiVersion'', quoteJson (rr_apiVersion r)), (''kind'', quoteJson (rr_kind r))] @
       optText ''namespace'' (rr_namespace r) @ [(''name'', quoteJson (rr_name r))])"

definition encodeKeys :: "correlation_keys \<Rightarrow> string" where
  "encodeKeys k =
     encodeStruct (optText ''workload'' (ck_workload k) @ optText ''namespace'' (ck_namespace k) @ optText ''identity'' (ck_identity k) @
       optText ''networkExposure'' (ck_networkExposure k) @ optText ''image'' (ck_image k))"

definition encodeStableEvidence :: "evidence \<Rightarrow> string" where
  "encodeStableEvidence e =
     encodeStruct [(''summary'', quoteJson (ev_summary e)), (''details'', quoteJson (ev_details e)), (''sourceId'', quoteJson (ev_sourceID e))]"

definition fingerprintPayload :: "finding \<Rightarrow> string" where
  "fingerprintPayload f =
     encodeStruct [(''id'', quoteJson (f_id f)), (''source'', quoteJson (f_source f)), (''title'', quoteJson (f_title f)),
       (''severity'', quoteJson (severityString (f_severity f))), (''evidence'', encodeList (map encodeStableEvidence (f_evidence f))),
       (''resources'', encodeList (map encodeRef (f_resources f))), (''blastRadius'', quoteJson (f_blastRadius f)),
       (''fixability'', quoteJson (fixabilityString (f_fixability f))), (''correlationGroup'', quoteJson (f_correlationGroup f)),
       (''correlationKeys'', encodeKeys (f_correlationKeys f)), (''riskScore'', itoa (f_riskScore f)),
       (''recommendedAction'', quoteJson (f_recommendedAction f))]"

definition findingFingerprint :: "finding \<Rightarrow> string" where
  "findingFingerprint f = hexEncode (take 12 (sha256 (fingerprintPayload f)))"

definition idempotencyKey :: "finding \<Rightarrow> string" where
  "idempotencyKey f = ''ai-agent-'' @ safeKey (f_id f @ ''-'' @ findingFingerprint f)"

definition findingEventKey :: "finding \<Rightarrow> string" where
  "findingEventKey f = f_id f @ ''|'' @ findingFingerprint f"

subsection \<open>Reports and notifications\<close>

record cycle_report =
  cr_observedFindings :: int
  cr_processed :: int
  cr_plansCreated :: int
  cr_executions :: int
  cr_notifications :: int
  cr_errors :: "string list"

definition emptyReport :: cycle_report where
  "emptyReport = \<lparr>cr_observedFindings = 0, cr_processed = 0, cr_plansCreated = 0, cr_executions = 0, cr_notifications = 0, cr_errors = []\<rparr>"

definition addError :: "string \<Rightarrow> cycle_report \<Rightarrow> cycle_report" where
  "addError e rep = rep\<lparr>cr_errors := cr_errors rep @ [e]\<rparr>"

definition notify ::
  "'w agent \<Rightarrow> gotime \<Rightarrow> string \<Rightarrow> string \<Rightarrow> finding \<Rightarrow> remediation_plan option \<Rightarrow> remediation_run option \<Rightarrow>
     cycle_report \<times> (store \<times> 'w) \<Rightarrow> cycle_report \<times> (store \<times> 'w)" where
  "notify ag now kind message f plan run st =
     (case ag_notifier ag of
        None \<Rightarrow> st
      | Some n \<Rightarrow>
          (case inWorld (n \<lparr>evt_type = kind, evt_message = message, evt_finding = Some f, evt_plan = plan, evt_run = run,
               evt_generatedAt = now\<rparr>) (snd st) of
             (Inl e, st1) \<Rightarrow> (fst st, st1)
           | (Inr _, st1) \<Rightarrow> ((fst st)\<lparr>cr_notifications := cr_notifications (fst st) + 1\<rparr>, st1)))"

subsection \<open>One finding\<close>

definition shouldAutoExecute :: "'w agent \<Rightarrow> remediation_plan \<Rightarrow> bool" where
  "shouldAutoExecute ag plan \<longleftrightarrow>
     acf_autoExecuteTierA (ag_config ag) \<and> p_riskTier plan = RiskA \<and> \<not> ap_required (p_approvalPolicy plan)"

definition agentExecution :: "'w agent \<Rightarrow> gotime \<Rightarrow> string \<Rightarrow> store \<times> 'w \<Rightarrow> (string + remediation_run) \<times> (store \<times> 'w)" where
  "agentExecution ag now planID st =
     (let execute = (\<lambda>st1. case inStore (ExecuteRemediationPlan None now planID (acf_actor (ag_config ag))) st1 of
            (Inl e, st2) \<Rightarrow> (Inl (storeText e), st2) | (Inr run, st2) \<Rightarrow> (Inr run, st2))
      in case ag_workflow ag of
           None \<Rightarrow> execute st
         | Some wc \<Rightarrow>
             (case inWorld (wc_RequestExecution wc planID (acf_actor (ag_config ag))) st of
                (Inl e, st1) \<Rightarrow> (Inl e, st1) | (Inr _, st1) \<Rightarrow> execute st1))"

text \<open>The plan with its analysis: \<open>Inl\<close> when the processing of the finding stops here.\<close>

definition attachAnalysis ::
  "'w agent \<Rightarrow> gotime \<Rightarrow> finding \<Rightarrow> remediation_plan \<Rightarrow> cycle_report \<times> (store \<times> 'w) \<Rightarrow>
     remediation_plan option \<times> (cycle_report \<times> (store \<times> 'w))" where
  "attachAnalysis ag now f plan st =
     (if p_ai plan \<noteq> None then (Some plan, st)
      else (case inWorld (ag_advisor ag f plan) (snd st) of
          (Inl e, st1) \<Rightarrow> (None, notify ag now ''ai.analysis_failed'' ''OpenAI analysis failed; deterministic plan remains available''
              f (Some plan) None (addError (''analyze finding '' @ f_id f @ '': '' @ e) (fst st), st1))
        | (Inr analysis, st1) \<Rightarrow>
            (let plan1 = plan\<lparr>p_ai := Some analysis\<rparr> in
             case inStore (SyncRemediationPlan None plan1) st1 of
               (Inl e, st2) \<Rightarrow> (None, (addError (''persist AI plan '' @ p_id plan1 @ '': '' @ storeText e) (fst st), st2))
             | (Inr _, st2) \<Rightarrow> (Some plan1, (fst st, st2)))))"

definition persistWorkflow ::
  "'w agent \<Rightarrow> gotime \<Rightarrow> finding \<Rightarrow> remediation_plan \<Rightarrow> cycle_report \<times> (store \<times> 'w) \<Rightarrow> bool \<times> (cycle_report \<times> (store \<times> 'w))" where
  "persistWorkflow ag now f plan st =
     (case ag_workflow ag of
        None \<Rightarrow> (True, st)
      | Some wc \<Rightarrow>
          (case inWorld (wc_CreatePlan wc f plan (acf_actor (ag_config ag))) (snd st) of
             (Inl e, st1) \<Rightarrow> (False, notify ag now ''agent.error'' ''AI agent could not persist the workflow plan'' f (Some plan) None
                 (addError (''persist workflow plan '' @ p_id plan @ '': '' @ e) (fst st), st1))
           | (Inr _, st1) \<Rightarrow> (True, (fst st, st1))))"

definition finishPlan ::
  "'w agent \<Rightarrow> gotime \<Rightarrow> finding \<Rightarrow> remediation_plan \<Rightarrow> cycle_report \<times> (store \<times> 'w) \<Rightarrow> cycle_report \<times> (store \<times> 'w)" where
  "finishPlan ag now f plan st =
     (let st1 = notify ag now ''remediation.plan.created'' ''AI agent created a typed remediation plan'' f (Some plan) None st in
      if shouldAutoExecute ag plan
      then (case agentExecution ag now (p_id plan) (snd st1) of
          (Inl e, st2) \<Rightarrow> notify ag now ''agent.error'' ''AI agent could not request safe Tier A execution'' f (Some plan) None
              (addError (''request execution '' @ p_id plan @ '': '' @ e) (fst st1), st2)
        | (Inr run, st2) \<Rightarrow> notify ag now ''remediation.execution_requested'' ''AI agent requested safe Tier A execution'' f (Some plan) (Some run)
              ((fst st1)\<lparr>cr_executions := cr_executions (fst st1) + 1\<rparr>, st2))
      else if ap_required (p_approvalPolicy plan)
      then notify ag now ''approval.required'' ''AI agent prepared a plan that requires human approval'' f (Some plan) None st1
      else st1)"

definition processFinding :: "'w agent \<Rightarrow> gotime \<Rightarrow> finding \<Rightarrow> store \<times> 'w \<Rightarrow> cycle_report \<times> (store \<times> 'w)" where
  "processFinding ag now f st0 =
     (let st = notify ag now ''finding.detected'' ''AI agent detected an actionable finding'' f None None (emptyReport, st0) in
      if \<not> acf_autoPlan (ag_config ag) then st
      else (case inStore (CreateRemediationPlanFromFinding None now f (acf_actor (ag_config ag)) [idempotencyKey f]) (snd st) of
          (Inl e, st1) \<Rightarrow> notify ag now ''agent.error'' ''AI agent could not create a typed plan'' f None None
              (addError (''create plan for '' @ f_id f @ '': '' @ storeText e) (fst st), st1)
        | (Inr plan0, st1) \<Rightarrow>
            (case attachAnalysis ag now f plan0 ((fst st)\<lparr>cr_plansCreated := cr_plansCreated (fst st) + 1\<rparr>, st1) of
               (None, st2) \<Rightarrow> st2
             | (Some plan, st2) \<Rightarrow>
                 (case persistWorkflow ag now f plan st2 of
                    (False, st3) \<Rightarrow> st3
                  | (True, st3) \<Rightarrow> finishPlan ag now f plan st3))))"

subsection \<open>One cycle\<close>

fun syncAll :: "string \<Rightarrow> gotime \<Rightarrow> finding list \<Rightarrow> store \<times> 'w \<Rightarrow> string list \<times> (store \<times> 'w)" where
  "syncAll what now [] st = ([], st)"
| "syncAll what now (f # fs) st =
     (let (r, st1) = inStore (SyncFinding None now f) st; (errs, st2) = syncAll what now fs st1
      in ((case r of Inl e \<Rightarrow> [''sync '' @ what @ '' finding '' @ f_id f @ '': '' @ storeText e] | Inr _ \<Rightarrow> []) @ errs, st2))"

definition syncObservedFindings :: "'w agent \<Rightarrow> gotime \<Rightarrow> store \<times> 'w \<Rightarrow> string list \<times> (store \<times> 'w)" where
  "syncObservedFindings ag now st =
     (let (errs, st1) =
            (case ag_snapshot ag of
               None \<Rightarrow> ([], st)
             | Some snapshot \<Rightarrow>
                 (case inWorld snapshot st of
                    (Inl e, st2) \<Rightarrow> ([''snapshot: '' @ e], st2)
                  | (Inr sn, st2) \<Rightarrow> syncAll ''native'' now (sn_findings sn) st2));
          (errs2, st3) =
            (case ag_adapters ag of
               None \<Rightarrow> ([], st1)
             | Some collect \<Rightarrow> (let (c, st2) = inWorld collect st1 in syncAll ''adapter'' now (ad_findings c) st2))
      in (errs @ errs2, st3))"

definition activeFindings :: "finding list \<Rightarrow> int \<Rightarrow> finding list" where
  "activeFindings fs minRisk =
     filter (\<lambda>f. \<not> (f_riskScore f < minRisk \<or> f_fixability f = FixabilityInformational) \<and>
       (f_status f = FindingOpen \<or> f_status f = FindingInReview)) fs"

definition moreUrgent :: "finding \<Rightarrow> finding \<Rightarrow> bool" where
  "moreUrgent f g \<longleftrightarrow> (if f_riskScore f = f_riskScore g then f_updatedAt f > f_updatedAt g else f_riskScore f > f_riskScore g)"

definition minRiskFilter :: "int \<Rightarrow> finding_filter" where
  "minRiskFilter n = \<lparr>ff_severity = '''', ff_status = '''', ff_source = '''', ff_query = '''', ff_namespace = '''', ff_kind = '''',
     ff_fixability = '''', ff_minRisk = n\<rparr>"

definition addReport :: "cycle_report \<Rightarrow> cycle_report \<Rightarrow> cycle_report" where
  "addReport rep r =
     rep\<lparr>cr_processed := cr_processed rep + 1, cr_plansCreated := cr_plansCreated rep + cr_plansCreated r,
       cr_executions := cr_executions rep + cr_executions r, cr_notifications := cr_notifications rep + cr_notifications r,
       cr_errors := cr_errors rep @ cr_errors r\<rparr>"

fun processAll ::
  "'w agent \<Rightarrow> gotime \<Rightarrow> finding list \<Rightarrow> string list \<Rightarrow> cycle_report \<Rightarrow> store \<times> 'w \<Rightarrow> cycle_report \<times> string list \<times> (store \<times> 'w)" where
  "processAll ag now [] processed rep st = (rep, processed, st)"
| "processAll ag now (f # fs) processed rep st =
     (if findingEventKey f \<in> set processed then processAll ag now fs processed rep st
      else (case processFinding ag now f st of
          (r, st1) \<Rightarrow> processAll ag now fs (if cr_errors r = [] then findingEventKey f # processed else processed) (addReport rep r) st1))"

definition runCycle :: "'w agent \<Rightarrow> gotime \<Rightarrow> string list \<Rightarrow> store \<times> 'w \<Rightarrow> cycle_report \<times> string list \<times> (store \<times> 'w)" where
  "runCycle ag now processed st =
     (case syncObservedFindings ag now st of
        (errs, st1) \<Rightarrow>
          (let rep = (if errs = [] then emptyReport else addError (joinWith [CHR 0x0A] errs) emptyReport) in
           case inStore (ListFindings None now (minRiskFilter (acf_minRiskScore (ag_config ag)))) st1 of
             (Inl e, st2) \<Rightarrow> (addError (storeText e) rep, processed, st2)
           | (Inr listed, st2) \<Rightarrow>
               (let active = sortSlice moreUrgent (activeFindings listed (acf_minRiskScore (ag_config ag))) in
                processAll ag now (take (nat (acf_maxFindingsPerCycle (ag_config ag))) active) processed
                  (rep\<lparr>cr_observedFindings := int (length active)\<rparr>) st2)))"

end
