(* ===== verification/AgentSafety.thy ===== *)
theory AgentSafety
  imports AgentModel
begin

text \<open>
  What the AI agent does to the cluster and whom it serves: executions are requested only for plans
  of tier A that need no approval and were just persisted with an analysis (\<open>agent_gate\<close>); a cycle
  without errors settles the findings it looked at (\<open>clean_cycle_settles\<close>).  Settled findings keep
  their places among the most urgent ones, so that the others are never reached
  (\<open>settled_block_others\<close>), and long identifiers share an idempotency key (\<open>long_ids_refused\<close>).
\<close>

subsection \<open>The trace of the workflow client\<close>

datatype wf_event = WfPersisted remediation_plan | WfRequested string

text \<open>
  \<open>log\<close> shows what has been done to the cluster, newest first: plans that were persisted and
  executions that were asked for.  The other interfaces of the agent leave it alone.
\<close>

definition keepsLog :: "('w \<Rightarrow> wf_event list) \<Rightarrow> ('w \<Rightarrow> 'a \<times> 'w) \<Rightarrow> bool" where
  "keepsLog log f \<longleftrightarrow> (\<forall>w. log (snd (f w)) = log w)"

definition records :: "'w agent \<Rightarrow> ('w \<Rightarrow> wf_event list) \<Rightarrow> bool" where
  "records ag log \<longleftrightarrow>
     (\<forall>f plan. keepsLog log (ag_advisor ag f plan)) \<and>
     (\<forall>n event. ag_notifier ag = Some n \<longrightarrow> keepsLog log (n event)) \<and>
     (\<forall>snapshot. ag_snapshot ag = Some snapshot \<longrightarrow> keepsLog log snapshot) \<and>
     (\<forall>collect. ag_adapters ag = Some collect \<longrightarrow> keepsLog log collect) \<and>
     (\<forall>wc. ag_workflow ag = Some wc \<longrightarrow>
        (\<forall>f plan actor w. log (snd (wc_CreatePlan wc f plan actor w)) =
           (if isl (fst (wc_CreatePlan wc f plan actor w)) then log w else WfPersisted plan # log w)) \<and>
        (\<forall>i actor w. log (snd (wc_RequestExecution wc i actor w)) = WfRequested i # log w))"

fun gated :: "wf_event list \<Rightarrow> bool" where
  "gated [] = True"
| "gated (WfPersisted p # evs) = (p_ai p \<noteq> None \<and> gated evs)"
| "gated (WfRequested i # WfPersisted p # evs) =
     (p_id p = i \<and> p_riskTier p = RiskA \<and> \<not> ap_required (p_approvalPolicy p) \<and> gated (WfPersisted p # evs))"
| "gated (WfRequested i # evs) = False"

lemma gated_append: "gated xs \<Longrightarrow> gated ys \<Longrightarrow> gated (xs @ ys)"
  by (induction xs rule: gated.induct) auto

lemma notify_log: "records ag log \<Longrightarrow> log (snd (snd (notify ag now kind message f plan run st))) = log (snd (snd st))"
  by (auto simp: notify_def records_def keepsLog_def inWorld_def case_prod_unfold Let_def split: option.splits sum.splits)

lemma agentExecution_log:
  assumes "records ag log"
  shows "log (snd (snd (agentExecution ag now i st))) = (if ag_workflow ag = None then [] else [WfRequested i]) @ log (snd st)"
  using assms
  by (auto simp: agentExecution_def records_def inWorld_def inStore_def case_prod_unfold Let_def split: option.splits sum.splits)

lemma attachAnalysis_log:
  assumes "records ag log" "attachAnalysis ag now f plan st = (r, st')"
  shows "log (snd (snd st')) = log (snd (snd st)) \<and> (\<forall>p. r = Some p \<longrightarrow> p_ai p \<noteq> None)"
proof (cases "p_ai plan = None")
  case True
  then have advisor: "log (snd (ag_advisor ag f plan w)) = log w" for w using assms(1) by (simp add: records_def keepsLog_def)
  show ?thesis
    using assms True advisor [of "snd (snd st)"]
    by (auto simp: attachAnalysis_def inWorld_def inStore_def case_prod_unfold Let_def notify_log split: sum.splits)
qed (use assms(2) in \<open>auto simp: attachAnalysis_def\<close>)

lemma persistWorkflow_log:
  assumes "records ag log" "persistWorkflow ag now f plan st = (ok, st')"
  shows "log (snd (snd st')) = (if ok \<and> ag_workflow ag \<noteq> None then [WfPersisted plan] else []) @ log (snd (snd st))"
  using assms notify_log [OF assms(1)]
  by (auto simp: persistWorkflow_def records_def inWorld_def case_prod_unfold Let_def split: option.splits sum.splits)

lemma finishPlan_log:
  assumes "records ag log"
  shows "log (snd (snd (finishPlan ag now f plan st))) =
    (if shouldAutoExecute ag plan \<and> ag_workflow ag \<noteq> None then [WfRequested (p_id plan)] else []) @ log (snd (snd st))"
proof (cases "shouldAutoExecute ag plan")
  case True
  define st1 where "st1 = notify ag now ''remediation.plan.created'' ''AI agent created a typed remediation plan'' f (Some plan) None st"
  have "log (snd (snd st1)) = log (snd (snd st))" unfolding st1_def by (rule notify_log [OF assms])
  moreover obtain r st2 where r: "agentExecution ag now (p_id plan) (snd st1) = (r, st2)" by (metis prod.collapse)
  ultimately have "log (snd st2) = (if ag_workflow ag = None then [] else [WfRequested (p_id plan)]) @ log (snd (snd st))"
    using agentExecution_log [OF assms, of now "p_id plan" "snd st1"] by simp
  then show ?thesis
    using True r by (cases r) (simp_all add: finishPlan_def st1_def [symmetric] notify_log [OF assms])
qed (simp add: finishPlan_def Let_def notify_log [OF assms])

text \<open>What the processing of one finding adds to the log.\<close>

definition allowedChunk :: "'w agent \<Rightarrow> wf_event list \<Rightarrow> bool" where
  "allowedChunk ag evs \<longleftrightarrow>
     evs = [] \<or> acf_autoPlan (ag_config ag) \<and>
       (\<exists>p. p_ai p \<noteq> None \<and> (evs = [WfPersisted p] \<or> shouldAutoExecute ag p \<and> evs = [WfRequested (p_id p), WfPersisted p]))"

lemma processFinding_log:
  assumes "records ag log"
  shows "\<exists>evs. allowedChunk ag evs \<and> log (snd (snd (processFinding ag now f st0))) = evs @ log (snd st0)"
proof -
  define st where "st = notify ag now ''finding.detected'' ''AI agent detected an actionable finding'' f None None (emptyReport, st0)"
  have st: "log (snd (snd st)) = log (snd st0)" unfolding st_def by (simp add: notify_log [OF assms])
  show ?thesis
  proof (cases "acf_autoPlan (ag_config ag)")
    case False
    then show ?thesis using st by (auto simp: processFinding_def st_def [symmetric] allowedChunk_def)
  next
    case plan: True
    obtain r st1 where create: "inStore (CreateRemediationPlanFromFinding None now f (acf_actor (ag_config ag)) [idempotencyKey f]) (snd st) = (r, st1)"
      by (metis prod.collapse)
    then have st1: "log (snd st1) = log (snd st0)" using st by (metis inStore_simps(2) snd_conv)
    show ?thesis
    proof (cases r)
      case (Inl e)
      then show ?thesis using plan create st1 by (auto simp: processFinding_def st_def [symmetric] allowedChunk_def notify_log [OF assms])
    next
      case (Inr plan0)
      obtain r2 st2 where attach: "attachAnalysis ag now f plan0 ((fst st)\<lparr>cr_plansCreated := cr_plansCreated (fst st) + 1\<rparr>, st1) = (r2, st2)"
        by (metis prod.collapse)
      note st2 = attachAnalysis_log [OF assms attach]
      show ?thesis
      proof (cases r2)
        case None
        then show ?thesis using plan create Inr attach st1 st2 by (auto simp: processFinding_def st_def [symmetric] allowedChunk_def)
      next
        case (Some p)
        obtain ok st3 where persist: "persistWorkflow ag now f p st2 = (ok, st3)" by (metis prod.collapse)
        note st3 = persistWorkflow_log [OF assms persist]
        have "p_ai p \<noteq> None" using st2 Some by simp
        then show ?thesis
          using plan create Inr attach Some st1 st2 persist st3 finishPlan_log [OF assms, of now f p st3]
          by (cases ok) (auto simp: processFinding_def st_def [symmetric] allowedChunk_def)
      qed
    qed
  qed
qed

lemma allowedChunk_gated:
  "allowedChunk ag evs \<Longrightarrow> gated evs \<and> (\<not> acf_autoExecuteTierA (ag_config ag) \<longrightarrow> (\<forall>i. WfRequested i \<notin> set evs)) \<and>
     (\<not> acf_autoPlan (ag_config ag) \<longrightarrow> evs = [])"
  by (auto simp: allowedChunk_def shouldAutoExecute_def)

lemma processAll_log:
  assumes "records ag log" "processAll ag now fs processed rep st = (rep', processed', st')"
  shows "\<exists>evs. log (snd st') = evs @ log (snd st) \<and> gated evs \<and> (\<not> acf_autoExecuteTierA (ag_config ag) \<longrightarrow> (\<forall>i. WfRequested i \<notin> set evs)) \<and>
    (\<not> acf_autoPlan (ag_config ag) \<longrightarrow> evs = [])"
  using assms(2)
proof (induction fs arbitrary: processed rep st)
  case (Cons f fs)
  show ?case
  proof (cases "findingEventKey f \<in> set processed")
    case True
    then show ?thesis using Cons by simp
  next
    case False
    obtain r st1 where one: "processFinding ag now f st = (r, st1)" by (metis prod.collapse)
    from processFinding_log [OF assms(1), of now f st] one obtain evs where
      evs: "allowedChunk ag evs" "log (snd st1) = evs @ log (snd st)" by auto
    from Cons.prems False one obtain p1 rep1 where "processAll ag now fs p1 rep1 st1 = (rep', processed', st')" by auto
    from Cons.IH [OF this] obtain more where
      "log (snd st') = more @ log (snd st1)" "gated more" "\<not> acf_autoExecuteTierA (ag_config ag) \<longrightarrow> (\<forall>i. WfRequested i \<notin> set more)"
      "\<not> acf_autoPlan (ag_config ag) \<longrightarrow> more = []" by blast
    then show ?thesis using evs(2) allowedChunk_gated [OF evs(1)] by (intro exI [of _ "more @ evs"]) (auto intro: gated_append)
  qed
qed simp

lemma syncAll_log: "log (snd (snd (syncAll what now fs st))) = log (snd st)"
  by (induction what now fs st rule: syncAll.induct) (auto simp: inStore_def case_prod_unfold Let_def)

lemma syncObserved_log: "records ag log \<Longrightarrow> log (snd (snd (syncObservedFindings ag now st))) = log (snd st)"
  by (auto simp: syncObservedFindings_def records_def keepsLog_def inWorld_def case_prod_unfold Let_def syncAll_log split: option.splits sum.splits)

text \<open>
  C38. Whatever findings, advisor and repository say, the agent asks the cluster to execute a plan only
  directly after persisting it, and only a plan of tier A that needs no approval; every plan that it
  persists carries an analysis.  Without \<open>AutoExecuteTierA\<close> it asks for no execution, and without
  \<open>AutoPlan\<close> it leaves the cluster alone.
\<close>
theorem agent_gate:
  assumes "records ag log" "runCycle ag now processed st = (rep, processed', st')"
  shows "\<exists>evs. log (snd st') = evs @ log (snd st) \<and> gated evs \<and>
    (\<not> acf_autoExecuteTierA (ag_config ag) \<longrightarrow> (\<forall>i. WfRequested i \<notin> set evs)) \<and> (\<not> acf_autoPlan (ag_config ag) \<longrightarrow> evs = [])"
proof -
  obtain errs st1 where sync: "syncObservedFindings ag now st = (errs, st1)" by (metis prod.collapse)
  have st1: "log (snd st1) = log (snd st)" using syncObserved_log [OF assms(1), of now st] sync by simp
  obtain r st2 where list: "inStore (ListFindings None now (minRiskFilter (acf_minRiskScore (ag_config ag)))) st1 = (r, st2)" by (metis prod.collapse)
  then have st2: "log (snd st2) = log (snd st)" using st1 by (metis inStore_simps(2) snd_conv)
  show ?thesis
  proof (cases r)
    case (Inl e)
    then have "st' = st2" using assms(2) sync list by (simp add: runCycle_def Let_def)
    then show ?thesis using st2 by auto
  next
    case (Inr listed)
    then obtain fs rep1 where "processAll ag now fs processed rep1 st2 = (rep, processed', st')"
      using assms(2) sync list by (auto simp: runCycle_def Let_def)
    from processAll_log [OF assms(1) this] st2 show ?thesis by simp
  qed
qed

definition demoAnalysis :: ai_analysis where
  "demoAnalysis =
     \<lparr>ai_provider = ''p'', ai_model = ''m'', ai_mode = ''assistive'', ai_summary = ''s'', ai_rootCause = ''r'', ai_impact = ''i'',
      ai_recommendedAction = ''human_review'', ai_confidence = ''low'', ai_safetyNotes = [], ai_autonomousPolicy = '''', ai_generatedAt = 0\<rparr>"

definition demoWorkflow :: "wf_event list workflow_client" where
  "demoWorkflow =
     \<lparr>wc_Health = \<lambda>w. (Inr (), w), wc_ListFindings = \<lambda>w. (Inr [], w), wc_GetFinding = \<lambda>i w. (Inl '''', w), wc_ListRuns = \<lambda>w. (Inr [], w),
      wc_CreatePlan = \<lambda>f p actor w. (Inr (), WfPersisted p # w), wc_DecideApproval = \<lambda>i d a r w. (Inl '''', w),
      wc_RequestExecution = \<lambda>i actor w. (Inl ''later'', WfRequested i # w), wc_RequestRollback = \<lambda>i a w. (Inl '''', w),
      wc_GetRun = \<lambda>i w. (Inl '''', w), wc_RenderDiff = \<lambda>p w. (Inl '''', w), wc_SetFindingStatus = \<lambda>f x a r w. (Inr (), w),
      wc_CreateException = \<lambda>x w. (Inr (), w), wc_DeleteException = \<lambda>i w. (Inr (), w), wc_ListApprovals = \<lambda>w. (Inr [], w)\<rparr>"

definition demoAgent :: "int \<Rightarrow> wf_event list agent" where
  "demoAgent limit =
     \<lparr>ag_config = \<lparr>acf_enabled = True, acf_actor = ''agent'', acf_interval = minute, acf_minRiskScore = 0, acf_maxFindingsPerCycle = limit,
        acf_autoPlan = True, acf_autoExecuteTierA = True, acf_notificationTimeout = second, acf_notificationWebhook = ''''\<rparr>,
      ag_advisor = \<lambda>f p w. (Inr demoAnalysis, w), ag_workflow = Some demoWorkflow, ag_snapshot = None, ag_adapters = None, ag_notifier = None\<rparr>"

lemma demoAgent_records: "records (demoAgent limit) (\<lambda>w. w)"
  by (simp add: records_def demoAgent_def demoWorkflow_def keepsLog_def)

lemma agent_gate_witness:
  "\<exists>evs. snd (snd (snd (runCycle (demoAgent 10) 7 [] (emptyStore\<lparr>st_findings := [(''f1'', sample_finding ''Namespace'' ''no quota'')]\<rparr>, [])))) = evs \<and> gated evs"
proof -
  obtain rep processed s w where "runCycle (demoAgent 10) 7 [] (emptyStore\<lparr>st_findings := [(''f1'', sample_finding ''Namespace'' ''no quota'')]\<rparr>, []) =
      (rep, processed, (s, w))" by (metis prod.collapse)
  from agent_gate [OF demoAgent_records this] this show ?thesis by auto
qed

subsection \<open>Which findings are served\<close>

text \<open>The findings a cycle looks at.\<close>

definition selected :: "'w agent \<Rightarrow> finding list \<Rightarrow> finding list" where
  "selected ag listed =
     take (nat (acf_maxFindingsPerCycle (ag_config ag))) (sortSlice moreUrgent (activeFindings listed (acf_minRiskScore (ag_config ag))))"

lemma runCycle_direct:
  assumes "ag_snapshot ag = None" "ag_adapters ag = None"
    "ListFindings None now (minRiskFilter (acf_minRiskScore (ag_config ag))) s = (Inr listed, s1)"
  shows "runCycle ag now processed (s, w) =
    processAll ag now (selected ag listed) processed
      (emptyReport\<lparr>cr_observedFindings := int (length (activeFindings listed (acf_minRiskScore (ag_config ag))))\<rparr>) (s1, w)"
  using assms by (simp add: runCycle_def syncObservedFindings_def selected_def inStore_def Let_def)

lemma processAll_settled:
  "\<forall>f\<in>set fs. findingEventKey f \<in> set processed \<Longrightarrow> processAll ag now fs processed rep st = (rep, processed, st)"
  by (induction fs) auto

text \<open>
  C37. The agent takes the most urgent findings first and only then looks which of them it has dealt
  with: once the \<open>MaxFindingsPerCycle\<close> most urgent active findings are settled, a cycle does nothing
  at all, however many less urgent findings are still waiting, and so does every later one
  while these findings stay active.
\<close>
theorem settled_block_others:
  assumes "ag_snapshot ag = None" "ag_adapters ag = None"
    "ListFindings None now (minRiskFilter (acf_minRiskScore (ag_config ag))) s = (Inr listed, s1)"
    "\<forall>f\<in>set (selected ag listed). findingEventKey f \<in> set processed"
  shows "\<exists>rep. runCycle ag now processed (s, w) = (rep, processed, (s1, w)) \<and> cr_processed rep = 0 \<and> cr_plansCreated rep = 0 \<and>
    cr_observedFindings rep = int (length (activeFindings listed (acf_minRiskScore (ag_config ag))))"
  using runCycle_direct [OF assms(1-3), of processed w] by (simp add: processAll_settled [OF assms(4)] emptyReport_def)

definition urgentFinding :: finding where
  "urgentFinding = (sample_finding ''Pod'' ''privileged'')\<lparr>f_id := ''f2'', f_riskScore := 90\<rparr>"

definition twoFindings :: store where
  "twoFindings = emptyStore\<lparr>st_findings := [(''f1'', sample_finding ''Namespace'' ''no quota''), (''f2'', urgentFinding)]\<rparr>"

lemma twoFindings_listed:
  "ListFindings None 9 (minRiskFilter 0) twoFindings = (Inr [urgentFinding, sample_finding ''Namespace'' ''no quota''], twoFindings)"
  by (simp add: ListFindings_def expireExceptionsLocked_def reopenLapsed_def hasActiveException_def gmap_vals_def Let_def matchesResourceFilter_def twoFindings_def emptyStore_def
      matchesFilter_def minRiskFilter_def sortSlice_def byRisk_def urgentFinding_def sample_finding_def)

lemma settled_block_others_witness:
  "\<exists>rep. runCycle (demoAgent 1) 9 [findingEventKey urgentFinding] (twoFindings, []) = (rep, [findingEventKey urgentFinding], (twoFindings, [])) \<and>
     cr_processed rep = 0 \<and> cr_observedFindings rep = 2"
proof -
  have active: "activeFindings [urgentFinding, sample_finding ''Namespace'' ''no quota''] 0 = [urgentFinding, sample_finding ''Namespace'' ''no quota'']"
    by (simp add: activeFindings_def urgentFinding_def sample_finding_def)
  have config: "acf_minRiskScore (ag_config (demoAgent 1)) = 0" "acf_maxFindingsPerCycle (ag_config (demoAgent 1)) = 1"
    "ag_snapshot (demoAgent 1) = None" "ag_adapters (demoAgent 1) = None" by (simp_all add: demoAgent_def)
  have "selected (demoAgent 1) [urgentFinding, sample_finding ''Namespace'' ''no quota''] = [urgentFinding]"
    by (simp add: selected_def config active sortSlice_def moreUrgent_def) (simp add: urgentFinding_def sample_finding_def)
  then have settled: "\<forall>f\<in>set (selected (demoAgent 1) [urgentFinding, sample_finding ''Namespace'' ''no quota'']). findingEventKey f \<in> set [findingEventKey urgentFinding]"
    by simp
  have "\<exists>rep. runCycle (demoAgent 1) 9 [findingEventKey urgentFinding] (twoFindings, []) = (rep, [findingEventKey urgentFinding], (twoFindings, [])) \<and>
     cr_processed rep = 0 \<and> cr_plansCreated rep = 0 \<and>
     cr_observedFindings rep = int (length (activeFindings [urgentFinding, sample_finding ''Namespace'' ''no quota''] (acf_minRiskScore (ag_config (demoAgent 1)))))"
    by (rule settled_block_others [OF config(3,4) _ settled]) (simp add: config(1) twoFindings_listed)
  then show ?thesis unfolding config(1) active by auto
qed

lemma processAll_errors: "processAll ag now fs processed rep st = (rep', processed', st') \<Longrightarrow> \<exists>more. cr_errors rep' = cr_errors rep @ more"
  by (induction fs arbitrary: processed rep st) (fastforce simp: addReport_def split: if_splits prod.splits)+

lemma processAll_settles:
  "processAll ag now fs processed rep st = (rep', processed', st') \<Longrightarrow> cr_errors rep' = [] \<Longrightarrow>
     set processed \<subseteq> set processed' \<and> (\<forall>f\<in>set fs. findingEventKey f \<in> set processed')"
proof (induction fs arbitrary: processed rep st)
  case (Cons f fs)
  show ?case
  proof (cases "findingEventKey f \<in> set processed")
    case True
    then show ?thesis using Cons by fastforce
  next
    case False
    obtain r st1 where one: "processFinding ag now f st = (r, st1)" by (metis prod.collapse)
    then have rest: "processAll ag now fs (if cr_errors r = [] then findingEventKey f # processed else processed) (addReport rep r) st1 = (rep', processed', st')"
      using Cons.prems(1) False by simp
    from processAll_errors [OF rest] have "cr_errors r = []" using Cons.prems(2) by (auto simp: addReport_def)
    then show ?thesis using Cons.IH [OF rest Cons.prems(2)] by auto
  qed
qed simp

text \<open>
  A cycle without errors settles every finding it selected: a later cycle that selects the same
  findings, at any time and whatever has happened to the repository, processes nothing.
\<close>
theorem clean_cycle_settles:
  assumes "ag_snapshot ag = None" "ag_adapters ag = None"
    "ListFindings None now (minRiskFilter (acf_minRiskScore (ag_config ag))) s = (Inr listed, s1)"
    "runCycle ag now processed (s, w) = (rep, processed', (s2, w2))" "cr_errors rep = []"
    "ListFindings None later (minRiskFilter (acf_minRiskScore (ag_config ag))) s3 = (Inr listed, s4)"
  shows "\<exists>rep'. runCycle ag later processed' (s3, w3) = (rep', processed', (s4, w3)) \<and> cr_processed rep' = 0 \<and> cr_executions rep' = 0"
proof -
  have "processAll ag now (selected ag listed) processed
      (emptyReport\<lparr>cr_observedFindings := int (length (activeFindings listed (acf_minRiskScore (ag_config ag))))\<rparr>) (s1, w) = (rep, processed', (s2, w2))"
    using runCycle_direct [OF assms(1-3)] assms(4) by simp
  from processAll_settles [OF this assms(5)] have "\<forall>f\<in>set (selected ag listed). findingEventKey f \<in> set processed'" by blast
  then show ?thesis
    by (simp add: runCycle_direct [OF assms(1,2,6)] processAll_settled emptyReport_def)
qed

definition watchingAgent :: "wf_event list agent" where
  "watchingAgent = (demoAgent 1)\<lparr>ag_config := (ag_config (demoAgent 1))\<lparr>acf_autoPlan := False\<rparr>\<rparr>"

lemma clean_cycle_settles_witness:
  "\<exists>rep processed. runCycle watchingAgent 9 [] (twoFindings, []) = (rep, processed, (twoFindings, [])) \<and> cr_processed rep = 1 \<and>
     (\<exists>rep'. runCycle watchingAgent 9 processed (twoFindings, []) = (rep', processed, (twoFindings, [])) \<and>
        cr_processed rep' = 0 \<and> cr_executions rep' = 0)"
proof -
  have active: "activeFindings [urgentFinding, sample_finding ''Namespace'' ''no quota''] 0 = [urgentFinding, sample_finding ''Namespace'' ''no quota'']"
    by (simp add: activeFindings_def urgentFinding_def sample_finding_def)
  have config: "acf_minRiskScore (ag_config watchingAgent) = 0" "acf_maxFindingsPerCycle (ag_config watchingAgent) = 1"
    "ag_snapshot watchingAgent = None" "ag_adapters watchingAgent = None" "acf_autoPlan (ag_config watchingAgent) = False"
    "ag_notifier watchingAgent = None" by (simp_all add: watchingAgent_def demoAgent_def)
  have "selected watchingAgent [urgentFinding, sample_finding ''Namespace'' ''no quota''] = [urgentFinding]"
    by (simp add: selected_def config active sortSlice_def moreUrgent_def) (simp add: urgentFinding_def sample_finding_def)
  moreover have listed: "ListFindings None 9 (minRiskFilter (acf_minRiskScore (ag_config watchingAgent))) twoFindings =
      (Inr [urgentFinding, sample_finding ''Namespace'' ''no quota''], twoFindings)"
    by (simp add: config(1) twoFindings_listed)
  ultimately obtain rep where first: "runCycle watchingAgent 9 [] (twoFindings, []) = (rep, [findingEventKey urgentFinding], (twoFindings, []))"
      "cr_errors rep = []" "cr_processed rep = 1"
    using runCycle_direct [OF config(3,4) listed, of "[]" "[]"]
    by (auto simp: processFinding_def notify_def config emptyReport_def addReport_def Let_def)
  show ?thesis
    using first clean_cycle_settles [OF config(3,4) listed first(1,2) listed, of "[]"] by auto
qed


subsection \<open>Long identifiers\<close>

text \<open>The characters of the identifiers that the scanners build; \<open>safeKey\<close> keeps them as they are.\<close>

definition plainIdChar :: "char \<Rightarrow> bool" where
  "plainIdChar c \<longleftrightarrow> c \<in> set ''abcdefghijklmnopqrstuvwxyz0123456789-''"

definition kept :: "char \<Rightarrow> bool" where
  "kept c \<longleftrightarrow> asciiLower c = c \<and> keyChar [c] = c \<and> c \<noteq> CHR 0xE2 \<and> c \<noteq> CHR 0xC4 \<and> c < CHR 0x80"

lemma idChars_kept: "list_all kept ''abcdefghijklmnopqrstuvwxyz0123456789-''"
  by code_simp

lemma plainIdChar_kept: "plainIdChar c \<Longrightarrow> asciiLower c = c \<and> keyChar [c] = c \<and> c \<noteq> CHR 0xE2 \<and> c \<noteq> CHR 0xC4 \<and> c < CHR 0x80"
  using idChars_kept unfolding list_all_iff plainIdChar_def kept_def by blast

lemma idChars_lower: "list_all plainIdChar s \<Longrightarrow> toLower (s @ t) = s @ toLower t"
  by (induction s) (simp_all add: plainIdChar_kept)

lemma idChars_runes: "list_all plainIdChar s \<Longrightarrow> runes (s @ t) = map (\<lambda>c. [c]) s @ runes t"
proof (induction s)
  case (Cons c s)
  then have "utf8Len (c # s @ t) = 1" using plainIdChar_kept [of c] by (simp add: utf8Len.simps)
  then show ?case using Cons by (subst runes.simps) (simp add: Let_def)
qed simp

lemma safeKey_long:
  assumes "list_all plainIdChar s" "length s = 96"
  shows "safeKey (s @ t) = safeKey s"
proof -
  have "map keyChar (map (\<lambda>c. [c]) s) = s" using assms(1) by (induction s) (simp_all add: plainIdChar_kept)
  then have "take 96 (map keyChar (runes (toLower (s @ t)))) = s" for t
    using assms by (simp add: idChars_lower idChars_runes)
  from this [of t] this [of "[]"] show ?thesis by (simp add: safeKey_def)
qed

lemma long_ids_same_key:
  assumes "96 \<le> length (f_id f)" "96 \<le> length (f_id g)" "take 96 (f_id f) = take 96 (f_id g)" "list_all plainIdChar (take 96 (f_id f))"
  shows "idempotencyKey f = idempotencyKey g"
proof -
  have "safeKey (f_id h @ x) = safeKey (take 96 (f_id h))" if "96 \<le> length (f_id h)" "list_all plainIdChar (take 96 (f_id h))" for h x
    using safeKey_long [of "take 96 (f_id h)" "drop 96 (f_id h) @ x"] that append_take_drop_id [of 96 "f_id h"]
    by (metis append.assoc length_take min.absorb2)
  from this [of f "CHR ''-'' # findingFingerprint f"] this [of g "CHR ''-'' # findingFingerprint g"] show ?thesis
    using assms by (simp add: idempotencyKey_def)
qed

text \<open>
  The key of a finding's plan is cut at 96 bytes, fingerprint included: of two findings whose
  identifiers share their first 96 characters only one ever gets a plan.  Once the plan of the
  first is stored, processing the second fails with a conflict and changes nothing, so that the
  second is tried again in every cycle and never planned.
\<close>
theorem long_ids_refused:
  assumes "96 \<le> length (f_id f)" "96 \<le> length (f_id g)" "take 96 (f_id f) = take 96 (f_id g)" "list_all plainIdChar (take 96 (f_id f))"
    "f_id f \<noteq> f_id g" "acf_autoPlan (ag_config ag)" "ag_notifier ag = None" "acf_actor (ag_config ag) \<noteq> ''''"
    "gget (st_findings s) (f_id g) = Some g"
    "gget (st_idempotency s) (idempotencyScope (acf_actor (ag_config ag)) (idempotencyKey f)) = Some planID"
    "gget (st_plans s) planID = Some plan" "p_findingID plan = f_id f"
  shows "cr_errors (fst (processFinding ag now g (s, w))) =
      [''create plan for '' @ f_id g @ '': '' @ storeText (ErrConflict ''idempotency key was used for a different request'')] \<and>
    snd (processFinding ag now g (s, w)) = (s, w)"
proof -
  have "idempotencyKey f \<noteq> ''''" "f_id g \<noteq> ''''" using assms(2) by (auto simp: idempotencyKey_def)
  moreover have "idempotencyKey g = idempotencyKey f" by (rule long_ids_same_key [OF assms(1-4), symmetric])
  ultimately have "CreateRemediationPlanFromFinding None now g (acf_actor (ag_config ag)) [idempotencyKey g] s =
      (Inl (ErrConflict ''idempotency key was used for a different request''), s)"
    using assms by (simp add: CreateRemediationPlanFromFinding_def createRemediationPlanLocked_def first_key_def)
  then show ?thesis
    using assms(6,7) by (simp add: processFinding_def notify_def inStore_def emptyReport_def addError_def)
qed

definition longFinding :: "string \<Rightarrow> finding" where
  "longFinding suffix = (sample_finding ''Pod'' ''privileged'')\<lparr>f_id := replicate 96 (CHR ''a'') @ suffix\<rparr>"

definition plannedStore :: store where
  "plannedStore = emptyStore\<lparr>st_findings := [(f_id (longFinding ''-b''), longFinding ''-b'')],
     st_idempotency := [(idempotencyScope ''agent'' (idempotencyKey (longFinding ''-a'')), ''plan-1'')],
     st_plans := [(''plan-1'', buildRemediationPlan (longFinding ''-a'') ''agent'' 0 1)]\<rparr>"

lemma long_ids_refused_witness:
  "snd (processFinding (demoAgent 1) 9 (longFinding ''-b'') (plannedStore, [])) = (plannedStore, [])"
  using long_ids_refused [of "longFinding ''-a''" "longFinding ''-b''" "demoAgent 1" plannedStore "''plan-1''" _ 9 "[]"]
  by (simp add: longFinding_def plannedStore_def demoAgent_def plainIdChar_def list_all_iff buildRemediationPlan_def Let_def)

end
