(* ===== verification/ClusterScan.thy ===== *)
theory ClusterScan
  imports ServerModel
begin

text \<open>
  The native posture scan, \<open>internal/cluster/inspector.go\<close>: the objects it lists, the checks on them,
  the findings with their identifiers and scores, and the compliance controls computed from them.

  An object of the Kubernetes API is a record of the fields the scan reads: a quantity is its value,
  a probe or a hostPath volume is whether it is there, a network rule is the list of its peers.
  The Unicode tables and the matching of label selectors (\<open>metav1.LabelSelectorAsSelector\<close>) are the
  parameters of \<open>scan_env\<close>.
\<close>

subsection \<open>Objects\<close>

record 's scan_env =
  sv_letter :: "string \<Rightarrow> string option"
  sv_selects :: "'s \<Rightarrow> (string, string) gomap \<Rightarrow> bool"

record node_obj =
  no_name :: string
  no_conditions :: "(string \<times> string) list"

record namespace_view =
  ns_name :: string
  ns_labels :: "(string, string) gomap"

record service_obj =
  se_namespace :: string
  se_name :: string
  se_type :: string
  se_externalIPs :: "string list"

record ingress_obj =
  ig_namespace :: string
  ig_name :: string
  ig_tls :: "string list list"
  ig_hosts :: "string list"

record pvc_obj =
  pv_namespace :: string
  pv_name :: string
  pv_phase :: string
  pv_storageClass :: "string option"

record container_security =
  sx_privileged :: "bool option"
  sx_allowPrivilegeEscalation :: "bool option"
  sx_runAsNonRoot :: "bool option"
  sx_seccomp :: "string option"
  sx_capabilities :: "(string list \<times> string list) option"

record scan_container =
  sc_image :: string
  sc_requests :: "(string, int) gomap"
  sc_limits :: "(string, int) gomap"
  sc_readinessProbe :: bool
  sc_livenessProbe :: bool
  sc_security :: "container_security option"

record pod_security =
  px_runAsNonRoot :: "bool option"
  px_seccomp :: "string option"

record scan_pod_spec =
  sp_initContainers :: "scan_container list"
  sp_containers :: "scan_container list"
  sp_security :: "pod_security option"
  sp_hostNetwork :: bool
  sp_hostPID :: bool
  sp_hostIPC :: bool
  sp_hostPathVolumes :: "bool list"
  sp_serviceAccountName :: string
  sp_automount :: "bool option"

text \<open>A DaemonSet has no replica count.\<close>

record workload_obj =
  wo_namespace :: string
  wo_name :: string
  wo_labels :: "(string, string) gomap"
  wo_replicas :: "int option"
  wo_podSpec :: scan_pod_spec

record workload_target =
  wt_apiVersion :: string
  wt_kind :: string
  wt_namespace :: string
  wt_name :: string
  wt_labels :: "(string, string) gomap"
  wt_replicas :: int
  wt_podSpec :: scan_pod_spec

record pod_obj =
  pd_namespace :: string
  pd_name :: string
  pd_phase :: string
  pd_initRestarts :: "int list"
  pd_restarts :: "int list"
  pd_podSpec :: scan_pod_spec

record 's pdb_view =
  pb_namespace :: string
  pb_selector :: "'s option"

record policy_obj =
  np_namespace :: string
  np_name :: string
  np_ingress :: "string list list"
  np_egress :: "string list list"

record policy_rule =
  ru_verbs :: "string list"
  ru_apiGroups :: "string list"
  ru_resources :: "string list"

text \<open>Roles and bindings of the cluster have an empty namespace.\<close>

record role_obj =
  ro_namespace :: string
  ro_name :: string
  ro_rules :: "policy_rule list"

record binding_obj =
  bi_namespace :: string
  bi_name :: string
  bi_roleKind :: string
  bi_roleName :: string
  bi_subjects :: "(string \<times> string) list"

text \<open>What the listings return; a list of strings where only the number or the namespaces matter.\<close>

record 's cluster_lists =
  ls_nodes :: "node_obj list"
  ls_namespaces :: "namespace_view list"
  ls_pods :: "pod_obj list"
  ls_services :: "service_obj list"
  ls_serviceAccounts :: "string list"
  ls_configMaps :: "string list"
  ls_quotas :: "string list"
  ls_limitRanges :: "string list"
  ls_pvcs :: "pvc_obj list"
  ls_events :: "string list"
  ls_deployments :: "workload_obj list"
  ls_statefulSets :: "workload_obj list"
  ls_daemonSets :: "workload_obj list"
  ls_jobs :: "string list"
  ls_ingresses :: "ingress_obj list"
  ls_networkPolicies :: "policy_obj list"
  ls_pdbs :: "'s pdb_view list"
  ls_hpas :: "string list"
  ls_roles :: "role_obj list"
  ls_roleBindings :: "binding_obj list"
  ls_clusterRoles :: "role_obj list"
  ls_clusterRoleBindings :: "binding_obj list"

subsection \<open>Checks\<close>

definition isSystemNamespace :: "string \<Rightarrow> bool" where
  "isSystemNamespace n \<longleftrightarrow> n = '''' \<or> n = ''kube-system'' \<or> n = ''kube-public'' \<or> n = ''kube-node-lease'' \<or> n = ''local-path-storage''"

definition isBuiltinClusterRoleBinding :: "string \<Rightarrow> bool" where
  "isBuiltinClusterRoleBinding n \<longleftrightarrow> hasPrefix n ''system:'' \<or> hasPrefix n ''eks:'' \<or> hasPrefix n ''kubeadm:''"

definition isBuiltinClusterRole :: "string \<Rightarrow> bool" where
  "isBuiltinClusterRole n \<longleftrightarrow>
     hasPrefix n ''system:'' \<or> hasPrefix n ''eks:'' \<or> hasPrefix n ''kubeadm:'' \<or> n \<in> set [''admin'', ''cluster-admin'', ''edit'', ''view'']"

fun nodeReadyIn :: "(string \<times> string) list \<Rightarrow> bool" where
  "nodeReadyIn [] = False"
| "nodeReadyIn ((t, status) # cs) = (if t = ''Ready'' then status = ''True'' else nodeReadyIn cs)"

definition nodeReady :: "node_obj \<Rightarrow> bool" where
  "nodeReady n = nodeReadyIn (no_conditions n)"

definition nodeUnderPressure :: "node_obj \<Rightarrow> bool" where
  "nodeUnderPressure n \<longleftrightarrow>
     list_ex (\<lambda>(t, status). t \<in> set [''MemoryPressure'', ''DiskPressure'', ''PIDPressure''] \<and> status = ''True'') (no_conditions n)"

definition missingPodSecurityLabel :: "namespace_view \<Rightarrow> bool" where
  "missingPodSecurityLabel n \<longleftrightarrow>
     (let enforce = gval (ns_labels n) ''pod-security.kubernetes.io/enforce'' in enforce \<noteq> ''baseline'' \<and> enforce \<noteq> ''restricted'')"

definition privilegedPodSecurityLabel :: "namespace_view \<Rightarrow> bool" where
  "privilegedPodSecurityLabel n \<longleftrightarrow> gval (ns_labels n) ''pod-security.kubernetes.io/enforce'' = ''privileged''"

definition ingressHasWildcardHost :: "ingress_obj \<Rightarrow> bool" where
  "ingressHasWildcardHost n \<longleftrightarrow> list_ex (\<lambda>h. strContains h ''*'') (ig_hosts n)"

definition allContainers :: "scan_pod_spec \<Rightarrow> scan_container list" where
  "allContainers p = sp_initContainers p @ sp_containers p"

definition hasResource :: "(string, int) gomap \<Rightarrow> string \<Rightarrow> bool" where
  "hasResource m name \<longleftrightarrow> (case gget m name of None \<Rightarrow> False | Some q \<Rightarrow> q \<noteq> 0)"

definition podSpecMissingResources :: "scan_pod_spec \<Rightarrow> bool" where
  "podSpecMissingResources p \<longleftrightarrow>
     list_ex (\<lambda>c. \<not> hasResource (sc_requests c) ''cpu'' \<or> \<not> hasResource (sc_requests c) ''memory'' \<or>
       \<not> hasResource (sc_limits c) ''cpu'' \<or> \<not> hasResource (sc_limits c) ''memory'') (allContainers p)"

definition podSpecMissingReadiness :: "scan_pod_spec \<Rightarrow> bool" where
  "podSpecMissingReadiness p \<longleftrightarrow> list_ex (\<lambda>c. \<not> sc_readinessProbe c) (sp_containers p)"

definition podSpecMissingLiveness :: "scan_pod_spec \<Rightarrow> bool" where
  "podSpecMissingLiveness p \<longleftrightarrow> list_ex (\<lambda>c. \<not> sc_livenessProbe c) (sp_containers p)"

text \<open>The part after the last separator, or everything.\<close>

definition afterLast :: "char \<Rightarrow> string \<Rightarrow> string" where
  "afterLast c s = rev (takeWhile (\<lambda>x. x \<noteq> c) (rev s))"

definition imageIsMutable :: "string \<Rightarrow> bool" where
  "imageIsMutable img \<longleftrightarrow>
     (let repositoryPart = afterLast (CHR ''/'') img; tag = afterLast (CHR '':'') repositoryPart in
      if strContains img ''@sha256:'' then False
      else if CHR '':'' \<notin> set repositoryPart then True
      else tag = '''' \<or> tag = ''latest'')"

definition podSpecUsesMutableImages :: "scan_pod_spec \<Rightarrow> bool" where
  "podSpecUsesMutableImages p \<longleftrightarrow> list_ex (\<lambda>c. imageIsMutable (sc_image c)) (allContainers p)"

definition podSpecRunsAsNonRoot :: "scan_pod_spec \<Rightarrow> bool" where
  "podSpecRunsAsNonRoot p \<longleftrightarrow>
     (if (case sp_security p of None \<Rightarrow> False | Some s \<Rightarrow> px_runAsNonRoot s = Some True) then True
      else list_all (\<lambda>c. case sc_security c of None \<Rightarrow> False | Some s \<Rightarrow> sx_runAsNonRoot s = Some True) (allContainers p) \<and>
        allContainers p \<noteq> [])"

definition seccompIsRestricted :: "string option \<Rightarrow> bool" where
  "seccompIsRestricted profile \<longleftrightarrow> profile = Some ''RuntimeDefault'' \<or> profile = Some ''Localhost''"

definition podSpecHasSeccomp :: "scan_pod_spec \<Rightarrow> bool" where
  "podSpecHasSeccomp p \<longleftrightarrow>
     (if (case sp_security p of None \<Rightarrow> False | Some s \<Rightarrow> seccompIsRestricted (px_seccomp s)) then True
      else list_all (\<lambda>c. case sc_security c of None \<Rightarrow> False | Some s \<Rightarrow> seccompIsRestricted (sx_seccomp s)) (allContainers p) \<and>
        allContainers p \<noteq> [])"

definition capabilityListContains :: "string list \<Rightarrow> string \<Rightarrow> bool" where
  "capabilityListContains capabilities v \<longleftrightarrow> list_ex (\<lambda>c. equalFold c v) capabilities"

definition podSpecDropsAllCapabilities :: "scan_pod_spec \<Rightarrow> bool" where
  "podSpecDropsAllCapabilities p \<longleftrightarrow>
     list_all (\<lambda>c. case sc_security c of
         None \<Rightarrow> False
       | Some s \<Rightarrow> (case sx_capabilities s of None \<Rightarrow> False | Some (add, dropped) \<Rightarrow> capabilityListContains dropped ''ALL''))
       (allContainers p) \<and> allContainers p \<noteq> []"

definition podSpecMissingRuntimeHardening :: "scan_pod_spec \<Rightarrow> bool" where
  "podSpecMissingRuntimeHardening p \<longleftrightarrow> \<not> podSpecRunsAsNonRoot p \<or> \<not> podSpecHasSeccomp p \<or> \<not> podSpecDropsAllCapabilities p"

definition podSpecAllowsHostAccess :: "scan_pod_spec \<Rightarrow> bool" where
  "podSpecAllowsHostAccess p \<longleftrightarrow> sp_hostNetwork p \<or> sp_hostPID p \<or> sp_hostIPC p \<or> list_ex (\<lambda>h. h) (sp_hostPathVolumes p)"

definition escalates :: "scan_container \<Rightarrow> bool" where
  "escalates c \<longleftrightarrow>
     (case sc_security c of None \<Rightarrow> False | Some s \<Rightarrow> sx_privileged s = Some True \<or> sx_allowPrivilegeEscalation s = Some True)"

definition podSpecHasElevatedCapabilities :: "scan_pod_spec \<Rightarrow> bool" where
  "podSpecHasElevatedCapabilities p \<longleftrightarrow>
     list_ex (\<lambda>c. escalates c \<or>
       (case sc_security c of
          None \<Rightarrow> False
        | Some s \<Rightarrow> (case sx_capabilities s of None \<Rightarrow> False | Some (add, dropped) \<Rightarrow> add \<noteq> []))) (allContainers p)"

definition podSpecUsesDefaultServiceAccount :: "scan_pod_spec \<Rightarrow> bool" where
  "podSpecUsesDefaultServiceAccount p \<longleftrightarrow> sp_serviceAccountName p = '''' \<or> sp_serviceAccountName p = ''default''"

definition podSpecAutomountsServiceAccountToken :: "scan_pod_spec \<Rightarrow> bool" where
  "podSpecAutomountsServiceAccountToken p \<longleftrightarrow> sp_automount p = None \<or> sp_automount p = Some True"

definition podRestarting :: "pod_obj \<Rightarrow> bool" where
  "podRestarting n \<longleftrightarrow> list_ex (\<lambda>k. k \<ge> 3) (pd_initRestarts n @ pd_restarts n)"

definition podHasPrivilegedContainer :: "pod_obj \<Rightarrow> bool" where
  "podHasPrivilegedContainer n \<longleftrightarrow> list_ex escalates (sp_containers (pd_podSpec n))"

definition networkPolicyHasBroadIngress :: "policy_obj \<Rightarrow> bool" where
  "networkPolicyHasBroadIngress n \<longleftrightarrow> list_ex (\<lambda>peers. peers = []) (np_ingress n)"

definition networkPolicyHasBroadEgress :: "policy_obj \<Rightarrow> bool" where
  "networkPolicyHasBroadEgress n \<longleftrightarrow> list_ex (\<lambda>peers. peers = []) (np_egress n)"

definition ruleMatches :: "string list \<Rightarrow> string list \<Rightarrow> bool" where
  "ruleMatches xs targets \<longleftrightarrow> list_ex (\<lambda>x. x = ''*'' \<or> x \<in> set targets) xs"

definition roleAllowsSecretRead :: "policy_rule list \<Rightarrow> bool" where
  "roleAllowsSecretRead granted \<longleftrightarrow>
     list_ex (\<lambda>r. ruleMatches (ru_resources r) [''secrets''] \<and> ruleMatches (ru_verbs r) [''get'', ''list'', ''watch'']) granted"

definition roleAllowsPrivilegeEscalation :: "policy_rule list \<Rightarrow> bool" where
  "roleAllowsPrivilegeEscalation granted \<longleftrightarrow>
     list_ex (\<lambda>r. ruleMatches (ru_verbs r) [''bind'', ''escalate'', ''impersonate''] \<or>
       (ruleMatches (ru_resources r) [''pods/exec''] \<and> ruleMatches (ru_verbs r) [''create''])) granted"

definition containsWildcard :: "string list \<Rightarrow> bool" where
  "containsWildcard xs \<longleftrightarrow> ''*'' \<in> set xs"

definition hasWildcardRule :: "policy_rule list \<Rightarrow> bool" where
  "hasWildcardRule granted \<longleftrightarrow>
     list_ex (\<lambda>r. containsWildcard (ru_verbs r) \<or> containsWildcard (ru_apiGroups r) \<or> containsWildcard (ru_resources r)) granted"

definition grantsClusterAdmin :: "binding_obj \<Rightarrow> bool" where
  "grantsClusterAdmin b \<longleftrightarrow> bi_roleKind b = ''ClusterRole'' \<and> bi_roleName b = ''cluster-admin''"

definition bindingHasUnauthenticatedSubject :: "binding_obj \<Rightarrow> bool" where
  "bindingHasUnauthenticatedSubject b \<longleftrightarrow>
     list_ex (\<lambda>(kind, name). (kind = ''Group'' \<and> (name = ''system:unauthenticated'' \<or> name = ''system:authenticated'')) \<or>
       (kind = ''User'' \<and> name = ''system:anonymous'')) (bi_subjects b)"

subsection \<open>Workloads\<close>

definition targetOf :: "string \<Rightarrow> int \<Rightarrow> workload_obj \<Rightarrow> workload_target" where
  "targetOf kind replicas w =
     \<lparr>wt_apiVersion = ''apps/v1'', wt_kind = kind, wt_namespace = wo_namespace w, wt_name = wo_name w, wt_labels = wo_labels w,
      wt_replicas = replicas, wt_podSpec = wo_podSpec w\<rparr>"

definition deploymentReplicas :: "workload_obj \<Rightarrow> int" where
  "deploymentReplicas w = (case wo_replicas w of None \<Rightarrow> 1 | Some n \<Rightarrow> n)"

definition workloadTargets :: "workload_obj list \<Rightarrow> workload_obj list \<Rightarrow> workload_obj list \<Rightarrow> workload_target list" where
  "workloadTargets deployments statefulSets daemonSets =
     map (\<lambda>w. targetOf ''Deployment'' (deploymentReplicas w) w) deployments @
     map (\<lambda>w. targetOf ''StatefulSet'' (case wo_replicas w of None \<Rightarrow> 1 | Some n \<Rightarrow> n) w) statefulSets @
     map (targetOf ''DaemonSet'' 2) daemonSets"

definition workloadHasPDB :: "'s scan_env \<Rightarrow> workload_target \<Rightarrow> 's pdb_view list \<Rightarrow> bool" where
  "workloadHasPDB env w pdbs \<longleftrightarrow>
     list_ex (\<lambda>b. pb_namespace b = wt_namespace w \<and>
       (case pb_selector b of None \<Rightarrow> False | Some s \<Rightarrow> sv_selects env s (wt_labels w))) pdbs"

subsection \<open>Findings\<close>

text \<open>
  \<open>sv_letter\<close> is the lower-case form of a rune outside ASCII that is a letter or a digit, and \<open>None\<close>
  for every other such rune.
\<close>

definition safeRune :: "'s scan_env \<Rightarrow> string \<Rightarrow> string option" where
  "safeRune env r =
     (case r of
        [c] \<Rightarrow> if isDigit (asciiLower c) \<or> (CHR ''a'' \<le> asciiLower c \<and> asciiLower c \<le> CHR ''z'') then Some [asciiLower c] else None
      | _ \<Rightarrow> sv_letter env r)"

fun safeRunes :: "'s scan_env \<Rightarrow> string list \<Rightarrow> bool \<Rightarrow> string" where
  "safeRunes env [] lastDash = ''''"
| "safeRunes env (r # rs) lastDash =
     (case safeRune env r of
        Some s \<Rightarrow> s @ safeRunes env rs False
      | None \<Rightarrow> if lastDash then safeRunes env rs True else CHR ''-'' # safeRunes env rs True)"

definition safeClusterID :: "'s scan_env \<Rightarrow> string list \<Rightarrow> string" where
  "safeClusterID env parts = trimChar (CHR ''-'') (safeRunes env (runes (joinWith ''-'' parts)) False)"

definition ref :: "string \<Rightarrow> string \<Rightarrow> string \<Rightarrow> string \<Rightarrow> resource_ref" where
  "ref apiVersion kind namespace name = \<lparr>rr_apiVersion = apiVersion, rr_kind = kind, rr_namespace = namespace, rr_name = name\<rparr>"

definition Ref :: "workload_target \<Rightarrow> resource_ref" where
  "Ref w = ref (wt_apiVersion w) (wt_kind w) (wt_namespace w) (wt_name w)"

definition clusterKeys :: "resource_ref \<Rightarrow> correlation_keys" where
  "clusterKeys r =
     \<lparr>ck_workload = (if rr_kind r \<in> set [''Deployment'', ''StatefulSet'', ''DaemonSet'', ''ReplicaSet'', ''Pod'']
        then rr_namespace r @ ''/'' @ rr_kind r @ ''/'' @ rr_name r else ''''),
      ck_namespace = (if rr_kind r = ''Namespace'' then rr_name r else rr_namespace r),
      ck_identity = (if rr_kind r \<in> set [''Role'', ''RoleBinding'', ''ClusterRole'', ''ClusterRoleBinding'', ''ServiceAccount'']
        then resourceString r else ''''),
      ck_networkExposure = (if rr_kind r \<in> set [''Service'', ''Ingress'', ''NetworkPolicy''] then resourceString r else ''''),
      ck_image = ''''\<rparr>"

definition noExplanationYet :: risk_explanation where
  "noExplanationYet = \<lparr>re_version = '''', re_baseScore = 0, re_factors = [], re_finalScore = 0\<rparr>"

definition newClusterFinding ::
  "'s scan_env \<Rightarrow> gotime \<Rightarrow> string \<Rightarrow> string \<Rightarrow> string \<Rightarrow> severity \<Rightarrow> resource_ref \<Rightarrow> string \<Rightarrow> fixability \<Rightarrow> string \<Rightarrow> int \<Rightarrow>
     string \<Rightarrow> finding" where
  "newClusterFinding env now i source title severity resource details fixability remediationState riskScore recommendation =
     \<lparr>f_id = i, f_source = source, f_title = title, f_severity = severity,
      f_evidence = [\<lparr>ev_summary = title, ev_details = details, ev_sourceID = ''kubeathrix/live-scan'', ev_observedAt = now\<rparr>],
      f_resources = [resource], f_blastRadius = details, f_fixability = fixability, f_status = FindingOpen,
      f_correlationGroup = trimChar (CHR ''-'') (safeClusterID env [rr_namespace resource, rr_kind resource, rr_name resource]),
      f_correlationKeys = clusterKeys resource, f_riskScore = riskScore, f_riskExplanation = noExplanationYet,
      f_remediationState = remediationState, f_recommendedAction = recommendation, f_createdAt = now, f_updatedAt = now\<rparr>"

definition provided :: "bool \<Rightarrow> finding \<Rightarrow> finding list" where
  "provided c f = (if c then [f] else [])"

definition nodeFindings :: "'s scan_env \<Rightarrow> gotime \<Rightarrow> node_obj \<Rightarrow> finding list" where
  "nodeFindings env now n =
    (provided (\<not> nodeReady n)
       (newClusterFinding env now (''scan-node-not-ready-'' @ safeClusterID env [no_name n]) ''kubeathrix-scan'' (''Node is not Ready'')
          SeverityHigh (ref ''v1'' ''Node'' '''' (no_name n)) ''The node is not reporting Ready and may reduce scheduling capacity or availability.''
          FixabilityInformational ''triage_required'' 78 ''Inspect node conditions, kubelet health, and cloud provider events.'') @
     provided (nodeUnderPressure n)
       (newClusterFinding env now (''scan-node-pressure-'' @ safeClusterID env [no_name n]) ''kubeathrix-scan'' (''Node reports resource pressure'')
          SeverityMedium (ref ''v1'' ''Node'' '''' (no_name n)) ''The node reports memory, disk, or PID pressure.''
          FixabilityInformational ''triage_required'' 68 ''Review noisy workloads, eviction events, and node capacity before scheduling more pods.''))"

definition namespaceFindings :: "'s scan_env \<Rightarrow> gotime \<Rightarrow> 's cluster_lists \<Rightarrow> namespace_view \<Rightarrow> finding list" where
  "namespaceFindings env now l n =
    (if isSystemNamespace (ns_name n) then []
     else
     provided (ns_name n \<notin> set (ls_quotas l) \<or> ns_name n \<notin> set (ls_limitRanges l))
       (newClusterFinding env now (''scan-namespace-governance-'' @ safeClusterID env [ns_name n]) ''kubeathrix-scan'' (''Namespace lacks resource governance'')
          SeverityMedium (ref ''v1'' ''Namespace'' '''' (ns_name n)) ''No ResourceQuota or LimitRange fully bounds workload requests in this namespace.''
          FixabilityDeterministic ''autofix_available'' 58 ''Apply a namespace-scoped ResourceQuota and default LimitRange.'') @
     provided (ns_name n \<notin> np_namespace ` set (ls_networkPolicies l))
       (newClusterFinding env now (''scan-networkpolicy-'' @ safeClusterID env [ns_name n]) ''kubeathrix-scan'' (''Namespace has no NetworkPolicy guardrail'')
          SeverityMedium (ref ''v1'' ''Namespace'' '''' (ns_name n)) ''Pods in this namespace have no namespace-local NetworkPolicy object to constrain traffic.''
          FixabilityGated ''dry_run_ready'' 64 ''Create a default-deny baseline and explicit allow policies after review.'') @
     provided (missingPodSecurityLabel n)
       (newClusterFinding env now (''scan-namespace-pod-security-'' @ safeClusterID env [ns_name n]) ''kubeathrix-scan'' (''Namespace lacks Pod Security enforcement label'')
          SeverityMedium (ref ''v1'' ''Namespace'' '''' (ns_name n)) ''The namespace does not set pod-security.kubernetes.io/enforce to baseline or restricted.''
          FixabilityDeterministic ''autofix_available'' 57 ''Set Pod Security admission labels that match the namespace risk tier.'') @
     provided (privilegedPodSecurityLabel n)
       (newClusterFinding env now (''scan-namespace-pod-security-privileged-'' @ safeClusterID env [ns_name n]) ''kubeathrix-scan'' (''Namespace allows privileged Pod Security level'')
          SeverityHigh (ref ''v1'' ''Namespace'' '''' (ns_name n)) ''The namespace explicitly enforces the privileged Pod Security level.''
          FixabilityHumanOnly ''approval_required'' 84 ''Review workloads and move the namespace to baseline or restricted where possible.''))"

definition serviceFindings :: "'s scan_env \<Rightarrow> gotime \<Rightarrow> service_obj \<Rightarrow> finding list" where
  "serviceFindings env now n =
    (if isSystemNamespace (se_namespace n) then []
     else
     provided (se_type n = ''LoadBalancer'')
       (newClusterFinding env now (''scan-public-service-'' @ safeClusterID env [se_namespace n, se_name n]) ''kubeathrix-scan'' (''Service is exposed through a LoadBalancer'')
          SeverityHigh (ref ''v1'' ''Service'' (se_namespace n) (se_name n)) ''The service creates a cloud-facing load balancer and should be reviewed against ingress policy.''
          FixabilityHumanOnly ''approval_required'' 86 ''Validate intended exposure, source restrictions, and ownership before changing service type or ingress policy.'') @
     provided (se_type n = ''NodePort'')
       (newClusterFinding env now (''scan-nodeport-service-'' @ safeClusterID env [se_namespace n, se_name n]) ''kubeathrix-scan'' (''Service exposes a NodePort'')
          SeverityMedium (ref ''v1'' ''Service'' (se_namespace n) (se_name n)) ''NodePort opens a port on every node and can broaden the reachable surface.''
          FixabilityGated ''dry_run_ready'' 66 ''Confirm the exposure is required or migrate behind controlled ingress.'') @
     provided (se_externalIPs n \<noteq> [])
       (newClusterFinding env now (''scan-externalip-service-'' @ safeClusterID env [se_namespace n, se_name n]) ''kubeathrix-scan'' (''Service uses externalIPs'')
          SeverityHigh (ref ''v1'' ''Service'' (se_namespace n) (se_name n)) ''Service externalIPs can route traffic outside normal load balancer and ingress controls.''
          FixabilityHumanOnly ''approval_required'' 81 ''Validate ownership of external IPs and remove the field if not explicitly required.''))"

definition ingressFindings :: "'s scan_env \<Rightarrow> gotime \<Rightarrow> ingress_obj \<Rightarrow> finding list" where
  "ingressFindings env now n =
    (if isSystemNamespace (ig_namespace n) then []
     else
     provided (ig_tls n = [])
       (newClusterFinding env now (''scan-ingress-tls-'' @ safeClusterID env [ig_namespace n, ig_name n]) ''kubeathrix-scan'' (''Ingress has no TLS configuration'')
          SeverityMedium (ref ''networking.k8s.io/v1'' ''Ingress'' (ig_namespace n) (ig_name n)) ''The Ingress does not declare TLS blocks for its hosts.''
          FixabilityGated ''dry_run_ready'' 63 ''Attach a TLS secret and verify certificate ownership before exposing traffic.'') @
     provided (ingressHasWildcardHost n)
       (newClusterFinding env now (''scan-ingress-wildcard-'' @ safeClusterID env [ig_namespace n, ig_name n]) ''kubeathrix-scan'' (''Ingress uses wildcard host routing'')
          SeverityMedium (ref ''networking.k8s.io/v1'' ''Ingress'' (ig_namespace n) (ig_name n)) ''Wildcard host granted can accidentally expose additional hostnames.''
          FixabilityHumanOnly ''approval_required'' 69 ''Replace wildcard hosts with explicit hostnames unless ownership is proven.''))"

definition pvcFindings :: "'s scan_env \<Rightarrow> gotime \<Rightarrow> pvc_obj \<Rightarrow> finding list" where
  "pvcFindings env now n =
    (if isSystemNamespace (pv_namespace n) then []
     else
     provided (pv_phase n \<noteq> ''Bound'')
       (newClusterFinding env now (''scan-pvc-not-bound-'' @ safeClusterID env [pv_namespace n, pv_name n]) ''kubeathrix-scan'' (''PersistentVolumeClaim is not bound'')
          SeverityMedium (ref ''v1'' ''PersistentVolumeClaim'' (pv_namespace n) (pv_name n)) ''A PVC is not Bound and can block workload scheduling or recovery.''
          FixabilityInformational ''triage_required'' 60 ''Inspect storage class, events, capacity, and access mode compatibility.'') @
     provided (pv_storageClass n = None \<or> pv_storageClass n = Some '''')
       (newClusterFinding env now (''scan-pvc-storageclass-'' @ safeClusterID env [pv_namespace n, pv_name n]) ''kubeathrix-scan'' (''PersistentVolumeClaim has no StorageClass'')
          SeverityLow (ref ''v1'' ''PersistentVolumeClaim'' (pv_namespace n) (pv_name n)) ''PVC provisioning is not explicitly tied to a StorageClass.''
          FixabilityGated ''dry_run_ready'' 42 ''Set an approved StorageClass or document the static provisioning path.''))"

definition workloadFindings :: "'s scan_env \<Rightarrow> gotime \<Rightarrow> 's cluster_lists \<Rightarrow> workload_target \<Rightarrow> finding list" where
  "workloadFindings env now l n =
    (if isSystemNamespace (wt_namespace n) then []
     else
     provided (podSpecMissingResources (wt_podSpec n))
       (newClusterFinding env now (''scan-workload-resources-'' @ safeClusterID env [wt_namespace n, wt_name n]) ''kubeathrix-scan'' (wt_kind n @ '' containers miss resource requests or limits'')
          SeverityMedium (Ref n) ''One or more containers do not specify CPU and memory requests and limits.''
          FixabilityDeterministic ''autofix_available'' 62 ''Patch workload resources with bounded defaults after dry-run validation.'') @
     provided (podSpecMissingReadiness (wt_podSpec n))
       (newClusterFinding env now (''scan-workload-readiness-'' @ safeClusterID env [wt_namespace n, wt_name n]) ''kubeathrix-scan'' (wt_kind n @ '' lacks readiness probes'')
          SeverityMedium (Ref n) ''One or more containers cannot prove request-serving readiness during rollouts.''
          FixabilityGated ''dry_run_ready'' 67 ''Add readiness probes and verify rollout health.'') @
     provided (podSpecMissingLiveness (wt_podSpec n))
       (newClusterFinding env now (''scan-workload-liveness-'' @ safeClusterID env [wt_namespace n, wt_name n]) ''kubeathrix-scan'' (wt_kind n @ '' lacks liveness probes'')
          SeverityLow (Ref n) ''One or more containers do not declare a liveness probe.''
          FixabilityGated ''dry_run_ready'' 48 ''Add liveness probes only where restart behavior is well understood.'') @
     provided (wt_replicas n > 1 \<and> \<not> workloadHasPDB env n (ls_pdbs l))
       (newClusterFinding env now (''scan-workload-pdb-'' @ safeClusterID env [wt_namespace n, wt_name n]) ''kubeathrix-scan'' (''Replicated '' @ wt_kind n @ '' lacks disruption protection'')
          SeverityLow (Ref n) ''Voluntary disruptions may evict too many replicas because no matching PodDisruptionBudget was found.''
          FixabilityGated ''dry_run_ready'' 46 ''Create a scoped PodDisruptionBudget and verify it matches the workload labels.'') @
     provided (podSpecUsesMutableImages (wt_podSpec n))
       (newClusterFinding env now (''scan-workload-image-mutability-'' @ safeClusterID env [wt_namespace n, wt_name n]) ''kubeathrix-scan'' (wt_kind n @ '' uses mutable image tags'')
          SeverityMedium (Ref n) ''One or more containers use the latest tag or omit an immutable digest.''
          FixabilityGated ''dry_run_ready'' 65 ''Pin workload images to reviewed version tags or immutable digests.'') @
     provided (podSpecMissingRuntimeHardening (wt_podSpec n))
       (newClusterFinding env now (''scan-workload-runtime-hardening-'' @ safeClusterID env [wt_namespace n, wt_name n]) ''kubeathrix-scan'' (wt_kind n @ '' misses restricted runtime settings'')
          SeverityMedium (Ref n) ''The pod template does not consistently set runAsNonRoot, seccomp, and dropped capabilities.''
          FixabilityGated ''dry_run_ready'' 70 ''Apply restricted securityContext settings after validating workload compatibility.'') @
     provided (podSpecAllowsHostAccess (wt_podSpec n))
       (newClusterFinding env now (''scan-workload-host-access-'' @ safeClusterID env [wt_namespace n, wt_name n]) ''kubeathrix-scan'' (wt_kind n @ '' requests host-level access'')
          SeverityHigh (Ref n) ''The pod template uses host namespaces, host networking, or hostPath volumes.''
          FixabilityHumanOnly ''approval_required'' 87 ''Validate host access requirements and replace with scoped Kubernetes APIs where possible.'') @
     provided (podSpecHasElevatedCapabilities (wt_podSpec n))
       (newClusterFinding env now (''scan-workload-capabilities-'' @ safeClusterID env [wt_namespace n, wt_name n]) ''kubeathrix-scan'' (wt_kind n @ '' grants elevated Linux capabilities'')
          SeverityHigh (Ref n) ''One or more containers add Linux capabilities or allow privilege escalation.''
          FixabilityHumanOnly ''approval_required'' 82 ''Remove added capabilities and privilege escalation unless explicitly approved.'') @
     provided (podSpecUsesDefaultServiceAccount (wt_podSpec n))
       (newClusterFinding env now (''scan-workload-default-serviceaccount-'' @ safeClusterID env [wt_namespace n, wt_name n]) ''kubeathrix-scan'' (wt_kind n @ '' uses the default ServiceAccount'')
          SeverityLow (Ref n) ''The pod template uses the namespace default ServiceAccount instead of a workload-scoped identity.''
          FixabilityDeterministic ''autofix_available'' 44 ''Create a workload-specific ServiceAccount with least-privilege RBAC.'') @
     provided (podSpecAutomountsServiceAccountToken (wt_podSpec n))
       (newClusterFinding env now (''scan-workload-serviceaccount-token-'' @ safeClusterID env [wt_namespace n, wt_name n]) ''kubeathrix-scan'' (wt_kind n @ '' automounts a ServiceAccount token'')
          SeverityLow (Ref n) ''The pod template does not disable ServiceAccount token automounting.''
          FixabilityGated ''dry_run_ready'' 40 ''Disable automountServiceAccountToken for workloads that do not call the Kubernetes API.''))"

definition podFindings :: "'s scan_env \<Rightarrow> gotime \<Rightarrow> pod_obj \<Rightarrow> finding list" where
  "podFindings env now n =
    (if isSystemNamespace (pd_namespace n) then []
     else
     provided (pd_phase n = ''Failed'')
       (newClusterFinding env now (''scan-pod-failed-'' @ safeClusterID env [pd_namespace n, pd_name n]) ''kubeathrix-scan'' (''Pod is Failed'')
          SeverityMedium (ref ''v1'' ''Pod'' (pd_namespace n) (pd_name n)) ''A pod is in Failed phase and may represent a failed workload or job.''
          FixabilityInformational ''triage_required'' 58 ''Inspect pod status, events, and owning controller.'') @
     provided (pd_phase n = ''Pending'')
       (newClusterFinding env now (''scan-pod-pending-'' @ safeClusterID env [pd_namespace n, pd_name n]) ''kubeathrix-scan'' (''Pod is Pending'')
          SeverityLow (ref ''v1'' ''Pod'' (pd_namespace n) (pd_name n)) ''A pod is Pending and may be blocked by scheduling, image pull, or storage.''
          FixabilityInformational ''triage_required'' 49 ''Inspect scheduling events, image pull state, and PVC binding.'') @
     provided (podRestarting n)
       (newClusterFinding env now (''scan-pod-restarts-'' @ safeClusterID env [pd_namespace n, pd_name n]) ''kubeathrix-scan'' (''Pod has repeated restarts'')
          SeverityMedium (ref ''v1'' ''Pod'' (pd_namespace n) (pd_name n)) ''One or more containers have restarted repeatedly.''
          FixabilityInformational ''triage_required'' 61 ''Review logs, probes, resource limits, and recent deployments.'') @
     provided (podHasPrivilegedContainer n)
       (newClusterFinding env now (''scan-privileged-pod-'' @ safeClusterID env [pd_namespace n, pd_name n]) ''kubeathrix-scan'' (''Pod permits privileged container behavior'')
          SeverityHigh (ref ''v1'' ''Pod'' (pd_namespace n) (pd_name n)) ''A container is privileged or allows privilege escalation.''
          FixabilityHumanOnly ''approval_required'' 88 ''Review workload requirements and enforce restricted security context.''))"

definition policyFindings :: "'s scan_env \<Rightarrow> gotime \<Rightarrow> policy_obj \<Rightarrow> finding list" where
  "policyFindings env now n =
    (if isSystemNamespace (np_namespace n) then []
     else
     provided (networkPolicyHasBroadIngress n)
       (newClusterFinding env now (''scan-networkpolicy-broad-ingress-'' @ safeClusterID env [np_namespace n, np_name n]) ''kubeathrix-scan'' (''NetworkPolicy allows broad ingress'')
          SeverityMedium (ref ''networking.k8s.io/v1'' ''NetworkPolicy'' (np_namespace n) (np_name n)) ''A NetworkPolicy ingress rule has no source restrictions.''
          FixabilityGated ''dry_run_ready'' 59 ''Constrain ingress peers and ports to the required callers.'') @
     provided (networkPolicyHasBroadEgress n)
       (newClusterFinding env now (''scan-networkpolicy-broad-egress-'' @ safeClusterID env [np_namespace n, np_name n]) ''kubeathrix-scan'' (''NetworkPolicy allows broad egress'')
          SeverityMedium (ref ''networking.k8s.io/v1'' ''NetworkPolicy'' (np_namespace n) (np_name n)) ''A NetworkPolicy egress rule has no destination restrictions.''
          FixabilityGated ''dry_run_ready'' 58 ''Constrain egress peers and ports to known dependencies.''))"

definition roleFindings :: "'s scan_env \<Rightarrow> gotime \<Rightarrow> role_obj \<Rightarrow> finding list" where
  "roleFindings env now n =
    (if isSystemNamespace (ro_namespace n) then []
     else
     provided (hasWildcardRule (ro_rules n))
       (newClusterFinding env now (''scan-role-wildcard-'' @ safeClusterID env [ro_namespace n, ro_name n]) ''kubeathrix-scan'' (''Namespace Role grants wildcard permissions'')
          SeverityHigh (ref ''rbac.authorization.k8s.io/v1'' ''Role'' (ro_namespace n) (ro_name n)) ''The role contains wildcard verbs, API groups, or resources.''
          FixabilityHumanOnly ''approval_required'' 82 ''Replace broad RBAC with explicit resources and verbs.'') @
     provided (roleAllowsSecretRead (ro_rules n))
       (newClusterFinding env now (''scan-role-secret-read-'' @ safeClusterID env [ro_namespace n, ro_name n]) ''kubeathrix-scan'' (''Namespace Role can read Secrets'')
          SeverityHigh (ref ''rbac.authorization.k8s.io/v1'' ''Role'' (ro_namespace n) (ro_name n)) ''The role can get, list, or watch Secret resources.''
          FixabilityHumanOnly ''approval_required'' 80 ''Narrow Secret access to exact workloads and rotate credentials if access is unexpected.'') @
     provided (roleAllowsPrivilegeEscalation (ro_rules n))
       (newClusterFinding env now (''scan-role-rbac-escalation-'' @ safeClusterID env [ro_namespace n, ro_name n]) ''kubeathrix-scan'' (''Namespace Role can escalate RBAC privilege'')
          SeverityHigh (ref ''rbac.authorization.k8s.io/v1'' ''Role'' (ro_namespace n) (ro_name n)) ''The role grants bind, escalate, impersonate, or pod exec privileges.''
          FixabilityHumanOnly ''approval_required'' 83 ''Remove escalation verbs and require explicit break-glass approval.''))"

definition bindingFindings :: "'s scan_env \<Rightarrow> gotime \<Rightarrow> binding_obj \<Rightarrow> finding list" where
  "bindingFindings env now n =
    (if isSystemNamespace (bi_namespace n) then []
     else
     provided (grantsClusterAdmin n)
       (newClusterFinding env now (''scan-rolebinding-clusteradmin-'' @ safeClusterID env [bi_namespace n, bi_name n]) ''kubeathrix-scan'' (''RoleBinding grants cluster-admin in namespace'')
          SeverityHigh (ref ''rbac.authorization.k8s.io/v1'' ''RoleBinding'' (bi_namespace n) (bi_name n)) ''A namespace RoleBinding references the cluster-admin ClusterRole.''
          FixabilityHumanOnly ''approval_required'' 85 ''Replace cluster-admin with a namespace-scoped least-privilege role.''))"

definition clusterRoleFindings :: "'s scan_env \<Rightarrow> gotime \<Rightarrow> role_obj \<Rightarrow> finding list" where
  "clusterRoleFindings env now n =
    (if isBuiltinClusterRole (ro_name n) then []
     else
     provided (hasWildcardRule (ro_rules n))
       (newClusterFinding env now (''scan-clusterrole-wildcard-'' @ safeClusterID env [ro_name n]) ''kubeathrix-scan'' (''ClusterRole grants wildcard permissions'')
          SeverityHigh (ref ''rbac.authorization.k8s.io/v1'' ''ClusterRole'' '''' (ro_name n)) ''The cluster role contains wildcard verbs, API groups, or resources.''
          FixabilityHumanOnly ''approval_required'' 84 ''Constrain the role to explicit least-privilege granted.'') @
     provided (roleAllowsSecretRead (ro_rules n))
       (newClusterFinding env now (''scan-clusterrole-secret-read-'' @ safeClusterID env [ro_name n]) ''kubeathrix-scan'' (''ClusterRole can read Secrets'')
          SeverityHigh (ref ''rbac.authorization.k8s.io/v1'' ''ClusterRole'' '''' (ro_name n)) ''The cluster role can get, list, or watch Secret resources across namespaces.''
          FixabilityHumanOnly ''approval_required'' 86 ''Narrow Secret access or bind it only to explicitly approved controllers.'') @
     provided (roleAllowsPrivilegeEscalation (ro_rules n))
       (newClusterFinding env now (''scan-clusterrole-rbac-escalation-'' @ safeClusterID env [ro_name n]) ''kubeathrix-scan'' (''ClusterRole can escalate RBAC privilege'')
          SeverityHigh (ref ''rbac.authorization.k8s.io/v1'' ''ClusterRole'' '''' (ro_name n)) ''The cluster role grants bind, escalate, impersonate, or pod exec privileges.''
          FixabilityHumanOnly ''approval_required'' 88 ''Remove escalation paths or move them behind break-glass controls.''))"

definition clusterBindingFindings :: "'s scan_env \<Rightarrow> gotime \<Rightarrow> binding_obj \<Rightarrow> finding list" where
  "clusterBindingFindings env now n =
    (provided (grantsClusterAdmin n \<and> \<not> isBuiltinClusterRoleBinding (bi_name n))
       (newClusterFinding env now (''scan-clusteradmin-binding-'' @ safeClusterID env [bi_name n]) ''kubeathrix-scan'' (''ClusterRoleBinding grants cluster-admin'')
          SeverityCritical (ref ''rbac.authorization.k8s.io/v1'' ''ClusterRoleBinding'' '''' (bi_name n)) ''A subject is bound to cluster-admin outside the expected Kubernetes system bindings.''
          FixabilityHumanOnly ''approval_required'' 95 ''Verify owner, expiry, and remove or narrow cluster-admin access.'') @
     provided (bindingHasUnauthenticatedSubject n)
       (newClusterFinding env now (''scan-clusterrolebinding-public-subject-'' @ safeClusterID env [bi_name n]) ''kubeathrix-scan'' (''ClusterRoleBinding targets unauthenticated subjects'')
          SeverityCritical (ref ''rbac.authorization.k8s.io/v1'' ''ClusterRoleBinding'' '''' (bi_name n)) ''The binding includes system:unauthenticated, system:anonymous, or system:authenticated as a subject.''
          FixabilityHumanOnly ''approval_required'' 92 ''Remove broad public subjects and bind explicit service accounts or groups only.''))"

definition byRiskThenID :: "finding \<Rightarrow> finding \<Rightarrow> bool" where
  "byRiskThenID f g \<longleftrightarrow> (if f_riskScore f = f_riskScore g then f_id f < f_id g else f_riskScore f > f_riskScore g)"

definition observedFindings :: "'s scan_env \<Rightarrow> gotime \<Rightarrow> 's cluster_lists \<Rightarrow> finding list" where
  "observedFindings env now l =
     concat (map (nodeFindings env now) (ls_nodes l)) @
     concat (map (namespaceFindings env now l) (ls_namespaces l)) @
     concat (map (serviceFindings env now) (ls_services l)) @
     concat (map (ingressFindings env now) (ls_ingresses l)) @
     concat (map (pvcFindings env now) (ls_pvcs l)) @
     concat (map (workloadFindings env now l) (workloadTargets (ls_deployments l) (ls_statefulSets l) (ls_daemonSets l))) @
     concat (map (podFindings env now) (ls_pods l)) @
     concat (map (policyFindings env now) (ls_networkPolicies l)) @
     concat (map (roleFindings env now) (ls_roles l)) @
     concat (map (bindingFindings env now) (ls_roleBindings l)) @
     concat (map (clusterRoleFindings env now) (ls_clusterRoles l)) @
     concat (map (clusterBindingFindings env now) (ls_clusterRoleBindings l))"

definition scanFindings :: "'s scan_env \<Rightarrow> gotime \<Rightarrow> 's cluster_lists \<Rightarrow> finding list" where
  "scanFindings env now l = sortSlice byRiskThenID (observedFindings env now l)"

subsection \<open>Inventory and controls\<close>

record cluster_inventory =
  iv_nodes :: int
  iv_readyNodes :: int
  iv_namespaces :: int
  iv_pods :: int
  iv_runningPods :: int
  iv_pendingPods :: int
  iv_deployments :: int
  iv_statefulSets :: int
  iv_daemonSets :: int
  iv_services :: int
  iv_ingresses :: int
  iv_jobs :: int
  iv_configMaps :: int
  iv_serviceAccounts :: int
  iv_roles :: int
  iv_roleBindings :: int
  iv_clusterRoles :: int
  iv_clusterRoleBindings :: int
  iv_networkPolicies :: int
  iv_resourceQuotas :: int
  iv_limitRanges :: int
  iv_persistentVolumeClaims :: int
  iv_podDisruptionBudgets :: int
  iv_horizontalPodAutoscalers :: int
  iv_events :: int

record scan_summary =
  sm_lastRunAt :: gotime
  sm_resourcesScanned :: int
  sm_policyChecks :: int
  sm_permissionChecks :: int
  sm_configurationChecks :: int
  sm_complianceControls :: int
  sm_passedControls :: int
  sm_failedControls :: int

record compliance_control =
  co_id :: string
  co_framework :: string
  co_title :: string
  co_status :: string
  co_severity :: severity
  co_evidence :: string

definition readyNodeCount :: "node_obj list \<Rightarrow> int" where
  "readyNodeCount nodes = int (length (filter (\<lambda>n. (''Ready'', ''True'') \<in> set (no_conditions n)) nodes))"

definition podPhaseCount :: "pod_obj list \<Rightarrow> string \<Rightarrow> int" where
  "podPhaseCount pods phase = int (length (filter (\<lambda>p. pd_phase p = phase) pods))"

definition inventoryOf :: "'s cluster_lists \<Rightarrow> cluster_inventory" where
  "inventoryOf l =
     \<lparr>iv_nodes = int (length (ls_nodes l)), iv_readyNodes = readyNodeCount (ls_nodes l), iv_namespaces = int (length (ls_namespaces l)),
      iv_pods = int (length (ls_pods l)), iv_runningPods = podPhaseCount (ls_pods l) ''Running'',
      iv_pendingPods = podPhaseCount (ls_pods l) ''Pending'', iv_deployments = int (length (ls_deployments l)),
      iv_statefulSets = int (length (ls_statefulSets l)), iv_daemonSets = int (length (ls_daemonSets l)),
      iv_services = int (length (ls_services l)), iv_ingresses = int (length (ls_ingresses l)), iv_jobs = int (length (ls_jobs l)),
      iv_configMaps = int (length (ls_configMaps l)), iv_serviceAccounts = int (length (ls_serviceAccounts l)),
      iv_roles = int (length (ls_roles l)), iv_roleBindings = int (length (ls_roleBindings l)),
      iv_clusterRoles = int (length (ls_clusterRoles l)), iv_clusterRoleBindings = int (length (ls_clusterRoleBindings l)),
      iv_networkPolicies = int (length (ls_networkPolicies l)), iv_resourceQuotas = int (length (ls_quotas l)),
      iv_limitRanges = int (length (ls_limitRanges l)), iv_persistentVolumeClaims = int (length (ls_pvcs l)),
      iv_podDisruptionBudgets = int (length (ls_pdbs l)), iv_horizontalPodAutoscalers = int (length (ls_hpas l)),
      iv_events = int (length (ls_events l))\<rparr>"

definition resourcesScanned :: "cluster_inventory \<Rightarrow> int" where
  "resourcesScanned v =
     iv_nodes v + iv_namespaces v + iv_pods v + iv_deployments v + iv_statefulSets v + iv_daemonSets v + iv_services v + iv_ingresses v +
     iv_jobs v + iv_configMaps v + iv_serviceAccounts v + iv_roles v + iv_roleBindings v + iv_clusterRoles v + iv_clusterRoleBindings v +
     iv_networkPolicies v + iv_resourceQuotas v + iv_limitRanges v + iv_persistentVolumeClaims v + iv_podDisruptionBudgets v +
     iv_horizontalPodAutoscalers v"

definition hasFinding :: "finding list \<Rightarrow> string \<Rightarrow> bool" where
  "hasFinding findings prefix \<longleftrightarrow> list_ex (\<lambda>f. hasPrefix (f_id f) prefix) findings"

definition control :: "string \<Rightarrow> string \<Rightarrow> string \<Rightarrow> severity \<Rightarrow> bool \<Rightarrow> string \<Rightarrow> compliance_control" where
  "control i framework title severity failed details =
     \<lparr>co_id = i, co_framework = framework, co_title = title, co_status = (if failed then ''fail'' else ''pass''), co_severity = severity,
      co_evidence = details\<rparr>"

definition complianceControls :: "cluster_inventory \<Rightarrow> finding list \<Rightarrow> compliance_control list" where
  "complianceControls v findings =
     [control ''KA-K8S-001'' ''Kubernetes baseline'' ''Workloads define CPU and memory requests and limits'' SeverityMedium
        (hasFinding findings ''scan-workload-resources-'')
        ''Resource requirements bound scheduler and noisy-neighbor risk.'',
      control ''KA-K8S-002'' ''Kubernetes baseline'' ''Namespaces use ResourceQuota and LimitRange guardrails'' SeverityMedium
        (hasFinding findings ''scan-namespace-governance-'')
        (itoa (iv_resourceQuotas v) @ '' quotas and '' @ itoa (iv_limitRanges v) @ '' limit ranges observed.''),
      control ''KA-K8S-003'' ''NSA/CISA Kubernetes'' ''Namespaces use NetworkPolicy isolation'' SeverityMedium
        (hasFinding findings ''scan-networkpolicy-'')
        (itoa (iv_networkPolicies v) @ '' network policies observed.''),
      control ''KA-K8S-004'' ''Pod Security Standards'' ''Privileged container behavior is absent'' SeverityHigh
        (hasFinding findings ''scan-privileged-pod-'')
        ''Privileged and privilege-escalating containers should be removed or explicitly approved.'',
      control ''KA-K8S-005'' ''RBAC least privilege'' ''RBAC avoids wildcard, secret-read, escalation, and cluster-admin grants'' SeverityHigh
        (hasFinding findings ''scan-role-wildcard-'' \<or>
         hasFinding findings ''scan-clusterrole-wildcard-'' \<or>
         hasFinding findings ''scan-role-secret-read-'' \<or>
         hasFinding findings ''scan-clusterrole-secret-read-'' \<or>
         hasFinding findings ''scan-role-rbac-escalation-'' \<or>
         hasFinding findings ''scan-clusterrole-rbac-escalation-'' \<or>
         hasFinding findings ''scan-clusteradmin-binding-'' \<or>
         hasFinding findings ''scan-rolebinding-clusteradmin-'')
        ''Broad permissions increase blast radius after compromise.'',
      control ''KA-K8S-006'' ''Reliability baseline'' ''Replicated workloads have disruption protection'' SeverityLow
        (hasFinding findings ''scan-workload-pdb-'')
        (itoa (iv_podDisruptionBudgets v) @ '' PodDisruptionBudgets observed.''),
      control ''KA-K8S-007'' ''Pod Security Standards'' ''Namespaces enforce baseline or restricted Pod Security'' SeverityMedium
        (hasFinding findings ''scan-namespace-pod-security-'')
        ''Pod Security labels define namespace-level admission posture.'',
      control ''KA-K8S-008'' ''Workload hardening'' ''Workloads avoid host access and elevated capabilities'' SeverityHigh
        (hasFinding findings ''scan-workload-host-access-'' \<or>
         hasFinding findings ''scan-workload-capabilities-'' \<or>
         hasFinding findings ''scan-workload-runtime-hardening-'')
        ''Restricted runtime settings reduce container breakout blast radius.'',
      control ''KA-K8S-009'' ''Supply chain baseline'' ''Workloads avoid mutable image tags'' SeverityMedium
        (hasFinding findings ''scan-workload-image-mutability-'')
        ''Mutable image references make deployed code harder to prove and reproduce.'',
      control ''KA-K8S-010'' ''Traffic exposure'' ''Ingress and Service exposure are explicitly controlled'' SeverityHigh
        (hasFinding findings ''scan-public-service-'' \<or>
         hasFinding findings ''scan-nodeport-service-'' \<or>
         hasFinding findings ''scan-externalip-service-'' \<or>
         hasFinding findings ''scan-ingress-tls-'' \<or>
         hasFinding findings ''scan-ingress-wildcard-'')
        ''External traffic paths should be reviewed and encrypted.'',
      control ''KA-K8S-011'' ''Cluster health'' ''Nodes, pods, and PVCs are ready'' SeverityMedium
        (hasFinding findings ''scan-node-not-ready-'' \<or>
         hasFinding findings ''scan-node-pressure-'' \<or>
         hasFinding findings ''scan-pod-failed-'' \<or>
         hasFinding findings ''scan-pod-pending-'' \<or>
         hasFinding findings ''scan-pvc-not-bound-'')
        ''Readiness and binding failures reduce resilience.'']"

subsection \<open>Snapshot\<close>

text \<open>The listings of the typed client; each fails or yields the objects.\<close>

record ('w, 's) kube_client =
  kc_nodes :: "('w, node_obj list) call"
  kc_namespaces :: "('w, namespace_view list) call"
  kc_pods :: "('w, pod_obj list) call"
  kc_services :: "('w, service_obj list) call"
  kc_serviceAccounts :: "('w, string list) call"
  kc_configMaps :: "('w, string list) call"
  kc_quotas :: "('w, string list) call"
  kc_limitRanges :: "('w, string list) call"
  kc_pvcs :: "('w, pvc_obj list) call"
  kc_events :: "('w, string list) call"
  kc_deployments :: "('w, workload_obj list) call"
  kc_statefulSets :: "('w, workload_obj list) call"
  kc_daemonSets :: "('w, workload_obj list) call"
  kc_jobs :: "('w, string list) call"
  kc_ingresses :: "('w, ingress_obj list) call"
  kc_networkPolicies :: "('w, policy_obj list) call"
  kc_pdbs :: "('w, 's pdb_view list) call"
  kc_hpas :: "('w, string list) call"
  kc_roles :: "('w, role_obj list) call"
  kc_roleBindings :: "('w, binding_obj list) call"
  kc_clusterRoles :: "('w, role_obj list) call"
  kc_clusterRoleBindings :: "('w, binding_obj list) call"

definition listing :: "string \<Rightarrow> ('w, 'a list) call \<Rightarrow> ('a list \<Rightarrow> ('w, 'b) call) \<Rightarrow> ('w, 'b) call" where
  "listing what f k w =
     (case f w of (Inl e, w1) \<Rightarrow> (Inl (''list '' @ what @ '': '' @ e), w1) | (Inr xs, w1) \<Rightarrow> k xs w1)"

definition listCluster :: "('w, 's) kube_client \<Rightarrow> ('w, 's cluster_lists) call" where
  "listCluster c =
     listing ''nodes'' (kc_nodes c) (\<lambda>nodes.
     listing ''namespaces'' (kc_namespaces c) (\<lambda>namespaces.
     listing ''pods'' (kc_pods c) (\<lambda>pods.
     listing ''services'' (kc_services c) (\<lambda>services.
     listing ''serviceaccounts'' (kc_serviceAccounts c) (\<lambda>serviceAccounts.
     listing ''configmaps'' (kc_configMaps c) (\<lambda>configMaps.
     listing ''resourcequotas'' (kc_quotas c) (\<lambda>quotas.
     listing ''limitranges'' (kc_limitRanges c) (\<lambda>limitRanges.
     listing ''persistentvolumeclaims'' (kc_pvcs c) (\<lambda>pvcs.
     listing ''events'' (kc_events c) (\<lambda>events.
     listing ''deployments'' (kc_deployments c) (\<lambda>deployments.
     listing ''statefulsets'' (kc_statefulSets c) (\<lambda>statefulSets.
     listing ''daemonsets'' (kc_daemonSets c) (\<lambda>daemonSets.
     listing ''jobs'' (kc_jobs c) (\<lambda>jobs.
     listing ''ingresses'' (kc_ingresses c) (\<lambda>ingresses.
     listing ''networkpolicies'' (kc_networkPolicies c) (\<lambda>networkPolicies.
     listing ''poddisruptionbudgets'' (kc_pdbs c) (\<lambda>pdbs.
     listing ''horizontalpodautoscalers'' (kc_hpas c) (\<lambda>hpas.
     listing ''roles'' (kc_roles c) (\<lambda>roles.
     listing ''rolebindings'' (kc_roleBindings c) (\<lambda>roleBindings.
     listing ''clusterroles'' (kc_clusterRoles c) (\<lambda>clusterRoles.
     listing ''clusterrolebindings'' (kc_clusterRoleBindings c) (\<lambda>clusterRoleBindings.
       \<lambda>w. (Inr \<lparr>ls_nodes = nodes, ls_namespaces = namespaces, ls_pods = pods, ls_services = services, 
         ls_serviceAccounts = serviceAccounts, ls_configMaps = configMaps, ls_quotas = quotas, ls_limitRanges = limitRanges, ls_pvcs = pvcs, 
         ls_events = events, ls_deployments = deployments, ls_statefulSets = statefulSets, ls_daemonSets = daemonSets, ls_jobs = jobs, 
         ls_ingresses = ingresses, ls_networkPolicies = networkPolicies, ls_pdbs = pdbs, ls_hpas = hpas, 
         ls_roles = roles, ls_roleBindings = roleBindings, ls_clusterRoles = clusterRoles, ls_clusterRoleBindings = clusterRoleBindings\<rparr>, w)))))))))))))))))))))))"

record scanned_cluster =
  sd_inventory :: cluster_inventory
  sd_findings :: "finding list"
  sd_scan :: scan_summary
  sd_compliance :: "compliance_control list"
  sd_experiments :: "chaos_experiment list"

definition countControls :: "compliance_control list \<Rightarrow> string \<Rightarrow> int" where
  "countControls controls status = int (length (filter (\<lambda>c. co_status c = status) controls))"

text \<open>\<open>experiments\<close> is \<open>core.DefaultChaosExperiments()\<close>.\<close>

definition snapshotOf :: "'s scan_env \<Rightarrow> chaos_experiment list \<Rightarrow> gotime \<Rightarrow> 's cluster_lists \<Rightarrow> scanned_cluster" where
  "snapshotOf env experiments now l =
     (let v = inventoryOf l; findings = scanFindings env now l; compliance = complianceControls v findings in
      \<lparr>sd_inventory = v, sd_findings = findings,
       sd_scan =
         \<lparr>sm_lastRunAt = now, sm_resourcesScanned = resourcesScanned v,
          sm_policyChecks = iv_namespaces v + iv_networkPolicies v + iv_resourceQuotas v + iv_limitRanges v + iv_podDisruptionBudgets v +
            iv_ingresses v,
          sm_permissionChecks = iv_roles v + iv_roleBindings v + iv_clusterRoles v + iv_clusterRoleBindings v,
          sm_configurationChecks = iv_nodes v + iv_pods v + iv_deployments v + iv_statefulSets v + iv_daemonSets v + iv_services v +
            iv_persistentVolumeClaims v,
          sm_complianceControls = int (length compliance), sm_passedControls = countControls compliance ''pass'',
          sm_failedControls = countControls compliance ''fail''\<rparr>,
       sd_compliance = compliance, sd_experiments = experiments\<rparr>)"

definition Snapshot ::
  "'s scan_env \<Rightarrow> ('w, 's) kube_client \<Rightarrow> chaos_experiment list \<Rightarrow> gotime \<Rightarrow> ('w, scanned_cluster) call" where
  "Snapshot env c experiments now w =
     (case listCluster c w of
        (Inl e, w1) \<Rightarrow> (Inl e, w1)
      | (Inr l, w1) \<Rightarrow> (Inr (snapshotOf env experiments now l), w1))"

text \<open>What the server and the agent read of it.\<close>

definition servedSnapshot :: "scanned_cluster \<Rightarrow> cluster_snapshot" where
  "servedSnapshot d =
     \<lparr>sn_findings = sd_findings d, sn_namespaces = iv_namespaces (sd_inventory d), sn_lastRunAt = sm_lastRunAt (sd_scan d),
      sn_experiments = sd_experiments d\<rparr>"

end
