(* ===== verification/ScanProperties.thy ===== *)
theory ScanProperties
  imports ClusterScan
begin

text \<open>
  What the posture scan reports: the compliance controls say exactly what the checks say, with one
  exception; findings are about listed objects outside the system namespaces and are scored by their
  severity; identifiers collide; and what the checks overlook.
\<close>

subsection \<open>Which findings are present\<close>

lemma hasPrefix_letters [simp]:
  "hasPrefix s []"
  "hasPrefix (c # s) (d # p) \<longleftrightarrow> c = d \<and> hasPrefix s p"
  by (auto simp: hasPrefix_def)

lemma has_simps:
  "hasFinding [] p = False"
  "hasFinding (xs @ ys) p \<longleftrightarrow> hasFinding xs p \<or> hasFinding ys p"
  "hasFinding (provided c f) p \<longleftrightarrow> c \<and> hasPrefix (f_id f) p"
  "hasFinding (if b then xs else ys) p \<longleftrightarrow> b \<and> hasFinding xs p \<or> \<not> b \<and> hasFinding ys p"
  by (auto simp: hasFinding_def provided_def)

lemma has_concat: "hasFinding (concat (map g xs)) p \<longleftrightarrow> (\<exists>x\<in>set xs. hasFinding (g x) p)"
  by (auto simp: hasFinding_def list_ex_iff)

lemma has_scan: "hasFinding (scanFindings env now l) p = hasFinding (observedFindings env now l) p"
  by (simp add: hasFinding_def list_ex_iff scanFindings_def)

lemma new_id [simp]: "f_id (newClusterFinding env now i source title sev r details fix state points rec) = i"
  by (simp add: newClusterFinding_def)

lemmas group_defs = nodeFindings_def namespaceFindings_def serviceFindings_def ingressFindings_def pvcFindings_def workloadFindings_def
  podFindings_def policyFindings_def roleFindings_def bindingFindings_def clusterRoleFindings_def clusterBindingFindings_def

lemmas has_finding = has_scan observedFindings_def has_simps has_concat group_defs

abbreviation has :: "'s scan_env \<Rightarrow> gotime \<Rightarrow> 's cluster_lists \<Rightarrow> string \<Rightarrow> bool" where
  "has env now l p \<equiv> hasFinding (scanFindings env now l) p"

definition workloadsWhere :: "'s cluster_lists \<Rightarrow> (workload_target \<Rightarrow> bool) \<Rightarrow> bool" where
  "workloadsWhere l P \<longleftrightarrow>
     list_ex (\<lambda>w. \<not> isSystemNamespace (wt_namespace w) \<and> P w) (workloadTargets (ls_deployments l) (ls_statefulSets l) (ls_daemonSets l))"

definition namespacesWhere :: "'s cluster_lists \<Rightarrow> (namespace_view \<Rightarrow> bool) \<Rightarrow> bool" where
  "namespacesWhere l P \<longleftrightarrow> list_ex (\<lambda>n. \<not> isSystemNamespace (ns_name n) \<and> P n) (ls_namespaces l)"

definition podsWhere :: "'s cluster_lists \<Rightarrow> (pod_obj \<Rightarrow> bool) \<Rightarrow> bool" where
  "podsWhere l P \<longleftrightarrow> list_ex (\<lambda>n. \<not> isSystemNamespace (pd_namespace n) \<and> P n) (ls_pods l)"

definition policiesWhere :: "'s cluster_lists \<Rightarrow> (policy_obj \<Rightarrow> bool) \<Rightarrow> bool" where
  "policiesWhere l P \<longleftrightarrow> list_ex (\<lambda>n. \<not> isSystemNamespace (np_namespace n) \<and> P n) (ls_networkPolicies l)"

definition servicesWhere :: "'s cluster_lists \<Rightarrow> (service_obj \<Rightarrow> bool) \<Rightarrow> bool" where
  "servicesWhere l P \<longleftrightarrow> list_ex (\<lambda>n. \<not> isSystemNamespace (se_namespace n) \<and> P n) (ls_services l)"

definition ingressesWhere :: "'s cluster_lists \<Rightarrow> (ingress_obj \<Rightarrow> bool) \<Rightarrow> bool" where
  "ingressesWhere l P \<longleftrightarrow> list_ex (\<lambda>n. \<not> isSystemNamespace (ig_namespace n) \<and> P n) (ls_ingresses l)"

definition pvcsWhere :: "'s cluster_lists \<Rightarrow> (pvc_obj \<Rightarrow> bool) \<Rightarrow> bool" where
  "pvcsWhere l P \<longleftrightarrow> list_ex (\<lambda>n. \<not> isSystemNamespace (pv_namespace n) \<and> P n) (ls_pvcs l)"

definition rolesWhere :: "'s cluster_lists \<Rightarrow> (policy_rule list \<Rightarrow> bool) \<Rightarrow> bool" where
  "rolesWhere l P \<longleftrightarrow>
     list_ex (\<lambda>n. \<not> isSystemNamespace (ro_namespace n) \<and> P (ro_rules n)) (ls_roles l) \<or>
     list_ex (\<lambda>n. \<not> isBuiltinClusterRole (ro_name n) \<and> P (ro_rules n)) (ls_clusterRoles l)"

definition clusterAdminGranted :: "'s cluster_lists \<Rightarrow> bool" where
  "clusterAdminGranted l \<longleftrightarrow>
     list_ex (\<lambda>b. \<not> isSystemNamespace (bi_namespace b) \<and> grantsClusterAdmin b) (ls_roleBindings l) \<or>
     list_ex (\<lambda>b. grantsClusterAdmin b \<and> \<not> isBuiltinClusterRoleBinding (bi_name b)) (ls_clusterRoleBindings l)"

lemmas where_defs = workloadsWhere_def namespacesWhere_def podsWhere_def policiesWhere_def servicesWhere_def ingressesWhere_def pvcsWhere_def
  rolesWhere_def clusterAdminGranted_def list_ex_iff

lemma has_workload:
  "has env now l ''scan-workload-resources-'' = workloadsWhere l (\<lambda>w. podSpecMissingResources (wt_podSpec w))"
  "has env now l ''scan-workload-pdb-'' = workloadsWhere l (\<lambda>w. wt_replicas w > 1 \<and> \<not> workloadHasPDB env w (ls_pdbs l))"
  "has env now l ''scan-workload-host-access-'' = workloadsWhere l (\<lambda>w. podSpecAllowsHostAccess (wt_podSpec w))"
  "has env now l ''scan-workload-capabilities-'' = workloadsWhere l (\<lambda>w. podSpecHasElevatedCapabilities (wt_podSpec w))"
  "has env now l ''scan-workload-runtime-hardening-'' = workloadsWhere l (\<lambda>w. podSpecMissingRuntimeHardening (wt_podSpec w))"
  "has env now l ''scan-workload-image-mutability-'' = workloadsWhere l (\<lambda>w. podSpecUsesMutableImages (wt_podSpec w))"
  by (simp_all add: has_finding where_defs)

lemma has_namespace:
  "has env now l ''scan-namespace-governance-'' = namespacesWhere l (\<lambda>n. \<not> (ns_name n \<in> set (ls_quotas l) \<and> ns_name n \<in> set (ls_limitRanges l)))"
  "has env now l ''scan-namespace-pod-security-'' = namespacesWhere l missingPodSecurityLabel"
  "has env now l ''scan-networkpolicy-'' \<longleftrightarrow>
     namespacesWhere l (\<lambda>n. ns_name n \<notin> np_namespace ` set (ls_networkPolicies l)) \<or>
     policiesWhere l (\<lambda>p. networkPolicyHasBroadIngress p \<or> networkPolicyHasBroadEgress p)"
proof -
  have "privilegedPodSecurityLabel n \<Longrightarrow> missingPodSecurityLabel n" for n
    by (simp add: privilegedPodSecurityLabel_def missingPodSecurityLabel_def)
  then show "has env now l ''scan-namespace-pod-security-'' = namespacesWhere l missingPodSecurityLabel"
    by (simp add: has_finding where_defs) blast
qed (auto simp: has_finding where_defs)

lemma has_rbac:
  "has env now l ''scan-role-wildcard-'' \<or> has env now l ''scan-clusterrole-wildcard-'' \<longleftrightarrow> rolesWhere l hasWildcardRule"
  "has env now l ''scan-role-secret-read-'' \<or> has env now l ''scan-clusterrole-secret-read-'' \<longleftrightarrow> rolesWhere l roleAllowsSecretRead"
  "has env now l ''scan-role-rbac-escalation-'' \<or> has env now l ''scan-clusterrole-rbac-escalation-'' \<longleftrightarrow>
     rolesWhere l roleAllowsPrivilegeEscalation"
  "has env now l ''scan-clusteradmin-binding-'' \<or> has env now l ''scan-rolebinding-clusteradmin-'' \<longleftrightarrow> clusterAdminGranted l"
  by (auto simp: has_finding where_defs)

lemma has_exposure:
  "has env now l ''scan-public-service-'' = servicesWhere l (\<lambda>n. se_type n = ''LoadBalancer'')"
  "has env now l ''scan-nodeport-service-'' = servicesWhere l (\<lambda>n. se_type n = ''NodePort'')"
  "has env now l ''scan-externalip-service-'' = servicesWhere l (\<lambda>n. se_externalIPs n \<noteq> [])"
  "has env now l ''scan-ingress-tls-'' = ingressesWhere l (\<lambda>n. ig_tls n = [])"
  "has env now l ''scan-ingress-wildcard-'' = ingressesWhere l ingressHasWildcardHost"
  by (simp_all add: has_finding where_defs)

lemma has_health:
  "has env now l ''scan-node-not-ready-'' = list_ex (\<lambda>n. \<not> nodeReady n) (ls_nodes l)"
  "has env now l ''scan-node-pressure-'' = list_ex nodeUnderPressure (ls_nodes l)"
  "has env now l ''scan-pod-failed-'' = podsWhere l (\<lambda>n. pd_phase n = ''Failed'')"
  "has env now l ''scan-pod-pending-'' = podsWhere l (\<lambda>n. pd_phase n = ''Pending'')"
  "has env now l ''scan-pvc-not-bound-'' = pvcsWhere l (\<lambda>n. pv_phase n \<noteq> ''Bound'')"
  "has env now l ''scan-privileged-pod-'' = podsWhere l podHasPrivilegedContainer"
  by (simp_all add: has_finding where_defs)

definition verdict :: "bool \<Rightarrow> string" where
  "verdict failed = (if failed then ''fail'' else ''pass'')"

text \<open>
  C40. The compliance controls of a snapshot: each fails exactly when one of the inspected objects
  violates what its title says.  The exception is KA-K8S-003, whose identifier prefix also matches
  the findings about policies that are too broad: it fails although every namespace has a policy.
\<close>
theorem controls_exact:
  "map (\<lambda>c. (co_id c, co_status c)) (sd_compliance (snapshotOf env experiments now l)) =
    [(''KA-K8S-001'', verdict (workloadsWhere l (\<lambda>w. podSpecMissingResources (wt_podSpec w)))),
     (''KA-K8S-002'', verdict (namespacesWhere l (\<lambda>n. \<not> (ns_name n \<in> set (ls_quotas l) \<and> ns_name n \<in> set (ls_limitRanges l))))),
     (''KA-K8S-003'', verdict (namespacesWhere l (\<lambda>n. ns_name n \<notin> np_namespace ` set (ls_networkPolicies l)) \<or>
        policiesWhere l (\<lambda>p. networkPolicyHasBroadIngress p \<or> networkPolicyHasBroadEgress p))),
     (''KA-K8S-004'', verdict (podsWhere l podHasPrivilegedContainer)),
     (''KA-K8S-005'', verdict (rolesWhere l hasWildcardRule \<or> rolesWhere l roleAllowsSecretRead \<or> rolesWhere l roleAllowsPrivilegeEscalation \<or>
        clusterAdminGranted l)),
     (''KA-K8S-006'', verdict (workloadsWhere l (\<lambda>w. wt_replicas w > 1 \<and> \<not> workloadHasPDB env w (ls_pdbs l)))),
     (''KA-K8S-007'', verdict (namespacesWhere l missingPodSecurityLabel)),
     (''KA-K8S-008'', verdict (workloadsWhere l (\<lambda>w. podSpecAllowsHostAccess (wt_podSpec w)) \<or>
        workloadsWhere l (\<lambda>w. podSpecHasElevatedCapabilities (wt_podSpec w)) \<or>
        workloadsWhere l (\<lambda>w. podSpecMissingRuntimeHardening (wt_podSpec w)))),
     (''KA-K8S-009'', verdict (workloadsWhere l (\<lambda>w. podSpecUsesMutableImages (wt_podSpec w)))),
     (''KA-K8S-010'', verdict (servicesWhere l (\<lambda>n. se_type n = ''LoadBalancer'') \<or> servicesWhere l (\<lambda>n. se_type n = ''NodePort'') \<or>
        servicesWhere l (\<lambda>n. se_externalIPs n \<noteq> []) \<or> ingressesWhere l (\<lambda>n. ig_tls n = []) \<or> ingressesWhere l ingressHasWildcardHost)),
     (''KA-K8S-011'', verdict (list_ex (\<lambda>n. \<not> nodeReady n) (ls_nodes l) \<or> list_ex nodeUnderPressure (ls_nodes l) \<or>
        podsWhere l (\<lambda>n. pd_phase n = ''Failed'') \<or> podsWhere l (\<lambda>n. pd_phase n = ''Pending'') \<or> pvcsWhere l (\<lambda>n. pv_phase n \<noteq> ''Bound'')))]"
proof -
  have rbac: "has env now l ''scan-role-wildcard-'' \<or> has env now l ''scan-clusterrole-wildcard-'' \<or>
      has env now l ''scan-role-secret-read-'' \<or> has env now l ''scan-clusterrole-secret-read-'' \<or>
      has env now l ''scan-role-rbac-escalation-'' \<or> has env now l ''scan-clusterrole-rbac-escalation-'' \<or>
      has env now l ''scan-clusteradmin-binding-'' \<or> has env now l ''scan-rolebinding-clusteradmin-'' \<longleftrightarrow>
      rolesWhere l hasWildcardRule \<or> rolesWhere l roleAllowsSecretRead \<or> rolesWhere l roleAllowsPrivilegeEscalation \<or> clusterAdminGranted l"
    by (simp only: has_rbac [of env now l, symmetric]) blast
  show ?thesis
    unfolding snapshotOf_def complianceControls_def Let_def scanned_cluster.simps rbac has_workload has_namespace has_exposure has_health
    by (simp add: control_def verdict_def)
qed

subsection \<open>What a finding is about\<close>

definition listedRefs :: "'s cluster_lists \<Rightarrow> resource_ref list" where
  "listedRefs l =
     map (\<lambda>n. ref ''v1'' ''Node'' '''' (no_name n)) (ls_nodes l) @
     map (\<lambda>n. ref ''v1'' ''Namespace'' '''' (ns_name n)) (ls_namespaces l) @
     map (\<lambda>n. ref ''v1'' ''Service'' (se_namespace n) (se_name n)) (ls_services l) @
     map (\<lambda>n. ref ''networking.k8s.io/v1'' ''Ingress'' (ig_namespace n) (ig_name n)) (ls_ingresses l) @
     map (\<lambda>n. ref ''v1'' ''PersistentVolumeClaim'' (pv_namespace n) (pv_name n)) (ls_pvcs l) @
     map Ref (workloadTargets (ls_deployments l) (ls_statefulSets l) (ls_daemonSets l)) @
     map (\<lambda>n. ref ''v1'' ''Pod'' (pd_namespace n) (pd_name n)) (ls_pods l) @
     map (\<lambda>n. ref ''networking.k8s.io/v1'' ''NetworkPolicy'' (np_namespace n) (np_name n)) (ls_networkPolicies l) @
     map (\<lambda>n. ref ''rbac.authorization.k8s.io/v1'' ''Role'' (ro_namespace n) (ro_name n)) (ls_roles l) @
     map (\<lambda>n. ref ''rbac.authorization.k8s.io/v1'' ''RoleBinding'' (bi_namespace n) (bi_name n)) (ls_roleBindings l) @
     map (\<lambda>n. ref ''rbac.authorization.k8s.io/v1'' ''ClusterRole'' '''' (ro_name n)) (ls_clusterRoles l) @
     map (\<lambda>n. ref ''rbac.authorization.k8s.io/v1'' ''ClusterRoleBinding'' '''' (bi_name n)) (ls_clusterRoleBindings l)"

text \<open>A namespace that the scan reports on: the namespace of the resource, or the namespace itself.\<close>

definition outsideSystem :: "resource_ref \<Rightarrow> bool" where
  "outsideSystem r \<longleftrightarrow>
     (rr_namespace r = '''' \<or> \<not> isSystemNamespace (rr_namespace r)) \<and> (rr_kind r \<noteq> ''Namespace'' \<or> \<not> isSystemNamespace (rr_name r))"

definition scoreRange :: "severity \<Rightarrow> int \<Rightarrow> bool" where
  "scoreRange sev points \<longleftrightarrow>
     (case sev of
        SeverityCritical \<Rightarrow> 92 \<le> points \<and> points \<le> 95
      | SeverityHigh \<Rightarrow> 78 \<le> points \<and> points \<le> 88
      | SeverityMedium \<Rightarrow> 57 \<le> points \<and> points \<le> 70
      | SeverityLow \<Rightarrow> 40 \<le> points \<and> points \<le> 49
      | _ \<Rightarrow> False)"

definition grounded :: "resource_ref \<Rightarrow> finding \<Rightarrow> bool" where
  "grounded r f \<longleftrightarrow>
     f_resources f = [r] \<and> outsideSystem r \<and> f_status f = FindingOpen \<and> scoreRange (f_severity f) (f_riskScore f) \<and> length (f_evidence f) = 1"

lemma grounded_new:
  "grounded r (newClusterFinding env now i source title sev r' details fix state points rec) \<longleftrightarrow> r' = r \<and> outsideSystem r \<and> scoreRange sev points"
  by (auto simp: grounded_def newClusterFinding_def)

lemma in_provided: "f \<in> set (provided c g) \<longleftrightarrow> c \<and> f = g"
  by (auto simp: provided_def)

lemmas grounding = in_provided grounded_new outsideSystem_def scoreRange_def ref_def Ref_def

lemma grounded_cluster:
  "f \<in> set (nodeFindings env now n) \<Longrightarrow> grounded (ref ''v1'' ''Node'' '''' (no_name n)) f"
  "f \<in> set (namespaceFindings env now l m) \<Longrightarrow> grounded (ref ''v1'' ''Namespace'' '''' (ns_name m)) f"
  "f \<in> set (clusterRoleFindings env now ro) \<Longrightarrow> grounded (ref ''rbac.authorization.k8s.io/v1'' ''ClusterRole'' '''' (ro_name ro)) f"
  "f \<in> set (clusterBindingFindings env now b) \<Longrightarrow> grounded (ref ''rbac.authorization.k8s.io/v1'' ''ClusterRoleBinding'' '''' (bi_name b)) f"
  by (auto simp: group_defs grounding split: if_splits)

lemma grounded_network:
  "f \<in> set (serviceFindings env now s) \<Longrightarrow> grounded (ref ''v1'' ''Service'' (se_namespace s) (se_name s)) f"
  "f \<in> set (ingressFindings env now g) \<Longrightarrow> grounded (ref ''networking.k8s.io/v1'' ''Ingress'' (ig_namespace g) (ig_name g)) f"
  "f \<in> set (policyFindings env now p) \<Longrightarrow> grounded (ref ''networking.k8s.io/v1'' ''NetworkPolicy'' (np_namespace p) (np_name p)) f"
  by (auto simp: group_defs grounding split: if_splits)

lemma grounded_workload:
  "f \<in> set (workloadFindings env now l w) \<Longrightarrow> wt_kind w \<noteq> ''Namespace'' \<Longrightarrow> grounded (Ref w) f"
  "f \<in> set (podFindings env now p) \<Longrightarrow> grounded (ref ''v1'' ''Pod'' (pd_namespace p) (pd_name p)) f"
  "f \<in> set (pvcFindings env now c) \<Longrightarrow> grounded (ref ''v1'' ''PersistentVolumeClaim'' (pv_namespace c) (pv_name c)) f"
  by (auto simp: group_defs grounding split: if_splits)

lemma grounded_rbac:
  "f \<in> set (roleFindings env now ro) \<Longrightarrow> grounded (ref ''rbac.authorization.k8s.io/v1'' ''Role'' (ro_namespace ro) (ro_name ro)) f"
  "f \<in> set (bindingFindings env now b) \<Longrightarrow> grounded (ref ''rbac.authorization.k8s.io/v1'' ''RoleBinding'' (bi_namespace b) (bi_name b)) f"
  by (auto simp: group_defs grounding split: if_splits)

lemma workload_kind: "w \<in> set (workloadTargets ds ss dd) \<Longrightarrow> wt_kind w \<noteq> ''Namespace''"
  by (auto simp: workloadTargets_def targetOf_def)

definition allGrounded :: "'s cluster_lists \<Rightarrow> finding list \<Rightarrow> bool" where
  "allGrounded l fs \<longleftrightarrow> (\<forall>f\<in>set fs. \<exists>r\<in>set (listedRefs l). grounded r f)"

lemma allGrounded_append: "allGrounded l (xs @ ys) \<longleftrightarrow> allGrounded l xs \<and> allGrounded l ys"
  by (auto simp: allGrounded_def)

lemma allGrounded_group:
  assumes "\<And>x. x \<in> set xs \<Longrightarrow> h x \<in> set (listedRefs l)" "\<And>x f. x \<in> set xs \<Longrightarrow> f \<in> set (g x) \<Longrightarrow> grounded (h x) f"
  shows "allGrounded l (concat (map g xs))"
  using assms unfolding allGrounded_def by fastforce

lemma grounded_1: "allGrounded l (concat (map (nodeFindings env now) (ls_nodes l)))"
  by (rule allGrounded_group [where h = "\<lambda>n. ref ''v1'' ''Node'' '''' (no_name n)"]) (auto simp: listedRefs_def intro: grounded_cluster(1) dest: workload_kind)

lemma grounded_2: "allGrounded l (concat (map (namespaceFindings env now l) (ls_namespaces l)))"
  by (rule allGrounded_group [where h = "\<lambda>n. ref ''v1'' ''Namespace'' '''' (ns_name n)"]) (auto simp: listedRefs_def intro: grounded_cluster(2) dest: workload_kind)

lemma grounded_3: "allGrounded l (concat (map (serviceFindings env now) (ls_services l)))"
  by (rule allGrounded_group [where h = "\<lambda>n. ref ''v1'' ''Service'' (se_namespace n) (se_name n)"]) (auto simp: listedRefs_def intro: grounded_network(1) dest: workload_kind)

lemma grounded_4: "allGrounded l (concat (map (ingressFindings env now) (ls_ingresses l)))"
  by (rule allGrounded_group [where h = "\<lambda>n. ref ''networking.k8s.io/v1'' ''Ingress'' (ig_namespace n) (ig_name n)"]) (auto simp: listedRefs_def intro: grounded_network(2) dest: workload_kind)

lemma grounded_5: "allGrounded l (concat (map (pvcFindings env now) (ls_pvcs l)))"
  by (rule allGrounded_group [where h = "\<lambda>n. ref ''v1'' ''PersistentVolumeClaim'' (pv_namespace n) (pv_name n)"]) (auto simp: listedRefs_def intro: grounded_workload(3) dest: workload_kind)

lemma grounded_6: "allGrounded l (concat (map (workloadFindings env now l) (workloadTargets (ls_deployments l) (ls_statefulSets l) (ls_daemonSets l))))"
  by (rule allGrounded_group [where h = "Ref"]) (auto simp: listedRefs_def intro: grounded_workload(1) dest: workload_kind)

lemma grounded_7: "allGrounded l (concat (map (podFindings env now) (ls_pods l)))"
  by (rule allGrounded_group [where h = "\<lambda>n. ref ''v1'' ''Pod'' (pd_namespace n) (pd_name n)"]) (auto simp: listedRefs_def intro: grounded_workload(2) dest: workload_kind)

lemma grounded_8: "allGrounded l (concat (map (policyFindings env now) (ls_networkPolicies l)))"
  by (rule allGrounded_group [where h = "\<lambda>n. ref ''networking.k8s.io/v1'' ''NetworkPolicy'' (np_namespace n) (np_name n)"]) (auto simp: listedRefs_def intro: grounded_network(3) dest: workload_kind)

lemma grounded_9: "allGrounded l (concat (map (roleFindings env now) (ls_roles l)))"
  by (rule allGrounded_group [where h = "\<lambda>n. ref ''rbac.authorization.k8s.io/v1'' ''Role'' (ro_namespace n) (ro_name n)"]) (auto simp: listedRefs_def intro: grounded_rbac(1) dest: workload_kind)

lemma grounded_10: "allGrounded l (concat (map (bindingFindings env now) (ls_roleBindings l)))"
  by (rule allGrounded_group [where h = "\<lambda>n. ref ''rbac.authorization.k8s.io/v1'' ''RoleBinding'' (bi_namespace n) (bi_name n)"]) (auto simp: listedRefs_def intro: grounded_rbac(2) dest: workload_kind)

lemma grounded_11: "allGrounded l (concat (map (clusterRoleFindings env now) (ls_clusterRoles l)))"
  by (rule allGrounded_group [where h = "\<lambda>n. ref ''rbac.authorization.k8s.io/v1'' ''ClusterRole'' '''' (ro_name n)"]) (auto simp: listedRefs_def intro: grounded_cluster(3) dest: workload_kind)

lemma grounded_12: "allGrounded l (concat (map (clusterBindingFindings env now) (ls_clusterRoleBindings l)))"
  by (rule allGrounded_group [where h = "\<lambda>n. ref ''rbac.authorization.k8s.io/v1'' ''ClusterRoleBinding'' '''' (bi_name n)"]) (auto simp: listedRefs_def intro: grounded_cluster(4) dest: workload_kind)

text \<open>
  Every finding of the scan is open, cites one piece of evidence and is about exactly one of the
  listed objects, which lies outside the system namespaces; its score is in the range of its severity,
  and the ranges do not overlap, so that ordering by score orders by severity.
\<close>
theorem findings_grounded:
  assumes "f \<in> set (scanFindings env now l)"
  shows "\<exists>r. r \<in> set (listedRefs l) \<and> grounded r f"
  using assms unfolding scanFindings_def set_sortSlice
proof -
  assume "f \<in> set (observedFindings env now l)"
  moreover have "allGrounded l (observedFindings env now l)"
    unfolding observedFindings_def allGrounded_append
    by (intro conjI grounded_1 grounded_2 grounded_3 grounded_4 grounded_5 grounded_6 grounded_7 grounded_8 grounded_9 grounded_10 grounded_11 grounded_12)
  ultimately show ?thesis by (auto simp: allGrounded_def)
qed

subsection \<open>Identifiers collide\<close>

lemma workload_resources_finding:
  assumes "w \<in> set (workloadTargets (ls_deployments l) (ls_statefulSets l) (ls_daemonSets l))" "\<not> isSystemNamespace (wt_namespace w)"
    "podSpecMissingResources (wt_podSpec w)"
  shows "\<exists>f\<in>set (scanFindings env now l). f_id f = ''scan-workload-resources-'' @ safeClusterID env [wt_namespace w, wt_name w] \<and>
    f_resources f = [Ref w] \<and> f_status f = FindingOpen"
proof -
  have "\<exists>f\<in>set (workloadFindings env now l w). f_id f = ''scan-workload-resources-'' @ safeClusterID env [wt_namespace w, wt_name w] \<and>
      f_resources f = [Ref w] \<and> f_status f = FindingOpen"
    using assms(2,3) by (simp add: workloadFindings_def provided_def newClusterFinding_def)
  then show ?thesis using assms(1) by (auto simp: scanFindings_def observedFindings_def)
qed

lemma suppressing_keeps:
  "f_id (fold (\<lambda>(_, x) f. if activeException now f x then f\<lparr>f_status := FindingSuppressed\<rparr> else f) xs f) = f_id f \<and>
   f_resources (fold (\<lambda>(_, x) f. if activeException now f x then f\<lparr>f_status := FindingSuppressed\<rparr> else f) xs f) = f_resources f"
  by (induction xs arbitrary: f) auto

lemma synced_resources:
  "\<exists>h. gget (st_findings (snd (SyncFinding None now f s))) (f_id f) = Some h \<and> f_resources h = f_resources f"
  using suppressing_keeps by (auto simp: SyncFinding_def mergeExisting_def Let_def split: option.splits)

text \<open>
  The identifier of a workload's finding leaves out its kind: two workloads of different kinds with
  the same name, such as a Deployment and a StatefulSet, get findings with one identifier, and after
  both are synchronised the repository only knows the resource of the second.
\<close>
theorem scan_ids_collide:
  assumes "w \<in> set (workloadTargets (ls_deployments l) (ls_statefulSets l) (ls_daemonSets l))"
    "v \<in> set (workloadTargets (ls_deployments l) (ls_statefulSets l) (ls_daemonSets l))"
    "wt_namespace w = wt_namespace v" "wt_name w = wt_name v" "wt_kind w \<noteq> wt_kind v" "\<not> isSystemNamespace (wt_namespace w)"
    "podSpecMissingResources (wt_podSpec w)" "podSpecMissingResources (wt_podSpec v)"
  shows "\<exists>f g h. f \<in> set (scanFindings env now l) \<and> g \<in> set (scanFindings env now l) \<and> f_id f = f_id g \<and>
    f_resources f = [Ref w] \<and> f_resources g = [Ref v] \<and> Ref w \<noteq> Ref v \<and>
    gget (st_findings (snd (SyncFinding None now g (snd (SyncFinding None now f s))))) (f_id f) = Some h \<and> f_resources h = [Ref v]"
proof -
  from workload_resources_finding [OF assms(1,6,7)] obtain f where f: "f \<in> set (scanFindings env now l)"
      "f_id f = ''scan-workload-resources-'' @ safeClusterID env [wt_namespace w, wt_name w]" "f_resources f = [Ref w]" by blast
  from workload_resources_finding [OF assms(2) _ assms(8)] assms(3,6) obtain g where g: "g \<in> set (scanFindings env now l)"
      "f_id g = ''scan-workload-resources-'' @ safeClusterID env [wt_namespace v, wt_name v]" "f_resources g = [Ref v]" by auto
  obtain h where "gget (st_findings (snd (SyncFinding None now g (snd (SyncFinding None now f s))))) (f_id g) = Some h" "f_resources h = f_resources g"
    using synced_resources by blast
  moreover have "f_id f = f_id g" using f(2) g(2) assms(3,4) by simp
  moreover have "Ref w \<noteq> Ref v" using assms(5) by (simp add: Ref_def ref_def)
  ultimately show ?thesis using f g by (metis (no_types))
qed

definition plainContainer :: scan_container where
  "plainContainer = \<lparr>sc_image = ''web:1'', sc_requests = [], sc_limits = [], sc_readinessProbe = True, sc_livenessProbe = True, sc_security = None\<rparr>"

definition plainSpec :: scan_pod_spec where
  "plainSpec = \<lparr>sp_initContainers = [], sp_containers = [plainContainer], sp_security = None, sp_hostNetwork = False, sp_hostPID = False,
     sp_hostIPC = False, sp_hostPathVolumes = [], sp_serviceAccountName = ''web'', sp_automount = Some False\<rparr>"

definition webWorkload :: workload_obj where
  "webWorkload = \<lparr>wo_namespace = ''shop'', wo_name = ''web'', wo_labels = [], wo_replicas = None, wo_podSpec = plainSpec\<rparr>"

definition emptyLists :: "unit cluster_lists" where
  "emptyLists = \<lparr>ls_nodes = [], ls_namespaces = [], ls_pods = [], ls_services = [], ls_serviceAccounts = [], ls_configMaps = [], ls_quotas = [],
     ls_limitRanges = [], ls_pvcs = [], ls_events = [], ls_deployments = [], ls_statefulSets = [], ls_daemonSets = [], ls_jobs = [],
     ls_ingresses = [], ls_networkPolicies = [], ls_pdbs = [], ls_hpas = [], ls_roles = [], ls_roleBindings = [], ls_clusterRoles = [],
     ls_clusterRoleBindings = []\<rparr>"

definition asciiEnv :: "unit scan_env" where
  "asciiEnv = \<lparr>sv_letter = (\<lambda>_. None), sv_selects = (\<lambda>_ _. False)\<rparr>"

definition twinLists :: "unit cluster_lists" where
  "twinLists = emptyLists\<lparr>ls_deployments := [webWorkload], ls_statefulSets := [webWorkload]\<rparr>"

lemma plainSpec_unbounded: "podSpecMissingResources plainSpec"
  by (simp add: podSpecMissingResources_def plainSpec_def allContainers_def plainContainer_def hasResource_def)

lemmas twin_defs = twinLists_def emptyLists_def workloadTargets_def targetOf_def deploymentReplicas_def webWorkload_def isSystemNamespace_def

lemma scan_ids_collide_witness:
  "\<exists>f g h. f \<in> set (scanFindings asciiEnv 5 twinLists) \<and> g \<in> set (scanFindings asciiEnv 5 twinLists) \<and> f_id f = f_id g \<and>
    f_resources f \<noteq> f_resources g \<and>
    gget (st_findings (snd (SyncFinding None 5 g (snd (SyncFinding None 5 f emptyStore))))) (f_id f) = Some h \<and> f_resources h = f_resources g"
  using scan_ids_collide [of "targetOf ''Deployment'' 1 webWorkload" twinLists "targetOf ''StatefulSet'' 1 webWorkload" asciiEnv 5 emptyStore]
    plainSpec_unbounded by (fastforce simp: twin_defs)

lemma findings_grounded_witness:
  "\<exists>f r. f \<in> set (scanFindings asciiEnv 5 twinLists) \<and> r \<in> set (listedRefs twinLists) \<and> grounded r f"
proof -
  obtain f where "f \<in> set (scanFindings asciiEnv 5 twinLists)"
    using workload_resources_finding [of "targetOf ''Deployment'' 1 webWorkload" twinLists asciiEnv 5] plainSpec_unbounded
    by (auto simp: twin_defs)
  with findings_grounded [OF this] show ?thesis by blast
qed

subsection \<open>What the scan overlooks\<close>

text \<open>
  The pod checks read the main containers only: whatever init containers a pod has, privileged ones
  included, the findings are the same as without them, so that KA-K8S-004, "privileged container
  behavior is absent", can pass with a privileged container running.
\<close>
theorem privileged_init_overlooked:
  "scanFindings env now (l\<lparr>ls_pods := [p\<lparr>pd_podSpec := (pd_podSpec p)\<lparr>sp_initContainers := inits\<rparr>\<rparr>]\<rparr>) = scanFindings env now (l\<lparr>ls_pods := [p]\<rparr>)"
proof -
  have "podFindings env now (p\<lparr>pd_podSpec := (pd_podSpec p)\<lparr>sp_initContainers := inits\<rparr>\<rparr>) = podFindings env now p"
    by (simp add: podFindings_def podRestarting_def podHasPrivilegedContainer_def)
  moreover have "namespaceFindings env now (l\<lparr>ls_pods := ps\<rparr>) = namespaceFindings env now l" "workloadFindings env now (l\<lparr>ls_pods := ps\<rparr>) = workloadFindings env now l" for ps
    by (simp_all add: fun_eq_iff namespaceFindings_def workloadFindings_def)
  ultimately show ?thesis by (simp add: scanFindings_def observedFindings_def)
qed

end
