(* ===== verification/OidcModel.thy ===== *)
theory OidcModel
  imports AccessControl Json Sha256
begin

text \<open>
  Verification of OpenID Connect tokens, \<open>internal/auth/oidc.go\<close>: discovery, the cache of signing keys,
  the steps of \<open>Verify\<close>, the checks on the claims and the principal they describe.

  The parameters are the functions of \<open>oidc_env\<close>: the two signature checks of \<open>crypto\<close>, \<open>url.Parse\<close>,
  whether a host is a loopback address (\<open>net.ParseIP\<close>), and the HTTP GET, which yields the status code,
  the \<open>Cache-Control\<close> header and the body.  A call reads the clock once and is atomic; the verifier's
  lock only guards the key cache.
\<close>

subsection \<open>Data\<close>

datatype public_key = RsaKey int int | EcKey int int

record parsed_url =
  pu_scheme :: string
  pu_host :: string
  pu_hostname :: string
  pu_hasUser :: bool
  pu_fragment :: string

type_synonym 'w http_get = "string \<Rightarrow> 'w \<Rightarrow> (string + (int \<times> string \<times> string)) \<times> 'w"

record 'w oidc_env =
  oe_rsaVerify :: "int \<Rightarrow> int \<Rightarrow> string \<Rightarrow> string \<Rightarrow> bool"
  oe_ecdsaVerify :: "int \<Rightarrow> int \<Rightarrow> string \<Rightarrow> int \<Rightarrow> int \<Rightarrow> bool"
  oe_parseURL :: "string \<Rightarrow> parsed_url option"
  oe_loopback :: "string \<Rightarrow> bool"
  oe_get :: "'w http_get"

record oidc_verifier =
  ov_issuer :: string
  ov_clientID :: string
  ov_jwksURL :: string

record key_cache =
  kc_keys :: "(string, public_key) gomap"
  kc_until :: gotime

record jwt_header =
  jh_algorithm :: string
  jh_keyID :: string
  jh_type :: string

text \<open>A claim of type \<open>any\<close> is its JSON value, \<open>JNull\<close> when it is absent; a number claim is its text.\<close>

record token_claims =
  tc_issuer :: string
  tc_subject :: string
  tc_audience :: "json option"
  tc_expiresAt :: string
  tc_notBefore :: string
  tc_issuedAt :: string
  tc_name :: string
  tc_preferredUsername :: string
  tc_roles :: json
  tc_groups :: json
  tc_kubeAthrixRoles :: json
  tc_kubeAthrixNamespaces :: json
  tc_kubeAthrixClusters :: json
  tc_scope :: string
  tc_realmRoles :: json

record json_web_key =
  jk_keyID :: string
  jk_use :: string
  jk_type :: string
  jk_n :: string
  jk_e :: string
  jk_curve :: string
  jk_x :: string
  jk_y :: string

subsection \<open>Reading documents\<close>

text \<open>\<open>json.Decoder.Decode\<close> reads the first value of its input.\<close>

definition jsonFirst :: "string \<Rightarrow> json option" where
  "jsonFirst s = map_option fst (parseValue (jsonFuel s) 0 s)"

definition readStruct :: "string list \<Rightarrow> (string \<Rightarrow> json \<Rightarrow> 's \<Rightarrow> 's option) \<Rightarrow> json \<Rightarrow> 's \<Rightarrow> 's option" where
  "readStruct names setField j s =
     (case j of JObj ms \<Rightarrow> readMembers names setField ms s | JNull \<Rightarrow> Some s | _ \<Rightarrow> None)"

text \<open>A \<open>json.Number\<close>: a number, or a string that holds one; \<open>null\<close> leaves it alone.\<close>

definition isNumber :: "string \<Rightarrow> bool" where
  "isNumber s \<longleftrightarrow> (case parseNum s of Some (_, []) \<Rightarrow> True | _ \<Rightarrow> False)"

definition decodeNumber :: "json \<Rightarrow> string \<Rightarrow> string option" where
  "decodeNumber j old =
     (case j of JNum t \<Rightarrow> Some t | JStr t \<Rightarrow> if isNumber t then Some t else None | JNull \<Rightarrow> Some old | _ \<Rightarrow> None)"

definition noHeader :: jwt_header where "noHeader = \<lparr>jh_algorithm = '''', jh_keyID = '''', jh_type = ''''\<rparr>"

definition setHeaderField :: "string \<Rightarrow> json \<Rightarrow> jwt_header \<Rightarrow> jwt_header option" where
  "setHeaderField n v h =
     (if n = ''alg'' then map_option (\<lambda>t. h\<lparr>jh_algorithm := t\<rparr>) (decodeStringField v (jh_algorithm h))
      else if n = ''kid'' then map_option (\<lambda>t. h\<lparr>jh_keyID := t\<rparr>) (decodeStringField v (jh_keyID h))
      else map_option (\<lambda>t. h\<lparr>jh_type := t\<rparr>) (decodeStringField v (jh_type h)))"

definition decodeHeader :: "string \<Rightarrow> jwt_header option" where
  "decodeHeader s =
     (case jsonStrict s of None \<Rightarrow> None | Some j \<Rightarrow> readStruct [''alg'', ''kid'', ''typ''] setHeaderField j noHeader)"

definition noClaims :: token_claims where
  "noClaims = \<lparr>tc_issuer = '''', tc_subject = '''', tc_audience = None, tc_expiresAt = '''', tc_notBefore = '''', tc_issuedAt = '''',
     tc_name = '''', tc_preferredUsername = '''', tc_roles = JNull, tc_groups = JNull, tc_kubeAthrixRoles = JNull,
     tc_kubeAthrixNamespaces = JNull, tc_kubeAthrixClusters = JNull, tc_scope = '''', tc_realmRoles = JNull\<rparr>"

definition claimFields :: "string list" where
  "claimFields = [''iss'', ''sub'', ''aud'', ''exp'', ''nbf'', ''iat'', ''name'', ''preferred_username'', ''roles'', ''groups'',
     ''kubeathrix_roles'', ''kubeathrix_namespaces'', ''kubeathrix_clusters'', ''scope'', ''realm_access'']"

definition setClaim :: "string \<Rightarrow> json \<Rightarrow> token_claims \<Rightarrow> token_claims option" where
  "setClaim n v c =
     (if n = ''iss'' then map_option (\<lambda>t. c\<lparr>tc_issuer := t\<rparr>) (decodeStringField v (tc_issuer c))
      else if n = ''sub'' then map_option (\<lambda>t. c\<lparr>tc_subject := t\<rparr>) (decodeStringField v (tc_subject c))
      else if n = ''aud'' then Some (c\<lparr>tc_audience := Some v\<rparr>)
      else if n = ''exp'' then map_option (\<lambda>t. c\<lparr>tc_expiresAt := t\<rparr>) (decodeNumber v (tc_expiresAt c))
      else if n = ''nbf'' then map_option (\<lambda>t. c\<lparr>tc_notBefore := t\<rparr>) (decodeNumber v (tc_notBefore c))
      else if n = ''iat'' then map_option (\<lambda>t. c\<lparr>tc_issuedAt := t\<rparr>) (decodeNumber v (tc_issuedAt c))
      else if n = ''name'' then map_option (\<lambda>t. c\<lparr>tc_name := t\<rparr>) (decodeStringField v (tc_name c))
      else if n = ''preferred_username'' then map_option (\<lambda>t. c\<lparr>tc_preferredUsername := t\<rparr>) (decodeStringField v (tc_preferredUsername c))
      else if n = ''roles'' then Some (c\<lparr>tc_roles := v\<rparr>)
      else if n = ''groups'' then Some (c\<lparr>tc_groups := v\<rparr>)
      else if n = ''kubeathrix_roles'' then Some (c\<lparr>tc_kubeAthrixRoles := v\<rparr>)
      else if n = ''kubeathrix_namespaces'' then Some (c\<lparr>tc_kubeAthrixNamespaces := v\<rparr>)
      else if n = ''kubeathrix_clusters'' then Some (c\<lparr>tc_kubeAthrixClusters := v\<rparr>)
      else if n = ''scope'' then map_option (\<lambda>t. c\<lparr>tc_scope := t\<rparr>) (decodeStringField v (tc_scope c))
      else map_option (\<lambda>r. c\<lparr>tc_realmRoles := r\<rparr>) (readStruct [''roles''] (\<lambda>_ r _. Some r) v (tc_realmRoles c)))"

definition decodeClaims :: "string \<Rightarrow> token_claims option" where
  "decodeClaims s = (case jsonFirst s of None \<Rightarrow> None | Some j \<Rightarrow> readStruct claimFields setClaim j noClaims)"

definition noKey :: json_web_key where
  "noKey = \<lparr>jk_keyID = '''', jk_use = '''', jk_type = '''', jk_n = '''', jk_e = '''', jk_curve = '''', jk_x = '''', jk_y = ''''\<rparr>"

definition setKeyField :: "string \<Rightarrow> json \<Rightarrow> json_web_key \<Rightarrow> json_web_key option" where
  "setKeyField n v k =
     (if n = ''kid'' then map_option (\<lambda>t. k\<lparr>jk_keyID := t\<rparr>) (decodeStringField v (jk_keyID k))
      else if n = ''use'' then map_option (\<lambda>t. k\<lparr>jk_use := t\<rparr>) (decodeStringField v (jk_use k))
      else if n = ''kty'' then map_option (\<lambda>t. k\<lparr>jk_type := t\<rparr>) (decodeStringField v (jk_type k))
      else if n = ''n'' then map_option (\<lambda>t. k\<lparr>jk_n := t\<rparr>) (decodeStringField v (jk_n k))
      else if n = ''e'' then map_option (\<lambda>t. k\<lparr>jk_e := t\<rparr>) (decodeStringField v (jk_e k))
      else if n = ''crv'' then map_option (\<lambda>t. k\<lparr>jk_curve := t\<rparr>) (decodeStringField v (jk_curve k))
      else if n = ''x'' then map_option (\<lambda>t. k\<lparr>jk_x := t\<rparr>) (decodeStringField v (jk_x k))
      else map_option (\<lambda>t. k\<lparr>jk_y := t\<rparr>) (decodeStringField v (jk_y k)))"

definition readKey :: "json \<Rightarrow> json_web_key option" where
  "readKey j = readStruct [''kid'', ''use'', ''kty'', ''n'', ''e'', ''crv'', ''x'', ''y''] setKeyField j noKey"

definition decodeKeys :: "json \<Rightarrow> json_web_key list option" where
  "decodeKeys j = readStruct [''keys''] (\<lambda>_ v _. readArray readKey v) j []"

definition decodeDiscovery :: "json \<Rightarrow> (string \<times> string) option" where
  "decodeDiscovery j =
     readStruct [''issuer'', ''jwks_uri'']
       (\<lambda>n v (issuer, jwks). if n = ''issuer'' then map_option (\<lambda>t. (t, jwks)) (decodeStringField v issuer)
          else map_option (\<lambda>t. (issuer, t)) (decodeStringField v jwks)) j ('''', '''')"

subsection \<open>Keys\<close>

definition bytesValue :: "string \<Rightarrow> int" where
  "bytesValue s = foldl (\<lambda>a c. 256 * a + of_char c) 0 s"

text \<open>The curve P-256 of \<open>crypto/elliptic\<close>.\<close>

definition p256 :: int where "p256 = 2 ^ 256 - 2 ^ 224 + 2 ^ 192 + 2 ^ 96 - 1"

definition p256B :: int where "p256B = 0x5ac635d8aa3a93e7b3ebbd55769886bc651d06b0cc53b0f63bce3c3e27d2604b"

definition onCurve :: "int \<Rightarrow> int \<Rightarrow> bool" where
  "onCurve x y \<longleftrightarrow> x < p256 \<and> y < p256 \<and> \<not> (x = 0 \<and> y = 0) \<and> (y * y) mod p256 = (x * x * x - 3 * x + p256B) mod p256"

definition publicKey :: "json_web_key \<Rightarrow> public_key option" where
  "publicKey k =
     (if jk_type k = ''RSA'' then
        (case b64Decode (jk_n k) of
           None \<Rightarrow> None
         | Some n \<Rightarrow>
             if length n < 256 then None
             else (case b64Decode (jk_e k) of
                 None \<Rightarrow> None
               | Some e \<Rightarrow> if e = [] \<or> length e > 4 \<or> bytesValue e < 3 then None else Some (RsaKey (bytesValue n) (bytesValue e))))
      else if jk_type k = ''EC'' then
        (if jk_curve k \<noteq> ''P-256'' then None
         else (case (b64Decode (jk_x k), b64Decode (jk_y k)) of
             (Some x, Some y) \<Rightarrow> if onCurve (bytesValue x) (bytesValue y) then Some (EcKey (bytesValue x) (bytesValue y)) else None
           | _ \<Rightarrow> None))
      else None)"

fun collectKeys :: "json_web_key list \<Rightarrow> (string, public_key) gomap \<Rightarrow> (string, public_key) gomap" where
  "collectKeys [] m = m"
| "collectKeys (k # ks) m =
     (if jk_keyID k = '''' \<or> (jk_use k \<noteq> '''' \<and> jk_use k \<noteq> ''sig'') then collectKeys ks m
      else collectKeys ks (case publicKey k of None \<Rightarrow> m | Some key \<Rightarrow> gput (jk_keyID k) key m))"

text \<open>The product of an \<open>int64\<close> number of seconds and \<open>time.Second\<close> wraps.\<close>

definition wrap64 :: "int \<Rightarrow> int" where
  "wrap64 n = (n + 2 ^ 63) mod 2 ^ 64 - 2 ^ 63"

fun cutAt :: "char \<Rightarrow> string \<Rightarrow> (string \<times> string) option" where
  "cutAt c [] = None"
| "cutAt c (x # xs) = (if x = c then Some ([], xs) else map_option (\<lambda>(a, b). (x # a, b)) (cutAt c xs))"

definition directiveAge :: "string \<Rightarrow> duration option" where
  "directiveAge directive =
     (case cutAt (CHR ''='') (trimSpace directive) of
        None \<Rightarrow> None
      | Some (name, v) \<Rightarrow>
          if equalFold name ''max-age'' then
            (case parseInt 64 (trimChar (CHR 0x22) v) of
               Some seconds \<Rightarrow> if seconds > 0 then Some (wrap64 (seconds * second)) else None
             | None \<Rightarrow> None)
          else None)"

fun firstAge :: "string list \<Rightarrow> duration" where
  "firstAge [] = 0"
| "firstAge (x # xs) = (case directiveAge x of Some age \<Rightarrow> age | None \<Rightarrow> firstAge xs)"

definition cacheMaxAge :: "string \<Rightarrow> duration" where
  "cacheMaxAge cacheControl = firstAge (splitOn (CHR '','') cacheControl)"

definition maxOIDCResponseBytes :: nat where "maxOIDCResponseBytes = 1048576"

definition getJSON :: "'w oidc_env \<Rightarrow> string \<Rightarrow> (json \<Rightarrow> 'a option) \<Rightarrow> 'w \<Rightarrow> (string + ('a \<times> duration)) \<times> 'w" where
  "getJSON env endpoint read w =
     (case oe_get env endpoint w of
        (Inl e, w1) \<Rightarrow> (Inl e, w1)
      | (Inr (status, cacheControl, content), w1) \<Rightarrow>
          (if status \<noteq> 200 then Inl (''unexpected HTTP status '' @ itoa status)
           else (case jsonFirst (take maxOIDCResponseBytes content) of
               None \<Rightarrow> Inl ''invalid JSON''
             | Some j \<Rightarrow> (case read j of None \<Rightarrow> Inl ''invalid JSON'' | Some x \<Rightarrow> Inr (x, cacheMaxAge cacheControl))), w1))"

definition keyLifetime :: "duration \<Rightarrow> duration" where
  "keyLifetime maxAge = (if maxAge \<le> 0 \<or> maxAge > hour then 15 * minute else maxAge)"

definition refreshKeys :: "'w oidc_env \<Rightarrow> oidc_verifier \<Rightarrow> gotime \<Rightarrow> key_cache \<times> 'w \<Rightarrow> string option \<times> (key_cache \<times> 'w)" where
  "refreshKeys env v now st =
     (case getJSON env (ov_jwksURL v) decodeKeys (snd st) of
        (Inl e, w1) \<Rightarrow> (Some (''fetch OIDC signing keys: '' @ e), (fst st, w1))
      | (Inr (document, maxAge), w1) \<Rightarrow>
          (let keys = collectKeys document [] in
           if keys = [] then (Some ''OIDC JWKS contains no supported signing keys'', (fst st, w1))
           else (None, (\<lparr>kc_keys = keys, kc_until = now + keyLifetime maxAge\<rparr>, w1))))"

definition signingKey :: "'w oidc_env \<Rightarrow> oidc_verifier \<Rightarrow> gotime \<Rightarrow> string \<Rightarrow> key_cache \<times> 'w \<Rightarrow> public_key option \<times> (key_cache \<times> 'w)" where
  "signingKey env v now keyID st =
     (if gget (kc_keys (fst st)) keyID \<noteq> None \<and> \<not> now > kc_until (fst st) then (gget (kc_keys (fst st)) keyID, st)
      else (case refreshKeys env v now st of
          (Some e, st1) \<Rightarrow> (None, st1)
        | (None, st1) \<Rightarrow> (gget (kc_keys (fst st1)) keyID, st1)))"

definition verifySignature :: "'w oidc_env \<Rightarrow> string \<Rightarrow> public_key \<Rightarrow> string \<Rightarrow> string \<Rightarrow> bool" where
  "verifySignature env algorithm key digest signature =
     (if algorithm = ''RS256'' then (case key of RsaKey n e \<Rightarrow> oe_rsaVerify env n e digest signature | EcKey x y \<Rightarrow> False)
      else if algorithm = ''ES256'' then
        (case key of
           RsaKey n e \<Rightarrow> False
         | EcKey x y \<Rightarrow> length signature = 64 \<and>
             oe_ecdsaVerify env x y digest (bytesValue (take 32 signature)) (bytesValue (drop 32 signature)))
      else False)"

subsection \<open>Claims\<close>

definition trimRight :: "char \<Rightarrow> string \<Rightarrow> string" where
  "trimRight c s = rev (dropWhile (\<lambda>x. x = c) (rev s))"

definition stringListFromRaw :: "json option \<Rightarrow> string list option" where
  "stringListFromRaw raw =
     (case raw of
        None \<Rightarrow> None
      | Some (JStr s) \<Rightarrow> Some [s]
      | Some JNull \<Rightarrow> Some ['''']
      | Some j \<Rightarrow> readArray (\<lambda>x. decodeStringField x '''') j)"

text \<open>\<open>time.Unix\<close> counts from the year 1 in an \<open>int64\<close>; a claim that does not fit wraps.\<close>

definition unixTime :: "int \<Rightarrow> gotime" where
  "unixTime seconds = (wrap64 (seconds + 62135596800) - 62135596800) * second"

text \<open>\<open>Inr None\<close> is the zero time.\<close>

definition unixClaim :: "string \<Rightarrow> bool \<Rightarrow> string + gotime option" where
  "unixClaim number required =
     (if number = '''' then (if required then Inl ''required numeric date is missing'' else Inr None)
      else (case parseInt 64 number of
          None \<Rightarrow> Inl ''invalid numeric date''
        | Some v \<Rightarrow> if v \<le> 0 then Inl ''invalid numeric date'' else Inr (Some (unixTime v))))"

definition notAfter :: "string + gotime option \<Rightarrow> gotime \<Rightarrow> bool" where
  "notAfter c limit = (case c of Inl _ \<Rightarrow> False | Inr None \<Rightarrow> True | Inr (Some t) \<Rightarrow> \<not> t > limit)"

definition validateClaims :: "oidc_verifier \<Rightarrow> gotime \<Rightarrow> token_claims \<Rightarrow> bool" where
  "validateClaims v now c \<longleftrightarrow>
     trimRight (CHR ''/'') (tc_issuer c) = ov_issuer v \<and> tc_subject c \<noteq> '''' \<and>
     (case stringListFromRaw (tc_audience c) of None \<Rightarrow> False | Some audiences \<Rightarrow> ov_clientID v \<in> set audiences) \<and>
     (case unixClaim (tc_expiresAt c) True of Inr (Some t) \<Rightarrow> t > now - 30 * second | _ \<Rightarrow> False) \<and>
     notAfter (unixClaim (tc_notBefore c) False) (now + 30 * second) \<and>
     notAfter (unixClaim (tc_issuedAt c) False) (now + 5 * minute)"

definition stringList :: "json \<Rightarrow> string list" where
  "stringList j =
     (case j of
        JStr s \<Rightarrow> if CHR '' '' \<in> set s then strFields s else if s \<noteq> '''' then [s] else []
      | JArr vs \<Rightarrow> concat (map (\<lambda>x. case x of JStr s \<Rightarrow> if s \<noteq> '''' then [s] else [] | _ \<Rightarrow> []) vs)
      | _ \<Rightarrow> [])"

definition toSet :: "string list \<Rightarrow> string set" where
  "toSet xs = set (filter (\<lambda>x. x \<noteq> '''') (map trimSpace xs))"

definition roleNamed :: "string \<Rightarrow> role option" where
  "roleNamed t =
     (if t = ''viewer'' then Some RoleViewer else if t = ''operator'' then Some RoleOperator
      else if t = ''approver'' then Some RoleApprover else if t = ''administrator'' then Some RoleAdministrator else None)"

definition normalizedRole :: "string \<Rightarrow> string" where
  "normalizedRole t = trimPrefix (trimPrefix (toLower t) ''kubeathrix:'') ''kubeathrix-''"

fun rolesOf :: "string list \<Rightarrow> role set" where
  "rolesOf [] = {}"
| "rolesOf (t # ts) = (case roleNamed (normalizedRole t) of None \<Rightarrow> rolesOf ts | Some r \<Rightarrow> insert r (rolesOf ts))"

definition scoped :: "string \<Rightarrow> string list \<Rightarrow> string set" where
  "scoped prefix words = set (map (\<lambda>f. trimPrefix f prefix) (filter (\<lambda>f. hasPrefix f prefix) words))"

definition roleValues :: "token_claims \<Rightarrow> string list" where
  "roleValues c = stringList (tc_roles c) @ stringList (tc_groups c) @ stringList (tc_kubeAthrixRoles c) @ stringList (tc_realmRoles c)"

definition principalFromClaims :: "token_claims \<Rightarrow> principal" where
  "principalFromClaims c =
     (let preferred = trimSpace (tc_preferredUsername c); words = strFields (tc_scope c) in
      \<lparr>pc_subject = tc_subject c, pc_displayName = (if preferred = '''' then trimSpace (tc_name c) else preferred),
       pc_roles = rolesOf (roleValues c),
       pc_namespaces = toSet (stringList (tc_kubeAthrixNamespaces c)) \<union> scoped ''kubeathrix:namespace:'' words,
       pc_clusters = toSet (stringList (tc_kubeAthrixClusters c)) \<union> scoped ''kubeathrix:cluster:'' words\<rparr>)"

subsection \<open>Verify\<close>

definition checkClaims :: "oidc_verifier \<Rightarrow> gotime \<Rightarrow> string \<Rightarrow> string + principal" where
  "checkClaims v now payload =
     (case b64Decode payload of
        None \<Rightarrow> Inl ErrUnauthenticated
      | Some claimBytes \<Rightarrow>
          (case decodeClaims claimBytes of
             None \<Rightarrow> Inl ErrUnauthenticated
           | Some c \<Rightarrow>
               if \<not> validateClaims v now c then Inl ErrUnauthenticated
               else let p = principalFromClaims c in
                 if pc_subject p = '''' \<or> pc_roles p = {} then Inl ErrUnauthorized else Inr p))"

definition Verify ::
  "'w oidc_env \<Rightarrow> oidc_verifier \<Rightarrow> gotime \<Rightarrow> string \<Rightarrow> key_cache \<times> 'w \<Rightarrow> (string + principal) \<times> (key_cache \<times> 'w)" where
  "Verify env v now rawToken st =
     (case splitOn (CHR ''.'') rawToken of
        [encodedHeader, payload, encodedSignature] \<Rightarrow>
          if length rawToken > 65536 then (Inl ErrUnauthenticated, st)
          else (case b64Decode encodedHeader of
              None \<Rightarrow> (Inl ErrUnauthenticated, st)
            | Some headerBytes \<Rightarrow>
                (case decodeHeader headerBytes of
                   None \<Rightarrow> (Inl ErrUnauthenticated, st)
                 | Some h \<Rightarrow>
                     if jh_keyID h = '''' \<or> (jh_algorithm h \<noteq> ''RS256'' \<and> jh_algorithm h \<noteq> ''ES256'') then (Inl ErrUnauthenticated, st)
                     else (case signingKey env v now (jh_keyID h) st of
                         (None, st1) \<Rightarrow> (Inl ErrUnauthenticated, st1)
                       | (Some key, st1) \<Rightarrow>
                           (case b64Decode encodedSignature of
                              None \<Rightarrow> (Inl ErrUnauthenticated, st1)
                            | Some signature \<Rightarrow>
                                if \<not> verifySignature env (jh_algorithm h) key (sha256 (encodedHeader @ ''.'' @ payload)) signature
                                then (Inl ErrUnauthenticated, st1)
                                else (checkClaims v now payload, st1)))))
      | _ \<Rightarrow> (Inl ErrUnauthenticated, st))"

subsection \<open>Construction\<close>

definition checkEndpoint :: "'w oidc_env \<Rightarrow> string \<Rightarrow> bool" where
  "checkEndpoint env rawURL \<longleftrightarrow>
     (case oe_parseURL env rawURL of
        None \<Rightarrow> False
      | Some u \<Rightarrow>
          \<not> (pu_host u = '''' \<or> pu_hasUser u \<or> pu_fragment u \<noteq> '''') \<and>
          (pu_scheme u = ''https'' \<or>
           (pu_scheme u = ''http'' \<and> (equalFold (pu_hostname u) ''localhost'' \<or> oe_loopback env (pu_hostname u)))))"

definition NewOIDCVerifier :: "'w oidc_env \<Rightarrow> string \<Rightarrow> string \<Rightarrow> gotime \<Rightarrow> 'w \<Rightarrow> (string + (oidc_verifier \<times> key_cache)) \<times> 'w" where
  "NewOIDCVerifier env issuerURL clientID now w =
     (let issuer = trimRight (CHR ''/'') (trimSpace issuerURL) in
      if issuer = '''' \<or> trimSpace clientID = '''' then (Inl ''OIDC issuer URL and client ID are required'', w)
      else if \<not> checkEndpoint env issuer then (Inl ''invalid OIDC issuer'', w)
      else (case getJSON env (issuer @ ''/.well-known/openid-configuration'') decodeDiscovery w of
          (Inl e, w1) \<Rightarrow> (Inl (''fetch OIDC discovery: '' @ e), w1)
        | (Inr ((documentIssuer, jwksURL), maxAge), w1) \<Rightarrow>
            if trimRight (CHR ''/'') documentIssuer \<noteq> issuer then (Inl ''OIDC discovery issuer mismatch'', w1)
            else if \<not> checkEndpoint env jwksURL then (Inl ''invalid OIDC JWKS URI'', w1)
            else (let v = \<lparr>ov_issuer = issuer, ov_clientID = clientID, ov_jwksURL = jwksURL\<rparr> in
              case refreshKeys env v now (\<lparr>kc_keys = [], kc_until = 0\<rparr>, w1) of
                (Some e, st2) \<Rightarrow> (Inl e, snd st2)
              | (None, st2) \<Rightarrow> (Inr (v, fst st2), snd st2))))"

end
