(* ===== verification/OidcSafety.thy ===== *)
theory OidcSafety
  imports OidcModel
begin

text \<open>
  What a verified token guarantees, how long a withdrawn signing key stays in use, and what a token
  with an unknown key identifier costs.
\<close>

subsection \<open>The key cache\<close>

lemma keyLifetime_bounds: "0 < keyLifetime a \<and> keyLifetime a \<le> hour"
  by (auto simp: keyLifetime_def hour_def minute_def second_def)

lemma refreshKeys_ok:
  "refreshKeys env v now st = (None, st1) \<Longrightarrow>
     \<exists>document maxAge w1. getJSON env (ov_jwksURL v) decodeKeys (snd st) = (Inr (document, maxAge), w1) \<and>
       st1 = (\<lparr>kc_keys = collectKeys document [], kc_until = now + keyLifetime maxAge\<rparr>, w1)"
  by (auto simp: refreshKeys_def Let_def split: prod.splits sum.splits if_splits)

lemma refreshKeys_failed: "refreshKeys env v now st = (Some e, st1) \<Longrightarrow> fst st1 = fst st"
  by (auto simp: refreshKeys_def Let_def split: prod.splits sum.splits if_splits)

lemma signingKey_found:
  assumes "signingKey env v now keyID st = (Some key, st1)"
  shows "gget (kc_keys (fst st1)) keyID = Some key \<and> now \<le> kc_until (fst st1)"
proof (cases "gget (kc_keys (fst st)) keyID \<noteq> None \<and> \<not> now > kc_until (fst st)")
  case True
  then show ?thesis using assms by (auto simp: signingKey_def)
next
  case False
  obtain r st2 where refresh: "refreshKeys env v now st = (r, st2)" by (metis prod.collapse)
  with False assms have "r = None" and found: "gget (kc_keys (fst st2)) keyID = Some key" "st1 = st2"
    by (auto simp: signingKey_def split: option.splits if_splits)
  then have "now \<le> kc_until (fst st2)"
    using refreshKeys_ok [of env v now st st2] refresh keyLifetime_bounds by (force simp: less_imp_le)
  with found show ?thesis by simp
qed

subsection \<open>Accepted tokens\<close>







lemma Verify_accepts:
  assumes "Verify env v now token st = (Inr p, st1)"
  shows "\<exists>a b d hb h key signature. splitOn (CHR ''.'') token = [a, b, d] \<and> b64Decode a = Some hb \<and> decodeHeader hb = Some h \<and>
    signingKey env v now (jh_keyID h) st = (Some key, st1) \<and> b64Decode d = Some signature \<and>
    verifySignature env (jh_algorithm h) key (sha256 (a @ ''.'' @ b)) signature \<and> checkClaims v now b = Inr p"
  using assms by (auto simp: Verify_def split: list.splits if_splits option.splits prod.splits)


definition testEnv :: "nat oidc_env" where
  "testEnv = \<lparr>oe_rsaVerify = (\<lambda>n e digest signature. n = 15 \<and> signature = ''sig''), oe_ecdsaVerify = (\<lambda>_ _ _ _ _. False),
     oe_parseURL = (\<lambda>_. None), oe_loopback = (\<lambda>_. False), oe_get = (\<lambda>_ w. (Inr (200, '''', ''{\"keys\":[{\"kid\":\"n\"}]}''), w + 1))\<rparr>"

text \<open>Its provider lists one key, \<open>n\<close>.\<close>

definition testVerifier :: oidc_verifier where
  "testVerifier = \<lparr>ov_issuer = ''i'', ov_clientID = ''c'', ov_jwksURL = ''https://i/keys''\<rparr>"

definition testCache :: key_cache where
  "testCache = \<lparr>kc_keys = [(''k'', RsaKey 15 3)], kc_until = hour\<rparr>"

definition testToken :: string where
  "testToken = ''eyJhbGciOiJSUzI1NiIsImtpZCI6ImsifQ.eyJpc3MiOiJpIiwic3ViIjoicyIsImF1ZCI6ImMiLCJleHAiOjksInJvbGVzIjoidmlld2VyIn0.c2ln''"

lemma testToken_parts:
  "splitOn (CHR ''.'') testToken = [''eyJhbGciOiJSUzI1NiIsImtpZCI6ImsifQ'', ''eyJpc3MiOiJpIiwic3ViIjoicyIsImF1ZCI6ImMiLCJleHAiOjksInJvbGVzIjoidmlld2VyIn0'', ''c2ln'']"
  by (simp add: testToken_def)

lemma testToken_decoded:
  "b64Decode ''eyJhbGciOiJSUzI1NiIsImtpZCI6ImsifQ'' = Some ''{\"alg\":\"RS256\",\"kid\":\"k\"}''"
  "b64Decode ''eyJpc3MiOiJpIiwic3ViIjoicyIsImF1ZCI6ImMiLCJleHAiOjksInJvbGVzIjoidmlld2VyIn0'' =
     Some ''{\"iss\":\"i\",\"sub\":\"s\",\"aud\":\"c\",\"exp\":9,\"roles\":\"viewer\"}''"
  "b64Decode ''c2ln'' = Some ''sig''"
  by code_simp+

lemma testHeader: "decodeHeader ''{\"alg\":\"RS256\",\"kid\":\"k\"}'' = Some \<lparr>jh_algorithm = ''RS256'', jh_keyID = ''k'', jh_type = ''''\<rparr>"
  by (simp add: decodeHeader_def readStruct_def setHeaderField_def noHeader_def json_eval)





subsection \<open>Withdrawn keys\<close>

lemma testEnv_keys: "\<exists>age. getJSON testEnv url decodeKeys w = (Inr ([noKey\<lparr>jk_keyID := ''n''\<rparr>], age), w + 1)"
  by (simp add: getJSON_def testEnv_def maxOIDCResponseBytes_def jsonFirst_def decodeKeys_def readKey_def readStruct_def matchField_def
      readArray_def setKeyField_def noKey_def json_eval)

fun verifyAll :: "'w oidc_env \<Rightarrow> oidc_verifier \<Rightarrow> (gotime \<times> string) list \<Rightarrow> key_cache \<times> 'w \<Rightarrow> key_cache \<times> 'w" where
  "verifyAll env v [] st = st"
| "verifyAll env v ((now, token) # calls) st = verifyAll env v calls (snd (Verify env v now token st))"

definition keyNamed :: "string \<Rightarrow> string option" where
  "keyNamed token =
     (case splitOn (CHR ''.'') token of
        encodedHeader # _ \<Rightarrow> (case b64Decode encodedHeader of None \<Rightarrow> None | Some b \<Rightarrow> map_option jh_keyID (decodeHeader b))
      | [] \<Rightarrow> None)"

definition withdrawn :: "'w oidc_env \<Rightarrow> oidc_verifier \<Rightarrow> string \<Rightarrow> bool" where
  "withdrawn env v keyID \<longleftrightarrow>
     (\<forall>w document maxAge w1. getJSON env (ov_jwksURL v) decodeKeys w = (Inr (document, maxAge), w1) \<longrightarrow> keyID \<notin> jk_keyID ` set document)"

lemma others_withdrawn: "keyID \<noteq> ''n'' \<Longrightarrow> withdrawn testEnv v keyID"
  unfolding withdrawn_def
proof (intro allI impI)
  fix w document maxAge w1
  assume "keyID \<noteq> ''n''" "getJSON testEnv (ov_jwksURL v) decodeKeys w = (Inr (document, maxAge), w1)"
  with testEnv_keys [of "ov_jwksURL v" w] show "keyID \<notin> jk_keyID ` set document" by auto
qed

lemma collectKeys_get: "keyID \<notin> jk_keyID ` set ks \<Longrightarrow> gget (collectKeys ks m) keyID = gget m keyID"
  by (induction ks arbitrary: m) (auto split: option.splits)

definition dated :: "string \<Rightarrow> gotime \<Rightarrow> key_cache \<Rightarrow> bool" where
  "dated keyID limit c \<longleftrightarrow> gget (kc_keys c) keyID = None \<or> kc_until c \<le> limit"

lemma signingKey_dated:
  assumes "withdrawn env v keyID" "dated keyID limit (fst st)"
  shows "dated keyID limit (fst (snd (signingKey env v now other st)))"
proof -
  obtain r st1 where refresh: "refreshKeys env v now st = (r, st1)" by (metis prod.collapse)
  have "dated keyID limit (fst st1)"
  proof (cases r)
    case None
    with refreshKeys_ok [of env v now st st1] refresh obtain document maxAge w1 where
      "getJSON env (ov_jwksURL v) decodeKeys (snd st) = (Inr (document, maxAge), w1)" "kc_keys (fst st1) = collectKeys document []" by auto
    with assms(1) collectKeys_get [of keyID document "[]"] show ?thesis by (fastforce simp: withdrawn_def dated_def)
  next
    case (Some e)
    with refreshKeys_failed [of env v now st e st1] refresh assms(2) show ?thesis by simp
  qed
  then show ?thesis using assms(2) refresh by (auto simp: signingKey_def split: option.splits)
qed

lemma Verify_cache:
  "fst (snd (Verify env v now token st)) = fst st \<or> (\<exists>keyID. fst (snd (Verify env v now token st)) = fst (snd (signingKey env v now keyID st)))"
  by (auto simp: Verify_def split: list.splits option.splits prod.splits) (metis fst_conv snd_conv)+

lemma verifyAll_dated:
  "withdrawn env v keyID \<Longrightarrow> dated keyID limit (fst st) \<Longrightarrow> dated keyID limit (fst (verifyAll env v calls st))"
proof (induction calls arbitrary: st)
  case (Cons call calls)
  obtain now token where "call = (now, token)" by (metis prod.collapse)
  with Cons Verify_cache [of env v now token st] signingKey_dated [OF Cons.prems] show ?case by (metis verifyAll.simps(2))
qed simp

text \<open>
  C36. A signing key that the provider has withdrawn is out of use an hour later: if at some time the
  cached keys are no older than their lifetime allows, and the provider does not list the key from then on,
  then after any calls, at any later time than an hour, every token that names the key is refused.
\<close>
theorem withdrawn_key_refused:
  assumes "withdrawn env v keyID" "kc_until (fst st) \<le> start + hour" "now > start + hour" "keyNamed token = Some keyID"
  shows "\<exists>e. fst (Verify env v now token (verifyAll env v calls st)) = Inl e"
proof (cases "fst (Verify env v now token (verifyAll env v calls st))")
  case (Inr p)
  let ?st = "verifyAll env v calls st"
  have "dated keyID (start + hour) (fst ?st)" using verifyAll_dated [OF assms(1)] assms(2) by (simp add: dated_def)
  then have later: "dated keyID (start + hour) (fst (snd (Verify env v now token ?st)))"
    using Verify_cache [of env v now token ?st] signingKey_dated [OF assms(1)] by metis
  obtain st1 where ok: "Verify env v now token ?st = (Inr p, st1)" using Inr by (metis prod.collapse)
  from Verify_accepts [OF ok] obtain a b d hb h key where token: "splitOn (CHR ''.'') token = [a, b, d]" "b64Decode a = Some hb"
      "decodeHeader hb = Some h" "signingKey env v now (jh_keyID h) ?st = (Some key, st1)" by blast
  then have "jh_keyID h = keyID" using assms(4) by (simp add: keyNamed_def)
  with signingKey_found [OF token(4)] later ok assms(3) show ?thesis by (auto simp: dated_def)
qed simp

lemma withdrawn_key_refused_witness:
  "\<exists>e. fst (Verify testEnv testVerifier (2 * hour + 1) testToken (verifyAll testEnv testVerifier [(second, testToken), (hour, testToken)] (testCache, 0))) = Inl e"
proof (rule withdrawn_key_refused)
  show "withdrawn testEnv testVerifier ''k''" by (simp add: others_withdrawn)
  show "kc_until (fst (testCache, 0 :: nat)) \<le> hour + hour" by (simp add: testCache_def hour_def minute_def second_def)
  show "hour + hour < 2 * hour + 1" by simp
  show "keyNamed testToken = Some ''k''" by (simp add: keyNamed_def testToken_parts testToken_decoded testHeader)
qed

subsection \<open>Unknown keys\<close>

definition namesUnknown :: "nat oidc_env \<Rightarrow> oidc_verifier \<Rightarrow> key_cache \<Rightarrow> string \<Rightarrow> bool" where
  "namesUnknown env v c token \<longleftrightarrow>
     (\<exists>a b d hb h. splitOn (CHR ''.'') token = [a, b, d] \<and> length token \<le> 65536 \<and> b64Decode a = Some hb \<and> decodeHeader hb = Some h \<and>
        jh_keyID h \<noteq> '''' \<and> jh_algorithm h = ''RS256'' \<and> gget (kc_keys c) (jh_keyID h) = None \<and> withdrawn env v (jh_keyID h))"

lemma getJSON_counted: "oe_get env = (\<lambda>_ n. (answer, n + 1)) \<Longrightarrow> snd (getJSON env endpoint read n) = n + (1 :: nat)"
  by (auto simp: getJSON_def split: sum.splits)

lemma refresh_counted:
  assumes "oe_get env = (\<lambda>_ n. (answer, n + 1))"
  shows "snd (snd (refreshKeys env v now (c, n))) = n + (1 :: nat)"
  using getJSON_counted [OF assms, of "ov_jwksURL v" decodeKeys n]
  by (auto simp: refreshKeys_def Let_def split: sum.splits prod.splits)

lemma refresh_unlisted:
  assumes "withdrawn env v keyID" "gget (kc_keys c) keyID = None"
  shows "gget (kc_keys (fst (snd (refreshKeys env v now (c, n))))) keyID = None"
proof -
  obtain r st1 where refresh: "refreshKeys env v now (c, n) = (r, st1)" by (metis prod.collapse)
  then show ?thesis
  proof (cases r)
    case None
    with refresh refreshKeys_ok [of env v now "(c, n)" st1] obtain document maxAge w1 where
      "getJSON env (ov_jwksURL v) decodeKeys n = (Inr (document, maxAge), w1)" "kc_keys (fst st1) = collectKeys document []" by auto
    with assms(1) refresh collectKeys_get [of keyID document "[]"] show ?thesis by (fastforce simp: withdrawn_def)
  qed (use refresh refreshKeys_failed [of env v now "(c, n)"] assms(2) in auto)
qed

lemma unknown_refused:
  assumes "namesUnknown env v c token" "oe_get env = (\<lambda>_ n. (answer, n + 1))"
  shows "\<exists>c1. Verify env v now token (c, n) = (Inl ErrUnauthenticated, (c1, n + 1)) \<and> c1 = fst (snd (refreshKeys env v now (c, n)))"
proof -
  from assms(1) obtain a b d hb h where token: "splitOn (CHR ''.'') token = [a, b, d]" "length token \<le> 65536" "b64Decode a = Some hb"
      "decodeHeader hb = Some h" "jh_keyID h \<noteq> ''''" "jh_algorithm h = ''RS256''" "gget (kc_keys c) (jh_keyID h) = None"
      "withdrawn env v (jh_keyID h)" by (auto simp: namesUnknown_def)
  obtain r c1 m where refresh: "refreshKeys env v now (c, n) = (r, (c1, m))" by (metis prod.collapse)
  with refresh_counted [OF assms(2), of v now c n] have "m = n + 1" by simp
  moreover have "gget (kc_keys c1) (jh_keyID h) = None" using refresh_unlisted [OF token(8,7), of now n] refresh by simp
  ultimately have "signingKey env v now (jh_keyID h) (c, n) = (None, (c1, n + 1))"
    using token(7) refresh by (simp add: signingKey_def split: option.splits)
  with token refresh show ?thesis by (simp add: Verify_def)
qed

lemma still_unknown: "namesUnknown env v c token \<Longrightarrow> namesUnknown env v (fst (snd (refreshKeys env v now (c, n)))) token"
  unfolding namesUnknown_def by (metis refresh_unlisted)

text \<open>
  Key identifiers that the provider does not list are not remembered: every token that names one,
  whatever its signature and claims, makes the verifier fetch the key set once more before it is
  refused, so that n such tokens cause n requests to the provider.  The world counts the requests.
\<close>
theorem unknown_key_refetched:
  assumes "list_all (namesUnknown env v c) tokens" "oe_get env = (\<lambda>_ n. (answer, n + 1))"
  shows "snd (verifyAll env v (map (Pair now) tokens) (c, n)) = n + length tokens"
  using assms(1)
proof (induction tokens arbitrary: c n)
  case (Cons token tokens)
  let ?c = "fst (snd (refreshKeys env v now (c, n)))"
  have "Verify env v now token (c, n) = (Inl ErrUnauthenticated, (?c, n + 1))"
    using unknown_refused [OF _ assms(2), of v c token now n] Cons.prems by auto
  moreover have "list_all (namesUnknown env v ?c) tokens"
    using Cons.prems still_unknown by (auto simp: list_all_iff)
  ultimately show ?case using Cons.IH by simp
qed simp

definition strangeToken :: string where "strangeToken = ''eyJhbGciOiJSUzI1NiIsImtpZCI6InUifQ..''"

lemma unknown_key_refetched_witness:
  "snd (verifyAll testEnv testVerifier (map (Pair second) [strangeToken, strangeToken, strangeToken]) (testCache, 0)) = 3"
proof -
  have "b64Decode ''eyJhbGciOiJSUzI1NiIsImtpZCI6InUifQ'' = Some ''{\"alg\":\"RS256\",\"kid\":\"u\"}''" by code_simp
  moreover have "decodeHeader ''{\"alg\":\"RS256\",\"kid\":\"u\"}'' = Some \<lparr>jh_algorithm = ''RS256'', jh_keyID = ''u'', jh_type = ''''\<rparr>"
    by (simp add: decodeHeader_def readStruct_def setHeaderField_def noHeader_def json_eval)
  ultimately have "namesUnknown testEnv testVerifier testCache strangeToken"
    by (simp add: namesUnknown_def strangeToken_def testCache_def others_withdrawn)
  then have "list_all (namesUnknown testEnv testVerifier testCache) [strangeToken, strangeToken, strangeToken]" by simp
  from unknown_key_refetched [OF this, of "Inr (200, '''', ''{\"keys\":[{\"kid\":\"n\"}]}'')" second 0] show ?thesis by (simp add: testEnv_def)
qed

end
