(* ===== verification/AdapterModel.thy ===== *)
theory AdapterModel
  imports WorkflowObjects ServerModel
begin

text \<open>
  The scanner adapters, \<open>internal/adapters/adapters.go\<close>: listing report objects of Trivy, Kyverno and
  Kubescape, normalising them to findings, the health of each integration, and the manager that
  collects, de-duplicates and caches.

  A report is the JSON value of an \<open>unstructured.Unstructured\<close>, whose maps have each key once.  The
  dynamic client is the parameter \<open>report_api\<close>; its errors keep the four kinds the code tells apart.
  The adapters run in goroutines of their own and write to separate slots, which is one after the
  other here.  A collection reads the clock once.
\<close>

subsection \<open>Reports\<close>

datatype list_error = ListNotFound | ListMethodNotSupported | ListForbidden string | ListUnauthorized string | ListOther string

fun listErrorText :: "list_error \<Rightarrow> string" where
  "listErrorText ListNotFound = ''not found''"
| "listErrorText ListMethodNotSupported = ''method not supported''"
| "listErrorText (ListForbidden e) = e"
| "listErrorText (ListUnauthorized e) = e"
| "listErrorText (ListOther e) = e"

record report_resource =
  rp_group :: string
  rp_version :: string
  rp_resource :: string
  rp_namespaced :: bool

type_synonym 'w report_api = "report_resource \<Rightarrow> 'w \<Rightarrow> (list_error + json list) \<times> 'w"

record collected_reports =
  cl_items :: "json list"
  cl_available :: "string list"
  cl_error :: "list_error option"

fun collectFrom :: "'w report_api \<Rightarrow> report_resource list \<Rightarrow> collected_reports \<Rightarrow> 'w \<Rightarrow> collected_reports \<times> 'w" where
  "collectFrom api [] acc w = (acc, w)"
| "collectFrom api (r # rs) acc w =
     (case api r w of
        (Inl ListNotFound, w1) \<Rightarrow> collectFrom api rs acc w1
      | (Inl ListMethodNotSupported, w1) \<Rightarrow> collectFrom api rs acc w1
      | (Inl (ListForbidden e), w1) \<Rightarrow>
          collectFrom api rs (acc\<lparr>cl_error := (case cl_error acc of None \<Rightarrow> Some (ListForbidden e) | Some e0 \<Rightarrow> Some e0)\<rparr>) w1
      | (Inl (ListUnauthorized e), w1) \<Rightarrow>
          collectFrom api rs (acc\<lparr>cl_error := (case cl_error acc of None \<Rightarrow> Some (ListUnauthorized e) | Some e0 \<Rightarrow> Some e0)\<rparr>) w1
      | (Inl (ListOther e), w1) \<Rightarrow> (acc\<lparr>cl_error := Some (ListOther e)\<rparr>, w1)
      | (Inr items, w1) \<Rightarrow>
          collectFrom api rs
            (acc\<lparr>cl_items := cl_items acc @ items,
               cl_available := cl_available acc @ [rp_group r @ ''/'' @ rp_version r @ '' '' @ rp_resource r]\<rparr>) w1)"

definition collectResources :: "'w report_api \<Rightarrow> report_resource list \<Rightarrow> 'w \<Rightarrow> collected_reports \<times> 'w" where
  "collectResources api resources w = collectFrom api resources \<lparr>cl_items = [], cl_available = [], cl_error = None\<rparr> w"

text \<open>The accessors of an unstructured object.\<close>

definition objKind :: "json \<Rightarrow> string" where "objKind ob = nestedString (Some ob) [''kind'']"
definition objAPIVersion :: "json \<Rightarrow> string" where "objAPIVersion ob = nestedString (Some ob) [''apiVersion'']"
definition objNamespace :: "json \<Rightarrow> string" where "objNamespace ob = nestedString (Some ob) [''metadata'', ''namespace'']"
definition objName :: "json \<Rightarrow> string" where "objName ob = nestedString (Some ob) [''metadata'', ''name'']"
definition objUID :: "json \<Rightarrow> string" where "objUID ob = nestedString (Some ob) [''metadata'', ''uid'']"

definition objCreated :: "json \<Rightarrow> gotime" where
  "objCreated ob = parseOrZero (nestedString (Some ob) [''metadata'', ''creationTimestamp''])"

definition isText :: "json \<Rightarrow> bool" where
  "isText j = (case j of JStr _ \<Rightarrow> True | _ \<Rightarrow> False)"

definition textOf :: "json \<Rightarrow> string" where
  "textOf j = (case j of JStr s \<Rightarrow> s | _ \<Rightarrow> '''')"

definition objLabels :: "json \<Rightarrow> (string, string) gomap" where
  "objLabels ob =
     (case jsonAt ob [''metadata'', ''labels''] of
        Some (JObj ms) \<Rightarrow> if list_all (\<lambda>(k, v). isText v) ms then map (\<lambda>(k, v). (k, textOf v)) ms else []
      | _ \<Rightarrow> [])"

definition isMap :: "json \<Rightarrow> bool" where
  "isMap j = (case j of JObj _ \<Rightarrow> True | _ \<Rightarrow> False)"

definition objOwners :: "json \<Rightarrow> json list" where
  "objOwners ob =
     (case jsonAt ob [''metadata'', ''ownerReferences''] of
        Some (JArr vs) \<Rightarrow> if list_all isMap vs then vs else []
      | _ \<Rightarrow> [])"

text \<open>\<open>item, ok := raw.(map[string]any)\<close>; reading from a nil map finds nothing.\<close>

definition field :: "json \<Rightarrow> string \<Rightarrow> string" where
  "field item k = nestedString (Some item) [k]"

subsection \<open>Severities and resources\<close>

definition severityFromText :: "string \<Rightarrow> severity" where
  "severityFromText v =
     (let t = toLower v in
      if t = ''critical'' then SeverityCritical
      else if t = ''high'' \<or> t = ''error'' then SeverityHigh
      else if t = ''medium'' \<or> t = ''moderate'' \<or> t = ''warn'' \<or> t = ''warning'' then SeverityMedium
      else if t = ''low'' then SeverityLow
      else SeverityInfo)"

definition riskForSeverity :: "severity \<Rightarrow> int" where
  "riskForSeverity s =
     (if s = SeverityCritical then 95 else if s = SeverityHigh then 80 else if s = SeverityMedium then 60
      else if s = SeverityLow then 35 else 10)"

definition apiVersionForKind :: "string \<Rightarrow> string" where
  "apiVersionForKind kind =
     (if kind \<in> set [''Deployment'', ''StatefulSet'', ''DaemonSet'', ''ReplicaSet''] then ''apps/v1''
      else if kind \<in> set [''Role'', ''RoleBinding'', ''ClusterRole'', ''ClusterRoleBinding''] then ''rbac.authorization.k8s.io/v1''
      else ''v1'')"

definition ownerResource :: "json \<Rightarrow> resource_ref" where
  "ownerResource ob =
     (case objOwners ob of
        [] \<Rightarrow> \<lparr>rr_apiVersion = objAPIVersion ob, rr_kind = objKind ob, rr_namespace = objNamespace ob, rr_name = objName ob\<rparr>
      | owner # _ \<Rightarrow>
          \<lparr>rr_apiVersion = field owner ''apiVersion'', rr_kind = field owner ''kind'', rr_namespace = objNamespace ob,
           rr_name = field owner ''name''\<rparr>)"

definition trivyResource :: "json \<Rightarrow> resource_ref" where
  "trivyResource ob =
     (let labels = objLabels ob;
          r0 = \<lparr>rr_apiVersion = '''', rr_kind = gval labels ''trivy-operator.resource.kind'', rr_namespace = objNamespace ob,
                rr_name = gval labels ''trivy-operator.resource.name''\<rparr>;
          r1 = (if rr_name r0 = '''' then ownerResource ob else r0)
      in if rr_apiVersion r1 = '''' then r1\<lparr>rr_apiVersion := apiVersionForKind (rr_kind r1)\<rparr> else r1)"

definition kubescapeResource :: "json \<Rightarrow> resource_ref" where
  "kubescapeResource ob =
     (let labels = objLabels ob;
          r0 = \<lparr>rr_apiVersion = gval labels ''kubescape.io/workload-api-version'', rr_kind = gval labels ''kubescape.io/workload-kind'',
                rr_namespace = objNamespace ob, rr_name = gval labels ''kubescape.io/workload-name''\<rparr>;
          r1 = (if rr_name r0 = '''' then ownerResource ob else r0)
      in if rr_name r1 = '''' then \<lparr>rr_apiVersion = ''apps/v1'', rr_kind = ''Workload'', rr_namespace = objNamespace ob, rr_name = objName ob\<rparr>
         else r1)"

definition valueOr :: "string \<Rightarrow> string \<Rightarrow> string" where
  "valueOr v fallback = (if trimSpace v = '''' then fallback else v)"

definition stableID :: "string list \<Rightarrow> string" where
  "stableID parts = take 20 (hexEncode (sha256 (joinWith [CHR 0x00] parts)))"

subsection \<open>Findings\<close>

definition adapterKeys :: "resource_ref \<Rightarrow> correlation_keys" where
  "adapterKeys r =
     (let keys = noKeys\<lparr>ck_namespace := (if rr_kind r = ''Namespace'' then rr_name r else rr_namespace r)\<rparr> in
      if rr_kind r \<in> set [''Deployment'', ''StatefulSet'', ''DaemonSet'', ''ReplicaSet'', ''Pod'', ''Workload'']
      then keys\<lparr>ck_workload := rr_namespace r @ ''/'' @ rr_kind r @ ''/'' @ rr_name r\<rparr>
      else if rr_kind r \<in> set [''Role'', ''RoleBinding'', ''ClusterRole'', ''ClusterRoleBinding'', ''ServiceAccount'', ''RbacAssessmentReport'']
      then keys\<lparr>ck_identity := resourceString r\<rparr>
      else if rr_kind r \<in> set [''Service'', ''Ingress'', ''NetworkPolicy''] then keys\<lparr>ck_networkExposure := resourceString r\<rparr>
      else keys)"

definition newFinding ::
  "gotime \<Rightarrow> string \<Rightarrow> json \<Rightarrow> string \<Rightarrow> string \<Rightarrow> severity \<Rightarrow> resource_ref \<Rightarrow> string \<Rightarrow> string \<Rightarrow> finding" where
  "newFinding now source ob sourceKey title severity resource details correlation =
     (let observedAt = (if isZero (objCreated ob) then now else objCreated ob);
          reference = ''k8s://'' @ objAPIVersion ob @ ''/'' @ objKind ob @ ''/'' @ objNamespace ob @ ''/'' @ objName ob;
          fingerprint = stableID [source, objUID ob @ ''|'' @ sourceKey @ ''|'' @ resourceString resource]
      in \<lparr>f_id = ''finding-'' @ source @ ''-'' @ fingerprint, f_source = source, f_title = title, f_severity = severity,
          f_evidence = [\<lparr>ev_summary = title, ev_details = details, ev_sourceID = reference, ev_observedAt = observedAt\<rparr>],
          f_resources = [resource], f_blastRadius = ''Affected Kubernetes resource: '' @ resourceString resource,
          f_fixability = FixabilityHumanOnly, f_status = FindingOpen, f_correlationGroup = correlation,
          f_correlationKeys = adapterKeys resource, f_riskScore = riskForSeverity severity, f_riskExplanation = noExplanation,
          f_remediationState = ''proposal_only'',
          f_recommendedAction = ''Review source evidence and generate only a typed catalog action supported for this resource.'',
          f_createdAt = observedAt, f_updatedAt = observedAt\<rparr>)"

text \<open>The entries of a list that are maps, each with its index.\<close>

fun mapEntries :: "nat \<Rightarrow> json list \<Rightarrow> (nat \<times> json) list" where
  "mapEntries i [] = []"
| "mapEntries i (j # js) = (if isMap j then (i, j) # mapEntries (Suc i) js else mapEntries (Suc i) js)"

definition vulnerabilityFinding :: "gotime \<Rightarrow> json \<Rightarrow> resource_ref \<Rightarrow> string \<Rightarrow> string \<Rightarrow> json \<Rightarrow> finding" where
  "vulnerabilityFinding now ob resource imageText digest item =
     (let vulnerabilityID = field item ''vulnerabilityID'';
          details = trimSpace (''image='' @ imageText @ '' digest='' @ digest @ '' fixedVersion='' @ field item ''fixedVersion'' @
            '' advisory='' @ field item ''primaryLink'');
          f = newFinding now ''trivy'' ob vulnerabilityID (valueOr (field item ''title'') vulnerabilityID)
            (severityFromText (field item ''severity'')) resource details (''image:'' @ valueOr digest imageText)
      in f\<lparr>f_correlationKeys := (f_correlationKeys f)\<lparr>ck_image := valueOr digest imageText\<rparr>\<rparr>)"

definition normalizeTrivyVulnerabilities :: "gotime \<Rightarrow> json \<Rightarrow> finding list" where
  "normalizeTrivyVulnerabilities now ob =
     (let repository = nestedString (Some ob) [''report'', ''artifact'', ''repository''];
          tag = nestedString (Some ob) [''report'', ''artifact'', ''tag''];
          digest = nestedString (Some ob) [''report'', ''artifact'', ''digest''];
          imageText = trimChar (CHR '':'') (repository @ '':'' @ tag)
      in map (\<lambda>(i, item). vulnerabilityFinding now ob (trivyResource ob) imageText digest item)
           (mapEntries 0 (nestedSlice (Some ob) [''report'', ''vulnerabilities''])))"

text \<open>A string slice, or nothing when an element is not a string.\<close>

definition nestedStringSlice :: "json \<Rightarrow> string list \<Rightarrow> string list" where
  "nestedStringSlice j ks =
     (case jsonAt j ks of Some (JArr vs) \<Rightarrow> if list_all isText vs then map textOf vs else [] | _ \<Rightarrow> [])"

definition checkFinding :: "gotime \<Rightarrow> json \<Rightarrow> resource_ref \<Rightarrow> json \<Rightarrow> finding" where
  "checkFinding now ob resource item =
     newFinding now ''trivy'' ob (field item ''checkID'') (''Trivy configuration check failed: '' @ field item ''checkID'')
       (severityFromText (field item ''severity'')) resource (joinWith ''; '' (nestedStringSlice item [''messages''])) (resourceString resource)"

definition normalizeTrivyChecks :: "gotime \<Rightarrow> json \<Rightarrow> finding list" where
  "normalizeTrivyChecks now ob =
     map (\<lambda>(i, item). checkFinding now ob (trivyResource ob) item)
       (filter (\<lambda>(i, item). \<not> nestedBool (Some item) [''success''])
         (mapEntries 0 (nestedSlice (Some ob) [''report'', ''checks''])))"

text \<open>Of an entry of a secret report only the rule and the title are read.\<close>

definition secretFinding :: "gotime \<Rightarrow> json \<Rightarrow> resource_ref \<Rightarrow> nat \<Rightarrow> json \<Rightarrow> finding" where
  "secretFinding now ob resource i item =
     (let ruleID = field item ''ruleID''; title = field item ''title'' in
      newFinding now ''trivy'' ob (ruleID @ ''-'' @ itoa (int i)) (''Potential exposed secret: '' @ valueOr title ruleID) SeverityCritical resource
        ''Trivy reported secret material; KubeAthrix intentionally does not copy the matched value.'' (resourceString resource))"

fun secretFindings :: "gotime \<Rightarrow> json \<Rightarrow> resource_ref \<Rightarrow> nat \<Rightarrow> json list \<Rightarrow> finding list" where
  "secretFindings now ob resource i [] = []"
| "secretFindings now ob resource i (item # items) = secretFinding now ob resource i item # secretFindings now ob resource (Suc i) items"

definition normalizeTrivySecrets :: "gotime \<Rightarrow> json \<Rightarrow> finding list" where
  "normalizeTrivySecrets now ob = secretFindings now ob (trivyResource ob) 0 (nestedSlice (Some ob) [''report'', ''secrets''])"

definition policyResource :: "json \<Rightarrow> resource_ref" where
  "policyResource ob =
     (let scope = (\<lambda>k. nestedString (Some ob) [''scope'', k]) in
      if scope ''name'' = '''' then ownerResource ob
      else \<lparr>rr_apiVersion = scope ''apiVersion'', rr_kind = scope ''kind'', rr_namespace = scope ''namespace'', rr_name = scope ''name''\<rparr>)"

definition policySeverity :: "string \<Rightarrow> string \<Rightarrow> severity" where
  "policySeverity severityText outcome =
     (if severityText = '''' then (if outcome = ''error'' then SeverityHigh else SeverityMedium) else severityFromText severityText)"

definition policyFinding :: "gotime \<Rightarrow> json \<Rightarrow> resource_ref \<Rightarrow> nat \<Rightarrow> json \<Rightarrow> finding" where
  "policyFinding now ob resource i item =
     (let outcome = field item ''result''; policy = field item ''policy''; rule = field item ''rule'' in
      newFinding now ''kyverno'' ob (policy @ ''/'' @ rule @ ''/'' @ outcome @ ''/'' @ itoa (int i))
        (''Policy '' @ policy @ ''/'' @ rule @ '' reported '' @ outcome) (policySeverity (field item ''severity'') outcome) resource
        (field item ''message'') (resourceString resource @ ''|policy:'' @ policy))"

definition normalizePolicyReport :: "gotime \<Rightarrow> json \<Rightarrow> finding list" where
  "normalizePolicyReport now ob =
     map (\<lambda>(i, item). policyFinding now ob (policyResource ob) i item)
       (filter (\<lambda>(i, item). \<not> (field item ''result'' = ''pass'' \<or> field item ''result'' = ''skip''))
         (mapEntries 0 (nestedSlice (Some ob) [''results''])))"

fun firstNestedString :: "json \<Rightarrow> string list \<Rightarrow> string" where
  "firstNestedString item [] = ''''"
| "firstNestedString item (k # ks) = (if field item k \<noteq> '''' then field item k else firstNestedString item ks)"

fun nestedSliceAny :: "json \<Rightarrow> string list list \<Rightarrow> json list" where
  "nestedSliceAny ob [] = []"
| "nestedSliceAny ob (p # ps) = (case jsonAt ob p of Some (JArr vs) \<Rightarrow> vs | _ \<Rightarrow> nestedSliceAny ob ps)"

fun nestedMapAny :: "json \<Rightarrow> string list list \<Rightarrow> (string \<times> json) list" where
  "nestedMapAny ob [] = []"
| "nestedMapAny ob (p # ps) = (case jsonAt ob p of Some (JObj ms) \<Rightarrow> ms | _ \<Rightarrow> nestedMapAny ob ps)"

text \<open>
  A number of an unstructured object: an \<open>int64\<close> when its text is one, else the \<open>float64\<close>, as a
  numerator and a denominator; the conversion of a \<open>float64\<close> to \<open>int\<close> truncates, and one
  that does not fit gives the smallest integer, as it does on amd64.
\<close>

definition floatValue :: "string \<Rightarrow> (int \<times> int) option" where
  "floatValue t =
     (let neg = (take 1 t = ''-''); s0 = (if neg then drop 1 t else t) in
      case scanInt s0 of None \<Rightarrow> None | Some (i, s1) \<Rightarrow>
      (case scanFrac s1 of None \<Rightarrow> None | Some (f, s2) \<Rightarrow>
      (case scanExp s2 of None \<Rightarrow> None | Some (e, s3) \<Rightarrow>
        (let ev = (if e = [] then 0 else if take 1 e = ''-'' then - digitsVal (drop 1 e) else digitsVal e)
         in map_option (\<lambda>(m, q). ((if neg then - m else m) * pow2 (max 0 q), pow2 (max 0 (- q))))
              (toBinary64 (digitsVal (i @ f)) (ev - int (length f)))))))"

definition positiveCount :: "json \<Rightarrow> int option" where
  "positiveCount j =
     (case j of
        JNum t \<Rightarrow>
          (case parseInt 64 t of
             Some n \<Rightarrow> if n > 0 then Some n else None
           | None \<Rightarrow>
               (case floatValue t of
                  None \<Rightarrow> None
                | Some (n, d) \<Rightarrow> if n > 0 then Some (if n div d \<ge> 2 ^ 63 then - (2 ^ 63) else n div d) else None))
      | _ \<Rightarrow> None)"

definition countKeys :: "(string \<times> severity) list" where
  "countKeys = [(''critical'', SeverityCritical), (''Critical'', SeverityCritical), (''high'', SeverityHigh), (''High'', SeverityHigh),
     (''medium'', SeverityMedium), (''Medium'', SeverityMedium), (''low'', SeverityLow), (''Low'', SeverityLow)]"

fun firstCount :: "(string \<times> severity) list \<Rightarrow> (string \<times> json) list \<Rightarrow> severity \<times> int" where
  "firstCount [] m = (SeverityInfo, 0)"
| "firstCount ((k, s) # ks) m =
     (case gget m k of
        None \<Rightarrow> firstCount ks m
      | Some v \<Rightarrow> (case positiveCount v of None \<Rightarrow> firstCount ks m | Some n \<Rightarrow> (s, n)))"

definition highestCountSeverity :: "(string \<times> json) list \<Rightarrow> severity \<times> int" where
  "highestCountSeverity m = firstCount countKeys m"

definition controlFinding :: "gotime \<Rightarrow> json \<Rightarrow> resource_ref \<Rightarrow> nat \<Rightarrow> json \<Rightarrow> finding" where
  "controlFinding now ob resource i item =
     (let controlID = firstNestedString item [''controlID'', ''controlId'', ''id''];
          name = firstNestedString item [''name'', ''controlName''];
          severity = severityFromText (firstNestedString item [''severity''])
      in newFinding now ''kubescape'' ob (controlID @ ''-'' @ itoa (int i)) (''Kubescape control failed: '' @ valueOr name controlID)
           (if severity = SeverityInfo then SeverityMedium else severity) resource
           (''Kubescape workload configuration summary reports status '' @ field item ''status'') (resourceString resource @ ''|control:'' @ controlID))"

definition normalizeKubescapeSummary :: "gotime \<Rightarrow> json \<Rightarrow> finding list" where
  "normalizeKubescapeSummary now ob =
     (let resource = kubescapeResource ob;
          findings = map (\<lambda>(i, item). controlFinding now ob resource i item)
            (filter (\<lambda>(i, item). field item ''status'' \<notin> set [''passed'', ''pass'', ''skipped''])
              (mapEntries 0 (nestedSliceAny ob [[''spec'', ''controls''], [''status'', ''controls'']])))
      in if findings \<noteq> [] then findings
         else (case highestCountSeverity (nestedMapAny ob [[''spec'', ''severities''], [''status'', ''severities''], [''spec'', ''summary'']]) of
             (severity, n) \<Rightarrow>
               if n > 0 then
                 [newFinding now ''kubescape'' ob ''summary''
                    (''Kubescape reports '' @ itoa n @ '' '' @ severityString severity @ '' workload findings'') severity resource
                    ''Kubescape summary contains failed controls or vulnerabilities; inspect the cited CRD for individual entries.''
                    (resourceString resource)]
               else []))"

subsection \<open>Adapters\<close>

record adapter_result =
  ar_integration :: integration_rec
  ar_health :: integration_health
  ar_findings :: "finding list"

definition permissionError :: "list_error \<Rightarrow> bool" where
  "permissionError e = (case e of ListForbidden _ \<Rightarrow> True | ListUnauthorized _ \<Rightarrow> True | _ \<Rightarrow> False)"

definition adapterResult ::
  "string \<Rightarrow> string \<Rightarrow> string list \<Rightarrow> string list \<Rightarrow> string list \<Rightarrow> gotime \<Rightarrow> finding list \<Rightarrow> list_error option \<Rightarrow> gotime \<Rightarrow> adapter_result" where
  "adapterResult name integrationType supported permissions available lastSeen findings collectErr checkedAt =
     (let enabled = (available \<noteq> []);
          (status, health, gaps, errorState) =
            (case collectErr of
               Some e \<Rightarrow>
                 if permissionError e then (''permission_denied'', ''degraded'',
                   [''Grant the documented read-only report permissions to the API service account.''], listErrorText e)
                 else (''error'', ''unhealthy'', [''Inspect the adapter error and Kubernetes API availability.''], listErrorText e)
             | None \<Rightarrow>
                 if enabled then (''online'', ''healthy'', [], '''')
                 else (''not_configured'', ''not_configured'',
                   [''Install or enable a supported report API; an environment flag alone is not considered healthy.''], ''''))
      in \<lparr>ar_integration = \<lparr>in_name = name, in_type = integrationType, in_enabled = enabled, in_status = status\<rparr>,
          ar_health = \<lparr>ih_name = name, ih_type = integrationType, ih_enabled = enabled, ih_status = status, ih_health = health,
            ih_dataLastSeen = (if isZero lastSeen then ''never'' else rfc3339 lastSeen), ih_permissions = permissions,
            ih_supportedVersions = supported, ih_setupGaps = gaps, ih_errorState = errorState,
            ih_findingsCount = int (length findings), ih_checkedAt = checkedAt\<rparr>,
          ar_findings = findings\<rparr>)"

definition report :: "string \<Rightarrow> string \<Rightarrow> string \<Rightarrow> bool \<Rightarrow> report_resource" where
  "report api version resource namespaced = \<lparr>rp_group = api, rp_version = version, rp_resource = resource, rp_namespaced = namespaced\<rparr>"

definition newest :: "json list \<Rightarrow> gotime" where
  "newest items = fold (\<lambda>ob t. if objCreated ob > t then objCreated ob else t) items 0"

definition trivyFindings :: "gotime \<Rightarrow> json \<Rightarrow> finding list" where
  "trivyFindings now ob =
     (if objKind ob = ''VulnerabilityReport'' then normalizeTrivyVulnerabilities now ob
      else if objKind ob = ''ConfigAuditReport'' \<or> objKind ob = ''RbacAssessmentReport'' then normalizeTrivyChecks now ob
      else if objKind ob = ''ExposedSecretReport'' then normalizeTrivySecrets now ob
      else [])"

definition collectWith ::
  "'w report_api \<Rightarrow> gotime \<Rightarrow> report_resource list \<Rightarrow> (json \<Rightarrow> finding list) \<Rightarrow> string \<Rightarrow> string \<Rightarrow> string list \<Rightarrow> string list \<Rightarrow> 'w \<Rightarrow>
     adapter_result \<times> 'w" where
  "collectWith api now resources normalise name integrationType supported permissions w =
     (case collectResources api resources w of
        (c, w1) \<Rightarrow> (adapterResult name integrationType supported permissions (cl_available c) (newest (cl_items c))
            (concat (map normalise (cl_items c))) (cl_error c) now, w1))"

definition collectTrivy :: "'w report_api \<Rightarrow> gotime \<Rightarrow> 'w \<Rightarrow> adapter_result \<times> 'w" where
  "collectTrivy api now =
     collectWith api now
       [report ''aquasecurity.github.io'' ''v1alpha1'' ''vulnerabilityreports'' True,
        report ''aquasecurity.github.io'' ''v1alpha1'' ''configauditreports'' True,
        report ''aquasecurity.github.io'' ''v1alpha1'' ''exposedsecretreports'' True,
        report ''aquasecurity.github.io'' ''v1alpha1'' ''rbacassessmentreports'' True]
       (trivyFindings now) ''Trivy Operator'' ''scanner'' [''aquasecurity.github.io/v1alpha1'']
       [''list/watch VulnerabilityReport'', ''list/watch ConfigAuditReport'', ''list/watch ExposedSecretReport'', ''list/watch RbacAssessmentReport'']"

definition collectKyverno :: "'w report_api \<Rightarrow> gotime \<Rightarrow> 'w \<Rightarrow> adapter_result \<times> 'w" where
  "collectKyverno api now =
     collectWith api now
       [report ''wgpolicyk8s.io'' ''v1alpha2'' ''policyreports'' True, report ''wgpolicyk8s.io'' ''v1alpha2'' ''clusterpolicyreports'' False,
        report ''openreports.io'' ''v1alpha1'' ''reports'' True, report ''openreports.io'' ''v1alpha1'' ''clusterreports'' False]
       (normalizePolicyReport now) ''Kyverno'' ''policy'' [''wgpolicyk8s.io/v1alpha2'', ''openreports.io/v1alpha1'']
       [''list/watch namespaced policy reports'', ''list/watch cluster policy reports'']"

definition collectKubescape :: "'w report_api \<Rightarrow> gotime \<Rightarrow> 'w \<Rightarrow> adapter_result \<times> 'w" where
  "collectKubescape api now =
     collectWith api now
       [report ''spdx.softwarecomposition.kubescape.io'' ''v1beta1'' ''workloadconfigurationscansummaries'' True,
        report ''spdx.softwarecomposition.kubescape.io'' ''v1beta1'' ''vulnerabilitymanifestsummaries'' True]
       (normalizeKubescapeSummary now) ''Kubescape'' ''scanner'' [''spdx.softwarecomposition.kubescape.io/v1beta1'']
       [''list/watch WorkloadConfigurationScanSummary'', ''list/watch VulnerabilityManifestSummary'']"

text \<open>The native source yields the time of its scan and its findings; a failed snapshot is the zero one.\<close>

type_synonym 'w native_source = "'w \<Rightarrow> (list_error + gotime \<times> finding list) \<times> 'w"

definition collectNative :: "'w native_source \<Rightarrow> gotime \<Rightarrow> 'w \<Rightarrow> adapter_result \<times> 'w" where
  "collectNative source now w =
     (let (r, w1) = source w;
          (available, lastSeen, findings, err) =
            (case r of
               Inl e \<Rightarrow> ([], 0, [], Some e)
             | Inr (lastRun, fs) \<Rightarrow> ([''kubernetes/v1 native posture''], lastRun, fs, None))
      in (adapterResult ''Kubernetes native posture'' ''native'' [''kubernetes/v1'']
            [''read workload and namespace specs/status'', ''read RBAC rules'', ''no Secret object access''] available lastSeen findings err now, w1))"

subsection \<open>The manager\<close>

record adapter_cache =
  ac_cached :: adapter_collection
  ac_cachedAt :: gotime

type_synonym 'w adapter = "gotime \<Rightarrow> 'w \<Rightarrow> adapter_result \<times> 'w"

definition newManager :: "'w report_api \<Rightarrow> 'w native_source option \<Rightarrow> 'w adapter list" where
  "newManager api native =
     [collectTrivy api, collectKyverno api, collectKubescape api] @ (case native of None \<Rightarrow> [] | Some source \<Rightarrow> [collectNative source])"

definition cacheTTL :: duration where "cacheTTL = 30 * second"

fun runAdapters :: "'w adapter list \<Rightarrow> gotime \<Rightarrow> 'w \<Rightarrow> adapter_result list \<times> 'w" where
  "runAdapters [] now w = ([], w)"
| "runAdapters (a # adapters) now w = (let (r, w1) = a now w; (rs, w2) = runAdapters adapters now w1 in (r # rs, w2))"

definition lessCollected :: "finding \<Rightarrow> finding \<Rightarrow> bool" where
  "lessCollected f g \<longleftrightarrow> (if f_riskScore f = f_riskScore g then f_id f < f_id g else f_riskScore f > f_riskScore g)"

definition mergeResults :: "adapter_result list \<Rightarrow> adapter_collection" where
  "mergeResults rs =
     \<lparr>ad_integrations = sortSlice (\<lambda>x y. in_name x < in_name y) (map ar_integration rs),
      ad_health = sortSlice (\<lambda>x y. ih_name x < ih_name y) (map ar_health rs),
      ad_findings = sortSlice lessCollected (dedupeBy f_id [] (concat (map ar_findings rs)))\<rparr>"

definition Collect :: "'w adapter list \<Rightarrow> gotime \<Rightarrow> adapter_cache \<times> 'w \<Rightarrow> adapter_collection \<times> (adapter_cache \<times> 'w)" where
  "Collect adapters now st =
     (if \<not> isZero (ac_cachedAt (fst st)) \<and> now - ac_cachedAt (fst st) < cacheTTL then (ac_cached (fst st), st)
      else (let (rs, w1) = runAdapters adapters now (snd st); c = mergeResults rs in (c, (\<lparr>ac_cached = c, ac_cachedAt = now\<rparr>, w1))))"

end
