(* ===== verification/AdapterProperties.thy ===== *)
theory AdapterProperties
  imports AdapterModel
begin

text \<open>
  What the adapters deliver: proposals only, each identifier once and in order of risk; nothing of
  a matched secret; a cache of bounded age; and two weaknesses of the identifiers.
\<close>

subsection \<open>Proposals\<close>

definition scanner_proposal :: "string \<Rightarrow> finding \<Rightarrow> bool" where
  "scanner_proposal source f \<longleftrightarrow>
     f_source f = source \<and> f_fixability f = FixabilityHumanOnly \<and> f_remediationState f = ''proposal_only'' \<and> f_status f = FindingOpen \<and>
     length (f_evidence f) = 1 \<and> length (f_resources f) = 1 \<and> f_riskScore f = riskForSeverity (f_severity f)"

lemma proposal_new: "scanner_proposal source (newFinding now source ob key title sev r details correlation)"
  by (simp add: scanner_proposal_def newFinding_def Let_def)

lemma proposal_keys: "scanner_proposal source (f\<lparr>f_correlationKeys := k\<rparr>) = scanner_proposal source f"
  by (simp add: scanner_proposal_def)

text \<open>A report source normalises each report object to proposals in its name.\<close>

locale report_source =
  fixes normalise :: "gotime \<Rightarrow> json \<Rightarrow> finding list" and source :: string
  assumes proposes: "f \<in> set (normalise now ob) \<Longrightarrow> scanner_proposal source f"
begin

lemma collected:
  assumes "f \<in> set (ar_findings (fst (collectWith api now resources (normalise now) name kind supported permissions w)))"
  shows "scanner_proposal source f"
  using assms proposes by (auto simp: collectWith_def adapterResult_def Let_def split: prod.splits option.splits if_splits)

end

lemma secretFindings_proposal: "f \<in> set (secretFindings now ob r i items) \<Longrightarrow> scanner_proposal ''trivy'' f"
  by (induction items arbitrary: i) (auto simp: secretFinding_def Let_def proposal_new)

lemma proposals_new:
  "scanner_proposal ''trivy'' (vulnerabilityFinding now ob r imageText digest item)" "scanner_proposal ''trivy'' (checkFinding now ob r item)"
  "scanner_proposal ''kyverno'' (policyFinding now ob r i item)" "scanner_proposal ''kubescape'' (controlFinding now ob r i item)"
  unfolding vulnerabilityFinding_def checkFinding_def policyFinding_def controlFinding_def Let_def
  by (simp_all only: proposal_new proposal_keys)

lemma mapped_proposal: "f \<in> set (map (\<lambda>(i, item). g i item) xs) \<Longrightarrow> (\<And>i item. scanner_proposal source (g i item)) \<Longrightarrow> scanner_proposal source f"
  by auto

lemma chosen_list: "x \<in> set (if a then p else if b then q else if c then r else []) \<Longrightarrow> x \<in> set p \<or> x \<in> set q \<or> x \<in> set r"
  by (cases a; cases b; cases c) simp_all

lemma trivy_proposal:
  assumes "f \<in> set (trivyFindings now ob)"
  shows "scanner_proposal ''trivy'' f"
proof -
  from chosen_list [OF assms [unfolded trivyFindings_def]]
  consider "f \<in> set (normalizeTrivyVulnerabilities now ob)" | "f \<in> set (normalizeTrivyChecks now ob)" | "f \<in> set (normalizeTrivySecrets now ob)"
    by blast
  then show ?thesis
  proof cases
    case 1 then show ?thesis unfolding normalizeTrivyVulnerabilities_def Let_def by (rule mapped_proposal) (rule proposals_new)
  next
    case 2 then show ?thesis unfolding normalizeTrivyChecks_def by (rule mapped_proposal) (rule proposals_new)
  next
    case 3 then show ?thesis unfolding normalizeTrivySecrets_def by (rule secretFindings_proposal)
  qed
qed

lemma kyverno_proposal: "f \<in> set (normalizePolicyReport now ob) \<Longrightarrow> scanner_proposal ''kyverno'' f"
  unfolding normalizePolicyReport_def by (erule mapped_proposal) (rule proposals_new)

lemma own_or_summary:
  "x \<in> set (if xs \<noteq> [] then xs else case p of (severity, n) \<Rightarrow> if n > (0 :: int) then [g severity n] else []) \<Longrightarrow>
     x \<in> set xs \<or> x = g (fst p) (snd p)"
  by (cases p; cases "xs = []"; cases "snd p > 0") simp_all

lemma kubescape_proposal: "f \<in> set (normalizeKubescapeSummary now ob) \<Longrightarrow> scanner_proposal ''kubescape'' f"
  unfolding normalizeKubescapeSummary_def Let_def
  by (drule own_or_summary) (erule disjE, erule mapped_proposal, rule proposals_new, simp only: proposal_new)

interpretation trivy: report_source trivyFindings "''trivy''"
  by unfold_locales (rule trivy_proposal)

interpretation kyverno: report_source normalizePolicyReport "''kyverno''"
  by unfold_locales (rule kyverno_proposal)

interpretation kubescape: report_source normalizeKubescapeSummary "''kubescape''"
  by unfold_locales (rule kubescape_proposal)

text \<open>Findings are ordered by falling risk, then by identifier.\<close>

interpretation collected_order: slice_order lessCollected
  by unfold_locales (auto simp: lessCollected_def split: if_splits)

lemma merged_findings:
  "distinct (map f_id (ad_findings (mergeResults rs))) \<and> set (ad_findings (mergeResults rs)) \<subseteq> (\<Union>r\<in>set rs. set (ar_findings r)) \<and>
   sorted_wrt (\<lambda>f g. \<not> lessCollected g f) (ad_findings (mergeResults rs))"
proof -
  let ?fs = "dedupeBy f_id [] (concat (map ar_findings rs))"
  have "mset (map f_id (sortSlice lessCollected ?fs)) = mset (map f_id ?fs)" by simp
  then have "distinct (map f_id (sortSlice lessCollected ?fs))"
    using dedupeBy_keys [of f_id "[]"] mset_eq_imp_distinct_iff by blast
  moreover have "set ?fs \<subseteq> (\<Union>r\<in>set rs. set (ar_findings r))" using dedupeBy_subset [of f_id "[]"] by fastforce
  ultimately show ?thesis using collected_order.ordered_sortSlice by (simp add: mergeResults_def)
qed

lemma run_three:
  "runAdapters (newManager api None) now w = (rs, w1) \<Longrightarrow>
     \<exists>wt wk ws. rs = [fst (collectTrivy api now wt), fst (collectKyverno api now wk), fst (collectKubescape api now ws)]"
  by (auto simp: newManager_def Let_def split: prod.splits) (metis fst_conv)+

text \<open>
  A collection from the scanners lists each finding identifier once, in falling order of risk, and
  every finding is an open proposal of one of the three scanners that only a human may fix, scored
  by its severity.
\<close>
theorem collected_proposals:
  assumes "isZero (ac_cachedAt (fst st)) \<or> cacheTTL \<le> now - ac_cachedAt (fst st)" "Collect (newManager api None) now st = (c, st1)"
  shows "distinct (map f_id (ad_findings c)) \<and> sorted_wrt (\<lambda>f g. \<not> lessCollected g f) (ad_findings c) \<and>
    (\<forall>f\<in>set (ad_findings c). scanner_proposal ''trivy'' f \<or> scanner_proposal ''kyverno'' f \<or> scanner_proposal ''kubescape'' f)"
proof -
  obtain rs w1 where run: "runAdapters (newManager api None) now (snd st) = (rs, w1)" by (metis prod.collapse)
  have c: "c = mergeResults rs" using assms run by (auto simp: Collect_def Let_def split: if_splits)
  from run_three [OF run] obtain wt wk ws where rs: "rs = [fst (collectTrivy api now wt), fst (collectKyverno api now wk), fst (collectKubescape api now ws)]"
    by blast
  have "scanner_proposal ''trivy'' f \<or> scanner_proposal ''kyverno'' f \<or> scanner_proposal ''kubescape'' f" if "f \<in> set (ad_findings c)" for f
  proof -
    from that merged_findings [of rs] obtain r where r: "r \<in> set rs" "f \<in> set (ar_findings r)" unfolding c by blast
    then consider "r = fst (collectTrivy api now wt)" | "r = fst (collectKyverno api now wk)" | "r = fst (collectKubescape api now ws)"
      unfolding rs by auto
    then show ?thesis
    proof cases
      case 1 with r(2) have "scanner_proposal ''trivy'' f" unfolding collectTrivy_def by (simp only: trivy.collected) then show ?thesis by blast
    next
      case 2 with r(2) have "scanner_proposal ''kyverno'' f" unfolding collectKyverno_def by (simp only: kyverno.collected) then show ?thesis by blast
    next
      case 3 with r(2) have "scanner_proposal ''kubescape'' f" unfolding collectKubescape_def by (simp only: kubescape.collected) then show ?thesis by blast
    qed
  qed
  with merged_findings [of rs] show ?thesis by (simp add: c)
qed

subsection \<open>Secrets\<close>

text \<open>Everything of a report that a finding about it may show, its secrets apart.\<close>

definition reportFacts :: "json \<Rightarrow> (string \<times> string \<times> string \<times> string \<times> string) \<times> gotime \<times> resource_ref" where
  "reportFacts ob = ((objKind ob, objAPIVersion ob, objNamespace ob, objName ob, objUID ob), objCreated ob, trivyResource ob)"

definition secretFacts :: "json \<Rightarrow> (string \<times> string) list" where
  "secretFacts ob = map (\<lambda>item. (field item ''ruleID'', field item ''title'')) (nestedSlice (Some ob) [''report'', ''secrets''])"

lemma newFinding_facts:
  "reportFacts ob = reportFacts ob' \<Longrightarrow> newFinding now source ob key title sev r details correlation = newFinding now source ob' key title sev r details correlation"
  by (simp add: reportFacts_def newFinding_def)

lemma secretFindings_facts:
  "reportFacts ob = reportFacts ob' \<Longrightarrow>
   map (\<lambda>item. (field item ''ruleID'', field item ''title'')) items = map (\<lambda>item. (field item ''ruleID'', field item ''title'')) items' \<Longrightarrow>
   secretFindings now ob r i items = secretFindings now ob' r i items'"
proof (induction items arbitrary: items' i)
  case (Cons item items)
  then obtain item' rest where "items' = item' # rest" by (cases items') auto
  with Cons newFinding_facts [OF Cons.prems(1)] show ?case by (auto simp: secretFinding_def Let_def)
qed simp

text \<open>
  Of a secret that Trivy found, only the rule and the title reach a finding: two secret reports on
  the same resource that agree in these, whatever else they contain, such as the matched text, are
  normalised to the same findings.
\<close>
theorem secret_not_copied:
  assumes "reportFacts ob = reportFacts ob'" "secretFacts ob = secretFacts ob'"
  shows "normalizeTrivySecrets now ob = normalizeTrivySecrets now ob'"
proof -
  have "trivyResource ob = trivyResource ob'" using assms(1) by (simp add: reportFacts_def)
  with secretFindings_facts [OF assms(1) assms(2) [unfolded secretFacts_def]] show ?thesis by (simp add: normalizeTrivySecrets_def)
qed

definition secretReport :: "string \<Rightarrow> json" where
  "secretReport matched =
     JObj [(''kind'', JStr ''ExposedSecretReport''), (''metadata'', JObj [(''namespace'', JStr ''shop''), (''name'', JStr ''web'')]),
       (''report'', JObj [(''secrets'', JArr [JObj [(''ruleID'', JStr ''aws''), (''title'', JStr ''AWS key''), (''match'', JStr matched)]])])]"

lemma secretReport_facts:
  "reportFacts (secretReport m) = reportFacts (secretReport m')" "secretFacts (secretReport m) = [(''aws'', ''AWS key'')]"
  by (simp_all add: reportFacts_def secretFacts_def secretReport_def objKind_def objAPIVersion_def objNamespace_def objName_def objUID_def
      objCreated_def trivyResource_def objLabels_def ownerResource_def objOwners_def nestedString_def nestedAt_def nestedSlice_def field_def Let_def)

lemma secret_not_copied_witness:
  "normalizeTrivySecrets 7 (secretReport ''AKIA1'') = normalizeTrivySecrets 7 (secretReport ''AKIA2'') \<and> secretReport ''AKIA1'' \<noteq> secretReport ''AKIA2''"
  using secret_not_copied [OF secretReport_facts(1) [of "''AKIA1''" "''AKIA2''"], of 7] by (simp add: secretReport_facts(2)) (simp add: secretReport_def)

definition oneReport :: "nat report_api" where
  "oneReport r n = ((if rp_resource r = ''exposedsecretreports'' then Inr [secretReport ''AKIA1''] else Inl ListNotFound), n + 1)"

lemma collected_proposals_witness:
  "\<exists>c st1. Collect (newManager oneReport None) 7 (\<lparr>ac_cached = \<lparr>ad_integrations = [], ad_health = [], ad_findings = []\<rparr>, ac_cachedAt = 0\<rparr>, 0) = (c, st1) \<and>
     distinct (map f_id (ad_findings c))"
  using collected_proposals [of "(\<lparr>ac_cached = \<lparr>ad_integrations = [], ad_health = [], ad_findings = []\<rparr>, ac_cachedAt = 0\<rparr>, 0)" 7 oneReport]
  by (auto simp: isZero_def) (metis prod.collapse)

subsection \<open>The cache\<close>

text \<open>
  A collection is served for less than 30 seconds: within them a further call answers the same
  without asking the cluster, later ones ask again; the answer of every call is then the cached one.
\<close>
theorem cache_bounded:
  assumes "Collect adapters now st = (c, st1)" "\<not> isZero now"
  shows "(0 \<le> later - ac_cachedAt (fst st1) \<and> later - ac_cachedAt (fst st1) < 30 * second \<longrightarrow> Collect adapters later st1 = (c, st1)) \<and>
    (30 * second \<le> later - ac_cachedAt (fst st1) \<longrightarrow>
      fst (Collect adapters later st1) = mergeResults (fst (runAdapters adapters later (snd st1))))"
proof -
  have cached: "ac_cached (fst st1) = c \<and> \<not> isZero (ac_cachedAt (fst st1))"
    using assms by (auto simp: Collect_def Let_def split: if_splits prod.splits)
  then show ?thesis by (auto simp: Collect_def cacheTTL_def Let_def split: prod.splits)
qed

lemma cache_bounded_witness:
  "\<exists>c st1. Collect [] minute (\<lparr>ac_cached = \<lparr>ad_integrations = [], ad_health = [], ad_findings = []\<rparr>, ac_cachedAt = 0\<rparr>, 0 :: nat) = (c, st1) \<and>
     Collect [] (minute + second) st1 = (c, st1)"
proof -
  obtain c st1 where first: "Collect [] minute (\<lparr>ac_cached = \<lparr>ad_integrations = [], ad_health = [], ad_findings = []\<rparr>, ac_cachedAt = 0\<rparr>, 0 :: nat) = (c, st1)"
    by (metis prod.collapse)
  then have "ac_cachedAt (fst st1) = minute" by (auto simp: Collect_def isZero_def Let_def)
  with cache_bounded [OF first, of "minute + second"] first show ?thesis
    by (auto simp: isZero_def minute_def second_def)
qed

subsection \<open>Identifiers\<close>

text \<open>
  The identifier of a vulnerability finding does not depend on the vulnerable package: two entries
  of one report with the same vulnerability, such as one CVE in two packages, get one identifier, and a
  collection keeps the first entry only, whatever the severity and the fixed version of the second.
\<close>
theorem vulnerabilities_collide:
  assumes "field item ''vulnerabilityID'' = field item' ''vulnerabilityID''"
  shows "f_id (vulnerabilityFinding now ob r imageText digest item) = f_id (vulnerabilityFinding now ob r imageText digest item') \<and>
    dedupeBy f_id [] [vulnerabilityFinding now ob r imageText digest item, vulnerabilityFinding now ob r imageText digest item'] =
      [vulnerabilityFinding now ob r imageText digest item]"
  using assms by (simp add: vulnerabilityFinding_def newFinding_def Let_def)

definition cveEntry :: "string \<Rightarrow> string \<Rightarrow> json" where
  "cveEntry package severity = JObj [(''vulnerabilityID'', JStr ''CVE-1''), (''resource'', JStr package), (''severity'', JStr severity)]"

definition webPod :: resource_ref where
  "webPod = policyResource (JObj [(''scope'', JObj [(''kind'', JStr ''Pod''), (''name'', JStr ''web'')])])"

lemma vulnerabilities_collide_witness:
  "dedupeBy f_id [] [vulnerabilityFinding 7 JNull webPod '''' '''' (cveEntry ''zlib'' ''LOW''), vulnerabilityFinding 7 JNull webPod '''' '''' (cveEntry ''openssl'' ''CRITICAL'')] =
     [vulnerabilityFinding 7 JNull webPod '''' '''' (cveEntry ''zlib'' ''LOW'')]"
  using vulnerabilities_collide [of "cveEntry ''zlib'' ''LOW''" "cveEntry ''openssl'' ''CRITICAL''" 7 JNull webPod "''''" "''''"]
  by (simp add: cveEntry_def field_def nestedString_def nestedAt_def)

definition policyEntry :: "string \<Rightarrow> json" where
  "policyEntry policy = JObj [(''policy'', JStr policy), (''rule'', JStr ''r''), (''result'', JStr ''fail'')]"

definition policyReport :: "json list \<Rightarrow> json" where
  "policyReport entries =
     JObj [(''kind'', JStr ''PolicyReport''), (''metadata'', JObj [(''uid'', JStr ''u'')]),
       (''scope'', JObj [(''kind'', JStr ''Pod''), (''name'', JStr ''web'')]), (''results'', JArr entries)]"

lemma policy_finding_id:
  "f_id (policyFinding now ob r i item) = ''finding-kyverno-'' @ stableID [''kyverno'', objUID ob @ ''|'' @
     (field item ''policy'' @ ''/'' @ field item ''rule'' @ ''/'' @ field item ''result'' @ ''/'' @ itoa (int i)) @ ''|'' @ resourceString r]"
  "f_title (policyFinding now ob r i item) = f_title (policyFinding now ob r j item)"
  "f_resources (policyFinding now ob r i item) = [r]"
  by (simp_all add: policyFinding_def newFinding_def Let_def)

lemma policy_report_entries:
  "normalizePolicyReport now (policyReport [policyEntry p, policyEntry q]) =
     [policyFinding now (policyReport [policyEntry p, policyEntry q]) (policyResource (policyReport [])) 0 (policyEntry p),
      policyFinding now (policyReport [policyEntry p, policyEntry q]) (policyResource (policyReport [])) 1 (policyEntry q)]"
  "normalizePolicyReport now (policyReport [policyEntry q]) =
     [policyFinding now (policyReport [policyEntry q]) (policyResource (policyReport [])) 0 (policyEntry q)]"
  by (simp_all add: normalizePolicyReport_def policyReport_def nestedSlice_def nestedAt_def isMap_def policyEntry_def field_def
      nestedString_def policyResource_def)

lemma policy_texts:
  "objUID (policyReport entries) = ''u''" "resourceString (policyResource (policyReport [])) = ''Pod/web''"
  "field (policyEntry p) ''policy'' = p" "field (policyEntry p) ''rule'' = ''r''" "field (policyEntry p) ''result'' = ''fail''"
  by (simp_all add: policyReport_def nestedAt_def isMap_def policyEntry_def field_def nestedString_def policyResource_def objUID_def
      resourceString_def)

lemma itoa_first: "itoa 0 = ''0''" "itoa 1 = ''1''"
  by code_simp+

text \<open>
  The identifier of a policy violation depends on its position in the report: when an earlier entry
  goes away, the identifier of the same violation of the same resource is the hash of another text, so
  that the exceptions and plans of the old identifier no longer apply to it.
\<close>
theorem policy_ids_shift:
  "\<exists>first second moved t t'. normalizePolicyReport now (policyReport [policyEntry p, policyEntry q]) = [first, second] \<and>
     normalizePolicyReport now (policyReport [policyEntry q]) = [moved] \<and>
     f_title moved = f_title second \<and> f_resources moved = f_resources second \<and>
     f_id second = ''finding-kyverno-'' @ stableID [''kyverno'', t] \<and> f_id moved = ''finding-kyverno-'' @ stableID [''kyverno'', t'] \<and>
     t = ''u|'' @ q @ ''/r/fail/1|Pod/web'' \<and> t' = ''u|'' @ q @ ''/r/fail/0|Pod/web'' \<and> t \<noteq> t'"
proof -
  have title: "f_title (policyFinding now a r 0 e) = f_title (policyFinding now b r 1 e)" for a b r e
    by (simp add: policyFinding_def newFinding_def Let_def)
  show ?thesis
    by (simp add: policy_report_entries policy_finding_id(1,3) policy_texts itoa_first title [unfolded One_nat_def])
qed

end
