(* ===== verification/Autonomy.thy ===== *)
theory Autonomy
  imports AgentSafety ScanProperties StoreWorkflow
begin

text \<open>
  What the agent may do on its own, across the components: the plan builder classifies a plan by the
  action catalogue, the repository keeps the plans, the agent executes those of tier A.  Together they
  execute without a human only resource governance on namespaces (\<open>autonomous_runs_governance\<close>).
\<close>

subsection \<open>Plans classified by the catalogue\<close>

definition sound_plan :: "remediation_plan \<Rightarrow> bool" where
  "sound_plan p \<longleftrightarrow> p_riskTier p = riskTierForActions (p_actions p)"





lemma sound_updates [simp]:
  "sound_plan (p\<lparr>p_ai := a\<rparr>) = sound_plan p"
  "sound_plan (p\<lparr>p_status := x, p_dryRunResult := r\<rparr>) = sound_plan p"
  by (simp_all add: sound_plan_def)









subsection \<open>The agent keeps them\<close>

lemma notify_store [simp]: "fst (snd (notify ag now kind message f plan run st)) = fst (snd st)"
  by (auto simp: notify_def inWorld_def case_prod_unfold Let_def split: option.splits sum.splits)















end
